(* ===== verification/Prelude.thy ===== *)
theory Prelude
  imports Main "HOL-Library.Product_Lexorder" "HOL-Library.List_Lexorder"
begin

text \<open>
  Shared vocabulary of the development: Python strings as lists of code points, results
  that may raise, timestamps, and the few SQL statements the storage layer uses
  (\<open>UPDATE .. WHERE\<close>, \<open>INSERT\<close> with a row id given by SQLite,
  \<open>SELECT .. ORDER BY .. LIMIT 1\<close>) as functions on lists of rows in insertion order.
  The collections \<open>sql\<close> and \<open>py\<close> carry the facts the component proofs use.
\<close>

named_theorems sql
named_theorems py

section \<open>Strings\<close>

text \<open>A Python string is a sequence of code points; \<open>u ''abc''\<close> writes an ASCII literal.\<close>

type_synonym pystr = "nat list"

definition u :: "string \<Rightarrow> pystr" where
  "u s = map of_char s"

lemma u_Nil [simp]: "u [] = []"
  by (simp add: u_def)

lemma u_Cons [simp]: "u (c # cs) = of_char c # u cs"
  by (simp add: u_def)

lemma u_append [simp]: "u (xs @ ys) = u xs @ u ys"
  by (simp add: u_def)

lemma length_u [simp]: "length (u s) = length s"
  by (simp add: u_def)

section \<open>Results that may raise\<close>

text \<open>\<open>Inl e\<close> is a raised exception, \<open>Inr x\<close> a returned value.\<close>

fun and_then :: "'e + 'a \<Rightarrow> ('a \<Rightarrow> 'e + 'b) \<Rightarrow> 'e + 'b" where
  "and_then (Inl e) f = Inl e"
| "and_then (Inr x) f = f x"

definition guard :: "bool \<Rightarrow> 'e \<Rightarrow> 'e + unit" where
  "guard ok e = (if ok then Inr () else Inl e)"

lemma and_then_Inr_iff [py]:
  "and_then r f = Inr y \<longleftrightarrow> (\<exists>x. r = Inr x \<and> f x = Inr y)"
  by (cases r) auto

lemma and_then_Inl_iff [py]:
  "and_then r f = Inl e \<longleftrightarrow> r = Inl e \<or> (\<exists>x. r = Inr x \<and> f x = Inl e)"
  by (cases r) auto

lemma guard_Inr_iff [py]: "guard ok e = Inr x \<longleftrightarrow> ok"
  by (simp add: guard_def)

lemma guard_Inl_iff [py]: "guard ok e = Inl e' \<longleftrightarrow> \<not> ok \<and> e' = e"
  by (auto simp: guard_def)

lemma guard_simps [simp]: "guard True e = Inr ()" "guard False e = Inl e"
  by (simp_all add: guard_def)

text \<open>\<open>collect\<close> evaluates a list of results from the left and stops at the first raise.\<close>

fun collect :: "('e + 'a) list \<Rightarrow> 'e + 'a list" where
  "collect [] = Inr []"
| "collect (r # rs) = and_then r (\<lambda>x. and_then (collect rs) (\<lambda>xs. Inr (x # xs)))"

lemma collect_map_Inr [simp]: "collect (map (\<lambda>x. Inr (f x)) xs) = Inr (map f xs)"
  by (induction xs) auto

section \<open>Timestamps\<close>

text \<open>
  All durations are whole microseconds, the resolution of \<open>timedelta\<close>. A \<open>datetime\<close> is
  its wall-clock reading in microseconds and, when it is timezone-aware, its UTC offset.
  A database column of type \<open>UTCDateTime\<close> holds the instant.
\<close>

type_synonym instant = int

record pydt =
  wall :: int
  utcoff :: "int option"

definition aware :: "pydt \<Rightarrow> bool" where
  "aware d \<longleftrightarrow> utcoff d \<noteq> None"

definition instant_of :: "pydt \<Rightarrow> instant" where
  "instant_of d = (case utcoff d of None \<Rightarrow> wall d | Some z \<Rightarrow> wall d - z)"

definition dt_add :: "pydt \<Rightarrow> int \<Rightarrow> pydt" where
  "dt_add d delta = d\<lparr>wall := wall d + delta\<rparr>"

definition utc_at :: "instant \<Rightarrow> pydt" where
  "utc_at t = \<lparr>wall = t, utcoff = Some 0\<rparr>"

definition second :: int where
  "second = 1000000"

definition minute :: int where
  "minute = 60 * second"

definition hour :: int where
  "hour = 60 * minute"

definition day_us :: int where
  "day_us = 24 * hour"

lemmas durations = second_def minute_def hour_def day_us_def

lemma instant_dt_add [simp]: "instant_of (dt_add d x) = instant_of d + x"
  by (auto simp: instant_of_def dt_add_def split: option.splits)

lemma aware_dt_add [simp]: "aware (dt_add d x) = aware d"
  by (simp add: aware_def dt_add_def)

lemma aware_utc_at [simp]: "aware (utc_at t)"
  by (simp add: aware_def utc_at_def)

lemma instant_utc_at [simp]: "instant_of (utc_at t) = t"
  by (simp add: instant_of_def utc_at_def)

section \<open>Tables\<close>

text \<open>\<open>UPDATE t SET .. WHERE ..\<close>\<close>

definition upd_where :: "('r \<Rightarrow> bool) \<Rightarrow> ('r \<Rightarrow> 'r) \<Rightarrow> 'r list \<Rightarrow> 'r list" where
  "upd_where P f rows = map (\<lambda>r. if P r then f r else r) rows"

text \<open>The row id SQLite gives a new row of an \<open>INTEGER PRIMARY KEY\<close> table.\<close>

definition next_id :: "('r \<Rightarrow> int) \<Rightarrow> 'r list \<Rightarrow> int" where
  "next_id rid rows = foldr (\<lambda>r m. max (rid r) m) rows 0 + 1"

text \<open>\<open>SELECT .. WHERE .. ORDER BY key LIMIT 1\<close>\<close>

definition first_by :: "('r \<Rightarrow> 'k::linorder) \<Rightarrow> ('r \<Rightarrow> bool) \<Rightarrow> 'r list \<Rightarrow> 'r option" where
  "first_by key P rows =
     (case sort_key key (filter P rows) of [] \<Rightarrow> None | r # _ \<Rightarrow> Some r)"

text \<open>\<open>rid\<close> is a primary key: row ids are positive and no two rows share one.\<close>

definition keyed :: "('r \<Rightarrow> int) \<Rightarrow> 'r list \<Rightarrow> bool" where
  "keyed rid rows \<longleftrightarrow> distinct (map rid rows) \<and> (\<forall>r \<in> set rows. 0 < rid r)"

lemma set_upd_where [sql]: "set (upd_where P f rows) = (\<lambda>r. if P r then f r else r) ` set rows"
  by (simp add: upd_where_def)

lemma length_upd_where [simp]: "length (upd_where P f rows) = length rows"
  by (simp add: upd_where_def)

lemma upd_where_none [sql]: "(\<And>r. r \<in> set rows \<Longrightarrow> \<not> P r) \<Longrightarrow> upd_where P f rows = rows"
  by (simp add: upd_where_def map_idI)

lemma map_upd_where [sql]:
  "(\<And>r. P r \<Longrightarrow> g (f r) = g r) \<Longrightarrow> map g (upd_where P f rows) = map g rows"
  by (simp add: upd_where_def)

lemma next_id_gt: "r \<in> set rows \<Longrightarrow> rid r < next_id rid rows"
  unfolding next_id_def by (induction rows) auto

lemma next_id_pos [simp]: "0 < next_id rid rows"
  unfolding next_id_def by (induction rows) auto

lemma next_id_fresh [simp]: "next_id rid rows \<notin> rid ` set rows"
proof
  assume "next_id rid rows \<in> rid ` set rows"
  then obtain r where "r \<in> set rows" and "next_id rid rows = rid r" by auto
  then show False using next_id_gt [of r rows rid] by simp
qed

lemma keyed_Nil [simp]: "keyed rid []"
  by (simp add: keyed_def)

lemma image_set_map: "map f xs = map f ys \<Longrightarrow> f ` set xs = f ` set ys"
  by (metis list.set_map)

lemma keyed_cong: "map rid xs = map rid ys \<Longrightarrow> keyed rid xs = keyed rid ys"
proof -
  assume eq: "map rid xs = map rid ys"
  have "keyed rid zs \<longleftrightarrow> distinct (map rid zs) \<and> (\<forall>i \<in> rid ` set zs. 0 < i)" for zs
    by (auto simp: keyed_def)
  from this [of xs] this [of ys] show ?thesis unfolding image_set_map [OF eq] eq by metis
qed

lemma keyed_insert [sql]:
  "keyed rid rows \<Longrightarrow> rid r = next_id rid rows \<Longrightarrow> keyed rid (rows @ [r])"
  using next_id_fresh [of rid rows] by (auto simp: keyed_def simp del: next_id_fresh)

lemma keyed_upd_where [sql]:
  assumes "keyed rid rows" and "\<And>r. P r \<Longrightarrow> rid (f r) = rid r"
  shows "keyed rid (upd_where P f rows)"
  using assms map_upd_where [of P rid f rows]
  by (auto simp: keyed_def set_upd_where)

lemma keyed_unique:
  "keyed rid rows \<Longrightarrow> r \<in> set rows \<Longrightarrow> r' \<in> set rows \<Longrightarrow> rid r = rid r' \<Longrightarrow> r = r'"
  by (auto simp: keyed_def distinct_map inj_on_def)

lemma find_cong_set: "(\<And>x. x \<in> set xs \<Longrightarrow> P x = Q x) \<Longrightarrow> List.find P xs = List.find Q xs"
  by (induction xs) auto

lemma find_Some_set: "List.find P xs = Some x \<Longrightarrow> x \<in> set xs \<and> P x"
  by (induction xs) (auto split: if_splits)

lemma find_None_set: "List.find P xs = None \<longleftrightarrow> (\<forall>x \<in> set xs. \<not> P x)"
  by (induction xs) auto

text \<open>Positions with distinct images under a filter are equal when their images are.\<close>

lemma distinct_filter_nth:
  "distinct (map f (filter P xs)) \<Longrightarrow> i < length xs \<Longrightarrow> j < length xs \<Longrightarrow> P (xs ! i) \<Longrightarrow> P (xs ! j) \<Longrightarrow>
     f (xs ! i) = f (xs ! j) \<Longrightarrow> i = j"
proof (induction xs arbitrary: i j)
  case (Cons x xs)
  have tail: "f x \<noteq> f (xs ! k)" if "P x" "k < length xs" "P (xs ! k)" for k
    using Cons.prems(1) that nth_mem [of k xs] by auto
  have "distinct (map f (filter P xs))" using Cons.prems(1) by (auto split: if_splits)
  then show ?case using Cons tail by (cases i; cases j) fastforce+
qed simp

lemma find_append: "List.find P (xs @ ys) =
    (case List.find P xs of None \<Rightarrow> List.find P ys | Some x \<Rightarrow> Some x)"
  by (induction xs) auto

definition row_at :: "('r \<Rightarrow> int) \<Rightarrow> int \<Rightarrow> 'r list \<Rightarrow> 'r option" where
  "row_at rid i rows = List.find (\<lambda>r. rid r = i) rows"

lemma row_at_Some: "row_at rid i rows = Some r \<Longrightarrow> r \<in> set rows \<and> rid r = i"
  by (auto simp: row_at_def dest: find_Some_set)

lemma row_at_None: "row_at rid i rows = None \<longleftrightarrow> i \<notin> rid ` set rows"
  by (auto simp: row_at_def find_None_set)

lemma row_at_in:
  assumes "keyed rid rows" and "r \<in> set rows"
  shows "row_at rid (rid r) rows = Some r"
proof (cases "row_at rid (rid r) rows")
  case None
  with assms(2) show ?thesis by (auto simp: row_at_None)
next
  case (Some r')
  then have "r' \<in> set rows" "rid r' = rid r" by (auto dest: row_at_Some)
  with assms have "r' = r" by (auto dest: keyed_unique)
  with Some show ?thesis by simp
qed

lemma row_at_upd_where [sql]:
  assumes "\<And>r. P r \<Longrightarrow> rid (f r) = rid r"
  shows "row_at rid i (upd_where P f rows) =
     map_option (\<lambda>r. if P r then f r else r) (row_at rid i rows)"
  using assms by (induction rows) (auto simp: row_at_def upd_where_def)

lemma row_at_snoc [sql]:
  "row_at rid i (rows @ [r]) =
     (case row_at rid i rows of Some r' \<Rightarrow> Some r' | None \<Rightarrow> if rid r = i then Some r else None)"
  by (auto simp: row_at_def find_append split: option.splits)

lemma first_by_Some:
  assumes "first_by key P rows = Some r"
  shows "r \<in> set rows" "P r" "\<And>r'. r' \<in> set rows \<Longrightarrow> P r' \<Longrightarrow> key r \<le> key r'"
proof -
  from assms obtain rs where s: "sort_key key (filter P rows) = r # rs"
    by (auto simp: first_by_def split: list.splits)
  then have mem: "set (r # rs) = {x \<in> set rows. P x}"
    by (metis set_filter set_sort)
  then show "r \<in> set rows" "P r" by auto
  have "sorted (map key (r # rs))"
    using sorted_sort_key [of key "filter P rows"] s by simp
  then show "\<And>r'. r' \<in> set rows \<Longrightarrow> P r' \<Longrightarrow> key r \<le> key r'"
    using mem by auto
qed

lemma first_by_None: "first_by key P rows = None \<longleftrightarrow> (\<forall>r \<in> set rows. \<not> P r)"
proof -
  have "sort_key key (filter P rows) = [] \<longleftrightarrow> filter P rows = []"
    by (metis length_0_conv length_sort)
  then show ?thesis
    by (auto simp: first_by_def filter_empty_conv split: list.splits)
qed

lemma find_upd_where_map:
  assumes "\<And>r. P (f r) = P r"
  shows "List.find P (upd_where Q f rows) = map_option (\<lambda>r. if Q r then f r else r) (List.find P rows)"
  using assms by (induction rows) (auto simp: upd_where_def)

lemma first_by_filter: "filter P rows = filter Q rows' \<Longrightarrow> first_by key P rows = first_by key Q rows'"
  by (simp add: first_by_def)

lemma filter_upd_where_same:
  assumes "\<And>r. r \<in> set rows \<Longrightarrow> Q r \<Longrightarrow> \<not> P r \<and> \<not> P (f r)"
  shows "filter P (upd_where Q f rows) = filter P rows"
  using assms by (induction rows) (auto simp: upd_where_def)

end
