(* ===== verification/QueueCommon.thy ===== *)
theory QueueCommon
  imports Unicode
begin

text \<open>
  What the two durable queues of \<open>jobs/queue.py\<close> share: admission checks, the retry
  back-off, the enqueue result, and the contract of a leased queue. The contract is a
  locale over an abstract view of one row (attempts made, attempts allowed, phase) and a
  labelled step relation; it is interpreted on the job table and on the outbox table.
\<close>

section \<open>Constants, errors and argument checks\<close>

definition MIN_LEASE :: int where
  "MIN_LEASE = 1 * second"

definition MAX_LEASE :: int where
  "MAX_LEASE = 1 * hour"

definition MAX_ATTEMPTS :: int where
  "MAX_ATTEMPTS = 100"

definition MAX_RETRY_DELAY :: int where
  "MAX_RETRY_DELAY = 24 * hour"

datatype queue_error =
    BadWorkerId
  | BadKind
  | BadIdempotencyKey
  | BadMaxAttempts
  | BadRetryPolicy
  | BadLease
  | NaiveTimestamp
  | NaiveColumn
  | IdempotencyConflictError

record enqueue_result =
  er_id :: int
  er_created :: bool

definition aware_time :: "pydt \<Rightarrow> queue_error + pydt" where
  "aware_time value = (if aware value then Inr value else Inl NaiveTimestamp)"

text \<open>Binding a \<open>datetime\<close> to a \<open>UTCDateTime\<close> column: aware values are stored as instants.\<close>

definition column_time :: "pydt \<Rightarrow> queue_error + instant" where
  "column_time value = (if aware value then Inr (instant_of value) else Inl NaiveColumn)"

definition validate_worker_id :: "pystr \<Rightarrow> queue_error + unit" where
  "validate_worker_id worker_id =
     guard (worker_id \<noteq> [] \<and> length worker_id \<le> 128) BadWorkerId"

definition validate_enqueue :: "pystr \<Rightarrow> pystr \<Rightarrow> int \<Rightarrow> queue_error + unit" where
  "validate_enqueue kind key max_attempts =
     and_then (guard (kind \<noteq> [] \<and> length kind \<le> 100) BadKind) (\<lambda>_.
     and_then (guard (key \<noteq> [] \<and> length key \<le> 255) BadIdempotencyKey) (\<lambda>_.
     guard (1 \<le> max_attempts \<and> max_attempts \<le> MAX_ATTEMPTS) BadMaxAttempts))"

definition validate_retry_policy :: "int \<Rightarrow> int \<Rightarrow> queue_error + unit" where
  "validate_retry_policy base cap =
     guard (\<not> (base \<le> 0 \<or> cap < base \<or> cap > MAX_RETRY_DELAY)) BadRetryPolicy"

definition validate_lease :: "int \<Rightarrow> queue_error + unit" where
  "validate_lease lease = guard (MIN_LEASE \<le> lease \<and> lease \<le> MAX_LEASE) BadLease"

text \<open>
  Delays are exact in microseconds: the float seconds of the source carry a relative error
  below \<open>2^-52\<close>, which \<open>timedelta\<close> rounds away for every delay up to 24 hours.
\<close>

definition retry_delay :: "int \<Rightarrow> int \<Rightarrow> int \<Rightarrow> int" where
  "retry_delay attempt base cap =
     (let exponent = nat (min (max (attempt - 1) 0) 30) in min (base * 2 ^ exponent) cap)"

definition safe_error_code :: "pystr \<Rightarrow> pystr" where
  "safe_error_code name =
     (let safe = filter (\<lambda>c. is_alnum c \<or> c = 95) name
      in take 100 (if safe = [] then u ''HandlerError'' else safe))"

lemma validate_lease_pos [py]: "validate_lease lease = Inr x \<Longrightarrow> 0 < lease"
  by (auto simp: validate_lease_def guard_Inr_iff MIN_LEASE_def durations)

lemma validate_enqueue_Inr [py]:
  "validate_enqueue kind key m = Inr x \<longleftrightarrow>
     kind \<noteq> [] \<and> length kind \<le> 100 \<and> key \<noteq> [] \<and> length key \<le> 255 \<and> 1 \<le> m \<and> m \<le> MAX_ATTEMPTS"
  by (auto simp: validate_enqueue_def py)

lemma aware_time_Inr [py]: "aware_time d = Inr d' \<longleftrightarrow> d' = d \<and> aware d"
  by (auto simp: aware_time_def)

lemma column_time_Inr [py]: "column_time d = Inr t \<longleftrightarrow> t = instant_of d \<and> aware d"
  by (auto simp: column_time_def)

lemma safe_error_code_safe:
  "safe_error_code name \<noteq> [] \<and> length (safe_error_code name) \<le> 100 \<and>
   list_all is_word (safe_error_code name)"
  by (auto simp: safe_error_code_def Let_def is_word_def list_all_iff is_alnum_def
      dest: in_set_takeD)

lemma retry_delay_ge:
  assumes "validate_retry_policy base cap = Inr x"
  shows "base \<le> retry_delay attempt base cap"
proof -
  have "0 < base" "base \<le> cap"
    using assms by (auto simp: validate_retry_policy_def py)
  moreover have "base * 1 \<le> base * 2 ^ nat (min (max (attempt - 1) 0) 30)"
    using \<open>0 < base\<close> by (intro mult_left_mono) auto
  ultimately show ?thesis by (simp add: retry_delay_def)
qed

lemma retry_delay_le: "retry_delay attempt base cap \<le> cap"
  by (simp add: retry_delay_def)

lemma retry_delay_mono:
  assumes "0 \<le> base" and "a \<le> b"
  shows "retry_delay a base cap \<le> retry_delay b base cap"
proof -
  have "nat (min (max (a - 1) 0) 30) \<le> nat (min (max (b - 1) 0) 30)"
    using assms(2) by (intro nat_mono) auto
  then have "(2::int) ^ nat (min (max (a - 1) 0) 30) \<le> 2 ^ nat (min (max (b - 1) 0) 30)"
    by (rule power_increasing) simp
  then have "base * 2 ^ nat (min (max (a - 1) 0) 30) \<le> base * 2 ^ nat (min (max (b - 1) 0) 30)"
    using assms(1) by (rule mult_left_mono)
  then show ?thesis by (auto simp: retry_delay_def Let_def min_def)
qed

section \<open>The contract of a leased queue\<close>

datatype phase = Ready | Leased | Finished

record lview =
  tries :: int
  limit :: int
  phase :: phase

text \<open>
  What one committed transaction announces: nothing, that attempt \<open>a\<close> of row \<open>i\<close> was
  handed out, or that the holder of attempt \<open>a\<close> of row \<open>i\<close> was told its outcome counts.
\<close>

datatype qlabel = Quiet | Issue int int | Settle int int

fun about :: "qlabel \<Rightarrow> int \<Rightarrow> bool" where
  "about Quiet i = False"
| "about (Issue j a) i = (j = i)"
| "about (Settle j a) i = (j = i)"

text \<open>How one row may move under one transaction.\<close>

inductive lmove :: "qlabel \<Rightarrow> int \<Rightarrow> lview option \<Rightarrow> lview option \<Rightarrow> bool" where
  stay: "\<not> about l i \<Longrightarrow> lmove l i v v"
| born: "\<not> about l i \<Longrightarrow> 0 < m \<Longrightarrow>
    lmove l i None (Some \<lparr>tries = 0, limit = m, phase = Ready\<rparr>)"
| expire: "\<not> about l i \<Longrightarrow> phase v = Leased \<Longrightarrow> limit v \<le> tries v \<Longrightarrow>
    lmove l i (Some v) (Some (v\<lparr>phase := Finished\<rparr>))"
| issue: "phase v \<noteq> Finished \<Longrightarrow> tries v < limit v \<Longrightarrow>
    lmove (Issue i (tries v + 1)) i (Some v)
      (Some (v\<lparr>tries := tries v + 1, phase := Leased\<rparr>))"
| retry: "phase v = Leased \<Longrightarrow> tries v < limit v \<Longrightarrow>
    lmove (Settle i (tries v)) i (Some v) (Some (v\<lparr>phase := Ready\<rparr>))"
| settle: "phase v = Leased \<Longrightarrow>
    lmove (Settle i (tries v)) i (Some v) (Some (v\<lparr>phase := Finished\<rparr>))"

inductive_cases lmove_Issue: "lmove (Issue i a) i v v'"
inductive_cases lmove_Settle: "lmove (Settle i a) i v v'"
inductive_cases lmove_from_Some: "lmove l i (Some v) v'"

text \<open>Well-formed rows: never over the limit, and a row that waits has an attempt left.\<close>

definition row_ok :: "lview \<Rightarrow> bool" where
  "row_ok v \<longleftrightarrow> 0 \<le> tries v \<and> tries v \<le> limit v \<and> (phase v = Ready \<longrightarrow> tries v < limit v)"

lemma lmove_ok:
  "lmove l i v v' \<Longrightarrow> (\<And>w. v = Some w \<Longrightarrow> row_ok w) \<Longrightarrow> v' = Some w' \<Longrightarrow> row_ok w'"
  by (induction rule: lmove.induct) (auto simp: row_ok_def)

lemma lmove_grows:
  "lmove l i (Some v) v' \<Longrightarrow>
     \<exists>w. v' = Some w \<and> tries v \<le> tries w \<and> limit w = limit v \<and>
         (phase v = Finished \<longrightarrow> w = v)"
  by (auto elim!: lmove_from_Some)

text \<open>
  A row never forgets an attempt: \<open>reached i a\<close> says attempt \<open>a\<close> of row \<open>i\<close> was issued
  or passed, \<open>spent i a\<close> that it cannot be settled any more.
\<close>

definition reached :: "int \<Rightarrow> lview option \<Rightarrow> bool" where
  "reached a v = (case v of None \<Rightarrow> False | Some w \<Rightarrow> a \<le> tries w)"

definition spent :: "int \<Rightarrow> lview option \<Rightarrow> bool" where
  "spent a v = (case v of None \<Rightarrow> False
     | Some w \<Rightarrow> a < tries w \<or> (a = tries w \<and> phase w \<noteq> Leased))"

lemma reached_lmove: "reached a v \<Longrightarrow> lmove l i v v' \<Longrightarrow> reached a v'"
  by (cases v) (auto simp: reached_def elim: lmove_from_Some)

lemma spent_lmove: "spent a v \<Longrightarrow> lmove l i v v' \<Longrightarrow> spent a v'"
  by (cases v) (auto simp: spent_def elim!: lmove_from_Some)

lemma issue_not_reached: "lmove (Issue i a) i v v' \<Longrightarrow> \<not> reached a v \<and> reached a v'"
  by (auto simp: reached_def elim!: lmove_Issue)

lemma settle_not_spent: "lmove (Settle i a) i v v' \<Longrightarrow> \<not> spent a v \<and> spent a v'"
  by (auto simp: spent_def elim!: lmove_Settle)

text \<open>One \<open>UPDATE\<close> moves every row as the contract allows when each row it touches does.\<close>

lemma lmove_upd_where:
  assumes "keyed rid rows" and id: "\<And>r. P r \<Longrightarrow> rid (f r) = rid r"
    and touched: "\<And>r. r \<in> set rows \<Longrightarrow> P r \<Longrightarrow> lmove l (rid r) (Some (lv r)) (Some (lv (f r)))"
    and others: "\<And>r. r \<in> set rows \<Longrightarrow> \<not> P r \<Longrightarrow> \<not> about l (rid r)"
    and named: "\<And>j. about l j \<Longrightarrow> j \<in> rid ` set rows"
  shows "lmove l i (map_option lv (row_at rid i rows))
    (map_option lv (row_at rid i (upd_where P f rows)))"
proof (cases "row_at rid i rows")
  case None
  then have "\<not> about l i" using named by (auto simp: row_at_None)
  with None id show ?thesis by (simp add: row_at_upd_where lmove.stay)
next
  case (Some r)
  then have r: "r \<in> set rows" "rid r = i" by (auto dest: row_at_Some)
  with Some touched [OF r(1)] others [OF r(1)] id show ?thesis
    by (auto simp: row_at_upd_where intro: lmove.stay)
qed

text \<open>How often a row was handed out, read from a trace and from its view.\<close>

definition issues :: "int \<Rightarrow> qlabel list \<Rightarrow> nat" where
  "issues i ls = length (filter (\<lambda>l. case l of Issue j a \<Rightarrow> j = i | _ \<Rightarrow> False) ls)"

definition made :: "lview option \<Rightarrow> int" where
  "made v = (case v of None \<Rightarrow> 0 | Some w \<Rightarrow> tries w)"

lemma lmove_made: "lmove l i v v' \<Longrightarrow> made v' = made v + int (issues i [l])"
  by (induction rule: lmove.induct) (auto simp: made_def issues_def split: qlabel.splits)

lemma announced_count:
  assumes "distinct (filter (\<lambda>l. l \<noteq> Quiet) ls)" and "x \<noteq> Quiet"
  shows "count_list ls x \<le> 1"
proof -
  have "count_list (filter (\<lambda>l. l \<noteq> Quiet) ls) x = count_list ls x"
    using assms(2) by (induction ls) auto
  moreover have "count_list xs x \<le> 1" if "distinct xs" for xs :: "qlabel list"
    using that by (induction xs) (auto simp: count_list_0_iff)
  ultimately show ?thesis using assms(1) by metis
qed

locale leased_queue =
  fixes view :: "'s \<Rightarrow> int \<Rightarrow> lview option"
    and ok :: "'s \<Rightarrow> bool"
    and step :: "'s \<Rightarrow> qlabel \<Rightarrow> 's \<Rightarrow> bool"
  assumes step_ok: "ok s \<Longrightarrow> step s l s' \<Longrightarrow> ok s'"
    and step_lmove: "ok s \<Longrightarrow> step s l s' \<Longrightarrow> lmove l i (view s i) (view s' i)"
    and view_ok: "ok s \<Longrightarrow> view s i = Some v \<Longrightarrow> row_ok v"
begin

inductive run :: "'s \<Rightarrow> qlabel list \<Rightarrow> 's \<Rightarrow> bool" where
  run_Nil: "run s [] s"
| run_Cons: "step s l s' \<Longrightarrow> run s' ls s'' \<Longrightarrow> run s (l # ls) s''"

lemma run_preserves_ok: "run s ls s' \<Longrightarrow> ok s \<Longrightarrow> ok s'"
  by (induction rule: run.induct) (auto intro: step_ok)

lemma run_bounded: "run s ls s' \<Longrightarrow> ok s \<Longrightarrow> view s' i = Some v \<Longrightarrow> row_ok v"
  using run_preserves_ok view_ok by blast

lemma run_grows:
  assumes "run s ls s'" and "ok s" and "view s i = Some v"
  shows "\<exists>w. view s' i = Some w \<and> tries v \<le> tries w \<and> limit w = limit v \<and>
      (phase v = Finished \<longrightarrow> w = v)"
  using assms
proof (induction arbitrary: v)
  case (run_Cons s l s' ls s'')
  then obtain w where "view s' i = Some w" "tries v \<le> tries w" "limit w = limit v"
      "phase v = Finished \<longrightarrow> w = v"
    using lmove_grows [of l i v "view s' i"] step_lmove [of s l s' i] by auto
  then show ?case
    using run_Cons.IH [of w] step_ok run_Cons by auto
qed auto

lemma run_reached: "run s ls s' \<Longrightarrow> ok s \<Longrightarrow> reached a (view s i) \<Longrightarrow> Issue i a \<notin> set ls"
proof (induction rule: run.induct)
  case (run_Cons s l s' ls s'')
  have move: "lmove l i (view s i) (view s' i)"
    using step_lmove run_Cons by blast
  then have "reached a (view s' i)"
    using run_Cons.prems(2) by (rule reached_lmove [rotated])
  moreover have "l \<noteq> Issue i a"
    using move issue_not_reached run_Cons.prems(2) by auto
  ultimately show ?case using run_Cons step_ok by auto
qed simp

lemma run_spent: "run s ls s' \<Longrightarrow> ok s \<Longrightarrow> spent a (view s i) \<Longrightarrow> Settle i a \<notin> set ls"
proof (induction rule: run.induct)
  case (run_Cons s l s' ls s'')
  have move: "lmove l i (view s i) (view s' i)"
    using step_lmove run_Cons by blast
  then have "spent a (view s' i)"
    using run_Cons.prems(2) by (rule spent_lmove [rotated])
  moreover have "l \<noteq> Settle i a"
    using move settle_not_spent run_Cons.prems(2) by auto
  ultimately show ?case using run_Cons step_ok by auto
qed simp

text \<open>No attempt is handed out twice, and no attempt is settled twice.\<close>

lemma announced_once: "run s ls s' \<Longrightarrow> ok s \<Longrightarrow> distinct (filter (\<lambda>l. l \<noteq> Quiet) ls)"
proof (induction rule: run.induct)
  case (run_Cons s l s' ls s'')
  have move: "lmove l i (view s i) (view s' i)" for i
    using step_lmove run_Cons by blast
  have ok': "ok s'" using step_ok run_Cons by blast
  have "l \<notin> set ls" if "l \<noteq> Quiet"
  proof (cases l)
    case (Issue i a)
    then show ?thesis
      using move [of i] issue_not_reached run_reached [OF run_Cons.hyps(2) ok'] by auto
  next
    case (Settle i a)
    then show ?thesis
      using move [of i] settle_not_spent run_spent [OF run_Cons.hyps(2) ok'] by auto
  qed (use that in simp)
  then show ?case using run_Cons.IH ok' by auto
qed simp

lemma run_issues: "run s ls s' \<Longrightarrow> ok s \<Longrightarrow> made (view s' i) = made (view s i) + int (issues i ls)"
proof (induction rule: run.induct)
  case (run_Cons s l s' ls s'')
  have "made (view s' i) = made (view s i) + int (issues i [l])"
    using step_lmove run_Cons by (blast intro: lmove_made)
  moreover have "issues i (l # ls) = issues i [l] + issues i ls" by (simp add: issues_def)
  ultimately show ?case using run_Cons step_ok by simp
qed (simp add: issues_def)

lemma run_append: "run s ls s' \<Longrightarrow> run s' ls' s'' \<Longrightarrow> run s (ls @ ls') s''"
  by (induction rule: run.induct) (auto intro: run.intros)

text \<open>Once a later attempt is out, an earlier holder cannot settle any more.\<close>

lemma issue_fences:
  assumes "ok s" "step s (Issue i b) s'" "run s' ls s''" "a < b"
  shows "Settle i a \<notin> set ls"
proof -
  have "lmove (Issue i b) i (view s i) (view s' i)" using assms step_lmove by blast
  then have "spent a (view s' i)" using assms(4) by (auto simp: spent_def elim!: lmove_Issue)
  then show ?thesis using run_spent assms step_ok by blast
qed

end

end
