(* ===== verification/JobQueue.thy ===== *)
theory JobQueue
  imports QueueCommon
begin

text \<open>
  \<open>jobs/queue.py\<close>, class \<open>JobQueue\<close>: the job table (\<open>storage/models.py\<close>, class \<open>Job\<close>)
  as a list of rows and every operation as one committed transaction on it. The clock is
  an argument: \<open>clk k\<close> is the reading at the \<open>k\<close>-th call site of the operation. Payloads
  are a type parameter, compared with the equality of Python dictionaries.
\<close>

section \<open>Rows and claims\<close>

datatype job_status = JPending | JRunning | JSucceeded | JFailed | JCancelled

record 'p job =
  job_id :: int
  j_kind :: pystr
  j_key :: pystr
  j_payload :: 'p
  j_status :: job_status
  j_run_at :: instant
  j_attempts :: int
  j_max_attempts :: int
  locked_at :: "instant option"
  locked_until :: "instant option"
  locked_by :: "pystr option"
  j_last_error :: "pystr option"
  j_created_at :: instant
  j_updated_at :: instant
  completed_at :: "instant option"

record 'p job_claim =
  jc_id :: int
  jc_kind :: pystr
  jc_key :: pystr
  jc_payload :: 'p
  jc_attempt :: int
  jc_max_attempts :: int
  jc_leased_until :: pydt

record job_queue =
  jq_worker_id :: pystr
  jq_retry_base :: int
  jq_retry_cap :: int

definition new_job_queue :: "pystr \<Rightarrow> int \<Rightarrow> int \<Rightarrow> queue_error + job_queue" where
  "new_job_queue worker_id retry_base retry_cap =
     and_then (validate_worker_id worker_id) (\<lambda>_.
     and_then (validate_retry_policy retry_base retry_cap) (\<lambda>_.
     Inr \<lparr>jq_worker_id = worker_id, jq_retry_base = retry_base, jq_retry_cap = retry_cap\<rparr>))"

section \<open>Operations\<close>

definition fresh_job ::
  "'p job list \<Rightarrow> pystr \<Rightarrow> pystr \<Rightarrow> 'p \<Rightarrow> instant \<Rightarrow> int \<Rightarrow> instant \<Rightarrow> instant \<Rightarrow> 'p job" where
  "fresh_job jobs kind key payload run_at max_attempts created updated =
     \<lparr>job_id = next_id job_id jobs, j_kind = kind, j_key = key, j_payload = payload,
      j_status = JPending, j_run_at = run_at, j_attempts = 0, j_max_attempts = max_attempts,
      locked_at = None, locked_until = None, locked_by = None, j_last_error = None,
      j_created_at = created, j_updated_at = updated, completed_at = None\<rparr>"

text \<open>
  \<open>enqueue\<close>: the \<open>INSERT .. ON CONFLICT DO NOTHING\<close> on the unique key, then the check of
  the existing row. The source's test that the existing row is there cannot fail inside
  one transaction.
\<close>

definition enqueue_job ::
  "(nat \<Rightarrow> pydt) \<Rightarrow> pystr \<Rightarrow> pystr \<Rightarrow> 'p \<Rightarrow> pydt option \<Rightarrow> int \<Rightarrow> bool \<Rightarrow> 'p job list
     \<Rightarrow> queue_error + ('p job list \<times> enqueue_result)" where
  "enqueue_job clk kind key payload run_at max_attempts extend_existing jobs =
     and_then (validate_enqueue kind key max_attempts) (\<lambda>_.
     and_then (aware_time (case run_at of Some t \<Rightarrow> t | None \<Rightarrow> clk 0)) (\<lambda>timestamp.
     and_then (column_time (clk 1)) (\<lambda>created.
     and_then (column_time (clk 2)) (\<lambda>updated.
     (case List.find (\<lambda>r. j_key r = key) jobs of
        None \<Rightarrow>
          Inr (jobs @ [fresh_job jobs kind key payload (instant_of timestamp) max_attempts
                         created updated],
               \<lparr>er_id = next_id job_id jobs, er_created = True\<rparr>)
      | Some existing \<Rightarrow>
          if j_kind existing \<noteq> kind \<or> j_payload existing \<noteq> payload
          then Inl IdempotencyConflictError
          else if extend_existing \<and> j_status existing = JPending
                  \<and> j_run_at existing < instant_of timestamp
          then and_then (column_time (clk 3)) (\<lambda>touched.
            Inr (upd_where (\<lambda>r. job_id r = job_id existing)
                   (\<lambda>r. r\<lparr>j_run_at := instant_of timestamp, j_updated_at := touched\<rparr>) jobs,
                 \<lparr>er_id = job_id existing, er_created = False\<rparr>))
          else Inr (jobs, \<lparr>er_id = job_id existing, er_created = False\<rparr>))))))"

definition in_kinds :: "pystr list option \<Rightarrow> 'p job \<Rightarrow> bool" where
  "in_kinds kinds r \<longleftrightarrow> (case kinds of None \<Rightarrow> True | Some ks \<Rightarrow> j_kind r \<in> set ks)"

definition lease_expired :: "instant \<Rightarrow> 'p job \<Rightarrow> bool" where
  "lease_expired now r \<longleftrightarrow> (case locked_until r of None \<Rightarrow> True | Some t \<Rightarrow> t \<le> now)"

definition fail_exhausted_jobs :: "instant \<Rightarrow> pystr list option \<Rightarrow> 'p job list \<Rightarrow> 'p job list" where
  "fail_exhausted_jobs now kinds =
     upd_where (\<lambda>r. j_status r = JRunning \<and> lease_expired now r
                  \<and> j_max_attempts r \<le> j_attempts r \<and> in_kinds kinds r)
       (\<lambda>r. r\<lparr>j_status := JFailed, completed_at := Some now, j_updated_at := now,
              locked_at := None, locked_until := None, locked_by := None,
              j_last_error := Some (u ''LeaseExpired'')\<rparr>)"

definition job_eligible :: "instant \<Rightarrow> pystr list option \<Rightarrow> 'p job \<Rightarrow> bool" where
  "job_eligible now kinds r \<longleftrightarrow>
     j_attempts r < j_max_attempts r \<and> in_kinds kinds r \<and>
     ((j_status r = JPending \<and> j_run_at r \<le> now) \<or> (j_status r = JRunning \<and> lease_expired now r))"

definition job_order :: "'p job \<Rightarrow> nat \<times> int \<times> int" where
  "job_order r = (if j_status r = JPending then 0 else 1, j_run_at r, job_id r)"

definition lease_job :: "pystr \<Rightarrow> instant \<Rightarrow> instant \<Rightarrow> 'p job \<Rightarrow> 'p job" where
  "lease_job worker now leased_until r =
     r\<lparr>j_status := JRunning, j_attempts := j_attempts r + 1, locked_at := Some now,
       locked_until := Some leased_until, locked_by := Some worker, j_updated_at := now,
       j_last_error := None\<rparr>"

definition claim_of_job :: "pydt \<Rightarrow> 'p job \<Rightarrow> 'p job_claim" where
  "claim_of_job leased_until r =
     \<lparr>jc_id = job_id r, jc_kind = j_kind r, jc_key = j_key r, jc_payload = j_payload r,
      jc_attempt = j_attempts r, jc_max_attempts = j_max_attempts r,
      jc_leased_until = leased_until\<rparr>"

definition claim_due_job ::
  "job_queue \<Rightarrow> pydt \<Rightarrow> int \<Rightarrow> pystr list option \<Rightarrow> 'p job list
     \<Rightarrow> queue_error + ('p job list \<times> 'p job_claim option)" where
  "claim_due_job q clock lease kinds jobs =
     and_then (validate_lease lease) (\<lambda>_.
     and_then (aware_time clock) (\<lambda>now_dt.
     let now = instant_of now_dt; leased_until = dt_add now_dt lease;
         swept = fail_exhausted_jobs now kinds jobs
     in case first_by job_order (job_eligible now kinds) swept of
          None \<Rightarrow> Inr (swept, None)
        | Some candidate \<Rightarrow>
            let taken = lease_job (jq_worker_id q) now (instant_of leased_until)
            in Inr (upd_where (\<lambda>r. job_id r = job_id candidate \<and> job_eligible now kinds r)
                      taken swept,
                    Some (claim_of_job leased_until (taken candidate)))))"

definition held_by :: "job_queue \<Rightarrow> 'p job_claim \<Rightarrow> 'p job \<Rightarrow> bool" where
  "held_by q claim r \<longleftrightarrow> job_id r = jc_id claim \<and> j_status r = JRunning
     \<and> j_attempts r = jc_attempt claim \<and> locked_by r = Some (jq_worker_id q)"

definition succeed_job ::
  "job_queue \<Rightarrow> pydt \<Rightarrow> 'p job_claim \<Rightarrow> 'p job list \<Rightarrow> queue_error + ('p job list \<times> bool)" where
  "succeed_job q clock claim jobs =
     and_then (aware_time clock) (\<lambda>now_dt.
     let now = instant_of now_dt
     in Inr (upd_where (held_by q claim)
               (\<lambda>r. r\<lparr>j_status := JSucceeded, completed_at := Some now, j_updated_at := now,
                      locked_at := None, locked_until := None, locked_by := None,
                      j_last_error := None\<rparr>) jobs,
             list_ex (held_by q claim) jobs))"

definition fail_job ::
  "job_queue \<Rightarrow> pydt \<Rightarrow> 'p job_claim \<Rightarrow> pystr \<Rightarrow> 'p job list \<Rightarrow> queue_error + ('p job list \<times> bool)" where
  "fail_job q clock claim error jobs =
     and_then (aware_time clock) (\<lambda>now_dt.
     let now = instant_of now_dt;
         terminal = jc_max_attempts claim \<le> jc_attempt claim;
         delay = retry_delay (jc_attempt claim) (jq_retry_base q) (jq_retry_cap q)
     in Inr (upd_where (held_by q claim)
               (\<lambda>r. r\<lparr>j_status := (if terminal then JFailed else JPending),
                      j_run_at := (if terminal then now else now + delay),
                      completed_at := (if terminal then Some now else None),
                      j_updated_at := now, locked_at := None, locked_until := None,
                      locked_by := None, j_last_error := Some (safe_error_code error)\<rparr>) jobs,
             list_ex (held_by q claim) jobs))"

section \<open>Invariant\<close>

text \<open>The unique key, the primary key and the checks of the table, and the attempt bound.\<close>

definition job_row_ok :: "'p job \<Rightarrow> bool" where
  "job_row_ok r \<longleftrightarrow> 0 \<le> j_attempts r \<and> j_attempts r \<le> j_max_attempts r
     \<and> 0 < j_max_attempts r \<and> j_max_attempts r \<le> MAX_ATTEMPTS
     \<and> (j_status r = JPending \<longrightarrow> j_attempts r < j_max_attempts r)
     \<and> (j_status r = JRunning \<longleftrightarrow> locked_by r \<noteq> None)
     \<and> (j_status r \<in> {JSucceeded, JFailed} \<longrightarrow> completed_at r \<noteq> None)"

definition jobs_ok :: "'p job list \<Rightarrow> bool" where
  "jobs_ok jobs \<longleftrightarrow> keyed job_id jobs \<and> distinct (map j_key jobs) \<and> (\<forall>r \<in> set jobs. job_row_ok r)"

lemma jobs_ok_Nil [simp]: "jobs_ok []"
  by (simp add: jobs_ok_def)

lemma jobs_ok_upd:
  assumes "jobs_ok jobs"
    and "\<And>r. P r \<Longrightarrow> job_id (f r) = job_id r \<and> j_key (f r) = j_key r"
    and "\<And>r. r \<in> set jobs \<Longrightarrow> P r \<Longrightarrow> job_row_ok r \<Longrightarrow> job_row_ok (f r)"
  shows "jobs_ok (upd_where P f jobs)"
  using assms map_upd_where [of P j_key f jobs] keyed_upd_where [of job_id jobs P f]
  by (auto simp: jobs_ok_def set_upd_where)

lemma fail_exhausted_jobs_ok: "jobs_ok jobs \<Longrightarrow> jobs_ok (fail_exhausted_jobs now kinds jobs)"
  unfolding fail_exhausted_jobs_def by (rule jobs_ok_upd) (auto simp: job_row_ok_def)

lemma lease_job_row_ok:
  "job_row_ok r \<Longrightarrow> job_eligible now kinds r \<Longrightarrow> job_row_ok (lease_job w t until r)"
  by (auto simp: job_row_ok_def job_eligible_def lease_job_def)

text \<open>The table after an \<open>enqueue\<close> that returned: extended, deferred or unchanged.\<close>

lemma enqueue_jobE:
  assumes "enqueue_job clk kind key payload run_at m ext jobs = Inr (jobs', res)"
  obtains (created) t c t' where "List.find (\<lambda>r. j_key r = key) jobs = None"
      "1 \<le> m" "m \<le> MAX_ATTEMPTS"
      "jobs' = jobs @ [fresh_job jobs kind key payload t m c t']"
      "res = \<lparr>er_id = next_id job_id jobs, er_created = True\<rparr>"
  | (deferred) r t t' where "List.find (\<lambda>r. j_key r = key) jobs = Some r"
      "ext" "j_status r = JPending" "j_run_at r < t" "j_kind r = kind" "j_payload r = payload"
      "jobs' = upd_where (\<lambda>x. job_id x = job_id r) (\<lambda>x. x\<lparr>j_run_at := t, j_updated_at := t'\<rparr>) jobs"
      "res = \<lparr>er_id = job_id r, er_created = False\<rparr>"
  | (same) r where "List.find (\<lambda>r. j_key r = key) jobs = Some r" "jobs' = jobs"
      "j_kind r = kind" "j_payload r = payload"
      "res = \<lparr>er_id = job_id r, er_created = False\<rparr>"
proof (cases "List.find (\<lambda>r. j_key r = key) jobs")
  case None
  with assms created show ?thesis by (auto simp: enqueue_job_def py)
next
  case (Some r)
  with assms deferred [OF Some] same [OF Some] show ?thesis
    by (auto simp: enqueue_job_def py split: if_splits)
qed

lemma enqueue_job_ok:
  assumes "enqueue_job clk kind key payload run_at m ext jobs = Inr (jobs', res)" and "jobs_ok jobs"
  shows "jobs_ok jobs'"
  using assms(1)
proof (cases rule: enqueue_jobE)
  case created
  then have "key \<notin> j_key ` set jobs" by (auto simp: find_None_set)
  with created assms(2) show ?thesis
    using keyed_insert [of job_id jobs] by (auto simp: fresh_job_def jobs_ok_def job_row_ok_def)
next
  case (deferred r t t')
  show ?thesis unfolding deferred(7) using assms(2)
    by (rule jobs_ok_upd) (auto simp: job_row_ok_def)
qed (use assms(2) in simp)

lemma claim_due_job_ok:
  assumes "jobs_ok jobs" and "claim_due_job q clock lease kinds jobs = Inr (jobs', c)"
  shows "jobs_ok jobs'"
proof -
  let ?swept = "fail_exhausted_jobs (instant_of clock) kinds jobs"
  have lease: "jobs_ok (upd_where (\<lambda>r. job_id r = i \<and> job_eligible (instant_of clock) kinds r)
      (lease_job w t until) ?swept)" for i w t until
    using fail_exhausted_jobs_ok [OF assms(1)]
    by (rule jobs_ok_upd) (auto simp: lease_job_row_ok, auto simp: lease_job_def)
  show ?thesis
    using assms fail_exhausted_jobs_ok [OF assms(1)]
    by (auto simp: claim_due_job_def py Let_def lease split: option.splits)
qed

lemma succeed_job_ok:
  "jobs_ok jobs \<Longrightarrow> succeed_job q clock claim jobs = Inr (jobs', b) \<Longrightarrow> jobs_ok jobs'"
  by (auto simp: succeed_job_def py Let_def held_by_def job_row_ok_def intro!: jobs_ok_upd)

text \<open>A claim is genuine for a table when its limit is the one of the row it names.\<close>

definition claim_fits :: "'p job list \<Rightarrow> 'p job_claim \<Rightarrow> bool" where
  "claim_fits jobs claim \<longleftrightarrow>
     (\<forall>r \<in> set jobs. job_id r = jc_id claim \<longrightarrow> j_max_attempts r = jc_max_attempts claim)"

lemma fail_job_ok:
  assumes "jobs_ok jobs" and "claim_fits jobs claim"
    and "fail_job q clock claim error jobs = Inr (jobs', b)"
  shows "jobs_ok jobs'"
  using assms
  by (auto simp: fail_job_def py Let_def held_by_def job_row_ok_def claim_fits_def
      intro!: jobs_ok_upd)

section \<open>Interleavings\<close>

text \<open>
  The queue as any number of workers and producers see it: each step is one committed
  transaction of one of them, with its own worker id, clock reading and arguments.
  \<open>q_claims\<close> records the claims handed out so far; a worker settles only those.
\<close>

record 'p queue_sys =
  q_jobs :: "'p job list"
  q_claims :: "'p job_claim set"

inductive job_step :: "'p queue_sys \<Rightarrow> qlabel \<Rightarrow> 'p queue_sys \<Rightarrow> bool" where
  produce: "enqueue_job clk kind key payload run_at m ext (q_jobs s) = Inr (jobs', res) \<Longrightarrow>
    job_step s Quiet (s\<lparr>q_jobs := jobs'\<rparr>)"
| claim_none: "claim_due_job q clock lease kinds (q_jobs s) = Inr (jobs', None) \<Longrightarrow>
    job_step s Quiet (s\<lparr>q_jobs := jobs'\<rparr>)"
| claim_some: "claim_due_job q clock lease kinds (q_jobs s) = Inr (jobs', Some c) \<Longrightarrow>
    job_step s (Issue (jc_id c) (jc_attempt c))
      (s\<lparr>q_jobs := jobs', q_claims := insert c (q_claims s)\<rparr>)"
| finish: "c \<in> q_claims s \<Longrightarrow> succeed_job q clock c (q_jobs s) = Inr (jobs', b) \<Longrightarrow>
    job_step s (if b then Settle (jc_id c) (jc_attempt c) else Quiet) (s\<lparr>q_jobs := jobs'\<rparr>)"
| break_off: "c \<in> q_claims s \<Longrightarrow> fail_job q clock c error (q_jobs s) = Inr (jobs', b) \<Longrightarrow>
    job_step s (if b then Settle (jc_id c) (jc_attempt c) else Quiet) (s\<lparr>q_jobs := jobs'\<rparr>)"

definition claim_known :: "'p job list \<Rightarrow> 'p job_claim \<Rightarrow> bool" where
  "claim_known jobs c \<longleftrightarrow> (\<exists>r \<in> set jobs. job_id r = jc_id c
     \<and> j_max_attempts r = jc_max_attempts c \<and> jc_attempt c \<le> j_attempts r)"

definition queue_ok :: "'p queue_sys \<Rightarrow> bool" where
  "queue_ok s \<longleftrightarrow> jobs_ok (q_jobs s) \<and> (\<forall>c \<in> q_claims s. claim_known (q_jobs s) c)"

fun job_phase :: "job_status \<Rightarrow> phase" where
  "job_phase JPending = Ready"
| "job_phase JRunning = Leased"
| "job_phase _ = Finished"

definition job_lview :: "'p job \<Rightarrow> lview" where
  "job_lview r = \<lparr>tries = j_attempts r, limit = j_max_attempts r, phase = job_phase (j_status r)\<rparr>"

definition job_view :: "'p queue_sys \<Rightarrow> int \<Rightarrow> lview option" where
  "job_view s i = map_option job_lview (row_at job_id i (q_jobs s))"

lemma job_phase_eq [simp]:
  "job_phase st = Ready \<longleftrightarrow> st = JPending"
  "job_phase st = Leased \<longleftrightarrow> st = JRunning"
  "job_phase st = Finished \<longleftrightarrow> st \<noteq> JPending \<and> st \<noteq> JRunning"
  by (cases st; simp)+

lemma known_fits: "jobs_ok jobs \<Longrightarrow> claim_known jobs c \<Longrightarrow> claim_fits jobs c"
  unfolding claim_known_def claim_fits_def jobs_ok_def using keyed_unique by metis

lemma claim_known_upd:
  assumes "claim_known jobs c"
    and "\<And>r. P r \<Longrightarrow> job_id (f r) = job_id r \<and> j_max_attempts (f r) = j_max_attempts r
           \<and> j_attempts r \<le> j_attempts (f r)"
  shows "claim_known (upd_where P f jobs) c"
proof -
  from assms(1) obtain r where "r \<in> set jobs" "job_id r = jc_id c"
      "j_max_attempts r = jc_max_attempts c" "jc_attempt c \<le> j_attempts r"
    by (auto simp: claim_known_def)
  moreover from this have "(if P r then f r else r) \<in> set (upd_where P f jobs)"
    by (auto simp: set_upd_where)
  ultimately show ?thesis
    using assms(2) [of r] unfolding claim_known_def by (intro bexI) auto
qed

lemma claim_known_enqueue:
  assumes "enqueue_job clk kind key payload run_at m ext jobs = Inr (jobs', r)" and "claim_known jobs c"
  shows "claim_known jobs' c"
  using assms
proof (cases rule: enqueue_jobE)
  case created
  with assms(2) show ?thesis by (auto simp: claim_known_def)
next
  case (deferred r t t')
  show ?thesis unfolding deferred(7) using assms(2) by (rule claim_known_upd) auto
qed simp

lemma claim_known_sweep: "claim_known jobs c \<Longrightarrow> claim_known (fail_exhausted_jobs now kinds jobs) c"
  unfolding fail_exhausted_jobs_def by (rule claim_known_upd) auto

text \<open>The claim and the table after a successful \<open>claim_due\<close>.\<close>

lemma claim_due_jobE:
  assumes "claim_due_job q clock lease kinds jobs = Inr (jobs', Some c)"
  obtains r where "r \<in> set (fail_exhausted_jobs (instant_of clock) kinds jobs)"
    and "job_eligible (instant_of clock) kinds r"
    and "\<forall>r' \<in> set (fail_exhausted_jobs (instant_of clock) kinds jobs).
           job_eligible (instant_of clock) kinds r' \<longrightarrow> job_order r \<le> job_order r'"
    and "jobs' = upd_where (\<lambda>r'. job_id r' = job_id r \<and> job_eligible (instant_of clock) kinds r')
           (lease_job (jq_worker_id q) (instant_of clock) (instant_of clock + lease))
           (fail_exhausted_jobs (instant_of clock) kinds jobs)"
    and "c = claim_of_job (dt_add clock lease)
           (lease_job (jq_worker_id q) (instant_of clock) (instant_of clock + lease) r)"
proof -
  from assms obtain r where
    f: "first_by job_order (job_eligible (instant_of clock) kinds)
          (fail_exhausted_jobs (instant_of clock) kinds jobs) = Some r"
    and rest: "jobs' = upd_where (\<lambda>r'. job_id r' = job_id r \<and> job_eligible (instant_of clock) kinds r')
           (lease_job (jq_worker_id q) (instant_of clock) (instant_of clock + lease))
           (fail_exhausted_jobs (instant_of clock) kinds jobs)"
      "c = claim_of_job (dt_add clock lease)
           (lease_job (jq_worker_id q) (instant_of clock) (instant_of clock + lease) r)"
    by (auto simp: claim_due_job_def py Let_def split: option.splits)
  show ?thesis
    using that [of r] first_by_Some [OF f] rest by blast
qed

lemma claim_due_job_NoneE:
  assumes "claim_due_job q clock lease kinds jobs = Inr (jobs', None)"
  shows "jobs' = fail_exhausted_jobs (instant_of clock) kinds jobs"
    and "\<And>r. r \<in> set jobs' \<Longrightarrow> \<not> job_eligible (instant_of clock) kinds r"
  using assms by (auto simp: claim_due_job_def py Let_def first_by_None split: option.splits)

text \<open>A settling operation: which rows it changes, and what it leaves alone.\<close>

lemma succeed_jobE:
  assumes "succeed_job q clock c jobs = Inr (jobs', b)"
  obtains f where "jobs' = upd_where (held_by q c) f jobs" "b = list_ex (held_by q c) jobs"
    "\<And>r. job_id (f r) = job_id r" "\<And>r. j_max_attempts (f r) = j_max_attempts r"
    "\<And>r. j_attempts (f r) = j_attempts r" "\<And>r. j_status (f r) = JSucceeded"
  using assms by (auto simp: succeed_job_def py Let_def)

lemma fail_jobE:
  assumes "fail_job q clock c error jobs = Inr (jobs', b)"
  obtains f where "jobs' = upd_where (held_by q c) f jobs" "b = list_ex (held_by q c) jobs"
    "\<And>r. job_id (f r) = job_id r" "\<And>r. j_max_attempts (f r) = j_max_attempts r"
    "\<And>r. j_attempts (f r) = j_attempts r"
    "\<And>r. j_status (f r) = (if jc_max_attempts c \<le> jc_attempt c then JFailed else JPending)"
  using assms by (auto simp: fail_job_def py Let_def)

lemma queue_ok_step:
  assumes "queue_ok s" and "job_step s l s'"
  shows "queue_ok s'"
  using assms(2,1)
proof (induction rule: job_step.induct)
  case (produce clk kind key payload run_at m ext s jobs' res)
  then show ?case by (auto simp: queue_ok_def intro: enqueue_job_ok claim_known_enqueue)
next
  case (claim_none q clock lease kinds s jobs')
  then show ?case
    using claim_due_job_NoneE(1) [OF claim_none.hyps]
    by (auto simp: queue_ok_def intro: fail_exhausted_jobs_ok claim_known_sweep)
next
  case (claim_some q clock lease kinds s jobs' c)
  have "jobs_ok jobs'" using claim_some claim_due_job_ok by (auto simp: queue_ok_def)
  moreover obtain r where r: "r \<in> set (fail_exhausted_jobs (instant_of clock) kinds (q_jobs s))"
      "job_eligible (instant_of clock) kinds r"
      "\<forall>r' \<in> set (fail_exhausted_jobs (instant_of clock) kinds (q_jobs s)).
           job_eligible (instant_of clock) kinds r' \<longrightarrow> job_order r \<le> job_order r'"
    and j: "jobs' = upd_where (\<lambda>r'. job_id r' = job_id r \<and> job_eligible (instant_of clock) kinds r')
           (lease_job (jq_worker_id q) (instant_of clock) (instant_of clock + lease))
           (fail_exhausted_jobs (instant_of clock) kinds (q_jobs s))"
    and c: "c = claim_of_job (dt_add clock lease)
           (lease_job (jq_worker_id q) (instant_of clock) (instant_of clock + lease) r)"
    using claim_some.hyps by (rule claim_due_jobE)
  moreover have "claim_known jobs' c"
    unfolding claim_known_def j c set_upd_where using r(1,2)
    by (intro bexI [of _ "lease_job (jq_worker_id q) (instant_of clock) (instant_of clock + lease) r"])
      (auto simp: claim_of_job_def lease_job_def)
  moreover have "claim_known jobs' d" if "d \<in> q_claims s" for d
    unfolding j using that claim_some.prems
    by (intro claim_known_upd claim_known_sweep) (auto simp: queue_ok_def lease_job_def)
  ultimately show ?case by (auto simp: queue_ok_def)
next
  case (finish c s q clock jobs' b)
  then have "jobs_ok jobs'" by (auto simp: queue_ok_def intro: succeed_job_ok)
  moreover have "claim_known jobs' d" if "d \<in> q_claims s" for d
    using finish.hyps(2)
  proof (rule succeed_jobE)
    fix f
    assume "jobs' = upd_where (held_by q c) f (q_jobs s)" "\<And>r. job_id (f r) = job_id r"
      "\<And>r. j_max_attempts (f r) = j_max_attempts r" "\<And>r. j_attempts (f r) = j_attempts r"
    then show ?thesis using finish.prems that by (simp add: queue_ok_def claim_known_upd)
  qed
  ultimately show ?case by (auto simp: queue_ok_def)
next
  case (break_off c s q clock error jobs' b)
  then have "jobs_ok jobs'" by (auto simp: queue_ok_def intro: fail_job_ok known_fits)
  moreover have "claim_known jobs' d" if "d \<in> q_claims s" for d
    using break_off.hyps(2)
  proof (rule fail_jobE)
    fix f
    assume "jobs' = upd_where (held_by q c) f (q_jobs s)" "\<And>r. job_id (f r) = job_id r"
      "\<And>r. j_max_attempts (f r) = j_max_attempts r" "\<And>r. j_attempts (f r) = j_attempts r"
    then show ?thesis using break_off.prems that by (simp add: queue_ok_def claim_known_upd)
  qed
  ultimately show ?case by (auto simp: queue_ok_def)
qed

text \<open>How each row moves, and the contract's interpretation on the job table.\<close>

lemma job_view_upd:
  assumes "\<And>r. P r \<Longrightarrow> job_id (f r) = job_id r"
  shows "job_view (s\<lparr>q_jobs := upd_where P f (q_jobs s)\<rparr>) i =
    map_option (\<lambda>r. job_lview (if P r then f r else r)) (row_at job_id i (q_jobs s))"
  using assms by (simp add: job_view_def row_at_upd_where option.map_comp comp_def)

lemma lmove_enqueue:
  assumes "enqueue_job clk kind key payload run_at m ext (q_jobs s) = Inr (jobs', res)"
  shows "lmove Quiet i (job_view s i) (job_view (s\<lparr>q_jobs := jobs'\<rparr>) i)"
  using assms
proof (cases rule: enqueue_jobE)
  case (created t c t')
  then show ?thesis
    by (auto simp: job_view_def row_at_snoc fresh_job_def job_lview_def split: option.splits
        intro: lmove.intros)
next
  case (deferred r t t')
  have "job_view (s\<lparr>q_jobs := jobs'\<rparr>) i = job_view s i"
    unfolding deferred(7)
    by (subst job_view_upd) (auto simp: job_view_def job_lview_def intro!: option.map_cong)
  then show ?thesis by (simp add: lmove.stay)
qed (auto intro: lmove.stay)

lemma lmove_sweep:
  assumes "jobs' = fail_exhausted_jobs now kinds (q_jobs s)" and "\<not> about l i"
  shows "lmove l i (job_view s i) (map_option job_lview (row_at job_id i jobs'))"
proof (cases "row_at job_id i (q_jobs s)")
  case None
  then show ?thesis using assms
    by (auto simp: fail_exhausted_jobs_def row_at_upd_where job_view_def intro: lmove.stay)
next
  case (Some r)
  then show ?thesis using assms lmove.expire [of l i "job_lview r"]
    by (auto simp: fail_exhausted_jobs_def row_at_upd_where job_view_def job_lview_def
        intro: lmove.stay)
qed

lemma sweep_keeps_eligible:
  assumes "row_at job_id i (fail_exhausted_jobs now kinds jobs) = Some r"
    and "job_eligible now' kinds' r"
  shows "row_at job_id i jobs = Some r"
  using assms
  by (auto simp: fail_exhausted_jobs_def row_at_upd_where job_eligible_def split: if_splits)

lemma lmove_claim:
  assumes "queue_ok s" and "claim_due_job q clock lease kinds (q_jobs s) = Inr (jobs', Some c)"
  shows "lmove (Issue (jc_id c) (jc_attempt c)) i (job_view s i)
    (map_option job_lview (row_at job_id i jobs'))"
proof -
  let ?now = "instant_of clock"
  let ?swept = "fail_exhausted_jobs ?now kinds (q_jobs s)"
  let ?lease = "lease_job (jq_worker_id q) ?now (?now + lease)"
  obtain r where r: "r \<in> set ?swept" "job_eligible ?now kinds r"
      "\<forall>r' \<in> set ?swept. job_eligible ?now kinds r' \<longrightarrow> job_order r \<le> job_order r'"
    and j: "jobs' = upd_where (\<lambda>r'. job_id r' = job_id r \<and> job_eligible ?now kinds r') ?lease ?swept"
    and c: "c = claim_of_job (dt_add clock lease) (?lease r)"
    using assms(2) by (rule claim_due_jobE)
  have at: "row_at job_id i jobs' = map_option
      (\<lambda>x. if job_id x = job_id r \<and> job_eligible ?now kinds x then ?lease x else x)
      (row_at job_id i ?swept)"
    unfolding j by (rule row_at_upd_where) (simp add: lease_job_def)
  show ?thesis
  proof (cases "i = job_id r")
    case True
    have "keyed job_id ?swept"
      using fail_exhausted_jobs_ok assms(1) by (auto simp: queue_ok_def jobs_ok_def)
    then have "row_at job_id i ?swept = Some r" using r(1) True row_at_in by auto
    moreover from this have "row_at job_id i (q_jobs s) = Some r"
      using r(2) by (rule sweep_keeps_eligible)
    moreover from calculation have "row_at job_id i jobs' = Some (?lease r)"
      using r(2) by (simp add: at)
    ultimately show ?thesis
      using r(2) True lmove.issue [of "job_lview r" i]
      by (auto simp: c job_view_def claim_of_job_def lease_job_def job_lview_def job_eligible_def)
  next
    case False
    then have "row_at job_id i jobs' = row_at job_id i ?swept"
      by (cases "row_at job_id i ?swept") (auto simp: at dest: row_at_Some)
    moreover have "\<not> about (Issue (jc_id c) (jc_attempt c)) i"
      using False by (simp add: c claim_of_job_def lease_job_def)
    ultimately show ?thesis using lmove_sweep [OF refl] by metis
  qed
qed

text \<open>A settled claim closes its own attempt; a stale one changes nothing.\<close>

lemma lmove_settle:
  assumes "queue_ok s" and "c \<in> q_claims s"
    and "jobs' = upd_where (held_by q c) f (q_jobs s)" and "b = list_ex (held_by q c) (q_jobs s)"
    and "\<And>r. job_id (f r) = job_id r" and "\<And>r. j_max_attempts (f r) = j_max_attempts r"
    and "\<And>r. j_attempts (f r) = j_attempts r"
    and "\<And>r. j_status (f r) = st" and "st \<noteq> JRunning"
    and "st = JPending \<Longrightarrow> jc_attempt c < jc_max_attempts c"
  shows "lmove (if b then Settle (jc_id c) (jc_attempt c) else Quiet) i (job_view s i)
    (map_option job_lview (row_at job_id i jobs'))"
proof -
  have keyed: "keyed job_id (q_jobs s)" and fits: "claim_fits (q_jobs s) c"
    using assms(1,2) known_fits by (auto simp: queue_ok_def jobs_ok_def)
  have at: "row_at job_id i jobs' =
      map_option (\<lambda>x. if held_by q c x then f x else x) (row_at job_id i (q_jobs s))"
    unfolding assms(3) by (rule row_at_upd_where) (simp add: assms(5))
  show ?thesis
  proof (cases "\<exists>r \<in> set (q_jobs s). held_by q c r \<and> job_id r = i")
    case True
    then obtain r where r: "r \<in> set (q_jobs s)" "held_by q c r" "job_id r = i" by auto
    then have row: "row_at job_id i (q_jobs s) = Some r" using keyed row_at_in by auto
    have b: "b" using r assms(4) by (auto simp: list_ex_iff)
    have id: "jc_id c = i" "jc_attempt c = j_attempts r" "j_status r = JRunning"
      using r by (auto simp: held_by_def)
    have lim: "j_max_attempts r = jc_max_attempts c" using fits r id by (auto simp: claim_fits_def)
    have v': "map_option job_lview (row_at job_id i jobs') =
        Some ((job_lview r)\<lparr>phase := job_phase st\<rparr>)"
      using r(2) row assms(6-8) by (simp add: at job_lview_def)
    have v: "job_view s i = Some (job_lview r)" using row by (simp add: job_view_def)
    show ?thesis
    proof (cases "st = JPending")
      case True
      then show ?thesis using lmove.retry [of "job_lview r" i] assms(10) b id lim
        unfolding v v' by (simp add: job_lview_def)
    next
      case False
      then have st: "job_phase st = Finished" using assms(9) by simp
      show ?thesis using lmove.settle [of "job_lview r" i] b id
        unfolding v v' st by (simp add: job_lview_def)
    qed
  next
    case False
    then have "row_at job_id i jobs' = row_at job_id i (q_jobs s)"
      by (cases "row_at job_id i (q_jobs s)") (auto simp: at dest: row_at_Some)
    moreover have "\<not> about (if b then Settle (jc_id c) (jc_attempt c) else Quiet) i"
      using False assms(4) by (auto simp: list_ex_iff held_by_def)
    ultimately show ?thesis unfolding job_view_def by (metis lmove.stay)
  qed
qed

lemma job_step_lmove:
  assumes "queue_ok s" and "job_step s l s'"
  shows "lmove l i (job_view s i) (job_view s' i)"
  using assms(2,1)
proof (induction rule: job_step.induct)
  case (produce clk kind key payload run_at m ext s jobs' res)
  then show ?case by (blast intro: lmove_enqueue)
next
  case (claim_none q clock lease kinds s jobs')
  show ?case
    using lmove_sweep [OF claim_due_job_NoneE(1) [OF claim_none.hyps], of Quiet i]
    by (simp add: job_view_def)
next
  case (claim_some q clock lease kinds s jobs' c)
  then show ?case using lmove_claim [of s q clock lease kinds jobs' c i]
    by (simp add: job_view_def [of "s\<lparr>q_jobs := jobs', q_claims := _\<rparr>"])
next
  case (finish c s q clock jobs' b)
  from finish.hyps(2) have "lmove (if b then Settle (jc_id c) (jc_attempt c) else Quiet) i
      (job_view s i) (map_option job_lview (row_at job_id i jobs'))"
    by (rule succeed_jobE) (rule lmove_settle [OF finish.prems finish.hyps(1)], assumption+, simp_all)
  then show ?case by (simp add: job_view_def [of "s\<lparr>q_jobs := jobs'\<rparr>"])
next
  case (break_off c s q clock error jobs' b)
  from break_off.hyps(2) have "lmove (if b then Settle (jc_id c) (jc_attempt c) else Quiet) i
      (job_view s i) (map_option job_lview (row_at job_id i jobs'))"
    by (rule fail_jobE)
      (rule lmove_settle [OF break_off.prems break_off.hyps(1)], assumption+, simp_all split: if_splits)
  then show ?case by (simp add: job_view_def [of "s\<lparr>q_jobs := jobs'\<rparr>"])
qed

lemma job_view_row_ok: "queue_ok s \<Longrightarrow> job_view s i = Some v \<Longrightarrow> row_ok v"
  by (auto simp: job_view_def queue_ok_def jobs_ok_def job_row_ok_def row_ok_def job_lview_def
      dest!: row_at_Some)

interpretation jobq: leased_queue job_view queue_ok job_step
  by unfold_locales (auto intro: queue_ok_step job_step_lmove job_view_row_ok)

end
