(* ===== verification/OutboxQueue.thy ===== *)
theory OutboxQueue
  imports QueueCommon
begin

text \<open>
  \<open>jobs/queue.py\<close>, class \<open>OutboxQueue\<close>: the outgoing Telegram messages (table \<open>outbox\<close>,
  \<open>storage/models.py\<close>, class \<open>OutboxMessage\<close>). \<open>available_at\<close> is the next-attempt time of
  a waiting row and the lease deadline of one being sent.
\<close>

section \<open>Rows and claims\<close>

datatype outbox_status = OPending | OSending | OSent | OFailed | OCancelled

record 'p outbox_row =
  o_id :: int
  o_job_id :: "int option"
  o_kind :: pystr
  o_key :: pystr
  o_chat_id :: "int option"
  o_payload :: 'p
  o_status :: outbox_status
  o_available_at :: instant
  o_attempts :: int
  o_max_attempts :: int
  o_last_error :: "pystr option"
  o_telegram_message_id :: "int option"
  o_created_at :: instant
  o_sent_at :: "instant option"

record 'p outbox_claim =
  oc_id :: int
  oc_kind :: pystr
  oc_key :: pystr
  oc_chat_id :: "int option"
  oc_payload :: 'p
  oc_attempt :: int
  oc_max_attempts :: int
  oc_leased_until :: pydt

record outbox_queue =
  oq_retry_base :: int
  oq_retry_cap :: int

definition new_outbox_queue :: "int \<Rightarrow> int \<Rightarrow> queue_error + outbox_queue" where
  "new_outbox_queue retry_base retry_cap =
     and_then (validate_retry_policy retry_base retry_cap) (\<lambda>_.
     Inr \<lparr>oq_retry_base = retry_base, oq_retry_cap = retry_cap\<rparr>)"

section \<open>Operations\<close>

definition fresh_outbox ::
  "'p outbox_row list \<Rightarrow> pystr \<Rightarrow> pystr \<Rightarrow> 'p \<Rightarrow> int option \<Rightarrow> int option \<Rightarrow> instant \<Rightarrow> int \<Rightarrow> instant
     \<Rightarrow> 'p outbox_row" where
  "fresh_outbox rows kind key payload chat_id job available max_attempts created =
     \<lparr>o_id = next_id o_id rows, o_job_id = job, o_kind = kind, o_key = key,
      o_chat_id = chat_id, o_payload = payload, o_status = OPending, o_available_at = available,
      o_attempts = 0, o_max_attempts = max_attempts, o_last_error = None,
      o_telegram_message_id = None, o_created_at = created, o_sent_at = None\<rparr>"

definition enqueue_outbox ::
  "(nat \<Rightarrow> pydt) \<Rightarrow> pystr \<Rightarrow> pystr \<Rightarrow> 'p \<Rightarrow> int option \<Rightarrow> int option \<Rightarrow> pydt option \<Rightarrow> int
     \<Rightarrow> 'p outbox_row list \<Rightarrow> queue_error + ('p outbox_row list \<times> enqueue_result)" where
  "enqueue_outbox clk kind key payload chat_id job available_at max_attempts rows =
     and_then (validate_enqueue kind key max_attempts) (\<lambda>_.
     and_then (aware_time (case available_at of Some t \<Rightarrow> t | None \<Rightarrow> clk 0)) (\<lambda>timestamp.
     and_then (column_time (clk 1)) (\<lambda>created.
     (case List.find (\<lambda>r. o_key r = key) rows of
        None \<Rightarrow>
          Inr (rows @ [fresh_outbox rows kind key payload chat_id job (instant_of timestamp)
                         max_attempts created],
               \<lparr>er_id = next_id o_id rows, er_created = True\<rparr>)
      | Some existing \<Rightarrow>
          if o_kind existing \<noteq> kind \<or> o_payload existing \<noteq> payload
             \<or> o_chat_id existing \<noteq> chat_id \<or> o_job_id existing \<noteq> job
          then Inl IdempotencyConflictError
          else Inr (rows, \<lparr>er_id = o_id existing, er_created = False\<rparr>)))))"

definition fail_exhausted_outbox :: "instant \<Rightarrow> 'p outbox_row list \<Rightarrow> 'p outbox_row list" where
  "fail_exhausted_outbox now =
     upd_where (\<lambda>r. o_status r = OSending \<and> o_available_at r \<le> now \<and> o_max_attempts r \<le> o_attempts r)
       (\<lambda>r. r\<lparr>o_status := OFailed, o_available_at := now,
              o_last_error := Some (u ''LeaseExpired'')\<rparr>)"

definition outbox_eligible :: "instant \<Rightarrow> 'p outbox_row \<Rightarrow> bool" where
  "outbox_eligible now r \<longleftrightarrow> o_attempts r < o_max_attempts r \<and> o_available_at r \<le> now
     \<and> (o_status r = OPending \<or> o_status r = OSending)"

definition outbox_order :: "'p outbox_row \<Rightarrow> nat \<times> int \<times> int" where
  "outbox_order r = (if o_status r = OPending then 0 else 1, o_available_at r, o_id r)"

definition lease_outbox :: "instant \<Rightarrow> 'p outbox_row \<Rightarrow> 'p outbox_row" where
  "lease_outbox leased_until r =
     r\<lparr>o_status := OSending, o_attempts := o_attempts r + 1, o_available_at := leased_until,
       o_last_error := None\<rparr>"

definition claim_of_outbox :: "pydt \<Rightarrow> 'p outbox_row \<Rightarrow> 'p outbox_claim" where
  "claim_of_outbox leased_until r =
     \<lparr>oc_id = o_id r, oc_kind = o_kind r, oc_key = o_key r, oc_chat_id = o_chat_id r,
      oc_payload = o_payload r, oc_attempt = o_attempts r, oc_max_attempts = o_max_attempts r,
      oc_leased_until = leased_until\<rparr>"

definition claim_due_outbox ::
  "pydt \<Rightarrow> int \<Rightarrow> 'p outbox_row list
     \<Rightarrow> queue_error + ('p outbox_row list \<times> 'p outbox_claim option)" where
  "claim_due_outbox clock lease rows =
     and_then (validate_lease lease) (\<lambda>_.
     and_then (aware_time clock) (\<lambda>now_dt.
     let now = instant_of now_dt; leased_until = dt_add now_dt lease;
         swept = fail_exhausted_outbox now rows
     in case first_by outbox_order (outbox_eligible now) swept of
          None \<Rightarrow> Inr (swept, None)
        | Some candidate \<Rightarrow>
            let taken = lease_outbox (instant_of leased_until)
            in Inr (upd_where (\<lambda>r. o_id r = o_id candidate \<and> outbox_eligible now r) taken swept,
                    Some (claim_of_outbox leased_until (taken candidate)))))"

definition sending_as :: "'p outbox_claim \<Rightarrow> 'p outbox_row \<Rightarrow> bool" where
  "sending_as claim r \<longleftrightarrow>
     o_id r = oc_id claim \<and> o_status r = OSending \<and> o_attempts r = oc_attempt claim"

definition sent_outbox ::
  "pydt \<Rightarrow> 'p outbox_claim \<Rightarrow> int option \<Rightarrow> 'p outbox_row list
     \<Rightarrow> queue_error + ('p outbox_row list \<times> bool)" where
  "sent_outbox clock claim telegram_message_id rows =
     and_then (aware_time clock) (\<lambda>now_dt.
     let now = instant_of now_dt
     in Inr (upd_where (sending_as claim)
               (\<lambda>r. r\<lparr>o_status := OSent, o_sent_at := Some now,
                      o_telegram_message_id := telegram_message_id, o_available_at := now,
                      o_last_error := None\<rparr>) rows,
             list_ex (sending_as claim) rows))"

definition fail_outbox ::
  "outbox_queue \<Rightarrow> pydt \<Rightarrow> 'p outbox_claim \<Rightarrow> pystr \<Rightarrow> 'p outbox_row list
     \<Rightarrow> queue_error + ('p outbox_row list \<times> bool)" where
  "fail_outbox q clock claim error rows =
     and_then (aware_time clock) (\<lambda>now_dt.
     let now = instant_of now_dt;
         terminal = oc_max_attempts claim \<le> oc_attempt claim;
         delay = retry_delay (oc_attempt claim) (oq_retry_base q) (oq_retry_cap q)
     in Inr (upd_where (sending_as claim)
               (\<lambda>r. r\<lparr>o_status := (if terminal then OFailed else OPending),
                      o_available_at := (if terminal then now else now + delay),
                      o_last_error := Some (safe_error_code error)\<rparr>) rows,
             list_ex (sending_as claim) rows))"

section \<open>Invariant\<close>

definition outbox_row_ok :: "'p outbox_row \<Rightarrow> bool" where
  "outbox_row_ok r \<longleftrightarrow> 0 \<le> o_attempts r \<and> o_attempts r \<le> o_max_attempts r
     \<and> 0 < o_max_attempts r \<and> o_max_attempts r \<le> MAX_ATTEMPTS
     \<and> (o_status r = OPending \<longrightarrow> o_attempts r < o_max_attempts r)
     \<and> (o_status r = OSent \<longleftrightarrow> o_sent_at r \<noteq> None)"

definition outbox_ok :: "'p outbox_row list \<Rightarrow> bool" where
  "outbox_ok rows \<longleftrightarrow> keyed o_id rows \<and> distinct (map o_key rows) \<and> (\<forall>r \<in> set rows. outbox_row_ok r)"

lemma outbox_ok_Nil [simp]: "outbox_ok []"
  by (simp add: outbox_ok_def)

lemma outbox_ok_upd:
  assumes "outbox_ok rows"
    and "\<And>r. P r \<Longrightarrow> o_id (f r) = o_id r \<and> o_key (f r) = o_key r"
    and "\<And>r. r \<in> set rows \<Longrightarrow> P r \<Longrightarrow> outbox_row_ok r \<Longrightarrow> outbox_row_ok (f r)"
  shows "outbox_ok (upd_where P f rows)"
  using assms map_upd_where [of P o_key f rows] keyed_upd_where [of o_id rows P f]
  by (auto simp: outbox_ok_def set_upd_where)

lemma fail_exhausted_outbox_ok: "outbox_ok rows \<Longrightarrow> outbox_ok (fail_exhausted_outbox now rows)"
  unfolding fail_exhausted_outbox_def by (rule outbox_ok_upd) (auto simp: outbox_row_ok_def)

lemma enqueue_outboxE:
  assumes "enqueue_outbox clk kind key payload chat jid avail m rows = Inr (rows', res)"
  obtains (created) t c where "List.find (\<lambda>r. o_key r = key) rows = None"
      "1 \<le> m" "m \<le> MAX_ATTEMPTS"
      "rows' = rows @ [fresh_outbox rows kind key payload chat jid t m c]"
      "res = \<lparr>er_id = next_id o_id rows, er_created = True\<rparr>"
  | (same) r where "List.find (\<lambda>r. o_key r = key) rows = Some r" "rows' = rows"
      "o_kind r = kind" "o_payload r = payload" "o_chat_id r = chat" "o_job_id r = jid"
      "res = \<lparr>er_id = o_id r, er_created = False\<rparr>"
proof (cases "List.find (\<lambda>r. o_key r = key) rows")
  case None
  with assms created show ?thesis by (auto simp: enqueue_outbox_def py)
next
  case (Some r)
  with assms same [OF Some] show ?thesis
    by (auto simp: enqueue_outbox_def py split: if_splits)
qed

lemma enqueue_outbox_ok:
  assumes "enqueue_outbox clk kind key payload chat jid avail m rows = Inr (rows', res)"
    and "outbox_ok rows"
  shows "outbox_ok rows'"
  using assms(1)
proof (cases rule: enqueue_outboxE)
  case created
  then have "key \<notin> o_key ` set rows" by (auto simp: find_None_set)
  with created assms(2) show ?thesis
    using keyed_insert [of o_id rows]
    by (auto simp: fresh_outbox_def outbox_ok_def outbox_row_ok_def)
qed (use assms(2) in simp)

lemma claim_due_outboxE:
  assumes "claim_due_outbox clock lease rows = Inr (rows', Some c)"
  obtains r where "r \<in> set (fail_exhausted_outbox (instant_of clock) rows)"
    and "outbox_eligible (instant_of clock) r"
    and "\<forall>r' \<in> set (fail_exhausted_outbox (instant_of clock) rows).
           outbox_eligible (instant_of clock) r' \<longrightarrow> outbox_order r \<le> outbox_order r'"
    and "rows' = upd_where (\<lambda>r'. o_id r' = o_id r \<and> outbox_eligible (instant_of clock) r')
           (lease_outbox (instant_of clock + lease))
           (fail_exhausted_outbox (instant_of clock) rows)"
    and "c = claim_of_outbox (dt_add clock lease) (lease_outbox (instant_of clock + lease) r)"
proof -
  from assms obtain r where
    f: "first_by outbox_order (outbox_eligible (instant_of clock))
          (fail_exhausted_outbox (instant_of clock) rows) = Some r"
    and rest: "rows' = upd_where (\<lambda>r'. o_id r' = o_id r \<and> outbox_eligible (instant_of clock) r')
           (lease_outbox (instant_of clock + lease))
           (fail_exhausted_outbox (instant_of clock) rows)"
      "c = claim_of_outbox (dt_add clock lease) (lease_outbox (instant_of clock + lease) r)"
    by (auto simp: claim_due_outbox_def py Let_def split: option.splits)
  show ?thesis using that [of r] first_by_Some [OF f] rest by blast
qed

lemma claim_due_outbox_NoneE:
  assumes "claim_due_outbox clock lease rows = Inr (rows', None)"
  shows "rows' = fail_exhausted_outbox (instant_of clock) rows"
    and "\<And>r. r \<in> set rows' \<Longrightarrow> \<not> outbox_eligible (instant_of clock) r"
  using assms by (auto simp: claim_due_outbox_def py Let_def first_by_None split: option.splits)

lemma lease_outbox_row_ok:
  "outbox_row_ok r \<Longrightarrow> outbox_eligible now r \<Longrightarrow> outbox_row_ok (lease_outbox t r)"
  by (auto simp: outbox_row_ok_def outbox_eligible_def lease_outbox_def)

lemma claim_due_outbox_ok:
  assumes "claim_due_outbox clock lease rows = Inr (rows', c)" and "outbox_ok rows"
  shows "outbox_ok rows'"
proof (cases c)
  case None
  with assms claim_due_outbox_NoneE(1) fail_exhausted_outbox_ok show ?thesis by blast
next
  case (Some d)
  show ?thesis using assms(1) unfolding Some
    by (rule claim_due_outboxE)
      (auto intro!: outbox_ok_upd fail_exhausted_outbox_ok assms(2) lease_outbox_row_ok
        simp: lease_outbox_def [of _ "_ :: 'a outbox_row"])
qed

text \<open>Both ways a send ends touch only the row that still carries the claimed attempt.\<close>

lemma sent_outboxE:
  assumes "sent_outbox clock c mid rows = Inr (rows', b)"
  obtains f where "rows' = upd_where (sending_as c) f rows" "b = list_ex (sending_as c) rows"
    "\<And>r. o_id (f r) = o_id r" "\<And>r. o_key (f r) = o_key r"
    "\<And>r. o_max_attempts (f r) = o_max_attempts r" "\<And>r. o_attempts (f r) = o_attempts r"
    "\<And>r. o_status (f r) = OSent" "\<And>r. outbox_row_ok r \<Longrightarrow> outbox_row_ok (f r)"
  using assms by (auto simp: sent_outbox_def py Let_def outbox_row_ok_def)

lemma fail_outboxE:
  assumes "fail_outbox q clock c error rows = Inr (rows', b)"
  obtains f where "rows' = upd_where (sending_as c) f rows" "b = list_ex (sending_as c) rows"
    "\<And>r. o_id (f r) = o_id r" "\<And>r. o_key (f r) = o_key r"
    "\<And>r. o_max_attempts (f r) = o_max_attempts r" "\<And>r. o_attempts (f r) = o_attempts r"
    "\<And>r. o_status (f r) = (if oc_max_attempts c \<le> oc_attempt c then OFailed else OPending)"
  using assms by (auto simp: fail_outbox_def py Let_def)

section \<open>Interleavings\<close>

text \<open>Committed transactions of any number of producers and senders.\<close>

record 'p outbox_sys =
  ob_rows :: "'p outbox_row list"
  ob_claims :: "'p outbox_claim set"

inductive outbox_step :: "'p outbox_sys \<Rightarrow> qlabel \<Rightarrow> 'p outbox_sys \<Rightarrow> bool" where
  ob_produce: "enqueue_outbox clk kind key payload chat jid avail m (ob_rows s) = Inr (rows', res) \<Longrightarrow>
    outbox_step s Quiet (s\<lparr>ob_rows := rows'\<rparr>)"
| ob_none: "claim_due_outbox clock lease (ob_rows s) = Inr (rows', None) \<Longrightarrow>
    outbox_step s Quiet (s\<lparr>ob_rows := rows'\<rparr>)"
| ob_some: "claim_due_outbox clock lease (ob_rows s) = Inr (rows', Some c) \<Longrightarrow>
    outbox_step s (Issue (oc_id c) (oc_attempt c))
      (s\<lparr>ob_rows := rows', ob_claims := insert c (ob_claims s)\<rparr>)"
| ob_sent: "c \<in> ob_claims s \<Longrightarrow> sent_outbox clock c mid (ob_rows s) = Inr (rows', b) \<Longrightarrow>
    outbox_step s (if b then Settle (oc_id c) (oc_attempt c) else Quiet) (s\<lparr>ob_rows := rows'\<rparr>)"
| ob_fail: "c \<in> ob_claims s \<Longrightarrow> fail_outbox q clock c error (ob_rows s) = Inr (rows', b) \<Longrightarrow>
    outbox_step s (if b then Settle (oc_id c) (oc_attempt c) else Quiet) (s\<lparr>ob_rows := rows'\<rparr>)"

definition send_known :: "'p outbox_row list \<Rightarrow> 'p outbox_claim \<Rightarrow> bool" where
  "send_known rows c \<longleftrightarrow> (\<exists>r \<in> set rows. o_id r = oc_id c
     \<and> o_max_attempts r = oc_max_attempts c \<and> oc_attempt c \<le> o_attempts r)"

definition outbox_sys_ok :: "'p outbox_sys \<Rightarrow> bool" where
  "outbox_sys_ok s \<longleftrightarrow> outbox_ok (ob_rows s) \<and> (\<forall>c \<in> ob_claims s. send_known (ob_rows s) c)"

fun outbox_phase :: "outbox_status \<Rightarrow> phase" where
  "outbox_phase OPending = Ready"
| "outbox_phase OSending = Leased"
| "outbox_phase _ = Finished"

definition outbox_lview :: "'p outbox_row \<Rightarrow> lview" where
  "outbox_lview r =
     \<lparr>tries = o_attempts r, limit = o_max_attempts r, phase = outbox_phase (o_status r)\<rparr>"

definition outbox_view :: "'p outbox_sys \<Rightarrow> int \<Rightarrow> lview option" where
  "outbox_view s i = map_option outbox_lview (row_at o_id i (ob_rows s))"

lemma outbox_phase_eq [simp]:
  "outbox_phase st = Ready \<longleftrightarrow> st = OPending"
  "outbox_phase st = Leased \<longleftrightarrow> st = OSending"
  "outbox_phase st = Finished \<longleftrightarrow> st \<noteq> OPending \<and> st \<noteq> OSending"
  by (cases st; simp)+

lemma send_known_upd:
  assumes "send_known rows c"
    and "\<And>r. P r \<Longrightarrow> o_id (f r) = o_id r \<and> o_max_attempts (f r) = o_max_attempts r
           \<and> o_attempts r \<le> o_attempts (f r)"
  shows "send_known (upd_where P f rows) c"
proof -
  from assms(1) obtain r where "r \<in> set rows" "o_id r = oc_id c"
      "o_max_attempts r = oc_max_attempts c" "oc_attempt c \<le> o_attempts r"
    by (auto simp: send_known_def)
  moreover from this have "(if P r then f r else r) \<in> set (upd_where P f rows)"
    by (auto simp: set_upd_where)
  ultimately show ?thesis
    using assms(2) [of r] unfolding send_known_def by (intro bexI) auto
qed

lemma send_limit:
  "outbox_ok rows \<Longrightarrow> send_known rows c \<Longrightarrow> r \<in> set rows \<Longrightarrow> o_id r = oc_id c \<Longrightarrow>
     o_max_attempts r = oc_max_attempts c"
  unfolding send_known_def outbox_ok_def using keyed_unique by metis

lemma fail_outbox_ok:
  assumes "fail_outbox q clock c error rows = Inr (rows', b)"
    and "outbox_ok rows" and "send_known rows c"
  shows "outbox_ok rows'"
proof -
  have "\<forall>r \<in> set rows. o_id r = oc_id c \<longrightarrow> o_max_attempts r = oc_max_attempts c"
    using assms(2,3) send_limit by blast
  with assms(1,2) show ?thesis
    by (auto simp: fail_outbox_def py Let_def sending_as_def outbox_row_ok_def intro!: outbox_ok_upd)
qed

lemma lmove_outbox_sweep:
  assumes "keyed o_id rows"
  shows "lmove Quiet i (map_option outbox_lview (row_at o_id i rows))
    (map_option outbox_lview (row_at o_id i (fail_exhausted_outbox now rows)))"
proof -
  have "lmove Quiet (o_id r) (Some (outbox_lview r))
      (Some (outbox_lview (r\<lparr>o_status := OFailed, o_available_at := t, o_last_error := e\<rparr>)))"
    if "o_status r = OSending" "o_max_attempts r \<le> o_attempts r" for r :: "'a outbox_row" and t e
    using that lmove.expire [of Quiet "o_id r" "outbox_lview r"] by (auto simp: outbox_lview_def)
  then show ?thesis
    unfolding fail_exhausted_outbox_def by (intro lmove_upd_where assms) auto
qed

lemma outbox_sweep_row:
  "row_at o_id i (fail_exhausted_outbox now rows) = Some r \<Longrightarrow> outbox_eligible t r \<Longrightarrow>
     row_at o_id i rows = Some r"
  by (auto simp: fail_exhausted_outbox_def row_at_upd_where outbox_eligible_def split: if_splits)

lemma lmove_outbox_claim:
  assumes "outbox_ok rows" and "claim_due_outbox clock lease rows = Inr (rows', Some c)"
  shows "lmove (Issue (oc_id c) (oc_attempt c)) i (map_option outbox_lview (row_at o_id i rows))
    (map_option outbox_lview (row_at o_id i rows'))"
proof -
  let ?now = "instant_of clock"
  let ?swept = "fail_exhausted_outbox ?now rows"
  let ?lease = "lease_outbox (?now + lease)"
  obtain r where r: "r \<in> set ?swept" "outbox_eligible ?now r"
      "\<forall>r' \<in> set ?swept. outbox_eligible ?now r' \<longrightarrow> outbox_order r \<le> outbox_order r'"
    and j: "rows' = upd_where (\<lambda>r'. o_id r' = o_id r \<and> outbox_eligible ?now r') ?lease ?swept"
    and c: "c = claim_of_outbox (dt_add clock lease) (?lease r)"
    using assms(2) by (rule claim_due_outboxE)
  have keyed: "keyed o_id rows" "keyed o_id ?swept"
    using assms(1) fail_exhausted_outbox_ok by (auto simp: outbox_ok_def)
  have at: "row_at o_id i rows' = map_option
      (\<lambda>x. if o_id x = o_id r \<and> outbox_eligible ?now x then ?lease x else x)
      (row_at o_id i ?swept)"
    unfolding j by (rule row_at_upd_where) (simp add: lease_outbox_def)
  show ?thesis
  proof (cases "i = o_id r")
    case True
    have s: "row_at o_id i ?swept = Some r" using r(1) True keyed row_at_in by auto
    moreover from s r(2) have "row_at o_id i rows = Some r" by (rule outbox_sweep_row)
    moreover have "row_at o_id i rows' = Some (?lease r)" using s r(2) by (simp add: at)
    ultimately show ?thesis
      using r(2) True lmove.issue [of "outbox_lview r" i]
      by (auto simp: c claim_of_outbox_def lease_outbox_def outbox_lview_def outbox_eligible_def)
  next
    case False
    have "row_at o_id i rows' = row_at o_id i ?swept"
      using False by (cases "row_at o_id i ?swept") (auto simp: at dest: row_at_Some)
    moreover have "lmove (Issue (oc_id c) (oc_attempt c)) i v v'" if "lmove Quiet i v v'" for v v'
      using that False
      by (cases rule: lmove.cases) (auto intro: lmove.intros
          simp: c claim_of_outbox_def lease_outbox_def)
    ultimately show ?thesis using lmove_outbox_sweep [OF keyed(1)] by metis
  qed
qed

lemma lmove_outbox_settle:
  assumes ok: "outbox_ok rows" "send_known rows c"
    and rows': "rows' = upd_where (sending_as c) f rows" and b: "b = list_ex (sending_as c) rows"
    and f: "\<And>r. o_id (f r) = o_id r" "\<And>r. o_max_attempts (f r) = o_max_attempts r"
      "\<And>r. o_attempts (f r) = o_attempts r" "\<And>r. o_status (f r) = st"
    and st: "st \<noteq> OSending" "st = OPending \<Longrightarrow> oc_attempt c < oc_max_attempts c"
  shows "lmove (if b then Settle (oc_id c) (oc_attempt c) else Quiet) i
    (map_option outbox_lview (row_at o_id i rows)) (map_option outbox_lview (row_at o_id i rows'))"
  unfolding rows'
proof (rule lmove_upd_where)
  show keyed: "keyed o_id rows" using ok(1) by (simp add: outbox_ok_def)
  fix r assume r: "r \<in> set rows"
  show "\<not> about (if b then Settle (oc_id c) (oc_attempt c) else Quiet) (o_id r)"
    if "\<not> sending_as c r"
  proof
    assume "about (if b then Settle (oc_id c) (oc_attempt c) else Quiet) (o_id r)"
    then have "b" "o_id r = oc_id c" by (auto split: if_splits)
    then obtain r' where "r' \<in> set rows" "sending_as c r'" "o_id r' = o_id r"
      using b by (auto simp: list_ex_iff sending_as_def)
    with keyed r have "sending_as c r" by (metis keyed_unique)
    with that show False by simp
  qed
  assume s: "sending_as c r"
  have "b" using s r b by (auto simp: list_ex_iff)
  have lim: "o_max_attempts r = oc_max_attempts c"
    using send_limit [OF ok r] s by (simp add: sending_as_def)
  have v': "outbox_lview (f r) = (outbox_lview r)\<lparr>phase := outbox_phase st\<rparr>"
    by (simp add: outbox_lview_def f)
  show "lmove (if b then Settle (oc_id c) (oc_attempt c) else Quiet) (o_id r)
      (Some (outbox_lview r)) (Some (outbox_lview (f r)))"
  proof (cases "st = OPending")
    case True
    then show ?thesis using lmove.retry [of "outbox_lview r" "o_id r"] s st(2) lim \<open>b\<close>
      unfolding v' by (simp add: outbox_lview_def sending_as_def)
  next
    case False
    then have ph: "outbox_phase st = Finished" using st(1) by simp
    show ?thesis using lmove.settle [of "outbox_lview r" "o_id r"] s \<open>b\<close>
      unfolding v' ph by (simp add: outbox_lview_def sending_as_def)
  qed
qed (auto simp: f b list_ex_iff sending_as_def split: if_splits intro: rev_image_eqI)

lemma outbox_step_lmove:
  assumes "outbox_sys_ok s" and "outbox_step s l s'"
  shows "lmove l i (outbox_view s i) (outbox_view s' i)"
  using assms(2,1)
proof (induction rule: outbox_step.induct)
  case (ob_produce clk kind key payload chat jid avail m s rows' res)
  from ob_produce.hyps show ?case
    by (cases rule: enqueue_outboxE)
      (auto simp: outbox_view_def row_at_snoc fresh_outbox_def outbox_lview_def
        split: option.splits intro: lmove.intros)
next
  case (ob_none clock lease s rows')
  have "keyed o_id (ob_rows s)" using ob_none.prems by (simp add: outbox_sys_ok_def outbox_ok_def)
  then show ?case
    using lmove_outbox_sweep claim_due_outbox_NoneE(1) [OF ob_none.hyps]
    by (auto simp: outbox_view_def)
next
  case (ob_some clock lease s rows' c)
  then show ?case using lmove_outbox_claim [of "ob_rows s" clock lease rows' c i]
    by (simp add: outbox_view_def outbox_sys_ok_def)
next
  case (ob_sent c s clock mid rows' b)
  then have ok: "outbox_ok (ob_rows s)" "send_known (ob_rows s) c" by (auto simp: outbox_sys_ok_def)
  from ob_sent.hyps(2) have "lmove (if b then Settle (oc_id c) (oc_attempt c) else Quiet) i
      (map_option outbox_lview (row_at o_id i (ob_rows s)))
      (map_option outbox_lview (row_at o_id i rows'))"
    by (rule sent_outboxE) (rule lmove_outbox_settle [OF ok], assumption+, simp_all)
  then show ?case by (simp add: outbox_view_def)
next
  case (ob_fail c s q clock error rows' b)
  then have ok: "outbox_ok (ob_rows s)" "send_known (ob_rows s) c" by (auto simp: outbox_sys_ok_def)
  from ob_fail.hyps(2) have "lmove (if b then Settle (oc_id c) (oc_attempt c) else Quiet) i
      (map_option outbox_lview (row_at o_id i (ob_rows s)))
      (map_option outbox_lview (row_at o_id i rows'))"
    by (rule fail_outboxE) (rule lmove_outbox_settle [OF ok], assumption+, simp_all split: if_splits)
  then show ?case by (simp add: outbox_view_def)
qed

lemma outbox_sys_ok_step:
  assumes "outbox_sys_ok s" and "outbox_step s l s'"
  shows "outbox_sys_ok s'"
  using assms(2,1)
proof (induction rule: outbox_step.induct)
  case (ob_produce clk kind key payload chat jid avail m s rows' res)
  have "outbox_ok rows'"
    using ob_produce by (auto simp: outbox_sys_ok_def intro: enqueue_outbox_ok)
  moreover have "set (ob_rows s) \<subseteq> set rows'"
    using ob_produce.hyps by (cases rule: enqueue_outboxE) auto
  ultimately show ?case
    using ob_produce.prems unfolding outbox_sys_ok_def send_known_def by (simp, blast)
next
  case (ob_none clock lease s rows')
  then show ?case
    using claim_due_outbox_NoneE(1) [OF ob_none.hyps] fail_exhausted_outbox_ok
    by (auto simp: outbox_sys_ok_def fail_exhausted_outbox_def intro: send_known_upd)
next
  case (ob_some clock lease s rows' c)
  have "outbox_ok rows'" using ob_some claim_due_outbox_ok by (auto simp: outbox_sys_ok_def)
  moreover obtain r where r: "r \<in> set (fail_exhausted_outbox (instant_of clock) (ob_rows s))"
      "outbox_eligible (instant_of clock) r"
      "\<forall>r' \<in> set (fail_exhausted_outbox (instant_of clock) (ob_rows s)).
         outbox_eligible (instant_of clock) r' \<longrightarrow> outbox_order r \<le> outbox_order r'"
    and j: "rows' = upd_where (\<lambda>r'. o_id r' = o_id r \<and> outbox_eligible (instant_of clock) r')
         (lease_outbox (instant_of clock + lease))
         (fail_exhausted_outbox (instant_of clock) (ob_rows s))"
    and c: "c = claim_of_outbox (dt_add clock lease) (lease_outbox (instant_of clock + lease) r)"
    using ob_some.hyps by (rule claim_due_outboxE)
  moreover have "send_known rows' c"
    unfolding send_known_def j c set_upd_where using r(1,2)
    by (intro bexI [of _ "lease_outbox (instant_of clock + lease) r"])
      (auto simp: claim_of_outbox_def lease_outbox_def)
  moreover have "send_known rows' d" if "d \<in> ob_claims s" for d
    unfolding j fail_exhausted_outbox_def using that ob_some.prems
    by (intro send_known_upd) (auto simp: outbox_sys_ok_def lease_outbox_def)
  ultimately show ?case by (auto simp: outbox_sys_ok_def)
next
  case (ob_sent c s clock mid rows' b)
  then have ok: "outbox_ok (ob_rows s)" "\<And>d. d \<in> ob_claims s \<Longrightarrow> send_known (ob_rows s) d"
    by (auto simp: outbox_sys_ok_def)
  from ob_sent.hyps(2) show ?case
    by (rule sent_outboxE)
      (auto simp: outbox_sys_ok_def intro!: outbox_ok_upd [OF ok(1)] send_known_upd ok(2))
next
  case (ob_fail c s q clock error rows' b)
  then have ok: "outbox_ok (ob_rows s)" "\<And>d. d \<in> ob_claims s \<Longrightarrow> send_known (ob_rows s) d"
    by (auto simp: outbox_sys_ok_def)
  have "outbox_ok rows'" using ob_fail.hyps(2) ok(1) ok(2) [OF ob_fail.hyps(1)] by (rule fail_outbox_ok)
  moreover have "send_known rows' d" if "d \<in> ob_claims s" for d
    using ob_fail.hyps(2) by (rule fail_outboxE) (auto intro!: send_known_upd ok(2) that)
  ultimately show ?case by (auto simp: outbox_sys_ok_def)
qed

lemma outbox_view_row_ok: "outbox_sys_ok s \<Longrightarrow> outbox_view s i = Some v \<Longrightarrow> row_ok v"
  by (auto simp: outbox_view_def outbox_sys_ok_def outbox_ok_def outbox_row_ok_def row_ok_def
      outbox_lview_def dest!: row_at_Some)

interpretation outq: leased_queue outbox_view outbox_sys_ok outbox_step
  by unfold_locales (auto intro: outbox_sys_ok_step outbox_step_lmove outbox_view_row_ok)

end
