(* ===== verification/Workers.thy ===== *)
theory Workers
  imports JobQueue OutboxQueue
begin

text \<open>
  \<open>jobs/worker.py\<close>: one pass of a job worker and of an outbox worker. What the handler
  (or the Telegram sender) does is a parameter: it may change the table through other
  transactions while it runs, and it returns, raises or is cancelled. The polling loops
  \<open>run\<close> repeat these passes.
\<close>

datatype 'm outcome = Returned 'm | Raised pystr | Cancelled

datatype tick = Idle | Worked | Interrupted

datatype worker_error = BadPollInterval | NoHandlers

definition new_job_worker ::
  "(pystr \<times> 'h) list \<Rightarrow> 'n::{zero,linorder} \<Rightarrow> worker_error + (pystr \<times> 'h) list" where
  "new_job_worker handlers poll_interval =
     and_then (guard (\<not> poll_interval \<le> 0) BadPollInterval) (\<lambda>_.
     and_then (guard (handlers \<noteq> []) NoHandlers) (\<lambda>_. Inr handlers))"

type_synonym 'p job_handler = "'p job_claim \<Rightarrow> 'p job list \<Rightarrow> 'p job list \<times> unit outcome"

text \<open>What follows the handler: an exception fails the claim, a cancellation leaves its lease.\<close>

definition settle_job ::
  "job_queue \<Rightarrow> pydt \<Rightarrow> 'p job_claim \<Rightarrow> 'p job list \<times> unit outcome
     \<Rightarrow> 'p job list \<times> (queue_error + tick)" where
  "settle_job q clock claim = (\<lambda>(jobs, result).
     case result of
       Cancelled \<Rightarrow> (jobs, Inr Interrupted)
     | Raised error \<Rightarrow>
         (case fail_job q clock claim error jobs of
            Inl e \<Rightarrow> (jobs, Inl e) | Inr (jobs', _) \<Rightarrow> (jobs', Inr Worked))
     | Returned _ \<Rightarrow>
         (case succeed_job q clock claim jobs of
            Inl e \<Rightarrow> (jobs, Inl e) | Inr (jobs', _) \<Rightarrow> (jobs', Inr Worked)))"

definition job_run_once ::
  "job_queue \<Rightarrow> (pystr \<times> 'p job_handler) list \<Rightarrow> int \<Rightarrow> (nat \<Rightarrow> pydt) \<Rightarrow> 'p job list
     \<Rightarrow> 'p job list \<times> (queue_error + tick)" where
  "job_run_once q handlers lease clk jobs =
     (case claim_due_job q (clk 0) lease (Some (map fst handlers)) jobs of
        Inl e \<Rightarrow> (jobs, Inl e)
      | Inr (jobs1, None) \<Rightarrow> (jobs1, Inr Idle)
      | Inr (jobs1, Some claim) \<Rightarrow>
          settle_job q (clk 1) claim
            (case map_of handlers (jc_kind claim) of
               None \<Rightarrow> (jobs1, Raised (u ''UnknownJobKindError''))
             | Some handler \<Rightarrow> handler claim jobs1))"

type_synonym 'p sender =
  "'p outbox_claim \<Rightarrow> 'p outbox_row list \<Rightarrow> 'p outbox_row list \<times> int option outcome"

definition settle_outbox ::
  "outbox_queue \<Rightarrow> pydt \<Rightarrow> 'p outbox_claim \<Rightarrow> 'p outbox_row list \<times> int option outcome
     \<Rightarrow> 'p outbox_row list \<times> (queue_error + tick)" where
  "settle_outbox q clock claim = (\<lambda>(rows, result).
     case result of
       Cancelled \<Rightarrow> (rows, Inr Interrupted)
     | Raised error \<Rightarrow>
         (case fail_outbox q clock claim error rows of
            Inl e \<Rightarrow> (rows, Inl e) | Inr (rows', _) \<Rightarrow> (rows', Inr Worked))
     | Returned telegram_message_id \<Rightarrow>
         (case sent_outbox clock claim telegram_message_id rows of
            Inl e \<Rightarrow> (rows, Inl e) | Inr (rows', _) \<Rightarrow> (rows', Inr Worked)))"

definition outbox_run_once ::
  "outbox_queue \<Rightarrow> 'p sender \<Rightarrow> int \<Rightarrow> (nat \<Rightarrow> pydt) \<Rightarrow> 'p outbox_row list
     \<Rightarrow> 'p outbox_row list \<times> (queue_error + tick)" where
  "outbox_run_once q send lease clk rows =
     (case claim_due_outbox (clk 0) lease rows of
        Inl e \<Rightarrow> (rows, Inl e)
      | Inr (rows1, None) \<Rightarrow> (rows1, Inr Idle)
      | Inr (rows1, Some claim) \<Rightarrow> settle_outbox q (clk 1) claim (send claim rows1))"

section \<open>Lemmas\<close>

lemma claimed_kind_registered:
  assumes "claim_due_job q clock lease (Some ks) jobs = Inr (jobs', Some c)"
  shows "jc_kind c \<in> set ks"
  using assms by (rule claim_due_jobE)
    (auto simp: job_eligible_def in_kinds_def claim_of_job_def lease_job_def)

text \<open>
  The worker contract: a pass is a run of the queue's own transactions, provided the
  handler, too, reaches the table only through them.
\<close>

definition fair_handler :: "'p job_handler \<Rightarrow> bool" where
  "fair_handler h \<longleftrightarrow> (\<forall>c s. c \<in> q_claims s \<longrightarrow>
     (\<exists>ls s'. jobq.run s ls s' \<and> q_jobs s' = fst (h c (q_jobs s)) \<and> c \<in> q_claims s'))"

lemma settle_job_runs:
  assumes "c \<in> q_claims s"
  shows "\<exists>ls s'. jobq.run s ls s' \<and> q_jobs s' = fst (settle_job q clock c (q_jobs s, result))"
proof -
  have one: "jobq.run s [l] s'" if "job_step s l s'" for l s'
    using that by (auto intro: jobq.run.intros)
  show ?thesis
  proof (cases result)
    case (Returned x)
    show ?thesis
    proof (cases "succeed_job q clock c (q_jobs s)")
      case (Inl e)
      then show ?thesis using Returned
        by (auto simp: settle_job_def intro!: exI [of _ s] exI jobq.run_Nil)
    next
      case (Inr rb)
      obtain jobs' b where rb: "rb = (jobs', b)" by (cases rb)
      show ?thesis using one [OF job_step.finish [OF assms, of q clock jobs' b]] Inr Returned rb
        by (auto simp: settle_job_def intro!: exI)
    qed
  next
    case (Raised err)
    show ?thesis
    proof (cases "fail_job q clock c err (q_jobs s)")
      case (Inl e)
      then show ?thesis using Raised
        by (auto simp: settle_job_def intro!: exI [of _ s] exI jobq.run_Nil)
    next
      case (Inr rb)
      obtain jobs' b where rb: "rb = (jobs', b)" by (cases rb)
      show ?thesis using one [OF job_step.break_off [OF assms, of q clock err jobs' b]] Inr Raised rb
        by (auto simp: settle_job_def intro!: exI)
    qed
  next
    case Cancelled
    then show ?thesis by (auto simp: settle_job_def intro!: exI [of _ s] exI jobq.run_Nil)
  qed
qed

lemma job_run_once_runs:
  fixes s :: "'p queue_sys"
  assumes fair: "\<And>k h. (k, h) \<in> set handlers \<Longrightarrow> fair_handler h"
  shows "\<exists>ls s'. jobq.run s ls s' \<and> q_jobs s' = fst (job_run_once q handlers lease clk (q_jobs s))"
proof (cases "claim_due_job q (clk 0) lease (Some (map fst handlers)) (q_jobs s)")
  case (Inl e)
  then show ?thesis by (auto simp: job_run_once_def intro!: exI [of _ s] exI jobq.run_Nil)
next
  case (Inr r)
  obtain jobs1 oc where r: "r = (jobs1, oc)" by (cases r)
  show ?thesis
  proof (cases oc)
    case None
    then have "job_step s Quiet (s\<lparr>q_jobs := jobs1\<rparr>)"
      using Inr r job_step.claim_none by blast
    then have "jobq.run s [Quiet] (s\<lparr>q_jobs := jobs1\<rparr>)" by (auto intro: jobq.run.intros)
    then show ?thesis using Inr r None by (auto simp: job_run_once_def intro!: exI)
  next
    case (Some c)
    define s1 where "s1 = s\<lparr>q_jobs := jobs1, q_claims := insert c (q_claims s)\<rparr>"
    have claim: "claim_due_job q (clk 0) lease (Some (map fst handlers)) (q_jobs s) = Inr (jobs1, Some c)"
      using Inr r Some by simp
    then have step1: "job_step s (Issue (jc_id c) (jc_attempt c)) s1"
      unfolding s1_def by (rule job_step.claim_some)
    from claimed_kind_registered [OF claim] obtain h where h: "map_of handlers (jc_kind c) = Some h"
      by (cases "map_of handlers (jc_kind c)") (auto simp: map_of_eq_None_iff)
    then have "fair_handler h" using fair map_of_SomeD by fastforce
    moreover have "c \<in> q_claims s1" "q_jobs s1 = jobs1" by (simp_all add: s1_def)
    ultimately obtain ls s2 where run2: "jobq.run s1 ls s2"
      and s2: "q_jobs s2 = fst (h c jobs1)" "c \<in> q_claims s2"
      unfolding fair_handler_def by metis
    have "jobq.run s (Issue (jc_id c) (jc_attempt c) # ls) s2"
      using step1 run2 by (rule jobq.run_Cons)
    moreover obtain ls3 s3 where "jobq.run s2 ls3 s3"
      "q_jobs s3 = fst (settle_job q (clk 1) c (q_jobs s2, snd (h c jobs1)))"
      using settle_job_runs [OF s2(2)] by metis
    ultimately show ?thesis
      using jobq.run_append claim h s2(1) by (fastforce simp: job_run_once_def)
  qed
qed

text \<open>A pass that finds no due row leaves the message table swept and reports no work.\<close>

lemma outbox_run_once_idle:
  "outbox_run_once q send lease clk rows = (rows', Inr Idle) \<Longrightarrow>
     rows' = fail_exhausted_outbox (instant_of (clk 0)) rows \<and>
     (\<forall>r \<in> set rows'. \<not> outbox_eligible (instant_of (clk 0)) r)"
  using claim_due_outbox_NoneE
  by (fastforce simp: outbox_run_once_def settle_outbox_def split: sum.splits prod.splits
      option.splits outcome.splits)

end
