(* ===== verification/QueueProperties.thy ===== *)
theory QueueProperties
  imports Workers
begin

text \<open>
  The properties of the durable queues: the attempt bound and key uniqueness in every
  reachable table, claims and outcomes that count at most once under any interleaving,
  fencing of stale holders, finality of finished rows, the choice \<open>claim_due\<close> makes,
  idempotent admission, the back-off, and the worker pass as a run of the queue.
\<close>

section \<open>Lemmas on single operations\<close>

lemma eligible_sweep:
  "r \<in> set (fail_exhausted_jobs now kinds jobs) \<and> job_eligible now' ks r \<longleftrightarrow>
     r \<in> set jobs \<and> job_eligible now' ks r"
proof
  assume *: "r \<in> set (fail_exhausted_jobs now kinds jobs) \<and> job_eligible now' ks r"
  then show "r \<in> set jobs \<and> job_eligible now' ks r"
    by (auto simp: fail_exhausted_jobs_def set_upd_where job_eligible_def split: if_splits)
next
  assume *: "r \<in> set jobs \<and> job_eligible now' ks r"
  then have "\<not> j_max_attempts r \<le> j_attempts r" by (simp add: job_eligible_def)
  with * show "r \<in> set (fail_exhausted_jobs now kinds jobs) \<and> job_eligible now' ks r"
    unfolding fail_exhausted_jobs_def set_upd_where by (auto intro!: rev_image_eqI [of r])
qed

lemma upd_where_keeps: "r \<in> set rows \<Longrightarrow> \<not> P r \<Longrightarrow> r \<in> set (upd_where P f rows)"
  by (auto simp: set_upd_where intro: rev_image_eqI)

lemma finished_job_stays:
  assumes "queue_ok s" and "job_step s l s'"
    and "r \<in> set (q_jobs s)" and "j_status r \<noteq> JPending" "j_status r \<noteq> JRunning"
  shows "r \<in> set (q_jobs s')"
  using assms(2,1,3-)
proof (induction rule: job_step.induct)
  case (produce clk kind key payload run_at m ext s jobs' res)
  from produce.hyps show ?case
  proof (cases rule: enqueue_jobE)
    case created
    then show ?thesis using produce.prems(2) by simp
  next
    case (deferred x t t')
    then have "x \<in> set (q_jobs s)" by (auto dest: find_Some_set)
    then have "job_id r \<noteq> job_id x"
      using produce.prems deferred(3) keyed_unique by (fastforce simp: queue_ok_def jobs_ok_def)
    then show ?thesis unfolding deferred(7) using produce.prems(2) by (simp add: upd_where_keeps)
  qed (use produce.prems(2) in simp)
next
  case (claim_none q clock lease kinds s jobs')
  then show ?case using claim_due_job_NoneE(1) [OF claim_none.hyps]
    by (simp add: fail_exhausted_jobs_def upd_where_keeps)
next
  case (claim_some q clock lease kinds s jobs' c)
  from claim_some.hyps have "r \<in> set jobs'"
    by (rule claim_due_jobE)
      (use claim_some.prems in \<open>simp add: fail_exhausted_jobs_def upd_where_keeps job_eligible_def\<close>)
  then show ?case by simp
next
  case (finish c s q clock jobs' b)
  from finish.hyps(2) have "r \<in> set jobs'"
    by (rule succeed_jobE) (use finish.prems in \<open>simp add: upd_where_keeps held_by_def\<close>)
  then show ?case by simp
next
  case (break_off c s q clock error jobs' b)
  from break_off.hyps(2) have "r \<in> set jobs'"
    by (rule fail_jobE) (use break_off.prems in \<open>simp add: upd_where_keeps held_by_def\<close>)
  then show ?case by simp
qed

lemma finished_job_run:
  assumes "jobq.run s ls s'" and "queue_ok s" and "r \<in> set (q_jobs s)"
    and "j_status r \<noteq> JPending" "j_status r \<noteq> JRunning"
  shows "r \<in> set (q_jobs s')"
  using assms
  by (induction rule: jobq.run.induct) (auto dest: finished_job_stays queue_ok_step)

section \<open>A concrete run\<close>

text \<open>One job is admitted, claimed and finished; the run the examples below refer to.\<close>

definition demo_queue :: job_queue where
  "demo_queue = \<lparr>jq_worker_id = u ''w'', jq_retry_base = 5 * second, jq_retry_cap = 15 * minute\<rparr>"

definition demo_row :: "nat job" where
  "demo_row = fresh_job [] (u ''k'') (u ''key'') 7 0 2 0 0"

definition demo_leased :: "nat job" where
  "demo_leased = lease_job (u ''w'') 0 (60 * second) demo_row"

definition demo_claim :: "nat job_claim" where
  "demo_claim = claim_of_job (dt_add (utc_at 0) (60 * second)) demo_leased"

definition demo_done :: "nat job" where
  "demo_done = demo_leased\<lparr>j_status := JSucceeded, completed_at := Some 1, j_updated_at := 1,
     locked_at := None, locked_until := None, locked_by := None, j_last_error := None\<rparr>"

lemmas demo_defs = demo_queue_def demo_row_def demo_leased_def demo_claim_def demo_done_def
  fresh_job_def lease_job_def claim_of_job_def

lemma demo_enqueue:
  "enqueue_job (\<lambda>_. utc_at 0) (u ''k'') (u ''key'') 7 None 2 False [] =
     Inr ([demo_row], \<lparr>er_id = 1, er_created = True\<rparr>)"
  by code_simp

lemma demo_claim_due:
  "claim_due_job demo_queue (utc_at 0) (60 * second) None [demo_row] =
     Inr ([demo_leased], Some demo_claim)"
  by code_simp

lemma demo_succeed:
  "succeed_job demo_queue (utc_at 1) demo_claim [demo_leased] = Inr ([demo_done], True)"
  by code_simp

lemma demo_run:
  "jobq.run \<lparr>q_jobs = [], q_claims = {}\<rparr> [Quiet, Issue 1 1, Settle 1 1]
     \<lparr>q_jobs = [demo_done], q_claims = {demo_claim}\<rparr>"
proof -
  have "job_step \<lparr>q_jobs = [], q_claims = {}\<rparr> Quiet \<lparr>q_jobs = [demo_row], q_claims = {}\<rparr>"
    using job_step.produce [of "\<lambda>_. utc_at 0" "u ''k''" "u ''key''" 7 None 2 False
        "\<lparr>q_jobs = [], q_claims = {}\<rparr>"] demo_enqueue by simp
  moreover have "job_step \<lparr>q_jobs = [demo_row], q_claims = {}\<rparr> (Issue 1 1)
      \<lparr>q_jobs = [demo_leased], q_claims = {demo_claim}\<rparr>"
    using job_step.claim_some [of demo_queue "utc_at 0" "60 * second" None
        "\<lparr>q_jobs = [demo_row], q_claims = {}\<rparr>"] demo_claim_due
    by (simp add: demo_defs next_id_def)
  moreover have "job_step \<lparr>q_jobs = [demo_leased], q_claims = {demo_claim}\<rparr> (Settle 1 1)
      \<lparr>q_jobs = [demo_done], q_claims = {demo_claim}\<rparr>"
    using job_step.finish [of demo_claim "\<lparr>q_jobs = [demo_leased], q_claims = {demo_claim}\<rparr>"
        demo_queue "utc_at 1"] demo_succeed
    by (simp add: demo_defs next_id_def)
  ultimately show ?thesis by (blast intro: jobq.run.intros)
qed


text \<open>The lease of the same job runs out, so a second worker takes attempt 2.\<close>

definition demo_other :: job_queue where
  "demo_other = \<lparr>jq_worker_id = u ''v'', jq_retry_base = 5 * second, jq_retry_cap = 15 * minute\<rparr>"

definition demo_released :: "nat job" where
  "demo_released = lease_job (u ''v'') (61 * second) (121 * second) demo_leased"

definition demo_second_claim :: "nat job_claim" where
  "demo_second_claim = claim_of_job (dt_add (utc_at (61 * second)) (60 * second)) demo_released"

lemma demo_claim_due_again:
  "claim_due_job demo_other (utc_at (61 * second)) (60 * second) None [demo_leased] =
     Inr ([demo_released], Some demo_second_claim)"
  by code_simp

lemma demo_queue_ok: "queue_ok \<lparr>q_jobs = [demo_leased], q_claims = {demo_claim}\<rparr>"
  by (simp add: queue_ok_def jobs_ok_def keyed_def job_row_ok_def claim_known_def demo_defs
      MAX_ATTEMPTS_def next_id_def)

lemma demo_reissue:
  "job_step \<lparr>q_jobs = [demo_leased], q_claims = {demo_claim}\<rparr> (Issue 1 2)
     \<lparr>q_jobs = [demo_released], q_claims = {demo_second_claim, demo_claim}\<rparr>"
  using job_step.claim_some [of demo_other "utc_at (61 * second)" "60 * second" None
      "\<lparr>q_jobs = [demo_leased], q_claims = {demo_claim}\<rparr>"] demo_claim_due_again
  by (simp add: demo_defs demo_second_claim_def demo_released_def next_id_def)

lemma demo_claim_numbers: "jc_id demo_claim = 1" "jc_attempt demo_claim = 1"
  by code_simp+

lemma demo_lease: "MIN_LEASE \<le> 60 * second" "60 * second \<le> MAX_LEASE"
  by (simp_all add: MIN_LEASE_def MAX_LEASE_def durations)

section \<open>Properties of the job queue\<close>

lemma empty_queue_ok: "queue_ok \<lparr>q_jobs = [], q_claims = {}\<rparr>"
  by (simp add: queue_ok_def)

text \<open>
  C15: In every job table reached from the empty one by any interleaving of producers and
  workers, no row exceeds its attempt limit (at most 100), a pending row has an attempt
  left, exactly the running rows are locked, finished rows carry a completion time, and
  row ids and idempotency keys are unique.
\<close>

theorem job_table_invariant:
  assumes "jobq.run \<lparr>q_jobs = [], q_claims = {}\<rparr> ls s"
  shows "distinct (map job_id (q_jobs s)) \<and> distinct (map j_key (q_jobs s)) \<and>
    (\<forall>r \<in> set (q_jobs s). 0 \<le> j_attempts r \<and> j_attempts r \<le> j_max_attempts r \<and>
       j_max_attempts r \<le> 100 \<and> (j_status r = JPending \<longrightarrow> j_attempts r < j_max_attempts r) \<and>
       (j_status r = JRunning \<longleftrightarrow> locked_by r \<noteq> None) \<and>
       (j_status r \<in> {JSucceeded, JFailed} \<longrightarrow> completed_at r \<noteq> None))"
proof -
  have "queue_ok s" using assms empty_queue_ok by (rule jobq.run_preserves_ok)
  then show ?thesis
    by (auto simp: queue_ok_def jobs_ok_def keyed_def job_row_ok_def MAX_ATTEMPTS_def)
qed

theorem job_table_invariant_witness:
  "distinct (map job_id [demo_done]) \<and> j_attempts demo_done \<le> j_max_attempts demo_done"
  using job_table_invariant [OF demo_run] by simp

text \<open>
  C16: Under any interleaving of producers and workers, each attempt of each job is handed
  out to at most one worker and its outcome is accepted at most once.
\<close>

theorem job_announced_once:
  assumes "queue_ok s" and "jobq.run s ls s'"
  shows "count_list ls (Issue i a) \<le> 1 \<and> count_list ls (Settle i a) \<le> 1"
proof -
  have "distinct (filter (\<lambda>l. l \<noteq> Quiet) ls)" using assms by (blast intro: jobq.announced_once)
  then show ?thesis using announced_count by simp
qed

theorem job_announced_once_witness:
  "count_list [Quiet, Issue 1 1, Settle 1 1] (Settle 1 1) \<le> 1"
  using job_announced_once [OF empty_queue_ok demo_run, of 1 1] by blast

text \<open>
  C17: A worker whose lease ran out and whose job was handed out again is powerless: from
  then on, whatever happens, reporting success or failure with the old claim changes
  nothing and is refused.
\<close>

theorem job_stale_holder_powerless:
  assumes "queue_ok s" and "job_step s (Issue (jc_id c) b) s'" and "jobq.run s' ls s''"
    and "jc_attempt c < b" and "aware clock"
  shows "succeed_job q clock c (q_jobs s'') = Inr (q_jobs s'', False) \<and>
    fail_job q clock c err (q_jobs s'') = Inr (q_jobs s'', False)"
proof -
  have "lmove (Issue (jc_id c) b) (jc_id c) (job_view s (jc_id c)) (job_view s' (jc_id c))"
    using assms(1,2) by (rule jobq.step_lmove)
  then obtain v where "job_view s' (jc_id c) = Some v" "tries v = b"
    by (auto elim!: lmove_Issue)
  moreover have ok': "queue_ok s'" using assms(1,2) by (rule queue_ok_step)
  ultimately obtain w where w: "job_view s'' (jc_id c) = Some w" "b \<le> tries w"
    using jobq.run_grows [OF assms(3)] by fastforce
  have keyed: "keyed job_id (q_jobs s'')"
    using jobq.run_preserves_ok [OF assms(3) ok'] by (simp add: queue_ok_def jobs_ok_def)
  have none: "\<not> held_by q c r" if "r \<in> set (q_jobs s'')" for r
  proof
    assume h: "held_by q c r"
    then have "row_at job_id (jc_id c) (q_jobs s'') = Some r"
      using row_at_in [OF keyed that] by (simp add: held_by_def)
    with w h assms(4) show False by (auto simp: job_view_def job_lview_def held_by_def)
  qed
  then have "upd_where (held_by q c) f (q_jobs s'') = q_jobs s''" for f
    by (rule upd_where_none)
  moreover have "\<not> list_ex (held_by q c) (q_jobs s'')" using none by (auto simp: list_ex_iff)
  ultimately show ?thesis
    using assms(5) by (simp add: succeed_job_def fail_job_def aware_time_def Let_def)
qed

theorem job_stale_holder_powerless_witness:
  "succeed_job demo_queue (utc_at (62 * second)) demo_claim [demo_released] =
     Inr ([demo_released], False)"
  using job_stale_holder_powerless [of "\<lparr>q_jobs = [demo_leased], q_claims = {demo_claim}\<rparr>"
      demo_claim 2 _ "[]", OF demo_queue_ok _ jobq.run_Nil, of _ "utc_at (62 * second)" demo_queue]
    demo_reissue demo_claim_numbers
  by fastforce

text \<open>
  A job row that reached a final status (succeeded, failed or cancelled) is never
  changed again by any interleaving of queue operations.
\<close>

theorem finished_job_final:
  assumes "queue_ok s" and "jobq.run s ls s'" and "r \<in> set (q_jobs s)"
    and "j_status r \<notin> {JPending, JRunning}"
  shows "r \<in> set (q_jobs s')"
  using finished_job_run [OF assms(2,1,3)] assms(4) by simp

theorem finished_job_final_witness:
  "demo_done \<in> set [demo_done]"
  using finished_job_final [of "\<lparr>q_jobs = [demo_done], q_claims = {demo_claim}\<rparr>" "[]"
      "\<lparr>q_jobs = [demo_done], q_claims = {demo_claim}\<rparr>" demo_done,
      OF jobq.run_preserves_ok [OF demo_run empty_queue_ok] jobq.run_Nil]
  by (simp add: demo_done_def)

text \<open>
  With a valid lease and clock, \<open>claim_due\<close> hands out a job exactly when some job is
  eligible (attempts left, its kind asked for, and either due or with an expired lease);
  the job it takes comes first in the order pending before reclaimed, then due time, then
  id, and its attempt number is one more than the row had.
\<close>

theorem claim_due_job_takes_first:
  assumes "MIN_LEASE \<le> lease" and "lease \<le> MAX_LEASE" and "aware clock"
  defines "now \<equiv> instant_of clock"
  shows "case claim_due_job q clock lease kinds jobs of
      Inl e \<Rightarrow> False
    | Inr (jobs', None) \<Rightarrow> \<forall>r \<in> set jobs. \<not> job_eligible now kinds r
    | Inr (jobs', Some c) \<Rightarrow>
        \<exists>r \<in> set jobs. job_eligible now kinds r \<and>
          (\<forall>r' \<in> set jobs. job_eligible now kinds r' \<longrightarrow> job_order r \<le> job_order r') \<and>
          lease_job (jq_worker_id q) now (now + lease) r \<in> set jobs' \<and>
          jc_id c = job_id r \<and> jc_payload c = j_payload r \<and> jc_attempt c = j_attempts r + 1 \<and>
          jc_leased_until c = dt_add clock lease"
proof -
  from assms(1-3) obtain jobs' oc where r: "claim_due_job q clock lease kinds jobs = Inr (jobs', oc)"
    by (cases "claim_due_job q clock lease kinds jobs")
      (auto simp: claim_due_job_def py Let_def validate_lease_def aware_time_def split: option.splits)
  show ?thesis
  proof (cases oc)
    case None
    have "\<not> job_eligible now kinds x" if "x \<in> set jobs" for x
      using claim_due_job_NoneE [OF r [unfolded None]] that eligible_sweep [of x now kinds jobs now kinds]
      unfolding now_def by blast
    then show ?thesis using r None by simp
  next
    case (Some c)
    from r [unfolded Some] show ?thesis
    proof (rule claim_due_jobE)
      fix x
      let ?sw = "fail_exhausted_jobs (instant_of clock) kinds jobs"
      assume x: "x \<in> set ?sw" "job_eligible (instant_of clock) kinds x"
        "\<forall>r' \<in> set ?sw. job_eligible (instant_of clock) kinds r' \<longrightarrow> job_order x \<le> job_order r'"
        and j: "jobs' = upd_where (\<lambda>r'. job_id r' = job_id x \<and> job_eligible (instant_of clock) kinds r')
           (lease_job (jq_worker_id q) (instant_of clock) (instant_of clock + lease)) ?sw"
        and c: "c = claim_of_job (dt_add clock lease)
           (lease_job (jq_worker_id q) (instant_of clock) (instant_of clock + lease) x)"
      have "x \<in> set jobs" "\<forall>r' \<in> set jobs. job_eligible now kinds r' \<longrightarrow> job_order x \<le> job_order r'"
        using x eligible_sweep [of _ now kinds jobs now kinds] unfolding now_def by blast+
      moreover have "lease_job (jq_worker_id q) now (now + lease) x \<in> set jobs'"
        unfolding j set_upd_where now_def using x by (intro rev_image_eqI [of x]) auto
      ultimately show ?thesis
        using r Some x(2) by (auto simp: c claim_of_job_def lease_job_def now_def)
    qed
  qed
qed

theorem claim_due_job_takes_first_witness:
  "\<exists>r \<in> set [demo_row]. job_eligible 0 None r \<and> jc_attempt demo_claim = j_attempts r + 1"
  using claim_due_job_takes_first [where lease = "60 * second" and clock = "utc_at 0"
      and q = demo_queue and kinds = None and jobs = "[demo_row]"] demo_lease
  by (simp add: demo_claim_due)

text \<open>What identifies a row is never changed by a queue operation.\<close>

definition same_job :: "'p job \<Rightarrow> 'p job \<Rightarrow> bool" where
  "same_job r r' \<longleftrightarrow> job_id r' = job_id r \<and> j_kind r' = j_kind r \<and> j_key r' = j_key r
     \<and> j_payload r' = j_payload r"

lemma same_job_refl [simp]: "same_job r r"
  by (simp add: same_job_def)

lemma upd_where_same:
  assumes "r \<in> set rows" and "\<And>x. P x \<Longrightarrow> same_job x (f x)"
  shows "\<exists>r' \<in> set (upd_where P f rows). same_job r r'"
  unfolding set_upd_where using assms by (intro bexI [of _ "if P r then f r else r"]) auto

lemma upd_where_same_trans:
  assumes "\<exists>r1 \<in> set rows. same_job r r1" and "\<And>x. P x \<Longrightarrow> same_job x (f x)"
  shows "\<exists>r' \<in> set (upd_where P f rows). same_job r r'"
proof -
  from assms(1) obtain r1 where r1: "r1 \<in> set rows" "same_job r r1" by blast
  from upd_where_same [of r1 rows P f, OF r1(1) assms(2)] r1(2) show ?thesis
    by (auto simp: same_job_def)
qed

lemma same_job_sweep:
  "r \<in> set jobs \<Longrightarrow> \<exists>r' \<in> set (fail_exhausted_jobs now kinds jobs). same_job r r'"
  unfolding fail_exhausted_jobs_def by (rule upd_where_same) (simp_all add: same_job_def)

lemma same_job_step:
  assumes "job_step s l s'" and "r \<in> set (q_jobs s)"
  shows "\<exists>r' \<in> set (q_jobs s'). same_job r r'"
  using assms
proof (induction rule: job_step.induct)
  case (produce clk kind key payload run_at m ext s jobs' res)
  from produce.hyps show ?case
  proof (cases rule: enqueue_jobE)
    case created
    then show ?thesis using produce.prems by (auto intro!: bexI [of _ r])
  next
    case (deferred x t t')
    show ?thesis unfolding deferred(7) using upd_where_same [OF produce.prems]
      by (simp add: same_job_def)
  next
    case (same x)
    then show ?thesis using produce.prems by (auto intro!: bexI [of _ r])
  qed
next
  case (claim_none q clock lease kinds s jobs')
  then show ?case
    using claim_due_job_NoneE(1) [OF claim_none.hyps] same_job_sweep by fastforce
next
  case (claim_some q clock lease kinds s jobs' c)
  have "\<exists>r' \<in> set jobs'. same_job r r'"
    using claim_some.hyps
  proof (rule claim_due_jobE)
    fix x
    assume j: "jobs' = upd_where (\<lambda>r'. job_id r' = job_id x \<and> job_eligible (instant_of clock) kinds r')
           (lease_job (jq_worker_id q) (instant_of clock) (instant_of clock + lease))
           (fail_exhausted_jobs (instant_of clock) kinds (q_jobs s))"
    show ?thesis unfolding j
      by (rule upd_where_same_trans [OF same_job_sweep [OF claim_some.prems]])
        (simp add: same_job_def lease_job_def)
  qed
  then show ?case by simp
next
  case (finish c s q clock jobs' b)
  then show ?case
    using upd_where_same [of r "q_jobs s"]
    by (auto simp: succeed_job_def py Let_def same_job_def)
next
  case (break_off c s q clock error jobs' b)
  then show ?case
    using upd_where_same [of r "q_jobs s"]
    by (auto simp: fail_job_def py Let_def same_job_def)
qed

lemma same_job_run:
  "jobq.run s ls s' \<Longrightarrow> r \<in> set (q_jobs s) \<Longrightarrow> \<exists>r' \<in> set (q_jobs s'). same_job r r'"
proof (induction arbitrary: r rule: jobq.run.induct)
  case (run_Nil s)
  then show ?case by (intro bexI [of _ r]) auto
next
  case (run_Cons s l s' ls s'')
  then obtain r1 where "r1 \<in> set (q_jobs s')" "same_job r r1" using same_job_step by blast
  with run_Cons.IH [of r1] show ?case by (auto simp: same_job_def)
qed

text \<open>
  Once a job with some idempotency key was admitted, whatever happens in between,
  admitting the same kind and payload under that key again finds the same row and creates
  none, and a different kind or payload under that key is refused as a conflict.
\<close>

theorem enqueue_job_idempotent:
  assumes "queue_ok s"
    and "enqueue_job clk kind key payload run_at m ext (q_jobs s) = Inr (jobs1, res)"
    and "jobq.run (s\<lparr>q_jobs := jobs1\<rparr>) ls s'"
    and "\<And>k. aware (clk' k)"
  shows "(\<exists>jobs2. enqueue_job clk' kind key payload None m ext' (q_jobs s') =
        Inr (jobs2, \<lparr>er_id = er_id res, er_created = False\<rparr>) \<and>
      length jobs2 = length (q_jobs s')) \<and>
    ((kind', payload') \<noteq> (kind, payload) \<longrightarrow> kind' \<noteq> [] \<longrightarrow> length kind' \<le> 100 \<longrightarrow>
      enqueue_job clk' kind' key payload' None m ext' (q_jobs s') = Inl IdempotencyConflictError)"
proof -
  have "\<exists>r \<in> set jobs1. j_key r = key \<and> j_kind r = kind \<and> j_payload r = payload \<and> job_id r = er_id res"
    using assms(2)
  proof (cases rule: enqueue_jobE)
    case (deferred x t t')
    then have "x \<in> set (q_jobs s)" "j_key x = key" by (auto dest: find_Some_set)
    moreover have "\<exists>r \<in> set jobs1. same_job x r"
      unfolding deferred(7) using \<open>x \<in> set (q_jobs s)\<close>
      by (rule upd_where_same) (simp add: same_job_def)
    ultimately show ?thesis using deferred(5,6,8) by (auto simp: same_job_def)
  qed (auto simp: fresh_job_def dest: find_Some_set)
  then obtain r where r: "r \<in> set (q_jobs s')" "j_key r = key" "j_kind r = kind"
      "j_payload r = payload" "job_id r = er_id res"
    using same_job_run [OF assms(3)] by (fastforce simp: same_job_def)
  have "job_step s Quiet (s\<lparr>q_jobs := jobs1\<rparr>)" using assms(2) by (rule job_step.produce)
  then have "queue_ok s'"
    using assms(1,3) jobq.run_preserves_ok queue_ok_step by blast
  then have d: "distinct (map j_key (q_jobs s'))" by (simp add: queue_ok_def jobs_ok_def)
  have "List.find (\<lambda>x. j_key x = key) (q_jobs s') = Some r"
  proof (cases "List.find (\<lambda>x. j_key x = key) (q_jobs s')")
    case None
    then show ?thesis using r by (auto simp: find_None_set)
  next
    case (Some y)
    then have "y \<in> set (q_jobs s')" "j_key y = j_key r" using r(2) by (auto dest: find_Some_set)
    then have "y = r" using d r(1) by (auto simp: distinct_map inj_on_def)
    with Some show ?thesis by simp
  qed
  moreover have "1 \<le> m" "m \<le> MAX_ATTEMPTS" "kind \<noteq> []" "length kind \<le> 100" "key \<noteq> []" "length key \<le> 255"
    using assms(2) by (auto simp: enqueue_job_def py)
  ultimately show ?thesis
    using assms(4) r by (auto simp: enqueue_job_def validate_enqueue_def aware_time_def column_time_def)
qed

theorem enqueue_job_idempotent_witness:
  "enqueue_job (\<lambda>_. utc_at 9) (u ''k'') (u ''key'') 8 None 2 False [demo_row :: nat job] =
     Inl IdempotencyConflictError"
  using enqueue_job_idempotent [OF empty_queue_ok _ jobq.run_Nil, where clk = "\<lambda>_. utc_at 0"
      and kind = "u ''k''" and key = "u ''key''" and payload = "7 :: nat" and run_at = None and m = 2
      and ext = False and clk' = "\<lambda>_. utc_at 9" and kind' = "u ''k''" and payload' = 8
      and ext' = False] demo_enqueue
  by simp

text \<open>
  When a queue built by \<open>JobQueue(..)\<close> fails a claim that has attempts left, the row
  goes back to pending, unlocked, due again between the base and the cap of the retry
  policy from now, which is at most 24 hours; with no attempt left it becomes failed.
\<close>

theorem job_retry_scheduled:
  assumes "new_job_queue w base cap = Inr q" and "aware clock"
    and "r \<in> set jobs" and "held_by q c r"
  defines "now \<equiv> instant_of clock"
  shows "\<exists>jobs' r'. fail_job q clock c err jobs = Inr (jobs', True) \<and> r' \<in> set jobs' \<and>
    job_id r' = job_id r \<and> locked_by r' = None \<and> j_attempts r' = j_attempts r \<and>
    (if jc_attempt c < jc_max_attempts c
     then j_status r' = JPending \<and> now + base \<le> j_run_at r' \<and> j_run_at r' \<le> now + cap \<and>
       cap \<le> 24 * hour
     else j_status r' = JFailed \<and> completed_at r' = Some now)"
proof -
  have q: "jq_retry_base q = base" "jq_retry_cap q = cap" "validate_retry_policy base cap = Inr ()"
    using assms(1) by (auto simp: new_job_queue_def py)
  have "cap \<le> 24 * hour" using q(3) by (auto simp: validate_retry_policy_def py MAX_RETRY_DELAY_def)
  moreover obtain jobs' where j: "fail_job q clock c err jobs = Inr (jobs', True)"
    using assms(2-4) by (auto simp: fail_job_def aware_time_def Let_def list_ex_iff)
  moreover define r' where "r' = r\<lparr>j_status := (if jc_max_attempts c \<le> jc_attempt c then JFailed else JPending),
      j_run_at := (if jc_max_attempts c \<le> jc_attempt c then now
        else now + retry_delay (jc_attempt c) base cap),
      completed_at := (if jc_max_attempts c \<le> jc_attempt c then Some now else None),
      j_updated_at := now, locked_at := None, locked_until := None,
      locked_by := None, j_last_error := Some (safe_error_code err)\<rparr>"
  moreover have "r' \<in> set jobs'"
    using j assms(3,4) unfolding r'_def now_def
    by (auto simp: fail_job_def py Let_def set_upd_where q intro!: rev_image_eqI [of r])
  moreover note retry_delay_ge [OF q(3), of "jc_attempt c"] retry_delay_le [of "jc_attempt c" base cap]
  ultimately show ?thesis by (intro exI [of _ jobs'] exI [of _ r']) (simp add: r'_def)
qed

theorem job_retry_scheduled_witness:
  "\<exists>jobs'. fail_job demo_queue (utc_at 5) demo_claim (u ''E'') [demo_leased] = Inr (jobs', True)"
  using job_retry_scheduled [of "u ''w''" "5 * second" "15 * minute" demo_queue "utc_at 5"
      demo_leased "[demo_leased]" demo_claim "u ''E''"]
  by (auto simp: new_job_queue_def validate_worker_id_def validate_retry_policy_def durations
      MAX_RETRY_DELAY_def demo_defs held_by_def)

text \<open>
  One pass of a job worker is a run of the queue's own transactions, whatever its
  handlers return, raise or leave undone, so long as they touch the table through the
  queue too; it therefore keeps the table's invariant.
\<close>

theorem job_worker_pass_runs:
  assumes "\<And>k h. (k, h) \<in> set handlers \<Longrightarrow> fair_handler h" and "queue_ok s"
  shows "\<exists>ls s'. jobq.run s ls s' \<and>
    q_jobs s' = fst (job_run_once q handlers lease clk (q_jobs s)) \<and> queue_ok s'"
proof -
  obtain ls s' where "jobq.run s ls s'" "q_jobs s' = fst (job_run_once q handlers lease clk (q_jobs s))"
    using job_run_once_runs [of handlers s q lease clk] assms(1) by blast
  then show ?thesis using jobq.run_preserves_ok assms(2) by blast
qed

section \<open>What a pass does to a job\<close>

text \<open>
  The table as its users see it: each job waits for its next attempt, is held by a worker
  until its lease ends, or is over.
\<close>

datatype job_fate =
    Waiting int instant
  | Held int "pystr option" "instant option"
  | Done
  | Dead
  | Withdrawn

definition fate_of :: "'p job \<Rightarrow> job_fate" where
  "fate_of r =
     (case j_status r of
        JPending \<Rightarrow> Waiting (j_attempts r) (j_run_at r)
      | JRunning \<Rightarrow> Held (j_attempts r) (locked_by r) (locked_until r)
      | JSucceeded \<Rightarrow> Done
      | JFailed \<Rightarrow> Dead
      | JCancelled \<Rightarrow> Withdrawn)"

definition board :: "'p job list \<Rightarrow> int \<Rightarrow> job_fate option" where
  "board jobs i = map_option fate_of (row_at job_id i jobs)"

text \<open>The board after the sweep: a job whose last attempt lost its lease is dead.\<close>

definition swept_board :: "instant \<Rightarrow> pystr list \<Rightarrow> 'p job list \<Rightarrow> int \<Rightarrow> job_fate option" where
  "swept_board now kinds jobs i =
     map_option (\<lambda>r. if j_status r = JRunning \<and> lease_expired now r \<and> j_max_attempts r \<le> j_attempts r
         \<and> j_kind r \<in> set kinds then Dead else fate_of r) (row_at job_id i jobs)"

text \<open>How an attempt ends, for the worker that still holds it.\<close>

definition ended :: "job_queue \<Rightarrow> instant \<Rightarrow> int \<Rightarrow> int \<Rightarrow> unit outcome \<Rightarrow> job_fate \<Rightarrow> job_fate" where
  "ended q now attempt most result f =
     (case f of
        Held k holder until \<Rightarrow>
          if k = attempt \<and> holder = Some (jq_worker_id q)
          then (case result of
                  Returned _ \<Rightarrow> Done
                | Raised _ \<Rightarrow> if most \<le> attempt then Dead
                    else Waiting attempt (now + retry_delay attempt (jq_retry_base q) (jq_retry_cap q))
                | Cancelled \<Rightarrow> f)
          else f
      | _ \<Rightarrow> f)"

lemma board_upd:
  assumes "\<And>r. P r \<Longrightarrow> job_id (f r) = job_id r"
  shows "board (upd_where P f jobs) i = map_option (\<lambda>r. fate_of (if P r then f r else r)) (row_at job_id i jobs)"
  using assms by (simp add: board_def row_at_upd_where option.map_comp comp_def)

lemma board_sweep: "board (fail_exhausted_jobs now (Some kinds) jobs) i = swept_board now kinds jobs i"
  unfolding fail_exhausted_jobs_def swept_board_def
  by (subst board_upd) (auto simp: in_kinds_def fate_of_def intro!: map_option_cong)

lemma board_lease:
  assumes "keyed job_id jobs" and "r \<in> set jobs" and "E r"
  shows "board (upd_where (\<lambda>x. job_id x = job_id r \<and> E x) (lease_job w now until) jobs) i =
    (if i = job_id r then Some (Held (j_attempts r + 1) (Some w) (Some until)) else board jobs i)"
proof (cases "i = job_id r")
  case True
  then have "row_at job_id i jobs = Some r" using row_at_in [OF assms(1,2)] by simp
  then show ?thesis using True assms(3) by (subst board_upd) (auto simp: lease_job_def fate_of_def)
next
  case False
  then show ?thesis
    by (subst board_upd) (auto simp: lease_job_def board_def intro!: map_option_cong dest: row_at_Some)
qed

lemma ended_held:
  assumes "held_by q c r"
  shows "ended q now (jc_attempt c) m result (fate_of r) =
    (case result of Returned _ \<Rightarrow> Done
     | Raised _ \<Rightarrow> if m \<le> jc_attempt c then Dead
         else Waiting (jc_attempt c) (now + retry_delay (jc_attempt c) (jq_retry_base q) (jq_retry_cap q))
     | Cancelled \<Rightarrow> fate_of r)"
  using assms by (simp add: held_by_def ended_def fate_of_def split: outcome.splits)

lemma ended_not_held:
  assumes "\<not> held_by q c r" and "job_id r = jc_id c"
  shows "ended q now (jc_attempt c) m result (fate_of r) = fate_of r"
  using assms by (auto simp: held_by_def ended_def fate_of_def split: job_status.splits)

text \<open>One settling update acts on the board as the outcome says.\<close>

lemma board_settle:
  assumes "\<And>r. job_id (f r) = job_id r"
    and "\<And>r. held_by q c r \<Longrightarrow> fate_of (f r) = ended q now (jc_attempt c) m result (fate_of r)"
  shows "board (upd_where (held_by q c) f jobs) i = (if i = jc_id c
      then map_option (ended q now (jc_attempt c) m result) (board jobs i) else board jobs i)"
proof (cases "row_at job_id i jobs")
  case None
  then show ?thesis using assms(1) by (auto simp: board_upd) (auto simp: board_def)
next
  case (Some r)
  then have "job_id r = i" by (simp add: row_at_Some)
  then have "fate_of (if held_by q c r then f r else r) =
      (if i = jc_id c then ended q now (jc_attempt c) m result (fate_of r) else fate_of r)"
    using assms(2) [of r] ended_not_held [of q c r now m result] by (auto simp: held_by_def)
  then show ?thesis using Some assms(1) by (auto simp: board_upd) (auto simp: board_def)
qed

lemma settle_board:
  assumes "settle_job q clock c (jobs, result) = (jobs', Inr tick)"
  shows "tick = (if result = Cancelled then Interrupted else Worked)"
    and "board jobs' i = (if i = jc_id c
      then map_option (ended q (instant_of clock) (jc_attempt c) (jc_max_attempts c) result) (board jobs i)
      else board jobs i)"
proof -
  show "tick = (if result = Cancelled then Interrupted else Worked)"
    using assms by (auto simp: settle_job_def split: outcome.splits sum.splits prod.splits)
  show "board jobs' i = (if i = jc_id c
      then map_option (ended q (instant_of clock) (jc_attempt c) (jc_max_attempts c) result) (board jobs i)
      else board jobs i)"
  proof (cases result)
    case (Returned x)
    then obtain b where "succeed_job q clock c jobs = Inr (jobs', b)"
      using assms by (auto simp: settle_job_def split: sum.splits prod.splits)
    then have j: "jobs' = upd_where (held_by q c) (\<lambda>r. r\<lparr>j_status := JSucceeded, completed_at := Some (instant_of clock),
        j_updated_at := instant_of clock, locked_at := None, locked_until := None, locked_by := None,
        j_last_error := None\<rparr>) jobs"
      by (auto simp: succeed_job_def py Let_def)
    show ?thesis unfolding j by (rule board_settle) (simp, simp add: ended_held Returned, simp add: fate_of_def)
  next
    case (Raised err)
    then obtain b where "fail_job q clock c err jobs = Inr (jobs', b)"
      using assms by (auto simp: settle_job_def split: sum.splits prod.splits)
    then have j: "jobs' = upd_where (held_by q c) (\<lambda>r. r\<lparr>
          j_status := (if jc_max_attempts c \<le> jc_attempt c then JFailed else JPending),
          j_run_at := (if jc_max_attempts c \<le> jc_attempt c then instant_of clock
            else instant_of clock + retry_delay (jc_attempt c) (jq_retry_base q) (jq_retry_cap q)),
          completed_at := (if jc_max_attempts c \<le> jc_attempt c then Some (instant_of clock) else None),
          j_updated_at := instant_of clock, locked_at := None, locked_until := None, locked_by := None,
          j_last_error := Some (safe_error_code err)\<rparr>) jobs"
      by (auto simp only: fail_job_def and_then_Inr_iff aware_time_Inr Let_def sum.inject prod.inject)
    have "j_attempts r = jc_attempt c" if "held_by q c r" for r :: "'a job" using that by (simp add: held_by_def)
    then show ?thesis unfolding j
      by (intro board_settle) (simp, simp add: ended_held Raised, simp add: fate_of_def)
  next
    case Cancelled
    then have "jobs' = jobs" using assms by (simp add: settle_job_def)
    moreover have "ended q (instant_of clock) (jc_attempt c) (jc_max_attempts c) result f = f" for f
      by (simp add: Cancelled ended_def split: job_fate.splits)
    then have "map_option (ended q (instant_of clock) (jc_attempt c) (jc_max_attempts c) result) f = f" for f
      by (cases f) simp_all
    ultimately show ?thesis by simp
  qed
qed

lemma fail_exhausted_keyed: "keyed job_id jobs \<Longrightarrow> keyed job_id (fail_exhausted_jobs now kinds jobs)"
  unfolding fail_exhausted_jobs_def by (rule keyed_upd_where) simp_all

lemma claim_board:
  assumes "claim_due_job q clock lease (Some kinds) jobs = Inr (taken, Some c)" and "keyed job_id jobs"
  defines "now \<equiv> instant_of clock"
  obtains r where "r \<in> set jobs" "job_eligible now (Some kinds) r"
    "\<forall>r' \<in> set jobs. job_eligible now (Some kinds) r' \<longrightarrow> job_order r \<le> job_order r'"
    "c = claim_of_job (dt_add clock lease) (r\<lparr>j_attempts := j_attempts r + 1\<rparr>)"
    "keyed job_id taken"
    "board taken = (swept_board now kinds jobs)
       (job_id r \<mapsto> Held (j_attempts r + 1) (Some (jq_worker_id q)) (Some (now + lease)))"
  using assms(1)
proof (rule claim_due_jobE)
  fix r
  let ?sw = "fail_exhausted_jobs now (Some kinds) jobs"
  assume r: "r \<in> set (fail_exhausted_jobs (instant_of clock) (Some kinds) jobs)"
      "job_eligible (instant_of clock) (Some kinds) r"
      "\<forall>r' \<in> set (fail_exhausted_jobs (instant_of clock) (Some kinds) jobs).
         job_eligible (instant_of clock) (Some kinds) r' \<longrightarrow> job_order r \<le> job_order r'"
    and j: "taken = upd_where (\<lambda>r'. job_id r' = job_id r \<and> job_eligible (instant_of clock) (Some kinds) r')
        (lease_job (jq_worker_id q) (instant_of clock) (instant_of clock + lease))
        (fail_exhausted_jobs (instant_of clock) (Some kinds) jobs)"
    and c: "c = claim_of_job (dt_add clock lease)
        (lease_job (jq_worker_id q) (instant_of clock) (instant_of clock + lease) r)"
  have sw: "keyed job_id ?sw" using assms(2) by (rule fail_exhausted_keyed)
  show thesis
  proof (rule that [of r])
    show "r \<in> set jobs" "job_eligible now (Some kinds) r"
      using r(1,2) eligible_sweep [of r now "Some kinds" jobs now "Some kinds"] by (auto simp: now_def)
    show "\<forall>r' \<in> set jobs. job_eligible now (Some kinds) r' \<longrightarrow> job_order r \<le> job_order r'"
      using r(3) eligible_sweep [of _ now "Some kinds" jobs now "Some kinds"] by (auto simp: now_def)
    show "c = claim_of_job (dt_add clock lease) (r\<lparr>j_attempts := j_attempts r + 1\<rparr>)"
      by (simp add: c claim_of_job_def lease_job_def)
    show "keyed job_id taken" unfolding j using sw
      by (intro keyed_upd_where) (simp_all add: now_def lease_job_def)
    show "board taken = (swept_board now kinds jobs)
        (job_id r \<mapsto> Held (j_attempts r + 1) (Some (jq_worker_id q)) (Some (now + lease)))"
      unfolding j now_def
      using board_lease [OF sw [unfolded now_def] r(1), of "job_eligible (instant_of clock) (Some kinds)"] r(2)
      by (auto simp: board_sweep)
  qed
qed

text \<open>
  C18: What one pass of a job worker does. Either it reports no work: then no job of its
  kinds was eligible, and the table is as before but for the jobs whose last attempt lost its
  lease, which are dead. Or it takes the first eligible job (pending before reclaimed, then
  due time, then id), hands the handler registered for its kind exactly its claim, with one
  more attempt, on a table in which the job is held for the lease and no other job moved but
  by the sweep; and afterwards that job, if the worker still holds it, is done if the handler returned, dead
  after its last attempt or waiting for the back-off if it raised, and still held if it was
  cancelled, while every other job is as the handler left it.
\<close>

theorem job_worker_pass_refines:
  assumes "job_run_once q handlers lease clk jobs = (jobs', Inr tick)" and "keyed job_id jobs"
  defines "now \<equiv> instant_of (clk 0)" and "kinds \<equiv> map fst handlers"
  shows "tick = Idle \<and> (\<forall>r \<in> set jobs. \<not> job_eligible now (Some kinds) r)
        \<and> board jobs' = swept_board now kinds jobs
    \<or> (\<exists>r handler taken left result.
        r \<in> set jobs \<and> job_eligible now (Some kinds) r
        \<and> (\<forall>r' \<in> set jobs. job_eligible now (Some kinds) r' \<longrightarrow> job_order r \<le> job_order r')
        \<and> map_of handlers (j_kind r) = Some handler
        \<and> board taken = (swept_board now kinds jobs)
            (job_id r \<mapsto> Held (j_attempts r + 1) (Some (jq_worker_id q)) (Some (now + lease)))
        \<and> handler \<lparr>jc_id = job_id r, jc_kind = j_kind r, jc_key = j_key r, jc_payload = j_payload r,
              jc_attempt = j_attempts r + 1, jc_max_attempts = j_max_attempts r,
              jc_leased_until = dt_add (clk 0) lease\<rparr> taken = (left, result)
        \<and> tick = (if result = Cancelled then Interrupted else Worked)
        \<and> board jobs' = (board left)
            (job_id r := map_option (ended q (instant_of (clk 1)) (j_attempts r + 1) (j_max_attempts r) result)
               (board left (job_id r))))"
proof (cases "claim_due_job q (clk 0) lease (Some kinds) jobs")
  case (Inl e)
  then show ?thesis using assms(1) by (simp add: job_run_once_def kinds_def)
next
  case (Inr taken_c)
  obtain taken oc where tc: "taken_c = (taken, oc)" by (cases taken_c)
  show ?thesis
  proof (cases oc)
    case None
    then have claim: "claim_due_job q (clk 0) lease (Some kinds) jobs = Inr (taken, None)" using Inr tc by simp
    then have "jobs' = taken" "tick = Idle" using assms(1) by (simp_all add: job_run_once_def kinds_def)
    moreover have "\<not> job_eligible now (Some kinds) r" if "r \<in> set jobs" for r
      using claim_due_job_NoneE [OF claim] that eligible_sweep [of r now "Some kinds" jobs now "Some kinds"]
      by (auto simp: now_def)
    moreover have "board taken = swept_board now kinds jobs"
      using claim_due_job_NoneE(1) [OF claim] by (auto simp: now_def board_sweep)
    ultimately show ?thesis by blast
  next
    case (Some c)
    then have claim: "claim_due_job q (clk 0) lease (Some kinds) jobs = Inr (taken, Some c)" using Inr tc by simp
    obtain r where r: "r \<in> set jobs" "job_eligible now (Some kinds) r"
        "\<forall>r' \<in> set jobs. job_eligible now (Some kinds) r' \<longrightarrow> job_order r \<le> job_order r'"
        "c = claim_of_job (dt_add (clk 0) lease) (r\<lparr>j_attempts := j_attempts r + 1\<rparr>)"
        "keyed job_id taken"
        "board taken = (swept_board now kinds jobs)
          (job_id r \<mapsto> Held (j_attempts r + 1) (Some (jq_worker_id q)) (Some (now + lease)))"
      by (rule claim_board [OF claim assms(2), folded now_def])
    have "j_kind r \<in> fst ` set handlers" using r(2) by (auto simp: job_eligible_def in_kinds_def kinds_def)
    then obtain h where h: "map_of handlers (j_kind r) = Some h"
      by (metis map_of_eq_None_iff option.exhaust)
    obtain left result where left: "h c taken = (left, result)" by (cases "h c taken")
    have settled: "settle_job q (clk 1) c (left, result) = (jobs', Inr tick)"
      using assms(1) claim h left by (simp add: job_run_once_def kinds_def r(4) claim_of_job_def)
    have cr: "c = \<lparr>jc_id = job_id r, jc_kind = j_kind r, jc_key = j_key r, jc_payload = j_payload r,
              jc_attempt = j_attempts r + 1, jc_max_attempts = j_max_attempts r,
              jc_leased_until = dt_add (clk 0) lease\<rparr>"
      by (simp add: r(4) claim_of_job_def)
    have "board jobs' = (board left)
            (job_id r := map_option (ended q (instant_of (clk 1)) (j_attempts r + 1) (j_max_attempts r) result)
               (board left (job_id r)))"
      using settle_board(2) [OF settled] by (auto simp: cr)
    then show ?thesis
      using r(1-3,6) h left [unfolded cr] settle_board(1) [OF settled]
      by (intro disjI2 exI [of _ r] exI [of _ h] exI [of _ taken] exI [of _ left] exI [of _ result] conjI)
  qed
qed

text \<open>A handler that raises: the job of the example waits five seconds for its second attempt.\<close>

lemma demo_pass:
  "job_run_once demo_queue [(u ''k'', \<lambda>c jobs. (jobs, Raised (u ''X'')))] (60 * second) (\<lambda>_. utc_at 0) [demo_row] =
     ([demo_row\<lparr>j_attempts := 1, j_run_at := 5 * second, j_last_error := Some (u ''X'')\<rparr>], Inr Worked)"
  by code_simp

theorem job_worker_pass_refines_witness:
  "board [demo_row\<lparr>j_attempts := 1, j_run_at := 5 * second, j_last_error := Some (u ''X'')\<rparr>] 1 =
     Some (Waiting 1 (5 * second))"
proof -
  have row: "job_id demo_row = 1" "j_attempts demo_row = 0" "j_max_attempts demo_row = 2" "j_kind demo_row = u ''k''"
    "job_eligible 0 (Some [u ''k'']) demo_row" by code_simp+
  have "keyed job_id [demo_row]" by (simp add: keyed_def row)
  from job_worker_pass_refines [OF demo_pass this] show ?thesis
    by (auto simp: row ended_def demo_queue_def retry_delay_def min_def durations)
qed

section \<open>Properties of the outbox\<close>

definition demo_message :: "nat outbox_row" where
  "demo_message = fresh_outbox [] (u ''text'') (u ''key'') 7 (Some 100) None 0 3 0"

definition demo_sending :: "nat outbox_row" where
  "demo_sending = lease_outbox (60 * second) demo_message"

definition demo_send_claim :: "nat outbox_claim" where
  "demo_send_claim = claim_of_outbox (dt_add (utc_at 0) (60 * second)) demo_sending"

definition demo_sent :: "nat outbox_row" where
  "demo_sent = demo_sending\<lparr>o_status := OSent, o_sent_at := Some 1,
     o_telegram_message_id := Some 55, o_available_at := 1, o_last_error := None\<rparr>"

lemmas outbox_demo_defs = demo_message_def demo_sending_def demo_send_claim_def demo_sent_def
  fresh_outbox_def lease_outbox_def claim_of_outbox_def

lemma demo_outbox_enqueue:
  "enqueue_outbox (\<lambda>_. utc_at 0) (u ''text'') (u ''key'') 7 (Some 100) None None 3 [] =
     Inr ([demo_message], \<lparr>er_id = 1, er_created = True\<rparr>)"
  by code_simp

lemma demo_outbox_claim:
  "claim_due_outbox (utc_at 0) (60 * second) [demo_message] = Inr ([demo_sending], Some demo_send_claim)"
  by code_simp

lemma demo_outbox_sent:
  "sent_outbox (utc_at 1) demo_send_claim (Some 55) [demo_sending] = Inr ([demo_sent], True)"
  by code_simp

lemma empty_outbox_ok: "outbox_sys_ok \<lparr>ob_rows = [], ob_claims = {}\<rparr>"
  by (simp add: outbox_sys_ok_def)

lemma demo_outbox_run:
  "outq.run \<lparr>ob_rows = [], ob_claims = {}\<rparr> [Quiet, Issue 1 1, Settle 1 1]
     \<lparr>ob_rows = [demo_sent], ob_claims = {demo_send_claim}\<rparr>"
proof -
  have "outbox_step \<lparr>ob_rows = [], ob_claims = {}\<rparr> Quiet \<lparr>ob_rows = [demo_message], ob_claims = {}\<rparr>"
    using outbox_step.ob_produce [of "\<lambda>_. utc_at 0" "u ''text''" "u ''key''" 7 "Some 100" None None 3
        "\<lparr>ob_rows = [], ob_claims = {}\<rparr>"] demo_outbox_enqueue by simp
  moreover have "outbox_step \<lparr>ob_rows = [demo_message], ob_claims = {}\<rparr> (Issue 1 1)
      \<lparr>ob_rows = [demo_sending], ob_claims = {demo_send_claim}\<rparr>"
    using outbox_step.ob_some [of "utc_at 0" "60 * second" "\<lparr>ob_rows = [demo_message], ob_claims = {}\<rparr>"]
      demo_outbox_claim
    by (simp add: outbox_demo_defs next_id_def)
  moreover have "outbox_step \<lparr>ob_rows = [demo_sending], ob_claims = {demo_send_claim}\<rparr> (Settle 1 1)
      \<lparr>ob_rows = [demo_sent], ob_claims = {demo_send_claim}\<rparr>"
    using outbox_step.ob_sent [of demo_send_claim
        "\<lparr>ob_rows = [demo_sending], ob_claims = {demo_send_claim}\<rparr>" "utc_at 1" "Some 55"]
      demo_outbox_sent
    by (simp add: outbox_demo_defs next_id_def)
  ultimately show ?thesis by (blast intro: outq.run.intros)
qed

text \<open>
  C19: Starting from an empty outbox, under any interleaving, a stored message was handed
  to a sender exactly as often as its attempt counter says, hence at most its limit (at
  most 100) times, and every attempt was handed out and settled at most once.
\<close>

theorem outbox_handed_out_bounded:
  fixes s :: "'p outbox_sys"
  assumes "outq.run \<lparr>ob_rows = [], ob_claims = {}\<rparr> ls s" and "r \<in> set (ob_rows s)"
  shows "int (issues (o_id r) ls) = o_attempts r \<and> o_attempts r \<le> o_max_attempts r \<and>
    o_max_attempts r \<le> 100 \<and> count_list ls (Issue i a) \<le> 1 \<and> count_list ls (Settle i a) \<le> 1"
proof -
  have ok: "outbox_sys_ok s" using assms(1) empty_outbox_ok by (rule outq.run_preserves_ok)
  then have "row_at o_id (o_id r) (ob_rows s) = Some r"
    using assms(2) by (auto simp: outbox_sys_ok_def outbox_ok_def intro: row_at_in)
  then have "outbox_view s (o_id r) = Some (outbox_lview r)" by (simp add: outbox_view_def)
  moreover have "outbox_view (\<lparr>ob_rows = [], ob_claims = {}\<rparr> :: 'p outbox_sys) (o_id r) = None"
    by (simp add: outbox_view_def row_at_def)
  moreover note outq.run_issues [OF assms(1) empty_outbox_ok, of "o_id r"]
  ultimately have "int (issues (o_id r) ls) = o_attempts r"
    by (simp add: made_def outbox_lview_def)
  moreover have "o_attempts r \<le> o_max_attempts r" "o_max_attempts r \<le> 100"
    using ok assms(2) by (auto simp: outbox_sys_ok_def outbox_ok_def outbox_row_ok_def MAX_ATTEMPTS_def)
  ultimately show ?thesis
    using announced_count [OF outq.announced_once [OF assms(1) empty_outbox_ok]] by simp
qed

theorem outbox_handed_out_bounded_witness:
  "int (issues (o_id demo_sent) [Quiet, Issue 1 1, Settle 1 1]) = o_attempts demo_sent"
  using outbox_handed_out_bounded [OF demo_outbox_run] by simp

end
