(* ===== verification/Roster.thy ===== *)
theory Roster
  imports Unicode
begin

text \<open>
  Who is in the group: \<open>telegram/access.py\<close> and \<open>telegram/membership.py\<close> (fail-closed access
  to the group's history), \<open>telegram/membership_store.py\<close> (the roster built from chat-member
  updates and from message senders) and the tables \<open>users\<close> and \<open>memberships\<close> of
  \<open>storage/models.py\<close>. Objects of the Telegram library are the fields the code reads.
\<close>

section \<open>Access to the group's history\<close>

datatype member_status = Creator | Administrator | Member | Restricted | Left_group | Kicked | Unknown_status

record confirmed_membership =
  cm_status :: member_status
  cm_is_member :: "bool option"

definition can_access_group_history :: "confirmed_membership option \<Rightarrow> bool" where
  "can_access_group_history membership =
     (case membership of
        None \<Rightarrow> False
      | Some m \<Rightarrow>
          if cm_status m \<in> {Creator, Administrator, Member} then True
          else cm_status m = Restricted \<and> cm_is_member m = Some True)"

text \<open>\<open>MemberStatus(raw)\<close>, with \<open>ValueError\<close> read as unknown.\<close>

definition status_names :: "(pystr \<times> member_status) list" where
  "status_names =
     [(u ''creator'', Creator), (u ''administrator'', Administrator), (u ''member'', Member),
      (u ''restricted'', Restricted), (u ''left'', Left_group), (u ''kicked'', Kicked),
      (u ''unknown'', Unknown_status)]"

text \<open>What \<open>get_chat_member\<close> gave: an error, or the raw status and the flag \<open>is_member\<close>.\<close>

datatype member_reply = Telegram_error | Member_reply pystr "bool option"

definition current_membership :: "member_reply \<Rightarrow> confirmed_membership option" where
  "current_membership reply =
     (case reply of
        Telegram_error \<Rightarrow> None
      | Member_reply raw is_member \<Rightarrow>
          Some \<lparr>cm_status = (case map_of status_names raw of None \<Rightarrow> Unknown_status | Some st \<Rightarrow> st),
                cm_is_member = is_member\<rparr>)"

section \<open>Tables\<close>

record user =
  us_id :: int
  us_telegram_id :: int
  us_username :: "pystr option"
  us_display_name :: "pystr option"
  us_language_code :: "pystr option"
  us_is_bot :: bool
  us_first_seen :: instant
  us_last_seen :: instant

record membership =
  mb_id :: int
  mb_chat_id :: int
  mb_user_id :: int
  mb_status :: member_status
  mb_is_headman :: bool
  mb_joined_at :: "instant option"
  mb_left_at :: "instant option"
  mb_checked_at :: instant

record roster =
  r_users :: "user list"
  r_members :: "membership list"

section \<open>Observations\<close>

record tg_user =
  tu_id :: int
  tu_is_bot :: bool
  tu_first_name :: pystr
  tu_last_name :: "pystr option"
  tu_username :: "pystr option"
  tu_language_code :: "pystr option"

datatype tg_date = Unix_seconds int | Moment pydt

text \<open>\<open>_aware\<close>: naive values are read as UTC, which is what \<open>instant_of\<close> does.\<close>

definition seen_instant :: "tg_date \<Rightarrow> instant" where
  "seen_instant d = (case d of Unix_seconds s \<Rightarrow> s * second | Moment m \<Rightarrow> instant_of m)"

datatype disposition = Created | Updated | Unchanged | Stale | Ignored_chat | Ignored_sender

record write_result =
  wr_disposition :: disposition
  wr_telegram_user_id :: "int option"
  wr_status :: "member_status option"
  wr_membership_id :: "int option"

definition active_status :: "member_status \<Rightarrow> bool" where
  "active_status st \<longleftrightarrow> st \<in> {Creator, Administrator, Member, Restricted}"

definition is_target_group :: "int \<Rightarrow> int \<Rightarrow> pystr \<Rightarrow> bool" where
  "is_target_group target chat_id chat_type \<longleftrightarrow>
     chat_id = target \<and> chat_type \<in> {u ''group'', u ''supergroup''}"

definition observed_status :: "pystr \<Rightarrow> bool option \<Rightarrow> member_status" where
  "observed_status raw is_member =
     (let st = casefold raw
      in if st = u ''restricted'' then
           (case is_member of Some True \<Rightarrow> Restricted | Some False \<Rightarrow> Left_group | None \<Rightarrow> Unknown_status)
         else if st = u ''creator'' then Creator
         else if st = u ''administrator'' then Administrator
         else if st = u ''member'' then Member
         else if st = u ''left'' then Left_group
         else if st = u ''kicked'' then Kicked
         else Unknown_status)"

fun join_space :: "pystr list \<Rightarrow> pystr" where
  "join_space [] = []"
| "join_space [p] = p"
| "join_space (p # ps) = p @ [32] @ join_space ps"

definition full_name :: "tg_user \<Rightarrow> pystr" where
  "full_name t = strip (join_space (filter (\<lambda>p. p \<noteq> [])
     [tu_first_name t, case tu_last_name t of None \<Rightarrow> [] | Some n \<Rightarrow> n]))"

definition new_user :: "user list \<Rightarrow> tg_user \<Rightarrow> instant \<Rightarrow> user" where
  "new_user users t seen =
     \<lparr>us_id = next_id us_id users, us_telegram_id = tu_id t, us_username = tu_username t,
      us_display_name = Some (full_name t), us_language_code = tu_language_code t,
      us_is_bot = tu_is_bot t, us_first_seen = seen, us_last_seen = seen\<rparr>"

definition refresh_user :: "tg_user \<Rightarrow> instant \<Rightarrow> user \<Rightarrow> user" where
  "refresh_user t seen x =
     (let y = x\<lparr>us_first_seen := min (us_first_seen x) seen\<rparr>
      in if us_last_seen y \<le> seen
         then y\<lparr>us_username := tu_username t, us_display_name := Some (full_name t),
                us_language_code := tu_language_code t, us_is_bot := tu_is_bot t,
                us_last_seen := seen\<rparr>
         else y)"

definition upsert_user :: "tg_user \<Rightarrow> instant \<Rightarrow> user list \<Rightarrow> user list \<times> user" where
  "upsert_user t seen users =
     (case List.find (\<lambda>x. us_telegram_id x = tu_id t) users of
        None \<Rightarrow> let x = new_user users t seen in (users @ [x], x)
      | Some x \<Rightarrow> (upd_where (\<lambda>y. us_id y = us_id x) (refresh_user t seen) users,
                   refresh_user t seen x))"

definition apply_transition :: "member_status \<Rightarrow> instant \<Rightarrow> membership \<Rightarrow> membership" where
  "apply_transition status observed_at m =
     (let was_active = active_status (mb_status m);
          m1 = m\<lparr>mb_status := status, mb_checked_at := observed_at\<rparr>
      in if active_status status then
           (if \<not> was_active \<or> mb_joined_at m = None
            then m1\<lparr>mb_joined_at := Some observed_at, mb_left_at := None\<rparr>
            else m1\<lparr>mb_left_at := None\<rparr>)
         else if status \<in> {Left_group, Kicked} then m1\<lparr>mb_left_at := Some observed_at\<rparr>
         else m1)"

definition membership_for :: "int \<Rightarrow> int \<Rightarrow> membership list \<Rightarrow> membership option" where
  "membership_for chat user members =
     List.find (\<lambda>m. mb_chat_id m = chat \<and> mb_user_id m = user) members"

definition write_result_for :: "disposition \<Rightarrow> user \<Rightarrow> membership \<Rightarrow> write_result" where
  "write_result_for d x m =
     \<lparr>wr_disposition = d, wr_telegram_user_id = Some (us_telegram_id x),
      wr_status = Some (mb_status m), wr_membership_id = Some (mb_id m)\<rparr>"

definition ignored :: "disposition \<Rightarrow> write_result" where
  "ignored d = \<lparr>wr_disposition = d, wr_telegram_user_id = None, wr_status = None,
     wr_membership_id = None\<rparr>"

definition put_membership :: "membership \<Rightarrow> membership list \<Rightarrow> membership list" where
  "put_membership m members = upd_where (\<lambda>x. mb_id x = mb_id m) (\<lambda>_. m) members"

record chat_member_update =
  cu_chat_id :: int
  cu_chat_type :: pystr
  cu_date :: tg_date
  cu_user :: tg_user
  cu_raw_status :: pystr
  cu_is_member :: "bool option"

definition apply_chat_member_update :: "int \<Rightarrow> chat_member_update \<Rightarrow> roster \<Rightarrow> roster \<times> write_result" where
  "apply_chat_member_update target upd r =
     (if \<not> is_target_group target (cu_chat_id upd) (casefold (cu_chat_type upd))
      then (r, ignored Ignored_chat)
      else
        let observed_at = seen_instant (cu_date upd);
            (users, x) = upsert_user (cu_user upd) observed_at (r_users r);
            status = observed_status (cu_raw_status upd) (cu_is_member upd)
        in case membership_for target (us_id x) (r_members r) of
             None \<Rightarrow>
               let m = apply_transition status observed_at
                         \<lparr>mb_id = next_id mb_id (r_members r), mb_chat_id = target,
                          mb_user_id = us_id x, mb_status = status, mb_is_headman = False,
                          mb_joined_at = None, mb_left_at = None, mb_checked_at = observed_at\<rparr>
               in (\<lparr>r_users = users, r_members = r_members r @ [m]\<rparr>, write_result_for Created x m)
           | Some m \<Rightarrow>
               if observed_at < mb_checked_at m
               then (r\<lparr>r_users := users\<rparr>, write_result_for Stale x m)
               else if observed_at = mb_checked_at m \<and> mb_status m = status
               then (r\<lparr>r_users := users\<rparr>, write_result_for Unchanged x m)
               else let m' = apply_transition status observed_at m
                    in (\<lparr>r_users = users, r_members = put_membership m' (r_members r)\<rparr>,
                        write_result_for Updated x m'))"

record seen_message =
  sm_chat_id :: int
  sm_chat_type :: pystr
  sm_date :: tg_date
  sm_from_user :: "tg_user option"

definition observe_message_sender :: "int \<Rightarrow> seen_message \<Rightarrow> roster \<Rightarrow> roster \<times> write_result" where
  "observe_message_sender target msg r =
     (if \<not> is_target_group target (sm_chat_id msg) (casefold (sm_chat_type msg))
      then (r, ignored Ignored_chat)
      else case sm_from_user msg of
        None \<Rightarrow> (r, ignored Ignored_sender)
      | Some sender \<Rightarrow>
        let observed_at = seen_instant (sm_date msg);
            (users, x) = upsert_user sender observed_at (r_users r)
        in case membership_for target (us_id x) (r_members r) of
             None \<Rightarrow>
               let m = \<lparr>mb_id = next_id mb_id (r_members r), mb_chat_id = target,
                        mb_user_id = us_id x, mb_status = Member, mb_is_headman = False,
                        mb_joined_at = Some observed_at, mb_left_at = None,
                        mb_checked_at = observed_at\<rparr>
               in (\<lparr>r_users = users, r_members = r_members r @ [m]\<rparr>, write_result_for Created x m)
           | Some m \<Rightarrow>
               if observed_at < mb_checked_at m
               then (r\<lparr>r_users := users\<rparr>, write_result_for Stale x m)
               else if observed_at = mb_checked_at m
               then (r\<lparr>r_users := users\<rparr>,
                     write_result_for (if active_status (mb_status m) then Unchanged else Stale) x m)
               else let m' = (if active_status (mb_status m) then m\<lparr>mb_checked_at := observed_at\<rparr>
                              else apply_transition Member observed_at m)
                    in (\<lparr>r_users = users, r_members = put_membership m' (r_members r)\<rparr>,
                        write_result_for Updated x m'))"

text \<open>\<open>SELECT .. JOIN .. ORDER BY display_name, telegram_user_id\<close>; NULL sorts first in SQLite.\<close>

definition name_order :: "user \<Rightarrow> pystr list \<times> int" where
  "name_order x = (case us_display_name x of None \<Rightarrow> [] | Some n \<Rightarrow> [n], us_telegram_id x)"

definition active_humans :: "(member_status \<Rightarrow> bool) \<Rightarrow> int \<Rightarrow> roster \<Rightarrow> user list" where
  "active_humans active chat r =
     sort_key name_order
       (concat (map (\<lambda>x. map (\<lambda>_. x) (filter (\<lambda>m. mb_user_id m = us_id x \<and> mb_chat_id m = chat
            \<and> active (mb_status m) \<and> \<not> us_is_bot x) (r_members r))) (r_users r)))"

definition attendance_roster :: "int \<Rightarrow> roster \<Rightarrow> user list" where
  "attendance_roster target r = active_humans active_status target r"

section \<open>Invariant\<close>

text \<open>Primary and unique keys of the two tables, and the foreign key between them.\<close>

definition roster_ok :: "roster \<Rightarrow> bool" where
  "roster_ok r \<longleftrightarrow> keyed us_id (r_users r) \<and> distinct (map us_telegram_id (r_users r))
     \<and> keyed mb_id (r_members r)
     \<and> distinct (map (\<lambda>m. (mb_chat_id m, mb_user_id m)) (r_members r))
     \<and> mb_user_id ` set (r_members r) \<subseteq> us_id ` set (r_users r)"

lemma refresh_user_keeps [simp]:
  "us_id (refresh_user t seen x) = us_id x"
  "us_telegram_id (refresh_user t seen x) = us_telegram_id x"
  by (simp_all add: refresh_user_def Let_def)

lemma apply_transition_keeps [simp]:
  "mb_id (apply_transition st t m) = mb_id m"
  "mb_chat_id (apply_transition st t m) = mb_chat_id m"
  "mb_user_id (apply_transition st t m) = mb_user_id m"
  "mb_status (apply_transition st t m) = st"
  "mb_checked_at (apply_transition st t m) = t"
  by (simp_all add: apply_transition_def Let_def)

lemma upsert_user_ok:
  assumes "upsert_user t seen users = (users', x)"
    and "keyed us_id users" "distinct (map us_telegram_id users)"
  shows "keyed us_id users'" "distinct (map us_telegram_id users')"
    "us_id ` set users \<subseteq> us_id ` set users'" "x \<in> set users'" "us_telegram_id x = tu_id t"
proof -
  have "keyed us_id users' \<and> distinct (map us_telegram_id users')
    \<and> us_id ` set users \<subseteq> us_id ` set users' \<and> x \<in> set users' \<and> us_telegram_id x = tu_id t"
  proof (cases "List.find (\<lambda>x. us_telegram_id x = tu_id t) users")
    case None
    then have "tu_id t \<notin> us_telegram_id ` set users" by (auto simp: find_None_set)
    with None assms show ?thesis
      using keyed_insert [of us_id users "new_user users t seen"]
      by (auto simp: upsert_user_def Let_def new_user_def)
  next
    case (Some y)
    then have y: "y \<in> set users" "us_telegram_id y = tu_id t" by (auto dest: find_Some_set)
    from Some assms(1) have u: "users' = upd_where (\<lambda>z. us_id z = us_id y) (refresh_user t seen) users"
      "x = refresh_user t seen y"
      by (auto simp: upsert_user_def)
    have "x \<in> set users'" unfolding u set_upd_where using y(1) by (intro rev_image_eqI [of y]) auto
    moreover have "map us_id users' = map us_id users" "map us_telegram_id users' = map us_telegram_id users"
      unfolding u by (simp_all add: map_upd_where)
    ultimately show ?thesis
      using assms(2,3) y u(2) keyed_cong [of us_id users' users] image_set_map [of us_id users' users]
      by simp
  qed
  then show "keyed us_id users'" "distinct (map us_telegram_id users')"
    "us_id ` set users \<subseteq> us_id ` set users'" "x \<in> set users'" "us_telegram_id x = tu_id t"
    by auto
qed

text \<open>The user id a Telegram id has, before and after an upsert.\<close>

definition uid_of :: "int \<Rightarrow> user list \<Rightarrow> int option" where
  "uid_of tid users = map_option us_id (List.find (\<lambda>x. us_telegram_id x = tid) users)"

lemma find_telegram_upd:
  assumes "\<And>x. us_telegram_id (f x) = us_telegram_id x" "\<And>x. us_id (f x) = us_id x"
  shows "uid_of tid (upd_where P f users) = uid_of tid users"
  using assms by (induction users) (auto simp: uid_of_def upd_where_def)

lemma uid_of_upsert:
  assumes "upsert_user t seen users = (users', x)"
  shows "uid_of tid users' = (if tid = tu_id t then Some (us_id x) else uid_of tid users)"
proof (cases "List.find (\<lambda>x. us_telegram_id x = tu_id t) users")
  case None
  with assms have "users' = users @ [x]" "us_telegram_id x = tu_id t"
    by (auto simp: upsert_user_def Let_def new_user_def)
  with None show ?thesis by (auto simp: uid_of_def find_append split: option.splits)
next
  case (Some y)
  with assms have u: "users' = upd_where (\<lambda>z. us_id z = us_id y) (refresh_user t seen) users"
      "x = refresh_user t seen y"
    by (auto simp: upsert_user_def)
  have "uid_of tid users' = uid_of tid users" unfolding u by (rule find_telegram_upd) auto
  with Some show ?thesis by (simp add: u(2) uid_of_def)
qed

lemma upsert_user_id:
  assumes "upsert_user t seen users = (users', x)"
  shows "us_id x = (case uid_of (tu_id t) users of Some i \<Rightarrow> i | None \<Rightarrow> next_id us_id users)"
  using assms
  by (auto simp: upsert_user_def uid_of_def Let_def new_user_def split: option.splits)

section \<open>The standing of one member\<close>

text \<open>The row a Telegram id has in the roster of a group: its status and when it was last confirmed.\<close>

definition standing :: "int \<Rightarrow> int \<Rightarrow> roster \<Rightarrow> (member_status \<times> instant) option" where
  "standing chat tid r =
     (case uid_of tid (r_users r) of
        None \<Rightarrow> None
      | Some i \<Rightarrow> map_option (\<lambda>m. (mb_status m, mb_checked_at m)) (membership_for chat i (r_members r)))"

lemma membership_for_Some:
  "membership_for chat i ms = Some m \<Longrightarrow> m \<in> set ms \<and> mb_chat_id m = chat \<and> mb_user_id m = i"
  by (auto simp: membership_for_def dest: find_Some_set)

lemma membership_for_snoc [simp]:
  "membership_for chat i (ms @ [m]) =
     (case membership_for chat i ms of Some m' \<Rightarrow> Some m'
      | None \<Rightarrow> if mb_chat_id m = chat \<and> mb_user_id m = i then Some m else None)"
  by (auto simp: membership_for_def find_append split: option.splits)

lemma find_put:
  assumes "keyed mb_id ms" and "m \<in> set ms" and "mb_id m' = mb_id m"
    and "mb_chat_id m' = mb_chat_id m" and "mb_user_id m' = mb_user_id m"
  shows "membership_for chat i (put_membership m' ms) =
    map_option (\<lambda>x. if mb_id x = mb_id m then m' else x) (membership_for chat i ms)"
proof -
  have "membership_for chat i (upd_where (\<lambda>x. mb_id x = mb_id m) (\<lambda>_. m') xs) =
      map_option (\<lambda>x. if mb_id x = mb_id m then m' else x) (membership_for chat i xs)"
    if "set xs \<subseteq> set ms" for xs
    using that
  proof (induction xs)
    case (Cons x xs)
    then have "mb_id x = mb_id m \<Longrightarrow> x = m" using assms(1,2) keyed_unique by (metis list.set_intros(1) subsetD)
    with Cons show ?case using assms(3-5) by (auto simp: membership_for_def upd_where_def)
  qed (simp add: membership_for_def upd_where_def)
  then show ?thesis using assms(3) by (simp add: put_membership_def)
qed

lemma put_membership_ok:
  assumes "keyed mb_id ms" and "distinct (map (\<lambda>m. (mb_chat_id m, mb_user_id m)) ms)"
    and "m \<in> set ms" and "mb_id m' = mb_id m"
    and "mb_chat_id m' = mb_chat_id m" and "mb_user_id m' = mb_user_id m"
  shows "keyed mb_id (put_membership m' ms)"
    and "distinct (map (\<lambda>m. (mb_chat_id m, mb_user_id m)) (put_membership m' ms))"
    and "mb_user_id ` set (put_membership m' ms) = mb_user_id ` set ms"
proof -
  have key: "x = m" if "x \<in> set ms" "mb_id x = mb_id m'" for x
    using that assms(1,3,4) keyed_unique by metis
  then have "map (\<lambda>m. (mb_chat_id m, mb_user_id m)) (put_membership m' ms) =
      map (\<lambda>m. (mb_chat_id m, mb_user_id m)) ms"
    "map mb_id (put_membership m' ms) = map mb_id ms"
    "map mb_user_id (put_membership m' ms) = map mb_user_id ms"
    using assms(4-6) by (auto simp: put_membership_def upd_where_def)
  with assms(1,2) show "keyed mb_id (put_membership m' ms)"
    "distinct (map (\<lambda>m. (mb_chat_id m, mb_user_id m)) (put_membership m' ms))"
    "mb_user_id ` set (put_membership m' ms) = mb_user_id ` set ms"
    using keyed_cong [of mb_id "put_membership m' ms" ms]
      image_set_map [of mb_user_id "put_membership m' ms" ms] by simp_all
qed

section \<open>Steps\<close>

text \<open>How an observation moves a standing: an explicit update, and a message.\<close>

fun told :: "member_status \<Rightarrow> instant \<Rightarrow> (member_status \<times> instant) option \<Rightarrow> (member_status \<times> instant) option" where
  "told st t None = Some (st, t)"
| "told st t (Some (s, c)) = (if t < c then Some (s, c) else Some (st, t))"

fun seen_writing :: "instant \<Rightarrow> (member_status \<times> instant) option \<Rightarrow> (member_status \<times> instant) option" where
  "seen_writing t None = Some (Member, t)"
| "seen_writing t (Some (s, c)) =
     (if t \<le> c then Some (s, c) else Some (if active_status s then s else Member, t))"

text \<open>Both operations upsert the user, then put or add that user's membership row.\<close>

lemma standing_write:
  assumes ok: "roster_ok r" and up: "upsert_user t at (r_users r) = (users, x)"
    and "mb_chat_id m = chat" and "mb_user_id m = us_id x"
    and ms: "ms = (case membership_for chat (us_id x) (r_members r) of
       None \<Rightarrow> r_members r @ [m] | Some old \<Rightarrow> put_membership m (r_members r))"
    and "\<And>old. membership_for chat (us_id x) (r_members r) = Some old \<Longrightarrow> mb_id m = mb_id old"
    and "membership_for chat (us_id x) (r_members r) = None \<Longrightarrow> mb_id m = next_id mb_id (r_members r)"
  shows "roster_ok \<lparr>r_users = users, r_members = ms\<rparr>"
    and "standing chat tid \<lparr>r_users = users, r_members = ms\<rparr> =
      (if tid = tu_id t then Some (mb_status m, mb_checked_at m) else standing chat tid r)"
proof -
  have u: "keyed us_id users" "distinct (map us_telegram_id users)"
    "us_id ` set (r_users r) \<subseteq> us_id ` set users" "x \<in> set users" "us_telegram_id x = tu_id t"
    using upsert_user_ok [OF up] ok by (auto simp: roster_ok_def)
  have m: "keyed mb_id (r_members r)" "distinct (map (\<lambda>m. (mb_chat_id m, mb_user_id m)) (r_members r))"
    "mb_user_id ` set (r_members r) \<subseteq> us_id ` set (r_users r)"
    using ok by (auto simp: roster_ok_def)
  have other: "uid_of tid (r_users r) \<noteq> Some (us_id x)" if "tid \<noteq> tu_id t"
  proof
    assume "uid_of tid (r_users r) = Some (us_id x)"
    then have "uid_of tid users = Some (us_id x)" using uid_of_upsert [OF up] that by simp
    then obtain y where "y \<in> set users" "us_telegram_id y = tid" "us_id y = us_id x"
      by (auto simp: uid_of_def dest: find_Some_set)
    with u(1,4,5) that show False using keyed_unique by metis
  qed
  show "roster_ok \<lparr>r_users = users, r_members = ms\<rparr>"
  proof (cases "membership_for chat (us_id x) (r_members r)")
    case None
    then have "(chat, us_id x) \<notin> (\<lambda>m. (mb_chat_id m, mb_user_id m)) ` set (r_members r)"
      by (auto simp: membership_for_def find_None_set)
    with None u m assms(3-7) show ?thesis
      using keyed_insert [of mb_id "r_members r" m] by (auto simp: roster_ok_def)
  next
    case (Some old)
    with u m assms(3-7) show ?thesis
      using put_membership_ok [of "r_members r" old m] membership_for_Some [OF Some]
      by (auto simp: roster_ok_def)
  qed
  show "standing chat tid \<lparr>r_users = users, r_members = ms\<rparr> =
      (if tid = tu_id t then Some (mb_status m, mb_checked_at m) else standing chat tid r)"
  proof (cases "membership_for chat (us_id x) (r_members r)")
    case None
    with assms(3-7) uid_of_upsert [OF up, of tid] other show ?thesis
      by (auto simp: standing_def split: option.splits)
  next
    case (Some old)
    note old = membership_for_Some [OF this]
    have "membership_for chat i ms = (if i = us_id x then Some m else membership_for chat i (r_members r))" for i
    proof -
      have "membership_for chat i ms = map_option (\<lambda>z. if mb_id z = mb_id old then m else z)
          (membership_for chat i (r_members r))"
        using Some old assms(3-6) m(1) find_put [of "r_members r" old m chat i] by simp
      moreover have "mb_id z \<noteq> mb_id old"
        if "membership_for chat i (r_members r) = Some z" "i \<noteq> us_id x" for z
        using membership_for_Some [OF that(1)] that(2) old m(1) keyed_unique by metis
      ultimately show ?thesis using Some
        by (cases "membership_for chat i (r_members r)") auto
    qed
    with uid_of_upsert [OF up, of tid] other show ?thesis
      by (auto simp: standing_def split: option.splits)
  qed
qed

lemma standing_read:
  assumes ok: "roster_ok r" and up: "upsert_user t at (r_users r) = (users, x)"
  shows "roster_ok (r\<lparr>r_users := users\<rparr>)"
    and "standing chat tid (r\<lparr>r_users := users\<rparr>) = standing chat tid r"
    and "standing chat (tu_id t) r =
      map_option (\<lambda>m. (mb_status m, mb_checked_at m)) (membership_for chat (us_id x) (r_members r))"
proof -
  have u: "keyed us_id users" "distinct (map us_telegram_id users)"
    "us_id ` set (r_users r) \<subseteq> us_id ` set users"
    using upsert_user_ok [OF up] ok by (auto simp: roster_ok_def)
  then show "roster_ok (r\<lparr>r_users := users\<rparr>)"
    using ok unfolding roster_ok_def by simp (blast intro: subset_trans)
  have fresh: "membership_for chat (us_id x) (r_members r) = None" if "uid_of (tu_id t) (r_users r) = None"
  proof -
    have "us_id x = next_id us_id (r_users r)" using upsert_user_id [OF up] that by simp
    moreover have "mb_user_id m \<noteq> next_id us_id (r_users r)" if "m \<in> set (r_members r)" for m
      using that ok next_id_fresh [of us_id "r_users r"] unfolding roster_ok_def
      by (metis image_eqI subsetD)
    ultimately show ?thesis by (auto simp: membership_for_def find_None_set)
  qed
  then show "standing chat (tu_id t) r =
      map_option (\<lambda>m. (mb_status m, mb_checked_at m)) (membership_for chat (us_id x) (r_members r))"
    using upsert_user_id [OF up] by (auto simp: standing_def split: option.splits)
  with fresh show "standing chat tid (r\<lparr>r_users := users\<rparr>) = standing chat tid r"
    using uid_of_upsert [OF up, of tid] upsert_user_id [OF up]
    by (auto simp: standing_def split: option.splits)
qed

lemma apply_chat_member_update_step:
  assumes "roster_ok r"
  shows "roster_ok (fst (apply_chat_member_update target upd r)) \<and>
    standing target tid (fst (apply_chat_member_update target upd r)) =
    (if is_target_group target (cu_chat_id upd) (casefold (cu_chat_type upd)) \<and> tid = tu_id (cu_user upd)
     then told (observed_status (cu_raw_status upd) (cu_is_member upd)) (seen_instant (cu_date upd))
       (standing target tid r)
     else standing target tid r)"
proof (cases "is_target_group target (cu_chat_id upd) (casefold (cu_chat_type upd))")
  case True
  obtain users x where up: "upsert_user (cu_user upd) (seen_instant (cu_date upd)) (r_users r) = (users, x)"
    by fastforce
  note read = standing_read(1) [OF assms up] standing_read(2,3) [OF assms up, where chat = target]
  show ?thesis
  proof (cases "membership_for target (us_id x) (r_members r)")
    case None
    let ?st = "observed_status (cu_raw_status upd) (cu_is_member upd)"
    let ?m = "apply_transition ?st (seen_instant (cu_date upd))
      \<lparr>mb_id = next_id mb_id (r_members r), mb_chat_id = target, mb_user_id = us_id x, mb_status = ?st,
       mb_is_headman = False, mb_joined_at = None, mb_left_at = None,
       mb_checked_at = seen_instant (cu_date upd)\<rparr>"
    from None True up read(3) standing_write(1) [OF assms up, where m = ?m and chat = target]
      standing_write(2) [OF assms up, where m = ?m and chat = target and tid = tid]
    show ?thesis by (simp add: apply_chat_member_update_def Let_def)
  next
    case (Some m)
    let ?m = "apply_transition (observed_status (cu_raw_status upd) (cu_is_member upd))
      (seen_instant (cu_date upd)) m"
    from Some True up read membership_for_Some [OF Some]
      standing_write(1) [OF assms up, where m = ?m and chat = target]
      standing_write(2) [OF assms up, where m = ?m and chat = target and tid = tid]
    show ?thesis by (auto simp: apply_chat_member_update_def Let_def)
  qed
qed (use assms in \<open>simp add: apply_chat_member_update_def\<close>)

lemma observe_message_sender_step:
  assumes "roster_ok r"
  shows "roster_ok (fst (observe_message_sender target msg r)) \<and>
    standing target tid (fst (observe_message_sender target msg r)) =
    (if is_target_group target (sm_chat_id msg) (casefold (sm_chat_type msg)) \<and>
        Some tid = map_option tu_id (sm_from_user msg)
     then seen_writing (seen_instant (sm_date msg)) (standing target tid r)
     else standing target tid r)"
proof (cases "is_target_group target (sm_chat_id msg) (casefold (sm_chat_type msg)) \<and> sm_from_user msg \<noteq> None")
  case True
  then obtain s where s: "sm_from_user msg = Some s" by auto
  obtain users x where up: "upsert_user s (seen_instant (sm_date msg)) (r_users r) = (users, x)"
    by fastforce
  note read = standing_read(1) [OF assms up] standing_read(2,3) [OF assms up, where chat = target]
  show ?thesis
  proof (cases "membership_for target (us_id x) (r_members r)")
    case None
    let ?m = "\<lparr>mb_id = next_id mb_id (r_members r), mb_chat_id = target, mb_user_id = us_id x,
       mb_status = Member, mb_is_headman = False, mb_joined_at = Some (seen_instant (sm_date msg)),
       mb_left_at = None, mb_checked_at = seen_instant (sm_date msg)\<rparr>"
    from None True s up read(3) standing_write(1) [OF assms up, where m = ?m and chat = target]
      standing_write(2) [OF assms up, where m = ?m and chat = target and tid = tid]
    show ?thesis by (simp add: observe_message_sender_def Let_def)
  next
    case (Some m)
    let ?m = "if active_status (mb_status m) then m\<lparr>mb_checked_at := seen_instant (sm_date msg)\<rparr>
      else apply_transition Member (seen_instant (sm_date msg)) m"
    from Some True s up read membership_for_Some [OF Some]
      standing_write(1) [OF assms up, where m = ?m and chat = target]
      standing_write(2) [OF assms up, where m = ?m and chat = target and tid = tid]
    show ?thesis by (auto simp: observe_message_sender_def Let_def)
  qed
qed (use assms in \<open>auto simp: observe_message_sender_def split: option.splits\<close>)

text \<open>Any sequence of observations, in delivery order.\<close>

datatype observation = Chat_member chat_member_update | Sender seen_message

fun observe :: "int \<Rightarrow> observation \<Rightarrow> roster \<Rightarrow> roster" where
  "observe target (Chat_member upd) r = fst (apply_chat_member_update target upd r)"
| "observe target (Sender msg) r = fst (observe_message_sender target msg r)"

fun observe_all :: "int \<Rightarrow> observation list \<Rightarrow> roster \<Rightarrow> roster" where
  "observe_all target [] r = r"
| "observe_all target (ob # obs) r = observe_all target obs (observe target ob r)"

lemma observe_all_append: "observe_all target (xs @ ys) r = observe_all target ys (observe_all target xs r)"
  by (induction xs arbitrary: r) auto

lemma observe_ok: "roster_ok r \<Longrightarrow> roster_ok (observe target ob r)"
  by (cases ob) (auto simp: apply_chat_member_update_step observe_message_sender_step)

lemma observe_all_ok: "roster_ok r \<Longrightarrow> roster_ok (observe_all target obs r)"
  by (induction obs arbitrary: r) (auto simp: observe_ok)

text \<open>When an observation happened, and whom an explicit update is about.\<close>

fun ob_time :: "observation \<Rightarrow> instant" where
  "ob_time (Chat_member upd) = seen_instant (cu_date upd)"
| "ob_time (Sender msg) = seen_instant (sm_date msg)"

fun explicit_about :: "int \<Rightarrow> observation \<Rightarrow> bool" where
  "explicit_about tid (Chat_member upd) \<longleftrightarrow> tu_id (cu_user upd) = tid"
| "explicit_about tid (Sender msg) \<longleftrightarrow> False"

definition known_by :: "instant \<Rightarrow> (member_status \<times> instant) option \<Rightarrow> bool" where
  "known_by t st \<longleftrightarrow> (case st of None \<Rightarrow> True | Some (s, c) \<Rightarrow> c \<le> t)"

lemma observe_known_by:
  assumes "roster_ok r" and "ob_time ob \<le> t" and "known_by t (standing target tid r)"
  shows "known_by t (standing target tid (observe target ob r))"
  using assms
  by (cases ob; cases "standing target tid r")
    (auto simp: apply_chat_member_update_step observe_message_sender_step known_by_def)

lemma observe_all_known_by:
  assumes "roster_ok r" and "\<And>ob. ob \<in> set obs \<Longrightarrow> ob_time ob \<le> t" and "known_by t (standing target tid r)"
  shows "known_by t (standing target tid (observe_all target obs r))"
  using assms by (induction obs arbitrary: r) (auto simp: observe_known_by observe_ok)

lemma observe_settled:
  assumes "roster_ok r" and "standing target tid r = Some (s, t)"
    and "ob_time ob \<le> t" and "explicit_about tid ob \<Longrightarrow> ob_time ob < t"
  shows "standing target tid (observe target ob r) = Some (s, t)"
  using assms
  by (cases ob) (auto simp: apply_chat_member_update_step observe_message_sender_step)

lemma observe_all_settled:
  assumes "roster_ok r" and "standing target tid r = Some (s, t)"
    and "\<And>ob. ob \<in> set obs \<Longrightarrow> ob_time ob \<le> t \<and> (explicit_about tid ob \<longrightarrow> ob_time ob < t)"
  shows "standing target tid (observe_all target obs r) = Some (s, t)"
  using assms by (induction obs arbitrary: r) (auto simp: observe_settled observe_ok)

section \<open>Properties\<close>

text \<open>
  Access to the group's history is granted exactly when Telegram just confirmed the
  user as creator, administrator or member, or as a restricted user who is still in the
  group; an API error, an unknown status or a missing flag denies it.
\<close>

theorem history_access_confirmed:
  "can_access_group_history (current_membership reply) \<longleftrightarrow>
     (\<exists>raw flag. reply = Member_reply raw flag \<and>
        (raw \<in> {u ''creator'', u ''administrator'', u ''member''} \<or>
         raw = u ''restricted'' \<and> flag = Some True))"
  by (cases reply) (auto simp: can_access_group_history_def current_membership_def status_names_def
      split: option.splits)

text \<open>
  C23: Whatever order observations arrive in, if one explicit membership update about a
  user is at least as new as every other observation and newer than every other explicit
  update about that user, then the roster ends with exactly its status: late or repeated
  updates, and messages sent before it, cannot resurrect a user who left.
\<close>

theorem roster_newest_update_wins:
  assumes "roster_ok r" and "known_by t (standing target tid r)"
    and "is_target_group target (cu_chat_id upd) (casefold (cu_chat_type upd))"
    and "tu_id (cu_user upd) = tid" and "seen_instant (cu_date upd) = t"
    and "\<And>ob. ob \<in> set (xs @ ys) \<Longrightarrow> ob_time ob \<le> t \<and> (explicit_about tid ob \<longrightarrow> ob_time ob < t)"
  shows "standing target tid (observe_all target (xs @ [Chat_member upd] @ ys) r) =
    Some (observed_status (cu_raw_status upd) (cu_is_member upd), t)"
proof -
  have ok: "roster_ok (observe_all target xs r)" using assms(1) by (rule observe_all_ok)
  have "known_by t (standing target tid (observe_all target xs r))"
    using assms by (intro observe_all_known_by) auto
  then have "standing target tid (observe target (Chat_member upd) (observe_all target xs r)) =
      Some (observed_status (cu_raw_status upd) (cu_is_member upd), t)"
    using apply_chat_member_update_step [OF ok, of target upd tid] assms(3-5)
    by (cases "standing target tid (observe_all target xs r)") (auto simp: known_by_def)
  then show ?thesis
    using observe_all_settled [OF observe_ok [OF ok, of target "Chat_member upd"], of target tid] assms(6)
    by (simp add: observe_all_append)
qed

definition demo_person :: tg_user where
  "demo_person = \<lparr>tu_id = 7, tu_is_bot = False, tu_first_name = u ''A'', tu_last_name = None,
     tu_username = None, tu_language_code = None\<rparr>"

definition demo_left :: chat_member_update where
  "demo_left = \<lparr>cu_chat_id = -1, cu_chat_type = u ''group'', cu_date = Unix_seconds 20,
     cu_user = demo_person, cu_raw_status = u ''left'', cu_is_member = None\<rparr>"

definition demo_post :: seen_message where
  "demo_post = \<lparr>sm_chat_id = -1, sm_chat_type = u ''group'', sm_date = Unix_seconds 10,
     sm_from_user = Some demo_person\<rparr>"

theorem roster_newest_update_wins_witness:
  "standing (-1) 7 (observe_all (-1) [Sender demo_post, Chat_member demo_left, Sender demo_post]
     \<lparr>r_users = [], r_members = []\<rparr>) = Some (Left_group, 20 * second)"
proof -
  have "observed_status (u ''left'') None = Left_group" by code_simp
  moreover have "is_target_group (-1) (-1) (casefold (u ''group''))" by code_simp
  ultimately show ?thesis
    using roster_newest_update_wins [of "\<lparr>r_users = [], r_members = []\<rparr>" "20 * second" "-1" 7 demo_left
        "[Sender demo_post]" "[Sender demo_post]"]
    by (simp add: roster_ok_def known_by_def standing_def uid_of_def demo_left_def demo_person_def
        demo_post_def seen_instant_def second_def)
qed

text \<open>
  The attendance roster lists exactly the stored users that are not bots and stand as
  creator, administrator, member or restricted in the group, each once, in the order of
  display name and then Telegram id.
\<close>

theorem attendance_roster_exact:
  assumes "roster_ok r"
  shows "set (attendance_roster target r) =
      {x \<in> set (r_users r). \<not> us_is_bot x \<and> (\<exists>m \<in> set (r_members r). mb_user_id m = us_id x
         \<and> mb_chat_id m = target \<and> mb_status m \<in> {Creator, Administrator, Member, Restricted})}
    \<and> distinct (attendance_roster target r) \<and> sorted (map name_order (attendance_roster target r))"
proof -
  let ?f = "\<lambda>x. map (\<lambda>_. x) (filter (\<lambda>m. mb_user_id m = us_id x \<and> mb_chat_id m = target
    \<and> active_status (mb_status m) \<and> \<not> us_is_bot x) (r_members r))"
  have d: "distinct (map (\<lambda>m. (mb_chat_id m, mb_user_id m)) (r_members r))"
    and users: "distinct (r_users r)"
    using assms by (auto simp: roster_ok_def keyed_def dest: distinct_map [THEN iffD1])
  have one: "distinct (?f x)" for x
  proof -
    have "length (filter (\<lambda>m. P m \<and> mb_chat_id m = c \<and> mb_user_id m = i) ms) \<le> 1"
      if "distinct (map (\<lambda>m. (mb_chat_id m, mb_user_id m)) ms)" for P c i and ms :: "membership list"
      using that by (induction ms) (auto simp: filter_empty_conv rev_image_eqI)
    from this [OF d, of "\<lambda>m. active_status (mb_status m) \<and> \<not> us_is_bot x" target "us_id x"]
    have "length (?f x) \<le> 1" by (simp add: conj_ac)
    then show ?thesis by (cases "?f x") auto
  qed
  have "distinct (concat (map ?f xs))" if "distinct xs" for xs
    using that one by (induction xs) auto
  with users show ?thesis
    by (auto simp: attendance_roster_def active_humans_def active_status_def)
qed

lemma demo_roster_ok: "roster_ok (observe (-1) (Sender demo_post) \<lparr>r_users = [], r_members = []\<rparr>)"
  by (rule observe_ok) (simp add: roster_ok_def)

theorem attendance_roster_exact_witness:
  "distinct (attendance_roster (-1) (observe (-1) (Sender demo_post) \<lparr>r_users = [], r_members = []\<rparr>))"
  using attendance_roster_exact [OF demo_roster_ok] by blast

end
