(* ===== verification/Text.thy ===== *)
theory Text
  imports Unicode
begin

text \<open>
  Text and calendar helpers the components share: HTML escaping, joining, dates as
  proleptic Gregorian ordinals (\<open>date.toordinal\<close>) with \<open>isoformat\<close>, and the readings
  of a \<open>datetime\<close>, whose wall clock counts microseconds from 1970-01-01.
\<close>

section \<open>Strings\<close>

text \<open>\<open>html.escape\<close>\<close>

definition escape_cp :: "nat \<Rightarrow> pystr" where
  "escape_cp c =
     (if c = 38 then u ''&amp;'' else if c = 60 then u ''&lt;'' else if c = 62 then u ''&gt;''
      else if c = 34 then u ''&quot;'' else if c = 39 then u ''&#x27;'' else [c])"

definition html_escape :: "pystr \<Rightarrow> pystr" where
  "html_escape s = concat (map escape_cp s)"

fun join :: "pystr \<Rightarrow> pystr list \<Rightarrow> pystr" where
  "join sep [] = []"
| "join sep [p] = p"
| "join sep (p # ps) = p @ sep @ join sep ps"

text \<open>\<open>s.split()\<close>: the words between runs of white space.\<close>

definition words :: "pystr \<Rightarrow> pystr list" where
  "words s =
     (let (cur, acc) = foldr (\<lambda>c (cur, acc).
            if is_space c then ([], if cur = [] then acc else cur # acc) else (c # cur, acc)) s ([], [])
      in if cur = [] then acc else cur # acc)"

text \<open>Whether a text starts with a lower-case literal, ignoring case.\<close>

definition ci_prefix :: "pystr \<Rightarrow> pystr \<Rightarrow> bool" where
  "ci_prefix lit s \<longleftrightarrow> length lit \<le> length s \<and>
     list_all2 (\<lambda>x c. casefold_cp c = [x]) lit (take (length lit) s)"

lemma escape_cp_safe: "c \<in> set (escape_cp d) \<Longrightarrow> c \<noteq> 60 \<and> c \<noteq> 62 \<and> c \<noteq> 34 \<and> c \<noteq> 39"
  by (auto simp: escape_cp_def split: if_splits)

text \<open>Escaped text carries no tag and closes no attribute.\<close>

lemma html_escape_safe: "c \<in> set (html_escape s) \<Longrightarrow> c \<noteq> 60 \<and> c \<noteq> 62 \<and> c \<noteq> 34 \<and> c \<noteq> 39"
  using escape_cp_safe unfolding html_escape_def by auto

section \<open>Dates\<close>

type_synonym date = int

text \<open>\<open>date.weekday()\<close>: Monday is 0.\<close>

definition weekday :: "date \<Rightarrow> int" where
  "weekday d = (d + 6) mod 7"

definition monday_for :: "date \<Rightarrow> date" where
  "monday_for d = d - weekday d"

definition is_leap :: "int \<Rightarrow> bool" where
  "is_leap y \<longleftrightarrow> y mod 4 = 0 \<and> (y mod 100 \<noteq> 0 \<or> y mod 400 = 0)"

definition days_before_year :: "int \<Rightarrow> int" where
  "days_before_year y = (let z = y - 1 in z * 365 + z div 4 - z div 100 + z div 400)"

definition days_in_month :: "int \<Rightarrow> int \<Rightarrow> int" where
  "days_in_month y m =
     (if m = 2 then (if is_leap y then 29 else 28)
      else if m \<in> {4, 6, 9, 11} then 30 else 31)"

definition days_before_month :: "int \<Rightarrow> int \<Rightarrow> int" where
  "days_before_month y m = sum_list (map (\<lambda>k. days_in_month y (int k)) [1..<nat m])"

definition ordinal :: "int \<Rightarrow> int \<Rightarrow> int \<Rightarrow> date" where
  "ordinal y m d = days_before_year y + days_before_month y m + d"

text \<open>The inverse, as CPython's \<open>_ord2ymd\<close> computes it.\<close>

definition year_of :: "date \<Rightarrow> int \<times> int" where
  "year_of d =
     (let n = d - 1; n400 = n div 146097; r400 = n mod 146097;
          n100 = r400 div 36524; r100 = r400 mod 36524;
          n4 = r100 div 1461; r4 = r100 mod 1461;
          n1 = r4 div 365; r1 = r4 mod 365;
          y = n400 * 400 + 1 + n100 * 100 + n4 * 4 + n1
      in if n1 = 4 \<or> n100 = 4 then (y - 1, 365) else (y, r1))"

fun month_of :: "int \<Rightarrow> int list \<Rightarrow> int \<Rightarrow> int \<times> int" where
  "month_of y [] r = (12, r + 1)"
| "month_of y (m # ms) r = (if r < days_in_month y m then (m, r + 1) else month_of y ms (r - days_in_month y m))"

definition ymd :: "date \<Rightarrow> int \<times> int \<times> int" where
  "ymd d = (let (y, r) = year_of d in (y, month_of y [1, 2, 3, 4, 5, 6, 7, 8, 9, 10, 11, 12] r))"

definition iso_date :: "date \<Rightarrow> pystr" where
  "iso_date d = (let (y, m, k) = ymd d in pad0 4 y @ [45] @ pad0 2 m @ [45] @ pad0 2 k)"

section \<open>Datetimes\<close>

definition epoch_ordinal :: int where
  "epoch_ordinal = 719163"

definition dt_date :: "pydt \<Rightarrow> date" where
  "dt_date d = wall d div day_us + epoch_ordinal"

definition dt_time :: "pydt \<Rightarrow> int" where
  "dt_time d = wall d mod day_us"

text \<open>\<open>%H:%M\<close>\<close>

definition hour_minute :: "int \<Rightarrow> pystr" where
  "hour_minute t = pad0 2 (t div hour) @ [58] @ pad0 2 (t mod hour div minute)"

text \<open>\<open>astimezone\<close> to a zone of the given offset at that instant.\<close>

definition in_zone :: "(instant \<Rightarrow> int) \<Rightarrow> pydt \<Rightarrow> pydt" where
  "in_zone tz d = (let t = instant_of d in \<lparr>wall = t + tz t, utcoff = Some (tz t)\<rparr>)"

lemma weekday_range: "0 \<le> weekday d \<and> weekday d \<le> 6"
  unfolding weekday_def by presburger

lemma monday_for_bounds: "monday_for d \<le> d \<and> d \<le> monday_for d + 6"
  using weekday_range [of d] by (simp add: monday_for_def)

lemma weekday_monday [simp]: "weekday (monday_for d) = 0"
  unfolding weekday_def monday_for_def by presburger

lemma weekday_shift [simp]: "weekday (d + 7 * k) = weekday d"
  unfolding weekday_def by presburger

lemma monday_for_unique: "weekday m = 0 \<Longrightarrow> m \<le> d \<Longrightarrow> d \<le> m + 6 \<Longrightarrow> monday_for d = m"
  unfolding weekday_def monday_for_def by presburger

end
