(* ===== verification/Attendance.thy ===== *)
theory Attendance
  imports Roster Text
begin

text \<open>
  Attendance by one reaction: \<open>domain/attendance.py\<close> (the decision), \<open>telegram/updates.py\<close>
  (from a Telegram update to an event) and \<open>attendance/service.py\<close> (sessions, marks and the
  summary) over the tables \<open>attendance_sessions\<close>, \<open>attendance_marks\<close> and the roster. A
  constraint of the schema that a flush would violate is the error \<open>Integrity_error\<close>.
\<close>

section \<open>The decision\<close>

datatype attendance_action = Mark | Unmark | Ignore_duplicate | Ignore_wrong_reaction | Ignore_outside_window

datatype attendance_error =
    Naive_timestamp
  | Empty_window
  | Empty_reaction
  | Bad_window_minutes
  | Different_session
  | No_such_session
  | Integrity_error

record window =
  w_lesson_key :: pystr
  w_message_id :: int
  w_opens_at :: pydt
  w_closes_at :: pydt
  w_reaction :: pystr

definition new_window :: "pystr \<Rightarrow> int \<Rightarrow> pydt \<Rightarrow> pydt \<Rightarrow> pystr \<Rightarrow> attendance_error + window" where
  "new_window key msg opens closes reaction =
     and_then (guard (aware opens \<and> aware closes) Naive_timestamp) (\<lambda>_.
     and_then (guard (\<not> instant_of closes \<le> instant_of opens) Empty_window) (\<lambda>_.
     and_then (guard (reaction \<noteq> []) Empty_reaction) (\<lambda>_.
     Inr \<lparr>w_lesson_key = key, w_message_id = msg, w_opens_at = opens, w_closes_at = closes,
          w_reaction = reaction\<rparr>)))"

record reaction_event =
  ev_user_id :: int
  ev_occurred_at :: pydt
  ev_reaction :: pystr
  ev_is_present :: bool

definition new_reaction_event ::
  "int \<Rightarrow> pydt \<Rightarrow> pystr \<Rightarrow> bool \<Rightarrow> attendance_error + reaction_event" where
  "new_reaction_event user at reaction present =
     and_then (guard (aware at) Naive_timestamp) (\<lambda>_.
     Inr \<lparr>ev_user_id = user, ev_occurred_at = at, ev_reaction = reaction, ev_is_present = present\<rparr>)"

definition decide_attendance_action :: "window \<Rightarrow> reaction_event \<Rightarrow> bool \<Rightarrow> attendance_action" where
  "decide_attendance_action session event currently_marked =
     (if ev_reaction event \<noteq> w_reaction session then Ignore_wrong_reaction
      else if instant_of (ev_occurred_at event) < instant_of (w_opens_at session)
        \<or> instant_of (w_closes_at session) \<le> instant_of (ev_occurred_at event)
      then Ignore_outside_window
      else if ev_is_present event = currently_marked then Ignore_duplicate
      else if ev_is_present event then Mark else Unmark)"

section \<open>From a Telegram update\<close>

text \<open>A reaction is an emoji or something else (a custom emoji, a paid star).\<close>

datatype tg_reaction = Emoji pystr | Other_reaction

record reaction_update =
  ru_user :: "tg_user option"
  ru_date :: pydt
  ru_old :: "tg_reaction list"
  ru_new :: "tg_reaction list"

definition contains_emoji :: "tg_reaction list \<Rightarrow> pystr \<Rightarrow> bool" where
  "contains_emoji reactions expected \<longleftrightarrow> list_ex (\<lambda>r. r = Emoji expected) reactions"

definition attendance_event_from_update ::
  "reaction_update \<Rightarrow> pystr \<Rightarrow> attendance_error + reaction_event option" where
  "attendance_event_from_update upd expected =
     (case ru_user upd of
        None \<Rightarrow> Inr None
      | Some user \<Rightarrow>
          if tu_is_bot user then Inr None
          else
            let old_present = contains_emoji (ru_old upd) expected;
                new_present = contains_emoji (ru_new upd) expected
            in if old_present = new_present then Inr None
               else and_then (new_reaction_event (tu_id user) (ru_date upd) expected new_present)
                 (\<lambda>e. Inr (Some e)))"

section \<open>Tables\<close>

datatype session_status = Scheduled | Open_session | Closed | Cancelled_session

record session =
  s_id :: int
  s_lesson_id :: int
  s_chat_id :: int
  s_message_id :: int
  s_reaction :: pystr
  s_opens_at :: instant
  s_closes_at :: instant
  s_status :: session_status
  s_created_at :: instant

record mark =
  mk_id :: int
  mk_session_id :: int
  mk_user_id :: int
  mk_source_update_id :: "int option"
  mk_marked_at :: instant
  mk_removed_at :: "instant option"

text \<open>\<open>a_lessons\<close> and \<open>a_updates\<close> are the keys the foreign keys refer to.\<close>

record attendance =
  a_roster :: roster
  a_sessions :: "session list"
  a_marks :: "mark list"
  a_lessons :: "int list"
  a_updates :: "int list"

definition open_mark :: "mark \<Rightarrow> bool" where
  "open_mark m \<longleftrightarrow> mk_removed_at m = None"

section \<open>Operations\<close>

definition open_session ::
  "instant \<Rightarrow> int \<Rightarrow> int \<Rightarrow> int \<Rightarrow> pydt \<Rightarrow> int \<Rightarrow> pystr \<Rightarrow> attendance
     \<Rightarrow> attendance_error + (attendance \<times> session)" where
  "open_session created lesson_id chat_id message_id starts_at window_minutes reaction db =
     and_then (guard (aware starts_at) Naive_timestamp) (\<lambda>_.
     and_then (guard (5 \<le> window_minutes \<and> window_minutes \<le> 120) Bad_window_minutes) (\<lambda>_.
     let cleaned = strip reaction in
     and_then (guard (cleaned \<noteq> []) Empty_reaction) (\<lambda>_.
     (case List.find (\<lambda>s. s_lesson_id s = lesson_id) (a_sessions db) of
        Some existing \<Rightarrow>
          if s_chat_id existing \<noteq> chat_id \<or> s_message_id existing \<noteq> message_id
             \<or> s_reaction existing \<noteq> cleaned
          then Inl Different_session else Inr (db, existing)
      | None \<Rightarrow>
          if lesson_id \<notin> set (a_lessons db)
             \<or> list_ex (\<lambda>s. s_chat_id s = chat_id \<and> s_message_id s = message_id) (a_sessions db)
          then Inl Integrity_error
          else
            let s = \<lparr>s_id = next_id s_id (a_sessions db), s_lesson_id = lesson_id,
                     s_chat_id = chat_id, s_message_id = message_id, s_reaction = cleaned,
                     s_opens_at = instant_of starts_at,
                     s_closes_at = instant_of starts_at + window_minutes * minute,
                     s_status = Open_session, s_created_at = created\<rparr>
            in Inr (db\<lparr>a_sessions := a_sessions db @ [s]\<rparr>, s)))))"

record attendance_update =
  up_action :: attendance_action
  up_session_id :: "int option"
  up_present_count :: "nat option"

definition present_count :: "int \<Rightarrow> mark list \<Rightarrow> nat" where
  "present_count sid marks = length (filter (\<lambda>m. mk_session_id m = sid \<and> open_mark m) marks)"

definition keep_old :: "pystr option \<Rightarrow> pystr option \<Rightarrow> pystr option" where
  "keep_old new old = (case new of None \<Rightarrow> old | Some n \<Rightarrow> if n = [] then old else Some n)"

definition get_or_create_user ::
  "instant \<Rightarrow> int \<Rightarrow> pystr option \<Rightarrow> pystr option \<Rightarrow> instant \<Rightarrow> user list \<Rightarrow> user list \<times> user" where
  "get_or_create_user clock tid display_name username seen_at users =
     (case List.find (\<lambda>x. us_telegram_id x = tid) users of
        None \<Rightarrow>
          let x = \<lparr>us_id = next_id us_id users, us_telegram_id = tid, us_username = username,
                   us_display_name = display_name, us_language_code = None, us_is_bot = False,
                   us_first_seen = clock, us_last_seen = seen_at\<rparr>
          in (users @ [x], x)
      | Some x \<Rightarrow>
          let f = (\<lambda>x. x\<lparr>us_display_name := keep_old display_name (us_display_name x),
                        us_username := keep_old username (us_username x),
                        us_last_seen := max (us_last_seen x) seen_at\<rparr>)
          in (upd_where (\<lambda>y. us_id y = us_id x) f users, f x))"

definition window_of :: "session \<Rightarrow> window" where
  "window_of s = \<lparr>w_lesson_key = show_int (s_lesson_id s), w_message_id = s_message_id s,
     w_opens_at = utc_at (s_opens_at s), w_closes_at = utc_at (s_closes_at s),
     w_reaction = s_reaction s\<rparr>"

definition find_mark :: "int \<Rightarrow> int \<Rightarrow> mark list \<Rightarrow> mark option" where
  "find_mark sid uid marks = List.find (\<lambda>m. mk_session_id m = sid \<and> mk_user_id m = uid) marks"

text \<open>Whether a user currently counts as present in a session.\<close>

definition is_marked :: "int \<Rightarrow> int \<Rightarrow> mark list \<Rightarrow> bool" where
  "is_marked sid uid marks = (case find_mark sid uid marks of None \<Rightarrow> False | Some m \<Rightarrow> open_mark m)"

text \<open>The marks after an action; the schema's \<open>removed_at >= marked_at\<close> may refuse a removal.\<close>

definition put_mark ::
  "attendance_action \<Rightarrow> int \<Rightarrow> int \<Rightarrow> instant \<Rightarrow> int option \<Rightarrow> int list \<Rightarrow> mark list
     \<Rightarrow> attendance_error + mark list" where
  "put_mark action sid uid at source updates marks =
     (case (action, find_mark sid uid marks) of
        (Mark, None) \<Rightarrow>
          and_then (guard (case source of None \<Rightarrow> True | Some n \<Rightarrow> n \<in> set updates) Integrity_error) (\<lambda>_.
          Inr (marks @ [\<lparr>mk_id = next_id mk_id marks, mk_session_id = sid, mk_user_id = uid,
             mk_source_update_id = source, mk_marked_at = at, mk_removed_at = None\<rparr>]))
      | (Mark, Some m) \<Rightarrow>
          and_then (guard (case source of None \<Rightarrow> True | Some n \<Rightarrow> n \<in> set updates) Integrity_error) (\<lambda>_.
          Inr (upd_where (\<lambda>x. mk_id x = mk_id m)
             (\<lambda>x. x\<lparr>mk_marked_at := at, mk_removed_at := None, mk_source_update_id := source\<rparr>) marks))
      | (Unmark, Some m) \<Rightarrow>
          and_then (guard (mk_marked_at m \<le> at) Integrity_error) (\<lambda>_.
          Inr (upd_where (\<lambda>x. mk_id x = mk_id m) (\<lambda>x. x\<lparr>mk_removed_at := Some at\<rparr>) marks))
      | _ \<Rightarrow> Inr marks)"

definition apply_reaction ::
  "instant \<Rightarrow> int \<Rightarrow> int \<Rightarrow> reaction_event \<Rightarrow> pystr option \<Rightarrow> pystr option \<Rightarrow> int option \<Rightarrow> attendance
     \<Rightarrow> attendance_error + (attendance \<times> attendance_update)" where
  "apply_reaction clock chat_id message_id event display_name username source db =
     (case List.find (\<lambda>s. s_chat_id s = chat_id \<and> s_message_id s = message_id) (a_sessions db) of
        None \<Rightarrow> Inr (db, \<lparr>up_action = Ignore_outside_window, up_session_id = None,
                          up_present_count = None\<rparr>)
      | Some session \<Rightarrow>
          let at = instant_of (ev_occurred_at event);
              (users, user) = get_or_create_user clock (ev_user_id event) display_name username at
                                (r_users (a_roster db));
              currently_marked = is_marked (s_id session) (us_id user) (a_marks db)
          in and_then (new_window (w_lesson_key (window_of session)) (s_message_id session)
                 (utc_at (s_opens_at session)) (utc_at (s_closes_at session)) (s_reaction session)) (\<lambda>win.
             let decided = decide_attendance_action win event currently_marked;
                 action = (if s_status session \<in> {Scheduled, Open_session} then decided
                           else Ignore_outside_window)
             in and_then (put_mark action (s_id session) (us_id user) at source (a_updates db) (a_marks db))
                  (\<lambda>marks.
                Inr (db\<lparr>a_roster := (a_roster db)\<lparr>r_users := users\<rparr>, a_marks := marks\<rparr>,
                     \<lparr>up_action = action, up_session_id = Some (s_id session),
                      up_present_count = Some (present_count (s_id session) marks)\<rparr>))))"

definition due_to_close :: "instant \<Rightarrow> session \<Rightarrow> bool" where
  "due_to_close now s \<longleftrightarrow> s_status s \<in> {Scheduled, Open_session} \<and> s_closes_at s \<le> now"

definition close_due :: "pydt \<Rightarrow> attendance \<Rightarrow> attendance_error + (attendance \<times> nat)" where
  "close_due now db =
     and_then (guard (aware now) Naive_timestamp) (\<lambda>_.
     Inr (db\<lparr>a_sessions := upd_where (due_to_close (instant_of now)) (\<lambda>s. s\<lparr>s_status := Closed\<rparr>)
                           (a_sessions db)\<rparr>,
          length (filter (due_to_close (instant_of now)) (a_sessions db))))"

record attendance_summary =
  sum_session_id :: int
  sum_present :: "pystr list"
  sum_missing :: "pystr list"

definition roster_size :: "attendance_summary \<Rightarrow> nat" where
  "roster_size s = length (sum_present s) + length (sum_missing s)"

definition user_label :: "pystr option \<Rightarrow> pystr option \<Rightarrow> int \<Rightarrow> pystr" where
  "user_label display_name username tid =
     (let name = (case display_name of None \<Rightarrow> [] | Some n \<Rightarrow> strip n);
          nick = (case username of None \<Rightarrow> [] | Some n \<Rightarrow> strip n)
      in if name \<noteq> [] then name
         else if nick \<noteq> [] then [64] @ lstrip_by (\<lambda>c. c = 64) nick
         else u ''Telegram '' @ show_int tid)"

definition summary_members :: "member_status \<Rightarrow> bool" where
  "summary_members st \<longleftrightarrow> st \<in> {Creator, Administrator, Member}"

definition summary :: "int \<Rightarrow> attendance \<Rightarrow> attendance_error + attendance_summary" where
  "summary sid db =
     (case row_at s_id sid (a_sessions db) of
        None \<Rightarrow> Inl No_such_session
      | Some s \<Rightarrow>
          let rows = active_humans summary_members (s_chat_id s) (a_roster db);
              present = (\<lambda>x. us_id x \<in> mk_user_id ` set (filter (\<lambda>m. mk_session_id m = sid \<and> open_mark m)
                                                       (a_marks db)));
              label = (\<lambda>x. user_label (us_display_name x) (us_username x) (us_telegram_id x))
          in Inr \<lparr>sum_session_id = sid, sum_present = map label (filter present rows),
                  sum_missing = map label (filter (\<lambda>x. \<not> present x) rows)\<rparr>)"

text \<open>\<open>render_attendance_summary\<close>; the code points spell the Russian text of the message.\<close>

definition lesson_word :: pystr where
  "lesson_word = [1055, 1072, 1088, 1072]"

definition marked_word :: pystr where
  "marked_word = [1054, 1090, 1084, 1077, 1090, 1080, 1083, 1080, 1089, 1100, 58, 32]"

definition not_marked_word :: pystr where
  "not_marked_word = [1053, 1077, 32, 1086, 1090, 1084, 1077, 1090, 1080, 1083, 1080, 1089, 1100, 58, 32]"

definition voluntary_note :: pystr where
  "voluntary_note = [60, 105, 62, 1044, 1086, 1073, 1088, 1086, 1074, 1086, 1083, 1100, 1085, 1072, 1103, 32,
      1086, 1090, 1084, 1077, 1090, 1082, 1072, 44, 32, 1085, 1077, 32, 1087, 1086, 1076,
      1090, 1074, 1077, 1088, 1078, 1076, 1077, 1085, 1080, 1077, 32, 1075, 1077, 1086,
      1083, 1086, 1082, 1072, 1094, 1080, 1080, 46, 60, 47, 105, 62]"

definition name_lines :: "pystr list \<Rightarrow> pystr" where
  "name_lines names =
     (let text = join [10] (map (\<lambda>n. [8226, 32] @ html_escape n) names)
      in if text = [] then [8212] else text)"

definition render_attendance_summary :: "pystr \<Rightarrow> pydt \<Rightarrow> attendance_summary \<Rightarrow> pystr" where
  "render_attendance_summary lesson_title starts_at sm =
     (let title = strip lesson_title;
          count = (\<lambda>k. show_nat k)
      in u ''<b>'' @ html_escape (if title = [] then lesson_word else title) @ [32, 183, 32]
           @ hour_minute (dt_time starts_at) @ u ''</b>'' @ [10, 10]
         @ marked_word @ u ''<b>'' @ count (length (sum_present sm)) @ u '' / '' @ count (roster_size sm)
           @ u ''</b>'' @ [10] @ name_lines (sum_present sm) @ [10, 10]
         @ not_marked_word @ u ''<b>'' @ count (length (sum_missing sm)) @ u ''</b>'' @ [10]
           @ name_lines (sum_missing sm) @ [10, 10]
         @ voluntary_note)"

section \<open>Invariant\<close>

definition marks_ok :: "mark list \<Rightarrow> bool" where
  "marks_ok marks \<longleftrightarrow> keyed mk_id marks \<and> distinct (map (\<lambda>m. (mk_session_id m, mk_user_id m)) marks)
     \<and> (\<forall>m \<in> set marks. case mk_removed_at m of None \<Rightarrow> True | Some t \<Rightarrow> mk_marked_at m \<le> t)"

definition attendance_ok :: "attendance \<Rightarrow> bool" where
  "attendance_ok db \<longleftrightarrow> roster_ok (a_roster db) \<and> marks_ok (a_marks db) \<and> keyed s_id (a_sessions db)
     \<and> distinct (map s_lesson_id (a_sessions db))
     \<and> distinct (map (\<lambda>s. (s_chat_id s, s_message_id s)) (a_sessions db))
     \<and> (\<forall>s \<in> set (a_sessions db). s_opens_at s < s_closes_at s \<and> s_reaction s \<noteq> [])"

lemma find_mark_Some:
  "find_mark sid uid marks = Some m \<Longrightarrow> m \<in> set marks \<and> mk_session_id m = sid \<and> mk_user_id m = uid"
  by (auto simp: find_mark_def dest: find_Some_set)

lemma find_mark_in:
  assumes "marks_ok marks" and "m \<in> set marks"
  shows "find_mark (mk_session_id m) (mk_user_id m) marks = Some m"
proof (cases "find_mark (mk_session_id m) (mk_user_id m) marks")
  case None
  with assms(2) show ?thesis by (auto simp: find_mark_def find_None_set)
next
  case (Some m')
  with find_mark_Some [OF Some] assms show ?thesis
    by (auto simp: marks_ok_def distinct_map inj_on_def)
qed

lemma is_marked_iff:
  "marks_ok marks \<Longrightarrow>
     is_marked sid uid marks \<longleftrightarrow> (\<exists>m \<in> set marks. mk_session_id m = sid \<and> mk_user_id m = uid \<and> open_mark m)"
  using find_mark_in by (auto simp: is_marked_def dest: find_mark_Some split: option.splits)

lemma present_count_card:
  assumes "marks_ok marks"
  shows "present_count sid marks = card {uid. is_marked sid uid marks}"
proof -
  let ?ms = "filter (\<lambda>m. mk_session_id m = sid \<and> open_mark m) marks"
  have "distinct marks" "inj_on (\<lambda>m. (mk_session_id m, mk_user_id m)) (set marks)"
    using assms by (auto simp: marks_ok_def distinct_map)
  then have "distinct (map mk_user_id ?ms)" by (auto simp: distinct_map inj_on_def)
  then have "present_count sid marks = card (mk_user_id ` set ?ms)"
    by (metis distinct_card length_map list.set_map present_count_def)
  moreover have "mk_user_id ` set ?ms = {uid. is_marked sid uid marks}"
    using is_marked_iff [OF assms] by auto
  ultimately show ?thesis by simp
qed

lemma marks_ok_upd:
  assumes "marks_ok marks"
    and "\<And>m. P m \<Longrightarrow> mk_id (f m) = mk_id m \<and> mk_session_id (f m) = mk_session_id m
           \<and> mk_user_id (f m) = mk_user_id m"
    and "\<And>m. m \<in> set marks \<Longrightarrow> P m \<Longrightarrow>
           (case mk_removed_at (f m) of None \<Rightarrow> True | Some t \<Rightarrow> mk_marked_at (f m) \<le> t)"
  shows "marks_ok (upd_where P f marks)"
  using assms map_upd_where [of P "\<lambda>m. (mk_session_id m, mk_user_id m)" f marks]
    keyed_upd_where [of mk_id marks P f]
  by (auto simp: marks_ok_def set_upd_where)

lemma is_marked_upd:
  assumes ok: "marks_ok marks" and m: "m \<in> set marks"
    and f: "\<And>x. mk_session_id (f x) = mk_session_id x \<and> mk_user_id (f x) = mk_user_id x"
    and ok': "marks_ok (upd_where (\<lambda>x. mk_id x = mk_id m) f marks)"
  shows "is_marked sid uid (upd_where (\<lambda>x. mk_id x = mk_id m) f marks) \<longleftrightarrow>
    (if (sid, uid) = (mk_session_id m, mk_user_id m) then open_mark (f m) else is_marked sid uid marks)"
proof -
  have key: "x = m" if "x \<in> set marks" "mk_id x = mk_id m" for x
    using that m ok keyed_unique by (metis marks_ok_def)
  have pair: "x = m" if "x \<in> set marks" "mk_session_id x = mk_session_id m" "mk_user_id x = mk_user_id m" for x
    using that m ok find_mark_in by (metis option.inject)
  have "set (upd_where (\<lambda>x. mk_id x = mk_id m) f marks) = insert (f m) (set marks - {m})"
  proof -
    have "upd_where (\<lambda>x. mk_id x = mk_id m) f marks = map (\<lambda>x. if x = m then f m else x) marks"
      using key by (auto simp: upd_where_def)
    then show ?thesis using m by auto
  qed
  then show ?thesis
    unfolding is_marked_iff [OF ok] is_marked_iff [OF ok'] using f m pair by auto
qed

lemma put_mark_effect:
  assumes ok: "marks_ok marks" and put: "put_mark action sid uid at source updates marks = Inr marks'"
    and "action = Mark \<longrightarrow> \<not> is_marked sid uid marks" and "action = Unmark \<longrightarrow> is_marked sid uid marks"
  shows "marks_ok marks' \<and> (\<forall>s v. is_marked s v marks' \<longleftrightarrow>
     (if (s, v) = (sid, uid) \<and> action \<in> {Mark, Unmark} then action = Mark else is_marked s v marks))"
proof (cases "action \<in> {Mark, Unmark}")
  case False
  then have "marks' = marks" using put by (cases action) (auto simp: put_mark_def)
  with False ok show ?thesis by auto
next
  case act: True
  show ?thesis
  proof (cases "find_mark sid uid marks")
    case None
    with assms(4) act have "action = Mark" by (auto simp: is_marked_def)
    with put None obtain m where m: "marks' = marks @ [m]" "mk_id m = next_id mk_id marks"
        "mk_session_id m = sid" "mk_user_id m = uid" "mk_removed_at m = None"
      by (fastforce simp: put_mark_def py)
    have "(sid, uid) \<notin> (\<lambda>m. (mk_session_id m, mk_user_id m)) ` set marks"
      using None by (auto simp: find_mark_def find_None_set)
    then have ok': "marks_ok marks'"
      using ok m keyed_insert [of mk_id marks m] by (auto simp: marks_ok_def)
    show ?thesis unfolding is_marked_iff [OF ok] is_marked_iff [OF ok'] using ok' m \<open>action = Mark\<close>
      by (auto simp: open_mark_def)
  next
    case (Some m)
    note m = find_mark_Some [OF Some]
    from put act Some obtain f where f: "marks' = upd_where (\<lambda>x. mk_id x = mk_id m) f marks"
      "\<And>x. mk_id (f x) = mk_id x \<and> mk_session_id (f x) = mk_session_id x \<and> mk_user_id (f x) = mk_user_id x"
      "case mk_removed_at (f m) of None \<Rightarrow> True | Some t \<Rightarrow> mk_marked_at (f m) \<le> t"
      "open_mark (f m) \<longleftrightarrow> action = Mark"
      by (fastforce simp: put_mark_def py open_mark_def)
    have key: "x = m" if "x \<in> set marks" "mk_id x = mk_id m" for x
      using that m ok keyed_unique by (metis marks_ok_def)
    have ok': "marks_ok marks'"
      unfolding f(1) using ok f(2) f(3) key by (intro marks_ok_upd) auto
    then show ?thesis
      using is_marked_upd [OF ok, of m f] f(2,4) act m unfolding f(1) by auto
  qed
qed

text \<open>The user an event is about: found or added, under the same id as before.\<close>

lemma get_or_create_user_ok:
  assumes "get_or_create_user clock tid name nick seen users = (users', x)"
    and "keyed us_id users" "distinct (map us_telegram_id users)"
  shows "keyed us_id users' \<and> distinct (map us_telegram_id users') \<and>
    us_id ` set users \<subseteq> us_id ` set users' \<and> uid_of tid users' = Some (us_id x) \<and>
    (\<forall>i. uid_of tid users = Some i \<longrightarrow> us_id x = i)"
proof (cases "List.find (\<lambda>x. us_telegram_id x = tid) users")
  case None
  then have "tid \<notin> us_telegram_id ` set users" by (auto simp: find_None_set)
  moreover from None assms(1) have "users' = users @ [x]" "us_id x = next_id us_id users"
      "us_telegram_id x = tid"
    by (auto simp: get_or_create_user_def Let_def)
  ultimately show ?thesis
    using assms(2,3) None keyed_insert [of us_id users x] by (auto simp: uid_of_def find_append)
next
  case (Some y)
  with assms(1) obtain f where u: "users' = upd_where (\<lambda>z. us_id z = us_id y) f users" "us_id x = us_id y"
      "\<And>x. us_telegram_id (f x) = us_telegram_id x" "\<And>x. us_id (f x) = us_id x"
    by (auto simp: get_or_create_user_def Let_def)
  then have "map us_id users' = map us_id users" "map us_telegram_id users' = map us_telegram_id users"
    by (simp_all add: map_upd_where)
  then show ?thesis
    using assms(2,3) u Some find_telegram_upd [of f tid] keyed_cong [of us_id users' users]
      image_set_map [of us_id users' users]
    by (simp add: uid_of_def)
qed

text \<open>What one reaction did, in terms of the marks.\<close>

lemma apply_reaction_cases:
  assumes ok: "attendance_ok db"
    and run: "apply_reaction clock chat msg event name nick source db = Inr (db', r)"
    and s: "List.find (\<lambda>s. s_chat_id s = chat \<and> s_message_id s = msg) (a_sessions db) = Some s"
  obtains uid where "uid_of (ev_user_id event) (r_users (a_roster db')) = Some uid"
    "\<And>i. uid_of (ev_user_id event) (r_users (a_roster db)) = Some i \<Longrightarrow> uid = i"
    "attendance_ok db'" "a_sessions db' = a_sessions db"
    "up_action r = (if s_status s \<in> {Scheduled, Open_session}
       then decide_attendance_action (window_of s) event (is_marked (s_id s) uid (a_marks db))
       else Ignore_outside_window)"
    "up_present_count r = Some (present_count (s_id s) (a_marks db'))" "up_session_id r = Some (s_id s)"
    "\<And>sid v. is_marked sid v (a_marks db') \<longleftrightarrow>
       (if (sid, v) = (s_id s, uid) \<and> up_action r \<in> {Mark, Unmark} then up_action r = Mark
        else is_marked sid v (a_marks db))"
    "up_action r \<notin> {Mark, Unmark} \<Longrightarrow> a_marks db' = a_marks db"
proof -
  let ?at = "instant_of (ev_occurred_at event)"
  obtain users x where g: "get_or_create_user clock (ev_user_id event) name nick ?at (r_users (a_roster db)) = (users, x)"
    by fastforce
  from run s g obtain marks win where w: "new_window (w_lesson_key (window_of s)) (s_message_id s)
        (utc_at (s_opens_at s)) (utc_at (s_closes_at s)) (s_reaction s) = Inr win"
    and p: "put_mark (up_action r) (s_id s) (us_id x) ?at source (a_updates db) (a_marks db) = Inr marks"
    and r: "up_action r = (if s_status s \<in> {Scheduled, Open_session}
       then decide_attendance_action win event (is_marked (s_id s) (us_id x) (a_marks db))
       else Ignore_outside_window)"
      "up_session_id r = Some (s_id s)" "up_present_count r = Some (present_count (s_id s) marks)"
    and db': "db' = db\<lparr>a_roster := (a_roster db)\<lparr>r_users := users\<rparr>, a_marks := marks\<rparr>"
    unfolding apply_reaction_def by (auto simp: py Let_def)
  from w have win: "win = window_of s" by (auto simp: new_window_def py window_of_def)
  have users: "keyed us_id users" "distinct (map us_telegram_id users)"
      "us_id ` set (r_users (a_roster db)) \<subseteq> us_id ` set users" "uid_of (ev_user_id event) users = Some (us_id x)"
      "\<And>i. uid_of (ev_user_id event) (r_users (a_roster db)) = Some i \<Longrightarrow> us_id x = i"
    using get_or_create_user_ok [OF g] ok by (auto simp: attendance_ok_def roster_ok_def)
  have decided: "up_action r = Mark \<longrightarrow> \<not> is_marked (s_id s) (us_id x) (a_marks db)"
      "up_action r = Unmark \<longrightarrow> is_marked (s_id s) (us_id x) (a_marks db)"
    using r(1) by (auto simp: decide_attendance_action_def split: if_splits)
  have m: "marks_ok marks" "\<And>sid v. is_marked sid v marks \<longleftrightarrow>
       (if (sid, v) = (s_id s, us_id x) \<and> up_action r \<in> {Mark, Unmark} then up_action r = Mark
        else is_marked sid v (a_marks db))"
    using put_mark_effect [OF _ p decided] ok by (auto simp: attendance_ok_def)
  have "attendance_ok db'"
    using ok users(1-3) m(1) unfolding db' attendance_ok_def roster_ok_def
    by (simp, blast intro: subset_trans)
  moreover have "up_action r \<notin> {Mark, Unmark} \<Longrightarrow> a_marks db' = a_marks db"
    using p unfolding db' by (cases "up_action r") (auto simp: put_mark_def)
  ultimately show ?thesis using that [of "us_id x"] users(4,5) r m(2) win unfolding db' by simp
qed

lemma close_due_sessions:
  assumes "close_due now db = Inr (db', n)"
  shows "db' = db\<lparr>a_sessions := upd_where (due_to_close (instant_of now)) (\<lambda>s. s\<lparr>s_status := Closed\<rparr>)
      (a_sessions db)\<rparr>"
  using assms by (auto simp: close_due_def py)

lemma find_message_upd:
  "(\<And>s. s_chat_id (f s) = s_chat_id s \<and> s_message_id (f s) = s_message_id s) \<Longrightarrow>
     List.find (\<lambda>s. s_chat_id s = chat \<and> s_message_id s = msg) (upd_where P f ss) =
     map_option (\<lambda>s. if P s then f s else s)
       (List.find (\<lambda>s. s_chat_id s = chat \<and> s_message_id s = msg) ss)"
  by (induction ss) (auto simp: upd_where_def)

section \<open>A concrete session\<close>

definition demo_db :: attendance where
  "demo_db = \<lparr>a_roster = \<lparr>r_users = [\<lparr>us_id = 1, us_telegram_id = 7, us_username = None,
       us_display_name = Some (u ''A''), us_language_code = None, us_is_bot = False,
       us_first_seen = 0, us_last_seen = 0\<rparr>],
     r_members = [\<lparr>mb_id = 1, mb_chat_id = -1, mb_user_id = 1, mb_status = Member,
       mb_is_headman = False, mb_joined_at = None, mb_left_at = None, mb_checked_at = 0\<rparr>]\<rparr>,
     a_sessions = [\<lparr>s_id = 1, s_lesson_id = 1, s_chat_id = -1, s_message_id = 5, s_reaction = [10084],
       s_opens_at = 0, s_closes_at = 10 * minute, s_status = Open_session, s_created_at = 0\<rparr>],
     a_marks = [\<lparr>mk_id = 1, mk_session_id = 1, mk_user_id = 1, mk_source_update_id = None,
       mk_marked_at = 5 * minute, mk_removed_at = None\<rparr>],
     a_lessons = [1], a_updates = []\<rparr>"

definition demo_unmark :: "instant \<Rightarrow> reaction_event" where
  "demo_unmark t = \<lparr>ev_user_id = 7, ev_occurred_at = utc_at t, ev_reaction = [10084],
     ev_is_present = False\<rparr>"

lemma demo_db_ok: "attendance_ok demo_db"
  by (simp add: attendance_ok_def demo_db_def roster_ok_def keyed_def marks_ok_def durations)

lemma demo_unmark_late:
  "\<exists>db' r. apply_reaction 0 (-1) 5 (demo_unmark (6 * minute)) None None None demo_db = Inr (db', r) \<and>
     \<not> is_marked 1 1 (a_marks db')"
  by (simp add: apply_reaction_def demo_db_def demo_unmark_def get_or_create_user_def Let_def
      find_mark_def open_mark_def new_window_def window_of_def put_mark_def decide_attendance_action_def
      durations upd_where_def is_marked_def)

section \<open>Properties\<close>

text \<open>
  C24: When a reaction event is applied to the session of its message, the user's presence
  becomes what the event says exactly if the emoji is the session's, the time is inside
  \<open>[opens_at, closes_at)\<close> and the session is scheduled or open; otherwise it is left
  alone. No other user's mark and no other session changes, the reported count is the
  number of users then marked, and the tables stay consistent.
\<close>

theorem reaction_effect:
  assumes "attendance_ok db"
    and "apply_reaction clock chat msg event name nick source db = Inr (db', r)"
    and "List.find (\<lambda>s. s_chat_id s = chat \<and> s_message_id s = msg) (a_sessions db) = Some s"
  shows "attendance_ok db' \<and> (\<exists>uid. uid_of (ev_user_id event) (r_users (a_roster db')) = Some uid \<and>
    (\<forall>sid v. is_marked sid v (a_marks db') =
       (if (sid, v) = (s_id s, uid) \<and> ev_reaction event = s_reaction s
           \<and> s_opens_at s \<le> instant_of (ev_occurred_at event)
           \<and> instant_of (ev_occurred_at event) < s_closes_at s
           \<and> s_status s \<in> {Scheduled, Open_session}
        then ev_is_present event else is_marked sid v (a_marks db))) \<and>
    up_present_count r = Some (card {v. is_marked (s_id s) v (a_marks db')}))"
proof -
  from assms obtain uid where u: "uid_of (ev_user_id event) (r_users (a_roster db')) = Some uid"
    and ok: "attendance_ok db'"
    and act: "up_action r = (if s_status s \<in> {Scheduled, Open_session}
       then decide_attendance_action (window_of s) event (is_marked (s_id s) uid (a_marks db))
       else Ignore_outside_window)"
    and c: "up_present_count r = Some (present_count (s_id s) (a_marks db'))"
    and m: "\<And>sid v. is_marked sid v (a_marks db') \<longleftrightarrow>
       (if (sid, v) = (s_id s, uid) \<and> up_action r \<in> {Mark, Unmark} then up_action r = Mark
        else is_marked sid v (a_marks db))"
    by (rule apply_reaction_cases) (rule that, assumption+)
  have "present_count (s_id s) (a_marks db') = card {v. is_marked (s_id s) v (a_marks db')}"
    using ok by (simp add: attendance_ok_def present_count_card)
  then show ?thesis
    using u ok act c m
    by (auto simp: decide_attendance_action_def window_of_def split: if_splits)
qed

theorem reaction_effect_witness:
  "\<exists>db' r. apply_reaction 0 (-1) 5 (demo_unmark (6 * minute)) None None None demo_db = Inr (db', r) \<and>
     attendance_ok db'"
proof -
  obtain db' r where "apply_reaction 0 (-1) 5 (demo_unmark (6 * minute)) None None None demo_db = Inr (db', r)"
    using demo_unmark_late by blast
  then show ?thesis
    using reaction_effect [OF demo_db_ok, of 0 "-1" 5 "demo_unmark (6 * minute)" None None None db' r]
    by (auto simp: demo_db_def)
qed

text \<open>Once the presence an event asks for holds, the same event decides nothing.\<close>

lemma decide_again:
  assumes "act = decide_attendance_action w event marked"
    and "marked' = (if act \<in> {Mark, Unmark} then act = Mark else marked)"
  shows "decide_attendance_action w event marked' \<notin> {Mark, Unmark}"
  unfolding assms(2) assms(1) decide_attendance_action_def
  by (cases marked; cases "ev_is_present event"; simp)

text \<open>
  Delivering the same reaction event twice has the effect of delivering it once: the
  second application succeeds, marks and unmarks nothing, and leaves the marks as they are.
\<close>

theorem reaction_redelivery_harmless:
  assumes ok: "attendance_ok db"
    and first: "apply_reaction clock chat msg event name nick source db = Inr (db1, r1)"
  shows "\<exists>db2 r2. apply_reaction clock' chat msg event name nick source db1 = Inr (db2, r2) \<and>
    up_action r2 \<notin> {Mark, Unmark} \<and> a_marks db2 = a_marks db1"
proof (cases "List.find (\<lambda>s. s_chat_id s = chat \<and> s_message_id s = msg) (a_sessions db)")
  case None
  then have "db1 = db" using first by (auto simp: apply_reaction_def)
  with None show ?thesis by (simp add: apply_reaction_def)
next
  case (Some s)
  from ok first Some obtain uid where u: "uid_of (ev_user_id event) (r_users (a_roster db1)) = Some uid"
    and ok1: "attendance_ok db1" and ss: "a_sessions db1 = a_sessions db"
    and act: "up_action r1 = (if s_status s \<in> {Scheduled, Open_session}
       then decide_attendance_action (window_of s) event (is_marked (s_id s) uid (a_marks db))
       else Ignore_outside_window)"
    and m: "\<And>sid v. is_marked sid v (a_marks db1) \<longleftrightarrow>
       (if (sid, v) = (s_id s, uid) \<and> up_action r1 \<in> {Mark, Unmark} then up_action r1 = Mark
        else is_marked sid v (a_marks db))"
    by (rule apply_reaction_cases) (rule that, assumption+)
  have Some1: "List.find (\<lambda>s. s_chat_id s = chat \<and> s_message_id s = msg) (a_sessions db1) = Some s"
    using Some ss by simp
  define act2 where "act2 = (if s_status s \<in> {Scheduled, Open_session}
       then decide_attendance_action (window_of s) event (is_marked (s_id s) uid (a_marks db1))
       else Ignore_outside_window)"
  have quiet: "act2 \<notin> {Mark, Unmark}"
  proof (cases "s_status s \<in> {Scheduled, Open_session}")
    case True
    then have "up_action r1 = decide_attendance_action (window_of s) event (is_marked (s_id s) uid (a_marks db))"
      using act by argo
    from decide_again [OF this, of "is_marked (s_id s) uid (a_marks db1)"] m [of "s_id s" uid] True
    show ?thesis unfolding act2_def by simp
  qed (simp add: act2_def)
  obtain users x where g: "get_or_create_user clock' (ev_user_id event) name nick
      (instant_of (ev_occurred_at event)) (r_users (a_roster db1)) = (users, x)" by fastforce
  have x: "us_id x = uid"
    using get_or_create_user_ok [OF g] ok1 u by (auto simp: attendance_ok_def roster_ok_def)
  have w: "new_window (w_lesson_key (window_of s)) (s_message_id s) (utc_at (s_opens_at s))
      (utc_at (s_closes_at s)) (s_reaction s) = Inr (window_of s)"
    using find_Some_set [OF Some] ok
    by (auto simp: new_window_def window_of_def attendance_ok_def)
  have "apply_reaction clock' chat msg event name nick source db1 =
      Inr (db1\<lparr>a_roster := (a_roster db1)\<lparr>r_users := users\<rparr>, a_marks := a_marks db1\<rparr>,
        \<lparr>up_action = act2, up_session_id = Some (s_id s),
         up_present_count = Some (present_count (s_id s) (a_marks db1))\<rparr>)"
  proof -
    have "put_mark act2 (s_id s) uid (instant_of (ev_occurred_at event)) source (a_updates db1) (a_marks db1) =
        Inr (a_marks db1)"
      using quiet by (cases act2) (auto simp: put_mark_def)
    then show ?thesis using Some1 g x w
      unfolding apply_reaction_def by (cases "s_status s") (simp_all add: Let_def act2_def)
  qed
  then show ?thesis using quiet by simp
qed

theorem reaction_redelivery_harmless_witness:
  "\<exists>db1 r1 db2 r2. apply_reaction 0 (-1) 5 (demo_unmark (6 * minute)) None None None demo_db = Inr (db1, r1) \<and>
     apply_reaction 1 (-1) 5 (demo_unmark (6 * minute)) None None None db1 = Inr (db2, r2) \<and>
     a_marks db2 = a_marks db1"
  using demo_unmark_late reaction_redelivery_harmless [OF demo_db_ok] by blast

text \<open>
  C25: Closing expired sessions is final: after \<open>close_due\<close> ran at or past a session's
  closing time, no reaction to its message changes any mark, whenever the reaction
  happened.
\<close>

theorem closed_session_final:
  assumes "attendance_ok db" and "close_due now db = Inr (db1, n)"
    and "s \<in> set (a_sessions db)" and "s_closes_at s \<le> instant_of now"
    and "apply_reaction clock (s_chat_id s) (s_message_id s) event name nick source db1 = Inr (db2, r)"
  shows "a_marks db2 = a_marks db"
proof -
  let ?close = "upd_where (due_to_close (instant_of now)) (\<lambda>s. s\<lparr>s_status := Closed\<rparr>)"
  note db1 = close_due_sessions [OF assms(2)]
  have ok1: "attendance_ok db1"
  proof -
    have "map s_lesson_id (?close ss) = map s_lesson_id ss"
      "map (\<lambda>s. (s_chat_id s, s_message_id s)) (?close ss) = map (\<lambda>s. (s_chat_id s, s_message_id s)) ss" for ss
      by (simp_all add: map_upd_where)
    moreover have "keyed s_id ss \<Longrightarrow> keyed s_id (?close ss)" for ss by (simp add: keyed_upd_where)
    ultimately show ?thesis
      using assms(1) unfolding db1 attendance_ok_def by (auto simp: set_upd_where)
  qed
  let ?P = "\<lambda>s'. s_chat_id s' = s_chat_id s \<and> s_message_id s' = s_message_id s"
  have "List.find ?P (a_sessions db) = Some s"
  proof (cases "List.find ?P (a_sessions db)")
    case None
    with assms(3) show ?thesis by (auto simp: find_None_set)
  next
    case (Some s')
    with find_Some_set [OF Some] assms(1,3) show ?thesis
      by (auto simp: attendance_ok_def distinct_map inj_on_def)
  qed
  then have "List.find ?P (a_sessions db1) =
      Some (if due_to_close (instant_of now) s then s\<lparr>s_status := Closed\<rparr> else s)"
    unfolding db1 by (simp add: find_message_upd)
  moreover have "s_status s \<notin> {Scheduled, Open_session}" if "\<not> due_to_close (instant_of now) s"
    using that assms(4) by (auto simp: due_to_close_def)
  ultimately obtain s' where s': "List.find ?P (a_sessions db1) = Some s'"
      "s_status s' \<notin> {Scheduled, Open_session}"
    by (cases "due_to_close (instant_of now) s") auto
  from ok1 assms(5) s'(1) show ?thesis
  proof (rule apply_reaction_cases)
    fix uid
    assume "up_action r = (if s_status s' \<in> {Scheduled, Open_session}
       then decide_attendance_action (window_of s') event (is_marked (s_id s') uid (a_marks db1))
       else Ignore_outside_window)"
      and "up_action r \<notin> {Mark, Unmark} \<Longrightarrow> a_marks db2 = a_marks db1"
    with s'(2) show ?thesis unfolding db1 by simp
  qed
qed

theorem closed_session_final_witness:
  "\<exists>db1 n db2 r. close_due (utc_at (11 * minute)) demo_db = Inr (db1, n) \<and>
     apply_reaction 0 (-1) 5 (demo_unmark (6 * minute)) None None None db1 = Inr (db2, r) \<and>
     a_marks db2 = a_marks demo_db"
proof -
  have s: "hd (a_sessions demo_db) \<in> set (a_sessions demo_db)"
      "s_closes_at (hd (a_sessions demo_db)) \<le> instant_of (utc_at (11 * minute))"
      "s_chat_id (hd (a_sessions demo_db)) = -1" "s_message_id (hd (a_sessions demo_db)) = 5"
    by (simp_all add: demo_db_def durations)
  obtain db1 n db2 r where 1: "close_due (utc_at (11 * minute)) demo_db = Inr (db1, n)"
    and 2: "apply_reaction 0 (-1) 5 (demo_unmark (6 * minute)) None None None db1 = Inr (db2, r)"
    by (simp add: close_due_def due_to_close_def apply_reaction_def demo_db_def demo_unmark_def
        get_or_create_user_def Let_def new_window_def window_of_def put_mark_def durations upd_where_def)
  from closed_session_final [OF demo_db_ok 1 s(1,2), unfolded s, OF 2] 1 2 show ?thesis by blast
qed

text \<open>
  The summary of a session splits the active human members of its chat into those
  with a standing mark and those without, keeping the roster's order: nobody is dropped
  and nobody appears twice.
\<close>

theorem summary_splits_roster:
  assumes "summary sid db = Inr sm" and "s \<in> set (a_sessions db)" "s_id s = sid" and "attendance_ok db"
  defines "label \<equiv> \<lambda>x. user_label (us_display_name x) (us_username x) (us_telegram_id x)"
    and "rows \<equiv> active_humans summary_members (s_chat_id s) (a_roster db)"
  shows "sum_present sm = map label (filter (\<lambda>x. is_marked sid (us_id x) (a_marks db)) rows) \<and>
    sum_missing sm = map label (filter (\<lambda>x. \<not> is_marked sid (us_id x) (a_marks db)) rows) \<and>
    roster_size sm = length rows"
proof -
  have "row_at s_id sid (a_sessions db) = Some s"
    using assms(2-4) row_at_in by (fastforce simp: attendance_ok_def)
  moreover have "us_id x \<in> mk_user_id ` set (filter (\<lambda>m. mk_session_id m = sid \<and> open_mark m) (a_marks db))
      \<longleftrightarrow> is_marked sid (us_id x) (a_marks db)" for x :: user
    using is_marked_iff [of "a_marks db" sid "us_id x"] assms(4)
    by (auto simp: attendance_ok_def intro: rev_image_eqI)
  ultimately show ?thesis
    using assms(1) sum_length_filter_compl [of "\<lambda>x. is_marked sid (us_id x) (a_marks db)" rows]
    by (auto simp: summary_def Let_def label_def rows_def roster_size_def)
qed

theorem summary_splits_roster_witness:
  "summary 1 demo_db = Inr \<lparr>sum_session_id = 1, sum_present = [u ''A''], sum_missing = []\<rparr> \<and>
   roster_size \<lparr>sum_session_id = 1, sum_present = [u ''A''], sum_missing = []\<rparr> =
     length (active_humans summary_members (-1) (a_roster demo_db))"
proof -
  have s: "summary 1 demo_db = Inr \<lparr>sum_session_id = 1, sum_present = [u ''A''], sum_missing = []\<rparr>"
    by (simp add: summary_def demo_db_def row_at_def active_humans_def summary_members_def open_mark_def
        user_label_def strip_def rstrip_by_def lstrip_by_def is_space_def Let_def)
  moreover have "hd (a_sessions demo_db) \<in> set (a_sessions demo_db)" "s_id (hd (a_sessions demo_db)) = 1"
      "s_chat_id (hd (a_sessions demo_db)) = -1"
    by (simp_all add: demo_db_def)
  ultimately show ?thesis
    using summary_splits_roster [OF s _ _ demo_db_ok, of "hd (a_sessions demo_db)"] by metis
qed

text \<open>
  Out-of-order delivery of a removal is not absorbed: when a user's mark is newer than
  a removal event for the session that is still inside the window, applying that removal
  violates the table's check \<open>removed_at >= marked_at\<close> and the whole update fails.
\<close>

theorem late_removal_fails:
  assumes "attendance_ok db"
    and "List.find (\<lambda>s. s_chat_id s = chat \<and> s_message_id s = msg) (a_sessions db) = Some s"
    and "s_status s = Open_session" and "ev_reaction event = s_reaction s" and "\<not> ev_is_present event"
    and "s_opens_at s \<le> instant_of (ev_occurred_at event)"
    and "instant_of (ev_occurred_at event) < s_closes_at s"
    and "uid_of (ev_user_id event) (r_users (a_roster db)) = Some uid"
    and "find_mark (s_id s) uid (a_marks db) = Some m" and "open_mark m"
    and "instant_of (ev_occurred_at event) < mk_marked_at m"
  shows "apply_reaction clock chat msg event name nick source db = Inl Integrity_error"
proof -
  let ?at = "instant_of (ev_occurred_at event)"
  obtain users x where g: "get_or_create_user clock (ev_user_id event) name nick ?at
      (r_users (a_roster db)) = (users, x)" by fastforce
  have x: "us_id x = uid"
    using get_or_create_user_ok [OF g] assms(1,8) by (auto simp: attendance_ok_def roster_ok_def)
  have w: "new_window (w_lesson_key (window_of s)) (s_message_id s) (utc_at (s_opens_at s))
      (utc_at (s_closes_at s)) (s_reaction s) = Inr (window_of s)"
    using find_Some_set [OF assms(2)] assms(1)
    by (auto simp: new_window_def window_of_def attendance_ok_def)
  have "is_marked (s_id s) uid (a_marks db)" using assms(9,10) by (simp add: is_marked_def)
  then have "decide_attendance_action (window_of s) event (is_marked (s_id s) uid (a_marks db)) = Unmark"
    using assms(4-7) by (simp add: decide_attendance_action_def window_of_def)
  moreover have "put_mark Unmark (s_id s) uid ?at source (a_updates db) (a_marks db) = Inl Integrity_error"
    using assms(9,11) by (simp add: put_mark_def guard_def)
  ultimately show ?thesis
    using assms(2,3) g x w by (simp add: apply_reaction_def Let_def)
qed

theorem late_removal_fails_witness:
  "apply_reaction 0 (-1) 5 (demo_unmark (4 * minute)) None None None demo_db = Inl Integrity_error"
  using late_removal_fails [OF demo_db_ok, of "-1" 5 "hd (a_sessions demo_db)" "demo_unmark (4 * minute)"
      1 "hd (a_marks demo_db)"]
  by (simp add: demo_db_def demo_unmark_def uid_of_def find_mark_def open_mark_def durations)

end
