(* ===== verification/Difflib.thy ===== *)
theory Difflib
  imports Prelude Complex_Main
begin

text \<open>
  The part of Python's library the schedule matcher rests on: \<open>difflib.SequenceMatcher(None,
  a, b).ratio()\<close> with its popularity heuristic, and binary floating point (round to nearest,
  ties to even, 53 bits) for the values between 0 and 120 the score takes.
\<close>

section \<open>Floats\<close>

definition pow2 :: "int \<Rightarrow> rat" where
  "pow2 e = (if 0 \<le> e then 2 ^ nat e else 1 / 2 ^ nat (- e))"

text \<open>The largest \<open>e\<close> with \<open>2^e \<le> x\<close>, down to the least normal number.\<close>

definition binade :: "rat \<Rightarrow> int option" where
  "binade x = List.find (\<lambda>e. pow2 e \<le> x) (map (\<lambda>i. 52 - int i) [0..<1075])"

definition round_half_even :: "rat \<Rightarrow> int" where
  "round_half_even x =
     (let f = \<lfloor>x\<rfloor>; r = x - of_int f
      in if r < 1 / 2 then f else if 1 / 2 < r then f + 1 else if even f then f else f + 1)"

definition fl :: "rat \<Rightarrow> rat" where
  "fl x = (case binade x of None \<Rightarrow> x
     | Some e \<Rightarrow> of_int (round_half_even (x * pow2 (52 - e))) / pow2 (52 - e))"

lemma round_half_even_le: "x \<le> of_int n \<Longrightarrow> round_half_even x \<le> n"
proof (cases "x = of_int n")
  case False
  assume "x \<le> of_int n"
  with False have "\<lfloor>x\<rfloor> < n" by (simp add: floor_less_iff)
  then show ?thesis by (auto simp: round_half_even_def Let_def)
qed (simp add: round_half_even_def)

lemma round_half_even_ge: "of_int n \<le> x \<Longrightarrow> n \<le> round_half_even x"
proof -
  assume "of_int n \<le> x"
  then have "n \<le> \<lfloor>x\<rfloor>" by (simp add: le_floor_iff)
  then show ?thesis by (auto simp: round_half_even_def Let_def)
qed

lemma round_half_even_int [simp]: "round_half_even (of_int n) = n"
  using round_half_even_le [of "of_int n" n] round_half_even_ge [of n "of_int n"] by simp

lemma binade_le_52: "binade x = Some e \<Longrightarrow> e \<le> 52"
  by (auto simp: binade_def dest!: find_Some_set)

text \<open>Rounding never crosses a whole number.\<close>

lemma fl_le: "x \<le> of_int c \<Longrightarrow> fl x \<le> of_int c"
proof (cases "binade x")
  case (Some e)
  assume x: "x \<le> of_int c"
  have p: "pow2 (52 - e) = of_int (2 ^ nat (52 - e))" "0 < pow2 (52 - e)"
    using binade_le_52 [OF Some] by (auto simp: pow2_def)
  have "x * pow2 (52 - e) \<le> of_int (c * 2 ^ nat (52 - e))"
    using mult_right_mono [OF x less_imp_le [OF p(2)]] p(1) by simp
  then have "round_half_even (x * pow2 (52 - e)) \<le> c * 2 ^ nat (52 - e)"
    by (rule round_half_even_le)
  then have "rat_of_int (round_half_even (x * pow2 (52 - e))) \<le> of_int c * pow2 (52 - e)"
    unfolding p(1) by (metis of_int_le_iff of_int_mult)
  then show ?thesis using Some p(2) by (simp add: fl_def divide_le_eq)
qed (simp add: fl_def)

lemma fl_ge: "of_int c \<le> x \<Longrightarrow> of_int c \<le> fl x"
proof (cases "binade x")
  case (Some e)
  assume x: "of_int c \<le> x"
  have p: "pow2 (52 - e) = of_int (2 ^ nat (52 - e))" "0 < pow2 (52 - e)"
    using binade_le_52 [OF Some] by (auto simp: pow2_def)
  have "of_int (c * 2 ^ nat (52 - e)) \<le> x * pow2 (52 - e)"
    using mult_right_mono [OF x less_imp_le [OF p(2)]] p(1) by simp
  then have "c * 2 ^ nat (52 - e) \<le> round_half_even (x * pow2 (52 - e))"
    by (rule round_half_even_ge)
  then have "of_int c * pow2 (52 - e) \<le> rat_of_int (round_half_even (x * pow2 (52 - e)))"
    unfolding p(1) by (metis of_int_le_iff of_int_mult)
  then show ?thesis using Some p(2) by (simp add: fl_def le_divide_eq)
qed (simp add: fl_def)

lemma fl_of_int [simp]: "fl (of_int c) = of_int c"
  by (rule antisym) (simp_all add: fl_le fl_ge)

lemma fl_numeral [simp]: "fl (numeral n) = numeral n" "fl 1 = 1" "fl 0 = 0"
  using fl_of_int [of "numeral n"] fl_of_int [of 1] fl_of_int [of 0] by simp_all

section \<open>Longest matching blocks\<close>

text \<open>
  \<open>b2j\<close>: where a character occurs in \<open>b\<close>, ascending; empty for characters that are too
  frequent in a text of 200 characters or more.
\<close>

definition b2j :: "'a list \<Rightarrow> 'a \<Rightarrow> nat list" where
  "b2j b c =
     (let idxs = filter (\<lambda>j. b ! j = c) [0..<length b]
      in if 200 \<le> length b \<and> length b div 100 + 1 < length idxs then [] else idxs)"

definition run_before :: "(nat \<times> nat) list \<Rightarrow> nat \<Rightarrow> nat" where
  "run_before j2len j =
     (if j = 0 then 0 else case map_of j2len (j - 1) of None \<Rightarrow> 0 | Some k \<Rightarrow> k)"

type_synonym block = "nat \<times> nat \<times> nat"

fun scan_row ::
  "(nat \<times> nat) list \<Rightarrow> nat \<Rightarrow> nat list \<Rightarrow> (nat \<times> nat) list \<Rightarrow> block \<Rightarrow> (nat \<times> nat) list \<times> block" where
  "scan_row j2len i [] new best = (new, best)"
| "scan_row j2len i (j # js) new (bi, bj, bk) =
     (let k = run_before j2len j + 1
      in scan_row j2len i js ((j, k) # new)
           (if bk < k then (i + 1 - k, j + 1 - k, k) else (bi, bj, bk)))"

fun scan_rows ::
  "'a list \<Rightarrow> 'a list \<Rightarrow> nat \<Rightarrow> nat \<Rightarrow> nat list \<Rightarrow> (nat \<times> nat) list \<Rightarrow> block \<Rightarrow> block" where
  "scan_rows a b blo bhi [] j2len best = best"
| "scan_rows a b blo bhi (i # is) j2len best =
     (let (new, best') = scan_row j2len i (filter (\<lambda>j. blo \<le> j \<and> j < bhi) (b2j b (a ! i))) [] best
      in scan_rows a b blo bhi is new best')"

fun extend_left :: "'a list \<Rightarrow> 'a list \<Rightarrow> nat \<Rightarrow> nat \<Rightarrow> nat \<Rightarrow> nat \<Rightarrow> nat \<Rightarrow> block" where
  "extend_left a b alo blo i j k =
     (if alo < i \<and> blo < j \<and> a ! (i - 1) = b ! (j - 1)
      then extend_left a b alo blo (i - 1) (j - 1) (k + 1) else (i, j, k))"

function extend_right :: "'a list \<Rightarrow> 'a list \<Rightarrow> nat \<Rightarrow> nat \<Rightarrow> nat \<Rightarrow> nat \<Rightarrow> nat \<Rightarrow> block" where
  "extend_right a b ahi bhi i j k =
     (if i + k < ahi \<and> j + k < bhi \<and> a ! (i + k) = b ! (j + k)
      then extend_right a b ahi bhi i j (k + 1) else (i, j, k))"
  by pat_completeness auto
termination by (relation "measure (\<lambda>(a, b, ahi, bhi, i, j, k). ahi - (i + k))") auto

declare extend_left.simps [simp del] extend_right.simps [simp del]

definition find_longest_match :: "'a list \<Rightarrow> 'a list \<Rightarrow> nat \<Rightarrow> nat \<Rightarrow> nat \<Rightarrow> nat \<Rightarrow> block" where
  "find_longest_match a b alo ahi blo bhi =
     (let (i, j, k) = scan_rows a b blo bhi [alo..<ahi] [] (alo, blo, 0);
          (i, j, k) = extend_left a b alo blo i j k
      in extend_right a b ahi bhi i j k)"

text \<open>A block lies inside the window it was looked for in, or is empty.\<close>

definition inside :: "nat \<Rightarrow> nat \<Rightarrow> nat \<Rightarrow> nat \<Rightarrow> block \<Rightarrow> bool" where
  "inside alo ahi blo bhi = (\<lambda>(i, j, k).
     alo \<le> i \<and> blo \<le> j \<and> ((i, j, k) = (alo, blo, 0) \<or> i + k \<le> ahi \<and> j + k \<le> bhi))"

definition runs_fit :: "nat \<Rightarrow> nat \<Rightarrow> nat \<Rightarrow> (nat \<times> nat) list \<Rightarrow> bool" where
  "runs_fit alo blo i j2len \<longleftrightarrow> (\<forall>(j, k) \<in> set j2len. alo + k \<le> i \<and> blo + k \<le> j + 1)"

lemma run_before_fit:
  "runs_fit alo blo i j2len \<Longrightarrow> alo \<le> i \<Longrightarrow> blo \<le> j \<Longrightarrow>
     alo + run_before j2len j \<le> i \<and> blo + run_before j2len j \<le> j"
  by (auto simp: runs_fit_def run_before_def dest!: map_of_SomeD split: option.splits)

lemma scan_row_inside:
  assumes "runs_fit alo blo i j2len" and "alo \<le> i" "i < ahi"
    and "\<And>j. j \<in> set js \<Longrightarrow> blo \<le> j \<and> j < bhi"
    and "runs_fit alo blo (i + 1) new" and "inside alo ahi blo bhi best"
    and "scan_row j2len i js new best = (new', best')"
  shows "runs_fit alo blo (i + 1) new' \<and> inside alo ahi blo bhi best'"
  using assms(4-)
proof (induction js arbitrary: new best)
  case (Cons j js)
  obtain bi bj bk where best: "best = (bi, bj, bk)" by (cases best)
  have j: "blo \<le> j" "j < bhi" using Cons.prems(1) by auto
  note fit = run_before_fit [OF assms(1,2) j(1)]
  show ?case
  proof (rule Cons.IH)
    show "runs_fit alo blo (i + 1) ((j, run_before j2len j + 1) # new)"
      using fit Cons.prems(2) by (auto simp: runs_fit_def)
    show "inside alo ahi blo bhi (if bk < run_before j2len j + 1
        then (i + 1 - (run_before j2len j + 1), j + 1 - (run_before j2len j + 1), run_before j2len j + 1)
        else (bi, bj, bk))"
      using fit j assms(3) Cons.prems(3) by (auto simp: inside_def best)
  qed (use Cons.prems in \<open>auto simp: best Let_def\<close>)
qed auto

lemma scan_rows_inside:
  assumes "runs_fit alo blo i j2len" and "alo \<le> i" and "inside alo ahi blo bhi best"
  shows "inside alo ahi blo bhi (scan_rows a b blo bhi [i..<ahi] j2len best)"
  using assms
proof (induction "ahi - i" arbitrary: i j2len best)
  case (Suc n)
  then have i: "i < ahi" "[i..<ahi] = i # [i + 1..<ahi]" by (auto simp: upt_conv_Cons)
  obtain new best' where s: "scan_row j2len i (filter (\<lambda>j. blo \<le> j \<and> j < bhi) (b2j b (a ! i))) [] best =
      (new, best')" by (metis surj_pair)
  then have "runs_fit alo blo (i + 1) new \<and> inside alo ahi blo bhi best'"
    using Suc.prems i by (intro scan_row_inside [OF Suc.prems(1,2)]) (auto simp: runs_fit_def)
  then show ?case using Suc.hyps(1) [of "i + 1"] Suc.hyps(2) Suc.prems(2) i s by simp
qed simp

lemma extend_left_inside:
  "inside alo ahi blo bhi (i, j, k) \<Longrightarrow> inside alo ahi blo bhi (extend_left a b alo blo i j k)"
proof (induction a b alo blo i j k rule: extend_left.induct)
  case (1 a b alo blo i j k)
  show ?case
  proof (cases "alo < i \<and> blo < j \<and> a ! (i - 1) = b ! (j - 1)")
    case True
    then have "inside alo ahi blo bhi (i - 1, j - 1, k + 1)" using "1.prems" by (auto simp: inside_def)
    then show ?thesis using "1.IH" [OF True] True by (subst extend_left.simps) simp
  next
    case False
    then show ?thesis using "1.prems" by (subst extend_left.simps) auto
  qed
qed

lemma extend_right_inside:
  "inside alo ahi blo bhi (i, j, k) \<Longrightarrow> inside alo ahi blo bhi (extend_right a b ahi bhi i j k)"
proof (induction a b ahi bhi i j k rule: extend_right.induct)
  case (1 a b ahi bhi i j k)
  show ?case
  proof (cases "i + k < ahi \<and> j + k < bhi \<and> a ! (i + k) = b ! (j + k)")
    case True
    then have "inside alo ahi blo bhi (i, j, k + 1)" using "1.prems" by (auto simp: inside_def)
    then show ?thesis using "1.IH" [OF True] True by (subst extend_right.simps) simp
  next
    case False
    then show ?thesis using "1.prems" by (subst extend_right.simps) auto
  qed
qed

lemma find_longest_match_inside:
  "inside alo ahi blo bhi (find_longest_match a b alo ahi blo bhi)"
proof -
  obtain i j k where s: "scan_rows a b blo bhi [alo..<ahi] [] (alo, blo, 0) = (i, j, k)"
    by (metis prod_cases3)
  have in1: "inside alo ahi blo bhi (i, j, k)"
    using scan_rows_inside [of alo blo alo "[]" ahi bhi "(alo, blo, 0)" a b] s
    by (simp add: runs_fit_def inside_def)
  obtain i' j' k' where l: "extend_left a b alo blo i j k = (i', j', k')" by (metis prod_cases3)
  then have "inside alo ahi blo bhi (i', j', k')" using extend_left_inside [OF in1, of a b] by simp
  then show ?thesis using s l extend_right_inside by (simp add: find_longest_match_def)
qed

text \<open>The number of characters in matching blocks, as \<open>get_matching_blocks\<close> collects them.\<close>

function matched :: "'a list \<Rightarrow> 'a list \<Rightarrow> nat \<Rightarrow> nat \<Rightarrow> nat \<Rightarrow> nat \<Rightarrow> nat" where
  "matched a b alo ahi blo bhi =
     (let (i, j, k) = find_longest_match a b alo ahi blo bhi
      in if k = 0 then 0
         else k + (if alo < i \<and> blo < j then matched a b alo i blo j else 0)
                + (if i + k < ahi \<and> j + k < bhi then matched a b (i + k) ahi (j + k) bhi else 0))"
  by pat_completeness auto
termination
proof (relation "measure (\<lambda>(a, b, alo, ahi, blo, bhi). ahi - alo)", goal_cases)
  case (2 a b alo ahi blo bhi r i s j k)
  then show ?case using find_longest_match_inside [of alo ahi blo bhi a b] by (auto simp: inside_def)
next
  case (3 a b alo ahi blo bhi r i s j k)
  then show ?case using find_longest_match_inside [of alo ahi blo bhi a b] by (auto simp: inside_def)
qed auto

declare matched.simps [simp del]

definition ratio :: "'a list \<Rightarrow> 'a list \<Rightarrow> rat" where
  "ratio a b =
     (let n = length a + length b
      in if n = 0 then 1 else fl (of_nat (2 * matched a b 0 (length a) 0 (length b)) / of_nat n))"

lemma matched_le: "matched a b alo ahi blo bhi \<le> ahi - alo \<and> matched a b alo ahi blo bhi \<le> bhi - blo"
proof (induction a b alo ahi blo bhi rule: matched.induct)
  case (1 a b alo ahi blo bhi)
  obtain i j k where f: "find_longest_match a b alo ahi blo bhi = (i, j, k)" by (metis prod_cases3)
  note ins = find_longest_match_inside [of alo ahi blo bhi a b, unfolded f inside_def]
  show ?case
  proof (cases "k = 0")
    case True
    then show ?thesis using f by (subst (1 2) matched.simps) simp
  next
    case False
    note IH = "1.IH" [OF f [symmetric] refl refl False]
    show ?thesis
      using ins False IH f by (subst (1 2) matched.simps) auto
  qed
qed

lemma ratio_le_1: "ratio a b \<le> 1"
proof (cases "length a + length b = 0")
  case False
  let ?m = "matched a b 0 (length a) 0 (length b)"
  have "2 * ?m \<le> length a + length b" using matched_le [of a b 0 "length a" 0 "length b"] by simp
  then have "rat_of_nat (2 * ?m) \<le> rat_of_nat (length a + length b)" by (simp only: of_nat_le_iff)
  then have "rat_of_nat (2 * ?m) / rat_of_nat (length a + length b) \<le> of_int 1"
    using False by (simp add: divide_le_eq)
  then have "fl (rat_of_nat (2 * ?m) / rat_of_nat (length a + length b)) \<le> of_int 1" by (rule fl_le)
  then show ?thesis using False by (simp add: ratio_def Let_def)
qed (simp add: ratio_def)

section \<open>A text against itself\<close>

lemma scan_row_append:
  "scan_row j2len i (xs @ ys) new best =
     (let (new', best') = scan_row j2len i xs new best in scan_row j2len i ys new' best')"
  by (induction j2len i xs new best rule: scan_row.induct) (auto simp: Let_def)

lemma scan_row_no_better:
  assumes "\<And>j. j \<in> set js \<Longrightarrow> run_before j2len j + 1 \<le> bk"
  shows "scan_row j2len i js new (bi, bj, bk) =
    (rev (map (\<lambda>j. (j, run_before j2len j + 1)) js) @ new, (bi, bj, bk))"
  using assms
proof (induction js arbitrary: new)
  case (Cons j js)
  have "run_before j2len j + 1 \<le> bk" by (rule Cons.prems) simp
  then have "\<not> bk < Suc (run_before j2len j)" by simp
  then show ?case using Cons.IH Cons.prems by (simp add: Let_def)
qed simp

lemma upto_split: "i < n \<Longrightarrow> [0..<n] = [0..<i] @ i # [i + 1..<n]"
  by (metis Suc_eq_plus1 le0 less_imp_le_nat upt_conv_Cons upt_add_eq_append le_add_diff_inverse)

lemma scan_row_self:
  assumes n: "length a < 200" "i < length a"
    and fit: "runs_fit 0 0 i j2len" and diag: "run_before j2len i = i"
    and js: "js = filter (\<lambda>j. 0 \<le> j \<and> j < length a) (b2j a (a ! i))"
  shows "\<exists>new. scan_row j2len i js [] (0, 0, i) = (new, (0, 0, i + 1)) \<and> runs_fit 0 0 (i + 1) new \<and>
    run_before new (i + 1) = i + 1"
proof -
  let ?f = "\<lambda>j. (j, run_before j2len j + 1)"
  let ?P = "\<lambda>j. a ! j = a ! i"
  have "b2j a (a ! i) = filter ?P [0..<length a]" using n by (simp add: b2j_def)
  then have "js = filter ?P [0..<length a]" unfolding js by (auto intro: filter_cong)
  then have js: "js = filter ?P [0..<i] @ i # filter ?P [i + 1..<length a]"
    by (simp add: upto_split [OF n(2)])
  have low: "run_before j2len j + 1 \<le> i" if "j \<in> set (filter ?P [0..<i])" for j
    using run_before_fit [OF fit, of j] that by simp
  have high: "run_before j2len j + 1 \<le> i + 1" for j
    using run_before_fit [OF fit, of j] by simp
  let ?new = "rev (map ?f (filter ?P [i + 1..<length a])) @ (i, i + 1) # rev (map ?f (filter ?P [0..<i]))"
  have "scan_row j2len i js [] (0, 0, i) = (?new, (0, 0, i + 1))"
    using scan_row_no_better [where js = "filter ?P [0..<i]" and j2len = j2len and bk = i, OF low]
      scan_row_no_better [where js = "filter ?P [i + 1..<length a]" and j2len = j2len and bk = "i + 1", OF high]
    by (simp add: js scan_row_append diag)
  moreover have "runs_fit 0 0 (i + 1) ?new"
    using run_before_fit [OF fit] by (auto simp: runs_fit_def)
  moreover have "map_of ?new i = Some (i + 1)"
    by (auto simp: map_add_def map_of_eq_None_iff split: option.splits dest!: map_of_SomeD)
  ultimately show ?thesis by (auto simp: run_before_def)
qed

lemma scan_rows_self:
  assumes "length a < 200" "i \<le> length a" "runs_fit 0 0 i j2len" "run_before j2len i = i"
  shows "scan_rows a a 0 (length a) [i..<length a] j2len (0, 0, i) = (0, 0, length a)"
  using assms
proof (induction "length a - i" arbitrary: i j2len)
  case (Suc m)
  then have i: "i < length a" "[i..<length a] = i # [i + 1..<length a]" by (auto simp: upt_conv_Cons)
  from scan_row_self [OF Suc.prems(1) i(1) Suc.prems(3,4) refl] obtain new where
    "scan_row j2len i (filter (\<lambda>j. 0 \<le> j \<and> j < length a) (b2j a (a ! i))) [] (0, 0, i) = (new, (0, 0, i + 1))"
    "runs_fit 0 0 (i + 1) new" "run_before new (i + 1) = i + 1" by blast
  then show ?case using Suc.hyps(1) [of "i + 1" new] Suc.hyps(2) Suc.prems(1) i by simp
qed simp

lemma ratio_self: "length a < 200 \<Longrightarrow> ratio a a = 1"
proof (cases "a = []")
  case False
  assume n: "length a < 200"
  have "scan_rows a a 0 (length a) [0..<length a] [] (0, 0, 0) = (0, 0, length a)"
    using n by (intro scan_rows_self) (auto simp: runs_fit_def run_before_def)
  then have "find_longest_match a a 0 (length a) 0 (length a) = (0, 0, length a)"
    by (simp add: find_longest_match_def extend_left.simps extend_right.simps)
  then have "matched a a 0 (length a) 0 (length a) = length a"
    by (subst matched.simps) simp
  then show ?thesis using False by (simp add: ratio_def Let_def)
qed (simp add: ratio_def)

end
