(* ===== verification/DomainSchedule.thy ===== *)
theory DomainSchedule
  imports Text Sha256 Difflib "HOL-Library.Multiset"
begin

text \<open>
  \<open>domain/schedule.py\<close>: lessons, their canonical form, the content hash of a snapshot and
  the detection of user-visible changes between two snapshots. Times of day are microseconds
  since midnight; scores are the exact binary floats the code computes.
\<close>

section \<open>Lessons\<close>

definition normalize_text :: "pystr option \<Rightarrow> pystr" where
  "normalize_text value =
     (case value of None \<Rightarrow> []
      | Some v \<Rightarrow> if v = [] then [] else replace_cp 1105 [1077] (casefold (strip (squeeze v))))"

definition normalize_teacher :: "pystr option \<Rightarrow> pystr" where
  "normalize_teacher value = replace_cp 32 [] (replace_cp 46 [] (normalize_text value))"

record lesson =
  l_day :: date
  l_starts_at :: int
  l_ends_at :: int
  l_subject :: pystr
  l_type :: "pystr option"
  l_teacher :: "pystr option"
  l_room :: "pystr option"
  l_building :: "pystr option"
  l_subgroup :: "pystr option"
  l_source_id :: "pystr option"

datatype schedule_error =
    Lesson_end_before_start
  | Empty_subject
  | Naive_fetched_at
  | Malformed_change
  | Different_groups

definition new_lesson :: "lesson \<Rightarrow> schedule_error + lesson" where
  "new_lesson l =
     and_then (guard (\<not> l_ends_at l \<le> l_starts_at l) Lesson_end_before_start) (\<lambda>_.
     and_then (guard (strip (l_subject l) \<noteq> []) Empty_subject) (\<lambda>_. Inr l))"

definition normalized_subject :: "lesson \<Rightarrow> pystr" where
  "normalized_subject l = normalize_text (Some (l_subject l))"

text \<open>\<open>time.isoformat()\<close>\<close>

definition iso_time :: "int \<Rightarrow> pystr" where
  "iso_time t =
     hour_minute t @ [58] @ pad0 2 (t mod minute div second) @
     (if t mod second = 0 then [] else [46] @ pad0 6 (t mod second))"

text \<open>The canonical dictionary as \<open>json.dumps(.., sort_keys=True)\<close> writes it.\<close>

definition canonical_fields :: "lesson \<Rightarrow> (pystr \<times> pystr option) list" where
  "canonical_fields l =
     [(u ''building'', Some (normalize_text (l_building l))),
      (u ''day'', Some (iso_date (l_day l))),
      (u ''ends_at'', Some (iso_time (l_ends_at l))),
      (u ''lesson_type'', Some (normalize_text (l_type l))),
      (u ''room'', Some (normalize_text (l_room l))),
      (u ''source_id'', l_source_id l),
      (u ''starts_at'', Some (iso_time (l_starts_at l))),
      (u ''subgroup'', Some (normalize_text (l_subgroup l))),
      (u ''subject'', Some (normalized_subject l)),
      (u ''teacher'', Some (normalize_teacher (l_teacher l)))]"

definition canonical_json :: "lesson \<Rightarrow> pystr" where
  "canonical_json l =
     [123] @ join [44] (map (\<lambda>(k, v). json_string k @ [58] @ json_opt v) (canonical_fields l)) @ [125]"

record snapshot =
  sn_source :: pystr
  sn_group_key :: pystr
  sn_fetched_at :: pydt
  sn_lessons :: "lesson list"

definition new_snapshot :: "snapshot \<Rightarrow> schedule_error + snapshot" where
  "new_snapshot s = and_then (guard (aware (sn_fetched_at s)) Naive_fetched_at) (\<lambda>_. Inr s)"

definition lesson_sort_key :: "lesson \<Rightarrow> date \<times> int \<times> pystr \<times> pystr" where
  "lesson_sort_key l = (l_day l, l_starts_at l, normalized_subject l,
     case l_source_id l of None \<Rightarrow> [] | Some i \<Rightarrow> i)"

definition content_json :: "lesson list \<Rightarrow> pystr" where
  "content_json lessons =
     [91] @ join [44] (map canonical_json (sort_key lesson_sort_key lessons)) @ [93]"

definition content_hash :: "snapshot \<Rightarrow> pystr" where
  "content_hash s = sha256_hex (content_json (sn_lessons s))"

section \<open>Changes\<close>

datatype change_kind = Added | Cancelled | Time | Room | Building | Teacher | Lesson_type | Subject

definition kind_value :: "change_kind \<Rightarrow> pystr" where
  "kind_value k =
     (case k of Added \<Rightarrow> u ''added'' | Cancelled \<Rightarrow> u ''cancelled'' | Time \<Rightarrow> u ''time''
      | Room \<Rightarrow> u ''room'' | Building \<Rightarrow> u ''building'' | Teacher \<Rightarrow> u ''teacher''
      | Lesson_type \<Rightarrow> u ''lesson_type'' | Subject \<Rightarrow> u ''subject'')"

record change =
  ch_kind :: change_kind
  ch_before :: "lesson option"
  ch_after :: "lesson option"

definition new_change :: "change_kind \<Rightarrow> lesson option \<Rightarrow> lesson option \<Rightarrow> schedule_error + change" where
  "new_change kind before after =
     and_then (guard (\<not> (kind = Added \<and> (before \<noteq> None \<or> after = None))) Malformed_change) (\<lambda>_.
     and_then (guard (\<not> (kind = Cancelled \<and> (before = None \<or> after \<noteq> None))) Malformed_change) (\<lambda>_.
     and_then (guard (\<not> (kind \<notin> {Added, Cancelled} \<and> (before = None \<or> after = None))) Malformed_change)
       (\<lambda>_. Inr \<lparr>ch_kind = kind, ch_before = before, ch_after = after\<rparr>)))"

definition lesson_json :: "lesson option \<Rightarrow> pystr" where
  "lesson_json l = (case l of None \<Rightarrow> u ''null'' | Some x \<Rightarrow> canonical_json x)"

definition fingerprint :: "change \<Rightarrow> pystr" where
  "fingerprint c = sha256_hex
     ([123] @ json_string (u ''after'') @ [58] @ lesson_json (ch_after c)
      @ [44] @ json_string (u ''before'') @ [58] @ lesson_json (ch_before c)
      @ [44] @ json_string (u ''kind'') @ [58] @ json_string (kind_value (ch_kind c)) @ [125])"

section \<open>Matching lessons\<close>

text \<open>\<open>None\<close> is minus infinity; \<open>bonus\<close> is one \<open>score += k\<close> under its condition.\<close>

definition bonus :: "bool \<Rightarrow> int \<Rightarrow> rat \<Rightarrow> rat" where
  "bonus applies k score = (if applies then fl (score + of_int k) else score)"

definition match_score :: "lesson \<Rightarrow> lesson \<Rightarrow> rat option" where
  "match_score old new =
     (if l_day old \<noteq> l_day new then None
      else Some
        (bonus (normalize_text (l_type old) = normalize_text (l_type new)) 5
        (bonus (normalize_text (l_subgroup old) = normalize_text (l_subgroup new)) 5
        (bonus (l_starts_at old = l_starts_at new) 15
        (bonus (normalized_subject old = normalized_subject new) 25
        (fl (ratio (normalized_subject old) (normalized_subject new) * 70)))))))"

definition time_minutes :: "int \<Rightarrow> int" where
  "time_minutes t = t div hour * 60 + t mod hour div minute"

definition has_source :: "lesson \<Rightarrow> bool" where
  "has_source l \<longleftrightarrow> (case l_source_id l of None \<Rightarrow> False | Some i \<Rightarrow> i \<noteq> [])"

text \<open>\<open>old_by_source\<close>: the last old lesson with a source id.\<close>

definition old_by_source :: "lesson list \<Rightarrow> pystr option \<Rightarrow> nat option" where
  "old_by_source olds sid =
     List.find (\<lambda>k. has_source (olds ! k) \<and> l_source_id (olds ! k) = sid) (rev [0..<length olds])"

text \<open>The state of the loops: index pairs found, and the indices still unmatched.\<close>

type_synonym matching = "(nat \<times> nat) list \<times> nat list \<times> nat list"

definition take_pair :: "nat \<Rightarrow> nat \<Rightarrow> matching \<Rightarrow> matching" where
  "take_pair i j = (\<lambda>(pairs, olds, news). (pairs @ [(i, j)], remove1 i olds, remove1 j news))"

definition source_step :: "lesson list \<Rightarrow> lesson list \<Rightarrow> matching \<Rightarrow> nat \<Rightarrow> matching" where
  "source_step olds news m j =
     (let lesson = news ! j in
      case (if has_source lesson then old_by_source olds (l_source_id lesson) else None) of
        None \<Rightarrow> m
      | Some i \<Rightarrow> if i \<in> set (fst (snd m)) then take_pair i j m else m)"

type_synonym candidate = "rat \<times> int \<times> nat \<times> nat"

definition candidates :: "lesson list \<Rightarrow> lesson list \<Rightarrow> nat list \<Rightarrow> nat list \<Rightarrow> candidate list" where
  "candidates olds news rem_old rem_new =
     concat (map (\<lambda>i. concat (map (\<lambda>j.
       (case match_score (olds ! i) (news ! j) of
          None \<Rightarrow> []
        | Some score \<Rightarrow>
            if 70 \<le> score
            then [(score, - \<bar>time_minutes (l_starts_at (olds ! i)) - time_minutes (l_starts_at (news ! j))\<bar>, i, j)]
            else [])) rem_new)) rem_old)"

fun greedy_step :: "matching \<Rightarrow> candidate \<Rightarrow> matching" where
  "greedy_step m (score, proximity, i, j) =
     (if i \<notin> set (fst (snd m)) \<or> j \<notin> set (snd (snd m)) then m else take_pair i j m)"

definition match_indices :: "lesson list \<Rightarrow> lesson list \<Rightarrow> matching" where
  "match_indices olds news =
     (let start = ([], [0..<length olds], [0..<length news]);
          m1 = foldl (source_step olds news) start [0..<length news];
          cs = rev (sort (candidates olds news (fst (snd m1)) (snd (snd m1))))
      in foldl greedy_step m1 cs)"

definition match_lessons ::
  "lesson list \<Rightarrow> lesson list \<Rightarrow> (lesson \<times> lesson) list \<times> lesson list \<times> lesson list" where
  "match_lessons olds news =
     (let (pairs, rem_old, rem_new) = match_indices olds news
      in (map (\<lambda>(i, j). (olds ! i, news ! j)) pairs,
          map ((!) olds) (sort rem_old), map ((!) news) (sort rem_new)))"

text \<open>The field changes of one matched pair, in the order of the checks.\<close>

definition field_changes :: "lesson \<times> lesson \<Rightarrow> change list" where
  "field_changes = (\<lambda>(old, new).
     let c = (\<lambda>k. \<lparr>ch_kind = k, ch_before = Some old, ch_after = Some new\<rparr>) in
     (if l_starts_at old \<noteq> l_starts_at new \<or> l_ends_at old \<noteq> l_ends_at new then [c Time] else [])
     @ (if normalize_text (l_room old) \<noteq> normalize_text (l_room new) then [c Room] else [])
     @ (if normalize_text (l_building old) \<noteq> normalize_text (l_building new) then [c Building] else [])
     @ (if normalize_teacher (l_teacher old) \<noteq> normalize_teacher (l_teacher new) then [c Teacher] else [])
     @ (if normalize_text (l_type old) \<noteq> normalize_text (l_type new) then [c Lesson_type] else [])
     @ (if normalized_subject old \<noteq> normalized_subject new then [c Subject] else []))"

text \<open>A change without lessons has no key; \<open>diff_schedules\<close> builds none.\<close>

definition change_sort_key :: "change \<Rightarrow> date \<times> int \<times> pystr \<times> pystr" where
  "change_sort_key c =
     (case (case ch_after c of Some l \<Rightarrow> Some l | None \<Rightarrow> ch_before c) of
        None \<Rightarrow> (0, 0, [], kind_value (ch_kind c))
      | Some l \<Rightarrow> (l_day l, l_starts_at l, normalized_subject l, kind_value (ch_kind c)))"

definition diff_schedules :: "snapshot \<Rightarrow> snapshot \<Rightarrow> schedule_error + change list" where
  "diff_schedules previous current =
     and_then (guard (sn_group_key previous = sn_group_key current) Different_groups) (\<lambda>_.
     let (pairs, old_unmatched, new_unmatched) = match_lessons (sn_lessons previous) (sn_lessons current)
     in Inr (sort_key change_sort_key
          (concat (map field_changes pairs)
           @ map (\<lambda>l. \<lparr>ch_kind = Cancelled, ch_before = Some l, ch_after = None\<rparr>) old_unmatched
           @ map (\<lambda>l. \<lparr>ch_kind = Added, ch_before = None, ch_after = Some l\<rparr>) new_unmatched)))"

section \<open>Matching is a partition\<close>

lemma sort_key_nil [simp]: "sort_key f xs = [] \<longleftrightarrow> xs = []"
  by (metis length_0_conv length_sort)

text \<open>
  Pairs and leftovers always split the indices of both sides; \<open>pending\<close> are the new
  indices whose source id was not looked at yet.
\<close>

definition splits :: "nat \<Rightarrow> nat \<Rightarrow> matching \<Rightarrow> bool" where
  "splits n n' = (\<lambda>(pairs, olds, news).
     mset (map fst pairs) + mset olds = mset [0..<n] \<and> mset (map snd pairs) + mset news = mset [0..<n'])"

lemma splits_take:
  assumes "splits n n' m" and "i \<in> set (fst (snd m))" and "j \<in> set (snd (snd m))"
  shows "splits n n' (take_pair i j m)"
proof -
  obtain ps os ns where m: "m = (ps, os, ns)" by (cases m)
  have take: "add_mset x (A + mset (remove1 x xs)) = A + mset xs" if "x \<in> set xs" for x :: nat and xs A
    using that by (metis insert_DiffM mset_remove1 set_mset_mset union_mset_add_mset_right)
  have "add_mset i (mset (map fst ps) + mset (remove1 i os)) = mset [0..<n]"
    "add_mset j (mset (map snd ps) + mset (remove1 j ns)) = mset [0..<n']"
    using take [of i os] take [of j ns] assms m by (simp_all only: splits_def prod.case fst_conv snd_conv)
  then show ?thesis unfolding m splits_def take_pair_def by simp
qed

lemma source_phase:
  assumes "splits (length olds) (length news) m" and "distinct js" and "set js \<subseteq> set (snd (snd m))"
  shows "splits (length olds) (length news) (foldl (source_step olds news) m js)"
  using assms
proof (induction js arbitrary: m)
  case (Cons j js)
  show ?case
  proof (cases "source_step olds news m j = m")
    case True
    then show ?thesis using Cons by simp
  next
    case False
    then obtain i where i: "source_step olds news m j = take_pair i j m" "i \<in> set (fst (snd m))"
      by (auto simp: source_step_def Let_def split: if_splits option.splits)
    have "splits (length olds) (length news) (take_pair i j m)"
      using Cons.prems i(2) by (intro splits_take) auto
    moreover have "set js \<subseteq> set (snd (snd (take_pair i j m)))"
    proof -
      have "j \<notin> set js" "set js \<subseteq> set (snd (snd m))" using Cons.prems by auto
      then show ?thesis by (cases m) (auto simp: take_pair_def intro: in_set_remove1 [THEN iffD2])
    qed
    ultimately show ?thesis using Cons.IH [of "take_pair i j m"] Cons.prems(2) i(1) by simp
  qed
qed simp

lemma greedy_phase: "splits n n' m \<Longrightarrow> splits n n' (foldl greedy_step m cs)"
proof (induction cs arbitrary: m)
  case (Cons c cs)
  obtain s p i j where c: "c = (s, p, i, j)" by (cases c)
  have "splits n n' (greedy_step m c)" using Cons.prems by (auto simp: c splits_take)
  then show ?case using Cons.IH by simp
qed simp

lemma match_indices_splits: "splits (length olds) (length news) (match_indices olds news)"
proof -
  have "splits (length olds) (length news) ([], [0..<length olds], [0..<length news])"
    by (simp add: splits_def)
  from source_phase [OF this, of "[0..<length news]"] show ?thesis
    by (simp add: match_indices_def Let_def greedy_phase)
qed

lemma match_lessons_mset:
  assumes "match_lessons olds news = (pairs, gone, fresh)"
  shows "mset (map fst pairs) + mset gone = mset olds" "mset (map snd pairs) + mset fresh = mset news"
proof -
  obtain ps os ns where m: "match_indices olds news = (ps, os, ns)" by (metis prod_cases3)
  then have s: "mset (map fst ps) + mset os = mset [0..<length olds]"
      "mset (map snd ps) + mset ns = mset [0..<length news]"
    using match_indices_splits [of olds news] by (auto simp: splits_def)
  have r: "pairs = map (\<lambda>(i, j). (olds ! i, news ! j)) ps" "gone = map ((!) olds) (sort os)"
      "fresh = map ((!) news) (sort ns)"
    using assms m by (auto simp: match_lessons_def)
  have "mset (map fst pairs) + mset gone = image_mset ((!) olds) (mset (map fst ps) + mset os)"
    by (simp add: r image_mset.compositionality comp_def case_prod_beta)
  also have "\<dots> = mset (map ((!) olds) [0..<length olds])" unfolding s by simp
  finally show "mset (map fst pairs) + mset gone = mset olds" by (simp only: map_nth)
  have "mset (map snd pairs) + mset fresh = image_mset ((!) news) (mset (map snd ps) + mset ns)"
    by (simp add: r image_mset.compositionality comp_def case_prod_beta)
  also have "\<dots> = mset (map ((!) news) [0..<length news])" unfolding s by simp
  finally show "mset (map snd pairs) + mset fresh = mset news" by (simp only: map_nth)
qed

section \<open>A schedule against itself\<close>

lemma bonus_le: "x \<le> of_int c \<Longrightarrow> 0 \<le> k \<Longrightarrow> bonus P k x \<le> of_int (c + k)"
proof -
  assume x: "x \<le> of_int c" "0 \<le> k"
  then have "fl (x + of_int k) \<le> of_int (c + k)" by (intro fl_le) simp
  moreover have "rat_of_int c \<le> of_int (c + k)" using x(2) by simp
  ultimately show ?thesis using x(1) by (auto simp: bonus_def)
qed

lemma match_score_le: "match_score a b = Some s \<Longrightarrow> s \<le> 120"
proof -
  assume s: "match_score a b = Some s"
  have "fl (ratio (normalized_subject a) (normalized_subject b) * 70) \<le> of_int 70"
    using ratio_le_1 by (intro fl_le) simp
  from bonus_le [OF bonus_le [OF bonus_le [OF bonus_le [OF this, of 25], of 15], of 5], of 5] s
  show ?thesis by (auto simp: match_score_def split: if_splits)
qed

lemma match_score_self:
  "length (normalized_subject a) < 200 \<Longrightarrow> match_score a a = Some 120"
  by (simp add: match_score_def bonus_def ratio_self)

text \<open>
  Matching a schedule with itself keeps the two index sets equal and pairs each index with
  itself, so long as every index left over is still ahead of it as its own candidate.
\<close>

definition diagonal :: "matching \<Rightarrow> bool" where
  "diagonal = (\<lambda>(pairs, olds, news). (\<forall>p \<in> set pairs. fst p = snd p) \<and> olds = news \<and> distinct olds)"

lemma diagonal_take: "diagonal m \<Longrightarrow> diagonal (take_pair i i m)"
  by (auto simp: diagonal_def take_pair_def)

lemma source_step_diagonal:
  assumes "\<And>j. j < length ls \<Longrightarrow> has_source (ls ! j) \<Longrightarrow> old_by_source ls (l_source_id (ls ! j)) = Some j"
    and "diagonal m" and "j < length ls"
  shows "diagonal (source_step ls ls m j)"
  using assms by (auto simp: source_step_def Let_def diagonal_take)

lemma source_steps_diagonal:
  assumes "\<And>j. j < length ls \<Longrightarrow> has_source (ls ! j) \<Longrightarrow> old_by_source ls (l_source_id (ls ! j)) = Some j"
    and "diagonal m" and "\<forall>j \<in> set js. j < length ls"
  shows "diagonal (foldl (source_step ls ls) m js)"
  using assms(2,3)
proof (induction js arbitrary: m)
  case (Cons j js)
  then have "diagonal (source_step ls ls m j)" by (intro source_step_diagonal [OF assms(1)]) auto
  then show ?case using Cons by simp
qed simp

lemma greedy_diagonal:
  assumes "diagonal m" and "sorted_wrt (\<ge>) cs"
    and "\<forall>c \<in> set cs. fst c \<le> 120 \<and> fst (snd c) \<le> 0"
    and "\<And>i. i \<in> set (fst (snd m)) \<Longrightarrow> (120, 0, i, i) \<in> set cs"
  shows "diagonal (foldl greedy_step m cs) \<and> fst (snd (foldl greedy_step m cs)) = []"
  using assms
proof (induction cs arbitrary: m)
  case Nil
  have "i \<notin> set (fst (snd m))" for i using Nil(4) by fastforce
  then have "fst (snd m) = []" by (metis ex_in_conv set_empty)
  with Nil(1) show ?case by simp
next
  case (Cons c cs)
  obtain s p i j where c: "c = (s, p, i, j)" by (cases c)
  obtain ps R where m: "m = (ps, R, R)" using Cons.prems(1) by (cases m) (auto simp: diagonal_def)
  have top: "s \<le> 120" "p \<le> 0" using Cons.prems(3) c by auto
  show ?case
  proof (cases "i \<in> set R \<and> j \<in> set R")
    case False
    then have "greedy_step m c = m" by (auto simp: c m)
    moreover have "(120, 0, k, k) \<in> set cs" if "k \<in> set R" for k
      using Cons.prems(4) [of k] that False by (auto simp: c m)
    ultimately show ?thesis using Cons.IH [OF Cons.prems(1)] Cons.prems(2,3) by (auto simp: m)
  next
    case True
    have "i = j"
    proof (rule ccontr)
      assume "i \<noteq> j"
      then have "(120, 0, i, i) \<in> set cs" "(120, 0, j, j) \<in> set cs"
        using True Cons.prems(4) by (auto simp: c m)
      then have "(120, 0, i, i) \<le> c" "(120, 0, j, j) \<le> c" using Cons.prems(2) by auto
      then show False using top \<open>i \<noteq> j\<close> by (auto simp: c less_eq_prod_def)
    qed
    then have g: "greedy_step m c = take_pair i i m" using True by (simp add: c m)
    have "(120, 0, k, k) \<in> set cs" if "k \<in> set (remove1 i R)" for k
    proof -
      have "distinct R" using Cons.prems(1) by (simp add: diagonal_def m)
      then have "k \<noteq> i" "k \<in> set R" using that by auto
      then show ?thesis using Cons.prems(4) [of k] by (auto simp: c m)
    qed
    then show ?thesis
      using Cons.IH [of "take_pair i i m"] diagonal_take [OF Cons.prems(1)] Cons.prems(2,3) g
      by (simp add: m take_pair_def)
  qed
qed

text \<open>The source ids that are set are pairwise different.\<close>

definition sources_distinct :: "lesson list \<Rightarrow> bool" where
  "sources_distinct ls \<longleftrightarrow> distinct (map l_source_id (filter has_source ls))"

lemma old_by_source_self:
  assumes "sources_distinct ls" and "j < length ls" and "has_source (ls ! j)"
  shows "old_by_source ls (l_source_id (ls ! j)) = Some j"
proof -
  have uniq: "k = j" if "k < length ls" "has_source (ls ! k)" "l_source_id (ls ! k) = l_source_id (ls ! j)" for k
    using distinct_filter_nth [of l_source_id has_source ls k j] assms that by (simp add: sources_distinct_def)
  show ?thesis
  proof (cases "old_by_source ls (l_source_id (ls ! j))")
    case None
    then show ?thesis using assms(2,3) by (auto simp: old_by_source_def find_None_set)
  next
    case (Some k)
    then show ?thesis using uniq [of k] by (auto simp: old_by_source_def dest!: find_Some_set)
  qed
qed

lemma match_self:
  assumes "sources_distinct ls" and "\<forall>l \<in> set ls. length (normalized_subject l) < 200"
  obtains pairs where "match_indices ls ls = (pairs, [], [])" "\<forall>p \<in> set pairs. fst p = snd p"
proof -
  obtain ps os ns where m1: "foldl (source_step ls ls) ([], [0..<length ls], [0..<length ls]) [0..<length ls] =
      (ps, os, ns)" by (metis prod_cases3)
  let ?cs = "candidates ls ls os ns"
  have d: "diagonal (ps, os, ns)"
    unfolding m1 [symmetric] using old_by_source_self [OF assms(1)]
    by (intro source_steps_diagonal) (auto simp: diagonal_def)
  have sp: "splits (length ls) (length ls) (ps, os, ns)"
    unfolding m1 [symmetric] by (rule source_phase) (simp_all add: splits_def)
  have idx: "i < length ls" if "i \<in> set os" for i
  proof -
    have "mset (map fst ps) + mset os = mset [0..<length ls]" using sp by (simp add: splits_def)
    from arg_cong [where f = set_mset, OF this] that show ?thesis by auto
  qed
  have top: "\<forall>c \<in> set (rev (sort ?cs)). fst c \<le> 120 \<and> fst (snd c) \<le> 0"
    using match_score_le by (auto simp: candidates_def split: option.splits if_splits)
  have own: "(120, 0, i, i) \<in> set (rev (sort ?cs))" if "i \<in> set os" for i
  proof -
    have "i \<in> set ns" using d that by (auto simp: diagonal_def)
    moreover have "match_score (ls ! i) (ls ! i) = Some 120"
      using assms(2) idx [OF that] by (intro match_score_self) auto
    ultimately show ?thesis using that by (force simp: candidates_def)
  qed
  have "sorted_wrt (\<ge>) (rev (sort ?cs))" by (simp add: sorted_wrt_rev)
  from greedy_diagonal [OF d this top] own
  have g: "diagonal (match_indices ls ls)" "fst (snd (match_indices ls ls)) = []"
    by (simp_all add: match_indices_def Let_def m1)
  then show ?thesis
    using that [of "fst (match_indices ls ls)"]
    by (cases "match_indices ls ls") (auto simp: diagonal_def)
qed

section \<open>Properties\<close>

text \<open>
  C27: Matching two schedules loses and invents nothing: the old lessons are exactly the
  matched ones and the reported disappearances, the new lessons exactly the matched ones
  and the reported additions, counted with multiplicity.
\<close>

theorem matching_partitions:
  "case match_lessons olds news of (pairs, gone, fresh) \<Rightarrow>
     mset (map fst pairs) + mset gone = mset olds \<and> mset (map snd pairs) + mset fresh = mset news"
  using match_lessons_mset by (auto split: prod.splits)

text \<open>
  Comparing a schedule with an equal list of lessons reports no change, whatever order
  candidates tie in, provided no two lessons share a source id and every normalised subject
  is shorter than 200 characters.
\<close>

theorem diff_same_schedule_empty:
  assumes "sn_group_key prev = sn_group_key cur" and "sn_lessons cur = sn_lessons prev"
    and "sources_distinct (sn_lessons prev)"
    and "\<forall>l \<in> set (sn_lessons prev). length (normalized_subject l) < 200"
  shows "diff_schedules prev cur = Inr []"
proof -
  obtain pairs where p: "match_indices (sn_lessons prev) (sn_lessons prev) = (pairs, [], [])"
      "\<forall>p \<in> set pairs. fst p = snd p"
    using match_self [OF assms(3,4)] by blast
  have "concat (map (field_changes \<circ> (\<lambda>(i, j). (sn_lessons prev ! i, sn_lessons prev ! j))) pairs) = []"
    using p(2) by (auto simp: field_changes_def)
  then show ?thesis using assms(1,2) p(1)
    by (simp add: diff_schedules_def match_lessons_def del: concat_eq_Nil_conv)
qed

definition demo_lesson :: lesson where
  "demo_lesson = \<lparr>l_day = 739000, l_starts_at = 9 * hour, l_ends_at = 10 * hour, l_subject = u ''A'',
     l_type = None, l_teacher = None, l_room = Some (u ''1''), l_building = None,
     l_subgroup = Some (u ''x''), l_source_id = Some (u ''s'')\<rparr>"

definition demo_snapshot :: "lesson list \<Rightarrow> snapshot" where
  "demo_snapshot ls = \<lparr>sn_source = u ''spbgasu'', sn_group_key = u ''g'', sn_fetched_at = utc_at 0,
     sn_lessons = ls\<rparr>"

theorem diff_same_schedule_empty_witness:
  "diff_schedules (demo_snapshot [demo_lesson]) (demo_snapshot [demo_lesson]) = Inr []"
proof -
  have "length (normalized_subject demo_lesson) < 200" by code_simp
  then show ?thesis
    using diff_same_schedule_empty [of "demo_snapshot [demo_lesson]" "demo_snapshot [demo_lesson]"]
    by (simp add: demo_snapshot_def sources_distinct_def)
qed

text \<open>What a change must look like: its kind fits its lessons and the field really differs.\<close>

definition field_differs :: "change_kind \<Rightarrow> lesson \<Rightarrow> lesson \<Rightarrow> bool" where
  "field_differs k a b =
     (case k of
        Time \<Rightarrow> (l_starts_at a, l_ends_at a) \<noteq> (l_starts_at b, l_ends_at b)
      | Room \<Rightarrow> normalize_text (l_room a) \<noteq> normalize_text (l_room b)
      | Building \<Rightarrow> normalize_text (l_building a) \<noteq> normalize_text (l_building b)
      | Teacher \<Rightarrow> normalize_teacher (l_teacher a) \<noteq> normalize_teacher (l_teacher b)
      | Lesson_type \<Rightarrow> normalize_text (l_type a) \<noteq> normalize_text (l_type b)
      | Subject \<Rightarrow> normalized_subject a \<noteq> normalized_subject b
      | _ \<Rightarrow> False)"

lemma match_lessons_sets:
  assumes "match_lessons olds news = (pairs, gone, fresh)"
  shows "fst ` set pairs \<union> set gone = set olds" "snd ` set pairs \<union> set fresh = set news"
  using arg_cong [where f = set_mset, OF match_lessons_mset(1) [OF assms]]
    arg_cong [where f = set_mset, OF match_lessons_mset(2) [OF assms]] by simp_all

definition demo_moved :: lesson where
  "demo_moved = demo_lesson\<lparr>l_ends_at := 11 * hour, l_subgroup := Some (u ''y'')\<rparr>"

lemma match_one:
  "has_source l \<Longrightarrow> l_source_id l' = l_source_id l \<Longrightarrow> match_indices [l] [l'] = ([(0, 0)], [], [])"
  by (simp add: match_indices_def source_step_def old_by_source_def has_source_def
      take_pair_def candidates_def)

lemma demo_diff:
  "diff_schedules (demo_snapshot [demo_lesson]) (demo_snapshot [demo_moved]) =
     Inr [\<lparr>ch_kind = Time, ch_before = Some demo_lesson, ch_after = Some demo_moved\<rparr>]"
proof -
  have m: "match_indices [demo_lesson] [demo_moved] = ([(0, 0)], [], [])"
    by (rule match_one) (simp_all add: demo_lesson_def demo_moved_def has_source_def)
  have r: "l_ends_at demo_lesson \<noteq> l_ends_at demo_moved"
    by (simp add: demo_moved_def demo_lesson_def durations)
  have same: "l_starts_at demo_moved = l_starts_at demo_lesson" "l_room demo_moved = l_room demo_lesson"
    "l_building demo_moved = l_building demo_lesson" "l_teacher demo_moved = l_teacher demo_lesson"
    "l_type demo_moved = l_type demo_lesson" "normalized_subject demo_moved = normalized_subject demo_lesson"
    by (simp_all add: demo_moved_def normalized_subject_def)
  show ?thesis using m r same
    by (simp add: diff_schedules_def demo_snapshot_def match_lessons_def field_changes_def)
qed

text \<open>What a reader of the schedule sees of a lesson, apart from its day and its subgroup.\<close>

definition visible :: "lesson \<Rightarrow> int \<times> int \<times> pystr \<times> pystr \<times> pystr \<times> pystr \<times> pystr" where
  "visible l = (l_starts_at l, l_ends_at l, normalize_text (l_room l), normalize_text (l_building l),
     normalize_teacher (l_teacher l), normalize_text (l_type l), normalized_subject l)"

text \<open>
  Silence means sameness: when the comparison reports nothing, both sides hold the same
  lessons up to normalisation, with multiplicity, looking at times, room, building, teacher,
  type and subject.
\<close>

theorem silent_diff_same_lessons:
  assumes "diff_schedules prev cur = Inr []"
  shows "mset (map visible (sn_lessons prev)) = mset (map visible (sn_lessons cur))"
proof -
  obtain pairs gone fresh where m: "match_lessons (sn_lessons prev) (sn_lessons cur) = (pairs, gone, fresh)"
    by (metis prod_cases3)
  have "sort_key change_sort_key (concat (map field_changes pairs)
      @ map (\<lambda>l. \<lparr>ch_kind = Cancelled, ch_before = Some l, ch_after = None\<rparr>) gone
      @ map (\<lambda>l. \<lparr>ch_kind = Added, ch_before = None, ch_after = Some l\<rparr>) fresh) = []"
    using assms m by (simp add: diff_schedules_def py)
  then have "gone = []" "fresh = []" and none: "\<And>p. p \<in> set pairs \<Longrightarrow> field_changes p = []"
    by simp_all
  have same: "visible (fst p) = visible (snd p)" if "p \<in> set pairs" for p
    using none [OF that] by (cases p) (auto simp: field_changes_def visible_def Let_def split: if_splits)
  have "mset (map visible (sn_lessons prev)) = mset (map (visible \<circ> fst) pairs)"
    using match_lessons_mset(1) [OF m] \<open>gone = []\<close> by (metis add.right_neutral map_map mset.simps(1) mset_map)
  also have "map (visible \<circ> fst) pairs = map (visible \<circ> snd) pairs" using same by simp
  also have "mset \<dots> = mset (map visible (sn_lessons cur))"
    using match_lessons_mset(2) [OF m] \<open>fresh = []\<close> by (metis add.right_neutral map_map mset.simps(1) mset_map)
  finally show ?thesis .
qed

text \<open>
  A lesson that keeps its source id can move to another day and change its subgroup
  without any change being reported, although the content hash is taken of both.
\<close>

theorem day_and_subgroup_changes_silent:
  assumes "has_source l"
  shows "diff_schedules (demo_snapshot [l]) (demo_snapshot [l\<lparr>l_day := d, l_subgroup := g\<rparr>]) = Inr []"
proof -
  have "match_indices [l] [l\<lparr>l_day := d, l_subgroup := g\<rparr>] = ([(0, 0)], [], [])"
    using assms by (rule match_one) simp
  then show ?thesis
    by (simp add: diff_schedules_def demo_snapshot_def match_lessons_def field_changes_def
        normalized_subject_def)
qed

theorem day_and_subgroup_changes_silent_witness:
  "diff_schedules (demo_snapshot [demo_lesson])
     (demo_snapshot [demo_lesson\<lparr>l_day := 739001, l_subgroup := None\<rparr>]) = Inr []"
  by (rule day_and_subgroup_changes_silent) (simp add: demo_lesson_def has_source_def)

theorem silent_diff_same_lessons_witness:
  "mset (map visible [demo_lesson]) = mset (map visible [demo_lesson\<lparr>l_day := 739001, l_subgroup := None\<rparr>])"
proof -
  have "match_indices [demo_lesson] [demo_lesson\<lparr>l_day := 739001, l_subgroup := None\<rparr>] = ([(0, 0)], [], [])"
    by (rule match_one) (simp_all add: demo_lesson_def has_source_def)
  then have "diff_schedules (demo_snapshot [demo_lesson])
     (demo_snapshot [demo_lesson\<lparr>l_day := 739001, l_subgroup := None\<rparr>]) = Inr []"
    by (simp add: diff_schedules_def demo_snapshot_def match_lessons_def field_changes_def
        normalized_subject_def)
  from silent_diff_same_lessons [OF this] show ?thesis by (simp add: demo_snapshot_def)
qed

end
