(* ===== verification/Json.thy ===== *)
theory Json
  imports Text Complex_Main
begin

text \<open>
  Parsed JSON as the program reads and stores it: objects are association lists with
  pairwise different keys, in order. Decimal digits of all scripts, as \<open>int()\<close> and
  \<open>\\d\<close> accept them.
\<close>

datatype json =
    JNull
  | JBool bool
  | JInt int
  | JFloat rat
  | JStr pystr
  | JArr "json list"
  | JObj "(pystr \<times> json) list"

text \<open>\<open>d.get(key)\<close>, where a missing key and \<open>null\<close> are both \<open>None\<close>.\<close>

definition jget :: "(pystr \<times> json) list \<Rightarrow> pystr \<Rightarrow> json" where
  "jget kvs k = (case map_of kvs k of None \<Rightarrow> JNull | Some v \<Rightarrow> v)"

definition is_obj :: "json \<Rightarrow> bool" where
  "is_obj j = (case j of JObj _ \<Rightarrow> True | _ \<Rightarrow> False)"

text \<open>The value as a string when it is one and is not blank, stripped.\<close>

definition jstring :: "json \<Rightarrow> pystr option" where
  "jstring j = (case j of JStr s \<Rightarrow> if strip s = [] then None else Some (strip s) | _ \<Rightarrow> None)"

section \<open>Digits\<close>

text \<open>The code points of the digit zero in each script of Unicode 15.\<close>

definition digit_zeros :: "nat list" where
  "digit_zeros =
    [48, 1632, 1776, 1984, 2406, 2534, 2662, 2790, 2918, 3046, 3174, 3302, 3430, 3558, 3664, 3792,
     3872, 4160, 4240, 6112, 6160, 6470, 6608, 6784, 6800, 6992, 7088, 7232, 7248, 42528, 43216,
     43264, 43472, 43504, 43600, 44016, 65296, 66720, 68912, 69734, 69872, 69942, 70096, 70384,
     70736, 70864, 71248, 71360, 71472, 71904, 72016, 72784, 73040, 73120, 73552, 92768, 92864,
     93008, 120782, 120792, 120802, 120812, 120822, 123200, 123632, 124144, 125264, 130032]"

definition digit_value :: "nat \<Rightarrow> nat option" where
  "digit_value c =
     (case List.find (\<lambda>z. z \<le> c \<and> c < z + 10) digit_zeros of None \<Rightarrow> None | Some z \<Rightarrow> Some (c - z))"

definition is_digit :: "nat \<Rightarrow> bool" where
  "is_digit c \<longleftrightarrow> digit_value c \<noteq> None"

fun digits_value :: "nat \<Rightarrow> pystr \<Rightarrow> nat" where
  "digits_value acc [] = acc"
| "digits_value acc (c # cs) =
     digits_value (acc * 10 + (case digit_value c of None \<Rightarrow> 0 | Some d \<Rightarrow> d)) cs"

text \<open>
  \<open>int(s)\<close> on a string: white space around, a sign, digits with single underscores between
  them. Other strings raise \<open>ValueError\<close>, the value \<open>None\<close>.
\<close>

fun int_digits :: "bool \<Rightarrow> nat \<Rightarrow> pystr \<Rightarrow> nat option" where
  "int_digits after acc [] = (if after then Some acc else None)"
| "int_digits after acc (c # cs) =
     (if after \<and> c = 95 then int_digits False acc cs
      else case digit_value c of None \<Rightarrow> None | Some d \<Rightarrow> int_digits True (acc * 10 + d) cs)"

definition parse_int :: "pystr \<Rightarrow> int option" where
  "parse_int s =
     (case strip s of
        [] \<Rightarrow> None
      | c # cs \<Rightarrow>
          if c = 43 then map_option int (int_digits False 0 cs)
          else if c = 45 then map_option (\<lambda>n. - int n) (int_digits False 0 cs)
          else map_option int (int_digits False 0 (c # cs)))"

section \<open>Dates in text\<close>

text \<open>The components \<open>%Y\<close>, \<open>%m\<close> and \<open>%d\<close> of \<open>strptime\<close>, with the text that follows each.\<close>

definition digit_in :: "nat \<Rightarrow> nat \<Rightarrow> nat \<Rightarrow> bool" where
  "digit_in lo hi c \<longleftrightarrow> 48 + lo \<le> c \<and> c \<le> 48 + hi"

definition year_alts :: "pystr \<Rightarrow> (int \<times> pystr) list" where
  "year_alts s =
     (case s of
        a # b # c # d # rest \<Rightarrow>
          if list_all is_digit [a, b, c, d] then [(int (digits_value 0 [a, b, c, d]), rest)] else []
      | _ \<Rightarrow> [])"

definition two :: "(nat \<Rightarrow> bool) \<Rightarrow> (nat \<Rightarrow> bool) \<Rightarrow> pystr \<Rightarrow> (int \<times> pystr) list" where
  "two P Q s =
     (case s of a # b # rest \<Rightarrow>
        if P a \<and> Q b then [(int (digits_value 0 [a, b]), rest)] else [] | _ \<Rightarrow> [])"

definition one :: "(nat \<Rightarrow> bool) \<Rightarrow> pystr \<Rightarrow> (int \<times> pystr) list" where
  "one P s = (case s of a # rest \<Rightarrow> if P a then [(int (digits_value 0 [a]), rest)] else [] | _ \<Rightarrow> [])"

definition month_alts :: "pystr \<Rightarrow> (int \<times> pystr) list" where
  "month_alts s =
     two (\<lambda>a. a = 49) (digit_in 0 2) s @ two (\<lambda>a. a = 48) (digit_in 1 9) s @ one (digit_in 1 9) s"

definition day_alts :: "pystr \<Rightarrow> (int \<times> pystr) list" where
  "day_alts s =
     two (\<lambda>a. a = 51) (digit_in 0 1) s @ two (digit_in 1 2) is_digit s @ two (\<lambda>a. a = 48) (digit_in 1 9) s
     @ one (digit_in 1 9) s
     @ (case s of a # rest \<Rightarrow> if a = 32 then one (digit_in 1 9) rest else [] | _ \<Rightarrow> [])"

text \<open>A literal separator after a component; the first way the whole pattern matches decides.\<close>

definition then_literal :: "nat \<Rightarrow> (int \<times> pystr) list \<Rightarrow> (int \<times> pystr) list" where
  "then_literal sep alts = concat (map (\<lambda>(v, rest). case rest of
     c # rest' \<Rightarrow> if c = sep then [(v, rest')] else [] | [] \<Rightarrow> []) alts)"

definition valid_date :: "int \<Rightarrow> int \<Rightarrow> int \<Rightarrow> date option" where
  "valid_date y m d =
     (if 1 \<le> y \<and> y \<le> 9999 \<and> 1 \<le> m \<and> m \<le> 12 \<and> 1 \<le> d \<and> d \<le> days_in_month y m
      then Some (ordinal y m d) else None)"

definition first_complete :: "(int \<times> int \<times> int \<times> pystr) list \<Rightarrow> date option" where
  "first_complete alts =
     (case alts of
        [] \<Rightarrow> None
      | (y, m, d, rest) # _ \<Rightarrow> if rest = [] then valid_date y m d else None)"

definition strptime_ymd :: "pystr \<Rightarrow> date option" where
  "strptime_ymd s = first_complete
     (concat (map (\<lambda>(y, s1). concat (map (\<lambda>(m, s2). map (\<lambda>(d, s3). (y, m, d, s3)) (day_alts s2))
        (then_literal 45 (month_alts s1)))) (then_literal 45 (year_alts s))))"

definition strptime_dmy :: "pystr \<Rightarrow> date option" where
  "strptime_dmy s = first_complete
     (concat (map (\<lambda>(d, s1). concat (map (\<lambda>(m, s2). map (\<lambda>(y, s3). (y, m, d, s3)) (year_alts s2))
        (then_literal 46 (month_alts s1)))) (then_literal 46 (day_alts s))))"

end
