(* ===== verification/Presentation.thy ===== *)
theory Presentation
  imports DomainSchedule Json
begin

text \<open>
  How lessons are shown: \<open>schedule/subjects.py\<close>, \<open>schedule/typography.py\<close>,
  \<open>schedule/render.py\<close> and the cards of \<open>schedule/ui.py\<close>. Texts are HTML for Telegram; what
  comes from the timetable goes through \<open>html_escape\<close>.
\<close>

section \<open>Subjects\<close>

definition single_spaced :: "pystr \<Rightarrow> pystr" where
  "single_spaced value = join [32] (words value)"

definition subject_aliases :: "(pystr \<times> pystr) list" where
  "subject_aliases =
     [([1041, 1077, 1079, 1086, 1087, 1072, 1089, 1085, 1086, 1089, 1090, 1100, 32, 1078, 1080,
      1079, 1085, 1077, 1076, 1077, 1103, 1090, 1077, 1083, 1100, 1085, 1086, 1089, 1090,
      1080], [1041, 1046, 1044]),
      ([1042, 1086, 1076, 1086, 1089, 1085, 1072, 1073, 1078, 1077, 1085, 1080, 1077, 32, 1080,
      32, 1074, 1086, 1076, 1086, 1086, 1090, 1074, 1077, 1076, 1077, 1085, 1080, 1077], [1042, 1080, 1042]),
      ([1048, 1085, 1092, 1086, 1088, 1084, 1072, 1094, 1080, 1086, 1085, 1085, 1086, 1077, 32,
      1084, 1086, 1076, 1077, 1083, 1080, 1088, 1086, 1074, 1072, 1085, 1080, 1077, 32,
      1074, 32, 1089, 1090, 1088, 1086, 1080, 1090, 1077, 1083, 1100, 1089, 1090, 1074,
      1077], [1048, 1052, 1057]),
      ([1052, 1077, 1093, 1072, 1085, 1080, 1082, 1072, 32, 1075, 1088, 1091, 1085, 1090, 1086,
      1074], [1052, 1077, 1093, 46, 32, 1075, 1088, 1091, 1085, 1090, 1086, 1074]),
      ([1055, 1088, 1086, 1077, 1082, 1090, 1085, 1099, 1081, 32, 1084, 1077, 1085, 1077, 1076,
      1078, 1084, 1077, 1085, 1090], [1055, 1052]),
      ([1057, 1088, 1077, 1076, 1089, 1090, 1074, 1072, 32, 1084, 1077, 1093, 1072, 1085, 1080,
      1079, 1072, 1094, 1080, 1080, 32, 1089, 1090, 1088, 1086, 1080, 1090, 1077, 1083,
      1100, 1089, 1090, 1074, 1072], [1057, 1052, 1057]),
      ([1057, 1090, 1088, 1086, 1080, 1090, 1077, 1083, 1100, 1085, 1072, 1103, 32, 1084, 1077,
      1093, 1072, 1085, 1080, 1082, 1072], [1057, 1090, 1088, 1086, 1081, 1084, 1077, 1093, 46]),
      ([1059, 1095, 1077, 1073, 1085, 1072, 1103, 32, 1087, 1088, 1072, 1082, 1090, 1080, 1082,
      1072, 47, 1054, 1079, 1085, 1072, 1082, 1086, 1084, 1080, 1090, 1077, 1083, 1100,
      1085, 1072, 1103, 32, 1087, 1088, 1072, 1082, 1090, 1080, 1082, 1072], [1054, 1079, 1085, 1072, 1082, 46, 32, 1087, 1088, 1072, 1082, 1090, 1080, 1082, 1072])]"

definition aliases_folded :: "(pystr \<times> pystr) list" where
  "aliases_folded = map (\<lambda>(full, short). (casefold full, short)) subject_aliases"

definition reference_names :: "(pystr \<times> pystr) list" where
  "reference_names = map (\<lambda>(i, full, short). (casefold full, u ''subject-'' @ show_nat i)) (enumerate 0 subject_aliases)"

definition subject_reference_name :: "pystr \<Rightarrow> pystr option" where
  "subject_reference_name value = map_of reference_names (casefold (single_spaced value))"

definition subject_label :: "pystr \<Rightarrow> pystr" where
  "subject_label value =
     (let clean = single_spaced value
      in case map_of aliases_folded (casefold clean) of Some short \<Rightarrow> short | None \<Rightarrow> clean)"

definition subject_reference_definitions :: "pystr list \<Rightarrow> pystr" where
  "subject_reference_definitions subjects =
     (let used = List.map_filter subject_reference_name subjects;
          entries = concat (map (\<lambda>(full, short).
            case map_of reference_names (casefold full) of
              None \<Rightarrow> []
            | Some name \<Rightarrow>
                if name \<in> set used then
                  [60, 112, 62, 60, 98, 62] @ html_escape short @ [60, 47, 98, 62, 32, 8212, 32, 60, 116, 103, 45, 114, 101, 102, 101, 114, 101, 110, 99,
      101, 32, 110, 97, 109, 101, 61, 34] @ name @ [34, 62] @ html_escape full
                  @ [60, 47, 116, 103, 45, 114, 101, 102, 101, 114, 101, 110, 99, 101, 62, 60, 47, 112, 62]
                else []) subject_aliases)
      in if entries = [] then []
         else [60, 100, 101, 116, 97, 105, 108, 115, 62, 60, 115, 117, 109, 109, 97, 114, 121, 62,
      1057, 1086, 1082, 1088, 1072, 1097, 1077, 1085, 1080, 1103, 60, 47, 115, 117, 109,
      109, 97, 114, 121, 62] @ entries @ [60, 47, 100, 101, 116, 97, 105, 108, 115, 62])"

definition bot_description :: pystr where
  "bot_description =
     [1056, 1072, 1089, 1087, 1080, 1089, 1072, 1085, 1080, 1077, 32, 51, 45, 1057, 1059,
      1047, 1057, 1089, 45, 51, 32, 1057, 1055, 1073, 1043, 1040, 1057, 1059, 46] @ [10, 10] @ [1057, 1086, 1082, 1088, 1072, 1097, 1077, 1085, 1080, 1103, 32, 1087, 1088, 1077, 1076,
      1084, 1077, 1090, 1086, 1074, 58] @ [10]
     @ join [10] (map (\<lambda>(full, short). short @ [32, 8212, 32] @ full) subject_aliases)
     @ [10, 10] @ [1042, 32, 1082, 1072, 1083, 1077, 1085, 1076, 1072, 1088, 1077, 32, 1085, 1072, 1079,
      1074, 1072, 1085, 1080, 1103, 32, 1087, 1086, 1083, 1085, 1099, 1077, 46]"

section \<open>Typography\<close>

text \<open>
  \<open>re.sub\<close> with a callback: \<open>rx\<close> is given the character before the position and the text from
  it, and answers with the length of the match (not empty) and its replacement.
\<close>

function sub_all :: "(nat option \<Rightarrow> pystr \<Rightarrow> (nat \<times> pystr) option) \<Rightarrow> nat option \<Rightarrow> pystr \<Rightarrow> pystr" where
  "sub_all rx prev [] = []"
| "sub_all rx prev (c # cs) =
     (case rx prev (c # cs) of
        Some (Suc n, replacement) \<Rightarrow> replacement @ sub_all rx (Some ((c # cs) ! n)) (drop n cs)
      | _ \<Rightarrow> c # sub_all rx (Some c) cs)"
  by pat_completeness auto
termination by (relation "measure (\<lambda>(rx, prev, s). length s)") auto

text \<open>\<open>s.replace(old, new)\<close> for a text \<open>old\<close> that is not empty.\<close>

definition replace_text :: "pystr \<Rightarrow> pystr \<Rightarrow> pystr \<Rightarrow> pystr" where
  "replace_text old new s = sub_all (\<lambda>_ t. if starts_with old t then Some (length old, new) else None) None s"

lemma sub_all_one:
  "sub_all (\<lambda>_ t. if starts_with [c] t then Some (Suc 0, new) else None) prev s
     = concat (map (\<lambda>x. if x = c then new else [x]) s)"
  by (induction s arbitrary: prev) auto

lemma replace_text_one: "replace_text [c] new s = concat (map (\<lambda>x. if x = c then new else [x]) s)"
  unfolding replace_text_def list.size add_0 plus_1_eq_Suc One_nat_def using sub_all_one [of c new None s] by simp

definition nbsp :: nat where
  "nbsp = 160"

definition starts_word :: "nat option \<Rightarrow> bool" where
  "starts_word prev \<longleftrightarrow> (case prev of None \<Rightarrow> True | Some c \<Rightarrow> \<not> is_word c)"

text \<open>\<open>_SHORT_LINK\<close>: a one-letter preposition or conjunction before a word.\<close>

definition short_link :: "nat option \<Rightarrow> pystr \<Rightarrow> (nat \<times> pystr) option" where
  "short_link prev s =
     (case s of
        c # sp # rest \<Rightarrow>
          if starts_word prev \<and> c \<in> set [1074, 1089, 1082, 1086, 1091, 1080, 1072, 1042, 1057, 1050, 1054, 1059, 1048, 1040] \<and> sp = 32 then
            (case rest of
               [] \<Rightarrow> None
             | d # _ \<Rightarrow>
                 if is_word d \<and> \<not> is_digit d \<and> d \<noteq> 95 then
                   (let w = takeWhile (\<lambda>x. is_word x \<or> x = 45) rest
                    in Some (2 + length w, if length w \<le> 18 then [c, nbsp] @ w else [c, 32] @ w))
                 else None)
          else None
      | _ \<Rightarrow> None)"

definition table_text :: "pystr \<Rightarrow> pystr" where
  "table_text value = html_escape (sub_all short_link None (single_spaced value))"

definition is_capital :: "nat \<Rightarrow> bool" where
  "is_capital c \<longleftrightarrow> (1040 \<le> c \<and> c \<le> 1071) \<or> c = 1025 \<or> (65 \<le> c \<and> c \<le> 90)"

definition is_small :: "nat \<Rightarrow> bool" where
  "is_small c \<longleftrightarrow> (1072 \<le> c \<and> c \<le> 1103) \<or> c = 1105 \<or> (97 \<le> c \<and> c \<le> 122)"

text \<open>A space between a full stop and a capitalised word that follows it at once.\<close>

fun space_after_dots :: "nat option \<Rightarrow> pystr \<Rightarrow> pystr" where
  "space_after_dots prev [] = []"
| "space_after_dots prev (c # cs) =
     (if prev = Some 46 \<and> is_capital c \<and> (case cs of [] \<Rightarrow> False | d # _ \<Rightarrow> is_small d) then [32] else [])
     @ c # space_after_dots (Some c) cs"

definition initials :: "nat option \<Rightarrow> pystr \<Rightarrow> (nat \<times> pystr) option" where
  "initials prev s =
     (case s of
        c # dot # rest \<Rightarrow>
          if starts_word prev \<and> is_capital c \<and> dot = 46 then
            (case dropWhile is_space rest of
               d # dot2 # _ \<Rightarrow>
                 if is_capital d \<and> dot2 = 46
                 then Some (4 + length (takeWhile is_space rest), [c, 46, nbsp, d, 46]) else None
             | _ \<Rightarrow> None)
          else None
      | _ \<Rightarrow> None)"

definition surname_initials :: "nat option \<Rightarrow> pystr \<Rightarrow> (nat \<times> pystr) option" where
  "surname_initials prev s =
     (case s of
        [] \<Rightarrow> None
      | c # cs \<Rightarrow>
          let w = takeWhile (\<lambda>x. is_small x \<or> x = 45) cs
          in if is_capital c \<and> w \<noteq> [] then
               (case drop (length w) cs of
                  sp # a # d1 # n # b # d2 # _ \<Rightarrow>
                    if sp = 32 \<and> is_capital a \<and> d1 = 46 \<and> n = nbsp \<and> is_capital b \<and> d2 = 46 then
                      Some (length w + 7,
                        c # w @ [if length w + 1 + 5 \<le> 24 then nbsp else 32, a, 46, nbsp, b, 46])
                    else None
                | _ \<Rightarrow> None)
             else None)"

definition teacher_text :: "pystr \<Rightarrow> pystr" where
  "teacher_text value =
     html_escape (sub_all surname_initials None (sub_all initials None (space_after_dots None (single_spaced value))))"

definition location_text :: "pystr \<Rightarrow> pystr \<Rightarrow> pystr" where
  "location_text label value =
     (let clean = (if single_spaced value = [] then [8212] else single_spaced value);
          gap = (if length label + length clean \<le> 16 then nbsp else 32)
      in html_escape label @ [gap] @ [60, 98, 62] @ html_escape clean @ [60, 47, 98, 62])"

section \<open>Day cards and changes\<close>

definition weekdays :: "pystr list" where
  "weekdays = [[1087, 1086, 1085, 1077, 1076, 1077, 1083, 1100, 1085, 1080, 1082], [1074, 1090, 1086, 1088, 1085, 1080, 1082], [1089, 1088, 1077, 1076, 1072], [1095, 1077, 1090, 1074, 1077, 1088, 1075], [1087, 1103, 1090, 1085, 1080, 1094, 1072], [1089, 1091, 1073, 1073, 1086, 1090, 1072], [1074, 1086, 1089, 1082, 1088, 1077, 1089, 1077, 1085, 1100, 1077]]"

definition short_weekdays :: "pystr list" where
  "short_weekdays = [[1055, 1085], [1042, 1090], [1057, 1088], [1063, 1090], [1055, 1090], [1057, 1073], [1042, 1089]]"

definition months :: "pystr list" where
  "months = [[], [1103, 1085, 1074, 1072, 1088, 1103], [1092, 1077, 1074, 1088, 1072, 1083, 1103], [1084, 1072, 1088, 1090, 1072], [1072, 1087, 1088, 1077, 1083, 1103], [1084, 1072, 1103], [1080, 1102, 1085, 1103], [1080, 1102, 1083, 1103], [1072, 1074, 1075, 1091, 1089, 1090, 1072], [1089, 1077, 1085, 1090, 1103, 1073, 1088, 1103],
     [1086, 1082, 1090, 1103, 1073, 1088, 1103], [1085, 1086, 1103, 1073, 1088, 1103], [1076, 1077, 1082, 1072, 1073, 1088, 1103]]"

definition day_month :: "date \<Rightarrow> pystr" where
  "day_month d = (let (y, m, k) = ymd d in show_int k @ [32] @ months ! nat m)"

definition date_label :: "date \<Rightarrow> pystr" where
  "date_label d = weekdays ! nat (weekday d) @ [44, 32] @ day_month d"

definition time_range :: "lesson \<Rightarrow> pystr" where
  "time_range l = hour_minute (l_starts_at l) @ [8211] @ hour_minute (l_ends_at l)"

text \<open>\<open>value.strip()\<close> when it is given and not blank.\<close>

definition given :: "pystr option \<Rightarrow> pystr option" where
  "given value = (case value of None \<Rightarrow> None | Some v \<Rightarrow> if strip v = [] then None else Some (strip v))"

definition lesson_details :: "lesson \<Rightarrow> pystr" where
  "lesson_details l = join [32, 183, 32] (map html_escape (List.map_filter given [l_type l, l_teacher l]))"

definition render_location :: "lesson \<Rightarrow> pystr" where
  "render_location l =
     (case (map_option html_escape (given (l_room l)), map_option html_escape (given (l_building l))) of
        (Some room, Some building) \<Rightarrow> [1072, 1091, 1076, 46, 32] @ room @ [32, 183, 32, 1082, 1086, 1088, 1087, 1091, 1089, 32] @ building
      | (Some room, None) \<Rightarrow> [1072, 1091, 1076, 46, 32] @ room
      | (None, Some building) \<Rightarrow> [1082, 1086, 1088, 1087, 1091, 1089, 32] @ building
      | (None, None) \<Rightarrow> [])"

definition safe_value :: "pystr option \<Rightarrow> pystr" where
  "safe_value value = (case given value of None \<Rightarrow> [1085, 1077, 32, 1091, 1082, 1072, 1079, 1072, 1085, 1086] | Some v \<Rightarrow> html_escape v)"

definition russian_pair_word :: "nat \<Rightarrow> pystr" where
  "russian_pair_word cnt =
     (if cnt mod 10 = 1 \<and> cnt mod 100 \<noteq> 11 then [1087, 1072, 1088, 1072]
      else if cnt mod 10 \<in> {2, 3, 4} \<and> cnt mod 100 \<notin> {12, 13, 14} then [1087, 1072, 1088, 1099]
      else [1087, 1072, 1088])"

definition day_card_block :: "bool \<Rightarrow> lesson \<Rightarrow> pystr" where
  "day_card_block short_subjects l =
     join [10]
       ([[60, 98, 62] @ time_range l @ [60, 47, 98, 62],
         html_escape (if short_subjects then subject_label (l_subject l) else strip (l_subject l))]
        @ (if lesson_details l = [] then [] else [lesson_details l])
        @ (if render_location l = [] then [] else [render_location l]))"

definition render_day_card :: "date \<Rightarrow> lesson list \<Rightarrow> pystr \<Rightarrow> bool \<Rightarrow> pystr" where
  "render_day_card d lessons relative_label short_subjects =
     (let ordered = sort_key (\<lambda>l. (l_starts_at l, casefold (l_subject l))) lessons;
          heading = [128197, 32, 60, 98, 62] @ html_escape relative_label @ [60, 47, 98, 62, 32, 183, 32] @ date_label d
      in if ordered = [] then heading @ [10, 10] @ [1055, 1072, 1088, 32, 1085, 1077, 1090, 46]
         else
           let cnt = length ordered;
               summary = show_nat cnt @ [32] @ russian_pair_word cnt @ [32, 183, 32, 1087, 1077, 1088, 1074, 1072, 1103, 32, 1074, 32]
                 @ hour_minute (l_starts_at (hd ordered)) @ [32, 183, 32, 1082, 1086, 1085, 1077, 1094, 32, 1074, 32] @ hour_minute (l_ends_at (last ordered))
           in join [10, 10] ([heading] @ map (day_card_block short_subjects) ordered @ [summary]))"

definition arrow :: "pystr \<Rightarrow> pystr \<Rightarrow> pystr" where
  "arrow old new = old @ [32, 8594, 32] @ new"

text \<open>\<open>None\<close> is a failed assertion.\<close>

definition render_change :: "change \<Rightarrow> pystr option" where
  "render_change c =
     (let label = (\<lambda>l. html_escape (l_subject l) @ [32, 183, 32] @ hour_minute (l_starts_at l)) in
      case (ch_before c, ch_after c) of
        (None, None) \<Rightarrow> None
      | (old, new) \<Rightarrow>
          let lesson = (case new of Some n \<Rightarrow> n | None \<Rightarrow> the old) in
          if ch_kind c = Added then
            map_option (\<lambda>n. [10133, 32] @ label lesson @ [10] @ [1044, 1086, 1073, 1072, 1074, 1083, 1077, 1085, 1072, 32, 183, 32]
              @ (if render_location n = [] then [1072, 1091, 1076, 1080, 1090, 1086, 1088, 1080, 1103, 32, 1085, 1077, 32, 1091, 1082,
      1072, 1079, 1072, 1085, 1072] else render_location n)) new
          else if ch_kind c = Cancelled then Some ([1054, 1090, 1084, 1077, 1085, 1072, 32, 183, 32] @ label lesson)
          else (case (old, new) of
            (Some o', Some n) \<Rightarrow>
              Some (case ch_kind c of
                Time \<Rightarrow> html_escape (l_subject n) @ [10] @ arrow (time_range o') (time_range n)
              | Room \<Rightarrow> label lesson @ [10] @ arrow (safe_value (l_room o')) (safe_value (l_room n))
              | Building \<Rightarrow> label lesson @ [10] @ [1050, 1086, 1088, 1087, 1091, 1089, 58, 32]
                  @ arrow (safe_value (l_building o')) (safe_value (l_building n))
              | Teacher \<Rightarrow> label lesson @ [10] @ arrow (safe_value (l_teacher o')) (safe_value (l_teacher n))
              | Lesson_type \<Rightarrow> label lesson @ [10] @ arrow (safe_value (l_type o')) (safe_value (l_type n))
              | _ \<Rightarrow> label lesson @ [10] @ arrow (html_escape (l_subject o')) (html_escape (l_subject n)))
          | _ \<Rightarrow> None))"

definition render_schedule_changes :: "change list \<Rightarrow> pystr \<Rightarrow> pystr option" where
  "render_schedule_changes cs relative_label =
     (if cs = [] then Some []
      else if list_all (\<lambda>c. render_change c \<noteq> None) cs
      then Some (join [10, 10] (([9888, 65039, 32, 60, 98, 62, 1048, 1079, 1084, 1077, 1085, 1077, 1085, 1080, 1077, 32] @ html_escape (casefold relative_label) @ [60, 47, 98, 62])
             # List.map_filter render_change cs))
      else None)"

section \<open>The week card\<close>

datatype schedule_view = Today_view | Tomorrow_view | Week_view

definition view_value :: "schedule_view \<Rightarrow> pystr" where
  "view_value v = (case v of Today_view \<Rightarrow> u ''today'' | Tomorrow_view \<Rightarrow> u ''tomorrow'' | Week_view \<Rightarrow> u ''week'')"

definition callback_prefix :: pystr where
  "callback_prefix = u ''schedule:v1:''"

definition parse_schedule_callback :: "pystr option \<Rightarrow> schedule_view option" where
  "parse_schedule_callback value =
     (case value of
        None \<Rightarrow> None
      | Some v \<Rightarrow>
          if \<not> starts_with callback_prefix v then None
          else List.find (\<lambda>view. view_value view = drop (length callback_prefix) v)
                 [Today_view, Tomorrow_view, Week_view])"

text \<open>The keyboard as its buttons: text and callback data.\<close>

definition schedule_keyboard :: "schedule_view \<Rightarrow> (pystr \<times> pystr) list" where
  "schedule_keyboard active =
     map (\<lambda>(view, label). (if view = active then [8226, 32] @ label else label, callback_prefix @ view_value view))
       [(Today_view, [1057, 1077, 1075, 1086, 1076, 1085, 1103]), (Tomorrow_view, [1047, 1072, 1074, 1090, 1088, 1072]), (Week_view, [1053, 1077, 1076, 1077, 1083, 1103])]"

definition week_card_row :: "lesson \<Rightarrow> pystr" where
  "week_card_row l =
     hour_minute (l_starts_at l) @ [32, 32] @ html_escape (l_subject l)
     @ (case l_room l of None \<Rightarrow> [] | Some r \<Rightarrow> if r = [] then [] else [32, 183, 32] @ html_escape r)"

definition render_week_card :: "date \<Rightarrow> lesson list \<Rightarrow> pystr" where
  "render_week_card monday lessons =
     (let shown = filter (\<lambda>l. monday \<le> l_day l \<and> l_day l \<le> monday + 6) lessons;
          heading = [128467, 32, 60, 98, 62, 1053, 1077, 1076, 1077, 1083, 1103, 32, 183, 32] @ day_month monday @ [32, 8212, 32] @ day_month (monday + 6) @ [60, 47, 98, 62]
      in if shown = [] then heading @ [10, 10] @ [1055, 1072, 1088, 32, 1085, 1077, 1090, 46]
         else join [10, 10] (heading # map (\<lambda>d.
           join [10] (([60, 98, 62] @ short_weekdays ! nat (weekday d) @ [44, 32] @ day_month d @ [60, 47, 98, 62])
             # map week_card_row (sort_key (\<lambda>l. (l_starts_at l, l_subject l)) (filter (\<lambda>l. l_day l = d) shown))))
           (sort (remdups (map l_day shown)))))"

definition render_attendance_card :: "lesson \<Rightarrow> pydt \<Rightarrow> pystr \<Rightarrow> pystr" where
  "render_attendance_card l starts_at reaction =
     (let details = List.map_filter (\<lambda>v. case v of None \<Rightarrow> None | Some s \<Rightarrow> if s = [] then None else Some (strip s))
            [l_type l, l_teacher l];
          location = (case l_room l of
              Some r \<Rightarrow> if r = [] then [1072, 1091, 1076, 1080, 1090, 1086, 1088, 1080, 1103, 32, 1085, 1077, 32, 1091, 1082,
      1072, 1079, 1072, 1085, 1072] else [1072, 1091, 1076, 46, 32] @ html_escape (strip r)
            | None \<Rightarrow> [1072, 1091, 1076, 1080, 1090, 1086, 1088, 1080, 1103, 32, 1085, 1077, 32, 1091, 1082,
      1072, 1079, 1072, 1085, 1072])
      in join [10, 10] (filter (\<lambda>line. line \<noteq> [])
           [[60, 98, 62] @ hour_minute (dt_time starts_at) @ [32, 183, 32] @ html_escape (strip (l_subject l)) @ [60, 47, 98, 62],
            join [32, 183, 32] (map html_escape (details @ [location])),
            html_escape reaction @ [32, 8212, 32, 1103, 32, 1085, 1072, 32, 1087, 1072, 1088, 1077]]))"

end
