(* ===== verification/Calendar.thy ===== *)
theory Calendar
  imports DomainSchedule Json
begin

text \<open>
  Dates and datetimes as text and back: the ordinals of \<open>date\<close> and their calendar form are
  inverse to each other, \<open>strptime\<close> reads what \<open>isoformat\<close> writes, and so does
  \<open>datetime.fromisoformat\<close>. Of the texts \<open>fromisoformat\<close> accepts, the extended form with
  dashes and colons is modelled, the only one \<open>isoformat\<close> writes.
\<close>

section \<open>Calendar dates\<close>

lemma div_mod_unique:
  fixes x k q r :: int
  assumes "x = k * q + r" and "0 \<le> r" and "r < k"
  shows "x div k = q" and "x mod k = r"
  using assms by simp_all

text \<open>\<open>date.max\<close> is 9999-12-31.\<close>

definition max_date :: date where
  "max_date = 3652059"

definition is_date :: "date \<Rightarrow> bool" where
  "is_date d \<longleftrightarrow> 1 \<le> d \<and> d \<le> max_date"

lemma year_of_range:
  assumes "year_of d = (y, r)" and "is_date d"
  shows "days_before_year y + r + 1 = d \<and> 0 \<le> r \<and> r < (if is_leap y then 366 else 365) \<and> 1 \<le> y \<and> y \<le> 9999"
proof -
  define n where "n = d - 1"
  define n400 where "n400 = n div 146097" define r400 where "r400 = n mod 146097"
  define n100 where "n100 = r400 div 36524" define r100 where "r100 = r400 mod 36524"
  define n4 where "n4 = r100 div 1461" define r4 where "r4 = r100 mod 1461"
  define n1 where "n1 = r4 div 365" define r1 where "r1 = r4 mod 365"
  define z where "z = n400 * 400 + n100 * 100 + n4 * 4 + n1"
  have y: "(y, r) = (if n1 = 4 \<or> n100 = 4 then (z, 365) else (z + 1, r1))"
    using assms(1)
    by (simp add: year_of_def Let_def n_def n400_def r400_def n100_def r100_def n4_def r4_def n1_def r1_def z_def
        split: if_splits)
  have n: "n = n400 * 146097 + r400" "0 \<le> r400" "r400 < 146097" "0 \<le> n400"
    using assms(2) by (simp_all add: n_def n400_def r400_def is_date_def pos_imp_zdiv_nonneg_iff)
  have limit: "n \<le> 3652058" using assms(2) by (simp add: n_def is_date_def max_date_def)
  then have n400: "n400 \<le> 24" using n by linarith
  have h: "r400 = n100 * 36524 + r100" "0 \<le> r100" "r100 < 36524" "0 \<le> n100" "n100 \<le> 4"
    using n by (simp_all add: n100_def r100_def)
  have q: "r100 = n4 * 1461 + r4" "0 \<le> r4" "r4 < 1461" "0 \<le> n4" "n4 \<le> 24"
    using h by (simp_all add: n4_def r4_def)
  have o: "r4 = n1 * 365 + r1" "0 \<le> r1" "r1 < 365" "0 \<le> n1" "n1 \<le> 4"
    using q by (simp_all add: n1_def r1_def)
  show ?thesis
  proof (cases "n1 = 4 \<or> n100 = 4")
    case True
    then have yr: "y = z" "r = 365" using y by auto
    show ?thesis
    proof (cases "n100 = 4")
      case True
      then have rest: "r100 = 0" using n h by linarith
      then have zeros: "n4 = 0" "r4 = 0" using q by linarith+
      then have "n1 = 0" using o by linarith
      then have z: "z = 400 * (n400 + 1)" using True zeros by (simp add: z_def)
      have "(z - 1) div 4 = n400 * 100 + 99" "(z - 1) div 100 = n400 * 4 + 3" "(z - 1) div 400 = n400"
        using z by (auto intro!: div_mod_unique(1) [where r = 3] div_mod_unique(1) [where r = 99]
            div_mod_unique(1) [where r = 399])
      then have "days_before_year y + r + 1 = d"
        using z n h True rest yr n_def by (simp add: days_before_year_def Let_def)
      moreover have "is_leap y" using yr z by (simp add: is_leap_def)
      moreover have "n400 < 24" using n limit h True by linarith
      then have "y \<le> 9999" using z yr by simp
      ultimately show ?thesis using yr z n by simp
    next
      case False
      then have n1: "n1 = 4" "n100 \<le> 3" using \<open>n1 = 4 \<or> n100 = 4\<close> h by auto
      then have r1: "r1 = 0" and n4: "n4 \<le> 23" using h q o by linarith+
      have z: "z = 400 * n400 + 100 * n100 + 4 * (n4 + 1)" using n1 by (simp add: z_def)
      have "(z - 1) div 4 = n400 * 100 + n100 * 25 + n4"
        using z by (intro div_mod_unique(1) [where r = 3]) simp_all
      moreover have "(z - 1) div 100 = n400 * 4 + n100"
        using z q n4 by (intro div_mod_unique(1) [where r = "4 * n4 + 3"]) simp_all
      moreover have "(z - 1) div 400 = n400"
        using z q n4 h n1 by (intro div_mod_unique(1) [where r = "100 * n100 + 4 * n4 + 3"]) simp_all
      ultimately have "days_before_year y + r + 1 = d"
        using z n h q o n1 r1 yr n_def by (simp add: days_before_year_def Let_def)
      moreover have "z mod 4 = 0"
        using z by (intro div_mod_unique(2) [where q = "100 * n400 + 25 * n100 + n4 + 1"]) simp_all
      moreover have "z mod 100 = 4 * (n4 + 1)"
        using z q n4 by (intro div_mod_unique(2) [where q = "4 * n400 + n100"]) simp_all
      moreover have "y \<le> 9999" using z yr n400 n1 n4 by simp
      ultimately show ?thesis using yr z n h q by (simp add: is_leap_def)
    qed
  next
    case False
    then have yr: "y = z + 1" "r = r1" using y by auto
    have small: "n1 \<le> 3" "n100 \<le> 3" using False o h by auto
    have "z div 4 = n400 * 100 + n100 * 25 + n4"
      using o small by (intro div_mod_unique(1) [where r = n1]) (simp_all add: z_def)
    moreover have "z div 100 = n400 * 4 + n100"
      using q o small by (intro div_mod_unique(1) [where r = "4 * n4 + n1"]) (simp_all add: z_def)
    moreover have "z div 400 = n400"
      using h q o small by (intro div_mod_unique(1) [where r = "100 * n100 + 4 * n4 + n1"]) (simp_all add: z_def)
    ultimately have "days_before_year y + r + 1 = d"
      using n h q o yr n_def by (simp add: days_before_year_def Let_def z_def)
    moreover have "y \<le> 9999" using z_def yr n400 small q n h o limit by linarith
    ultimately show ?thesis using yr o n h q by (simp add: z_def)
  qed
qed

lemma month_of_split:
  assumes "month_of y ms r = (m, k)" and "0 \<le> r" and "r < sum_list (map (days_in_month y) ms)"
  shows "\<exists>before after. ms = before @ m # after \<and> 1 \<le> k \<and> k \<le> days_in_month y m
     \<and> sum_list (map (days_in_month y) before) + k = r + 1"
  using assms
proof (induction ms arbitrary: r)
  case (Cons x ms)
  show ?case
  proof (cases "r < days_in_month y x")
    case True
    then show ?thesis using Cons.prems by (intro exI [of _ "[]"] exI [of _ ms]) auto
  next
    case False
    then obtain before after where "ms = before @ m # after" "1 \<le> k" "k \<le> days_in_month y m"
      "sum_list (map (days_in_month y) before) + k = r - days_in_month y x + 1"
      using Cons.IH [of "r - days_in_month y x"] Cons.prems by auto
    then show ?thesis by (intro exI [of _ "x # before"] exI [of _ after]) auto
  qed
qed simp

lemma months_before:
  assumes "before @ m # after = [1, 2, 3, 4, 5, 6, 7, 8, 9, 10, 11, 12]"
  shows "1 \<le> m \<and> m \<le> 12 \<and> days_before_month y m = sum_list (map (days_in_month y) before)"
proof -
  define i where "i = length before"
  have i: "i < 12" using arg_cong [OF assms, of length] by (simp add: i_def)
  have all: "[1, 2, 3, 4, 5, 6, 7, 8, 9, 10, 11, 12] = map (\<lambda>j. int j + 1) [0..<12]"
    by (simp add: upt_rec)
  have m: "m = int i + 1"
    using arg_cong [OF assms, of "\<lambda>xs. xs ! i"] i unfolding all by (simp add: i_def)
  have "before = take i [1, 2, 3, 4, 5, 6, 7, 8, 9, 10, 11, 12]"
    using arg_cong [OF assms, of "take i"] by (simp add: i_def)
  then have "before = map (\<lambda>j. int j + 1) [0..<i]" using i unfolding all by (simp add: take_map)
  also have "\<dots> = map int [1..<Suc i]" by (simp add: map_Suc_upt [symmetric] o_def del: upt_Suc)
  finally show ?thesis using m i by (simp add: days_before_month_def o_def nat_add_distrib del: upt_Suc)
qed

lemma month_of_range:
  assumes "month_of y [1, 2, 3, 4, 5, 6, 7, 8, 9, 10, 11, 12] r = (m, k)"
    and "0 \<le> r" and "r < (if is_leap y then 366 else 365)"
  shows "1 \<le> m \<and> m \<le> 12 \<and> 1 \<le> k \<and> k \<le> days_in_month y m \<and> days_before_month y m + k = r + 1"
proof -
  have "r < sum_list (map (days_in_month y) [1, 2, 3, 4, 5, 6, 7, 8, 9, 10, 11, 12])"
    using assms(3) by (auto simp: days_in_month_def split: if_splits)
  from month_of_split [OF assms(1,2) this] months_before show ?thesis by metis
qed

text \<open>\<open>ymd\<close> is the calendar form of an ordinal.\<close>

lemma ymd_range:
  assumes "ymd d = (y, m, k)" and "is_date d"
  shows "ordinal y m k = d \<and> 1 \<le> y \<and> y \<le> 9999 \<and> 1 \<le> m \<and> m \<le> 12 \<and> 1 \<le> k \<and> k \<le> days_in_month y m"
proof -
  obtain y' r where yr: "year_of d = (y', r)" by (cases "year_of d")
  then have split: "y' = y" "month_of y [1, 2, 3, 4, 5, 6, 7, 8, 9, 10, 11, 12] r = (m, k)"
    using assms(1) unfolding ymd_def yr Let_def prod.case by (auto simp only: prod.inject)
  show ?thesis
    using year_of_range [OF yr assms(2)] month_of_range [OF split(2)] split(1) by (simp add: ordinal_def)
qed

lemma valid_date_ymd: "ymd d = (y, m, k) \<Longrightarrow> is_date d \<Longrightarrow> valid_date y m k = Some d"
  using ymd_range [of d y m k] by (simp add: valid_date_def)

section \<open>Digits\<close>

lemma digit_value_ascii [simp]: "n < 10 \<Longrightarrow> digit_value (48 + n) = Some n"
  by (simp add: digit_value_def digit_zeros_def)

lemma show_nat_small: "n < 10 \<Longrightarrow> show_nat n = [48 + n]"
  by (simp add: show_nat.simps)

lemma show_nat_step: "10 \<le> n \<Longrightarrow> show_nat n = show_nat (n div 10) @ [48 + n mod 10]"
  by (simp add: show_nat.simps)

text \<open>\<open>n\<close> in \<open>w\<close> decimal digits.\<close>

fun digits_of :: "nat \<Rightarrow> nat \<Rightarrow> pystr" where
  "digits_of 0 n = []"
| "digits_of (Suc w) n = digits_of w (n div 10) @ [48 + n mod 10]"

lemma digits_of_0: "digits_of w 0 = replicate w 48"
  by (induction w) (simp_all add: replicate_append_same)

lemma length_show_nat: "n < 10 ^ w \<Longrightarrow> 0 < w \<Longrightarrow> length (show_nat n) \<le> w"
proof (induction w arbitrary: n)
  case (Suc w)
  show ?case
  proof (cases "n < 10")
    case False
    then have "0 < w" using Suc.prems by (cases w) auto
    then have "length (show_nat (n div 10)) \<le> w" using Suc by (intro Suc.IH) auto
    then show ?thesis using False by (simp add: show_nat_step)
  qed (simp add: show_nat_small)
qed simp

lemma pad_digits: "n < 10 ^ w \<Longrightarrow> 0 < w \<Longrightarrow> replicate (w - length (show_nat n)) 48 @ show_nat n = digits_of w n"
proof (induction w arbitrary: n)
  case (Suc w)
  show ?case
  proof (cases "n < 10")
    case True
    then show ?thesis by (simp add: show_nat_small digits_of_0)
  next
    case False
    then have w: "0 < w" "n div 10 < 10 ^ w" using Suc.prems by (cases w; auto)+
    then show ?thesis using Suc.IH [OF w(2,1)] False by (simp add: show_nat_step)
  qed
qed simp

lemma pad0_digits: "0 \<le> n \<Longrightarrow> n < 10 ^ w \<Longrightarrow> 0 < w \<Longrightarrow> pad0 w n = digits_of w (nat n)"
  using pad_digits [of "nat n" w] by (simp add: pad0_def show_int_def Let_def nat_less_iff)

lemma length_digits_of [simp]: "length (digits_of w n) = w"
  by (induction w arbitrary: n) simp_all

lemma digits_of_ascii: "c \<in> set (digits_of w n) \<Longrightarrow> 48 \<le> c \<and> c \<le> 57"
  by (induction w arbitrary: n) auto

lemma digits_value_append: "digits_value acc (xs @ ys) = digits_value (digits_value acc xs) ys"
  by (induction xs arbitrary: acc) simp_all

lemma digits_value_of: "digits_value 0 (digits_of w n) = n mod 10 ^ w"
proof (induction w arbitrary: n)
  case (Suc w)
  have "digits_value 0 (digits_of (Suc w) n) = n div 10 mod 10 ^ w * 10 + n mod 10"
    by (simp add: digits_value_append Suc)
  also have "\<dots> = n mod (10 * 10 ^ w)" by (simp add: mod_mult2_eq)
  finally show ?case by simp
qed simp

section \<open>Datetimes\<close>

text \<open>\<open>datetime.isoformat()\<close>\<close>

definition iso_offset :: "int \<Rightarrow> pystr" where
  "iso_offset z =
     (let a = \<bar>z\<bar> in (if z < 0 then 45 else 43) #
        (if a mod minute = 0 then hour_minute a else iso_time a))"

definition iso_datetime :: "pydt \<Rightarrow> pystr" where
  "iso_datetime d = iso_date (dt_date d) @ [84] @ iso_time (dt_time d)
     @ (case utcoff d of None \<Rightarrow> [] | Some z \<Rightarrow> iso_offset z)"

text \<open>A number of exactly \<open>w\<close> ASCII digits, and a literal character.\<close>

definition fixed :: "nat \<Rightarrow> pystr \<Rightarrow> (int \<times> pystr) option" where
  "fixed w s =
     (if w \<le> length s \<and> list_all (\<lambda>c. 48 \<le> c \<and> c \<le> 57) (take w s)
      then Some (int (digits_value 0 (take w s)), drop w s) else None)"

definition literal :: "nat \<Rightarrow> pystr \<Rightarrow> pystr option" where
  "literal c s = (case s of [] \<Rightarrow> None | x # rest \<Rightarrow> if x = c then Some rest else None)"

definition begins :: "nat \<Rightarrow> pystr \<Rightarrow> bool" where
  "begins c s \<longleftrightarrow> literal c s \<noteq> None"

definition read_fraction :: "pystr \<Rightarrow> (int \<times> pystr) option" where
  "read_fraction s =
     (let ds = takeWhile (\<lambda>c. 48 \<le> c \<and> c \<le> 57) s; used = take 6 ds
      in if ds = [] then None
         else Some (int (digits_value 0 used) * 10 ^ (6 - length used), drop (length ds) s))"

text \<open>\<open>HH[:MM[:SS[.ffffff]]]\<close> in microseconds, with the text that follows.\<close>

definition read_clock :: "pystr \<Rightarrow> (int \<times> pystr) option" where
  "read_clock s =
     Option.bind (fixed 2 s) (\<lambda>(h, s1).
     if h \<ge> 24 then None
     else if \<not> begins 58 s1 then Some (h * hour, s1)
     else Option.bind (fixed 2 (tl s1)) (\<lambda>(m, s2).
     if m \<ge> 60 then None
     else if \<not> begins 58 s2 then Some (h * hour + m * minute, s2)
     else Option.bind (fixed 2 (tl s2)) (\<lambda>(sec, s3).
     if sec \<ge> 60 then None
     else if \<not> begins 46 s3 \<and> \<not> begins 44 s3
       then Some (h * hour + m * minute + sec * second, s3)
     else Option.bind (read_fraction (tl s3)) (\<lambda>(f, s4).
     Some (h * hour + m * minute + sec * second + f, s4)))))"

definition read_offset :: "pystr \<Rightarrow> int option option" where
  "read_offset s =
     (case s of
        [] \<Rightarrow> Some None
      | c # rest \<Rightarrow>
          if c = 90 \<and> rest = [] then Some (Some 0)
          else if c = 43 \<or> c = 45 then
            Option.bind (read_clock rest) (\<lambda>(z, rest').
            if rest' \<noteq> [] then None else Some (Some (if c = 45 then - z else z)))
          else None)"

definition read_date :: "pystr \<Rightarrow> (date \<times> pystr) option" where
  "read_date s =
     Option.bind (fixed 4 s) (\<lambda>(y, s1). Option.bind (literal 45 s1) (\<lambda>s2.
     Option.bind (fixed 2 s2) (\<lambda>(m, s3). Option.bind (literal 45 s3) (\<lambda>s4.
     Option.bind (fixed 2 s4) (\<lambda>(k, s5). Option.bind (valid_date y m k) (\<lambda>d.
     Some (d, s5)))))))"

definition datetime_of :: "date \<Rightarrow> int \<Rightarrow> int option \<Rightarrow> pydt" where
  "datetime_of d t z = \<lparr>wall = (d - epoch_ordinal) * day_us + t, utcoff = z\<rparr>"

definition from_iso :: "pystr \<Rightarrow> pydt option" where
  "from_iso s =
     Option.bind (read_date s) (\<lambda>(d, s1).
     case s1 of
       [] \<Rightarrow> Some (datetime_of d 0 None)
     | sep # s2 \<Rightarrow>
         Option.bind (read_clock s2) (\<lambda>(t, s3).
         Option.bind (read_offset s3) (\<lambda>z. Some (datetime_of d t z))))"

lemma fixed_digits: "n < 10 ^ w \<Longrightarrow> fixed w (digits_of w n @ rest) = Some (int n, rest)"
  using digits_of_ascii by (force simp: fixed_def list_all_iff digits_value_of)

lemma fixed_pad0:
  assumes "0 \<le> n" and "n < 10 ^ w" and "0 < w"
  shows "fixed w (pad0 w n @ rest) = Some (n, rest)"
  using assms fixed_digits [of "nat n" w rest] by (simp add: pad0_digits nat_less_iff)

lemma literal_Cons [simp]: "literal c (x # rest) = (if x = c then Some rest else None)"
  by (simp add: literal_def)

lemma literal_Nil [simp]: "literal c [] = None"
  by (simp add: literal_def)

lemma read_date_iso:
  assumes "is_date d"
  shows "read_date (iso_date d @ rest) = Some (d, rest)"
proof -
  obtain y m k where ymd: "ymd d = (y, m, k)" by (cases "ymd d")
  have small: "days_in_month y m \<le> 31" by (simp add: days_in_month_def)
  show ?thesis
    using ymd_range [OF ymd assms] valid_date_ymd [OF ymd assms] small
    by (simp add: read_date_def iso_date_def ymd fixed_pad0)
qed

text \<open>What may follow a clock reading: nothing, or the sign of an offset.\<close>

definition clock_ends :: "pystr \<Rightarrow> bool" where
  "clock_ends rest \<longleftrightarrow> rest = [] \<or> hd rest = 43 \<or> hd rest = 45"

lemma clock_ends_starts [simp]: "clock_ends rest \<Longrightarrow> c \<noteq> 43 \<Longrightarrow> c \<noteq> 45 \<Longrightarrow> \<not> begins c rest"
  by (cases rest) (auto simp: clock_ends_def begins_def)

lemma begins_Cons [simp]: "begins c (x # rest) \<longleftrightarrow> x = c"
  by (simp add: begins_def)

lemma read_fraction_pad0:
  assumes "0 \<le> f" and "f < second" and "clock_ends rest"
  shows "read_fraction (pad0 6 f @ rest) = Some (f, rest)"
proof -
  have f: "pad0 6 f = digits_of 6 (nat f)" "nat f < 10 ^ 6"
    using assms by (simp_all add: pad0_digits second_def nat_less_iff)
  have stop: "takeWhile (\<lambda>c. 48 \<le> c \<and> c \<le> 57) rest = []"
    using assms(3) by (cases rest) (auto simp: clock_ends_def)
  have "takeWhile (\<lambda>c. 48 \<le> c \<and> c \<le> 57) (digits_of 6 (nat f) @ rest) = digits_of 6 (nat f)"
    using digits_of_ascii [of _ 6 "nat f"] stop by (subst takeWhile_append2) auto
  moreover have "digits_of 6 (nat f) \<noteq> []" using length_digits_of [of 6 "nat f"] by fastforce
  ultimately show ?thesis
    using f(2) assms(1) by (simp add: read_fraction_def f(1) digits_value_of Let_def)
qed

lemma div_below:
  fixes a b k :: int
  assumes "0 \<le> a" and "a < k * b" and "0 < b"
  shows "0 \<le> a div b \<and> a div b < k"
proof -
  have "a div b * b \<le> a" using assms(3) by (metis div_mult_mod_eq le_add_same_cancel1 pos_mod_sign)
  then have "a div b * b < k * b" using assms(2) by simp
  then show ?thesis using assms by (simp add: pos_imp_zdiv_nonneg_iff)
qed

lemma clock_parts:
  assumes "0 \<le> t" and "t < day_us"
  shows "0 \<le> t div hour \<and> t div hour < 24" "0 \<le> t mod hour div minute \<and> t mod hour div minute < 60"
    "0 \<le> t mod minute div second \<and> t mod minute div second < 60"
    "0 \<le> t mod second \<and> t mod second < second"
    "t div hour * hour + t mod hour div minute * minute + t mod minute div second * second + t mod second = t"
proof -
  have "t mod hour mod minute = t mod minute" "t mod minute mod second = t mod second"
    by (simp_all add: durations mod_mod_cancel)
  then have "t mod hour div minute * minute + t mod minute = t mod hour"
    "t mod minute div second * second + t mod second = t mod minute"
    by (metis div_mult_mod_eq)+
  then show "t div hour * hour + t mod hour div minute * minute + t mod minute div second * second + t mod second = t"
    using div_mult_mod_eq [of t hour] by linarith
  show "0 \<le> t div hour \<and> t div hour < 24"
    using assms by (intro div_below) (simp_all add: durations)
  show "0 \<le> t mod hour div minute \<and> t mod hour div minute < 60"
    by (intro div_below) (simp_all add: durations)
  show "0 \<le> t mod minute div second \<and> t mod minute div second < 60"
    by (intro div_below) (simp_all add: durations)
  show "0 \<le> t mod second \<and> t mod second < second" by (simp add: durations)
qed

lemma read_clock_iso_time:
  assumes "0 \<le> t" and "t < day_us" and "clock_ends rest"
  shows "read_clock (iso_time t @ rest) = Some (t, rest)"
proof -
  note parts = clock_parts [OF assms(1,2)]
  then have whole: "t div hour * hour + t mod hour div minute * minute + t mod minute div second * second = t"
    if "t mod second = 0" using that by simp
  show ?thesis
    using parts(1-4) assms(3)
    by (simp add: iso_time_def hour_minute_def read_clock_def fixed_pad0 read_fraction_pad0 parts(5) whole)
qed

lemma read_clock_hour_minute:
  assumes "0 \<le> t" and "t < day_us" and "t mod minute = 0" and "clock_ends rest"
  shows "read_clock (hour_minute t @ rest) = Some (t, rest)"
proof -
  note parts = clock_parts [OF assms(1,2)]
  have "t mod second = t mod minute mod second" by (simp add: durations mod_mod_cancel)
  then have "t div hour * hour + t mod hour div minute * minute = t"
    using parts(5) assms(3) by simp
  then show ?thesis
    using parts assms(4) by (simp add: hour_minute_def read_clock_def fixed_pad0)
qed

lemma read_offset_iso:
  assumes "- day_us < z" and "z < day_us"
  shows "read_offset (iso_offset z) = Some (Some z)"
proof -
  have "read_clock (if \<bar>z\<bar> mod minute = 0 then hour_minute \<bar>z\<bar> else iso_time \<bar>z\<bar>) = Some (\<bar>z\<bar>, [])"
    using assms read_clock_iso_time [of "\<bar>z\<bar>" "[]"] read_clock_hour_minute [of "\<bar>z\<bar>" "[]"]
    by (simp add: clock_ends_def)
  then show ?thesis by (simp add: read_offset_def iso_offset_def Let_def)
qed

lemma datetime_of_parts: "datetime_of (dt_date d) (dt_time d) (utcoff d) = d"
  by (simp add: datetime_of_def dt_date_def dt_time_def)

text \<open>\<open>datetime.fromisoformat(d.isoformat()) == d\<close>\<close>

lemma from_iso_datetime:
  assumes "is_date (dt_date d)" and "case utcoff d of None \<Rightarrow> True | Some z \<Rightarrow> - day_us < z \<and> z < day_us"
  shows "from_iso (iso_datetime d) = Some d"
proof -
  have t: "0 \<le> dt_time d" "dt_time d < day_us" by (simp_all add: dt_time_def durations)
  define tail where "tail = (case utcoff d of None \<Rightarrow> [] | Some z \<Rightarrow> iso_offset z)"
  have "clock_ends tail"
    by (simp add: tail_def clock_ends_def iso_offset_def Let_def split: option.split)
  moreover have "read_offset tail = Some (utcoff d)"
    using assms(2) read_offset_iso by (cases "utcoff d") (simp_all add: tail_def, simp add: read_offset_def)
  ultimately show ?thesis
    by (simp add: iso_datetime_def tail_def [symmetric] from_iso_def read_date_iso [OF assms(1)]
        read_clock_iso_time [OF t] datetime_of_parts)
qed

section \<open>strptime reads isoformat\<close>

lemma digits_of_2: "digits_of 2 n = [48 + n div 10 mod 10, 48 + n mod 10]"
  by (simp add: numeral_2_eq_2)

lemma length_4: "length xs = 4 \<Longrightarrow> \<exists>a b c d. xs = [a, b, c, d]"
  by (auto simp: length_Suc_conv eval_nat_numeral)

lemma digits_of_4: "\<exists>a b c d. digits_of 4 n = [a, b, c, d]"
  by (intro length_4 length_digits_of)

lemma year_alts_pad0:
  assumes "0 \<le> y" and "y < 10000"
  shows "year_alts (pad0 4 y @ rest) = [(y, rest)]"
proof -
  obtain a b c d where ds: "digits_of 4 (nat y) = [a, b, c, d]" using digits_of_4 by blast
  have "is_digit x" if "x \<in> set (digits_of 4 (nat y))" for x
  proof -
    have "x = 48 + (x - 48)" "x - 48 < 10" using digits_of_ascii [OF that] by auto
    then show ?thesis using digit_value_ascii [of "x - 48"] by (simp add: is_digit_def)
  qed
  moreover have "digits_value 0 [a, b, c, d] = nat y"
    using digits_value_of [of 4 "nat y"] assms by (simp add: ds)
  ultimately show ?thesis
    using assms by (simp add: pad0_digits ds year_alts_def)
qed

lemma month_alts_pad0:
  assumes "1 \<le> m" and "m \<le> 12"
  shows "then_literal 45 (month_alts (pad0 2 m @ 45 # rest)) = [(m, rest)]"
proof -
  have "m \<in> {1, 2, 3, 4, 5, 6, 7, 8, 9, 10, 11, 12}"
    unfolding insert_iff empty_iff using assms by presburger
  then show ?thesis
    by (elim insertE emptyE)
      (simp_all add: pad0_def show_int_def show_nat_small show_nat_step month_alts_def two_def one_def digit_in_def
        then_literal_def digit_value_def digit_zeros_def)
qed

lemma day_alts_pad0:
  assumes "1 \<le> k" and "k \<le> 31"
  shows "\<exists>alts. day_alts (pad0 2 k) = (k, []) # alts"
proof -
  have "k \<in> {1, 2, 3, 4, 5, 6, 7, 8, 9, 10, 11, 12, 13, 14, 15, 16, 17, 18, 19, 20, 21, 22, 23, 24, 25,
      26, 27, 28, 29, 30, 31}"
    unfolding insert_iff empty_iff using assms by presburger
  then show ?thesis
    by (elim insertE emptyE)
      (simp_all add: pad0_def show_int_def show_nat_small show_nat_step day_alts_def two_def one_def digit_in_def
        is_digit_def digit_value_def digit_zeros_def)
qed

lemma strptime_iso_date:
  assumes "is_date d"
  shows "strptime_ymd (iso_date d) = Some d"
proof -
  obtain y m k where ymd: "ymd d = (y, m, k)" by (cases "ymd d")
  note range = ymd_range [OF ymd assms]
  have "k \<le> 31" using range by (simp add: days_in_month_def split: if_splits)
  then obtain alts where "day_alts (pad0 2 k) = (k, []) # alts" using day_alts_pad0 range by blast
  moreover have "then_literal 45 [(y, 45 # pad0 2 m @ 45 # pad0 2 k)] = [(y, pad0 2 m @ 45 # pad0 2 k)]"
    by (simp add: then_literal_def)
  ultimately show ?thesis
    using range by (simp add: strptime_ymd_def iso_date_def ymd year_alts_pad0 month_alts_pad0
        first_complete_def valid_date_ymd [OF ymd assms])
qed

end
