(* ===== verification/CiEnvelope.thy ===== *)
theory CiEnvelope
  imports Presentation Calendar
begin

text \<open>
  The two-week schedule that one CI job hands to the other and the delivery state kept between
  runs: the first part of \<open>schedule/ci.py\<close>. The text layer (\<open>json\<close>, UTF-8, base64, files) is a
  pair of parameters between JSON values and texts.
\<close>

datatype ci_error = Ci_value_error | Ci_lesson_error schedule_error

record envelope =
  ev_group_key :: pystr
  ev_fetched_at :: pydt
  ev_start :: date
  ev_end :: date
  ev_lessons :: "lesson list"
  ev_force_digest :: bool

definition max_lessons :: nat where
  "max_lessons = 200"

definition max_encoded :: nat where
  "max_encoded = 65000"

definition new_envelope :: "envelope \<Rightarrow> ci_error + envelope" where
  "new_envelope e =
     and_then (guard (strip (ev_group_key e) \<noteq> []) Ci_value_error) (\<lambda>_.
     and_then (guard (aware (ev_fetched_at e)) Ci_value_error) (\<lambda>_.
     and_then (guard (weekday (ev_start e) = 0) Ci_value_error) (\<lambda>_.
     and_then (guard (ev_end e = ev_start e + 13) Ci_value_error) (\<lambda>_.
     and_then (guard (\<not> max_lessons < length (ev_lessons e)) Ci_value_error) (\<lambda>_.
     and_then (guard (\<not> list_ex (\<lambda>l. l_day l < ev_start e \<or> ev_end e < l_day l) (ev_lessons e)) Ci_value_error)
       (\<lambda>_. Inr e))))))"

section \<open>JSON\<close>

text \<open>\<open>json.dumps(..., sort_keys=True)\<close> writes every object in the order of its keys.\<close>

primrec sort_keys :: "json \<Rightarrow> json" where
  "sort_keys JNull = JNull"
| "sort_keys (JBool b) = JBool b"
| "sort_keys (JInt n) = JInt n"
| "sort_keys (JFloat x) = JFloat x"
| "sort_keys (JStr s) = JStr s"
| "sort_keys (JArr js) = JArr (map sort_keys js)"
| "sort_keys (JObj kvs) = JObj (sort_key fst (map (map_prod id sort_keys) kvs))"

definition schema_version :: int where
  "schema_version = 3"

definition opt_json :: "pystr option \<Rightarrow> json" where
  "opt_json v = (case v of None \<Rightarrow> JNull | Some s \<Rightarrow> JStr s)"

definition lesson_dict :: "lesson \<Rightarrow> json" where
  "lesson_dict l = JObj
     [(u ''day'', JStr (iso_date (l_day l))), (u ''starts_at'', JStr (iso_time (l_starts_at l))),
      (u ''ends_at'', JStr (iso_time (l_ends_at l))), (u ''subject'', JStr (l_subject l)),
      (u ''lesson_type'', opt_json (l_type l)), (u ''teacher'', opt_json (l_teacher l)),
      (u ''room'', opt_json (l_room l)), (u ''building'', opt_json (l_building l)),
      (u ''subgroup'', opt_json (l_subgroup l)), (u ''source_id'', opt_json (l_source_id l))]"

definition envelope_dict :: "envelope \<Rightarrow> json" where
  "envelope_dict e = JObj
     [(u ''v'', JInt schema_version), (u ''group'', JStr (ev_group_key e)),
      (u ''fetched_at'', JStr (iso_datetime (ev_fetched_at e))),
      (u ''horizon_start'', JStr (iso_date (ev_start e))), (u ''horizon_end'', JStr (iso_date (ev_end e))),
      (u ''force_digest'', JBool (ev_force_digest e)), (u ''lessons'', JArr (map lesson_dict (ev_lessons e)))]"

definition required_string :: "(pystr \<times> json) list \<Rightarrow> pystr \<Rightarrow> nat \<Rightarrow> ci_error + pystr" where
  "required_string kvs key limit =
     (case jget kvs key of
        JStr s \<Rightarrow> if strip s = [] \<or> limit < length s then Inl Ci_value_error else Inr (strip s)
      | _ \<Rightarrow> Inl Ci_value_error)"

definition optional_string :: "(pystr \<times> json) list \<Rightarrow> pystr \<Rightarrow> nat \<Rightarrow> ci_error + pystr option" where
  "optional_string kvs key limit =
     (case jget kvs key of
        JNull \<Rightarrow> Inr None
      | JStr s \<Rightarrow>
          if limit < length s then Inl Ci_value_error else Inr (if strip s = [] then None else Some (strip s))
      | _ \<Rightarrow> Inl Ci_value_error)"

definition optional_positive_int :: "json \<Rightarrow> ci_error + int option" where
  "optional_positive_int value =
     (case value of
        JNull \<Rightarrow> Inr None
      | JInt n \<Rightarrow> if n \<le> 0 then Inl Ci_value_error else Inr (Some n)
      | _ \<Rightarrow> Inl Ci_value_error)"

text \<open>\<open>date.fromisoformat\<close>, \<open>time.fromisoformat\<close> and \<open>datetime.fromisoformat\<close>\<close>

definition date_from_iso :: "pystr \<Rightarrow> ci_error + date" where
  "date_from_iso s = (case read_date s of Some (d, []) \<Rightarrow> Inr d | _ \<Rightarrow> Inl Ci_value_error)"

definition time_from_iso :: "pystr \<Rightarrow> ci_error + int" where
  "time_from_iso s = (case read_clock s of Some (t, []) \<Rightarrow> Inr t | _ \<Rightarrow> Inl Ci_value_error)"

definition datetime_from_iso :: "pystr \<Rightarrow> ci_error + pydt" where
  "datetime_from_iso s = (case from_iso s of Some d \<Rightarrow> Inr d | None \<Rightarrow> Inl Ci_value_error)"

definition lesson_from_dict :: "json \<Rightarrow> ci_error + lesson" where
  "lesson_from_dict value =
     (case value of
        JObj kvs \<Rightarrow>
          and_then (and_then (required_string kvs (u ''day'') 10) date_from_iso) (\<lambda>d.
          and_then (and_then (required_string kvs (u ''starts_at'') 16) time_from_iso) (\<lambda>starts.
          and_then (and_then (required_string kvs (u ''ends_at'') 16) time_from_iso) (\<lambda>ends.
          and_then (required_string kvs (u ''subject'') 500) (\<lambda>subject.
          and_then (optional_string kvs (u ''lesson_type'') 100) (\<lambda>kind.
          and_then (optional_string kvs (u ''teacher'') 256) (\<lambda>teacher.
          and_then (optional_string kvs (u ''room'') 100) (\<lambda>room.
          and_then (optional_string kvs (u ''building'') 100) (\<lambda>building.
          and_then (optional_string kvs (u ''subgroup'') 100) (\<lambda>subgroup.
          and_then (optional_string kvs (u ''source_id'') 100) (\<lambda>source_id.
          case new_lesson \<lparr>l_day = d, l_starts_at = starts, l_ends_at = ends, l_subject = subject,
                 l_type = kind, l_teacher = teacher, l_room = room, l_building = building,
                 l_subgroup = subgroup, l_source_id = source_id\<rparr> of
            Inl e \<Rightarrow> Inl (Ci_lesson_error e) | Inr l \<Rightarrow> Inr l))))))))))
      | _ \<Rightarrow> Inl Ci_value_error)"

definition envelope_from_dict :: "json \<Rightarrow> ci_error + envelope" where
  "envelope_from_dict value =
     (case value of
        JObj kvs \<Rightarrow>
          and_then (guard (jget kvs (u ''v'') \<in> {JInt schema_version, JFloat (of_int schema_version)}) Ci_value_error) (\<lambda>_.
          case jget kvs (u ''lessons'') of
            JArr items \<Rightarrow>
              and_then (and_then (required_string kvs (u ''fetched_at'') 64) datetime_from_iso) (\<lambda>fetched_at.
              and_then (required_string kvs (u ''group'') 100) (\<lambda>group_key.
              and_then (and_then (required_string kvs (u ''horizon_start'') 10) date_from_iso) (\<lambda>start.
              and_then (and_then (required_string kvs (u ''horizon_end'') 10) date_from_iso) (\<lambda>end_day.
              and_then (collect (map lesson_from_dict items)) (\<lambda>lessons.
              new_envelope \<lparr>ev_group_key = group_key, ev_fetched_at = fetched_at, ev_start = start,
                ev_end = end_day, ev_lessons = lessons,
                ev_force_digest = (jget kvs (u ''force_digest'') = JBool True)\<rparr>)))))
          | _ \<Rightarrow> Inl Ci_value_error)
      | _ \<Rightarrow> Inl Ci_value_error)"

text \<open>
  \<open>pack\<close> is base64 of UTF-8 of the JSON text, \<open>unpack\<close> reads such a text back, with \<open>None\<close>
  for text that is not base64, UTF-8 or JSON; \<open>len\<close> is the length of a text.
\<close>

definition encode_schedule_envelope :: "(json \<Rightarrow> 't) \<Rightarrow> ('t \<Rightarrow> nat) \<Rightarrow> envelope \<Rightarrow> ci_error + 't" where
  "encode_schedule_envelope pack len e =
     (let encoded = pack (sort_keys (envelope_dict e)) in
      and_then (guard (\<not> max_encoded < len encoded) Ci_value_error) (\<lambda>_. Inr encoded))"

definition decode_schedule_envelope :: "('t \<Rightarrow> json option) \<Rightarrow> ('t \<Rightarrow> nat) \<Rightarrow> 't \<Rightarrow> ci_error + envelope" where
  "decode_schedule_envelope unpack len value =
     and_then (guard (len value \<noteq> 0 \<and> \<not> max_encoded < len value) Ci_value_error) (\<lambda>_.
     case unpack value of None \<Rightarrow> Inl Ci_value_error | Some payload \<Rightarrow> envelope_from_dict payload)"

section \<open>The delivery state\<close>

record delivery_state =
  ds_previous :: "envelope option"
  ds_last_digest :: "date option"
  ds_reminders :: "pystr list"
  ds_calendar_message :: "int option"
  ds_user_cards :: "(pystr \<times> int) list"

definition first_run :: delivery_state where
  "first_run = \<lparr>ds_previous = None, ds_last_digest = None, ds_reminders = [], ds_calendar_message = None,
     ds_user_cards = []\<rparr>"

text \<open>The last hundred items.\<close>

definition last_hundred :: "'a list \<Rightarrow> 'a list" where
  "last_hundred xs = drop (length xs - 100) xs"

text \<open>\<open>[1-9][0-9]*\<close> at the start, greedily, and the key of a personal card.\<close>

definition positive_digits :: "pystr \<Rightarrow> pystr option" where
  "positive_digits s =
     (case s of
        c # cs \<Rightarrow> if 49 \<le> c \<and> c \<le> 57 then Some (dropWhile (\<lambda>d. 48 \<le> d \<and> d \<le> 57) cs) else None
      | [] \<Rightarrow> None)"

definition is_card_key :: "pystr \<Rightarrow> bool" where
  "is_card_key key \<longleftrightarrow>
     starts_with (u ''user:'') key \<and>
     (case positive_digits (drop 5 key) of
        Some (c1 # m1 # rest1) \<Rightarrow>
          c1 = 58 \<and> m1 = 45 \<and>
          (case positive_digits rest1 of
             Some (c2 # rest2) \<Rightarrow> c2 = 58 \<and> positive_digits rest2 = Some []
           | _ \<Rightarrow> False)
      | _ \<Rightarrow> False)"

definition read_reminders :: "(pystr \<times> json) list \<Rightarrow> pystr list" where
  "read_reminders kvs =
     (case jget kvs (u ''sent_reminders'') of
        JArr items \<Rightarrow> List.map_filter (\<lambda>j. case j of JStr s \<Rightarrow> if length s \<le> 100 then Some s else None | _ \<Rightarrow> None) items
      | _ \<Rightarrow> [])"

definition read_cards :: "(pystr \<times> json) list \<Rightarrow> (pystr \<times> int) list" where
  "read_cards kvs =
     (case jget kvs (u ''user_calendar_cards'') of
        JObj cards \<Rightarrow>
          sort_key id (List.map_filter (\<lambda>(k, v). case v of
            JInt n \<Rightarrow> if is_card_key k \<and> 0 < n then Some (k, n) else None | _ \<Rightarrow> None) cards)
      | _ \<Rightarrow> [])"

definition state_from_dict :: "json \<Rightarrow> ci_error + delivery_state" where
  "state_from_dict payload =
     (case payload of
        JObj kvs \<Rightarrow>
          and_then (if jget kvs (u ''previous'') = JNull then Inr None
                    else and_then (envelope_from_dict (jget kvs (u ''previous''))) (\<lambda>e. Inr (Some e))) (\<lambda>previous.
          and_then (case jget kvs (u ''last_digest_date'') of
                      JStr s \<Rightarrow> and_then (date_from_iso s) (\<lambda>d. Inr (Some d)) | _ \<Rightarrow> Inr None) (\<lambda>digest_day.
          and_then (optional_positive_int (jget kvs (u ''calendar_message_id''))) (\<lambda>message.
          Inr \<lparr>ds_previous = previous, ds_last_digest = digest_day, ds_reminders = last_hundred (read_reminders kvs),
               ds_calendar_message = message, ds_user_cards = read_cards kvs\<rparr>)))
      | _ \<Rightarrow> Inl Ci_value_error)"

text \<open>\<open>file\<close> is the file's JSON, \<open>None\<close> when it cannot be read or is not JSON.\<close>

definition load_delivery_state :: "json option \<Rightarrow> delivery_state" where
  "load_delivery_state file =
     (case file of
        None \<Rightarrow> first_run
      | Some payload \<Rightarrow> (case state_from_dict payload of Inl e \<Rightarrow> first_run | Inr s \<Rightarrow> s))"

text \<open>\<open>dict(pairs)\<close>: the last value of a key, at the place of its first.\<close>

definition dict_of :: "('k \<times> 'v) list \<Rightarrow> ('k \<times> 'v) list" where
  "dict_of pairs = map (\<lambda>k. (k, the (map_of (rev pairs) k))) (rev (remdups (rev (map fst pairs))))"

definition save_delivery_state :: "delivery_state \<Rightarrow> json" where
  "save_delivery_state s = sort_keys (JObj
     [(u ''schema'', JInt 4),
      (u ''last_digest_date'', case ds_last_digest s of None \<Rightarrow> JNull | Some d \<Rightarrow> JStr (iso_date d)),
      (u ''sent_reminders'', JArr (map JStr (last_hundred (ds_reminders s)))),
      (u ''calendar_message_id'', case ds_calendar_message s of None \<Rightarrow> JNull | Some n \<Rightarrow> JInt n),
      (u ''user_calendar_cards'', JObj (map (\<lambda>(k, v). (k, JInt v)) (dict_of (ds_user_cards s)))),
      (u ''previous'', case ds_previous s of None \<Rightarrow> JNull | Some e \<Rightarrow> envelope_dict e)])"

end
