(* ===== verification/CiEnvelopeProperties.thy ===== *)
theory CiEnvelopeProperties
  imports CiEnvelope
begin

text \<open>
  The schedule that leaves one job is the schedule the next one reads, and the delivery state
  is read back as it was saved.
\<close>

section \<open>Texts without white space\<close>

definition solid :: "pystr \<Rightarrow> bool" where
  "solid s \<longleftrightarrow> list_all (\<lambda>c. \<not> is_space c) s"

lemma solid_append [simp]: "solid (s @ t) \<longleftrightarrow> solid s \<and> solid t"
  by (simp add: solid_def)

lemma solid_Cons [simp]: "solid (c # s) \<longleftrightarrow> \<not> is_space c \<and> solid s"
  by (simp add: solid_def)

lemma solid_Nil [simp]: "solid []"
  by (simp add: solid_def)

lemma strip_solid: "solid s \<Longrightarrow> strip s = s"
  by (rule strip_id) (auto simp: solid_def list_all_iff)

lemma digits_of_solid [simp]: "solid (digits_of w n)"
  using digits_of_ascii [of _ w n] by (fastforce simp: solid_def list_all_iff is_space_def)

lemma solid_pad0: "0 \<le> n \<Longrightarrow> n < 10 ^ w \<Longrightarrow> 0 < w \<Longrightarrow> solid (pad0 w n)"
  by (simp add: pad0_digits)

lemma length_pad0: "0 \<le> n \<Longrightarrow> n < 10 ^ w \<Longrightarrow> 0 < w \<Longrightarrow> length (pad0 w n) = w"
  by (simp add: pad0_digits)

lemma iso_date_text:
  assumes "is_date d"
  shows "solid (iso_date d)" "length (iso_date d) = 10"
proof -
  obtain y m k where ymd: "ymd d = (y, m, k)" by (cases "ymd d")
  note range = ymd_range [OF ymd assms]
  have "days_in_month y m \<le> 31" by (simp add: days_in_month_def)
  then show "solid (iso_date d)" "length (iso_date d) = 10"
    using range by (simp_all add: iso_date_def ymd solid_pad0 length_pad0 is_space_def)
qed

lemma hour_minute_text:
  assumes "0 \<le> t" and "t < day_us"
  shows "solid (hour_minute t)" "length (hour_minute t) = 5"
  using clock_parts(1,2) [OF assms] by (simp_all add: hour_minute_def solid_pad0 length_pad0 is_space_def)

lemma iso_time_text:
  assumes "0 \<le> t" and "t < day_us"
  shows "solid (iso_time t)" "length (iso_time t) \<le> 15"
  using clock_parts(3,4) [OF assms] hour_minute_text [OF assms]
  by (simp_all add: iso_time_def solid_pad0 length_pad0 is_space_def second_def)

lemma iso_datetime_text:
  assumes "is_date (dt_date d)" and "case utcoff d of None \<Rightarrow> True | Some z \<Rightarrow> - day_us < z \<and> z < day_us"
  shows "solid (iso_datetime d)" "length (iso_datetime d) \<le> 42"
proof -
  have t: "0 \<le> dt_time d" "dt_time d < day_us" by (simp_all add: dt_time_def durations)
  have zone: "solid (iso_offset z)" "length (iso_offset z) \<le> 16" if "utcoff d = Some z" for z
  proof -
    have "0 \<le> \<bar>z\<bar>" "\<bar>z\<bar> < day_us" using assms(2) that by auto
    note texts = iso_time_text [OF this] hour_minute_text [OF this]
    then show "solid (iso_offset z)" "length (iso_offset z) \<le> 16"
      by (auto simp: iso_offset_def Let_def is_space_def)
  qed
  show "solid (iso_datetime d)" "length (iso_datetime d) \<le> 42"
    using iso_date_text [OF assms(1)] iso_time_text [OF t] zone
    by (auto simp: iso_datetime_def is_space_def split: option.split)
qed

section \<open>Clean schedules\<close>

text \<open>A text as the source reader leaves it: stripped, not empty and within the field's limit.\<close>

definition clean :: "nat \<Rightarrow> pystr \<Rightarrow> bool" where
  "clean limit s \<longleftrightarrow> strip s = s \<and> s \<noteq> [] \<and> length s \<le> limit"

definition clean_option :: "nat \<Rightarrow> pystr option \<Rightarrow> bool" where
  "clean_option limit v \<longleftrightarrow> (case v of None \<Rightarrow> True | Some s \<Rightarrow> clean limit s)"

definition clean_lesson :: "lesson \<Rightarrow> bool" where
  "clean_lesson l \<longleftrightarrow>
     is_date (l_day l) \<and> 0 \<le> l_starts_at l \<and> l_starts_at l < l_ends_at l \<and> l_ends_at l < day_us
     \<and> clean 500 (l_subject l) \<and> clean_option 100 (l_type l) \<and> clean_option 256 (l_teacher l)
     \<and> clean_option 100 (l_room l) \<and> clean_option 100 (l_building l) \<and> clean_option 100 (l_subgroup l)
     \<and> clean_option 100 (l_source_id l)"

definition clean_envelope :: "envelope \<Rightarrow> bool" where
  "clean_envelope e \<longleftrightarrow>
     clean 100 (ev_group_key e) \<and> is_date (dt_date (ev_fetched_at e)) \<and> is_date (ev_start e) \<and> is_date (ev_end e)
     \<and> (case utcoff (ev_fetched_at e) of None \<Rightarrow> True | Some z \<Rightarrow> - day_us < z \<and> z < day_us)
     \<and> list_all clean_lesson (ev_lessons e)"

lemma required_string_clean:
  "jget kvs key = JStr s \<Longrightarrow> clean limit s \<Longrightarrow> required_string kvs key limit = Inr s"
  by (simp add: required_string_def clean_def)

lemma clean_solid: "solid s \<Longrightarrow> s \<noteq> [] \<Longrightarrow> length s \<le> limit \<Longrightarrow> clean limit s"
  by (simp add: clean_def strip_solid)

lemma optional_string_clean:
  "jget kvs key = opt_json v \<Longrightarrow> clean_option limit v \<Longrightarrow> optional_string kvs key limit = Inr v"
  by (auto simp: optional_string_def clean_option_def clean_def opt_json_def split: option.split_asm)

lemma date_from_iso_date: "is_date d \<Longrightarrow> date_from_iso (iso_date d) = Inr d"
  using read_date_iso [of d "[]"] by (simp add: date_from_iso_def)

lemma time_from_iso_time: "0 \<le> t \<Longrightarrow> t < day_us \<Longrightarrow> time_from_iso (iso_time t) = Inr t"
  using read_clock_iso_time [of t "[]"] by (simp add: time_from_iso_def clock_ends_def)

lemma clean_iso_date: "is_date d \<Longrightarrow> clean 10 (iso_date d)"
  using iso_date_text [of d] by (intro clean_solid) auto

lemma clean_iso_time: "0 \<le> t \<Longrightarrow> t < day_us \<Longrightarrow> clean 16 (iso_time t)"
  using iso_time_text [of t] by (intro clean_solid) (auto simp: iso_time_def)

lemma jget_Cons: "jget ((k, v) # kvs) key = (if k = key then v else jget kvs key)"
  by (simp add: jget_def)

text \<open>Sorting the keys changes no look-up.\<close>

lemma map_of_sorted:
  assumes "distinct (map fst kvs)"
  shows "map_of (sort_key fst kvs) key = map_of kvs key"
proof -
  have "distinct (map fst (sort_key fst kvs))"
    using assms by (simp add: distinct_map)
  then have "map_of (sort_key fst kvs) = map_of kvs" using assms by (simp add: map_of_inject_set)
  then show ?thesis by simp
qed

lemma jget_sorted:
  assumes "distinct (map fst kvs)"
  shows "jget (sort_key fst (map (map_prod id sort_keys) kvs)) key = sort_keys (jget kvs key)"
proof -
  have "map fst (map (map_prod id sort_keys) kvs) = map fst kvs" by simp
  then have "distinct (map fst (map (map_prod id sort_keys) kvs))" using assms by (simp only:)
  then have "map_of (sort_key fst (map (map_prod id sort_keys) kvs)) key = map_of (map (map_prod id sort_keys) kvs) key"
    by (rule map_of_sorted)
  also have "\<dots> = map_option sort_keys (map_of kvs key)" by (induction kvs) auto
  finally show ?thesis by (simp add: jget_def split: option.split)
qed

lemma sort_keys_opt_json [simp]: "sort_keys (opt_json v) = opt_json v"
  by (simp add: opt_json_def split: option.split)

lemma lesson_roundtrip:
  assumes "clean_lesson l"
  shows "lesson_from_dict (sort_keys (lesson_dict l)) = Inr l"
proof -
  have c: "is_date (l_day l)" "0 \<le> l_starts_at l" "l_starts_at l < day_us" "0 \<le> l_ends_at l" "l_ends_at l < day_us"
    "l_starts_at l < l_ends_at l"
    "clean 500 (l_subject l)" "clean_option 100 (l_type l)" "clean_option 256 (l_teacher l)"
    "clean_option 100 (l_room l)" "clean_option 100 (l_building l)" "clean_option 100 (l_subgroup l)"
    "clean_option 100 (l_source_id l)"
    using assms by (simp_all add: clean_lesson_def)
  from c(7) have subject: "strip (l_subject l) \<noteq> []" by (simp add: clean_def)
  show ?thesis
    using c subject
    by (simp add: lesson_dict_def lesson_from_dict_def required_string_clean optional_string_clean jget_Cons u_def
        clean_iso_date clean_iso_time date_from_iso_date time_from_iso_time new_lesson_def guard_def jget_sorted)
qed

lemma envelope_dict_roundtrip:
  assumes "clean_envelope e" and "new_envelope e = Inr e"
  shows "envelope_from_dict (sort_keys (envelope_dict e)) = Inr e"
proof -
  have c: "clean 100 (ev_group_key e)" "is_date (dt_date (ev_fetched_at e))" "is_date (ev_start e)" "is_date (ev_end e)"
    "case utcoff (ev_fetched_at e) of None \<Rightarrow> True | Some z \<Rightarrow> - day_us < z \<and> z < day_us"
    using assms(1) by (simp_all add: clean_envelope_def)
  have "map lesson_from_dict (map sort_keys (map lesson_dict (ev_lessons e))) = map (\<lambda>l. Inr l) (ev_lessons e)"
    using assms(1) by (simp add: clean_envelope_def list_all_iff lesson_roundtrip)
  then have lessons: "collect (map lesson_from_dict (map sort_keys (map lesson_dict (ev_lessons e)))) = Inr (ev_lessons e)"
    using collect_map_Inr [of "\<lambda>l. l" "ev_lessons e"] by (simp del: map_map)
  have fetched: "clean 64 (iso_datetime (ev_fetched_at e))" "datetime_from_iso (iso_datetime (ev_fetched_at e)) = Inr (ev_fetched_at e)"
    using iso_datetime_text [OF c(2,5)] from_iso_datetime [OF c(2,5)]
    by (auto simp: datetime_from_iso_def iso_datetime_def intro: clean_solid)
  have same: "\<lparr>ev_group_key = ev_group_key e, ev_fetched_at = ev_fetched_at e, ev_start = ev_start e,
      ev_end = ev_end e, ev_lessons = ev_lessons e, ev_force_digest = ev_force_digest e\<rparr> = e" by (cases e) simp
  show ?thesis
    using c(1,3,4) fetched lessons assms(2)
    by (simp add: same envelope_dict_def envelope_from_dict_def required_string_clean jget_Cons u_def
        clean_iso_date date_from_iso_date guard_def jget_sorted del: map_map)
qed

text \<open>
  what one CI job encodes, the next job decodes to the same envelope, when the base64/JSON
  layer reads back what it wrote, the envelope passes its constructor and its texts are as the
  reader of the public timetable leaves them (stripped and within the limits of the decoder).
\<close>

theorem envelope_roundtrip:
  assumes "unpack (pack (sort_keys (envelope_dict e))) = Some (sort_keys (envelope_dict e))"
    and "0 < len (pack (sort_keys (envelope_dict e)))"
    and "new_envelope e = Inr e" and "clean_envelope e"
    and "encode_schedule_envelope pack len e = Inr encoded"
  shows "decode_schedule_envelope unpack len encoded = Inr e"
proof -
  have encoded: "encoded = pack (sort_keys (envelope_dict e))" "\<not> max_encoded < len encoded"
    using assms(5) by (auto simp: encode_schedule_envelope_def Let_def guard_def split: if_splits)
  then show ?thesis
    using assms(1,2) envelope_dict_roundtrip [OF assms(4,3)]
    by (simp add: decode_schedule_envelope_def guard_def)
qed

definition demo_envelope :: envelope where
  "demo_envelope = \<lparr>ev_group_key = u ''A'', ev_fetched_at = \<lparr>wall = 0, utcoff = Some 0\<rparr>, ev_start = 1, ev_end = 14,
     ev_lessons = [\<lparr>l_day = 1, l_starts_at = 0, l_ends_at = 60000000, l_subject = u ''B'', l_type = Some (u ''C''),
       l_teacher = None, l_room = None, l_building = None, l_subgroup = None, l_source_id = None\<rparr>],
     ev_force_digest = False\<rparr>"

lemma demo_envelope_ok: "new_envelope demo_envelope = Inr demo_envelope" "clean_envelope demo_envelope"
  by (simp_all add: demo_envelope_def new_envelope_def clean_envelope_def clean_lesson_def clean_def clean_option_def
      aware_def guard_def weekday_def max_lessons_def strip_def lstrip_by_def rstrip_by_def is_space_def u_def
      is_date_def max_date_def dt_date_def durations epoch_ordinal_def)

theorem envelope_roundtrip_witness:
  "decode_schedule_envelope Some (\<lambda>_. 1) (sort_keys (envelope_dict demo_envelope)) = Inr demo_envelope"
proof -
  have "encode_schedule_envelope (\<lambda>j. j) (\<lambda>_. 1) demo_envelope = Inr (sort_keys (envelope_dict demo_envelope))"
    by (simp add: encode_schedule_envelope_def Let_def guard_def max_encoded_def)
  then show ?thesis
    by (intro envelope_roundtrip [where pack = "\<lambda>j. j"]) (simp_all add: demo_envelope_ok)
qed

section \<open>The delivery state\<close>

definition clean_state :: "delivery_state \<Rightarrow> bool" where
  "clean_state s \<longleftrightarrow>
     (case ds_previous s of None \<Rightarrow> True | Some e \<Rightarrow> clean_envelope e \<and> new_envelope e = Inr e)
     \<and> (case ds_last_digest s of None \<Rightarrow> True | Some d \<Rightarrow> is_date d)
     \<and> length (ds_reminders s) \<le> 100 \<and> list_all (\<lambda>m. length m \<le> 100) (ds_reminders s)
     \<and> (case ds_calendar_message s of None \<Rightarrow> True | Some n \<Rightarrow> 0 < n)
     \<and> distinct (map fst (ds_user_cards s)) \<and> sorted (ds_user_cards s)
     \<and> list_all (\<lambda>(k, n). is_card_key k \<and> 0 < n) (ds_user_cards s)"

lemma dict_of_distinct: "distinct (map fst xs) \<Longrightarrow> dict_of xs = xs"
proof -
  assume d: "distinct (map fst xs)"
  then have "map_of (rev xs) = map_of xs"
    using map_of_inject_set [of "rev xs" xs] by (simp add: rev_map [symmetric])
  moreover have "map (\<lambda>k. (k, the (map_of xs k))) (map fst xs) = xs"
    using d by (auto intro!: map_idI simp: o_def)
  ultimately show ?thesis
    using d by (simp add: dict_of_def distinct_remdups_id)
qed

lemma map_filter_all:
  assumes "\<And>x. x \<in> set xs \<Longrightarrow> f (g x) = Some x"
  shows "List.map_filter f (map g xs) = xs"
  using assms by (induction xs) (simp_all add: map_filter_simps)

lemma sorted_fst: "sorted cards \<Longrightarrow> sorted (map fst (map (\<lambda>(k, n). (k, JInt n)) cards))"
  by (induction cards) (auto simp: less_eq_prod_def)

lemma cards_roundtrip:
  assumes "distinct (map fst cards)" and "sorted cards" and "list_all (\<lambda>(k, n). is_card_key k \<and> 0 < n) cards"
    and "jget kvs (u ''user_calendar_cards'') = sort_keys (JObj (map (\<lambda>(k, v). (k, JInt v)) (dict_of cards)))"
  shows "read_cards kvs = cards"
proof -
  have "List.map_filter (\<lambda>(k, v). case v of JInt n \<Rightarrow> if is_card_key k \<and> 0 < n then Some (k, n) else None | _ \<Rightarrow> None)
      (map (\<lambda>(k, v). (k, JInt v)) cards) = cards"
    using assms(3) by (intro map_filter_all) (auto simp: list_all_iff)
  moreover have "sort_key fst (map (\<lambda>(k, n). (k, JInt n)) cards) = map (\<lambda>(k, n). (k, JInt n)) cards"
    using assms(2) by (intro sort_key_id_if_sorted sorted_fst)
  ultimately show ?thesis
    using assms(1,2,4)
    by (simp add: read_cards_def dict_of_distinct sort_key_id_if_sorted o_def case_prod_unfold)
qed

lemma reminders_roundtrip:
  assumes "length ms \<le> 100" and "list_all (\<lambda>m. length m \<le> 100) ms"
    and "jget kvs (u ''sent_reminders'') = JArr (map JStr (last_hundred ms))"
  shows "last_hundred (read_reminders kvs) = ms"
proof -
  have "last_hundred ms = ms" using assms(1) by (simp add: last_hundred_def)
  moreover have "List.map_filter (\<lambda>j. case j of JStr s \<Rightarrow> if length s \<le> 100 then Some s else None | _ \<Rightarrow> None)
      (map JStr ms) = ms"
    using assms(2) by (intro map_filter_all) (auto simp: list_all_iff)
  ultimately show ?thesis
    using assms(3) by (simp add: read_reminders_def)
qed

text \<open>
  the delivery state kept between CI runs is read back as it was saved: the previous
  envelope, the day of the last digest, the markers of the reminders sent, the pinned message
  and the personal cards, so a restart neither repeats a reminder nor forgets a card.
\<close>

theorem delivery_state_roundtrip:
  assumes "clean_state s"
  shows "load_delivery_state (Some (save_delivery_state s)) = s"
proof -
  obtain kvs where kvs: "save_delivery_state s = JObj kvs" by (simp add: save_delivery_state_def)
  have keys: "jget kvs (u ''last_digest_date'') = (case ds_last_digest s of None \<Rightarrow> JNull | Some d \<Rightarrow> JStr (iso_date d))"
    "jget kvs (u ''sent_reminders'') = JArr (map JStr (last_hundred (ds_reminders s)))"
    "jget kvs (u ''calendar_message_id'') = (case ds_calendar_message s of None \<Rightarrow> JNull | Some n \<Rightarrow> JInt n)"
    "jget kvs (u ''user_calendar_cards'') = sort_keys (JObj (map (\<lambda>(k, v). (k, JInt v)) (dict_of (ds_user_cards s))))"
    "jget kvs (u ''previous'') = (case ds_previous s of None \<Rightarrow> JNull | Some e \<Rightarrow> sort_keys (envelope_dict e))"
    using kvs by (auto simp: save_delivery_state_def jget_sorted jget_Cons u_def split: option.split)
  have previous: "(if jget kvs (u ''previous'') = JNull then Inr None
      else and_then (envelope_from_dict (jget kvs (u ''previous''))) (\<lambda>e. Inr (Some e))) = Inr (ds_previous s)"
    using assms keys(5) envelope_dict_roundtrip
    by (cases "ds_previous s") (auto simp: clean_state_def envelope_dict_def)
  have digest: "(case jget kvs (u ''last_digest_date'') of
      JStr t \<Rightarrow> and_then (date_from_iso t) (\<lambda>d. Inr (Some d)) | _ \<Rightarrow> Inr None) = Inr (ds_last_digest s)"
    using assms keys(1) by (cases "ds_last_digest s") (auto simp: clean_state_def date_from_iso_date)
  have message: "optional_positive_int (jget kvs (u ''calendar_message_id'')) = Inr (ds_calendar_message s)"
    using assms keys(3) by (cases "ds_calendar_message s") (auto simp: clean_state_def optional_positive_int_def)
  have reminders: "last_hundred (read_reminders kvs) = ds_reminders s"
    using assms keys(2) by (intro reminders_roundtrip) (auto simp: clean_state_def)
  have cards: "read_cards kvs = ds_user_cards s"
    using assms keys(4) by (intro cards_roundtrip) (auto simp: clean_state_def)
  show ?thesis
    unfolding load_delivery_state_def kvs state_from_dict_def option.case json.case previous digest message
      and_then.simps reminders cards by simp
qed

theorem delivery_state_roundtrip_witness:
  "load_delivery_state (Some (save_delivery_state \<lparr>ds_previous = Some demo_envelope, ds_last_digest = Some 2,
       ds_reminders = [u ''first''], ds_calendar_message = Some 7, ds_user_cards = [(u ''user:1:-2:3'', 4)]\<rparr>))
     = \<lparr>ds_previous = Some demo_envelope, ds_last_digest = Some 2,
       ds_reminders = [u ''first''], ds_calendar_message = Some 7, ds_user_cards = [(u ''user:1:-2:3'', 4)]\<rparr>"
  by (rule delivery_state_roundtrip)
    (simp add: clean_state_def demo_envelope_ok is_date_def max_date_def is_card_key_def positive_digits_def
      u_def)

end
