(* ===== verification/CiCards.thy ===== *)
theory CiCards
  imports CiEnvelope
begin

text \<open>
  The texts of the hosted schedule: \<open>schedule/weekend_plan.py\<close> and the card fragments of
  \<open>schedule/ci.py\<close> - lessons of a day, their slots, tables, places and status lines. Lesson
  times carry the zone of the current local reading, so they compare by the wall clock;
  \<open>local\<close> is the zone's offset at a wall-clock reading.
\<close>

section \<open>The weekend plan\<close>

definition weekend_plan_day :: date where
  "weekend_plan_day = ordinal 2026 11 1"

definition weekend_plan :: "(pystr \<times> pystr) list" where
  "weekend_plan =
     [([48, 57, 58, 48, 48, 8211, 49, 48, 58, 48, 48], [1055, 1086, 1079, 1076, 1088, 1072, 1074, 1080, 1090, 1100, 32, 1084, 1080, 1088, 32,
      1089, 32, 1084, 1086, 1080, 1084, 32, 1087, 1088, 1086, 1073, 1091, 1078, 1076,
      1077, 1085, 1080, 1077, 1084]),
      ([49, 50, 58, 48, 48, 8211, 49, 51, 58, 48, 48], [1048, 1079, 1099, 1089, 1082, 1072, 1085, 1085, 1086, 32, 1086, 1090, 1086, 1073, 1077,
      1076, 1072, 1090, 1100]),
      ([49, 52, 58, 48, 48, 8211, 49, 55, 58, 48, 48], [1055, 1088, 1086, 1089, 1090, 1086, 32, 1089, 1080, 1103, 1090, 1100]),
      ([49, 56, 58, 48, 48, 8211, 49, 57, 58, 48, 48], [1042, 1077, 1095, 1077, 1088, 1085, 1077, 1077, 32, 1091, 1085, 1080, 1078, 1077, 1085,
      1080, 1077, 32, 1079, 1072, 1074, 1080, 1089, 1090, 1085, 1080, 1082, 1086, 1074]),
      ([50, 48, 58, 48, 48, 8211, 50, 51, 58, 48, 48], [1062, 1072, 1088, 1089, 1090, 1074, 1077, 1085, 1085, 1086, 32, 1086, 1090, 1076, 1099,
      1093, 1072, 1090, 1100])]"

definition weekend_source_id :: "nat \<Rightarrow> pystr" where
  "weekend_source_id i = u ''weekend-plan:'' @ iso_date weekend_plan_day @ [58] @ show_nat i"

definition is_weekend_plan_lesson :: "lesson \<Rightarrow> bool" where
  "is_weekend_plan_lesson l \<longleftrightarrow>
     l_day l = weekend_plan_day \<and>
     list_ex (\<lambda>(i, hours, activity). l_source_id l = Some (weekend_source_id i) \<and> l_subject l = activity)
       (enumerate 0 weekend_plan)"

text \<open>The two sides of \<open>hours.split\<close> at the dash.\<close>

definition hours_from :: "pystr \<Rightarrow> pystr" where
  "hours_from hours = takeWhile (\<lambda>c. c \<noteq> 8211) hours"

definition hours_till :: "pystr \<Rightarrow> pystr" where
  "hours_till hours = takeWhile (\<lambda>c. c \<noteq> 8211) (tl (dropWhile (\<lambda>c. c \<noteq> 8211) hours))"

definition weekend_lesson :: "nat \<times> pystr \<times> pystr \<Rightarrow> ci_error + lesson" where
  "weekend_lesson = (\<lambda>(i, hours, activity).
     and_then (time_from_iso (hours_from hours)) (\<lambda>starts.
     and_then (time_from_iso (hours_till hours)) (\<lambda>ends.
     case new_lesson \<lparr>l_day = weekend_plan_day, l_starts_at = starts, l_ends_at = ends, l_subject = activity,
            l_type = None, l_teacher = None, l_room = None, l_building = None, l_subgroup = None,
            l_source_id = Some (weekend_source_id i)\<rparr> of
       Inl e \<Rightarrow> Inl (Ci_lesson_error e) | Inr l \<Rightarrow> Inr l)))"

definition weekend_plan_lessons :: "date \<Rightarrow> date \<Rightarrow> date \<Rightarrow> date list \<Rightarrow> ci_error + lesson list" where
  "weekend_plan_lessons today start end_day lesson_days =
     (if weekend_plan_day < today \<or> \<not> (start \<le> weekend_plan_day \<and> weekend_plan_day \<le> end_day)
         \<or> weekend_plan_day \<in> set lesson_days
      then Inr []
      else collect (map weekend_lesson (enumerate 0 weekend_plan)))"

section \<open>Lessons and slots of a day\<close>

definition lessons_on :: "lesson list \<Rightarrow> date \<Rightarrow> lesson list" where
  "lessons_on lessons d =
     sort_key (\<lambda>l. (l_starts_at l, casefold (l_subject l))) (filter (\<lambda>l. l_day l = d) lessons)"

type_synonym slot = "int \<times> int"

definition slot_of :: "lesson \<Rightarrow> slot" where
  "slot_of l = (l_starts_at l, l_ends_at l)"

text \<open>\<open>sorted(blocks.items())\<close> of the dictionary from slots to their lessons.\<close>

definition slot_blocks :: "lesson list \<Rightarrow> (slot \<times> lesson list) list" where
  "slot_blocks lessons =
     map (\<lambda>s. (s, filter (\<lambda>l. slot_of l = s) lessons)) (sort (remdups (map slot_of lessons)))"

definition subgroup_text :: "lesson \<Rightarrow> pystr" where
  "subgroup_text l = (case l_subgroup l of None \<Rightarrow> [] | Some s \<Rightarrow> s)"

definition slot_groups :: "lesson list \<Rightarrow> (slot \<times> lesson list) list" where
  "slot_groups lessons =
     map (\<lambda>(s, ls). (s, sort_key (\<lambda>l. (casefold (l_subject l), subgroup_text l)) ls)) (slot_blocks lessons)"

definition slot_groups_by_day :: "lesson list \<Rightarrow> (date \<times> int \<times> int) set" where
  "slot_groups_by_day lessons = set (map (\<lambda>l. (l_day l, l_starts_at l, l_ends_at l)) lessons)"

definition local_lesson_time :: "pydt \<Rightarrow> int \<Rightarrow> pydt" where
  "local_lesson_time now t = now\<lparr>wall := (dt_date now - epoch_ordinal) * day_us + t\<rparr>"

text \<open>\<open>ceil(seconds / 60)\<close>, not below zero, of the time from \<open>now\<close> to a wall-clock reading.\<close>

definition minutes_to :: "pydt \<Rightarrow> int \<Rightarrow> int" where
  "minutes_to now target = max 0 (- ((wall now - target) div minute))"

definition minutes_until :: "pydt \<Rightarrow> int \<Rightarrow> int" where
  "minutes_until now t = minutes_to now (wall (local_lesson_time now t))"

definition minutes_phrase :: "int \<Rightarrow> pystr" where
  "minutes_phrase n =
     (if n = 120 then [50, 32, 1095, 1072, 1089, 1072]
      else if 60 \<le> n then
        (if n mod 60 \<noteq> 0 then show_int (n div 60) @ [32, 1095, 32] @ show_int (n mod 60) @ [32, 1084, 1080, 1085]
         else show_int (n div 60) @ [32, 1095])
      else show_int n @ [32, 1084, 1080, 1085])"

section \<open>Places and dates\<close>

definition stripped :: "pystr option \<Rightarrow> pystr" where
  "stripped v = (case v of None \<Rightarrow> [] | Some s \<Rightarrow> strip s)"

definition ci_location :: "lesson \<Rightarrow> pystr" where
  "ci_location l =
     (let room = html_escape (stripped (l_room l)); building = html_escape (stripped (l_building l)) in
      if room \<noteq> [] \<and> building \<noteq> [] then room @ [60, 98, 114, 62, 60, 105, 62, 1082, 1086, 1088, 1087, 46, 32] @ building @ u ''</i>''
      else if room \<noteq> [] then room
      else if building \<noteq> [] then [1082, 1086, 1088, 1087, 46, 32] @ building
      else [])"

definition plain_location :: "lesson \<Rightarrow> pystr" where
  "plain_location l =
     (let room = stripped (l_room l); building = stripped (l_building l) in
      if room \<noteq> [] \<and> building \<noteq> [] then [1072, 1091, 1076, 46, 32] @ room @ [44, 32, 1082, 1086, 1088, 1087, 46, 32] @ building
      else if room \<noteq> [] then [1072, 1091, 1076, 46, 32] @ room
      else if building \<noteq> [] then [1082, 1086, 1088, 1087, 46, 32] @ building
      else [1085, 1077, 32, 1091, 1082, 1072, 1079, 1072, 1085, 1086])"

definition compact_slot_location :: "lesson list \<Rightarrow> pystr" where
  "compact_slot_location lessons =
     join (u '' / '') (foldl (\<lambda>acc l.
       let place = replace_text (u ''<br>'') [32, 183, 32] (ci_location l)
       in if place \<noteq> [] \<and> place \<notin> set acc then acc @ [place] else acc) [] lessons)"

definition short_months :: "pystr list" where
  "short_months = [[], [1103, 1085, 1074], [1092, 1077, 1074], [1084, 1072, 1088], [1072, 1087, 1088], [1084, 1072, 1081], [1080, 1102, 1085], [1080, 1102, 1083], [1072, 1074, 1075], [1089, 1077, 1085], [1086, 1082, 1090], [1085, 1086, 1103], [1076, 1077, 1082]]"

definition day_number :: "date \<Rightarrow> pystr" where
  "day_number d = (let (y, m, k) = ymd d in show_int k)"

definition month_number :: "date \<Rightarrow> nat" where
  "month_number d = (let (y, m, k) = ymd d in nat m)"

definition short_weekday :: "date \<Rightarrow> pystr" where
  "short_weekday d = short_weekdays ! nat (weekday d)"

definition date_range :: "date \<Rightarrow> date \<Rightarrow> pystr" where
  "date_range start end_day =
     (if month_number start = month_number end_day
      then day_number start @ [8211] @ day_number end_day @ [32] @ months ! month_number start
      else day_month start @ [32, 8211, 32] @ day_month end_day)"

definition short_date_range :: "date \<Rightarrow> date \<Rightarrow> pystr" where
  "short_date_range start end_day =
     (if month_number start = month_number end_day
      then day_number start @ [8211] @ day_number end_day @ [32] @ short_months ! month_number start
      else day_number start @ [32] @ short_months ! month_number start @ [8211]
        @ day_number end_day @ [32] @ short_months ! month_number end_day)"

definition day_name :: "date \<Rightarrow> date \<Rightarrow> pystr" where
  "day_name d today =
     (if d = today then [60, 98, 62, 1057, 1077, 1075, 1086, 1076, 1085, 1103, 60, 47, 98, 62] else short_weekday d @ [32] @ day_number d)"

definition plan_date :: "date \<Rightarrow> pystr" where
  "plan_date d = short_weekday d @ u '', '' @ day_month d"

definition event_date :: "lesson \<Rightarrow> pystr" where
  "event_date l = short_weekday (l_day l) @ u '', '' @ day_month (l_day l)"

definition free_days_line :: "date list \<Rightarrow> pystr" where
  "free_days_line ds = join (u '', '') (map (\<lambda>d. short_weekday d @ [32] @ day_number d) ds)"

text \<open>The latest end; \<open>_time_span\<close> and \<open>_day_summary\<close> are asked of lessons that are there.\<close>

definition time_span :: "lesson list \<Rightarrow> pystr" where
  "time_span lessons =
     hour_minute (l_starts_at (hd lessons)) @ [8211] @ hour_minute (foldl max (l_ends_at (hd lessons)) (map l_ends_at lessons))"

definition day_summary :: "lesson list \<Rightarrow> pystr" where
  "day_summary lessons =
     (let cnt = length (slot_groups lessons) in
      u ''<b>'' @ show_nat cnt @ [32] @ russian_pair_word cnt @ [60, 47, 98, 62, 32, 183, 32]
      @ hour_minute (l_starts_at (hd lessons)) @ [8211] @ hour_minute (l_ends_at (last lessons)))"

definition day_summary_line :: "date \<Rightarrow> lesson list \<Rightarrow> date \<Rightarrow> pystr" where
  "day_summary_line d lessons today =
     (let cnt = length (slot_groups lessons) in
      day_name d today @ u '' ('' @ show_nat cnt @ [32] @ russian_pair_word cnt @ [41])"

definition week_summary_line :: "int \<Rightarrow> date \<Rightarrow> date \<Rightarrow> lesson list \<Rightarrow> pystr" where
  "week_summary_line week_number start end_day lessons =
     (let icon = (if week_number = 0 then [128467] else [128301]); cnt = card (slot_groups_by_day lessons) in
      if lessons = [] then u ''<b>'' @ icon @ [32] @ short_date_range start end_day @ [60, 47, 98, 62, 32, 40, 1087, 1072, 1088, 32, 1085, 1077, 1090, 41]
      else u ''<b>'' @ icon @ [32] @ short_date_range start end_day @ u ''</b> ('' @ show_nat cnt @ [32]
        @ russian_pair_word cnt @ [41])"

section \<open>Where the day stands\<close>

definition has_upcoming :: "lesson list \<Rightarrow> pydt \<Rightarrow> bool" where
  "has_upcoming lessons now \<longleftrightarrow>
     lessons \<noteq> [] \<and> l_day (hd lessons) = dt_date now \<and> list_ex (\<lambda>l. dt_time now < l_ends_at l) lessons"

text \<open>\<open>int(target.timestamp())\<close> truncates towards zero.\<close>

definition unix_seconds :: "instant \<Rightarrow> int" where
  "unix_seconds t = (if t < 0 then - (- t div second) else t div second)"

definition relative_time :: "(int \<Rightarrow> int) \<Rightarrow> lesson \<Rightarrow> int \<Rightarrow> pydt \<Rightarrow> pystr" where
  "relative_time local l t now =
     (let target = (l_day l - epoch_ordinal) * day_us + t in
      [60, 116, 103, 45, 116, 105, 109, 101, 32, 117, 110, 105, 120, 61, 34] @ show_int (unix_seconds (target - local target)) @ [34, 32, 102, 111, 114, 109, 97, 116, 61, 34, 114, 34, 62]
      @ [1063, 1077, 1088, 1077, 1079, 32] @ minutes_phrase (minutes_to now target) @ u ''</tg-time>'')"

definition located :: "pystr \<Rightarrow> pystr" where
  "located place = (if place = [] then [] else [60, 98, 114, 62, 128205, 32] @ place)"

definition day_status :: "(int \<Rightarrow> int) \<Rightarrow> envelope \<Rightarrow> pydt \<Rightarrow> pystr" where
  "day_status local e now =
     (let today = dt_date now; lessons = lessons_on (ev_lessons e) today; today_label = plan_date today; t = dt_time now in
      if \<not> (ev_start e \<le> today \<and> today \<le> ev_end e) then today_label @ [60, 98, 114, 62, 1053, 1072, 32, 1089, 1077, 1075, 1086, 1076, 1085, 1103, 32, 1085,
      1077, 1090, 32, 1086, 1087, 1091, 1073, 1083, 1080, 1082, 1086, 1074, 1072, 1085,
      1085, 1099, 1093, 32, 1076, 1072, 1085, 1085, 1099, 1093, 46]
      else if lessons = [] then today_label @ [32, 8212, 32, 1073, 1077, 1079, 32, 1087, 1072, 1088]
      else
        case List.find (\<lambda>l. l_starts_at l \<le> t \<and> t < l_ends_at l) lessons of
          Some cur \<Rightarrow>
            [60, 98, 62, 1057, 1077, 1081, 1095, 1072, 1089, 60, 47, 98, 62, 32, 183, 32, 1076, 1086,
      32] @ hour_minute (l_ends_at cur)
            @ [60, 98, 114, 62, 1047, 1072, 1082, 1086, 1085, 1095, 1080, 1090, 1089, 1103, 32] @ relative_time local cur (l_ends_at cur) now
            @ located (compact_slot_location (filter (\<lambda>l. l_starts_at l = l_starts_at cur) lessons))
            @ (case List.find (\<lambda>l. l_ends_at cur \<le> l_starts_at l) lessons of
                 Some following \<Rightarrow> [60, 98, 114, 62, 1044, 1072, 1083, 1077, 1077, 32, 1074, 32] @ hour_minute (l_starts_at following)
               | None \<Rightarrow> [])
        | None \<Rightarrow>
            (case List.find (\<lambda>l. t < l_starts_at l) lessons of
               Some upcoming \<Rightarrow>
                 [60, 98, 62, 1057, 1083, 1077, 1076, 1091, 1102, 1097, 1072, 1103, 32, 183, 32] @ hour_minute (l_starts_at upcoming) @ u ''</b>''
                 @ u ''<br>'' @ relative_time local upcoming (l_starts_at upcoming) now
                 @ located (compact_slot_location (filter (\<lambda>l. l_starts_at l = l_starts_at upcoming) lessons))
             | None \<Rightarrow> today_label @ [60, 98, 114, 62, 60, 98, 62, 1053, 1072, 32, 1089, 1077, 1075, 1086, 1076, 1085, 1103,
      32, 1074, 1089, 1105, 60, 47, 98, 62]))"

text \<open>The first day from now on that still has a lesson to finish.\<close>

definition plan_day :: "envelope \<Rightarrow> pydt \<Rightarrow> date option" where
  "plan_day e now =
     (case sort (remdups (map l_day (filter (\<lambda>l. dt_date now < l_day l \<or>
         (l_day l = dt_date now \<and> dt_time now < l_ends_at l)) (ev_lessons e)))) of
        [] \<Rightarrow> None | d # _ \<Rightarrow> Some d)"

section \<open>The table of a day\<close>

definition present_text :: "pystr option \<Rightarrow> pystr option" where
  "present_text v = (case v of None \<Rightarrow> None | Some s \<Rightarrow> if strip s = [] then None else Some s)"

text \<open>The subgroup, when it is not the group itself.\<close>

definition own_subgroup :: "pystr \<Rightarrow> lesson \<Rightarrow> pystr option" where
  "own_subgroup group_key l =
     (case present_text (l_subgroup l) of
        Some s \<Rightarrow> if casefold (strip s) \<noteq> casefold (strip group_key) then Some s else None
      | None \<Rightarrow> None)"

definition lesson_table_row :: "lesson list \<Rightarrow> pystr \<Rightarrow> pydt \<Rightarrow> lesson \<Rightarrow> pystr" where
  "lesson_table_row lessons group_key now l =
     (let today = dt_date now; t = dt_time now;
          upcoming_start = map_option l_starts_at
            (List.find (\<lambda>x. l_day x = today \<and> t < l_starts_at x) lessons);
          teacher = (case present_text (l_teacher l) of Some s \<Rightarrow> teacher_text s | None \<Rightarrow> [1055, 1088, 1077, 1087, 1086, 1076, 1072, 1074, 1072, 1090, 1077, 1083, 1100, 32, 1085,
      1077, 32, 1091, 1082, 1072, 1079, 1072, 1085]);
          kind = (case present_text (l_type l) of Some s \<Rightarrow> table_text s | None \<Rightarrow> [8212]);
          location = location_text [1040, 1091, 1076, 46] (case l_room l of None \<Rightarrow> [] | Some s \<Rightarrow> s) @ [nbsp, 183, 32]
            @ location_text [1082, 1086, 1088, 1087, 46] (case l_building l of None \<Rightarrow> [] | Some s \<Rightarrow> s);
          plain = table_text (subject_label (l_subject l));
          linked = (case subject_reference_name (l_subject l) of
              Some name \<Rightarrow> [60, 97, 32, 104, 114, 101, 102, 61, 34, 35] @ name @ [34, 62] @ plain @ u ''</a>'' | None \<Rightarrow> plain);
          state = (if l_day l = today \<and> l_starts_at l \<le> t \<and> t < l_ends_at l then [60, 98, 62, 1057, 1077, 1081, 1095, 1072, 1089, 60, 47, 98, 62, 60, 98, 114, 62]
            else if l_day l = today \<and> Some (l_starts_at l) = upcoming_start then [60, 98, 62, 1044, 1072, 1083, 1077, 1077, 60, 47, 98, 62, 60, 98, 114, 62]
            else if today < l_day l \<and> l_starts_at l = l_starts_at (hd lessons) then [60, 98, 62, 1055, 1077, 1088, 1074, 1072, 1103, 60, 47, 98, 62, 60, 98, 114, 62]
            else []);
          metadata = (if is_weekend_plan_lesson l then []
            else u ''<br>'' @ location @ u ''<br><i>'' @ kind @ u ''</i><br>'' @ teacher
              @ (case own_subgroup group_key l of Some s \<Rightarrow> [60, 98, 114, 62, 1055, 1086, 1076, 1075, 1088, 1091, 1087, 1087, 1072, 58, 32] @ table_text s | None \<Rightarrow> []))
      in [60, 116, 114, 62, 60, 116, 100, 32, 97, 108, 105, 103, 110, 61, 34, 99, 101, 110, 116,
      101, 114, 34, 32, 118, 97, 108, 105, 103, 110, 61, 34, 109, 105, 100, 100, 108,
      101, 34, 62] @ state @ u ''<b>'' @ hour_minute (l_starts_at l) @ u ''</b>''
         @ u ''<br>'' @ hour_minute (l_ends_at l) @ u ''</td>''
         @ [60, 116, 100, 32, 97, 108, 105, 103, 110, 61, 34, 108, 101, 102, 116, 34, 32, 118, 97,
      108, 105, 103, 110, 61, 34, 116, 111, 112, 34, 62] @ u ''<b>'' @ linked @ u ''</b>'' @ metadata @ u ''</td></tr>'')"

definition rich_lesson_table :: "lesson list \<Rightarrow> pystr \<Rightarrow> pydt \<Rightarrow> pystr" where
  "rich_lesson_table lessons group_key now =
     u ''<table bordered compact>'' @ concat (map (lesson_table_row lessons group_key now) lessons) @ u ''</table>''"

definition slots_and_span :: "lesson list \<Rightarrow> pystr" where
  "slots_and_span lessons =
     (let cnt = length (slot_groups lessons) in
      u ''<p>'' @ show_nat cnt @ [32] @ russian_pair_word cnt @ [32, 183, 32] @ time_span lessons @ u ''</p>'')"

text \<open>\<open>capitalize\<close> of a Russian weekday.\<close>

definition capitalised_weekday :: "date \<Rightarrow> pystr" where
  "capitalised_weekday d = (case weekdays ! nat (weekday d) of [] \<Rightarrow> [] | c # cs \<Rightarrow> (c - 32) # cs)"

definition plan_day_block :: "date \<Rightarrow> lesson list \<Rightarrow> envelope \<Rightarrow> pydt \<Rightarrow> pystr" where
  "plan_day_block d lessons e now =
     u ''<h2>'' @ (if d = dt_date now then [1057, 1077, 1075, 1086, 1076, 1085, 1103, 32, 183, 32] else [])
     @ capitalised_weekday d @ u '', '' @ day_month d @ u ''</h2>'' @ slots_and_span lessons
     @ rich_lesson_table lessons (ev_group_key e) now"

definition plan_day_disclosure :: "date \<Rightarrow> envelope \<Rightarrow> pydt \<Rightarrow> pystr" where
  "plan_day_disclosure d e now =
     (let lessons = lessons_on (ev_lessons e) d in
      u ''<details><summary>'' @ plan_date d @ u ''</summary>'' @ slots_and_span lessons
      @ rich_lesson_table lessons (ev_group_key e) now @ u ''</details>'')"

definition reminder_block :: "lesson list \<Rightarrow> pystr \<Rightarrow> pystr" where
  "reminder_block lessons group_key =
     join [10, 10] (map (\<lambda>l.
       let place = ci_location l;
           details = (if place = [] then [] else [[128205, 32] @ replace_text (u ''<br>'') [32, 183, 32] place])
             @ (case l_subgroup l of
                  None \<Rightarrow> []
                | Some s \<Rightarrow> if s \<noteq> [] \<and> casefold (strip s) \<noteq> casefold (strip group_key)
                    then [html_escape (strip s)] else [])
       in u ''<b>'' @ html_escape (strip (l_subject l)) @ u ''</b>''
          @ (if details = [] then [] else [10] @ join [32, 183, 32] details)) lessons)"

end
