(* ===== verification/CiDigest.thy ===== *)
theory CiDigest
  imports CiCards
begin

text \<open>
  What the hosted runtime says and when: the rest of \<open>schedule/ci.py\<close> - changes inside the
  horizons both runs saw, grouped changes and their cards, the daily digest and the class
  reminders.
\<close>

section \<open>Changes\<close>

text \<open>A raise of the domain or an assertion of the renderer.\<close>

definition snapshot_of :: "envelope \<Rightarrow> pystr \<Rightarrow> lesson list \<Rightarrow> schedule_error + snapshot" where
  "snapshot_of e group_key lessons =
     new_snapshot \<lparr>sn_source = u ''spbgasu'', sn_group_key = group_key, sn_fetched_at = ev_fetched_at e, sn_lessons = lessons\<rparr>"

definition overlapping_changes :: "envelope option \<Rightarrow> envelope \<Rightarrow> date \<Rightarrow> schedule_error + change list" where
  "overlapping_changes previous current today =
     (case previous of
        None \<Rightarrow> Inr []
      | Some prev \<Rightarrow>
          let start = max (max (ev_start prev) (ev_start current)) today;
              end_day = min (ev_end prev) (ev_end current) in
          if end_day < start then Inr []
          else
            and_then (snapshot_of prev (ev_group_key current)
              (filter (\<lambda>l. start \<le> l_day l \<and> l_day l \<le> end_day) (ev_lessons prev))) (\<lambda>old.
            and_then (snapshot_of current (ev_group_key current)
              (filter (\<lambda>l. start \<le> l_day l \<and> l_day l \<le> end_day) (ev_lessons current))) (\<lambda>new.
            diff_schedules old new)))"

text \<open>\<open>change.after or change.before\<close>; a change always has one of them.\<close>

definition shown_lesson :: "change \<Rightarrow> lesson option" where
  "shown_lesson c = (case ch_after c of Some l \<Rightarrow> Some l | None \<Rightarrow> ch_before c)"

definition change_identity :: "change \<Rightarrow> pystr list option" where
  "change_identity c =
     (let by_lesson = (case shown_lesson c of
            None \<Rightarrow> None
          | Some l \<Rightarrow> Some [u ''lesson'', iso_date (l_day l), casefold (l_subject l), casefold (subgroup_text l)]) in
      case (ch_before c, ch_after c) of
        (Some old, Some new) \<Rightarrow>
          (case l_source_id old of
             Some i \<Rightarrow> if i \<noteq> [] \<and> l_source_id new = Some i then Some [u ''source'', i] else by_lesson
           | None \<Rightarrow> by_lesson)
      | _ \<Rightarrow> by_lesson)"

text \<open>The groups, in the order of their first changes.\<close>

definition group_changes :: "change list \<Rightarrow> change list list" where
  "group_changes cs =
     map (\<lambda>k. filter (\<lambda>c. change_identity c = k) cs) (rev (remdups (rev (map change_identity cs))))"

definition change_status :: "change list \<Rightarrow> pystr" where
  "change_status cs =
     (if Added \<in> set (map ch_kind cs) then [127381, 32, 1044, 1086, 1073, 1072, 1074, 1083, 1077, 1085, 1072]
      else if Cancelled \<in> set (map ch_kind cs) then [128680, 32, 1054, 1090, 1084, 1077, 1085, 1077, 1085, 1072]
      else [128260, 32, 1054, 1073, 1085, 1086, 1074, 1083, 1077, 1085, 1072])"

definition change_label :: "change_kind \<Rightarrow> pystr" where
  "change_label k =
     (case k of Time \<Rightarrow> [1042, 1088, 1077, 1084, 1103] | Room \<Rightarrow> [1040, 1091, 1076, 1080, 1090, 1086, 1088, 1080, 1103] | Building \<Rightarrow> [1050, 1086, 1088, 1087, 1091, 1089] | Teacher \<Rightarrow> [1055, 1088, 1077, 1087, 1086, 1076, 1072, 1074, 1072, 1090, 1077, 1083, 1100]
      | Lesson_type \<Rightarrow> [1058, 1080, 1087, 32, 1079, 1072, 1085, 1103, 1090, 1080, 1103] | Subject \<Rightarrow> [1055, 1088, 1077, 1076, 1084, 1077, 1090] | Added \<Rightarrow> [1044, 1086, 1073, 1072, 1074, 1083, 1077, 1085, 1086] | Cancelled \<Rightarrow> [1054, 1090, 1084, 1077, 1085, 1077, 1085, 1086])"

definition or_text :: "pystr option \<Rightarrow> pystr \<Rightarrow> pystr" where
  "or_text v other = (case v of None \<Rightarrow> other | Some s \<Rightarrow> if s = [] then other else s)"

text \<open>\<open>None\<close> is the \<open>KeyError\<close> of a kind without a value.\<close>

definition changed_value :: "lesson \<Rightarrow> change_kind \<Rightarrow> pystr option" where
  "changed_value l k =
     (let shown = (\<lambda>v. Some (or_text v [1085, 1077, 32, 1091, 1082, 1072, 1079, 1072, 1085, 1086])) in
      case k of Room \<Rightarrow> shown (l_room l) | Building \<Rightarrow> shown (l_building l) | Teacher \<Rightarrow> shown (l_teacher l)
      | Lesson_type \<Rightarrow> shown (l_type l) | Subject \<Rightarrow> shown (Some (l_subject l)) | _ \<Rightarrow> None)"

definition change_values :: "change \<Rightarrow> (pystr \<times> pystr) option" where
  "change_values c =
     (case (ch_before c, ch_after c) of
        (Some old, Some new) \<Rightarrow>
          if ch_kind c = Time then Some (time_range old, time_range new)
          else (case (changed_value old (ch_kind c), changed_value new (ch_kind c)) of
            (Some a, Some b) \<Rightarrow> Some (a, b) | _ \<Rightarrow> None)
      | _ \<Rightarrow> None)"

text \<open>Rows of changed values between two marks; \<open>None\<close> is a failed assertion.\<close>

definition value_rows :: "(change_kind \<Rightarrow> pystr) \<Rightarrow> change list \<Rightarrow> pystr list option" where
  "value_rows heading cs =
     (if list_all (\<lambda>c. change_values c \<noteq> None) cs
      then Some (map (\<lambda>c. case the (change_values c) of (old, new) \<Rightarrow>
        heading (ch_kind c) @ u ''<s>'' @ html_escape old @ [60, 47, 115, 62, 32, 8594, 32, 60, 98, 62] @ html_escape new @ u ''</b>'') cs)
      else None)"

definition rich_change_summary :: "change list \<Rightarrow> pystr option" where
  "rich_change_summary cs =
     (if list_ex (\<lambda>c. ch_kind c = Added) cs then Some [60, 98, 108, 111, 99, 107, 113, 117, 111, 116, 101, 62, 60, 98, 62, 1053, 1086, 1074,
      1072, 1103, 32, 1087, 1072, 1088, 1072, 60, 47, 98, 62, 32, 1076, 1086, 1073, 1072,
      1074, 1083, 1077, 1085, 1072, 32, 1074, 32, 1088, 1072, 1089, 1087, 1080, 1089,
      1072, 1085, 1080, 1077, 60, 47, 98, 108, 111, 99, 107, 113, 117, 111, 116, 101, 62]
      else if list_ex (\<lambda>c. ch_kind c = Cancelled) cs
      then Some [60, 98, 108, 111, 99, 107, 113, 117, 111, 116, 101, 62, 60, 98, 62, 1055, 1072, 1088,
      1072, 32, 1086, 1090, 1084, 1077, 1085, 1077, 1085, 1072, 60, 47, 98, 62, 60, 98,
      114, 62, 1055, 1088, 1086, 1074, 1077, 1088, 1100, 1090, 1077, 32, 1076, 1072,
      1090, 1091, 32, 1080, 32, 1074, 1088, 1077, 1084, 1103, 32, 1085, 1080, 1078, 1077,
      46, 60, 47, 98, 108, 111, 99, 107, 113, 117, 111, 116, 101, 62]
      else map_option (\<lambda>rows. u ''<blockquote>'' @ join (u ''<br>'') rows @ u ''</blockquote>'')
        (value_rows (\<lambda>k. u ''<b>'' @ change_label k @ u ''</b><br>'') cs))"

definition event_row :: "change_kind set \<Rightarrow> pystr \<times> pystr \<times> change_kind option \<Rightarrow> pystr" where
  "event_row highlighted = (\<lambda>(label, v, kind).
     let rendered = (if (case kind of None \<Rightarrow> False
           | Some k \<Rightarrow> k \<in> highlighted \<or> (k = Room \<and> Building \<in> highlighted))
         then u ''<b>'' @ html_escape v @ u ''</b>'' else html_escape v)
     in [60, 116, 114, 62, 60, 116, 104, 32, 97, 108, 105, 103, 110, 61, 34, 108, 101, 102, 116,
      34, 32, 118, 97, 108, 105, 103, 110, 61, 34, 116, 111, 112, 34, 62] @ label @ u ''</th>''
        @ [60, 116, 100, 32, 97, 108, 105, 103, 110, 61, 34, 108, 101, 102, 116, 34, 32, 118, 97,
      108, 105, 103, 110, 61, 34, 116, 111, 112, 34, 62] @ rendered @ u ''</td></tr>'')"

definition rich_event_table :: "lesson \<Rightarrow> pystr option \<Rightarrow> change_kind set \<Rightarrow> pystr" where
  "rich_event_table l caption highlighted =
     u ''<table bordered compact>''
     @ (case caption of None \<Rightarrow> [] | Some t \<Rightarrow> u ''<caption><b>'' @ t @ u ''</b></caption>'')
     @ concat (map (event_row highlighted)
         [([1044, 1072, 1090, 1072], event_date l, None), ([1042, 1088, 1077, 1084, 1103], time_range l, Some Time), ([1055, 1088, 1077, 1076, 1084, 1077, 1090], l_subject l, Some Subject),
          ([1058, 1080, 1087], or_text (l_type l) [1085, 1077, 32, 1091, 1082, 1072, 1079, 1072, 1085], Some Lesson_type), ([1043, 1076, 1077], plain_location l, Some Room),
          ([1055, 1088, 1077, 1087, 1086, 1076, 1072, 1074, 1072, 1090, 1077, 1083, 1100], or_text (l_teacher l) [1085, 1077, 32, 1091, 1082, 1072, 1079, 1072, 1085], Some Teacher),
          ([1055, 1086, 1076, 1075, 1088, 1091, 1087, 1087, 1072], or_text (l_subgroup l) [1074, 1089, 1103, 32, 1075, 1088, 1091, 1087, 1087, 1072], None)])
     @ u ''</table>''"

text \<open>The card of a group shows the lesson of its first change; \<open>None\<close> is a failed assertion.\<close>

definition rich_change_card :: "change list \<Rightarrow> bool \<Rightarrow> pystr option" where
  "rich_change_card cs is_open =
     (case (shown_lesson (hd cs), rich_change_summary cs) of
        (Some l, Some summary) \<Rightarrow>
          let kinds = set (map ch_kind cs);
              headline = u ''<b>'' @ change_status cs @ [60, 47, 98, 62, 32, 183, 32] @ short_weekday (l_day l) @ u '', '' @ day_number (l_day l)
                @ [32, 183, 32] @ hour_minute (l_starts_at l) @ [32, 183, 32] @ html_escape (l_subject l);
              tables = (if Cancelled \<in> kinds then rich_event_table l (Some [128680, 32, 1054, 1090, 1084, 1077, 1085, 1105, 1085, 1085, 1072, 1103, 32, 1087, 1072,
      1088, 1072]) kinds
                else rich_event_table l (Some [10024, 32, 1040, 1082, 1090, 1091, 1072, 1083, 1100, 1085, 1072, 1103, 32, 1087, 1072,
      1088, 1072]) kinds
                  @ (case ch_before (hd cs) of
                       Some old \<Rightarrow>
                         if Added \<notin> kinds then [60, 100, 101, 116, 97, 105, 108, 115, 62, 60, 115, 117, 109, 109, 97, 114, 121, 62,
      8617, 65039, 32, 1055, 1088, 1077, 1078, 1085, 1080, 1081, 32, 1074, 1072, 1088,
      1080, 1072, 1085, 1090, 60, 47, 115, 117, 109, 109, 97, 114, 121, 62]
                           @ rich_event_table old None {} @ u ''</details>'' else []
                     | None \<Rightarrow> []))
          in Some (u ''<details'' @ (if is_open then u '' open'' else []) @ u ''><summary>'' @ headline @ u ''</summary>''
               @ summary @ tables @ u ''</details>'')
      | _ \<Rightarrow> None)"

definition all_some :: "'a option list \<Rightarrow> 'a list option" where
  "all_some xs = (if list_all (\<lambda>x. x \<noteq> None) xs then Some (map the xs) else None)"

definition render_rich_changes :: "change list \<Rightarrow> pydt \<Rightarrow> pystr option" where
  "render_rich_changes cs fetched_at =
     (let grouped = group_changes cs; shown = take 8 grouped in
      map_option (\<lambda>cards.
        [60, 104, 50, 62, 9889, 32, 1056, 1072, 1089, 1087, 1080, 1089, 1072, 1085, 1080, 1077,
      32, 1080, 1079, 1084, 1077, 1085, 1080, 1083, 1086, 1089, 1100, 60, 47, 104, 50,
      62]
        @ [60, 97, 115, 105, 100, 101, 62, 60, 98, 62, 1050, 1072, 1083, 1077, 1085, 1076, 1072,
      1088, 1100, 32, 1091, 1078, 1077, 32, 1086, 1073, 1085, 1086, 1074, 1083, 1105,
      1085, 60, 47, 98, 62, 60, 98, 114, 62, 1054, 1090, 1082, 1088, 1086, 1081, 1090,
      1077, 32, 1085, 1091, 1078, 1085, 1091, 1102, 32, 1087, 1072, 1088, 1091, 58, 32,
      1074, 1085, 1091, 1090, 1088, 1080, 32, 8212, 32, 1080, 1079, 1084, 1077, 1085,
      1077, 1085, 1080, 1077, 32, 1080, 32, 1089, 1086, 1073, 1099, 1090, 1080, 1077, 32,
      1094, 1077, 1083, 1080, 1082, 1086, 1084, 46, 60, 47, 97, 115, 105, 100, 101, 62]
        @ u ''<hr/>'' @ concat cards
        @ (if length shown < length grouped
           then [60, 112, 62, 1048, 32, 1077, 1097, 1105, 32] @ show_nat (length grouped - length shown) @ [32, 1080, 1079, 1084, 1077, 1085, 1077, 1085, 1080, 1081, 46, 60, 47, 112, 62] else [])
        @ [60, 102, 111, 111, 116, 101, 114, 62, 1054, 1073, 1085, 1086, 1074, 1083, 1077, 1085,
      1086, 32] @ hour_minute (dt_time fetched_at) @ [32, 1052, 1057, 1050, 60, 47, 102, 111, 111, 116, 101, 114, 62])
        (all_some (map (\<lambda>(i, g). rich_change_card g (i = 0)) (enumerate 0 shown))))"

definition fallback_change_summary :: "change list \<Rightarrow> pystr option" where
  "fallback_change_summary cs =
     (if list_ex (\<lambda>c. ch_kind c = Added) cs then Some [1044, 1086, 1073, 1072, 1074, 1083, 1077, 1085, 1072, 32, 1085, 1086, 1074, 1072, 1103,
      32, 1087, 1072, 1088, 1072, 46]
      else if list_ex (\<lambda>c. ch_kind c = Cancelled) cs then Some [1055, 1072, 1088, 1072, 32, 1086, 1090, 1084, 1077, 1085, 1077, 1085, 1072, 46]
      else map_option (join [10]) (value_rows (\<lambda>k. change_label k @ u '': '') cs))"

definition fallback_event :: "lesson \<Rightarrow> pystr" where
  "fallback_event l =
     join [10]
       [u ''<b>'' @ html_escape (l_subject l) @ u ''</b>'',
        event_date l @ [32, 183, 32] @ time_range l,
        [1058, 1080, 1087, 58, 32] @ html_escape (or_text (l_type l) [1085, 1077, 32, 1091, 1082, 1072, 1079, 1072, 1085]),
        [1043, 1076, 1077, 58, 32] @ html_escape (plain_location l),
        [1055, 1088, 1077, 1087, 1086, 1076, 1072, 1074, 1072, 1090, 1077, 1083, 1100, 58, 32] @ html_escape (or_text (l_teacher l) [1085, 1077, 32, 1091, 1082, 1072, 1079, 1072, 1085]),
        [1055, 1086, 1076, 1075, 1088, 1091, 1087, 1087, 1072, 58, 32] @ html_escape (or_text (l_subgroup l) [1074, 1089, 1103, 32, 1075, 1088, 1091, 1087, 1087, 1072])]"

definition fallback_part :: "change list \<Rightarrow> pystr option" where
  "fallback_part g =
     (case (shown_lesson (hd g), fallback_change_summary g) of
        (Some l, Some summary) \<Rightarrow>
          Some (u ''<b>'' @ change_status g @ [32, 183, 32] @ event_date l @ u ''</b>'' @ [10] @ summary @ [10] @ fallback_event l)
      | _ \<Rightarrow> None)"

definition render_changes_fallback :: "change list \<Rightarrow> pystr option" where
  "render_changes_fallback cs =
     (let grouped = group_changes cs; shown = take 8 grouped in
      map_option (\<lambda>parts. join [10, 10] ([[60, 98, 62, 1056, 1072, 1089, 1087, 1080, 1089, 1072, 1085, 1080, 1077, 32, 1080, 1079,
      1084, 1077, 1085, 1080, 1083, 1086, 1089, 1100, 60, 47, 98, 62]] @ parts
        @ (if length shown < length grouped
           then [[1045, 1097, 1105, 32, 1080, 1079, 1084, 1077, 1085, 1077, 1085, 1080, 1081, 58, 32] @ show_nat (length grouped - length shown) @ [46]] else [])))
        (all_some (map fallback_part shown)))"

definition changes_are_urgent :: "change list \<Rightarrow> date \<Rightarrow> bool" where
  "changes_are_urgent cs today \<longleftrightarrow>
     list_ex (\<lambda>c. case shown_lesson c of Some l \<Rightarrow> l_day l \<le> today + 1 | None \<Rightarrow> False) cs"

definition actionable :: "change_kind set" where
  "actionable = {Cancelled, Added, Time, Room, Building, Subject}"

text \<open>A lesson of the next day and night.\<close>

definition within_a_day :: "pydt \<Rightarrow> lesson \<Rightarrow> bool" where
  "within_a_day now l \<longleftrightarrow>
     (let t = (l_day l - epoch_ordinal) * day_us + l_starts_at l in wall now \<le> t \<and> t \<le> wall (dt_add now day_us))"

definition urgent_upcoming_changes :: "change list \<Rightarrow> pydt \<Rightarrow> change list" where
  "urgent_upcoming_changes cs now =
     filter (\<lambda>c. ch_kind c \<in> actionable \<and>
       list_ex (within_a_day now) (List.map_filter id [ch_before c, ch_after c])) cs"

section \<open>The digest\<close>

definition should_publish_digest :: "delivery_state \<Rightarrow> envelope \<Rightarrow> pydt \<Rightarrow> bool" where
  "should_publish_digest s e now \<longleftrightarrow>
     ev_force_digest e \<or> (20 \<le> dt_time now div hour \<and> ds_last_digest s \<noteq> Some (dt_date now))"

definition digest_target :: "pydt \<Rightarrow> date \<times> pystr" where
  "digest_target now =
     (if dt_time now div hour < 20 then (dt_date now, [1057, 1077, 1075, 1086, 1076, 1085, 1103]) else (dt_date now + 1, [1047, 1072, 1074, 1090, 1088, 1072]))"

definition display_envelope :: "envelope \<Rightarrow> date \<Rightarrow> ci_error + envelope" where
  "display_envelope e today =
     and_then (weekend_plan_lessons today (ev_start e) (ev_end e) (map l_day (ev_lessons e))) (\<lambda>extras.
     if extras = [] then Inr e else new_envelope (e\<lparr>ev_lessons := ev_lessons e @ extras\<rparr>))"

definition site_checked :: "pydt \<Rightarrow> pydt \<Rightarrow> pystr \<Rightarrow> pystr" where
  "site_checked now fetched_local gap =
     (let (y, m, k) = ymd (dt_date fetched_local) in
      [1057, 1090, 1072, 1090, 1091, 1089, 32, 1085, 1072, 32] @ hour_minute (dt_time now) @ [32, 1052, 1057, 1050] @ gap @ [1057, 1072, 1081, 1090, 32, 1087, 1088, 1086, 1074, 1077, 1088, 1077, 1085, 32] @ pad0 2 k @ [46] @ pad0 2 m
      @ [32, 183, 32] @ hour_minute (dt_time fetched_local) @ [32, 1052, 1057, 1050])"

definition days_after :: "envelope \<Rightarrow> (date \<Rightarrow> bool) \<Rightarrow> date list" where
  "days_after e wanted = sort (remdups (map l_day (filter (\<lambda>l. wanted (l_day l)) (ev_lessons e))))"

definition disclosures :: "pystr \<Rightarrow> date list \<Rightarrow> envelope \<Rightarrow> pydt \<Rightarrow> pystr" where
  "disclosures title ds e now =
     (if ds = [] then []
      else u ''<hr/><details><summary>'' @ title @ u ''</summary>''
        @ concat (map (\<lambda>d. plan_day_disclosure d e now) ds) @ u ''</details>'')"

text \<open>\<open>zone\<close> is the offset of the local zone at an instant, \<open>local\<close> at a wall-clock reading.\<close>

definition render_rich_digest ::
    "(instant \<Rightarrow> int) \<Rightarrow> (int \<Rightarrow> int) \<Rightarrow> envelope \<Rightarrow> pydt \<Rightarrow> pystr option \<Rightarrow> ci_error + pystr" where
  "render_rich_digest zone local envelope now calendar_feed_url =
     and_then (display_envelope envelope (dt_date now)) (\<lambda>e.
     let today = dt_date now; primary = plan_day e now;
         head = [60, 104, 49, 62, 128467, 32, 1056, 1072, 1089, 1087, 1080, 1089, 1072, 1085, 1080, 1077,
      60, 47, 104, 49, 62] @ u ''<p><b>'' @ html_escape (ev_group_key e) @ u ''</b></p>''
           @ u ''<p>'' @ day_status local e now @ u ''</p>'';
         body = (case primary of
             Some d \<Rightarrow>
               (if d \<noteq> today then [60, 112, 62, 1057, 1083, 1077, 1076, 1091, 1102, 1097, 1080, 1081, 32, 1091, 1095, 1077,
      1073, 1085, 1099, 1081, 32, 1076, 1077, 1085, 1100, 58, 32] @ plan_date d @ u ''</p>'' else [])
               @ plan_day_block d (lessons_on (ev_lessons e) d) e now
               @ disclosures [1054, 1089, 1090, 1072, 1083, 1100, 1085, 1099, 1077, 32, 1076, 1085, 1080, 32, 1085,
      1077, 1076, 1077, 1083, 1080] (days_after e (\<lambda>x. d < x \<and> x \<le> monday_for d + 6)) e now
               @ disclosures [1057, 1083, 1077, 1076, 1091, 1102, 1097, 1072, 1103, 32, 1085, 1077, 1076, 1077, 1083,
      1103] (days_after e (\<lambda>x. monday_for d + 6 < x)) e now
           | None \<Rightarrow> [60, 112, 62, 1042, 32, 1088, 1072, 1089, 1087, 1080, 1089, 1072, 1085, 1080, 1080, 32,
      1076, 1086, 32] @ day_month (ev_end e) @ [32, 1089, 1083, 1077, 1076, 1091, 1102, 1097, 1080, 1093, 32, 1079, 1072, 1085, 1103,
      1090, 1080, 1081, 32, 1085, 1077, 32, 1085, 1072, 1081, 1076, 1077, 1085, 1086, 46,
      60, 47, 112, 62]);
         link = (case calendar_feed_url of
             Some url \<Rightarrow> if url = [] then [] else [60, 104, 114, 47, 62, 60, 116, 103, 45, 98, 117, 116, 116, 111, 110, 45, 114, 111, 119,
      32, 97, 108, 105, 103, 110, 61, 34, 99, 101, 110, 116, 101, 114, 34, 62, 60, 116,
      103, 45, 98, 117, 116, 116, 111, 110, 32, 116, 121, 112, 101, 61, 34, 117, 114,
      108, 34, 32, 115, 116, 121, 108, 101, 61, 34, 112, 114, 105, 109, 97, 114, 121, 34,
      32, 117, 114, 108, 61, 34]
               @ html_escape url @ [34, 62, 1050, 1072, 1083, 1077, 1085, 1076, 1072, 1088, 1100, 32, 1090, 1077, 1083,
      1077, 1092, 1086, 1085, 1072, 60, 47, 116, 103, 45, 98, 117, 116, 116, 111, 110,
      62, 60, 47, 116, 103, 45, 98, 117, 116, 116, 111, 110, 45, 114, 111, 119, 62]
           | None \<Rightarrow> [])
     in Inr (head @ body @ link @ subject_reference_definitions (map l_subject (ev_lessons e))
          @ u ''<footer>'' @ site_checked now (in_zone zone (ev_fetched_at e)) (u ''<br>'') @ u ''</footer>''))"

definition link_line :: "pystr option \<Rightarrow> pystr \<Rightarrow> pystr" where
  "link_line url label =
     (case url of
        Some x \<Rightarrow> if x = [] then [] else [10, 10] @ [60, 97, 32, 104, 114, 101, 102, 61, 34] @ html_escape x @ [34, 62] @ label @ u ''</a>''
      | None \<Rightarrow> [])"

definition render_digest_fallback :: "(instant \<Rightarrow> int) \<Rightarrow> envelope \<Rightarrow> pydt \<Rightarrow> pystr option \<Rightarrow> ci_error + pystr" where
  "render_digest_fallback zone envelope now calendar_feed_url =
     and_then (display_envelope envelope (dt_date now)) (\<lambda>e.
     Inr ((case plan_day e now of
             Some d \<Rightarrow> render_day_card d (lessons_on (ev_lessons e) d)
               (if d = dt_date now then [1057, 1077, 1075, 1086, 1076, 1085, 1103] else [1041, 1083, 1080, 1078, 1072, 1081, 1096, 1080, 1081, 32, 1091, 1095, 1077, 1073, 1085,
      1099, 1081, 32, 1076, 1077, 1085, 1100]) True
           | None \<Rightarrow> [60, 98, 62, 1056, 1072, 1089, 1087, 1080, 1089, 1072, 1085, 1080, 1077, 60, 47, 98, 62] @ [10] @ [1057, 1083, 1077, 1076, 1091, 1102, 1097, 1080, 1093, 32, 1079, 1072, 1085, 1103, 1090,
      1080, 1081, 32, 1074, 32, 1086, 1087, 1091, 1073, 1083, 1080, 1082, 1086, 1074,
      1072, 1085, 1085, 1086, 1084, 32, 1088, 1072, 1089, 1087, 1080, 1089, 1072, 1085,
      1080, 1080, 32, 1085, 1077, 32, 1085, 1072, 1081, 1076, 1077, 1085, 1086, 46])
       @ link_line calendar_feed_url [1044, 1086, 1073, 1072, 1074, 1080, 1090, 1100, 32, 1074, 32, 1082, 1072, 1083, 1077,
      1085, 1076, 1072, 1088, 1100, 32, 1090, 1077, 1083, 1077, 1092, 1086, 1085, 1072]
       @ [10, 10] @ u ''<i>'' @ site_checked now (in_zone zone (ev_fetched_at e)) [10] @ u ''</i>''))"

definition summary_line :: "slot \<times> lesson list \<Rightarrow> pystr" where
  "summary_line = (\<lambda>((starts, ends), ls).
     let subjects = join (u '' / '') (rev (remdups (rev (map (\<lambda>l. html_escape (subject_label (l_subject l))) ls))));
         place = compact_slot_location ls
     in [60, 98, 62, 8226, 32] @ hour_minute starts @ [60, 47, 98, 62, 32, 183, 32] @ subjects @ (if place = [] then [] else [32, 183, 32, 128205, 32] @ place))"

definition render_evening_summary :: "envelope \<Rightarrow> pydt \<Rightarrow> pystr option \<Rightarrow> pystr" where
  "render_evening_summary e now calendar_url =
     (let d = dt_date now + 1; lessons = lessons_on (ev_lessons e) d;
          heading = [60, 98, 62, 127769, 32, 1047, 1072, 1074, 1090, 1088, 1072, 32, 183, 32] @ day_month d @ u ''</b>'';
          slots = slot_groups lessons
      in strip (if lessons = [] then heading @ [10] @ [1047, 1072, 1085, 1103, 1090, 1080, 1081, 32, 1085, 1077, 1090, 46]
           else [10] @ join [10] ([heading, [128218, 32] @ show_nat (length slots) @ [32] @ russian_pair_word (length slots)
             @ [32, 183, 32] @ time_span lessons] @ map summary_line slots))
         @ link_line calendar_url [1054, 1090, 1082, 1088, 1099, 1090, 1100, 32, 1082, 1072, 1083, 1077, 1085, 1076, 1072,
      1088, 1100])"

section \<open>Reminders\<close>

definition next_text :: "envelope \<Rightarrow> pydt \<Rightarrow> int \<Rightarrow> lesson list \<Rightarrow> pystr" where
  "next_text e now starts lessons =
     [60, 98, 62, 9200, 32, 1057, 1083, 1077, 1076, 1091, 1102, 1097, 1072, 1103, 32, 1074,
      32] @ hour_minute starts @ u ''</b>'' @ [10]
     @ [60, 105, 62, 1063, 1077, 1088, 1077, 1079, 32] @ minutes_phrase (minutes_until now starts) @ u ''</i>'' @ [10]
     @ reminder_block lessons (ev_group_key e)"

definition first_text :: "envelope \<Rightarrow> pydt \<Rightarrow> int \<Rightarrow> lesson list \<Rightarrow> pystr" where
  "first_text e now starts lessons =
     [60, 98, 62, 127749, 32, 1055, 1077, 1088, 1074, 1072, 1103, 32, 1087, 1072, 1088, 1072,
      32, 1074, 32] @ hour_minute starts @ u ''</b>'' @ [10]
     @ [60, 105, 62, 1063, 1077, 1088, 1077, 1079, 32] @ minutes_phrase (minutes_until now starts) @ u ''</i>'' @ [10]
     @ reminder_block lessons (ev_group_key e)"

definition next_marker :: "pydt \<Rightarrow> int \<Rightarrow> int \<Rightarrow> pystr" where
  "next_marker now ends starts =
     u ''next:'' @ iso_date (dt_date now) @ [58] @ iso_time ends @ [58] @ iso_time starts"

definition first_marker :: "pydt \<Rightarrow> int \<Rightarrow> pystr" where
  "first_marker now starts = u ''first:'' @ iso_date (dt_date now) @ [58] @ iso_time starts"

text \<open>The loop over the blocks: \<open>Some r\<close> is its return, \<open>None\<close> is running off its end.\<close>

fun next_reminder ::
    "envelope \<Rightarrow> pydt \<Rightarrow> pystr set \<Rightarrow> (slot \<times> lesson list) list \<Rightarrow> (slot \<times> lesson list) list \<Rightarrow>
      (pystr \<times> pystr) option option" where
  "next_reminder e now sent ordered [] = None"
| "next_reminder e now sent ordered (((starts, ends), ls) # rest) =
     (if wall (local_lesson_time now starts) \<le> wall now \<and> wall (local_lesson_time now ends) - 15 * minute \<le> wall now
      then
        (case filter (\<lambda>((s, _), _). ends \<le> s) ordered of
           [] \<Rightarrow> Some None
         | ((next_start, _), next_lessons) # _ \<Rightarrow>
             if wall (local_lesson_time now next_start) \<le> wall now then next_reminder e now sent ordered rest
             else if next_marker now ends next_start \<in> sent then Some None
             else Some (Some (next_marker now ends next_start, next_text e now next_start next_lessons)))
      else next_reminder e now sent ordered rest)"

definition due_reminder :: "envelope \<Rightarrow> pydt \<Rightarrow> pystr list \<Rightarrow> (pystr \<times> pystr) option" where
  "due_reminder e now sent_markers =
     (case slot_blocks (lessons_on (ev_lessons e) (dt_date now)) of
        [] \<Rightarrow> None
      | ((first_start, first_end), first_lessons) # rest \<Rightarrow>
          (case next_reminder e now (set sent_markers) (slot_blocks (lessons_on (ev_lessons e) (dt_date now)))
                  (slot_blocks (lessons_on (ev_lessons e) (dt_date now))) of
             Some r \<Rightarrow> r
           | None \<Rightarrow>
               if wall (local_lesson_time now first_start) - 2 * hour \<le> wall now
                  \<and> wall now < wall (local_lesson_time now first_start)
                  \<and> first_marker now first_start \<notin> set sent_markers
               then Some (first_marker now first_start, first_text e now first_start first_lessons)
               else None))"

end
