(* ===== verification/CiDigestProperties.thy ===== *)
theory CiDigestProperties
  imports CiDigest
begin

text \<open>
  Reminders announce only what is still to come and never twice, changes are reported only for
  the days both runs knew, and what the cards of grouped changes leave out.
\<close>

section \<open>Blocks of a day\<close>

lemma set_lessons_on [simp]: "set (lessons_on ls d) = {l \<in> set ls. l_day l = d}"
  by (simp add: lessons_on_def)

lemma slot_blocks_in:
  assumes "(s, ls) \<in> set (slot_blocks lessons)"
  shows "ls \<noteq> [] \<and> (\<forall>l \<in> set ls. l \<in> set lessons \<and> slot_of l = s)"
  using assms by (auto simp: slot_blocks_def filter_empty_conv)

lemma slot_blocks_lesson:
  assumes "((starts, ends), ls) \<in> set (slot_blocks (lessons_on lessons d))"
  obtains l where "l \<in> set lessons" "l_day l = d" "l_starts_at l = starts" "l_ends_at l = ends"
proof -
  have "\<exists>l. l \<in> set ls" using slot_blocks_in [OF assms] by (cases ls) auto
  then obtain l where "l \<in> set ls" ..
  then show thesis using slot_blocks_in [OF assms] that [of l] by (auto simp: slot_of_def)
qed

lemma slot_blocks_Nil [simp]: "slot_blocks ls = [] \<longleftrightarrow> ls = []"
  by (simp add: slot_blocks_def)

text \<open>The first block starts with the earliest lesson.\<close>

lemma slot_blocks_first:
  assumes "slot_blocks ls = ((starts, ends), first) # rest" and "l \<in> set ls"
  shows "starts \<le> l_starts_at l"
proof -
  have "sort (remdups (map slot_of ls)) = map fst (slot_blocks ls)" by (simp add: slot_blocks_def o_def)
  moreover have "sorted (sort (remdups (map slot_of ls)))" by simp
  ultimately have "\<forall>s \<in> set (map fst (slot_blocks ls)). (starts, ends) \<le> s" using assms(1) by auto
  moreover have "slot_of l \<in> set (map fst (slot_blocks ls))" using assms(2) by (auto simp: slot_blocks_def)
  ultimately have "(starts, ends) \<le> slot_of l" by blast
  then show ?thesis by (auto simp: slot_of_def less_eq_prod_def)
qed

lemma lesson_time_le: "wall (local_lesson_time now t) + k \<le> wall now \<longleftrightarrow> t + k \<le> dt_time now"
proof -
  have "wall now - wall now div day_us * day_us = wall now mod day_us" by (simp add: minus_div_mult_eq_mod)
  then have "wall now div day_us * day_us + t + k \<le> wall now \<longleftrightarrow> t + k \<le> wall now mod day_us" by linarith
  then show ?thesis by (simp add: local_lesson_time_def dt_date_def dt_time_def)
qed

lemmas lesson_times = lesson_time_le [where k = 0, simplified] lesson_time_le [where k = "- (15 * minute)", simplified]
  lesson_time_le [where k = "- (2 * hour)", simplified]

section \<open>Reminders\<close>

text \<open>
  The slots of a day, and the earliest of them with a property. A class is on its way out in
  its last fifteen minutes and after its end; it calls for a reminder of the next class as long
  as that one, the earliest to start at or after its end, has not started.
\<close>

definition day_slots :: "envelope \<Rightarrow> date \<Rightarrow> slot set" where
  "day_slots e d = {slot_of l | l. l \<in> set (ev_lessons e) \<and> l_day l = d}"

definition slot_lessons :: "envelope \<Rightarrow> date \<Rightarrow> slot \<Rightarrow> lesson list" where
  "slot_lessons e d s = filter (\<lambda>l. slot_of l = s) (lessons_on (ev_lessons e) d)"

definition earliest :: "slot set \<Rightarrow> (slot \<Rightarrow> bool) \<Rightarrow> slot \<Rightarrow> bool" where
  "earliest S P s \<longleftrightarrow> s \<in> S \<and> P s \<and> (\<forall>u \<in> S. P u \<longrightarrow> s \<le> u)"

definition follows :: "slot \<Rightarrow> slot \<Rightarrow> bool" where
  "follows s n \<longleftrightarrow> snd s \<le> fst n"

definition ending :: "slot set \<Rightarrow> int \<Rightarrow> slot \<Rightarrow> bool" where
  "ending S t s \<longleftrightarrow> fst s \<le> t \<and> snd s - 15 * minute \<le> t \<and> (\<forall>n. earliest S (follows s) n \<longrightarrow> t < fst n)"

text \<open>The reminder of the day's first class, and of the class after the earliest one that is ending.\<close>

definition announces_first :: "envelope \<Rightarrow> pydt \<Rightarrow> pystr \<Rightarrow> pystr \<Rightarrow> bool" where
  "announces_first e now marker t \<longleftrightarrow>
     (\<exists>s. earliest (day_slots e (dt_date now)) (\<lambda>_. True) s
        \<and> fst s - 2 * hour \<le> dt_time now \<and> dt_time now < fst s
        \<and> marker = first_marker now (fst s)
        \<and> t = first_text e now (fst s) (slot_lessons e (dt_date now) s))"

definition announces_next :: "envelope \<Rightarrow> pydt \<Rightarrow> pystr \<Rightarrow> pystr \<Rightarrow> bool" where
  "announces_next e now marker t \<longleftrightarrow>
     (let S = day_slots e (dt_date now) in
      \<exists>s n. earliest S (ending S (dt_time now)) s \<and> earliest S (follows s) n \<and> dt_time now < fst n
        \<and> marker = next_marker now (snd s) (fst n)
        \<and> t = next_text e now (fst n) (slot_lessons e (dt_date now) n))"

lemma find_least:
  fixes ss :: "'a :: linorder list"
  assumes "sorted_wrt (<) ss"
  shows "List.find P ss = Some s \<longleftrightarrow> s \<in> set ss \<and> P s \<and> (\<forall>u \<in> set ss. P u \<longrightarrow> s \<le> u)"
  using assms by (induction ss) (auto intro: less_imp_le dest: leD)

lemma find_earliest:
  assumes "sorted_wrt (<) ss"
  shows "List.find P ss = Some s \<longleftrightarrow> earliest (set ss) P s"
  unfolding earliest_def by (rule find_least [OF assms])

lemma find_none_earliest: "sorted_wrt (<) ss \<Longrightarrow> List.find P ss = None \<longleftrightarrow> (\<nexists>s. earliest (set ss) P s)"
  by (metis find_earliest not_None_eq)

definition slots_list :: "envelope \<Rightarrow> date \<Rightarrow> slot list" where
  "slots_list e d = sort (remdups (map slot_of (lessons_on (ev_lessons e) d)))"

lemma slots_list_sorted: "sorted_wrt (<) (slots_list e d)"
  unfolding slots_list_def strict_sorted_iff by simp

lemma slots_list_set: "set (slots_list e d) = day_slots e d"
  by (auto simp: slots_list_def day_slots_def)

lemmas earliest_slot = find_earliest [OF slots_list_sorted, unfolded slots_list_set]
  find_none_earliest [OF slots_list_sorted, unfolded slots_list_set]

lemma blocks_of_day:
  "slot_blocks (lessons_on (ev_lessons e) d) = map (\<lambda>s. (s, slot_lessons e d s)) (slots_list e d)"
  by (simp add: slot_blocks_def slots_list_def slot_lessons_def)

lemma follower_block:
  "filter (\<lambda>((s, _), _). ends \<le> s) (map (\<lambda>s. (s, f s)) ss) = map (\<lambda>s. (s, f s)) (filter (\<lambda>n. ends \<le> fst n) ss)"
  by (induction ss) auto

lemma filter_find:
  "filter P xs = [] \<longleftrightarrow> List.find P xs = None" "filter P xs = y # ys \<Longrightarrow> List.find P xs = Some y"
  by (induction xs) (auto split: if_splits)

lemma next_reminder_find:
  assumes "ordered = map (\<lambda>s. (s, slot_lessons e (dt_date now) s)) (slots_list e (dt_date now))"
  shows "next_reminder e now sent ordered (map (\<lambda>s. (s, slot_lessons e (dt_date now) s)) ss) =
    map_option (\<lambda>s. case List.find (follows s) (slots_list e (dt_date now)) of
        None \<Rightarrow> None
      | Some n \<Rightarrow> if next_marker now (snd s) (fst n) \<in> sent then None
          else Some (next_marker now (snd s) (fst n), next_text e now (fst n) (slot_lessons e (dt_date now) n)))
    (List.find (ending (day_slots e (dt_date now)) (dt_time now)) ss)"
proof (induction ss)
  case (Cons s ss)
  let ?all = "slots_list e (dt_date now)"
  obtain starts ends where s: "s = (starts, ends)" by (cases s)
  have fw: "follows (starts, ends) = (\<lambda>n. ends \<le> fst n)" by (rule ext) (simp add: follows_def)
  have e: "ending (day_slots e (dt_date now)) (dt_time now) s \<longleftrightarrow>
      starts \<le> dt_time now \<and> ends - 15 * minute \<le> dt_time now \<and>
      (\<forall>n. List.find (\<lambda>n. ends \<le> fst n) ?all = Some n \<longrightarrow> dt_time now < fst n)"
    by (simp add: ending_def earliest_slot [symmetric] s fw)
  show ?case
  proof (cases "filter (\<lambda>n. ends \<le> fst n) ?all")
    case Nil
    then show ?thesis using Cons e filter_find(1) [of "\<lambda>n. ends \<le> fst n" ?all]
      by (simp add: assms follower_block s fw lesson_times)
  next
    case (Cons n more)
    obtain x y where n: "n = (x, y)" by (cases n)
    show ?thesis using Cons.IH e filter_find(2) [of "\<lambda>n. ends \<le> fst n" ?all n more] Cons
      by (auto simp: assms follower_block s fw lesson_times n not_le)
  qed
qed simp

lemma due_reminder_exact:
  "due_reminder e now sent = Some (marker, t) \<longleftrightarrow>
     marker \<notin> set sent \<and> (announces_first e now marker t \<or> announces_next e now marker t)"
proof -
  let ?d = "dt_date now" and ?t = "dt_time now"
  let ?S = "day_slots e ?d" and ?ss = "slots_list e ?d"
  have found: "next_reminder e now (set sent) (slot_blocks (lessons_on (ev_lessons e) ?d))
      (slot_blocks (lessons_on (ev_lessons e) ?d)) = map_option (\<lambda>s. case List.find (follows s) ?ss of
        None \<Rightarrow> None
      | Some n \<Rightarrow> if next_marker now (snd s) (fst n) \<in> set sent then None
          else Some (next_marker now (snd s) (fst n), next_text e now (fst n) (slot_lessons e ?d n)))
      (List.find (ending ?S ?t) ?ss)"
    unfolding blocks_of_day by (rule next_reminder_find) simp
  show ?thesis
  proof (cases ?ss)
    case Nil
    then have "?S = {}" using slots_list_set [of e ?d] by simp
    then show ?thesis using Nil
      by (simp add: due_reminder_def blocks_of_day announces_first_def announces_next_def earliest_def Let_def)
  next
    case (Cons s rest)
    obtain starts ends where s: "s = (starts, ends)" by (cases s)
    have least: "earliest ?S (\<lambda>_. True) u \<longleftrightarrow> u = s" for u
      using earliest_slot(1) [where e = e and d = ?d and P = "\<lambda>_. True" and s = u] Cons by auto
    have le: "starts \<le> fst u" if u: "u \<in> ?S" for u
    proof -
      have "s \<le> u" using least [of s] u by (simp add: earliest_def)
      then show ?thesis by (cases u) (auto simp: s less_eq_prod_def)
    qed
    show ?thesis
    proof (cases "List.find (ending ?S ?t) ?ss")
      case None
      then have no: "\<not> announces_next e now marker t"
        by (auto simp: announces_next_def Let_def earliest_slot [symmetric])
      have "due_reminder e now sent = Some (marker, t) \<longleftrightarrow> marker \<notin> set sent \<and> announces_first e now marker t"
        unfolding due_reminder_def found None
        by (auto simp: blocks_of_day Cons s announces_first_def least lesson_times not_le [symmetric])
      then show ?thesis using no by simp
    next
      case (Some q)
      then have q: "earliest ?S (ending ?S ?t) q" by (simp add: earliest_slot(1) [symmetric])
      have "\<not> ?t < starts" using q le [of q] by (auto simp: earliest_def ending_def)
      then have no: "\<not> announces_first e now marker t" by (auto simp: announces_first_def least s)
      have uniq: "earliest ?S (ending ?S ?t) u \<longleftrightarrow> u = q" for u using Some by (auto simp: earliest_slot(1) [symmetric])
      have start: "?t < fst n" if "earliest ?S (follows q) n" for n
      proof -
        have "ending ?S ?t q" using q unfolding earliest_def by blast
        then show ?thesis using that unfolding ending_def by blast
      qed
      have "due_reminder e now sent = Some (marker, t) \<longleftrightarrow> marker \<notin> set sent \<and> announces_next e now marker t"
        unfolding due_reminder_def found Some announces_next_def Let_def uniq
        using start
        by (auto simp: blocks_of_day Cons s earliest_slot(1) [symmetric] split: option.splits)
      then show ?thesis using no by simp
    qed
  qed
qed

text \<open>What the markers are made of.\<close>

lemma due_reminder_marker:
  assumes "due_reminder e now sent = Some (marker, t)"
  shows "marker \<notin> set sent \<and> (\<exists>l \<in> set (ev_lessons e). l_day l = dt_date now \<and>
    (marker = first_marker now (l_starts_at l)
      \<or> (\<exists>p \<in> set (ev_lessons e). marker = next_marker now (l_ends_at p) (l_starts_at l))))"
proof -
  have m: "marker \<notin> set sent" "announces_first e now marker t \<or> announces_next e now marker t"
    using assms by (simp_all add: due_reminder_exact)
  have slot: "\<exists>l \<in> set (ev_lessons e). l_day l = dt_date now \<and> l_starts_at l = fst s \<and> l_ends_at l = snd s"
    if "earliest (day_slots e (dt_date now)) P s" for P s
    using that by (auto simp: earliest_def day_slots_def slot_of_def)
  show ?thesis using m slot unfolding announces_first_def announces_next_def Let_def by metis
qed

text \<open>
  C36: A reminder is due exactly in two cases, and never under a marker already sent. Within two
  hours before the earliest class of today starts, it is the reminder of that class, with the
  lessons of its slot. Otherwise it is the reminder of the class that follows the earliest
  class of today that is in its last fifteen minutes or over and whose follower has not
  started: the earliest slot starting at or after its end, with the lessons of that slot. So a
  delayed run never reminds of a class already running.
\<close>

theorem due_reminder_upcoming:
  "due_reminder e now sent = Some (marker, t) \<longleftrightarrow>
     marker \<notin> set sent \<and> (announces_first e now marker t \<or> announces_next e now marker t)"
  by (rule due_reminder_exact)

lemma next_reminder_idle:
  assumes "\<And>s n ls. ((s, n), ls) \<in> set blocks \<Longrightarrow> dt_time now < s"
  shows "next_reminder e now sent ordered blocks = None"
  using assms
  by (induction e now sent ordered blocks rule: next_reminder.induct)
    (fastforce simp: lesson_times not_le [symmetric] split: list.splits)+

text \<open>
  the reminder of the first class is due from two hours before it until it starts: when no
  class of today has begun, the earliest starts within two hours and its marker was not sent, a
  run sends the reminder under exactly that marker.
\<close>

theorem first_reminder_due:
  assumes "l \<in> set (ev_lessons e)" and "l_day l = dt_date now"
    and "\<forall>x \<in> set (ev_lessons e). l_day x = dt_date now \<longrightarrow> l_starts_at l \<le> l_starts_at x"
    and "dt_time now < l_starts_at l" and "l_starts_at l \<le> dt_time now + 2 * hour"
    and "first_marker now (l_starts_at l) \<notin> set sent"
  shows "\<exists>txt. due_reminder e now sent = Some (first_marker now (l_starts_at l), txt)"
proof -
  let ?ls = "lessons_on (ev_lessons e) (dt_date now)"
  have in_day: "l \<in> set ?ls" using assms(1,2) by simp
  then obtain starts ends first rest where blocks: "slot_blocks ?ls = ((starts, ends), first) # rest"
    by (metis length_pos_if_in_set less_numeral_extra(3) list.exhaust list.size(3) slot_blocks_Nil surj_pair)
  have later: "l_starts_at l \<le> s" if "((s, n), ls) \<in> set (slot_blocks ?ls)" for s n ls
    using slot_blocks_lesson [OF that] assms(3) by metis
  have "starts = l_starts_at l"
    using slot_blocks_first [OF blocks in_day] later [of starts ends first] blocks by auto
  moreover have "next_reminder e now (set sent) (slot_blocks ?ls) (slot_blocks ?ls) = None"
    using later assms(4) by (intro next_reminder_idle) fastforce
  ultimately show ?thesis
    using assms(4-6) by (simp add: due_reminder_def blocks lesson_times not_le [symmetric])
qed

section \<open>Overlapping changes\<close>

definition days_within :: "date \<Rightarrow> date \<Rightarrow> lesson option \<Rightarrow> bool" where
  "days_within start end_day l \<longleftrightarrow> (case l of None \<Rightarrow> True | Some x \<Rightarrow> start \<le> l_day x \<and> l_day x \<le> end_day)"

lemma diff_schedules_days:
  assumes "diff_schedules old new = Inr cs" and "c \<in> set cs"
    and "\<And>l. l \<in> set (sn_lessons old) \<union> set (sn_lessons new) \<Longrightarrow> start \<le> l_day l \<and> l_day l \<le> end_day"
  shows "days_within start end_day (ch_before c) \<and> days_within start end_day (ch_after c)"
proof -
  obtain pairs gone fresh where m: "match_lessons (sn_lessons old) (sn_lessons new) = (pairs, gone, fresh)"
    by (rule prod_cases3) (rule that)
  have "c \<in> set (concat (map field_changes pairs)
      @ map (\<lambda>l. \<lparr>ch_kind = Cancelled, ch_before = Some l, ch_after = None\<rparr>) gone
      @ map (\<lambda>l. \<lparr>ch_kind = Added, ch_before = None, ch_after = Some l\<rparr>) fresh)"
    using assms(1,2) m by (auto simp: diff_schedules_def py)
  then consider (field) a b where "(a, b) \<in> set pairs" "c \<in> set (field_changes (a, b))"
    | (gone) l where "l \<in> set gone" "c = \<lparr>ch_kind = Cancelled, ch_before = Some l, ch_after = None\<rparr>"
    | (fresh) l where "l \<in> set fresh" "c = \<lparr>ch_kind = Added, ch_before = None, ch_after = Some l\<rparr>"
    by auto
  then show ?thesis
  proof cases
    case field
    then have "ch_before c = Some a \<and> ch_after c = Some b" by (auto simp: field_changes_def Let_def split: if_splits)
    moreover have "a \<in> set (sn_lessons old)" "b \<in> set (sn_lessons new)"
      using match_lessons_sets [OF m] field(1) by force+
    ultimately show ?thesis using assms(3) by (simp add: days_within_def)
  next
    case gone
    then have "l \<in> set (sn_lessons old)" using match_lessons_sets [OF m] by blast
    then show ?thesis using gone(2) assms(3) by (simp add: days_within_def)
  next
    case fresh
    then have "l \<in> set (sn_lessons new)" using match_lessons_sets [OF m] by blast
    then show ?thesis using fresh(2) assms(3) by (simp add: days_within_def)
  qed
qed

text \<open>
  a change is reported only for a day that both runs had published and that is not over: a
  week that has just come into the horizon, a week that left it and the past are no changes.
\<close>

theorem overlapping_changes_known_days:
  assumes "overlapping_changes (Some prev) cur today = Inr cs" and "c \<in> set cs"
  shows "days_within (max (max (ev_start prev) (ev_start cur)) today) (min (ev_end prev) (ev_end cur)) (ch_before c)
    \<and> days_within (max (max (ev_start prev) (ev_start cur)) today) (min (ev_end prev) (ev_end cur)) (ch_after c)"
proof -
  let ?start = "max (max (ev_start prev) (ev_start cur)) today" and ?last = "min (ev_end prev) (ev_end cur)"
  obtain old new where snaps:
      "snapshot_of prev (ev_group_key cur) (filter (\<lambda>l. ?start \<le> l_day l \<and> l_day l \<le> ?last) (ev_lessons prev)) = Inr old"
      "snapshot_of cur (ev_group_key cur) (filter (\<lambda>l. ?start \<le> l_day l \<and> l_day l \<le> ?last) (ev_lessons cur)) = Inr new"
    and diff: "diff_schedules old new = Inr cs"
    using assms by (auto simp: overlapping_changes_def Let_def py split: if_splits)
  have "sn_lessons old = filter (\<lambda>l. ?start \<le> l_day l \<and> l_day l \<le> ?last) (ev_lessons prev)"
    "sn_lessons new = filter (\<lambda>l. ?start \<le> l_day l \<and> l_day l \<le> ?last) (ev_lessons cur)"
    using snaps by (auto simp: snapshot_of_def new_snapshot_def py)
  then show ?thesis by (intro diff_schedules_days [OF diff assms(2)]) auto
qed

section \<open>Cards of grouped changes\<close>

definition cancelled :: "lesson \<Rightarrow> change" where
  "cancelled l = \<lparr>ch_kind = Cancelled, ch_before = Some l, ch_after = None\<rparr>"

lemma filter_either:
  "k \<notin> set ks \<Longrightarrow> mset (filter (\<lambda>c. f c = k \<or> f c \<in> set ks) cs)
     = mset (filter (\<lambda>c. f c = k) cs) + mset (filter (\<lambda>c. f c \<in> set ks) cs)"
  by (induction cs) auto

text \<open>Every change is in exactly one group.\<close>

lemma group_changes_mset: "mset (concat (group_changes cs)) = mset cs"
proof -
  have "mset (concat (map (\<lambda>k. filter (\<lambda>c. f c = k) cs) ks)) = mset (filter (\<lambda>c. f c \<in> set ks) cs)"
    if "distinct ks" for f :: "change \<Rightarrow> pystr list option" and ks
    using that
  proof (induction ks)
    case (Cons k ks)
    then show ?case using filter_either [of k ks f cs] by simp
  qed simp
  from this [of "rev (remdups (rev (map change_identity cs)))" change_identity]
  have "mset (concat (group_changes cs)) = mset (filter (\<lambda>c. change_identity c \<in> set (map change_identity cs)) cs)"
    by (simp add: group_changes_def del: mset_filter)
  also have "filter (\<lambda>c. change_identity c \<in> set (map change_identity cs)) cs = cs" by (rule filter_True) simp
  finally show ?thesis .
qed

text \<open>
  two classes of the same subject cancelled on the same day share one card, which shows
  the first of them alone: the second cancellation leaves no trace in the message.
\<close>

theorem second_cancellation_hidden:
  assumes "l_day a = l_day b" and "casefold (l_subject a) = casefold (l_subject b)"
    and "casefold (subgroup_text a) = casefold (subgroup_text b)"
  shows "render_rich_changes [cancelled a, cancelled b] t = render_rich_changes [cancelled a] t"
proof -
  have "change_identity (cancelled a) = change_identity (cancelled b)"
    using assms by (simp add: change_identity_def cancelled_def shown_lesson_def)
  then have "group_changes [cancelled a, cancelled b] = [[cancelled a, cancelled b]]"
    "group_changes [cancelled a] = [[cancelled a]]" by (simp_all add: group_changes_def)
  moreover have "rich_change_card [cancelled a, cancelled b] opened = rich_change_card [cancelled a] opened" for opened
    by (simp add: rich_change_card_def rich_change_summary_def change_status_def cancelled_def shown_lesson_def)
  ultimately show ?thesis by (simp add: render_rich_changes_def Let_def)
qed

section \<open>Witnesses\<close>

definition demo_class :: "int \<Rightarrow> lesson" where
  "demo_class starts = \<lparr>l_day = 1, l_starts_at = starts, l_ends_at = starts + hour, l_subject = u ''B'', l_type = None,
     l_teacher = None, l_room = None, l_building = None, l_subgroup = None, l_source_id = None\<rparr>"

definition demo_day :: "lesson list \<Rightarrow> envelope" where
  "demo_day ls = \<lparr>ev_group_key = u ''A'', ev_fetched_at = utc_at 0, ev_start = 1, ev_end = 14, ev_lessons = ls,
     ev_force_digest = False\<rparr>"

definition demo_morning :: pydt where
  "demo_morning = \<lparr>wall = (1 - epoch_ordinal) * day_us + 8 * hour, utcoff = Some 0\<rparr>"

lemma demo_morning_reads: "dt_date demo_morning = 1" "dt_time demo_morning = 8 * hour"
  by (simp_all add: demo_morning_def dt_date_def dt_time_def durations epoch_ordinal_def)

theorem first_reminder_due_witness:
  "\<exists>txt. due_reminder (demo_day [demo_class (9 * hour)]) demo_morning [] = Some (first_marker demo_morning (9 * hour), txt)"
  using first_reminder_due [of "demo_class (9 * hour)" "demo_day [demo_class (9 * hour)]" demo_morning "[]"]
  by (simp add: demo_morning_reads demo_day_def demo_class_def durations)

lemma demo_due: "due_reminder (demo_day [demo_class (9 * hour)]) demo_morning [] =
    Some (first_marker demo_morning (9 * hour), first_text (demo_day [demo_class (9 * hour)]) demo_morning (9 * hour) [demo_class (9 * hour)])"
  by (simp add: due_reminder_def demo_day_def demo_class_def demo_morning_reads lessons_on_def slot_blocks_def slot_of_def
      local_lesson_time_def demo_morning_def dt_date_def epoch_ordinal_def durations)

theorem due_reminder_upcoming_witness:
  "announces_first (demo_day [demo_class (9 * hour)]) demo_morning (first_marker demo_morning (9 * hour))
     (first_text (demo_day [demo_class (9 * hour)]) demo_morning (9 * hour) [demo_class (9 * hour)])
   \<or> announces_next (demo_day [demo_class (9 * hour)]) demo_morning (first_marker demo_morning (9 * hour))
     (first_text (demo_day [demo_class (9 * hour)]) demo_morning (9 * hour) [demo_class (9 * hour)])"
  using due_reminder_upcoming [THEN iffD1, OF demo_due] by (rule conjunct2)

lemma demo_added: "overlapping_changes (Some (demo_day [])) (demo_day [demo_class 0]) 1 =
    Inr [\<lparr>ch_kind = Added, ch_before = None, ch_after = Some (demo_class 0)\<rparr>]"
  by (simp add: overlapping_changes_def demo_day_def snapshot_of_def new_snapshot_def aware_def utc_at_def guard_def
      diff_schedules_def match_lessons_def match_indices_def source_step_def candidates_def has_source_def Let_def demo_class_def)

theorem overlapping_changes_known_days_witness:
  "days_within 1 14 (Some (demo_class 0))"
  using overlapping_changes_known_days [OF demo_added, of "\<lparr>ch_kind = Added, ch_before = None, ch_after = Some (demo_class 0)\<rparr>"]
  by (simp add: demo_day_def)

theorem second_cancellation_hidden_witness:
  "render_rich_changes [cancelled (demo_class 0), cancelled (demo_class hour)] demo_morning
     = render_rich_changes [cancelled (demo_class 0)] demo_morning"
  by (rule second_cancellation_hidden) (simp_all add: demo_class_def subgroup_text_def)

end
