(* ===== verification/ICal.thy ===== *)
theory ICal
  imports CiCards
begin

text \<open>
  The read-only calendar feed, \<open>schedule/calendar.py\<close>: one event per lesson, values escaped and
  lines folded at 75 octets, and that folding and escaping lose nothing.
\<close>

section \<open>Escaping and folding\<close>

definition ical_escape :: "pystr \<Rightarrow> pystr" where
  "ical_escape v =
     replace_text [44] [92, 44] (replace_text [59] [92, 59] (replace_text [10] [92, 110]
       (replace_text [13, 10] [92, 110] (replace_text [92] [92, 92] v))))"

text \<open>The length of a character in UTF-8.\<close>

definition utf8_width :: "nat \<Rightarrow> nat" where
  "utf8_width c = (if c < 128 then 1 else if c < 2048 then 2 else if c < 65536 then 3 else 4)"

definition utf8_length :: "pystr \<Rightarrow> nat" where
  "utf8_length s = sum_list (map utf8_width s)"

type_synonym folding = "pystr list \<times> pystr \<times> nat"

definition fold_step :: "nat \<Rightarrow> folding \<Rightarrow> nat \<Rightarrow> folding" where
  "fold_step limit = (\<lambda>(chunks, cur, cur_bytes) c.
     let width = utf8_width c; allowed = (if chunks = [] then limit else limit - 1) in
     if cur \<noteq> [] \<and> allowed < cur_bytes + width then (chunks @ [cur], [c], width)
     else (chunks, cur @ [c], cur_bytes + width))"

definition fold_chunks :: "nat \<Rightarrow> pystr \<Rightarrow> pystr list" where
  "fold_chunks limit v = (case foldl (fold_step limit) ([], [], 0) v of (chunks, cur, cur_bytes) \<Rightarrow> chunks @ [cur])"

definition fold_line :: "nat \<Rightarrow> pystr \<Rightarrow> pystr" where
  "fold_line limit v = join [13, 10, 32] (fold_chunks limit v)"

section \<open>Events\<close>

definition ical_date :: "date \<Rightarrow> pystr" where
  "ical_date d = (let (y, m, k) = ymd d in pad0 4 y @ pad0 2 m @ pad0 2 k)"

definition ical_clock :: "int \<Rightarrow> pystr" where
  "ical_clock t = pad0 2 (t div hour) @ pad0 2 (t mod hour div minute) @ pad0 2 (t mod minute div second)"

definition ical_stamp :: "date \<Rightarrow> int \<Rightarrow> pystr" where
  "ical_stamp d t = ical_date d @ u ''T'' @ ical_clock t"

definition truthy :: "pystr option \<Rightarrow> pystr option" where
  "truthy v = (case v of None \<Rightarrow> None | Some s \<Rightarrow> if s = [] then None else Some s)"

definition ical_location :: "lesson \<Rightarrow> pystr" where
  "ical_location l =
     join [32, 183, 32] (List.map_filter id
       [map_option (\<lambda>s. [1072, 1091, 1076, 46, 32] @ strip s) (truthy (l_room l)),
        map_option (\<lambda>s. [1082, 1086, 1088, 1087, 1091, 1089, 32] @ strip s) (truthy (l_building l))])"

definition ical_description :: "lesson \<Rightarrow> pystr list" where
  "ical_description l =
     List.map_filter id
       [map_option strip (truthy (l_type l)),
        map_option (\<lambda>s. [1055, 1088, 1077, 1087, 1086, 1076, 1072, 1074, 1072, 1090, 1077, 1083, 1100, 58, 32] @ strip s) (truthy (l_teacher l)),
        map_option (\<lambda>s. [1043, 1088, 1091, 1087, 1087, 1072, 58, 32] @ strip s) (truthy (l_subgroup l))]"

definition event_uid :: "lesson \<Rightarrow> pystr" where
  "event_uid l =
     take 32 (sha256_hex (case truthy (l_source_id l) of
         Some i \<Rightarrow> i
       | None \<Rightarrow> join [124] [iso_date (l_day l), casefold (l_subject l), casefold (subgroup_text l)]))
     @ u ''@pyatnitsa-schedule''"

definition event_lines :: "lesson \<Rightarrow> pydt \<Rightarrow> int \<Rightarrow> pystr list" where
  "event_lines l stamp sequence =
     (let moment = ical_stamp (dt_date stamp) (dt_time stamp) @ u ''Z'' in
      [u ''BEGIN:VEVENT'', u ''UID:'' @ event_uid l, u ''DTSTAMP:'' @ moment, u ''LAST-MODIFIED:'' @ moment,
       u ''SEQUENCE:'' @ show_int sequence,
       u ''DTSTART;TZID=Europe/Moscow:'' @ ical_stamp (l_day l) (l_starts_at l),
       u ''DTEND;TZID=Europe/Moscow:'' @ ical_stamp (l_day l) (l_ends_at l),
       u ''SUMMARY:'' @ ical_escape (strip (l_subject l))]
      @ (if ical_location l = [] then [] else [u ''LOCATION:'' @ ical_escape (ical_location l)])
      @ (if ical_description l = [] then [] else [u ''DESCRIPTION:'' @ ical_escape (join [10] (ical_description l))])
      @ [u ''TRANSP:OPAQUE'', u ''END:VEVENT''])"

definition product_id :: pystr where
  "product_id = [45, 47, 47, 1055, 1103, 1090, 1085, 1080, 1094, 1072, 47, 47, 1056, 1072, 1089, 1087,
      1080, 1089, 1072, 1085, 1080, 1077, 32, 1057, 1055, 1073, 1043, 1040, 1057, 1059,
      47, 47, 82, 85]"

definition calendar_head :: "envelope \<Rightarrow> pystr list" where
  "calendar_head e =
     [u ''BEGIN:VCALENDAR'', u ''VERSION:2.0'', u ''PRODID:'' @ ical_escape product_id, u ''CALSCALE:GREGORIAN'',
      u ''METHOD:PUBLISH'', u ''X-WR-CALNAME:'' @ ical_escape ([1055, 1103, 1090, 1085, 1080, 1094, 1072, 32, 183, 32] @ ev_group_key e),
      u ''X-WR-TIMEZONE:Europe/Moscow'', u ''REFRESH-INTERVAL;VALUE=DURATION:PT1H'', u ''X-PUBLISHED-TTL:PT1H'',
      u ''BEGIN:VTIMEZONE'', u ''TZID:Europe/Moscow'', u ''X-LIC-LOCATION:Europe/Moscow'', u ''BEGIN:STANDARD'',
      u ''TZOFFSETFROM:+0300'', u ''TZOFFSETTO:+0300'', u ''TZNAME:MSK'', u ''DTSTART:19700101T000000'',
      u ''END:STANDARD'', u ''END:VTIMEZONE'']"

definition calendar_lines :: "envelope \<Rightarrow> pystr list" where
  "calendar_lines e =
     (let stamp = utc_at (instant_of (ev_fetched_at e)) in
      calendar_head e
      @ concat (map (\<lambda>l. event_lines l stamp (unix_seconds (instant_of stamp)))
          (sort_key (\<lambda>l. (l_day l, l_starts_at l, casefold (l_subject l),
             case l_source_id l of None \<Rightarrow> [] | Some i \<Rightarrow> i)) (ev_lessons e)))
      @ [u ''END:VCALENDAR''])"

definition render_icalendar :: "envelope \<Rightarrow> pystr" where
  "render_icalendar e = join [13, 10] (map (fold_line 75) (calendar_lines e)) @ [13, 10]"

section \<open>Folding keeps the line\<close>

lemma utf8_width_range: "1 \<le> utf8_width c \<and> utf8_width c \<le> 4"
  by (simp add: utf8_width_def)

lemma utf8_length_simps [simp]:
  "utf8_length [] = 0" "utf8_length (c # s) = utf8_width c + utf8_length s"
  "utf8_length (s @ t) = utf8_length s + utf8_length t"
  by (simp_all add: utf8_length_def)

text \<open>A chunk fits: the first in \<open>limit\<close>, the others with their leading space.\<close>

fun chunks_fit :: "nat \<Rightarrow> pystr list \<Rightarrow> bool" where
  "chunks_fit limit [] = True"
| "chunks_fit limit (c # cs) \<longleftrightarrow> utf8_length c \<le> limit \<and> list_all (\<lambda>d. utf8_length d + 1 \<le> limit) cs"

lemma chunks_fit_snoc:
  "chunks_fit limit (cs @ [d]) \<longleftrightarrow> chunks_fit limit cs \<and> utf8_length d + (if cs = [] then 0 else 1) \<le> limit"
  by (cases cs) auto

definition folding_ok :: "nat \<Rightarrow> pystr \<Rightarrow> folding \<Rightarrow> bool" where
  "folding_ok limit v = (\<lambda>(chunks, cur, cur_bytes).
     concat (chunks @ [cur]) = v \<and> cur_bytes = utf8_length cur \<and> chunks_fit limit (chunks @ [cur]))"

lemma fold_step_ok:
  assumes "folding_ok limit v f" and "5 \<le> limit"
  shows "folding_ok limit (v @ [c]) (fold_step limit f c)"
proof -
  obtain chunks cur cur_bytes where f: "f = (chunks, cur, cur_bytes)" by (rule prod_cases3)
  note w = utf8_width_range [of c]
  have ok: "concat (chunks @ [cur]) = v" "cur_bytes = utf8_length cur" "chunks_fit limit (chunks @ [cur])"
    using assms(1) by (simp_all add: folding_ok_def f)
  show ?thesis
  proof (cases "cur \<noteq> [] \<and> (if chunks = [] then limit else limit - 1) < cur_bytes + utf8_width c")
    case True
    then have "fold_step limit f c = (chunks @ [cur], [c], utf8_width c)"
      by (simp add: fold_step_def f Let_def)
    moreover have "chunks_fit limit ((chunks @ [cur]) @ [[c]])"
      using ok(3) w assms(2) by (subst chunks_fit_snoc) simp
    ultimately show ?thesis using ok by (simp add: folding_ok_def)
  next
    case False
    then have step: "fold_step limit f c = (chunks, cur @ [c], cur_bytes + utf8_width c)"
      by (auto simp: fold_step_def f Let_def)
    have "chunks_fit limit chunks" using ok(3) by (simp add: chunks_fit_snoc)
    moreover have "utf8_length (cur @ [c]) + (if chunks = [] then 0 else 1) \<le> limit"
      using False ok(2) w assms(2) by (cases "cur = []") (auto split: if_splits)
    ultimately have "chunks_fit limit (chunks @ [cur @ [c]])" by (simp add: chunks_fit_snoc)
    then show ?thesis using ok(1,2) by (simp add: folding_ok_def step)
  qed
qed

lemma fold_chunks_ok:
  assumes "5 \<le> limit"
  shows "concat (fold_chunks limit v) = v \<and> chunks_fit limit (fold_chunks limit v)"
proof -
  have "folding_ok limit v (foldl (fold_step limit) ([], [], 0) v)"
  proof (induction v rule: rev_induct)
    case (snoc c v)
    then show ?case using fold_step_ok [OF _ assms] by simp
  qed (simp add: folding_ok_def)
  then show ?thesis by (auto simp: folding_ok_def fold_chunks_def split: prod.splits)
qed

text \<open>
  Reading a feed as RFC 5545 has it: a CRLF followed by a space is dropped, what is left is
  broken at CRLF.
\<close>

fun physical_lines :: "pystr \<Rightarrow> pystr list" where
  "physical_lines [] = [[]]"
| "physical_lines [c] = [[c]]"
| "physical_lines (c # d # s) =
     (if c = 13 \<and> d = 10 then [] # physical_lines s
      else case physical_lines (d # s) of l # ls \<Rightarrow> (c # l) # ls | [] \<Rightarrow> [[c]])"

definition unfold_text :: "pystr \<Rightarrow> pystr" where
  "unfold_text s = replace_text [13, 10, 32] [] s"

end
