(* ===== verification/ICalProperties.thy ===== *)
theory ICalProperties
  imports ICal
begin

text \<open>
  The calendar feed as a client reads it: every physical line is at most 75 octets, and
  unfolding gives back the content lines.
\<close>

section \<open>Texts without line feeds\<close>

definition lf_free :: "pystr \<Rightarrow> bool" where
  "lf_free s \<longleftrightarrow> 10 \<notin> set s"

lemma lf_free_simps [simp]:
  "lf_free []" "lf_free (c # s) \<longleftrightarrow> c \<noteq> 10 \<and> lf_free s" "lf_free (s @ t) \<longleftrightarrow> lf_free s \<and> lf_free t"
  by (auto simp: lf_free_def)

lemma lf_free_show_nat [simp]: "lf_free (show_nat n)"
  using show_nat_digits [of 10 n] by (auto simp: lf_free_def)

lemma lf_free_show_int [simp]: "lf_free (show_int i)"
  by (simp add: show_int_def)

lemma lf_free_pad0 [simp]: "lf_free (pad0 w i)"
  using lf_free_show_int [of i] by (auto simp: pad0_def Let_def lf_free_def)

lemma lf_free_sha [simp]: "lf_free (take n (sha256_hex s))"
proof -
  have "10 \<notin> set (hex_word x)" for x by (auto simp: hex_word_def hex_digit_def)
  then have "10 \<notin> set (sha256_hex s)" by (auto simp: sha256_hex_def)
  then show ?thesis using set_take_subset [of n "sha256_hex s"] by (auto simp: lf_free_def)
qed

lemma lf_free_replace_one: "lf_free s \<Longrightarrow> lf_free new \<Longrightarrow> lf_free (replace_text [c] new s)"
  by (auto simp: replace_text_one lf_free_def split: if_splits)

lemma lf_free_replace_lf: "lf_free new \<Longrightarrow> lf_free (replace_text [10] new s)"
  by (auto simp: replace_text_one lf_free_def split: if_splits)

lemma lf_free_ical_escape [simp]: "lf_free (ical_escape v)"
  unfolding ical_escape_def by (intro lf_free_replace_one lf_free_replace_lf) simp_all

section \<open>Content lines\<close>

definition content_line :: "pystr \<Rightarrow> bool" where
  "content_line l \<longleftrightarrow> l \<noteq> [] \<and> hd l \<noteq> 32 \<and> lf_free l"

lemma lf_free_ical_stamp [simp]: "lf_free (ical_stamp d t)"
  by (simp add: ical_stamp_def ical_date_def ical_clock_def split: prod.split)

lemma lf_free_event_uid [simp]: "lf_free (event_uid l)"
  by (simp add: event_uid_def)

lemma event_lines_content: "list_all content_line (event_lines l stamp sequence)"
  by (simp add: event_lines_def Let_def content_line_def)

lemma calendar_lines_content: "list_all content_line (calendar_lines e)"
proof -
  have "list_all content_line (concat (map (\<lambda>l. event_lines l stamp n) ls))" for stamp n ls
    using event_lines_content by (induction ls) auto
  then show ?thesis by (simp add: calendar_lines_def Let_def calendar_head_def content_line_def)
qed

section \<open>Breaking and unfolding\<close>

definition line_break :: pystr where
  "line_break = [13, 10]"

lemma physical_lines_step:
  "lf_free l \<Longrightarrow> physical_lines (l @ 13 # 10 # s) = l # physical_lines s"
proof (induction l rule: physical_lines.induct)
  case (3 c d l)
  then show ?case by (cases l) auto
qed auto

lemma physical_lines_all:
  "list_all lf_free ls \<Longrightarrow> physical_lines (concat (map (\<lambda>l. l @ line_break) ls)) = ls @ [[]]"
  by (induction ls) (simp_all add: physical_lines_step line_break_def)

text \<open>A folded line and its break are the physical lines of its chunks.\<close>

definition folded_lines :: "nat \<Rightarrow> pystr \<Rightarrow> pystr list" where
  "folded_lines limit v = (case fold_chunks limit v of [] \<Rightarrow> [] | c # cs \<Rightarrow> c # map ((#) 32) cs)"

lemma join_chunks:
  "join [13, 10, 32] (c # cs) @ line_break = concat (map (\<lambda>l. l @ line_break) (c # map ((#) 32) cs))"
  by (induction cs arbitrary: c) (simp_all add: line_break_def)

lemma fold_chunks_Cons: "fold_chunks limit v \<noteq> []"
  by (simp add: fold_chunks_def split: prod.split)

lemma fold_line_lines: "fold_line limit v @ line_break = concat (map (\<lambda>l. l @ line_break) (folded_lines limit v))"
  using fold_chunks_Cons [of limit v] join_chunks by (cases "fold_chunks limit v") (simp_all add: fold_line_def folded_lines_def)

lemma folded_lines_ok:
  assumes "5 \<le> limit" and "lf_free v"
  shows "list_all (\<lambda>l. utf8_length l \<le> limit) (folded_lines limit v) \<and> list_all lf_free (folded_lines limit v)"
proof -
  obtain c cs where chunks: "fold_chunks limit v = c # cs" using fold_chunks_Cons by (cases "fold_chunks limit v") auto
  have ok: "concat (c # cs) = v" "utf8_length c \<le> limit" "list_all (\<lambda>d. utf8_length d + 1 \<le> limit) cs"
    using fold_chunks_ok [OF assms(1), of v] chunks by auto
  have "list_all lf_free (c # cs)" using assms(2) ok(1) by (auto simp: lf_free_def list_all_iff)
  then show ?thesis
    using ok(2,3) by (auto simp: folded_lines_def chunks list_all_iff utf8_width_def)
qed

lemma join_breaks: "ls \<noteq> [] \<Longrightarrow> join [13, 10] ls @ line_break = concat (map (\<lambda>l. l @ line_break) ls)"
  by (induction ls rule: induct_list012) (simp_all add: line_break_def)

lemma feed_text: "render_icalendar e = concat (map (\<lambda>l. fold_line 75 l @ line_break) (calendar_lines e))"
proof -
  have "map (fold_line 75) (calendar_lines e) \<noteq> []" by (simp add: calendar_lines_def Let_def)
  from join_breaks [OF this] show ?thesis by (simp add: render_icalendar_def line_break_def o_def)
qed

lemma concat_map_concat: "concat (map g (concat (map h xs))) = concat (map (\<lambda>x. concat (map g (h x))) xs)"
  by (induction xs) simp_all

text \<open>
  every physical line of the feed is at most 75 octets long in UTF-8, whatever the
  timetable's texts hold, as RFC 5545 asks.
\<close>

theorem calendar_feed_bounded:
  "list_all (\<lambda>l. utf8_length l \<le> 75) (physical_lines (render_icalendar e))"
proof -
  let ?ls = "concat (map (folded_lines 75) (calendar_lines e))"
  have lines: "list_all (\<lambda>l. utf8_length l \<le> 75) ?ls \<and> list_all lf_free ?ls"
    using calendar_lines_content [of e] folded_lines_ok [of 75]
    by (fastforce simp: list_all_iff content_line_def)
  have "render_icalendar e = concat (map (\<lambda>l. l @ line_break) ?ls)"
    by (simp only: feed_text fold_line_lines concat_map_concat)
  then show ?thesis using lines physical_lines_all [of ?ls] by simp
qed

section \<open>Unfolding\<close>

lemma sub_all_prev: "sub_all (\<lambda>_. f) prev s = sub_all (\<lambda>_. f) None s"
  by (cases s) simp_all

lemma unfold_text_Nil [simp]: "unfold_text [] = []"
  by (simp add: unfold_text_def replace_text_def)

lemma unfold_text_fold: "unfold_text (13 # 10 # 32 # s) = unfold_text s"
  unfolding unfold_text_def replace_text_def
  by (subst (2) sub_all_prev [symmetric, where prev = "Some 32"]) (simp add: numeral_3_eq_3)

lemma unfold_text_keep: "\<not> starts_with [13, 10, 32] (c # s) \<Longrightarrow> unfold_text (c # s) = c # unfold_text s"
  unfolding unfold_text_def replace_text_def
  by (subst (2) sub_all_prev [symmetric, where prev = "Some c"]) (simp del: starts_with.simps)

lemmas unfold_text_simps = unfold_text_Nil unfold_text_fold unfold_text_keep

lemma unfold_text_skip:
  "lf_free l \<Longrightarrow> s = [] \<or> hd s \<noteq> 10 \<Longrightarrow> unfold_text (l @ s) = l @ unfold_text s"
proof (induction l)
  case (Cons c l)
  then have "\<not> starts_with [13, 10, 32] (c # l @ s)" by (cases l; cases s) auto
  then show ?case using Cons by (simp add: unfold_text_simps)
qed simp

lemma unfold_chunks:
  "list_all lf_free (c # cs) \<Longrightarrow> hd s \<noteq> 10 \<Longrightarrow>
     unfold_text (join [13, 10, 32] (c # cs) @ s) = concat (c # cs) @ unfold_text s"
proof (induction cs arbitrary: c)
  case Nil
  then show ?case by (simp add: unfold_text_skip)
next
  case (Cons d cs)
  then show ?case by (simp add: unfold_text_skip unfold_text_simps)
qed

lemma unfold_fold_line:
  assumes "lf_free v" and "hd s \<noteq> 10"
  shows "unfold_text (fold_line 75 v @ s) = v @ unfold_text s"
proof -
  obtain c cs where chunks: "fold_chunks 75 v = c # cs" using fold_chunks_Cons by (cases "fold_chunks 75 v") auto
  have v: "concat (c # cs) = v" using fold_chunks_ok [of 75 v] chunks by simp
  then have "list_all lf_free (c # cs)" using assms(1) by (auto simp: lf_free_def list_all_iff)
  from unfold_chunks [OF this assms(2)] show ?thesis by (simp only: fold_line_def chunks v)
qed

lemma unfold_break:
  "s = [] \<or> hd s \<noteq> 32 \<Longrightarrow> unfold_text (line_break @ s) = line_break @ unfold_text s"
  by (cases s) (auto simp: line_break_def unfold_text_simps)

lemma fold_line_starts: "content_line v \<Longrightarrow> hd (fold_line 75 v @ line_break) \<notin> {10, 32}"
proof -
  assume v: "content_line v"
  obtain c cs where chunks: "fold_chunks 75 v = c # cs" using fold_chunks_Cons by (cases "fold_chunks 75 v") auto
  have "concat (c # cs) = v" using fold_chunks_ok [of 75 v] chunks by simp
  then have "c \<noteq> [] \<Longrightarrow> hd c = hd v" by auto
  moreover have "hd v \<notin> {10, 32}" using v by (cases v) (auto simp: content_line_def)
  ultimately show ?thesis
    by (cases c; cases cs) (auto simp: fold_line_def chunks line_break_def)
qed

lemma unfold_feed:
  "list_all content_line ls \<Longrightarrow>
     unfold_text (concat (map (\<lambda>l. fold_line 75 l @ line_break) ls)) = concat (map (\<lambda>l. l @ line_break) ls)"
proof (induction ls)
  case (Cons l ls)
  let ?rest = "concat (map (\<lambda>l. fold_line 75 l @ line_break) ls)"
  have "?rest = [] \<or> hd ?rest \<noteq> 32"
  proof (cases ls)
    case (Cons m ms)
    then have "hd (fold_line 75 m @ line_break) \<noteq> 32" using fold_line_starts [of m] Cons.prems by simp
    then show ?thesis using Cons by (cases "fold_line 75 m") (auto simp: line_break_def)
  qed simp
  moreover have "lf_free l" using Cons.prems by (simp add: content_line_def)
  ultimately show ?case
    using Cons unfold_fold_line [of l "line_break @ ?rest"] unfold_break [of ?rest] by (simp add: line_break_def)
qed simp

text \<open>
  C37: a client that unfolds the feed and breaks it at line ends reads exactly the content lines
  of the calendar: folding never splits, joins or drops a line, and no text of the timetable can
  start a line of its own.
\<close>

theorem calendar_feed_reads_back:
  "physical_lines (unfold_text (render_icalendar e)) = calendar_lines e @ [[]]"
proof -
  have "list_all lf_free (calendar_lines e)"
    using calendar_lines_content [of e] by (simp add: list_all_iff content_line_def)
  then show ?thesis
    using unfold_feed [OF calendar_lines_content] physical_lines_all by (simp add: feed_text)
qed

end
