(* ===== verification/SpbGasu.thy ===== *)
theory SpbGasu
  imports DomainSchedule Json
begin

text \<open>
  \<open>schedule/spbgasu.py\<close>: the public timetable of the university. The page's HTML is given
  as the events of Python's \<open>HTMLParser\<close>, a parameter; the HTTP client is a function from
  the number of the request and the session token to the reply.
\<close>

section \<open>Weekly template\<close>

datatype parity = Numerator | Denominator

definition parity_value :: "parity \<Rightarrow> pystr" where
  "parity_value p = (case p of Numerator \<Rightarrow> [1095, 1080, 1089, 1083, 46] | Denominator \<Rightarrow> [1079, 1085, 1072, 1084, 46])"

record weekly_lesson =
  wl_weekday :: int
  wl_slot :: int
  wl_parity :: parity
  wl_subject :: pystr
  wl_group :: "pystr option"
  wl_auditorium :: "pystr option"
  wl_professor :: "pystr option"
  wl_source_date :: "pystr option"
  wl_occurrence :: nat

record weekly_schedule =
  ws_group_key :: pystr
  ws_lessons :: "weekly_lesson list"

record bootstrap =
  bs_current_week :: int
  bs_groups :: "pystr list"

datatype gasu_error =
    Gasu_unavailable
  | Gasu_protocol
  | Gasu_group_not_found
  | Gasu_value_error
  | Gasu_lesson schedule_error
  | Gasu_escaped

text \<open>
  The errors that are \<open>SpbGasuError\<close>s; the others are plain \<open>ValueError\<close>s, and \<open>Gasu_escaped\<close> stands
  for whatever the HTTP library raises that the client does not catch.
\<close>

definition is_source_error :: "gasu_error \<Rightarrow> bool" where
  "is_source_error e \<longleftrightarrow> e \<in> {Gasu_unavailable, Gasu_protocol, Gasu_group_not_found}"

definition weekday_index :: "(pystr \<times> int) list" where
  "weekday_index =
     [([1087, 1086, 1085, 1077, 1076, 1077, 1083, 1100, 1085, 1080, 1082], 0), ([1074, 1090, 1086, 1088, 1085, 1080, 1082], 1), ([1089, 1088, 1077, 1076, 1072], 2), ([1095, 1077, 1090, 1074, 1077, 1088, 1075], 3), ([1087, 1103, 1090, 1085, 1080, 1094, 1072], 4),
      ([1089, 1091, 1073, 1073, 1086, 1090, 1072], 5), ([1074, 1086, 1089, 1082, 1088, 1077, 1089, 1077, 1085, 1100, 1077], 6)]"

definition bell_schedule :: "(int \<times> int \<times> int) list" where
  "bell_schedule =
     [(1, 9 * hour, 10 * hour + 30 * minute), (2, 10 * hour + 45 * minute, 12 * hour + 15 * minute),
      (3, 12 * hour + 30 * minute, 14 * hour), (4, 15 * hour, 16 * hour + 30 * minute),
      (5, 16 * hour + 45 * minute, 18 * hour + 15 * minute), (6, 18 * hour + 30 * minute, 20 * hour),
      (7, 20 * hour + 15 * minute, 21 * hour + 45 * minute)]"

definition parse_public_date :: "pystr option \<Rightarrow> date option" where
  "parse_public_date value =
     (case value of None \<Rightarrow> None
      | Some v \<Rightarrow>
          if v = [] then None
          else (case strptime_ymd (strip v) of Some d \<Rightarrow> Some d | None \<Rightarrow> strptime_dmy (strip v)))"

definition gasu_weekday :: "pystr \<Rightarrow> gasu_error + int" where
  "gasu_weekday value =
     (case map_of weekday_index (rstrip_by (\<lambda>c. c = 58) (normalize_text (Some value))) of
        None \<Rightarrow> Inl Gasu_protocol | Some d \<Rightarrow> Inr d)"

definition positive_int :: "pystr \<Rightarrow> gasu_error + int" where
  "positive_int value =
     (case parse_int value of None \<Rightarrow> Inl Gasu_protocol
      | Some n \<Rightarrow> if n \<le> 0 then Inl Gasu_protocol else Inr n)"

section \<open>The JSON form of the template\<close>

definition as_mapping :: "json \<Rightarrow> gasu_error + (pystr \<times> json) list" where
  "as_mapping j = (case j of JObj kvs \<Rightarrow> Inr kvs | _ \<Rightarrow> Inl Gasu_protocol)"

definition concat_results :: "('e + 'a list) list \<Rightarrow> 'e + 'a list" where
  "concat_results rs = and_then (collect rs) (\<lambda>xss. Inr (concat xss))"

definition parse_entry ::
  "int \<Rightarrow> int \<Rightarrow> parity \<Rightarrow> nat \<Rightarrow> json \<Rightarrow> gasu_error + weekly_lesson list" where
  "parse_entry wd slot par occurrence entry =
     and_then (as_mapping entry) (\<lambda>vals.
     case jstring (jget vals (u ''LESSON'')) of
       None \<Rightarrow> Inr []
     | Some subject \<Rightarrow>
         Inr [\<lparr>wl_weekday = wd, wl_slot = slot, wl_parity = par, wl_subject = subject,
               wl_group = jstring (jget vals (u ''GROUP'')),
               wl_auditorium = jstring (jget vals (u ''AUDITORIUM'')),
               wl_professor = jstring (jget vals (u ''PROFESSOR'')),
               wl_source_date = jstring (jget vals (u ''DATE'')), wl_occurrence = occurrence\<rparr>])"

definition parse_slot :: "int \<Rightarrow> pystr \<times> json \<Rightarrow> gasu_error + weekly_lesson list" where
  "parse_slot wd = (\<lambda>(raw_slot, raw_parities).
     and_then (positive_int raw_slot) (\<lambda>slot.
     and_then (as_mapping raw_parities) (\<lambda>parities.
     concat_results (map (\<lambda>par.
       let raw = jget parities (parity_value par)
       in if raw \<in> {JNull, JStr [], JArr []} then Inr []
          else
            let entries = (case raw of JArr es \<Rightarrow> es | _ \<Rightarrow> [raw])
            in concat_results (map (\<lambda>(k, e). parse_entry wd slot par k e) (enumerate 0 entries)))
       [Numerator, Denominator]))))"

definition parse_day :: "pystr \<times> json \<Rightarrow> gasu_error + weekly_lesson list" where
  "parse_day = (\<lambda>(raw_day, raw_slots).
     and_then (gasu_weekday raw_day) (\<lambda>wd.
     and_then (as_mapping raw_slots) (\<lambda>slots. concat_results (map (parse_slot wd) slots))))"

definition parse_weekly_json :: "json \<Rightarrow> pystr \<Rightarrow> gasu_error + weekly_schedule" where
  "parse_weekly_json payload group_key =
     and_then (as_mapping payload) (\<lambda>root.
     let wrapped = jget root (u ''R'') in
     and_then (if wrapped \<noteq> JNull then as_mapping wrapped else Inr root) (\<lambda>schedule_root.
     and_then (concat_results (map parse_day schedule_root)) (\<lambda>lessons.
     Inr \<lparr>ws_group_key = group_key, ws_lessons = lessons\<rparr>)))"

section \<open>The HTML form\<close>

datatype html = Text_node pystr | Node pystr "(pystr \<times> pystr) list" "html list"

datatype html_event =
    Start_tag pystr "(pystr \<times> pystr option) list"
  | Start_end_tag pystr "(pystr \<times> pystr option) list"
  | End_tag pystr
  | Data pystr

text \<open>The stack of open elements, innermost first; its last element is the root.\<close>

type_synonym open_node = "pystr \<times> (pystr \<times> pystr) list \<times> html list"

definition void_tags :: "pystr list" where
  "void_tags = [u ''br'', u ''img'', u ''input'', u ''link'', u ''meta'', u ''hr'']"

fun append_child :: "html \<Rightarrow> open_node list \<Rightarrow> open_node list" where
  "append_child h [] = []"
| "append_child h ((tag, attrs, children) # stack) = (tag, attrs, children @ [h]) # stack"

text \<open>\<open>del stack[index:]\<close>: the elements down to the position are closed into their parents.\<close>

fun close_to :: "nat \<Rightarrow> open_node list \<Rightarrow> open_node list" where
  "close_to 0 stack = stack"
| "close_to (Suc n) ((tag, attrs, children) # stack) =
     close_to n (append_child (Node tag attrs children) stack)"
| "close_to (Suc n) [] = []"

definition attr_values :: "(pystr \<times> pystr option) list \<Rightarrow> (pystr \<times> pystr) list" where
  "attr_values attrs = map (\<lambda>(k, v). (k, case v of None \<Rightarrow> [] | Some x \<Rightarrow> x)) attrs"

fun html_step :: "open_node list \<Rightarrow> html_event \<Rightarrow> open_node list" where
  "html_step stack (Start_tag tag attrs) =
     (if tag \<in> set void_tags then append_child (Node tag (attr_values attrs) []) stack
      else (tag, attr_values attrs, []) # stack)"
| "html_step stack (Start_end_tag tag attrs) = append_child (Node tag (attr_values attrs) []) stack"
| "html_step stack (End_tag tag) =
     (case List.find (\<lambda>k. fst (stack ! k) = tag) [0..<length stack - 1] of
        None \<Rightarrow> stack | Some k \<Rightarrow> close_to (k + 1) stack)"
| "html_step stack (Data text) = append_child (Text_node text) stack"

definition html_children :: "html_event list \<Rightarrow> html list" where
  "html_children events =
     (let stack = foldl html_step [(u ''root'', [], [])] events
      in case close_to (length stack - 1) stack of (tag, attrs, children) # _ \<Rightarrow> children | [] \<Rightarrow> [])"

definition has_class :: "pystr \<Rightarrow> (pystr \<times> pystr) list \<Rightarrow> bool" where
  "has_class c attrs \<longleftrightarrow>
     c \<in> set (words (case map_of (rev attrs) (u ''class'') of None \<Rightarrow> [] | Some v \<Rightarrow> v))"

fun nodes_with_class :: "pystr \<Rightarrow> html list \<Rightarrow> (pystr \<times> html list) list" where
  "nodes_with_class c [] = []"
| "nodes_with_class c (Text_node t # hs) = nodes_with_class c hs"
| "nodes_with_class c (Node tag attrs kids # hs) =
     (if has_class c attrs then [(tag, kids)] else []) @ nodes_with_class c kids @ nodes_with_class c hs"

fun first_node_with_class :: "pystr \<Rightarrow> html list \<Rightarrow> (pystr \<times> html list) option" where
  "first_node_with_class c [] = None"
| "first_node_with_class c (Text_node t # hs) = first_node_with_class c hs"
| "first_node_with_class c (Node tag attrs kids # hs) =
     (if has_class c attrs then Some (tag, kids)
      else case first_node_with_class c kids of Some n \<Rightarrow> Some n | None \<Rightarrow> first_node_with_class c hs)"

fun texts :: "html list \<Rightarrow> pystr" where
  "texts [] = []"
| "texts (Text_node t # hs) = t @ texts hs"
| "texts (Node tag attrs kids # hs) = texts kids @ texts hs"

definition node_text :: "html list \<Rightarrow> pystr" where
  "node_text kids = join [32] (words (texts kids))"

fun lesson_slot :: "pystr \<Rightarrow> int option" where
  "lesson_slot [] = None"
| "lesson_slot (c # cs) =
     (if is_digit c \<and> ci_prefix [1087, 1072, 1088, 1072] (dropWhile is_space (dropWhile is_digit (c # cs)))
      then Some (int (digits_value 0 (takeWhile is_digit (c # cs))))
      else lesson_slot cs)"

definition column :: "pystr list \<Rightarrow> nat \<Rightarrow> pystr option" where
  "column columns i =
     (if i < length columns \<and> strip (columns ! i) \<noteq> [] then Some (strip (columns ! i)) else None)"

definition parse_block ::
  "date \<Rightarrow> int \<Rightarrow> parity \<Rightarrow> nat \<times> pystr \<times> html list \<Rightarrow> gasu_error + weekly_lesson list" where
  "parse_block day slot par = (\<lambda>(occurrence, tag, kids).
     let columns = map (\<lambda>h. case h of Node t a ks \<Rightarrow> node_text ks | Text_node _ \<Rightarrow> [])
           (filter (\<lambda>h. case h of Node t a ks \<Rightarrow> t = u ''div'' | Text_node _ \<Rightarrow> False) kids);
         subject = (case first_node_with_class (u ''lesson-name'') kids of
                      None \<Rightarrow> [] | Some (t, ks) \<Rightarrow> node_text ks)
     in if subject = [] then Inl Gasu_protocol
        else Inr [\<lparr>wl_weekday = weekday day, wl_slot = slot, wl_parity = par, wl_subject = subject,
                   wl_group = column columns 1, wl_auditorium = column columns 2,
                   wl_professor = column columns 3, wl_source_date = Some (iso_date day),
                   wl_occurrence = occurrence\<rparr>])"

definition parse_lesson_node :: "date \<Rightarrow> parity \<Rightarrow> pystr \<times> html list \<Rightarrow> gasu_error + weekly_lesson list" where
  "parse_lesson_node day par = (\<lambda>(tag, kids).
     case lesson_slot (case first_node_with_class (u ''day_name'') kids of
                         None \<Rightarrow> [] | Some (t, ks) \<Rightarrow> node_text ks) of
       None \<Rightarrow> Inl Gasu_protocol
     | Some slot \<Rightarrow>
         let blocks = nodes_with_class (u ''lesson_block'') kids
         in if blocks = [] then Inl Gasu_protocol
            else concat_results (map (parse_block day slot par) (enumerate 0 blocks)))"

definition parse_day_node :: "parity \<Rightarrow> pystr \<times> html list \<Rightarrow> gasu_error + weekly_lesson list" where
  "parse_day_node par = (\<lambda>(tag, kids).
     let day_lessons = nodes_with_class (u ''lesson'') kids
     in if day_lessons = [] then Inr []
        else case first_node_with_class (u ''date'') kids of
          None \<Rightarrow> Inl Gasu_protocol
        | Some (t, ks) \<Rightarrow>
            (case parse_public_date (Some (node_text ks)) of
               None \<Rightarrow> Inl Gasu_protocol
             | Some day \<Rightarrow> concat_results (map (parse_lesson_node day par) day_lessons)))"

definition parse_week_node :: "pystr \<times> html list \<Rightarrow> gasu_error + weekly_lesson list" where
  "parse_week_node = (\<lambda>(tag, kids).
     if nodes_with_class (u ''lesson'') kids = [] then Inr []
     else
       let week_text = (case first_node_with_class (u ''time'') kids of
                          None \<Rightarrow> [] | Some (t, ks) \<Rightarrow> casefold (node_text ks));
           has_numerator = contains [1095, 1080, 1089, 1083, 1080, 1090, 1077, 1083, 1100] week_text;
           has_denominator = contains [1079, 1085, 1072, 1084, 1077, 1085, 1072, 1090, 1077, 1083, 1100] week_text
       in if has_numerator = has_denominator then Inl Gasu_protocol
          else concat_results (map (parse_day_node (if has_numerator then Numerator else Denominator))
                 (nodes_with_class (u ''days'') kids)))"

definition parse_schedule_html :: "html_event list \<Rightarrow> pystr \<Rightarrow> gasu_error + weekly_schedule" where
  "parse_schedule_html events group_key =
     and_then (concat_results (map parse_week_node (nodes_with_class (u ''item'') (html_children events))))
       (\<lambda>lessons. Inr \<lparr>ws_group_key = group_key, ws_lessons = lessons\<rparr>)"

section \<open>One concrete week\<close>

definition lesson_types :: "(pystr \<times> pystr) list" where
  "lesson_types =
     [([1083, 46], [1051, 1077, 1082, 1094, 1080, 1103]), ([1087, 1088, 46], [1055, 1088, 1072, 1082, 1090, 1080, 1082, 1072]), ([1083, 1072, 1073, 46], [1051, 1072, 1073, 1086, 1088, 1072, 1090, 1086, 1088, 1085, 1072, 1103]), ([1089, 1077, 1084, 46], [1057, 1077, 1084, 1080, 1085, 1072, 1088])]"

text \<open>The type in parentheses at the end of a subject, and what precedes it.\<close>

definition split_lesson_type :: "pystr \<Rightarrow> pystr \<times> pystr option" where
  "split_lesson_type subject =
     (let r = rstrip_by is_space subject;
          fits = (\<lambda>(mark, label). let n = length mark + 2
                    in n \<le> length r \<and> r ! (length r - n) = 40 \<and> last r = 41
                       \<and> ci_prefix mark (drop (length r - n + 1) r))
      in case List.find fits lesson_types of
           None \<Rightarrow> (strip subject, None)
         | Some (mark, label) \<Rightarrow> (strip (take (length r - (length mark + 2)) r), Some label))"

definition nonempty :: "pystr \<Rightarrow> pystr option" where
  "nonempty s = (if s = [] then None else Some s)"

definition split_auditorium :: "pystr option \<Rightarrow> pystr option \<times> pystr option" where
  "split_auditorium value =
     (case value of None \<Rightarrow> (None, None)
      | Some v \<Rightarrow>
          if v = [] then (None, None)
          else
            let room = takeWhile (\<lambda>c. c \<noteq> 47) v; rest = dropWhile (\<lambda>c. c \<noteq> 47) v
            in (nonempty (strip room),
                case rest of [] \<Rightarrow> None | _ # building \<Rightarrow> nonempty (strip building)))"

definition source_identity :: "pystr \<Rightarrow> date option \<Rightarrow> weekly_lesson \<Rightarrow> pystr" where
  "source_identity group_key source_day raw =
     group_key @ [124] @ (case source_day of None \<Rightarrow> [] | Some d \<Rightarrow> iso_date d) @ [124]
     @ show_int (wl_weekday raw) @ [124] @ show_int (wl_slot raw) @ [124]
     @ parity_value (wl_parity raw) @ [124] @ normalize_text (wl_group raw) @ [124]
     @ show_nat (wl_occurrence raw)"

definition materialize_lesson ::
  "pystr \<Rightarrow> date \<Rightarrow> parity \<Rightarrow> weekly_lesson \<Rightarrow> gasu_error + lesson list" where
  "materialize_lesson group_key monday par raw =
     and_then
       (case wl_source_date raw of
          None \<Rightarrow> Inr None
        | Some s \<Rightarrow>
            if s = [] then Inr None
            else (case parse_public_date (Some s) of None \<Rightarrow> Inl Gasu_protocol | Some d \<Rightarrow> Inr (Some d)))
       (\<lambda>source_day.
     let lesson_day = (case source_day of
           Some d \<Rightarrow> if monday \<le> d \<and> d \<le> monday + 6 then Some d else None
         | None \<Rightarrow> if wl_parity raw = par then Some (monday + wl_weekday raw) else None)
     in case lesson_day of
          None \<Rightarrow> Inr []
        | Some day \<Rightarrow>
            (case map_of bell_schedule (wl_slot raw) of
               None \<Rightarrow> Inl Gasu_protocol
             | Some (starts, ends) \<Rightarrow>
                 let (subject, kind) = split_lesson_type (wl_subject raw);
                     (room, building) = split_auditorium (wl_auditorium raw)
                 in case new_lesson
                      \<lparr>l_day = day, l_starts_at = starts, l_ends_at = ends, l_subject = subject,
                       l_type = kind, l_teacher = wl_professor raw, l_room = room,
                       l_building = building, l_subgroup = wl_group raw,
                       l_source_id = Some (u ''spbgasu:'' @
                         take 20 (sha256_hex (source_identity group_key source_day raw)))\<rparr> of
                      Inl e \<Rightarrow> Inl (Gasu_lesson e)
                    | Inr l \<Rightarrow> Inr [l]))"

definition week_order :: "lesson \<Rightarrow> date \<times> int \<times> pystr" where
  "week_order l = (l_day l, l_starts_at l, l_subject l)"

definition materialize_week :: "weekly_schedule \<Rightarrow> date \<Rightarrow> parity \<Rightarrow> gasu_error + lesson list" where
  "materialize_week schedule monday par =
     and_then (guard (weekday monday = 0) Gasu_value_error) (\<lambda>_.
     and_then (concat_results (map (materialize_lesson (ws_group_key schedule) monday par)
                 (ws_lessons schedule))) (\<lambda>lessons.
     Inr (sort_key week_order lessons)))"

definition parity_for_week :: "int \<Rightarrow> date \<Rightarrow> date \<Rightarrow> gasu_error + parity" where
  "parity_for_week current_week_number current_monday target_monday =
     and_then (guard (weekday current_monday = 0 \<and> weekday target_monday = 0) Gasu_value_error) (\<lambda>_.
     let delta = target_monday - current_monday in
     and_then (guard (delta mod 7 = 0) Gasu_value_error) (\<lambda>_.
     Inr (if (current_week_number + delta div 7) mod 2 = 1 then Numerator else Denominator)))"

section \<open>The page's bootstrap variables\<close>

text \<open>The name of a group in an entry of \<open>window.GROUPS\<close>; empty when there is none.\<close>

definition bootstrap_group_name :: "json \<Rightarrow> pystr" where
  "bootstrap_group_name value =
     (case value of
        JStr s \<Rightarrow> strip s
      | JObj kvs \<Rightarrow>
          (case List.map_filter (\<lambda>k. jstring (jget kvs k))
                  [u ''NAME'', u ''name'', u ''VALUE'', u ''value'', u ''ID'', u ''id''] of
             [] \<Rightarrow> [] | s # _ \<Rightarrow> s)
      | _ \<Rightarrow> [])"

text \<open>What follows \<open>name = \<close> at the start of the text, white space skipped.\<close>

definition assigned :: "pystr \<Rightarrow> pystr \<Rightarrow> pystr option" where
  "assigned name s =
     (if take (length name) s \<noteq> name then None
      else case dropWhile is_space (drop (length name) s) of
        [] \<Rightarrow> None
      | c # rest \<Rightarrow> if c = 61 then Some (dropWhile is_space rest) else None)"

definition ends_statement :: "pystr \<Rightarrow> bool" where
  "ends_statement s \<longleftrightarrow> (case dropWhile is_space s of [] \<Rightarrow> False | c # _ \<Rightarrow> c = 59)"

definition skip_quote :: "pystr \<Rightarrow> pystr" where
  "skip_quote s = (case s of [] \<Rightarrow> [] | c # rest \<Rightarrow> if c = 39 \<or> c = 34 then rest else s)"

definition number_week_at :: "pystr \<Rightarrow> int option" where
  "number_week_at s =
     (case assigned (u ''window.NUMBER_WEEK'') s of
        None \<Rightarrow> None
      | Some t \<Rightarrow>
          let body = skip_quote t; ds = takeWhile is_digit body
          in if ds \<noteq> [] \<and> ends_statement (skip_quote (dropWhile is_digit body))
             then Some (int (digits_value 0 ds)) else None)"

text \<open>The shortest prefix that ends in \<open>]\<close> before a semicolon.\<close>

fun shortest_array :: "pystr \<Rightarrow> pystr option" where
  "shortest_array [] = None"
| "shortest_array (c # cs) =
     (if c = 93 \<and> ends_statement cs then Some [93]
      else map_option (\<lambda>t. c # t) (shortest_array cs))"

definition groups_at :: "pystr \<Rightarrow> pystr option" where
  "groups_at s =
     (case assigned (u ''window.GROUPS'') s of
        None \<Rightarrow> None
      | Some t \<Rightarrow> (case t of [] \<Rightarrow> None
          | c # rest \<Rightarrow> if c = 91 then map_option (\<lambda>a. 91 # a) (shortest_array rest) else None))"

text \<open>\<open>re.search\<close>: the first position at which the pattern matches.\<close>

fun search :: "(pystr \<Rightarrow> 'a option) \<Rightarrow> pystr \<Rightarrow> 'a option" where
  "search rx [] = rx []"
| "search rx (c # cs) =
     (case rx (c # cs) of Some x \<Rightarrow> Some x | None \<Rightarrow> search rx cs)"

text \<open>\<open>loads\<close> is \<open>json.loads\<close>, with \<open>None\<close> for text that is not JSON.\<close>

definition parse_schedule_page_bootstrap ::
  "(pystr \<Rightarrow> json option) \<Rightarrow> pystr \<Rightarrow> gasu_error + bootstrap" where
  "parse_schedule_page_bootstrap loads html =
     (case (search number_week_at html, search groups_at html) of
        (Some week, Some groups) \<Rightarrow>
          (case loads groups of
             Some (JArr items) \<Rightarrow>
               Inr \<lparr>bs_current_week = week,
                    bs_groups = filter (\<lambda>g. g \<noteq> []) (map bootstrap_group_name items)\<rparr>
           | _ \<Rightarrow> Inl Gasu_protocol)
      | _ \<Rightarrow> Inl Gasu_protocol)"

section \<open>The HTTP client\<close>

text \<open>
  What a request brought back: a timeout or an error of the network, which the client catches; another
  exception of the library (a broken protocol, a body that cannot be decompressed), which it does
  not; or a response with its status, the size of its body, the body as \<open>json()\<close> reads it, and the
  header \<open>Retry-After\<close> when it is a number. \<open>json()\<close> raises \<open>JSONDecodeError\<close> for text that is not
  JSON, and \<open>UnicodeDecodeError\<close>, which is not caught, for bytes that are not text.
\<close>

datatype body = Json json | Not_json | Not_text

datatype reply = Network_error | Other_error | Response int nat body "rat option"

definition retryable :: "int list" where
  "retryable = [408, 429, 500, 502, 503, 504]"

text \<open>Seconds.\<close>

definition gasu_retry_delay :: "rat option \<Rightarrow> nat \<Rightarrow> rat" where
  "gasu_retry_delay retry_after attempt =
     (case retry_after of Some v \<Rightarrow> min 30 (max 0 v) | None \<Rightarrow> 2 ^ attempt / 2)"

definition bitrix_csrf_token :: "json \<Rightarrow> pystr option" where
  "bitrix_csrf_token payload =
     (case payload of
        JObj kvs \<Rightarrow>
          (case jget kvs (u ''errors'') of
             JArr errors \<Rightarrow>
               (case concat (map (\<lambda>e. case e of
                    JObj ekvs \<Rightarrow>
                      (case jget ekvs (u ''customData'') of
                         JObj ckvs \<Rightarrow>
                           (case jget ckvs (u ''csrf'') of JStr s \<Rightarrow> if s = [] then [] else [s] | _ \<Rightarrow> [])
                       | _ \<Rightarrow> [])
                  | _ \<Rightarrow> []) errors) of
                  [] \<Rightarrow> None | s # _ \<Rightarrow> Some s)
           | _ \<Rightarrow> None)
      | _ \<Rightarrow> None)"

datatype verdict = Finished "gasu_error + pystr" | Again rat | With_token pystr | Broken

definition read_reply :: "nat \<Rightarrow> nat \<Rightarrow> bool \<Rightarrow> reply \<Rightarrow> verdict" where
  "read_reply max_bytes attempt first reply =
     (case reply of
        Network_error \<Rightarrow> Broken
      | Other_error \<Rightarrow> Finished (Inl Gasu_escaped)
      | Response status nbytes body retry_after \<Rightarrow>
          if status \<in> set retryable then Again (gasu_retry_delay retry_after attempt)
          else if 400 \<le> status \<and> status \<le> 599 then Finished (Inl Gasu_protocol)
          else if max_bytes < nbytes then Finished (Inl Gasu_protocol)
          else (case body of
             Not_text \<Rightarrow> Finished (Inl Gasu_escaped)
           | Not_json \<Rightarrow> Finished (Inl Gasu_protocol)
           | Json payload \<Rightarrow>
               let kvs = (case payload of JObj kvs \<Rightarrow> kvs | _ \<Rightarrow> [])
               in if is_obj payload \<and> jget kvs (u ''status'') = JStr (u ''success'')
                  then Finished (and_then (as_mapping (jget kvs (u ''data''))) (\<lambda>body_data.
                         case jstring (jget body_data (u ''html'')) of
                           None \<Rightarrow> Inl Gasu_group_not_found | Some html \<Rightarrow> Inr html))
                  else (case bitrix_csrf_token payload of
                          Some csrf \<Rightarrow> if first then With_token csrf else Finished (Inl Gasu_protocol)
                        | None \<Rightarrow> Finished (Inl Gasu_protocol))))"

text \<open>
  The loop over attempts: \<open>respond k token\<close> answers the \<open>k\<close>-th request of the call. The
  result carries the number of requests made and the waits between attempts.
\<close>

function request_group ::
  "(nat \<Rightarrow> pystr option \<Rightarrow> reply) \<Rightarrow> nat \<Rightarrow> nat \<Rightarrow> nat \<Rightarrow> nat \<Rightarrow> pystr option \<Rightarrow> rat list
     \<Rightarrow> (gasu_error + pystr) \<times> nat \<times> rat list" where
  "request_group respond max_bytes max_retries attempt k token sleeps =
     (let (verdict, k', token') =
            (case read_reply max_bytes attempt True (respond k token) of
               With_token csrf \<Rightarrow>
                 (read_reply max_bytes attempt False (respond (k + 1) (Some csrf)), k + 2, Some csrf)
             | v \<Rightarrow> (v, k + 1, token))
      in case verdict of
           Finished result \<Rightarrow> (result, k', sleeps)
         | Broken \<Rightarrow>
             if max_retries \<le> attempt then (Inl Gasu_unavailable, k', sleeps)
             else request_group respond max_bytes max_retries (attempt + 1) k' token'
                    (sleeps @ [2 ^ attempt / 2])
         | Again delay \<Rightarrow>
             if max_retries \<le> attempt then (Inl Gasu_unavailable, k', sleeps)
             else request_group respond max_bytes max_retries (attempt + 1) k' token' (sleeps @ [delay])
         | With_token csrf \<Rightarrow> (Inl Gasu_protocol, k', sleeps))"
  by pat_completeness auto
termination
  by (relation "measure (\<lambda>(respond, max_bytes, max_retries, attempt, k, token, sleeps). max_retries - attempt)")
    auto

declare request_group.simps [simp del]

text \<open>
  The client's memory: the cached template per group. Clock readings are those of the call
  sites in order; times are integers in the unit of \<open>cache_seconds\<close>.
\<close>

record gasu_client =
  gc_cache_seconds :: int
  gc_max_bytes :: nat
  gc_max_retries :: nat
  gc_cache :: "(pystr \<times> int \<times> weekly_schedule) list"
  gc_bootstrap :: "(int \<times> bootstrap) option"

definition new_gasu_client :: "int \<Rightarrow> nat \<Rightarrow> nat \<Rightarrow> gasu_error + gasu_client" where
  "new_gasu_client cache_seconds max_bytes max_retries =
     and_then (guard (\<not> cache_seconds < 300) Gasu_value_error) (\<lambda>_.
     Inr \<lparr>gc_cache_seconds = cache_seconds, gc_max_bytes = max_bytes,
          gc_max_retries = max_retries, gc_cache = [], gc_bootstrap = None\<rparr>)"

definition cached :: "gasu_client \<Rightarrow> pystr \<Rightarrow> int \<Rightarrow> weekly_schedule option" where
  "cached c key now =
     (case map_of (gc_cache c) key of
        None \<Rightarrow> None
      | Some (stored, schedule) \<Rightarrow> if now - stored < gc_cache_seconds c then Some schedule else None)"

definition fetch_group ::
  "(pystr \<Rightarrow> html_event list) \<Rightarrow> (nat \<Rightarrow> int) \<Rightarrow> (nat \<Rightarrow> pystr option \<Rightarrow> reply) \<Rightarrow> pystr \<Rightarrow> gasu_client
     \<Rightarrow> gasu_client \<times> nat \<times> (gasu_error + weekly_schedule)" where
  "fetch_group feed clk respond group_key c =
     (let cleaned = strip group_key in
      if cleaned = [] then (c, 0, Inl Gasu_value_error)
      else case cached c cleaned (clk 0) of
        Some schedule \<Rightarrow> (c, 0, Inr schedule)
      | None \<Rightarrow>
          (case cached c cleaned (clk 1) of
             Some schedule \<Rightarrow> (c, 0, Inr schedule)
           | None \<Rightarrow>
               let (result, requests, sleeps) =
                     request_group respond (gc_max_bytes c) (gc_max_retries c) 0 0 None []
               in case and_then result (\<lambda>payload. parse_schedule_html (feed payload) cleaned) of
                    Inl e \<Rightarrow> (c, requests, Inl e)
                  | Inr schedule \<Rightarrow>
                      if ws_lessons schedule = [] then (c, requests, Inl Gasu_protocol)
                      else (c\<lparr>gc_cache := (cleaned, clk 2, schedule)
                              # filter (\<lambda>e. fst e \<noteq> cleaned) (gc_cache c)\<rparr>,
                            requests, Inr schedule)))"

text \<open>
  The page itself is streamed: \<open>Page\<close> carries the sizes of the chunks and the decoded text,
  \<open>None\<close> when the bytes are not text of the declared encoding.
\<close>

datatype page_reply = Page_network_error | Page_other_error | Page int "nat list" "pystr option" "rat option"

fun body_fits :: "nat \<Rightarrow> nat \<Rightarrow> nat list \<Rightarrow> bool" where
  "body_fits limit received [] = True"
| "body_fits limit received (chunk # chunks) =
     (if limit < received + chunk then False else body_fits limit (received + chunk) chunks)"

function request_page ::
  "(nat \<Rightarrow> page_reply) \<Rightarrow> nat \<Rightarrow> nat \<Rightarrow> nat \<Rightarrow> rat list \<Rightarrow> (gasu_error + pystr) \<times> nat \<times> rat list" where
  "request_page respond max_bytes max_retries attempt sleeps =
     (case respond attempt of
        Page_network_error \<Rightarrow>
          if max_retries \<le> attempt then (Inl Gasu_unavailable, attempt + 1, sleeps)
          else request_page respond max_bytes max_retries (attempt + 1) (sleeps @ [2 ^ attempt / 2])
      | Page_other_error \<Rightarrow> (Inl Gasu_escaped, attempt + 1, sleeps)
      | Page status chunks decoded retry_after \<Rightarrow>
          if status \<notin> set retryable then
            (if 400 \<le> status \<and> status \<le> 599 then Inl Gasu_protocol
             else if \<not> body_fits max_bytes 0 chunks then Inl Gasu_protocol
             else (case decoded of None \<Rightarrow> Inl Gasu_protocol | Some html \<Rightarrow> Inr html),
             attempt + 1, sleeps)
          else if max_retries \<le> attempt then (Inl Gasu_unavailable, attempt + 1, sleeps)
          else request_page respond max_bytes max_retries (attempt + 1)
                 (sleeps @ [gasu_retry_delay retry_after attempt]))"
  by pat_completeness auto
termination
  by (relation "measure (\<lambda>(respond, max_bytes, max_retries, attempt, sleeps). max_retries - attempt)")
    auto

declare request_page.simps [simp del]

definition cached_bootstrap :: "gasu_client \<Rightarrow> int \<Rightarrow> bootstrap option" where
  "cached_bootstrap c now =
     (case gc_bootstrap c of
        None \<Rightarrow> None
      | Some (stored, b) \<Rightarrow> if now - stored < gc_cache_seconds c then Some b else None)"

definition fetch_bootstrap ::
  "(pystr \<Rightarrow> json option) \<Rightarrow> (nat \<Rightarrow> int) \<Rightarrow> (nat \<Rightarrow> page_reply) \<Rightarrow> gasu_client
     \<Rightarrow> gasu_client \<times> nat \<times> (gasu_error + bootstrap)" where
  "fetch_bootstrap loads clk respond c =
     (case cached_bootstrap c (clk 0) of
        Some b \<Rightarrow> (c, 0, Inr b)
      | None \<Rightarrow>
          (case cached_bootstrap c (clk 1) of
             Some b \<Rightarrow> (c, 0, Inr b)
           | None \<Rightarrow>
               let (result, requests, sleeps) =
                     request_page respond (gc_max_bytes c) (gc_max_retries c) 0 []
               in case and_then result (parse_schedule_page_bootstrap loads) of
                    Inl e \<Rightarrow> (c, requests, Inl e)
                  | Inr b \<Rightarrow> (c\<lparr>gc_bootstrap := Some (clk 2, b)\<rparr>, requests, Inr b)))"

end
