(* ===== verification/ScheduleService.thy ===== *)
theory ScheduleService
  imports SpbGasu Calendar
begin

text \<open>
  \<open>schedule/service.py\<close>: synchronising one week into the database and reading back the last
  confirmed version. The four tables are lists of rows in insertion order; a transaction is a
  function from tables to a result, and a raise leaves the tables as they were.
\<close>

section \<open>Data\<close>

datatype freshness_state = Fresh | Stale | Not_available

datatype source_failure = Source_unavailable | Group_not_found | Invalid_response

datatype service_error =
    State_error
  | Service_value_error
  | Domain_error schedule_error
  | Client_error gasu_error

record freshness =
  fs_state :: freshness_state
  fs_checked_at :: pydt
  fs_confirmed_at :: "pydt option"
  fs_age :: "int option"
  fs_fresh_for :: int
  fs_failure :: "source_failure option"

definition is_fresh :: "freshness \<Rightarrow> bool" where
  "is_fresh f \<longleftrightarrow> fs_state f = Fresh"

record confirmed_schedule =
  cs_snapshot_id :: int
  cs_snapshot :: snapshot
  cs_week_start :: date
  cs_parity :: "parity option"
  cs_freshness :: freshness

record sync_result =
  sy_schedule :: "confirmed_schedule option"
  sy_freshness :: freshness
  sy_created :: bool
  sy_changes :: "change list"
  sy_change_ids :: "int list"

text \<open>The tables. The columns \<open>day\<close> to \<open>source_id\<close> of a lesson are the lesson itself.\<close>

record snapshot_row =
  sr_id :: int
  sr_source :: pystr
  sr_group_key :: pystr
  sr_week_start :: date
  sr_fetched_at :: instant
  sr_content_hash :: pystr
  sr_is_complete :: bool
  sr_raw_payload :: json

record lesson_row =
  lr_id :: int
  lr_snapshot_id :: int
  lr_key :: pystr
  lr_lesson :: lesson

record change_row =
  cr_id :: int
  cr_from :: int
  cr_to :: int
  cr_before :: "int option"
  cr_after :: "int option"
  cr_kind :: change_kind
  cr_fingerprint :: pystr
  cr_detected_at :: instant
  cr_notified_at :: "instant option"

record setting_row =
  sg_key :: pystr
  sg_value :: json
  sg_updated_at :: instant

record schedule_db =
  db_settings :: "setting_row list"
  db_snapshots :: "snapshot_row list"
  db_lessons :: "lesson_row list"
  db_changes :: "change_row list"

record version =
  vs_row :: snapshot_row
  vs_snapshot :: snapshot
  vs_lesson_ids :: "(pystr \<times> int) list"

record confirmation =
  cf_version :: "version option"
  cf_confirmed_at :: "pydt option"
  cf_parity :: "parity option"
  cf_last_failed :: bool
  cf_failure :: "source_failure option"

record sync_service =
  ss_fresh_for :: int
  ss_retain_teacher_names :: bool

definition new_sync_service :: "int \<Rightarrow> bool \<Rightarrow> service_error + sync_service" where
  "new_sync_service fresh_for retain =
     and_then (guard (\<not> fresh_for \<le> 0) Service_value_error) (\<lambda>_.
     Inr \<lparr>ss_fresh_for = fresh_for, ss_retain_teacher_names = retain\<rparr>)"

definition spbgasu :: pystr where
  "spbgasu = u ''spbgasu''"

definition confirmation_schema :: pystr where
  "confirmation_schema = u ''szs_hub.schedule_confirmation.v1''"

definition snapshot_schema :: pystr where
  "snapshot_schema = u ''szs_hub.schedule_snapshot.v1''"

section \<open>Helpers\<close>

definition validate_request :: "pystr \<Rightarrow> date \<Rightarrow> service_error + pystr" where
  "validate_request group_key week_start =
     and_then (guard (strip group_key \<noteq> []) Service_value_error) (\<lambda>_.
     and_then (guard (weekday week_start = 0) Service_value_error) (\<lambda>_. Inr (strip group_key)))"

definition lesson_key :: "lesson \<Rightarrow> pystr" where
  "lesson_key l = sha256_hex (canonical_json l)"

definition confirmation_key :: "pystr \<Rightarrow> pystr \<Rightarrow> date \<Rightarrow> pystr" where
  "confirmation_key source group_key week_start =
     u ''schedule.confirmation.'' @ sha256_hex (source @ [0] @ group_key @ [0] @ iso_date week_start)"

definition aware_utc :: "pydt \<Rightarrow> service_error + pydt" where
  "aware_utc value = and_then (guard (aware value) Service_value_error) (\<lambda>_. Inr (utc_at (instant_of value)))"

definition optional_datetime :: "json \<Rightarrow> pydt option" where
  "optional_datetime value =
     (case value of
        JStr s \<Rightarrow> (case from_iso s of
            None \<Rightarrow> None | Some d \<Rightarrow> if aware d then Some (utc_at (instant_of d)) else None)
      | _ \<Rightarrow> None)"

definition optional_parity :: "json \<Rightarrow> parity option" where
  "optional_parity value =
     (case value of JStr s \<Rightarrow> List.find (\<lambda>p. parity_value p = s) [Numerator, Denominator] | _ \<Rightarrow> None)"

definition failure_value :: "source_failure \<Rightarrow> pystr" where
  "failure_value f =
     (case f of Source_unavailable \<Rightarrow> u ''source_unavailable'' | Group_not_found \<Rightarrow> u ''group_not_found''
      | Invalid_response \<Rightarrow> u ''invalid_response'')"

definition optional_failure :: "json \<Rightarrow> source_failure option" where
  "optional_failure value =
     (case value of
        JStr s \<Rightarrow> List.find (\<lambda>f. failure_value f = s) [Source_unavailable, Group_not_found, Invalid_response]
      | _ \<Rightarrow> None)"

definition classify_failure :: "gasu_error \<Rightarrow> source_failure" where
  "classify_failure e =
     (if e = Gasu_group_not_found then Group_not_found
      else if e = Gasu_protocol then Invalid_response else Source_unavailable)"

definition freshness_of ::
  "pydt \<Rightarrow> pydt option \<Rightarrow> int \<Rightarrow> source_failure option \<Rightarrow> bool \<Rightarrow> freshness" where
  "freshness_of checked_at confirmed_at fresh_for failure force_stale =
     (case confirmed_at of
        None \<Rightarrow> \<lparr>fs_state = Not_available, fs_checked_at = checked_at, fs_confirmed_at = None, fs_age = None,
                 fs_fresh_for = fresh_for, fs_failure = failure\<rparr>
      | Some c \<Rightarrow>
          let age = instant_of checked_at - instant_of c
          in \<lparr>fs_state = (if \<not> force_stale \<and> 0 \<le> age \<and> age \<le> fresh_for then Fresh else Stale),
              fs_checked_at = checked_at, fs_confirmed_at = Some c, fs_age = Some age,
              fs_fresh_for = fresh_for, fs_failure = failure\<rparr>)"

definition confirmed_of :: "confirmation \<Rightarrow> date \<Rightarrow> freshness \<Rightarrow> confirmed_schedule option" where
  "confirmed_of c week_start f =
     map_option (\<lambda>v. \<lparr>cs_snapshot_id = sr_id (vs_row v), cs_snapshot = vs_snapshot v,
        cs_week_start = week_start, cs_parity = cf_parity c, cs_freshness = f\<rparr>) (cf_version c)"

section \<open>The repository\<close>

definition stored_order :: "lesson_row \<Rightarrow> date \<times> int \<times> pystr" where
  "stored_order r = (l_day (lr_lesson r), l_starts_at (lr_lesson r), lr_key r)"

definition stored_lessons :: "schedule_db \<Rightarrow> int \<Rightarrow> lesson_row list" where
  "stored_lessons db i = sort_key stored_order (filter (\<lambda>r. lr_snapshot_id r = i) (db_lessons db))"

definition to_domain_lesson :: "lesson_row \<Rightarrow> service_error + lesson" where
  "to_domain_lesson r = (case new_lesson (lr_lesson r) of Inl e \<Rightarrow> Inl (Domain_error e) | Inr l \<Rightarrow> Inr l)"

definition load_version :: "schedule_db \<Rightarrow> snapshot_row \<Rightarrow> service_error + version" where
  "load_version db row =
     (let stored = stored_lessons db (sr_id row) in
      and_then (collect (map to_domain_lesson stored)) (\<lambda>lessons.
      let snap = \<lparr>sn_source = sr_source row, sn_group_key = sr_group_key row,
                  sn_fetched_at = utc_at (sr_fetched_at row), sn_lessons = lessons\<rparr> in
      and_then (guard (content_hash snap = sr_content_hash row) State_error) (\<lambda>_.
      let ids = map (\<lambda>r. (lr_key r, lr_id r)) stored in
      and_then (guard (distinct (map fst ids)) State_error) (\<lambda>_.
      Inr \<lparr>vs_row = row, vs_snapshot = snap, vs_lesson_ids = ids\<rparr>))))"

text \<open>
  \<open>Inr None\<close> is a marker that is not usable, for which the caller falls back to the newest
  complete snapshot.
\<close>

definition load_marker ::
  "schedule_db \<Rightarrow> setting_row \<Rightarrow> pystr \<Rightarrow> pystr \<Rightarrow> date \<Rightarrow> service_error + confirmation option" where
  "load_marker db marker source group_key week_start =
     (case sg_value marker of
        JObj kvs \<Rightarrow>
          if jget kvs (u ''schema'') \<noteq> JStr confirmation_schema \<or> jget kvs (u ''source'') \<noteq> JStr source
             \<or> jget kvs (u ''group_key'') \<noteq> JStr group_key
             \<or> jget kvs (u ''week_start'') \<noteq> JStr (iso_date week_start)
          then Inr None
          else
            let conf = (\<lambda>v. \<lparr>cf_version = v, cf_confirmed_at = optional_datetime (jget kvs (u ''confirmed_at'')),
                  cf_parity = optional_parity (jget kvs (u ''parity'')),
                  cf_last_failed = (jget kvs (u ''last_attempt_status'') = JStr (u ''failed'')),
                  cf_failure = optional_failure (jget kvs (u ''last_failure''))\<rparr>)
            in (case jget kvs (u ''snapshot_id'') of
                  JNull \<Rightarrow> Inr (Some (conf None))
                | JInt i \<Rightarrow>
                    (case row_at sr_id i (db_snapshots db) of
                       None \<Rightarrow> Inr None
                     | Some row \<Rightarrow>
                         if \<not> sr_is_complete row \<or> sr_source row \<noteq> source
                            \<or> sr_group_key row \<noteq> group_key \<or> sr_week_start row \<noteq> week_start
                         then Inr None
                         else and_then (load_version db row) (\<lambda>v. Inr (Some (conf (Some v)))))
                | _ \<Rightarrow> Inr None)
      | _ \<Rightarrow> Inr None)"

definition snapshot_parity :: "snapshot_row \<Rightarrow> parity option" where
  "snapshot_parity row =
     (case sr_raw_payload row of JObj kvs \<Rightarrow> optional_parity (jget kvs (u ''parity'')) | _ \<Rightarrow> None)"

definition setting_at :: "schedule_db \<Rightarrow> pystr \<Rightarrow> setting_row option" where
  "setting_at db key = List.find (\<lambda>r. sg_key r = key) (db_settings db)"

definition newest_complete :: "schedule_db \<Rightarrow> pystr \<Rightarrow> pystr \<Rightarrow> date \<Rightarrow> snapshot_row option" where
  "newest_complete db source group_key week_start =
     first_by (\<lambda>r. (- sr_fetched_at r, - sr_id r))
       (\<lambda>r. sr_source r = source \<and> sr_group_key r = group_key \<and> sr_week_start r = week_start \<and> sr_is_complete r)
       (db_snapshots db)"

definition load_confirmation ::
  "schedule_db \<Rightarrow> pystr \<Rightarrow> pystr \<Rightarrow> date \<Rightarrow> service_error + confirmation" where
  "load_confirmation db source group_key week_start =
     and_then (case setting_at db (confirmation_key source group_key week_start) of
                 None \<Rightarrow> Inr None
               | Some marker \<Rightarrow> load_marker db marker source group_key week_start) (\<lambda>parsed.
     case parsed of
       Some c \<Rightarrow> Inr c
     | None \<Rightarrow>
         (case newest_complete db source group_key week_start of
            None \<Rightarrow> Inr \<lparr>cf_version = None, cf_confirmed_at = None, cf_parity = None,
                          cf_last_failed = False, cf_failure = None\<rparr>
          | Some row \<Rightarrow> and_then (load_version db row) (\<lambda>v.
              Inr \<lparr>cf_version = Some v, cf_confirmed_at = Some (utc_at (sr_fetched_at row)),
                   cf_parity = snapshot_parity row, cf_last_failed = False, cf_failure = None\<rparr>)))"

definition same_content :: "snapshot \<Rightarrow> date \<Rightarrow> snapshot_row \<Rightarrow> bool" where
  "same_content snap week_start r \<longleftrightarrow>
     sr_source r = sn_source snap \<and> sr_group_key r = sn_group_key snap \<and> sr_week_start r = week_start
       \<and> sr_content_hash r = content_hash snap"

text \<open>The loop that inserts the lessons of a new snapshot.\<close>

fun insert_lessons ::
  "int \<Rightarrow> lesson list \<Rightarrow> (pystr \<times> int) list \<Rightarrow> lesson_row list
     \<Rightarrow> service_error + lesson_row list \<times> (pystr \<times> int) list" where
  "insert_lessons i [] ids rows = Inr (rows, ids)"
| "insert_lessons i (l # ls) ids rows =
     (if lesson_key l \<in> fst ` set ids then Inl State_error
      else
        let r = \<lparr>lr_id = next_id lr_id rows, lr_snapshot_id = i, lr_key = lesson_key l, lr_lesson = l\<rparr>
        in insert_lessons i ls (ids @ [(lesson_key l, lr_id r)]) (rows @ [r]))"

definition new_snapshot_row :: "schedule_db \<Rightarrow> snapshot \<Rightarrow> date \<Rightarrow> parity \<Rightarrow> snapshot_row" where
  "new_snapshot_row db snap week_start par =
     \<lparr>sr_id = next_id sr_id (db_snapshots db), sr_source = sn_source snap, sr_group_key = sn_group_key snap,
      sr_week_start = week_start, sr_fetched_at = instant_of (sn_fetched_at snap),
      sr_content_hash = content_hash snap, sr_is_complete = True,
      sr_raw_payload = JObj [(u ''schema'', JStr snapshot_schema), (u ''parity'', JStr (parity_value par))]\<rparr>"

definition store_snapshot ::
  "schedule_db \<Rightarrow> snapshot \<Rightarrow> date \<Rightarrow> parity \<Rightarrow> service_error + schedule_db \<times> version \<times> bool" where
  "store_snapshot db snap week_start par =
     (case List.find (same_content snap week_start) (db_snapshots db) of
        Some existing \<Rightarrow>
          and_then (guard (sr_is_complete existing) State_error) (\<lambda>_.
          and_then (load_version db existing) (\<lambda>v. Inr (db, v, False)))
      | None \<Rightarrow>
          let row = new_snapshot_row db snap week_start par in
          and_then (insert_lessons (sr_id row) (sn_lessons snap) [] (db_lessons db)) (\<lambda>(rows, ids).
          Inr (db\<lparr>db_snapshots := db_snapshots db @ [row], db_lessons := rows\<rparr>,
               \<lparr>vs_row = row, vs_snapshot = snap, vs_lesson_ids = ids\<rparr>, True)))"

definition lesson_id :: "version \<Rightarrow> lesson option \<Rightarrow> service_error + int option" where
  "lesson_id v l =
     (case l of None \<Rightarrow> Inr None
      | Some x \<Rightarrow> (case map_of (vs_lesson_ids v) (lesson_key x) of None \<Rightarrow> Inl State_error | Some i \<Rightarrow> Inr (Some i)))"

text \<open>
  The loop over the changes: \<open>seen\<close> holds the fingerprints already stored for the target
  snapshot.
\<close>

fun insert_changes ::
  "version \<Rightarrow> version \<Rightarrow> instant \<Rightarrow> pystr set \<Rightarrow> change list \<Rightarrow> change_row list
     \<Rightarrow> service_error + change_row list \<times> change list \<times> int list" where
  "insert_changes prev cur at_time seen [] rows = Inr (rows, [], [])"
| "insert_changes prev cur at_time seen (c # cs) rows =
     (if fingerprint c \<in> seen then insert_changes prev cur at_time seen cs rows
      else
        and_then (lesson_id prev (ch_before c)) (\<lambda>before_id.
        and_then (lesson_id cur (ch_after c)) (\<lambda>after_id.
        let r = \<lparr>cr_id = next_id cr_id rows, cr_from = sr_id (vs_row prev), cr_to = sr_id (vs_row cur),
                 cr_before = before_id, cr_after = after_id, cr_kind = ch_kind c,
                 cr_fingerprint = fingerprint c, cr_detected_at = at_time, cr_notified_at = None\<rparr> in
        and_then (insert_changes prev cur at_time (insert (fingerprint c) seen) cs (rows @ [r]))
          (\<lambda>(rows', saved, ids). Inr (rows', c # saved, cr_id r # ids)))))"

definition store_changes ::
  "schedule_db \<Rightarrow> version option \<Rightarrow> version \<Rightarrow> change list \<Rightarrow> pydt
     \<Rightarrow> service_error + schedule_db \<times> change list \<times> int list" where
  "store_changes db previous cur cs detected_at =
     (case previous of
        None \<Rightarrow> Inr (db, [], [])
      | Some prev \<Rightarrow>
          if cs = [] then Inr (db, [], [])
          else
            let existing = {f \<in> cr_fingerprint ` {r \<in> set (db_changes db). cr_to r = sr_id (vs_row cur)}.
                              f \<in> fingerprint ` set cs} in
            and_then (insert_changes prev cur (instant_of detected_at) existing cs (db_changes db))
              (\<lambda>(rows, saved, ids). Inr (db\<lparr>db_changes := rows\<rparr>, saved, ids)))"

definition write_marker :: "pystr \<Rightarrow> json \<Rightarrow> instant \<Rightarrow> schedule_db \<Rightarrow> schedule_db" where
  "write_marker key value checked_at db =
     db\<lparr>db_settings :=
        (if setting_at db key = None
         then db_settings db @ [\<lparr>sg_key = key, sg_value = value, sg_updated_at = checked_at\<rparr>]
         else upd_where (\<lambda>r. sg_key r = key) (\<lambda>r. r\<lparr>sg_value := value, sg_updated_at := checked_at\<rparr>)
                (db_settings db))\<rparr>"

definition marker_value ::
  "pystr \<Rightarrow> pystr \<Rightarrow> date \<Rightarrow> int option \<Rightarrow> pydt option \<Rightarrow> parity option \<Rightarrow> source_failure option \<Rightarrow> json" where
  "marker_value source group_key week_start snapshot_id confirmed_at par failure =
     (let opt = (\<lambda>v. case v of None \<Rightarrow> JNull | Some s \<Rightarrow> JStr s) in
      JObj [(u ''schema'', JStr confirmation_schema), (u ''source'', JStr source),
        (u ''group_key'', JStr group_key), (u ''week_start'', JStr (iso_date week_start)),
        (u ''snapshot_id'', case snapshot_id of None \<Rightarrow> JNull | Some i \<Rightarrow> JInt i),
        (u ''confirmed_at'', opt (map_option iso_datetime confirmed_at)),
        (u ''parity'', opt (map_option parity_value par)),
        (u ''last_attempt_status'', JStr (if failure = None then u ''succeeded'' else u ''failed'')),
        (u ''last_failure'', opt (map_option failure_value failure))])"

definition confirm ::
  "pystr \<Rightarrow> pystr \<Rightarrow> date \<Rightarrow> pydt \<Rightarrow> parity \<Rightarrow> version \<Rightarrow> schedule_db \<Rightarrow> schedule_db" where
  "confirm source group_key week_start checked_at par v =
     write_marker (confirmation_key source group_key week_start)
       (marker_value source group_key week_start (Some (sr_id (vs_row v))) (Some checked_at) (Some par) None)
       (instant_of checked_at)"

definition record_failed_attempt ::
  "pystr \<Rightarrow> pystr \<Rightarrow> date \<Rightarrow> pydt \<Rightarrow> source_failure \<Rightarrow> confirmation \<Rightarrow> schedule_db \<Rightarrow> schedule_db" where
  "record_failed_attempt source group_key week_start checked_at failure c =
     write_marker (confirmation_key source group_key week_start)
       (marker_value source group_key week_start (map_option (\<lambda>v. sr_id (vs_row v)) (cf_version c))
          (cf_confirmed_at c) (cf_parity c) (Some failure))
       (instant_of checked_at)"

section \<open>The service\<close>

definition fetch_week ::
  "sync_service \<Rightarrow> (pystr \<Rightarrow> gasu_error + weekly_schedule) \<Rightarrow> pystr \<Rightarrow> date \<Rightarrow> parity
     \<Rightarrow> service_error + lesson list" where
  "fetch_week svc fetch gkey week_start par =
     (case fetch gkey of
        Inl e \<Rightarrow> Inl (Client_error e)
      | Inr weekly \<Rightarrow>
          and_then (guard (strip (ws_group_key weekly) = gkey) State_error) (\<lambda>_.
          case materialize_week weekly week_start par of
            Inl e \<Rightarrow> Inl (Client_error e)
          | Inr lessons \<Rightarrow>
              Inr (if ss_retain_teacher_names svc then lessons
                   else map (\<lambda>l. l\<lparr>l_teacher := None\<rparr>) lessons)))"

definition sync_failed ::
  "sync_service \<Rightarrow> gasu_error \<Rightarrow> pydt \<Rightarrow> pystr \<Rightarrow> date \<Rightarrow> schedule_db
     \<Rightarrow> service_error + schedule_db \<times> sync_result" where
  "sync_failed svc e now gkey week_start db =
     and_then (aware_utc now) (\<lambda>checked_at.
     let failure = classify_failure e in
     and_then (load_confirmation db spbgasu gkey week_start) (\<lambda>c.
     let f = freshness_of checked_at (cf_confirmed_at c) (ss_fresh_for svc) (Some failure) True in
     Inr (record_failed_attempt spbgasu gkey week_start checked_at failure c db,
          \<lparr>sy_schedule = confirmed_of c week_start f, sy_freshness = f, sy_created = False,
           sy_changes = [], sy_change_ids = []\<rparr>)))"

definition detect_changes :: "version option \<Rightarrow> version \<Rightarrow> service_error + change list" where
  "detect_changes previous cur =
     (case previous of
        None \<Rightarrow> Inr []
      | Some prev \<Rightarrow>
          if sr_id (vs_row prev) = sr_id (vs_row cur) then Inr []
          else case diff_schedules (vs_snapshot prev) (vs_snapshot cur) of
                 Inl e \<Rightarrow> Inl (Domain_error e) | Inr cs \<Rightarrow> Inr cs)"

definition sync_fetched ::
  "sync_service \<Rightarrow> lesson list \<Rightarrow> pydt \<Rightarrow> pystr \<Rightarrow> date \<Rightarrow> parity \<Rightarrow> schedule_db
     \<Rightarrow> service_error + schedule_db \<times> sync_result" where
  "sync_fetched svc lessons now gkey week_start par db =
     and_then (aware_utc now) (\<lambda>checked_at.
     let snap = \<lparr>sn_source = spbgasu, sn_group_key = gkey, sn_fetched_at = checked_at, sn_lessons = lessons\<rparr> in
     and_then (load_confirmation db spbgasu gkey week_start) (\<lambda>previous.
     and_then (store_snapshot db snap week_start par) (\<lambda>(db1, cur, created).
     and_then (detect_changes (cf_version previous) cur) (\<lambda>cs.
     and_then (store_changes db1 (cf_version previous) cur cs checked_at) (\<lambda>(db2, saved, ids).
     let f = freshness_of checked_at (Some checked_at) (ss_fresh_for svc) None False in
     Inr (confirm spbgasu gkey week_start checked_at par cur db2,
          \<lparr>sy_schedule = Some \<lparr>cs_snapshot_id = sr_id (vs_row cur), cs_snapshot = vs_snapshot cur,
                cs_week_start = week_start, cs_parity = Some par, cs_freshness = f\<rparr>,
           sy_freshness = f, sy_created = created, sy_changes = saved, sy_change_ids = ids\<rparr>))))))"

text \<open>
  \<open>fetch\<close> is the client, \<open>now\<close> the reading of the clock in this call.
\<close>

definition sync_week ::
  "sync_service \<Rightarrow> (pystr \<Rightarrow> gasu_error + weekly_schedule) \<Rightarrow> pydt \<Rightarrow> pystr \<Rightarrow> date \<Rightarrow> parity \<Rightarrow> schedule_db
     \<Rightarrow> service_error + schedule_db \<times> sync_result" where
  "sync_week svc fetch now group_key week_start par db =
     and_then (validate_request group_key week_start) (\<lambda>gkey.
     case fetch_week svc fetch gkey week_start par of
       Inl (Client_error e) \<Rightarrow>
         if is_source_error e then sync_failed svc e now gkey week_start db else Inl (Client_error e)
     | Inl e \<Rightarrow> Inl e
     | Inr lessons \<Rightarrow> sync_fetched svc lessons now gkey week_start par db)"

definition load_latest_confirmed ::
  "sync_service \<Rightarrow> pydt \<Rightarrow> pystr \<Rightarrow> date \<Rightarrow> schedule_db \<Rightarrow> service_error + confirmed_schedule option" where
  "load_latest_confirmed svc now group_key week_start db =
     and_then (validate_request group_key week_start) (\<lambda>gkey.
     and_then (aware_utc now) (\<lambda>checked_at.
     and_then (load_confirmation db spbgasu gkey week_start) (\<lambda>c.
     Inr (confirmed_of c week_start
            (freshness_of checked_at (cf_confirmed_at c) (ss_fresh_for svc) (cf_failure c) (cf_last_failed c))))))"

end
