(* ===== verification/SpbGasuProperties.thy ===== *)
theory SpbGasuProperties
  imports SpbGasu "HOL-Library.Multiset"
begin

text \<open>
  What the timetable source promises: the lessons of a week are exactly the template's rows
  that take place in it, weeks alternate, one call makes a bounded number of requests, and
  the cache answers within its lifetime.
\<close>

section \<open>Lists of results\<close>

lemma collect_Inr: "collect rs = Inr xs \<longleftrightarrow> rs = map Inr xs"
  by (induction rs arbitrary: xs) (auto simp: py Cons_eq_map_conv)

lemma concat_results_Inr: "concat_results rs = Inr xs \<longleftrightarrow> (\<exists>xss. rs = map Inr xss \<and> xs = concat xss)"
  by (auto simp: concat_results_def collect_Inr py)

text \<open>Every item of a result, if there is one, satisfies \<open>P\<close>.\<close>

definition all_of :: "('a \<Rightarrow> bool) \<Rightarrow> 'e + 'a list \<Rightarrow> bool" where
  "all_of P r \<longleftrightarrow> (case r of Inl e \<Rightarrow> True | Inr xs \<Rightarrow> list_all P xs)"

named_theorems all_of

lemma all_of_simps [all_of, simp]:
  "all_of P (Inl e)" "all_of P (Inr xs) = list_all P xs"
  by (simp_all add: all_of_def)

lemma all_of_and_then [all_of]: "(\<And>x. r = Inr x \<Longrightarrow> all_of P (f x)) \<Longrightarrow> all_of P (and_then r f)"
  by (cases r) auto

lemma all_of_concat:
  assumes "\<And>r. r \<in> set rs \<Longrightarrow> all_of P r"
  shows "all_of P (concat_results rs)"
proof (cases "concat_results rs")
  case (Inr xs)
  then obtain xss where "rs = map Inr xss" "xs = concat xss" by (auto simp: concat_results_Inr)
  with assms Inr show ?thesis by (fastforce simp: list_all_iff)
qed simp

lemma all_of_concat_map [all_of]:
  "(\<And>y. y \<in> set ys \<Longrightarrow> all_of P (f y)) \<Longrightarrow> all_of P (concat_results (map f ys))"
  by (rule all_of_concat) auto

lemma all_ofD: "all_of P r \<Longrightarrow> r = Inr xs \<Longrightarrow> x \<in> set xs \<Longrightarrow> P x"
  by (auto simp: list_all_iff)

section \<open>The parsed template\<close>

definition on_a_weekday :: "weekly_lesson \<Rightarrow> bool" where
  "on_a_weekday raw \<longleftrightarrow> 0 \<le> wl_weekday raw \<and> wl_weekday raw \<le> 6"

lemma gasu_weekday_range:
  assumes "gasu_weekday v = Inr d"
  shows "0 \<le> d \<and> d \<le> 6"
proof -
  from assms obtain k where "map_of weekday_index k = Some d"
    by (auto simp: gasu_weekday_def split: option.splits)
  then have "d \<in> snd ` set weekday_index" by (force dest: map_of_SomeD)
  then show ?thesis by (auto simp: weekday_index_def)
qed

lemma parse_entry_weekday: "0 \<le> wd \<Longrightarrow> wd \<le> 6 \<Longrightarrow> all_of on_a_weekday (parse_entry wd slot par k e)"
  unfolding parse_entry_def
  by (intro all_of_and_then) (auto simp: on_a_weekday_def split: option.splits)

lemma parse_slot_weekday: "0 \<le> wd \<Longrightarrow> wd \<le> 6 \<Longrightarrow> all_of on_a_weekday (parse_slot wd s)"
  unfolding parse_slot_def Let_def split_def
  by (intro all_of_and_then all_of_concat_map)
    (auto intro!: all_of_concat parse_entry_weekday)

lemma parse_weekly_json_weekdays:
  assumes "parse_weekly_json payload g = Inr s"
  shows "list_all on_a_weekday (ws_lessons s)"
proof -
  have "all_of on_a_weekday (concat_results (map parse_day days))" for days
    unfolding parse_day_def split_def
    by (intro all_of_and_then all_of_concat_map parse_slot_weekday) (simp_all add: gasu_weekday_range)
  moreover obtain days where "concat_results (map parse_day days) = Inr (ws_lessons s)"
    using assms by (auto simp: parse_weekly_json_def py Let_def)
  ultimately show ?thesis by (metis all_of_simps(2))
qed

lemma parse_block_weekday: "all_of on_a_weekday (parse_block day slot par b)"
  using weekday_range [of day]
  by (auto simp: parse_block_def Let_def on_a_weekday_def split: prod.splits)

lemma parse_lesson_node_weekday: "all_of on_a_weekday (parse_lesson_node day par n)"
  by (auto simp: parse_lesson_node_def Let_def split: prod.splits option.splits
      intro!: all_of_concat parse_block_weekday)

lemma parse_day_node_weekday: "all_of on_a_weekday (parse_day_node par n)"
  by (auto simp: parse_day_node_def Let_def split: prod.splits option.splits
      intro!: all_of_concat parse_lesson_node_weekday)

lemma parse_week_node_weekday: "all_of on_a_weekday (parse_week_node n)"
  by (auto simp: parse_week_node_def Let_def split: prod.splits
      intro!: all_of_concat parse_day_node_weekday)

lemma parse_schedule_html_weekdays:
  assumes "parse_schedule_html events g = Inr s"
  shows "list_all on_a_weekday (ws_lessons s)"
proof -
  have "all_of on_a_weekday (concat_results (map parse_week_node nodes))" for nodes
    by (intro all_of_concat_map parse_week_node_weekday)
  moreover obtain nodes where "concat_results (map parse_week_node nodes) = Inr (ws_lessons s)"
    using assms by (auto simp: parse_schedule_html_def py)
  ultimately show ?thesis by (metis all_of_simps(2))
qed

section \<open>The lessons of one week\<close>

text \<open>The date the source gives a row, and whether and when the row takes place in a week.\<close>

definition given_day :: "weekly_lesson \<Rightarrow> date option" where
  "given_day raw =
     (case wl_source_date raw of None \<Rightarrow> None
      | Some s \<Rightarrow> if s = [] then None else parse_public_date (Some s))"

definition takes_place :: "date \<Rightarrow> parity \<Rightarrow> weekly_lesson \<Rightarrow> bool" where
  "takes_place monday par raw \<longleftrightarrow>
     (case given_day raw of Some d \<Rightarrow> monday \<le> d \<and> d \<le> monday + 6 | None \<Rightarrow> wl_parity raw = par)"

definition held_on :: "date \<Rightarrow> weekly_lesson \<Rightarrow> date" where
  "held_on monday raw =
     (case given_day raw of Some d \<Rightarrow> d | None \<Rightarrow> monday + wl_weekday raw)"

definition held :: "date \<Rightarrow> weekly_lesson
    \<Rightarrow> date \<times> (int \<times> int) option \<times> pystr \<times> pystr option \<times> pystr option" where
  "held monday raw =
     (held_on monday raw, map_of bell_schedule (wl_slot raw), fst (split_lesson_type (wl_subject raw)),
      wl_professor raw, wl_group raw)"

definition shown :: "lesson \<Rightarrow> date \<times> (int \<times> int) option \<times> pystr \<times> pystr option \<times> pystr option" where
  "shown l = (l_day l, Some (l_starts_at l, l_ends_at l), l_subject l, l_teacher l, l_subgroup l)"

lemma new_lesson_Inr: "new_lesson l = Inr l' \<Longrightarrow> l' = l"
  by (auto simp: new_lesson_def py)

lemma materialize_lesson_cases:
  assumes "materialize_lesson g monday par raw = Inr ls"
  shows "map shown ls = (if takes_place monday par raw then [held monday raw] else [])"
proof -
  from assms obtain sd where
    sd: "(case wl_source_date raw of
          None \<Rightarrow> Inr None
        | Some s \<Rightarrow>
            if s = [] then Inr None
            else (case parse_public_date (Some s) of None \<Rightarrow> Inl Gasu_protocol | Some d \<Rightarrow> Inr (Some d)))
        = (Inr sd :: gasu_error + date option)"
    unfolding materialize_lesson_def by (auto simp only: and_then_Inr_iff)
  then have given: "sd = given_day raw"
    by (auto simp: given_day_def split: option.splits if_splits)
  have day: "(case sd of
           Some d \<Rightarrow> if monday \<le> d \<and> d \<le> monday + 6 then Some d else None
         | None \<Rightarrow> if wl_parity raw = par then Some (monday + wl_weekday raw) else None)
       = (if takes_place monday par raw then Some (held_on monday raw) else None)"
    unfolding given takes_place_def held_on_def by (simp split: option.splits)
  show ?thesis
    using assms
    unfolding materialize_lesson_def sd and_then.simps day Let_def split_def
    by (auto simp: held_def shown_def split: option.splits if_splits sum.splits dest!: new_lesson_Inr)
qed

lemma materialize_lessons:
  assumes "concat_results (map (materialize_lesson g monday par) raws) = Inr ls"
  shows "map shown ls = map (held monday) (filter (takes_place monday par) raws)"
proof -
  have "map shown (concat xss) = map (held monday) (filter (takes_place monday par) raws)"
    if "map (materialize_lesson g monday par) raws = map Inr xss" for xss
    using that by (induction raws arbitrary: xss) (auto simp: Cons_eq_map_conv materialize_lesson_cases)
  with assms show ?thesis by (auto simp: concat_results_Inr)
qed

lemma held_in_week:
  "on_a_weekday raw \<Longrightarrow> takes_place monday par raw \<Longrightarrow> weekday monday = 0 \<Longrightarrow>
     monday_for (held_on monday raw) = monday"
  by (rule monday_for_unique)
    (auto simp: on_a_weekday_def takes_place_def held_on_def split: option.splits)

text \<open>
  C28: a materialised week is in order and holds exactly one lesson for every row of the
  template that takes place in it (the row's own date, or else its parity and weekday), with
  the row's bell times, subject, teacher and group, on a day of that week.
\<close>

theorem week_materialised:
  assumes "materialize_week s monday par = Inr ls" and "list_all on_a_weekday (ws_lessons s)"
  shows "sorted (map week_order ls)
    \<and> mset (map shown ls) = mset (map (held monday) (filter (takes_place monday par) (ws_lessons s)))
    \<and> list_all (\<lambda>l. monday_for (l_day l) = monday \<and> l_starts_at l < l_ends_at l) ls"
proof -
  from assms(1) obtain raw where monday: "weekday monday = 0" and ls: "ls = sort_key week_order raw"
    and raw: "concat_results (map (materialize_lesson (ws_group_key s) monday par) (ws_lessons s)) = Inr raw"
    by (auto simp: materialize_week_def py)
  have shown_ls: "mset (map shown ls)
      = mset (map (held monday) (filter (takes_place monday par) (ws_lessons s)))"
    unfolding ls materialize_lessons [OF raw, symmetric] by simp
  have "monday_for (l_day l) = monday \<and> l_starts_at l < l_ends_at l" if "l \<in> set ls" for l :: lesson
  proof -
    from that have "shown l \<in> set_mset (mset (map shown ls))" by simp
    then obtain r where r: "r \<in> set (ws_lessons s)" "takes_place monday par r" "shown l = held monday r"
      unfolding shown_ls by auto
    moreover have "on_a_weekday r" using assms(2) r(1) by (auto simp: list_all_iff)
    ultimately have "monday_for (l_day l) = monday"
      using held_in_week monday by (auto simp: shown_def held_def)
    moreover have "map_of bell_schedule (wl_slot r) = Some (l_starts_at l, l_ends_at l)"
      using r(3) by (simp add: shown_def held_def)
    then have "(wl_slot r, l_starts_at l, l_ends_at l) \<in> set bell_schedule" by (rule map_of_SomeD)
    ultimately show ?thesis by (auto simp: bell_schedule_def durations)
  qed
  moreover have "sorted (map week_order ls)" unfolding ls by simp
  ultimately show ?thesis using shown_ls by (simp add: list_all_iff)
qed

definition demo_row :: "int \<Rightarrow> parity \<Rightarrow> weekly_lesson" where
  "demo_row wd par =
     \<lparr>wl_weekday = wd, wl_slot = 2, wl_parity = par, wl_subject = u ''Math'', wl_group = None,
      wl_auditorium = None, wl_professor = Some (u ''Euler''), wl_source_date = None, wl_occurrence = 0\<rparr>"

definition demo_template :: weekly_schedule where
  "demo_template = \<lparr>ws_group_key = u ''A'', ws_lessons = [demo_row 4 Numerator, demo_row 1 Denominator]\<rparr>"

lemma demo_week: "\<exists>l. materialize_week demo_template 738886 Numerator = Inr [l]"
  by (simp add: materialize_week_def demo_template_def demo_row_def materialize_lesson_def
      concat_results_def weekday_def bell_schedule_def split_lesson_type_def split_auditorium_def
      lesson_types_def rstrip_by_def lstrip_by_def is_space_def new_lesson_def strip_def durations)

lemma week_materialised_witness:
  "\<exists>l. materialize_week demo_template 738886 Numerator = Inr [l]
     \<and> monday_for (l_day l) = 738886 \<and> shown l = held 738886 (demo_row 4 Numerator)"
proof -
  obtain l where l: "materialize_week demo_template 738886 Numerator = Inr [l]" using demo_week by blast
  have "list_all on_a_weekday (ws_lessons demo_template)"
    by (simp add: demo_template_def demo_row_def on_a_weekday_def)
  from week_materialised [OF l this] l show ?thesis
    by (auto simp: demo_template_def takes_place_def given_day_def demo_row_def)
qed

lemma parity_for_week_mondays:
  assumes "weekday monday = 0" and "weekday target = 0"
  shows "parity_for_week n monday target =
     Inr (if (n + (target - monday) div 7) mod 2 = 1 then Numerator else Denominator)"
proof -
  have "(target - monday) mod 7 = 0" using assms unfolding weekday_def by presburger
  with assms show ?thesis by (simp add: parity_for_week_def)
qed

text \<open>
  The parity of the weeks alternates, and does not depend on which week the numbering is
  anchored at.
\<close>

theorem parity_alternates:
  assumes "parity_for_week n monday target = Inr p"
  shows "parity_for_week n monday (target + 7) = Inr (if p = Numerator then Denominator else Numerator)
    \<and> parity_for_week (n + k) (monday + 7 * k) target = Inr p"
proof -
  from assms have mondays: "weekday monday = 0" "weekday target = 0"
    by (auto simp: parity_for_week_def py)
  then have shifted: "weekday (target + 7) = 0" "weekday (monday + 7 * k) = 0"
    using weekday_shift [of target 1] by simp_all
  define q where "q = n + (target - monday) div 7"
  have p: "p = (if q mod 2 = 1 then Numerator else Denominator)"
    using assms by (simp add: parity_for_week_mondays mondays q_def)
  have numbers: "n + (target + 7 - monday) div 7 = q + 1" "n + k + (target - (monday + 7 * k)) div 7 = q"
    using div_mult_self1 [of 7 "target - monday" 1] div_mult_self1 [of 7 "target - monday" "- k"]
    by (simp_all add: q_def algebra_simps)
  have step: "((q + 1) mod 2 = 1) = (\<not> q mod 2 = 1)" by presburger
  show ?thesis
    unfolding parity_for_week_mondays [OF mondays(1) shifted(1)]
      parity_for_week_mondays [OF shifted(2) mondays(2)] numbers step p
    by simp
qed

lemma parity_alternates_witness:
  "parity_for_week 3 738886 738893 = Inr Denominator
   \<and> parity_for_week 3 738886 (738893 + 7) = Inr Numerator"
  using parity_alternates [of 3 738886 738893 Denominator 0]
  by (simp add: parity_for_week_def weekday_def)

section \<open>The HTTP client\<close>

definition good_delay :: "nat \<Rightarrow> rat \<Rightarrow> bool" where
  "good_delay max_retries d \<longleftrightarrow> 0 \<le> d \<and> d \<le> max 30 (2 ^ max_retries / 2)"

lemma backoff_good: "attempt \<le> mr \<Longrightarrow> good_delay mr (2 ^ attempt / 2)"
  using power_increasing [of attempt mr "2 :: rat"] by (auto simp: good_delay_def le_max_iff_disj)

lemma retry_delay_good: "attempt \<le> mr \<Longrightarrow> good_delay mr (gasu_retry_delay hdr attempt)"
  using backoff_good [of attempt mr]
  by (auto simp: gasu_retry_delay_def good_delay_def split: option.splits)

text \<open>The replies that raise an exception the client does not catch.\<close>

definition escapes :: "reply \<Rightarrow> bool" where
  "escapes r \<longleftrightarrow> r = Other_error \<or> (\<exists>status n hdr. r = Response status n Not_text hdr)"

lemma read_reply_cases:
  shows "read_reply mb a f r = Again d \<Longrightarrow> \<exists>hdr. d = gasu_retry_delay hdr a"
    and "read_reply mb a f r = With_token t \<Longrightarrow> f"
    and "read_reply mb a f r = Finished (Inl e) \<Longrightarrow> is_source_error e \<or> e = Gasu_escaped \<and> escapes r"
  by (auto simp: read_reply_def Let_def is_source_error_def py as_mapping_def escapes_def
      split: reply.splits if_splits option.splits json.splits body.splits)

text \<open>
  A result of the whole call: a reply that was good, an error the callers recover from, or an
  exception that went through because one of the replies caused it.
\<close>

definition answered ::
  "(nat \<Rightarrow> pystr option \<Rightarrow> reply) \<Rightarrow> nat \<Rightarrow> nat \<Rightarrow> gasu_error + pystr \<Rightarrow> bool" where
  "answered respond max_bytes n r \<longleftrightarrow>
     (case r of
        Inl e \<Rightarrow> is_source_error e \<or> e = Gasu_escaped \<and> (\<exists>j<n. \<exists>token. escapes (respond j token))
      | Inr html \<Rightarrow> \<exists>j<n. \<exists>token a f. read_reply max_bytes a f (respond j token) = Finished (Inr html))"

lemma answered_unavailable [simp]:
  "answered respond mb n (Inl Gasu_unavailable)" "answered respond mb n (Inl Gasu_protocol)"
  by (simp_all add: answered_def is_source_error_def)

lemma answered_finished:
  "read_reply mb a f (respond j token) = Finished r \<Longrightarrow> j < n \<Longrightarrow> answered respond mb n r"
  by (cases r) (auto simp: answered_def dest: read_reply_cases(3))

lemma request_group_run:
  assumes "request_group respond mb mr attempt k token sleeps = (r, k', sleeps')" and "attempt \<le> mr"
    and "list_all (good_delay mr) sleeps"
  shows "k < k' \<and> k' \<le> k + 2 * (mr + 1 - attempt) \<and> length sleeps' \<le> length sleeps + (mr - attempt)
    \<and> list_all (good_delay mr) sleeps' \<and> answered respond mb k' r"
  using assms
proof (induction "mr - attempt" arbitrary: attempt k token sleeps rule: less_induct)
  case (less attempt k token sleeps)
  define v where "v = read_reply mb attempt True (respond k token)"
  obtain w k1 t1 where w: "(case v of
               With_token csrf \<Rightarrow>
                 (read_reply mb attempt False (respond (k + 1) (Some csrf)), k + 2, Some csrf)
             | v \<Rightarrow> (v, k + 1, token)) = (w, k1, t1)"
    by (rule prod_cases3) (rule that)
  have from_reply: "w = read_reply mb attempt False (respond (k + 1) t1) \<and> k1 = k + 2
      \<or> w = read_reply mb attempt True (respond k token) \<and> k1 = k + 1 \<and> (\<forall>c. w \<noteq> With_token c)"
    using w unfolding v_def [symmetric] by (cases v) (auto simp: prod_eq_iff)
  then have k1: "k < k1" "k1 \<le> k + 2" by auto
  have read: "\<exists>j token f. j < k1 \<and> w = read_reply mb attempt f (respond j token)"
    using from_reply
  proof
    assume "w = read_reply mb attempt False (respond (k + 1) t1) \<and> k1 = k + 2"
    then show ?thesis by (intro exI [of _ "k + 1"] exI [of _ t1] exI [of _ False]) simp
  next
    assume "w = read_reply mb attempt True (respond k token) \<and> k1 = k + 1 \<and> (\<forall>c. w \<noteq> With_token c)"
    then show ?thesis by (intro exI [of _ k] exI [of _ token] exI [of _ True]) simp
  qed
  have no_token: "w \<noteq> With_token csrf" for csrf
    using from_reply read_reply_cases(2) by metis
  note eq = less.prems(1) [unfolded request_group.simps [of respond mb mr attempt k token sleeps]
      v_def [symmetric] w Let_def prod.case]
  have retry: ?case
    if "request_group respond mb mr (attempt + 1) k1 t1 (sleeps @ [d]) = (r, k', sleeps')"
      and "\<not> mr \<le> attempt" and "good_delay mr d" for d
  proof -
    have "k1 < k' \<and> k' \<le> k1 + 2 * (mr + 1 - (attempt + 1))
        \<and> length sleeps' \<le> length (sleeps @ [d]) + (mr - (attempt + 1))
        \<and> list_all (good_delay mr) sleeps' \<and> answered respond mb k' r"
      using that less.prems(3) by (intro less.hyps) auto
    then show ?thesis using k1 that(2) by auto
  qed
  have stop: ?case if "(r0, k1, sleeps) = (r, k', sleeps')" and "answered respond mb k1 r0" for r0
    using that k1 less.prems(2,3) by auto
  show ?case
  proof (cases w)
    case (Finished r0)
    then have "answered respond mb k1 r0" using read answered_finished by metis
    then show ?thesis using eq Finished by (intro stop) simp_all
  next
    case (Again d)
    then obtain hdr where "d = gasu_retry_delay hdr attempt" using read read_reply_cases(1) by metis
    then have "good_delay mr d" using retry_delay_good less.prems(2) by simp
    show ?thesis
    proof (cases "mr \<le> attempt")
      case True
      then show ?thesis using eq Again by (intro stop [of "Inl Gasu_unavailable"]) auto
    next
      case False
      then show ?thesis using eq Again \<open>good_delay mr d\<close> by (intro retry [of d]) simp_all
    qed
  next
    case (With_token csrf)
    then show ?thesis using no_token by simp
  next
    case Broken
    show ?thesis
    proof (cases "mr \<le> attempt")
      case True
      then show ?thesis using eq Broken by (intro stop [of "Inl Gasu_unavailable"]) auto
    next
      case False
      then show ?thesis
        using eq Broken backoff_good [OF less.prems(2)] by (intro retry [of "2 ^ attempt / 2"]) simp_all
    qed
  qed
qed

text \<open>
  C29: one request for a group makes between one and \<open>2 * (max_retries + 1)\<close> HTTP requests and
  waits at most \<open>max_retries\<close> times, never longer than 30 seconds or the last back-off step.
  It returns the text of a successful reply, or raises one of the errors the callers recover from,
  or lets an exception through, and that only when a request met an error of the HTTP library other
  than a timeout or a network error, or a body that is not text.
\<close>

theorem request_group_bounded:
  "case request_group respond max_bytes max_retries 0 0 None [] of (r, requests, sleeps) \<Rightarrow>
     0 < requests \<and> requests \<le> 2 * (max_retries + 1) \<and> length sleeps \<le> max_retries
     \<and> list_all (good_delay max_retries) sleeps \<and> answered respond max_bytes requests r"
  using request_group_run [of respond max_bytes max_retries 0 0 None "[]"]
  by (auto split: prod.splits)

lemma fetch_group_cases:
  assumes "fetch_group feed clk respond g c = (c', n, r)"
  shows "n = 0 \<and> c' = c \<or>
     0 < n \<and> (case r of
        Inl e \<Rightarrow> c' = c
      | Inr s \<Rightarrow> strip g \<noteq> [] \<and> map_of (gc_cache c') (strip g) = Some (clk 2, s)
          \<and> gc_cache_seconds c' = gc_cache_seconds c)"
  using assms request_group_run [of respond "gc_max_bytes c" "gc_max_retries c" 0 0 None "[]"]
  by (auto simp: fetch_group_def Let_def split: prod.splits option.splits sum.splits if_splits)

text \<open>
  After a fetch that asked the server, every fetch of the same group within the cache's
  lifetime asks nothing and returns the same template.
\<close>

theorem fetch_group_cached:
  assumes "fetch_group feed clk respond g c = (c', n, Inr s)" and "0 < n"
    and "clk' 0 - clk 2 < gc_cache_seconds c"
  shows "fetch_group feed' clk' respond' g c' = (c', 0, Inr s)"
  using fetch_group_cases [OF assms(1)] assms(2,3)
  by (auto simp: fetch_group_def cached_def)

definition demo_page :: "html_event list" where
  "demo_page =
    [Start_tag (u ''div'') [(u ''class'', Some (u ''item''))],
     Start_tag (u ''div'') [(u ''class'', Some (u ''time''))],
     Data [1095, 1080, 1089, 1083, 1080, 1090, 1077, 1083, 1100],
     End_tag (u ''div''),
     Start_tag (u ''div'') [(u ''class'', Some (u ''days''))],
     Start_tag (u ''div'') [(u ''class'', Some (u ''date''))],
     Data [50, 48, 50, 52, 45, 48, 49, 45, 48, 49],
     End_tag (u ''div''),
     Start_tag (u ''div'') [(u ''class'', Some (u ''lesson''))],
     Start_tag (u ''div'') [(u ''class'', Some (u ''day_name''))],
     Data [49, 1087, 1072, 1088, 1072],
     End_tag (u ''div''),
     Start_tag (u ''div'') [(u ''class'', Some (u ''lesson_block''))],
     Start_tag (u ''div'') [(u ''class'', Some (u ''lesson-name''))],
     Data [77],
     End_tag (u ''div''),
     End_tag (u ''div''),
     End_tag (u ''div''),
     End_tag (u ''div''),
     End_tag (u ''div'')]"

lemmas evaluate_text = words_def is_space_def node_text_def strip_def rstrip_by_def lstrip_by_def
  contains_def casefold_def is_digit_def digit_value_def digit_zeros_def Let_def

lemma demo_page_date: "parse_public_date (Some [50, 48, 50, 52, 45, 48, 49, 45, 48, 49]) = Some 738886"
  by (simp add: parse_public_date_def strptime_ymd_def evaluate_text year_alts_def month_alts_def day_alts_def
      two_def one_def then_literal_def first_complete_def valid_date_def digit_in_def ordinal_def
      days_before_year_def days_before_month_def days_in_month_def)

lemma demo_page_tree:
  "nodes_with_class (u ''item'') (html_children demo_page) = [(u ''div'', [
     Node (u ''div'') [(u ''class'', u ''time'')] [Text_node [1095, 1080, 1089, 1083, 1080, 1090, 1077, 1083, 1100]],
     Node (u ''div'') [(u ''class'', u ''days'')]
       [Node (u ''div'') [(u ''class'', u ''date'')] [Text_node [50, 48, 50, 52, 45, 48, 49, 45, 48, 49]],
        Node (u ''div'') [(u ''class'', u ''lesson'')]
          [Node (u ''div'') [(u ''class'', u ''day_name'')] [Text_node [49, 1087, 1072, 1088, 1072]],
           Node (u ''div'') [(u ''class'', u ''lesson_block'')]
             [Node (u ''div'') [(u ''class'', u ''lesson-name'')] [Text_node [77]]]]]])]"
  by (simp add: demo_page_def html_children_def void_tags_def attr_values_def has_class_def evaluate_text)

lemma demo_page_parsed: "\<exists>s. parse_schedule_html demo_page (u ''A'') = Inr s \<and> ws_lessons s \<noteq> []"
  unfolding parse_schedule_html_def demo_page_tree
  by (simp add: concat_results_def parse_week_node_def has_class_def evaluate_text parse_day_node_def
     demo_page_date parse_lesson_node_def ci_prefix_def parse_block_def column_def)

definition demo_reply :: reply where
  "demo_reply = Response 200 1 (Json (JObj [(u ''status'', JStr (u ''success'')),
      (u ''data'', JObj [(u ''html'', JStr (u ''<p>''))])])) None"

lemma demo_request: "request_group (\<lambda>k token. demo_reply) 100 2 0 0 None [] = (Inr (u ''<p>''), 1, [])"
  by (simp add: request_group.simps read_reply_def demo_reply_def retryable_def is_obj_def jget_def
      as_mapping_def jstring_def evaluate_text)

lemma fetch_group_cached_witness:
  "\<exists>c c' s. new_gasu_client 600 100 2 = Inr c
     \<and> fetch_group (\<lambda>html. demo_page) (\<lambda>k. 0) (\<lambda>k token. demo_reply) (u ''A'') c = (c', 1, Inr s)
     \<and> fetch_group (\<lambda>html. []) (\<lambda>k. 599) (\<lambda>k token. Network_error) (u ''A'') c' = (c', 0, Inr s)"
proof -
  obtain c where c: "new_gasu_client 600 100 2 = Inr c" by (auto simp: new_gasu_client_def)
  then have fields: "gc_cache c = []" "gc_max_bytes c = 100" "gc_max_retries c = 2" "gc_cache_seconds c = 600"
    by (auto simp: new_gasu_client_def)
  obtain s where s: "parse_schedule_html demo_page (u ''A'') = Inr s" "ws_lessons s \<noteq> []"
    using demo_page_parsed by blast
  have key: "strip (u ''A'') = u ''A''" "u ''A'' \<noteq> []" by (simp_all add: evaluate_text)
  have none: "cached c k t = None" for k t by (simp add: cached_def fields)
  obtain c' where
    fetched: "fetch_group (\<lambda>html. demo_page) (\<lambda>k. 0) (\<lambda>k token. demo_reply) (u ''A'') c = (c', 1, Inr s)"
    unfolding fetch_group_def key(1) Let_def by (simp add: none key(2) fields demo_request s del: u_Cons)
  have "fetch_group (\<lambda>html. []) (\<lambda>k. 599) (\<lambda>k token. Network_error) (u ''A'') c' = (c', 0, Inr s)"
    by (rule fetch_group_cached [OF fetched]) (simp_all add: fields)
  with c fetched show ?thesis by blast
qed

end
