(* ===== verification/ScheduleServiceProperties.thy ===== *)
theory ScheduleServiceProperties
  imports ScheduleService SpbGasuProperties
begin

text \<open>
  What synchronisation promises: the tables keep their keys and constraints and only grow, a
  failed check never loses or refreshes data, what was synchronised is what is loaded, and
  synchronising the same week again changes nothing.
\<close>

section \<open>The constraints of the tables\<close>

definition valid_lesson :: "lesson \<Rightarrow> bool" where
  "valid_lesson l \<longleftrightarrow> l_starts_at l < l_ends_at l \<and> strip (l_subject l) \<noteq> []"

definition snapshots_ok :: "schedule_db \<Rightarrow> bool" where
  "snapshots_ok db \<longleftrightarrow> keyed sr_id (db_snapshots db)
     \<and> distinct (map (\<lambda>r. (sr_source r, sr_group_key r, sr_week_start r, sr_content_hash r)) (db_snapshots db))"

definition lessons_ok :: "schedule_db \<Rightarrow> bool" where
  "lessons_ok db \<longleftrightarrow> keyed lr_id (db_lessons db)
     \<and> distinct (map (\<lambda>r. (lr_snapshot_id r, lr_key r)) (db_lessons db))
     \<and> (\<forall>r \<in> set (db_lessons db). lr_snapshot_id r \<in> sr_id ` set (db_snapshots db)
          \<and> valid_lesson (lr_lesson r) \<and> lr_key r = lesson_key (lr_lesson r))"

definition points_to_lesson :: "schedule_db \<Rightarrow> int option \<Rightarrow> bool" where
  "points_to_lesson db i \<longleftrightarrow> (case i of None \<Rightarrow> True | Some k \<Rightarrow> k \<in> lr_id ` set (db_lessons db))"

definition changes_ok :: "schedule_db \<Rightarrow> bool" where
  "changes_ok db \<longleftrightarrow> keyed cr_id (db_changes db)
     \<and> distinct (map (\<lambda>r. (cr_to r, cr_fingerprint r)) (db_changes db))
     \<and> (\<forall>r \<in> set (db_changes db). cr_from r \<in> sr_id ` set (db_snapshots db)
          \<and> cr_to r \<in> sr_id ` set (db_snapshots db)
          \<and> points_to_lesson db (cr_before r) \<and> points_to_lesson db (cr_after r))"

definition schedule_ok :: "schedule_db \<Rightarrow> bool" where
  "schedule_ok db \<longleftrightarrow>
     snapshots_ok db \<and> lessons_ok db \<and> changes_ok db \<and> distinct (map sg_key (db_settings db))"

text \<open>Rows are only added: what was stored stays as it was.\<close>

definition grows :: "schedule_db \<Rightarrow> schedule_db \<Rightarrow> bool" where
  "grows db db' \<longleftrightarrow> (\<exists>ss ls cs. db_snapshots db' = db_snapshots db @ ss \<and> db_lessons db' = db_lessons db @ ls
     \<and> db_changes db' = db_changes db @ cs)"

lemma new_lesson_valid: "valid_lesson l \<longleftrightarrow> new_lesson l = Inr l"
  by (auto simp: new_lesson_def valid_lesson_def guard_def)

lemma new_lesson_result: "new_lesson l = Inr l' \<Longrightarrow> valid_lesson l' \<and> l' = l"
  by (auto simp: new_lesson_def valid_lesson_def py)

lemma materialize_lesson_valid: "all_of valid_lesson (materialize_lesson g monday par raw)"
  unfolding materialize_lesson_def Let_def
  by (intro all_of_and_then) (auto split: option.splits prod.splits sum.splits dest: new_lesson_result)

lemma materialize_week_valid:
  assumes "materialize_week s monday par = Inr ls"
  shows "list_all valid_lesson ls"
proof -
  have "all_of valid_lesson (concat_results (map (materialize_lesson g monday par) raws))" for g raws
    by (intro all_of_concat_map materialize_lesson_valid)
  moreover obtain raw where
    "concat_results (map (materialize_lesson (ws_group_key s) monday par) (ws_lessons s)) = Inr raw"
    and "ls = sort_key week_order raw"
    using assms by (auto simp: materialize_week_def py)
  ultimately show ?thesis by (metis all_of_simps(2) list_all_iff set_sort)
qed

lemma fetch_week_valid:
  assumes "fetch_week svc fetch g w par = Inr ls"
  shows "list_all valid_lesson ls"
  using assms materialize_week_valid
  by (auto simp: fetch_week_def py list_all_iff valid_lesson_def split: sum.splits if_splits)

section \<open>Inserting lessons and snapshots\<close>

lemma insert_lessons_rows:
  assumes "insert_lessons i ls ids rows = Inr (rows', ids')" and "keyed lr_id rows"
  shows "\<exists>new. rows' = rows @ new \<and> map lr_lesson new = ls \<and> keyed lr_id rows'
     \<and> (\<forall>r \<in> set new. lr_snapshot_id r = i \<and> lr_key r = lesson_key (lr_lesson r))
     \<and> ids' = ids @ map (\<lambda>r. (lr_key r, lr_id r)) new
     \<and> distinct (map lesson_key ls) \<and> lesson_key ` set ls \<inter> fst ` set ids = {}"
  using assms
proof (induction ls arbitrary: ids rows)
  case (Cons l ls)
  let ?r = "\<lparr>lr_id = next_id lr_id rows, lr_snapshot_id = i, lr_key = lesson_key l, lr_lesson = l\<rparr>"
  have fresh: "lesson_key l \<notin> fst ` set ids"
    and rest: "insert_lessons i ls (ids @ [(lesson_key l, lr_id ?r)]) (rows @ [?r]) = Inr (rows', ids')"
    using Cons.prems(1) by (auto simp: Let_def split: if_splits)
  from Cons.IH [OF rest keyed_insert [OF Cons.prems(2)]] obtain new where new:
    "rows' = (rows @ [?r]) @ new" "map lr_lesson new = ls" "keyed lr_id rows'"
    "\<forall>r \<in> set new. lr_snapshot_id r = i \<and> lr_key r = lesson_key (lr_lesson r)"
    "ids' = (ids @ [(lesson_key l, lr_id ?r)]) @ map (\<lambda>r. (lr_key r, lr_id r)) new"
    "distinct (map lesson_key ls)" "lesson_key ` set ls \<inter> fst ` set (ids @ [(lesson_key l, lr_id ?r)]) = {}"
    by auto
  then show ?case using fresh by (intro exI [of _ "?r # new"]) auto
qed auto

lemma keyed_append_image: "keyed rid (xs @ ys) \<Longrightarrow> x \<in> set xs \<Longrightarrow> y \<in> set ys \<Longrightarrow> rid x \<noteq> rid y"
  by (auto simp: keyed_def)

text \<open>A version that the tables hold: its row is stored and its lesson ids are ids of lessons.\<close>

definition version_in :: "schedule_db \<Rightarrow> version \<Rightarrow> bool" where
  "version_in db v \<longleftrightarrow> vs_row v \<in> set (db_snapshots db)
     \<and> snd ` set (vs_lesson_ids v) \<subseteq> lr_id ` set (db_lessons db)"

lemma version_in_grows: "version_in db v \<Longrightarrow> grows db db' \<Longrightarrow> version_in db' v"
  by (auto simp: version_in_def grows_def)

lemma load_version_Inr:
  assumes "load_version db row = Inr v"
  shows "vs_row v = row" "sn_lessons (vs_snapshot v) = map lr_lesson (stored_lessons db (sr_id row))"
    "vs_lesson_ids v = map (\<lambda>r. (lr_key r, lr_id r)) (stored_lessons db (sr_id row))"
    "sn_source (vs_snapshot v) = sr_source row" "sn_group_key (vs_snapshot v) = sr_group_key row"
    "content_hash (vs_snapshot v) = sr_content_hash row"
proof -
  from assms obtain lessons where
    "collect (map to_domain_lesson (stored_lessons db (sr_id row))) = Inr lessons"
    and v: "v = \<lparr>vs_row = row, vs_snapshot = \<lparr>sn_source = sr_source row, sn_group_key = sr_group_key row,
                  sn_fetched_at = utc_at (sr_fetched_at row), sn_lessons = lessons\<rparr>,
              vs_lesson_ids = map (\<lambda>r. (lr_key r, lr_id r)) (stored_lessons db (sr_id row))\<rparr>"
    and hash: "content_hash (vs_snapshot v) = sr_content_hash row"
    by (auto simp: load_version_def Let_def py)
  moreover have "lessons = map lr_lesson rows"
    if "collect (map to_domain_lesson rows) = Inr lessons" for rows :: "lesson_row list" and lessons
    using that
    by (induction rows arbitrary: lessons)
      (auto simp: py to_domain_lesson_def split: sum.splits dest: new_lesson_result)
  ultimately show "vs_row v = row" "sn_lessons (vs_snapshot v) = map lr_lesson (stored_lessons db (sr_id row))"
    "vs_lesson_ids v = map (\<lambda>r. (lr_key r, lr_id r)) (stored_lessons db (sr_id row))"
    "sn_source (vs_snapshot v) = sr_source row" "sn_group_key (vs_snapshot v) = sr_group_key row"
    "content_hash (vs_snapshot v) = sr_content_hash row"
    by auto
qed

lemma set_stored_lessons: "set (stored_lessons db i) = {r \<in> set (db_lessons db). lr_snapshot_id r = i}"
  by (simp add: stored_lessons_def)

lemma load_version_in:
  "load_version db row = Inr v \<Longrightarrow> row \<in> set (db_snapshots db) \<Longrightarrow> version_in db v"
  by (auto simp: version_in_def load_version_Inr set_stored_lessons)

lemma load_version_cong:
  "db_lessons db' = db_lessons db \<Longrightarrow> load_version db' row = load_version db row"
  by (simp add: load_version_def stored_lessons_def)

lemma grows_trans: "grows a b \<Longrightarrow> grows b c \<Longrightarrow> grows a c"
  by (fastforce simp: grows_def)

lemma grows_refl [simp]: "grows a a"
  by (auto simp: grows_def)

lemma points_to_lesson_changes [simp]:
  "points_to_lesson (db\<lparr>db_changes := rows\<rparr>) i = points_to_lesson db i"
  by (cases i) (simp_all add: points_to_lesson_def)

lemma points_to_lesson_grows: "points_to_lesson db i \<Longrightarrow> grows db db' \<Longrightarrow> points_to_lesson db' i"
  by (cases i) (auto simp: points_to_lesson_def grows_def)

lemma changes_ok_grows:
  assumes "changes_ok db" and "grows db db'" and "db_changes db' = db_changes db"
  shows "changes_ok db'"
proof -
  have sub: "sr_id ` set (db_snapshots db) \<subseteq> sr_id ` set (db_snapshots db')"
    using assms(2) by (auto simp: grows_def)
  have "cr_from r \<in> sr_id ` set (db_snapshots db') \<and> cr_to r \<in> sr_id ` set (db_snapshots db')
      \<and> points_to_lesson db' (cr_before r) \<and> points_to_lesson db' (cr_after r)"
    if "r \<in> set (db_changes db)" for r
    using that assms(1) sub points_to_lesson_grows [OF _ assms(2)] unfolding changes_ok_def by blast
  then show ?thesis using assms(1,3) by (simp add: changes_ok_def)
qed

lemma store_snapshot_created:
  assumes "schedule_ok db" and "list_all valid_lesson (sn_lessons snap)"
    and "List.find (same_content snap w) (db_snapshots db) = None"
    and "insert_lessons (sr_id row) (sn_lessons snap) [] (db_lessons db) = Inr (rows, ids)"
    and row: "row = new_snapshot_row db snap w par"
  shows "schedule_ok (db\<lparr>db_snapshots := db_snapshots db @ [row], db_lessons := rows\<rparr>)
    \<and> (\<exists>new. rows = db_lessons db @ new \<and> map lr_lesson new = sn_lessons snap
         \<and> (\<forall>r \<in> set new. lr_snapshot_id r = sr_id row \<and> lr_key r = lesson_key (lr_lesson r))
         \<and> (\<forall>r \<in> set (db_lessons db). lr_snapshot_id r \<noteq> sr_id row)
         \<and> ids = map (\<lambda>r. (lr_key r, lr_id r)) new \<and> distinct (map lr_key new))"
proof -
  have id: "sr_id row = next_id sr_id (db_snapshots db)" by (simp add: row new_snapshot_row_def)
  have lkeyed: "keyed lr_id (db_lessons db)" using assms(1) by (simp add: schedule_ok_def lessons_ok_def)
  from insert_lessons_rows [OF assms(4) lkeyed] obtain new where new:
    "rows = db_lessons db @ new" "map lr_lesson new = sn_lessons snap" "keyed lr_id rows"
    "\<forall>r \<in> set new. lr_snapshot_id r = sr_id row \<and> lr_key r = lesson_key (lr_lesson r)"
    "ids = map (\<lambda>r. (lr_key r, lr_id r)) new" "distinct (map lesson_key (sn_lessons snap))"
    by auto
  have old: "\<forall>r \<in> set (db_lessons db). lr_snapshot_id r \<noteq> sr_id row"
    using assms(1) next_id_fresh [of sr_id "db_snapshots db"]
    unfolding schedule_ok_def lessons_ok_def id by metis
  have "map lr_key new = map lesson_key (sn_lessons snap)"
    using new(4) by (auto simp: new(2) [symmetric])
  then have keys: "distinct (map lr_key new)" using new(6) by simp
  have "distinct (map (\<lambda>r. (lr_snapshot_id r, lr_key r)) new)"
    using keys by (auto simp: distinct_map inj_on_def)
  then have pairs: "distinct (map (\<lambda>r. (lr_snapshot_id r, lr_key r)) rows)"
    using assms(1) old new(4) by (auto simp: new(1) schedule_ok_def lessons_ok_def)
  have valid: "\<forall>r \<in> set new. valid_lesson (lr_lesson r)"
    using assms(2) by (auto simp: list_all_iff new(2) [symmetric])
  have content: "(sr_source row, sr_group_key row, sr_week_start row, sr_content_hash row)
      \<notin> (\<lambda>r. (sr_source r, sr_group_key r, sr_week_start r, sr_content_hash r)) ` set (db_snapshots db)"
    using assms(3) by (auto simp: find_None_iff same_content_def row new_snapshot_row_def)
  have "distinct (map (\<lambda>r. (sr_source r, sr_group_key r, sr_week_start r, sr_content_hash r)) (db_snapshots db @ [row]))"
    using assms(1) content by (simp add: schedule_ok_def snapshots_ok_def)
  then have "snapshots_ok (db\<lparr>db_snapshots := db_snapshots db @ [row], db_lessons := rows\<rparr>)"
    using assms(1) keyed_insert [of sr_id "db_snapshots db" row] by (simp add: schedule_ok_def snapshots_ok_def id)
  moreover have "lessons_ok (db\<lparr>db_snapshots := db_snapshots db @ [row], db_lessons := rows\<rparr>)"
    using assms(1) new(1,3,4) pairs valid by (auto simp: schedule_ok_def lessons_ok_def)
  moreover have "changes_ok (db\<lparr>db_snapshots := db_snapshots db @ [row], db_lessons := rows\<rparr>)"
  proof (rule changes_ok_grows)
    show "changes_ok db" using assms(1) by (simp add: schedule_ok_def)
    show "grows db (db\<lparr>db_snapshots := db_snapshots db @ [row], db_lessons := rows\<rparr>)"
      by (simp add: grows_def new(1))
  qed simp
  ultimately show ?thesis
    using assms(1) new(1,2,4,5) old keys by (auto simp: schedule_ok_def)
qed

lemma store_snapshot_ok:
  assumes "store_snapshot db snap w par = Inr (db1, v, created)" and "schedule_ok db"
    and "list_all valid_lesson (sn_lessons snap)"
  shows "schedule_ok db1 \<and> grows db db1 \<and> db_settings db1 = db_settings db \<and> db_changes db1 = db_changes db
    \<and> version_in db1 v \<and> same_content snap w (vs_row v) \<and> sr_is_complete (vs_row v)
    \<and> sn_group_key (vs_snapshot v) = sn_group_key snap"
proof (cases "List.find (same_content snap w) (db_snapshots db)")
  case None
  then obtain rows ids where
    ins: "insert_lessons (sr_id (new_snapshot_row db snap w par)) (sn_lessons snap) [] (db_lessons db) = Inr (rows, ids)"
    and db1: "db1 = db\<lparr>db_snapshots := db_snapshots db @ [new_snapshot_row db snap w par], db_lessons := rows\<rparr>"
    and v: "v = \<lparr>vs_row = new_snapshot_row db snap w par, vs_snapshot = snap, vs_lesson_ids = ids\<rparr>"
    using assms(1) by (auto simp: store_snapshot_def Let_def py)
  from store_snapshot_created [OF assms(2,3) None ins refl] show ?thesis
    by (fastforce simp: db1 v grows_def version_in_def same_content_def new_snapshot_row_def)
next
  case (Some row)
  then have row: "row \<in> set (db_snapshots db)" "same_content snap w row" by (auto dest: find_Some_set)
  have "db1 = db" "load_version db row = Inr v" "sr_is_complete row"
    using assms(1) Some by (auto simp: store_snapshot_def py)
  then show ?thesis
    using assms(2) row load_version_in [of db row v] load_version_Inr [of db row v]
    by (simp add: same_content_def)
qed

lemma load_confirmation_in:
  assumes "load_confirmation db source g w = Inr c" and "cf_version c = Some v"
  shows "load_version db (vs_row v) = Inr v \<and> vs_row v \<in> set (db_snapshots db) \<and> sr_is_complete (vs_row v)
    \<and> sr_source (vs_row v) = source \<and> sr_group_key (vs_row v) = g \<and> sr_week_start (vs_row v) = w"
proof -
  have marker: ?thesis if "load_marker db m source g w = Inr (Some c)" for m
    using that assms(2)
    by (auto simp: load_marker_def Let_def py load_version_Inr split: json.splits option.splits if_splits
        dest!: row_at_Some)
  have newest: ?thesis if "newest_complete db source g w = Some row" "load_version db row = Inr v" for row
    using first_by_Some(1,2) [OF that(1) [unfolded newest_complete_def]] that(2) by (simp add: load_version_Inr)
  show ?thesis
    using assms by (auto simp: load_confirmation_def py split: option.splits dest: marker newest)
qed

section \<open>Inserting changes\<close>

lemma insert_changes_rows:
  assumes "insert_changes prev cur t seen cs rows = Inr (rows', saved, ids)" and "keyed cr_id rows"
    and "distinct (map (\<lambda>r. (cr_to r, cr_fingerprint r)) rows)"
    and "\<And>r. r \<in> set rows \<Longrightarrow> cr_to r = sr_id (vs_row cur) \<Longrightarrow> cr_fingerprint r \<in> fingerprint ` set cs \<Longrightarrow>
           cr_fingerprint r \<in> seen"
  shows "\<exists>new. rows' = rows @ new \<and> keyed cr_id rows' \<and> distinct (map (\<lambda>r. (cr_to r, cr_fingerprint r)) rows')
     \<and> set saved \<subseteq> set cs \<and> map cr_id new = ids \<and> map cr_fingerprint new = map fingerprint saved
     \<and> (\<forall>r \<in> set new. cr_from r = sr_id (vs_row prev) \<and> cr_to r = sr_id (vs_row cur)
          \<and> (\<forall>i. cr_before r = Some i \<longrightarrow> i \<in> snd ` set (vs_lesson_ids prev))
          \<and> (\<forall>i. cr_after r = Some i \<longrightarrow> i \<in> snd ` set (vs_lesson_ids cur)))"
  using assms
proof (induction cs arbitrary: seen rows saved ids)
  case (Cons c cs)
  show ?case
  proof (cases "fingerprint c \<in> seen")
    case True
    then show ?thesis using Cons.IH [of seen rows saved ids] Cons.prems by fastforce
  next
    case False
    let ?r = "\<lambda>b a. \<lparr>cr_id = next_id cr_id rows, cr_from = sr_id (vs_row prev), cr_to = sr_id (vs_row cur),
                 cr_before = b, cr_after = a, cr_kind = ch_kind c,
                 cr_fingerprint = fingerprint c, cr_detected_at = t, cr_notified_at = None\<rparr>"
    from Cons.prems(1) False obtain b a saved1 ids1 where
      ids: "lesson_id prev (ch_before c) = Inr b" "lesson_id cur (ch_after c) = Inr a"
      and rest: "insert_changes prev cur t (insert (fingerprint c) seen) cs (rows @ [?r b a]) = Inr (rows', saved1, ids1)"
      and saved: "saved = c # saved1" "ids = cr_id (?r b a) # ids1"
      by (auto simp: py Let_def)
    have in_ids: "i \<in> snd ` set (vs_lesson_ids v)" if "lesson_id v l = Inr (Some i)" for v l i
      using that by (auto simp: lesson_id_def split: option.splits dest!: map_of_SomeD) (metis image_eqI snd_conv)
    have "distinct (map (\<lambda>r. (cr_to r, cr_fingerprint r)) (rows @ [?r b a]))"
      using Cons.prems(3,4) False by auto
    moreover have "cr_fingerprint r \<in> insert (fingerprint c) seen"
      if "r \<in> set (rows @ [?r b a])" "cr_to r = sr_id (vs_row cur)" "cr_fingerprint r \<in> fingerprint ` set cs" for r
      using that Cons.prems(4) by auto
    ultimately obtain new where new: "rows' = (rows @ [?r b a]) @ new" "keyed cr_id rows'"
      "distinct (map (\<lambda>r. (cr_to r, cr_fingerprint r)) rows')" "set saved1 \<subseteq> set cs" "map cr_id new = ids1"
      "map cr_fingerprint new = map fingerprint saved1"
      "\<forall>r \<in> set new. cr_from r = sr_id (vs_row prev) \<and> cr_to r = sr_id (vs_row cur)
          \<and> (\<forall>i. cr_before r = Some i \<longrightarrow> i \<in> snd ` set (vs_lesson_ids prev))
          \<and> (\<forall>i. cr_after r = Some i \<longrightarrow> i \<in> snd ` set (vs_lesson_ids cur))"
      using Cons.IH [OF rest keyed_insert [OF Cons.prems(2)]] by auto
    show ?thesis
      using new saved ids in_ids by (intro exI [of _ "?r b a # new"]) auto
  qed
qed auto

lemma store_changes_ok:
  assumes "store_changes db previous cur cs t = Inr (db2, saved, ids)" and "schedule_ok db"
    and "version_in db cur" and "\<And>prev. previous = Some prev \<Longrightarrow> version_in db prev"
  shows "schedule_ok db2 \<and> grows db db2 \<and> db_settings db2 = db_settings db \<and> db_snapshots db2 = db_snapshots db
    \<and> db_lessons db2 = db_lessons db \<and> set saved \<subseteq> set cs"
proof (cases "previous = None \<or> cs = []")
  case True
  then show ?thesis using assms(1,2) by (auto simp: store_changes_def split: option.splits if_splits)
next
  case False
  then obtain prev where prev: "previous = Some prev" by (cases previous) auto
  define seen where "seen = {f \<in> cr_fingerprint ` {r \<in> set (db_changes db). cr_to r = sr_id (vs_row cur)}.
                              f \<in> fingerprint ` set cs}"
  obtain rows where
    ins: "insert_changes prev cur (instant_of t) seen cs (db_changes db) = Inr (rows, saved, ids)"
    and db2: "db2 = db\<lparr>db_changes := rows\<rparr>"
    using assms(1) False prev by (auto simp: store_changes_def seen_def py Let_def)
  have ok: "changes_ok db" using assms(2) by (simp add: schedule_ok_def)
  obtain new where new: "rows = db_changes db @ new" "keyed cr_id rows"
    "distinct (map (\<lambda>r. (cr_to r, cr_fingerprint r)) rows)" "set saved \<subseteq> set cs"
    and new_rows: "\<forall>r \<in> set new. cr_from r = sr_id (vs_row prev) \<and> cr_to r = sr_id (vs_row cur)
          \<and> (\<forall>i. cr_before r = Some i \<longrightarrow> i \<in> snd ` set (vs_lesson_ids prev))
          \<and> (\<forall>i. cr_after r = Some i \<longrightarrow> i \<in> snd ` set (vs_lesson_ids cur))"
  proof -
    have "keyed cr_id (db_changes db)" "distinct (map (\<lambda>r. (cr_to r, cr_fingerprint r)) (db_changes db))"
      using ok by (simp_all add: changes_ok_def)
    from insert_changes_rows [OF ins this] show thesis by (auto simp: seen_def intro!: that)
  qed
  have "version_in db prev" using assms(4) prev by simp
  then have "\<forall>r \<in> set new. cr_from r \<in> sr_id ` set (db_snapshots db) \<and> cr_to r \<in> sr_id ` set (db_snapshots db)
      \<and> points_to_lesson db (cr_before r) \<and> points_to_lesson db (cr_after r)"
    using new_rows assms(3) by (auto simp: version_in_def points_to_lesson_def split: option.splits)
  then have "changes_ok db2"
    using ok new by (auto simp: changes_ok_def db2)
  then show ?thesis
    using assms(2) new by (auto simp: schedule_ok_def snapshots_ok_def lessons_ok_def db2 grows_def)
qed

section \<open>The marker\<close>

lemma write_marker_same [simp]:
  "db_snapshots (write_marker key v t db) = db_snapshots db"
  "db_lessons (write_marker key v t db) = db_lessons db"
  "db_changes (write_marker key v t db) = db_changes db"
  by (simp_all add: write_marker_def)

lemma points_to_lesson_marker [simp]:
  "points_to_lesson (write_marker key v t db) i = points_to_lesson db i"
  by (cases i) (simp_all add: points_to_lesson_def)

lemma schedule_ok_marker:
  assumes "schedule_ok db"
  shows "schedule_ok (write_marker key v t db)"
proof -
  have "distinct (map sg_key (db_settings (write_marker key v t db)))"
  proof (cases "setting_at db key")
    case None
    then show ?thesis
      using assms by (auto simp: write_marker_def setting_at_def schedule_ok_def find_None_iff)
  next
    case (Some r)
    then show ?thesis using assms by (simp add: write_marker_def schedule_ok_def map_upd_where)
  qed
  then show ?thesis
    using assms
    by (simp add: schedule_ok_def snapshots_ok_def lessons_ok_def changes_ok_def)
qed

lemma grows_marker [simp]: "grows db (write_marker key v t db') = grows db db'"
  by (simp add: grows_def)

lemma find_upd_where_key:
  "List.find (\<lambda>r. g r = k) rows = Some r \<Longrightarrow> (\<And>r. g (f r) = g r) \<Longrightarrow>
     List.find (\<lambda>r. g r = k) (upd_where (\<lambda>r. g r = k) f rows) = Some (f r)"
  by (induction rows) (auto simp: upd_where_def)

lemma setting_at_marker [simp]:
  "\<exists>t'. setting_at (write_marker key v t db) key = Some \<lparr>sg_key = key, sg_value = v, sg_updated_at = t'\<rparr>"
proof (cases "setting_at db key")
  case None
  then show ?thesis by (simp add: setting_at_def write_marker_def find_append)
next
  case (Some r)
  then have "sg_key r = key" by (auto simp: setting_at_def dest: find_Some_set)
  then have "r\<lparr>sg_value := v, sg_updated_at := t\<rparr> = \<lparr>sg_key = key, sg_value = v, sg_updated_at = t\<rparr>"
    by (cases r) simp
  then show ?thesis
    using Some find_upd_where_key [of sg_key key "db_settings db" r]
    by (simp add: setting_at_def write_marker_def)
qed

section \<open>One synchronisation\<close>

lemma sync_week_cases [consumes 1, case_names failed fetched]:
  assumes "sync_week svc fetch now g w par db = Inr (db', res)"
  obtains e where "fetch_week svc fetch (strip g) w par = Inl (Client_error e)" "is_source_error e"
      "validate_request g w = Inr (strip g)" "sync_failed svc e now (strip g) w db = Inr (db', res)"
  | ls where "fetch_week svc fetch (strip g) w par = Inr ls" "validate_request g w = Inr (strip g)"
      "sync_fetched svc ls now (strip g) w par db = Inr (db', res)"
  using assms by (auto simp: sync_week_def py validate_request_def split: sum.splits service_error.splits if_splits)

lemma sync_failed_Inr:
  assumes "sync_failed svc e now g w db = Inr (db', res)"
  obtains c checked where "load_confirmation db spbgasu g w = Inr c" "aware_utc now = Inr checked"
    "db' = record_failed_attempt spbgasu g w checked (classify_failure e) c db"
    "sy_freshness res = freshness_of checked (cf_confirmed_at c) (ss_fresh_for svc) (Some (classify_failure e)) True"
    "sy_schedule res = confirmed_of c w (sy_freshness res)" "\<not> sy_created res" "sy_changes res = []"
  using assms by (auto simp: sync_failed_def py Let_def)

lemma sync_fetched_Inr:
  assumes "sync_fetched svc ls now g w par db = Inr (db', res)" and "schedule_ok db" and "list_all valid_lesson ls"
  obtains previous db1 cur cs db2 checked where "load_confirmation db spbgasu g w = Inr previous"
    "aware_utc now = Inr checked"
    "store_snapshot db \<lparr>sn_source = spbgasu, sn_group_key = g, sn_fetched_at = checked, sn_lessons = ls\<rparr> w par
       = Inr (db1, cur, sy_created res)"
    "detect_changes (cf_version previous) cur = Inr cs"
    "store_changes db1 (cf_version previous) cur cs checked = Inr (db2, sy_changes res, sy_change_ids res)"
    "db' = confirm spbgasu g w checked par cur db2"
    "sy_freshness res = freshness_of checked (Some checked) (ss_fresh_for svc) None False"
    "sy_schedule res = Some \<lparr>cs_snapshot_id = sr_id (vs_row cur), cs_snapshot = vs_snapshot cur,
                cs_week_start = w, cs_parity = Some par, cs_freshness = sy_freshness res\<rparr>"
    "schedule_ok db1" "grows db db1" "version_in db1 cur" "schedule_ok db2" "grows db1 db2"
    "db_snapshots db2 = db_snapshots db1" "db_lessons db2 = db_lessons db1" "set (sy_changes res) \<subseteq> set cs"
proof -
  obtain previous db1 cur cs db2 checked where 1: "load_confirmation db spbgasu g w = Inr previous"
    "aware_utc now = Inr checked"
    "store_snapshot db \<lparr>sn_source = spbgasu, sn_group_key = g, sn_fetched_at = checked, sn_lessons = ls\<rparr> w par
       = Inr (db1, cur, sy_created res)"
    "detect_changes (cf_version previous) cur = Inr cs"
    "store_changes db1 (cf_version previous) cur cs checked = Inr (db2, sy_changes res, sy_change_ids res)"
    "db' = confirm spbgasu g w checked par cur db2"
    "sy_freshness res = freshness_of checked (Some checked) (ss_fresh_for svc) None False"
    "sy_schedule res = Some \<lparr>cs_snapshot_id = sr_id (vs_row cur), cs_snapshot = vs_snapshot cur,
                cs_week_start = w, cs_parity = Some par, cs_freshness = sy_freshness res\<rparr>"
    using assms(1) by (auto simp: sync_fetched_def py Let_def)
  have stored: "schedule_ok db1 \<and> grows db db1 \<and> version_in db1 cur"
    using store_snapshot_ok [OF 1(3) assms(2)] assms(3) by simp
  have "version_in db1 prev" if "cf_version previous = Some prev" for prev
    using load_confirmation_in [OF 1(1) that] load_version_in version_in_grows stored by metis
  with stored store_changes_ok [OF 1(5)]
  have "schedule_ok db2 \<and> grows db1 db2 \<and> db_snapshots db2 = db_snapshots db1 \<and> db_lessons db2 = db_lessons db1
      \<and> set (sy_changes res) \<subseteq> set cs" by blast
  with 1 stored that show thesis by blast
qed

lemma sync_ok:
  assumes "sync_week svc fetch now g w par db = Inr (db', res)" and "schedule_ok db"
  shows "schedule_ok db' \<and> grows db db'"
  using assms(1)
proof (cases rule: sync_week_cases)
  case (failed e)
  from sync_failed_Inr [OF failed(4)] show ?thesis
    by (metis assms(2) record_failed_attempt_def schedule_ok_marker grows_marker grows_refl)
next
  case (fetched ls)
  show ?thesis
    by (rule sync_fetched_Inr [OF fetched(3) assms(2) fetch_week_valid [OF fetched(1)]])
      (metis confirm_def schedule_ok_marker grows_marker grows_trans)
qed

text \<open>
  C30: a synchronisation keeps every constraint of the schedule tables (keys, one snapshot per
  content, one lesson per identity, one change per fingerprint and target, references to rows
  that exist) and never changes or removes a stored snapshot, lesson or change.
\<close>

theorem sync_keeps_tables:
  assumes "sync_week svc fetch now g w par db = Inr (db', res)" and "schedule_ok db"
  shows "schedule_ok db' \<and> grows db db'"
  by (rule sync_ok [OF assms])

section \<open>Reading the marker back\<close>

definition json_text :: "pystr option \<Rightarrow> json" where
  "json_text v = (case v of None \<Rightarrow> JNull | Some s \<Rightarrow> JStr s)"

lemma marker_value_fields:
  assumes "marker_value source g w sid conf par fail = JObj kvs"
  shows "jget kvs (u ''schema'') = JStr confirmation_schema" "jget kvs (u ''source'') = JStr source"
    "jget kvs (u ''group_key'') = JStr g" "jget kvs (u ''week_start'') = JStr (iso_date w)"
    "jget kvs (u ''snapshot_id'') = (case sid of None \<Rightarrow> JNull | Some i \<Rightarrow> JInt i)"
    "jget kvs (u ''confirmed_at'') = json_text (map_option iso_datetime conf)"
    "jget kvs (u ''parity'') = json_text (map_option parity_value par)"
    "jget kvs (u ''last_attempt_status'') = JStr (if fail = None then u ''succeeded'' else u ''failed'')"
    "jget kvs (u ''last_failure'') = json_text (map_option failure_value fail)"
  using assms by (auto simp: marker_value_def Let_def jget_def json_text_def)

lemma optional_parity_value [simp]: "optional_parity (json_text (map_option parity_value par)) = par"
proof (cases par)
  case (Some p)
  then show ?thesis by (cases p) (simp_all add: optional_parity_def json_text_def parity_value_def)
qed (simp add: optional_parity_def json_text_def)

lemma optional_failure_value [simp]: "optional_failure (json_text (map_option failure_value f)) = f"
proof (cases f)
  case (Some x)
  then show ?thesis by (cases x) (simp_all add: optional_failure_def json_text_def failure_value_def)
qed (simp add: optional_failure_def json_text_def)

lemma optional_datetime_iso:
  assumes "is_date (dt_date d)" and "d = utc_at t"
  shows "optional_datetime (json_text (Some (iso_datetime d))) = Some d"
  using from_iso_datetime [of d] assms
  by (simp add: optional_datetime_def json_text_def utc_at_def aware_def instant_of_def durations)

text \<open>The confirmation a marker stands for when its snapshot is stored.\<close>

definition marked ::
  "version option \<Rightarrow> pydt option \<Rightarrow> parity option \<Rightarrow> source_failure option \<Rightarrow> confirmation" where
  "marked v conf par fail =
     \<lparr>cf_version = v, cf_confirmed_at = optional_datetime (json_text (map_option iso_datetime conf)),
      cf_parity = par, cf_last_failed = (fail \<noteq> None), cf_failure = fail\<rparr>"

lemma load_confirmation_marked:
  assumes "sid = map_option (\<lambda>v. sr_id (vs_row v)) v" and "keyed sr_id (db_snapshots db)"
    and "case v of None \<Rightarrow> True | Some x \<Rightarrow> load_version db (vs_row x) = Inr x' \<and> vs_row x \<in> set (db_snapshots db)
           \<and> sr_is_complete (vs_row x) \<and> sr_source (vs_row x) = source \<and> sr_group_key (vs_row x) = g
           \<and> sr_week_start (vs_row x) = w"
    and "db' = write_marker (confirmation_key source g w) (marker_value source g w sid conf par fail) t db"
  shows "load_confirmation db' source g w = Inr (marked (map_option (\<lambda>_. x') v) conf par fail)"
proof -
  obtain t' where marker: "setting_at db' (confirmation_key source g w) =
      Some \<lparr>sg_key = confirmation_key source g w, sg_value = marker_value source g w sid conf par fail, sg_updated_at = t'\<rparr>"
    using assms(4) setting_at_marker by blast
  obtain kvs where kvs: "marker_value source g w sid conf par fail = JObj kvs"
    by (simp add: marker_value_def Let_def)
  have snapshot_id: "jget kvs (u ''snapshot_id'') = (case v of None \<Rightarrow> JNull | Some x \<Rightarrow> JInt (sr_id (vs_row x)))"
    using marker_value_fields(5) [OF kvs] assms(1) by (cases v) simp_all
  note fields = marker_value_fields(1-4,6-9) [OF kvs] snapshot_id
  note marker = marker [unfolded kvs]
  have status: "u ''succeeded'' \<noteq> u ''failed''" by simp
  have version: "load_version db' r = load_version db r" for r
    by (rule load_version_cong) (simp add: assms(4))
  show ?thesis
  proof (cases v)
    case None
    then show ?thesis
      by (simp add: load_confirmation_def marker load_marker_def fields status marked_def
          del: u_Cons)
  next
    case (Some x)
    then have "row_at sr_id (sr_id (vs_row x)) (db_snapshots db') = Some (vs_row x)"
      using row_at_in [OF assms(2)] assms(3) by (simp add: assms(4))
    then show ?thesis
      using assms(3) Some
      by (simp add: load_confirmation_def marker load_marker_def fields status marked_def version
          del: u_Cons)
  qed
qed

section \<open>A failed check\<close>

lemma freshness_of_failure [simp]: "fs_state (freshness_of now conf fresh_for f True) \<noteq> Fresh"
  by (simp add: freshness_of_def split: option.splits)

lemma failed_attempt_loads:
  assumes "load_confirmation db spbgasu g w = Inr c" and "schedule_ok db"
  shows "load_confirmation (record_failed_attempt spbgasu g w checked f c db) spbgasu g w =
     Inr (marked (cf_version c) (cf_confirmed_at c) (cf_parity c) (Some f))"
proof (cases "cf_version c")
  case None
  show ?thesis
    using load_confirmation_marked [where v = None] assms(2) None
    by (simp add: record_failed_attempt_def schedule_ok_def snapshots_ok_def)
next
  case (Some v)
  show ?thesis
    using load_confirmation_marked [where v = "Some v" and x' = v] assms(2) Some load_confirmation_in [OF assms(1) Some]
    by (simp add: record_failed_attempt_def schedule_ok_def snapshots_ok_def)
qed

lemma failed_sync_core:
  assumes "sync_week svc fetch now g w par db = Inr (db', res)" and "schedule_ok db"
    and "fetch (strip g) = Inl e" and "aware later"
  shows "db_snapshots db' = db_snapshots db \<and> db_lessons db' = db_lessons db \<and> db_changes db' = db_changes db
    \<and> sy_changes res = [] \<and> \<not> is_fresh (sy_freshness res)
    \<and> (\<exists>c s. load_confirmation db spbgasu (strip g) w = Inr c
          \<and> load_latest_confirmed svc later g w db' = Inr s
          \<and> map_option cs_snapshot s = map_option vs_snapshot (cf_version c)
          \<and> map_option cs_snapshot (sy_schedule res) = map_option vs_snapshot (cf_version c)
          \<and> (case s of None \<Rightarrow> True | Some x \<Rightarrow> \<not> is_fresh (cs_freshness x)))"
  using assms(1)
proof (cases rule: sync_week_cases)
  case (fetched ls)
  then show ?thesis using assms(3) by (simp add: fetch_week_def)
next
  case (failed e')
  from sync_failed_Inr [OF failed(4)] obtain c checked where c: "load_confirmation db spbgasu (strip g) w = Inr c"
    and db': "db' = record_failed_attempt spbgasu (strip g) w checked (classify_failure e') c db"
    and f: "sy_freshness res = freshness_of checked (cf_confirmed_at c) (ss_fresh_for svc) (Some (classify_failure e')) True"
    and s: "sy_schedule res = confirmed_of c w (sy_freshness res)" and none: "sy_changes res = []"
    by metis
  have load: "load_latest_confirmed svc later g w db' =
      Inr (confirmed_of (marked (cf_version c) (cf_confirmed_at c) (cf_parity c) (Some (classify_failure e'))) w
        (freshness_of (utc_at (instant_of later))
           (optional_datetime (json_text (map_option iso_datetime (cf_confirmed_at c))))
           (ss_fresh_for svc) (Some (classify_failure e')) True))"
    using failed(3) assms(4)
    by (simp add: load_latest_confirmed_def aware_utc_def db' failed_attempt_loads [OF c assms(2)] marked_def)
  show ?thesis
    using none
    by (simp add: load c s f is_fresh_def confirmed_of_def marked_def option.map_comp o_def
        split: option.split) (simp add: db' record_failed_attempt_def)
qed

text \<open>
  C31: when the source cannot be read, a synchronisation stores no snapshot, lesson or change and
  reports no change; what it returns, and what is loaded from then on, is the version that was
  confirmed before, never marked as fresh.
\<close>

theorem failed_sync_keeps_data:
  assumes "sync_week svc fetch now g w par db = Inr (db', res)" and "schedule_ok db"
    and "fetch (strip g) = Inl e" and "aware later"
  shows "db_snapshots db' = db_snapshots db \<and> db_lessons db' = db_lessons db \<and> db_changes db' = db_changes db
    \<and> sy_changes res = [] \<and> \<not> is_fresh (sy_freshness res)
    \<and> (\<exists>c s. load_confirmation db spbgasu (strip g) w = Inr c
          \<and> load_latest_confirmed svc later g w db' = Inr s
          \<and> map_option cs_snapshot s = map_option vs_snapshot (cf_version c)
          \<and> map_option cs_snapshot (sy_schedule res) = map_option vs_snapshot (cf_version c)
          \<and> (case s of None \<Rightarrow> True | Some x \<Rightarrow> \<not> is_fresh (cs_freshness x)))"
  using assms by (rule failed_sync_core)

section \<open>What was synchronised is what is loaded\<close>

lemma sort_key_mset_eq:
  assumes "mset xs = mset ys" and "distinct (map f xs)"
  shows "sort_key f xs = sort_key f ys"
proof (rule sort_key_inj_key_eq)
  show "mset xs = mset (sort_key f ys)" using assms(1) by simp
  show "inj_on f (set xs)" using assms(2) by (simp add: distinct_map)
  show "sorted (map f (sort_key f ys))" by simp
qed

lemma content_hash_mset:
  assumes "mset (sn_lessons a) = mset (sn_lessons b)" and "distinct (map lesson_sort_key (sn_lessons a))"
  shows "content_hash a = content_hash b"
  by (simp add: content_hash_def content_json_def sort_key_mset_eq [OF assms])

lemma collect_domain_lessons:
  "\<forall>r \<in> set rows. valid_lesson (lr_lesson r) \<Longrightarrow> collect (map to_domain_lesson rows) = Inr (map lr_lesson rows)"
  by (induction rows) (auto simp: to_domain_lesson_def new_lesson_valid)

lemma stored_version_loads:
  assumes "store_snapshot db snap w par = Inr (db1, v, created)" and "schedule_ok db"
    and "list_all valid_lesson (sn_lessons snap)" and "distinct (map lesson_sort_key (sn_lessons (vs_snapshot v)))"
  shows "\<exists>v'. load_version db1 (vs_row v) = Inr v'
     \<and> mset (sn_lessons (vs_snapshot v')) = mset (sn_lessons (vs_snapshot v))"
proof (cases "List.find (same_content snap w) (db_snapshots db)")
  case None
  define row where "row = new_snapshot_row db snap w par"
  obtain rows ids where ins: "insert_lessons (sr_id row) (sn_lessons snap) [] (db_lessons db) = Inr (rows, ids)"
    and db1: "db1 = db\<lparr>db_snapshots := db_snapshots db @ [row], db_lessons := rows\<rparr>"
    and v: "v = \<lparr>vs_row = row, vs_snapshot = snap, vs_lesson_ids = ids\<rparr>"
    using assms(1) None by (auto simp: store_snapshot_def Let_def py row_def)
  from store_snapshot_created [OF assms(2,3) None ins row_def] obtain new where
    new: "rows = db_lessons db @ new" "map lr_lesson new = sn_lessons snap"
    "\<forall>r \<in> set new. lr_snapshot_id r = sr_id row" "\<forall>r \<in> set (db_lessons db). lr_snapshot_id r \<noteq> sr_id row"
    "distinct (map lr_key new)" by auto
  define stored where "stored = sort_key stored_order new"
  have "filter (\<lambda>r. lr_snapshot_id r = sr_id row) rows = new"
    using new(3,4) by (simp add: new(1) filter_True filter_False)
  then have stored: "stored_lessons db1 (sr_id row) = stored"
    by (simp add: stored_lessons_def db1 stored_def)
  have "\<forall>r \<in> set stored. valid_lesson (lr_lesson r)"
    using assms(3) by (auto simp: stored_def list_all_iff new(2) [symmetric])
  note lessons = collect_domain_lessons [OF this]
  have same: "mset (map lr_lesson stored) = mset (sn_lessons snap)"
    by (simp add: stored_def new(2) [symmetric])
  have keys: "distinct (map lr_key stored)"
    using new(5) by (metis mset_eq_imp_distinct_iff mset_map mset_sort stored_def)
  let ?snap = "\<lparr>sn_source = sr_source row, sn_group_key = sr_group_key row,
      sn_fetched_at = utc_at (sr_fetched_at row), sn_lessons = map lr_lesson stored\<rparr>"
  have "content_hash snap = content_hash ?snap"
    using assms(4) same by (intro content_hash_mset) (simp_all add: v)
  then have hash: "content_hash ?snap = sr_content_hash row" by (simp add: row_def new_snapshot_row_def)
  have "load_version db1 row = Inr \<lparr>vs_row = row, vs_snapshot = ?snap,
      vs_lesson_ids = map (\<lambda>r. (lr_key r, lr_id r)) stored\<rparr>"
    using hash keys by (simp add: load_version_def stored lessons Let_def o_def)
  then show ?thesis using same by (simp add: v)
next
  case (Some row)
  then have "db1 = db" "load_version db row = Inr v"
    using assms(1) by (auto simp: store_snapshot_def py)
  then show ?thesis using load_version_Inr(1) [of db row v] by auto
qed

text \<open>The moment of a check is a date that exists.\<close>

definition dated :: "pydt \<Rightarrow> bool" where
  "dated d \<longleftrightarrow> is_date (dt_date (utc_at (instant_of d)))"

lemma fresh_sync:
  assumes "sync_week svc fetch now g w par db = Inr (db', res)" and "is_fresh (sy_freshness res)"
  obtains ls where "fetch_week svc fetch (strip g) w par = Inr ls" "validate_request g w = Inr (strip g)"
      "sync_fetched svc ls now (strip g) w par db = Inr (db', res)"
  using assms(1)
proof (cases rule: sync_week_cases)
  case (failed e)
  then show ?thesis using assms(2) by (auto elim!: sync_failed_Inr simp: is_fresh_def)
qed (rule that)

lemma fetched_confirmation:
  assumes "sync_fetched svc ls now g w par db = Inr (db', res)" and "schedule_ok db" and "list_all valid_lesson ls"
    and "sy_schedule res = Some s" and "distinct (map lesson_sort_key (sn_lessons (cs_snapshot s)))"
  obtains cur :: version and cur' where "load_confirmation db' spbgasu g w = Inr (marked (Some cur') (Some (utc_at (instant_of now))) (Some par) None)"
    "vs_row cur' = vs_row cur" "cs_snapshot_id s = sr_id (vs_row cur)" "cs_snapshot s = vs_snapshot cur"
    "mset (sn_lessons (vs_snapshot cur')) = mset (sn_lessons (vs_snapshot cur))"
    "aware now" "vs_row cur \<in> set (db_snapshots db')" "schedule_ok db'"
    "same_content \<lparr>sn_source = spbgasu, sn_group_key = g, sn_fetched_at = now, sn_lessons = ls\<rparr> w (vs_row cur)"
    "sr_is_complete (vs_row cur)" "load_version db' (vs_row cur) = Inr cur'"
proof (rule sync_fetched_Inr [OF assms(1,2,3)])
  fix previous db1 cur cs db2 checked
  assume a: "aware_utc now = Inr checked"
    "store_snapshot db \<lparr>sn_source = spbgasu, sn_group_key = g, sn_fetched_at = checked, sn_lessons = ls\<rparr> w par
       = Inr (db1, cur, sy_created res)"
    "db' = confirm spbgasu g w checked par cur db2"
    "sy_schedule res = Some \<lparr>cs_snapshot_id = sr_id (vs_row cur), cs_snapshot = vs_snapshot cur,
                cs_week_start = w, cs_parity = Some par, cs_freshness = sy_freshness res\<rparr>"
    "schedule_ok db2" "db_snapshots db2 = db_snapshots db1" "db_lessons db2 = db_lessons db1"
  have now: "aware now" "checked = utc_at (instant_of now)" using a(1) by (auto simp: aware_utc_def py)
  have s: "cs_snapshot_id s = sr_id (vs_row cur)" "cs_snapshot s = vs_snapshot cur" using a(4) assms(4) by auto
  have st: "version_in db1 cur" "sr_is_complete (vs_row cur)"
    "same_content \<lparr>sn_source = spbgasu, sn_group_key = g, sn_fetched_at = checked, sn_lessons = ls\<rparr> w (vs_row cur)"
    using store_snapshot_ok [OF a(2) assms(2)] assms(3) by auto
  obtain cur' where cur': "load_version db1 (vs_row cur) = Inr cur'"
    "mset (sn_lessons (vs_snapshot cur')) = mset (sn_lessons (vs_snapshot cur))"
    using stored_version_loads [OF a(2) assms(2)] assms(3,5) s(2) by auto
  have load2: "load_version db2 r = load_version db1 r" for r by (rule load_version_cong) (rule a(7))
  have load': "load_version db' r = load_version db1 r" for r
    by (rule load_version_cong) (simp add: a(3,7) confirm_def)
  have row: "vs_row cur' = vs_row cur" using load_version_Inr(1) [OF cur'(1)] .
  have "load_confirmation db' spbgasu g w = Inr (marked (map_option (\<lambda>_. cur') (Some cur)) (Some checked) (Some par) None)"
    using a(5,6) st cur'
    by (intro load_confirmation_marked [where db = db2 and sid = "Some (sr_id (vs_row cur))"])
      (auto simp: a(3) confirm_def schedule_ok_def snapshots_ok_def version_in_def load2 same_content_def)
  moreover have "schedule_ok db'" using a(5) by (simp add: a(3) confirm_def schedule_ok_marker)
  moreover have "vs_row cur \<in> set (db_snapshots db')" using st(1) a(6) by (simp add: a(3) confirm_def version_in_def)
  moreover have "same_content \<lparr>sn_source = spbgasu, sn_group_key = g, sn_fetched_at = now, sn_lessons = ls\<rparr> w (vs_row cur)"
    using st(3) by (simp add: same_content_def content_hash_def)
  ultimately show thesis using that [of cur' cur] now row s cur' st(2) load' by simp
qed

text \<open>
  C32: after a successful synchronisation, the week is loaded back as fresh for the whole
  freshness window, from the same snapshot and with the same lessons and parity (for lessons
  whose sort keys differ, as the source's identities make them).
\<close>

theorem synced_week_loads:
  assumes "sync_week svc fetch now g w par db = Inr (db', res)" and "schedule_ok db"
    and "is_fresh (sy_freshness res)" and "sy_schedule res = Some s"
    and "distinct (map lesson_sort_key (sn_lessons (cs_snapshot s)))" and "dated now"
    and "aware later" and "instant_of now \<le> instant_of later"
    and "instant_of later \<le> instant_of now + ss_fresh_for svc"
  shows "\<exists>s'. load_latest_confirmed svc later g w db' = Inr (Some s') \<and> is_fresh (cs_freshness s')
     \<and> cs_snapshot_id s' = cs_snapshot_id s \<and> cs_parity s' = Some par
     \<and> mset (sn_lessons (cs_snapshot s')) = mset (sn_lessons (cs_snapshot s))"
proof -
  obtain ls where ls: "fetch_week svc fetch (strip g) w par = Inr ls" "validate_request g w = Inr (strip g)"
    "sync_fetched svc ls now (strip g) w par db = Inr (db', res)"
    using fresh_sync [OF assms(1,3)] .
  show ?thesis
  proof (rule fetched_confirmation [OF ls(3) assms(2) fetch_week_valid [OF ls(1)] assms(4,5)])
    fix cur :: version and cur'
    assume c: "load_confirmation db' spbgasu (strip g) w
        = Inr (marked (Some cur') (Some (utc_at (instant_of now))) (Some par) None)"
      "vs_row cur' = vs_row cur" "cs_snapshot_id s = sr_id (vs_row cur)" "cs_snapshot s = vs_snapshot cur"
      "mset (sn_lessons (vs_snapshot cur')) = mset (sn_lessons (vs_snapshot cur))"
    have "optional_datetime (json_text (Some (iso_datetime (utc_at (instant_of now)))))
        = Some (utc_at (instant_of now))"
      using assms(6) optional_datetime_iso [OF _ refl] by (simp add: dated_def)
    then show ?thesis
      using c assms(7-9)
      by (simp add: load_latest_confirmed_def ls(2) aware_utc_def marked_def confirmed_of_def freshness_of_def
          is_fresh_def Let_def)
  qed
qed

lemma fresh_sync_duration:
  assumes "sync_week svc fetch now g w par db = Inr (db', res)" and "schedule_ok db" and "is_fresh (sy_freshness res)"
  shows "0 \<le> ss_fresh_for svc"
proof -
  obtain ls where ls: "fetch_week svc fetch (strip g) w par = Inr ls"
    "sync_fetched svc ls now (strip g) w par db = Inr (db', res)"
    using fresh_sync [OF assms(1,3)] .
  obtain checked where "sy_freshness res = freshness_of checked (Some checked) (ss_fresh_for svc) None False"
    using sync_fetched_Inr [OF ls(2) assms(2) fetch_week_valid [OF ls(1)]] .
  then show ?thesis using assms(3) by (simp add: is_fresh_def freshness_of_def Let_def split: if_splits)
qed

text \<open>
  Synchronising the same lessons of the same week again succeeds, stores no snapshot, lesson
  or change, and reports no change.
\<close>

theorem resync_changes_nothing:
  assumes "sync_week svc fetch now g w par db = Inr (db1, res1)" and "schedule_ok db"
    and "is_fresh (sy_freshness res1)" and "sy_schedule res1 = Some s"
    and "distinct (map lesson_sort_key (sn_lessons (cs_snapshot s)))"
    and "fetch_week svc fetch' (strip g) w par' = fetch_week svc fetch (strip g) w par" and "aware now'"
  shows "\<exists>db2 res2. sync_week svc fetch' now' g w par' db1 = Inr (db2, res2)
    \<and> db_snapshots db2 = db_snapshots db1 \<and> db_lessons db2 = db_lessons db1 \<and> db_changes db2 = db_changes db1
    \<and> \<not> sy_created res2 \<and> sy_changes res2 = [] \<and> is_fresh (sy_freshness res2)"
proof -
  have fresh_for: "0 \<le> ss_fresh_for svc" using fresh_sync_duration [OF assms(1-3)] .
  obtain ls where ls: "fetch_week svc fetch (strip g) w par = Inr ls" "validate_request g w = Inr (strip g)"
    "sync_fetched svc ls now (strip g) w par db = Inr (db1, res1)"
    using fresh_sync [OF assms(1,3)] .
  show ?thesis
  proof (rule fetched_confirmation [OF ls(3) assms(2) fetch_week_valid [OF ls(1)] assms(4,5)])
    fix cur :: version and cur'
    assume c: "load_confirmation db1 spbgasu (strip g) w
        = Inr (marked (Some cur') (Some (utc_at (instant_of now))) (Some par) None)"
      "vs_row cur \<in> set (db_snapshots db1)" "schedule_ok db1"
      "same_content \<lparr>sn_source = spbgasu, sn_group_key = strip g, sn_fetched_at = now, sn_lessons = ls\<rparr> w (vs_row cur)"
      "sr_is_complete (vs_row cur)" "load_version db1 (vs_row cur) = Inr cur'"
    let ?snap = "\<lparr>sn_source = spbgasu, sn_group_key = strip g, sn_fetched_at = utc_at (instant_of now'), sn_lessons = ls\<rparr>"
    have here: "same_content ?snap w (vs_row cur)" using c(4) by (simp add: same_content_def content_hash_def)
    then obtain row where row: "List.find (same_content ?snap w) (db_snapshots db1) = Some row"
      using c(2) by (metis find_None_set not_Some_eq)
    then have "row \<in> set (db_snapshots db1)" "same_content ?snap w row" by (auto dest: find_Some_set)
    then have "row = vs_row cur"
      using here c(2,3) unfolding schedule_ok_def snapshots_ok_def distinct_map inj_on_def same_content_def by simp
    then have stored: "store_snapshot db1 ?snap w par' = Inr (db1, cur', False)"
      using row c(5,6) by (simp add: store_snapshot_def)
    have previous: "cf_version (marked (Some cur') conf p f) = Some cur'" for conf p f
      by (simp add: marked_def)
    have "detect_changes (Some cur') cur' = Inr []" by (simp add: detect_changes_def)
    moreover have "store_changes db1 (Some cur') cur' [] t = Inr (db1, [], [])" for t
      by (simp add: store_changes_def)
    ultimately show ?thesis
      using assms(7) fresh_for
      by (simp add: sync_week_def ls(1,2) assms(6) sync_fetched_def aware_utc_def c(1) stored previous Let_def confirm_def
          is_fresh_def freshness_of_def)
  qed
qed

section \<open>A concrete run\<close>

definition demo_service :: sync_service where
  "demo_service = \<lparr>ss_fresh_for = 30 * minute, ss_retain_teacher_names = True\<rparr>"

definition no_schedules :: schedule_db where
  "no_schedules = \<lparr>db_settings = [], db_snapshots = [], db_lessons = [], db_changes = []\<rparr>"

definition demo_now :: pydt where
  "demo_now = utc_at 0"

lemma no_schedules_ok: "schedule_ok no_schedules"
  by (simp add: schedule_ok_def snapshots_ok_def lessons_ok_def changes_ok_def no_schedules_def)

lemma demo_sync:
  "\<exists>db res s. sync_week demo_service (\<lambda>_. Inr demo_template) demo_now (u ''A'') 738886 Numerator no_schedules = Inr (db, res)
     \<and> is_fresh (sy_freshness res) \<and> sy_schedule res = Some s \<and> length (sn_lessons (cs_snapshot s)) = 1
     \<and> map sr_fetched_at (db_snapshots db) = [0]"
proof -
  obtain l where l: "materialize_week demo_template 738886 Numerator = Inr [l]" using demo_week by blast
  have key: "strip (u ''A'') = u ''A''" "u ''A'' \<noteq> []" by (simp_all add: evaluate_text)
  have request: "validate_request (u ''A'') 738886 = Inr (u ''A'')"
    unfolding validate_request_def key(1) by (simp add: key(2) weekday_def)
  have week: "fetch_week demo_service (\<lambda>_. Inr demo_template) (u ''A'') 738886 Numerator = Inr [l]"
    using l key by (simp add: fetch_week_def demo_service_def demo_template_def del: u_Cons)
  show ?thesis
    unfolding sync_week_def request and_then.simps week sum.case
    by (simp add: sync_fetched_def demo_now_def aware_utc_def
        load_confirmation_def setting_at_def no_schedules_def newest_complete_def first_by_def store_snapshot_def
        Let_def detect_changes_def store_changes_def freshness_of_def is_fresh_def demo_service_def durations
        confirm_def write_marker_def new_snapshot_row_def del: u_Cons)
qed

lemma distinct_single: "length xs = 1 \<Longrightarrow> distinct (map f xs)"
  by (auto simp: length_Suc_conv)

lemma sync_keeps_tables_witness:
  "\<exists>db res. sync_week demo_service (\<lambda>_. Inr demo_template) demo_now (u ''A'') 738886 Numerator no_schedules = Inr (db, res)
     \<and> schedule_ok db \<and> grows no_schedules db"
proof -
  obtain db res where
    "sync_week demo_service (\<lambda>_. Inr demo_template) demo_now (u ''A'') 738886 Numerator no_schedules = Inr (db, res)"
    using demo_sync by blast
  with sync_keeps_tables [OF this no_schedules_ok] show ?thesis by blast
qed

lemma failed_sync_keeps_data_witness:
  "\<exists>db res. sync_week demo_service (\<lambda>_. Inl Gasu_unavailable) demo_now (u ''A'') 738886 Numerator no_schedules = Inr (db, res)
     \<and> db_snapshots db = [] \<and> \<not> is_fresh (sy_freshness res)"
proof -
  have "\<exists>db res. sync_week demo_service (\<lambda>_. Inl Gasu_unavailable) demo_now (u ''A'') 738886 Numerator no_schedules = Inr (db, res)"
    by (simp add: sync_week_def validate_request_def evaluate_text weekday_def fetch_week_def is_source_error_def
        sync_failed_def demo_now_def aware_utc_def load_confirmation_def setting_at_def no_schedules_def
        newest_complete_def first_by_def)
  then obtain db res where
    s: "sync_week demo_service (\<lambda>_. Inl Gasu_unavailable) demo_now (u ''A'') 738886 Numerator no_schedules = Inr (db, res)"
    by blast
  have "aware demo_now" by (simp add: demo_now_def)
  from failed_sync_keeps_data [OF s no_schedules_ok refl this] s show ?thesis by (auto simp: no_schedules_def)
qed

lemma demo_now_dated: "dated demo_now"
  by (simp add: dated_def demo_now_def is_date_def max_date_def dt_date_def utc_at_def instant_of_def epoch_ordinal_def durations)

lemma synced_week_loads_witness:
  "\<exists>db res s. sync_week demo_service (\<lambda>_. Inr demo_template) demo_now (u ''A'') 738886 Numerator no_schedules = Inr (db, res)
     \<and> load_latest_confirmed demo_service (utc_at (29 * minute)) (u ''A'') 738886 db = Inr (Some s)
     \<and> is_fresh (cs_freshness s) \<and> size (mset (sn_lessons (cs_snapshot s))) = 1"
proof -
  obtain db res s where
    s: "sync_week demo_service (\<lambda>_. Inr demo_template) demo_now (u ''A'') 738886 Numerator no_schedules = Inr (db, res)"
      "is_fresh (sy_freshness res)" "sy_schedule res = Some s" "length (sn_lessons (cs_snapshot s)) = 1"
    using demo_sync by blast
  from synced_week_loads [OF s(1) no_schedules_ok s(2,3) distinct_single [OF s(4)] demo_now_dated,
      of "utc_at (29 * minute)"] s(1,4)
  show ?thesis by (fastforce simp: demo_now_def demo_service_def durations)
qed

lemma demo_resync:
  "\<exists>db1 res1 db2 res2.
     sync_week demo_service (\<lambda>_. Inr demo_template) demo_now (u ''A'') 738886 Numerator no_schedules = Inr (db1, res1)
     \<and> sync_week demo_service (\<lambda>_. Inr demo_template) (utc_at day_us) (u ''A'') 738886 Numerator db1 = Inr (db2, res2)
     \<and> schedule_ok db1 \<and> map sr_fetched_at (db_snapshots db1) = [0]
     \<and> \<not> sy_created res2 \<and> is_fresh (sy_freshness res2)"
proof -
  obtain db res s where
    s: "sync_week demo_service (\<lambda>_. Inr demo_template) demo_now (u ''A'') 738886 Numerator no_schedules = Inr (db, res)"
      "is_fresh (sy_freshness res)" "sy_schedule res = Some s" "length (sn_lessons (cs_snapshot s)) = 1"
      "map sr_fetched_at (db_snapshots db) = [0]"
    using demo_sync by (elim exE conjE)
  from resync_changes_nothing [OF s(1) no_schedules_ok s(2,3) distinct_single [OF s(4)] refl, of "utc_at day_us"]
    sync_ok [OF s(1) no_schedules_ok] s(1,5)
  show ?thesis by auto
qed

end
