(* ===== verification/Coordinator.thy ===== *)
theory Coordinator
  imports ScheduleServiceProperties Presentation
begin

text \<open>
  \<open>schedule/coordinator.py\<close>, which refreshes a stale week and never replaces confirmed data
  with guesses, and the schedule views of \<open>telegram/handlers.py\<close>. The result of
  \<open>fetch_bootstrap\<close>, the fetch of a group and the clock readings are parameters; \<open>zone\<close> is the
  offset of the configured time zone at an instant.
\<close>

section \<open>The coordinator\<close>

datatype coordinator_error =
    Coordinator_value_error
  | Coordinator_service service_error
  | Coordinator_client gasu_error

record access =
  ac_schedule :: "confirmed_schedule option"
  ac_refresh_attempted :: bool
  ac_bootstrap_available :: bool
  ac_changes :: "change list"
  ac_change_ids :: "int list"

record coordinator =
  co_group_key :: pystr
  co_service :: sync_service
  co_zone :: "instant \<Rightarrow> int"

definition new_coordinator :: "pystr \<Rightarrow> sync_service \<Rightarrow> (instant \<Rightarrow> int) \<Rightarrow> coordinator_error + coordinator" where
  "new_coordinator group_key svc zone =
     and_then (guard (strip group_key \<noteq> []) Coordinator_value_error) (\<lambda>_.
     Inr \<lparr>co_group_key = strip group_key, co_service = svc, co_zone = zone\<rparr>)"

definition via :: "('a \<Rightarrow> coordinator_error) \<Rightarrow> 'a + 'b \<Rightarrow> coordinator_error + 'b" where
  "via f r = (case r of Inl e \<Rightarrow> Inl (f e) | Inr x \<Rightarrow> Inr x)"

text \<open>\<open>load_at\<close>, \<open>now\<close> and \<open>sync_at\<close> are the readings of the clock, in this order.\<close>

definition get_week ::
    "coordinator \<Rightarrow> gasu_error + bootstrap \<Rightarrow> (pystr \<Rightarrow> gasu_error + weekly_schedule) \<Rightarrow> pydt \<Rightarrow> pydt \<Rightarrow> pydt
       \<Rightarrow> date \<Rightarrow> bool \<Rightarrow> schedule_db \<Rightarrow> coordinator_error + schedule_db \<times> access" where
  "get_week c boot fetch load_at now sync_at week_start force db =
     and_then (guard (weekday week_start = 0) Coordinator_value_error) (\<lambda>_.
     and_then (via Coordinator_service (load_latest_confirmed (co_service c) load_at (co_group_key c) week_start db)) (\<lambda>confirmed.
     if \<not> force \<and> (case confirmed of None \<Rightarrow> False | Some s \<Rightarrow> is_fresh (cs_freshness s))
     then Inr (db, \<lparr>ac_schedule = confirmed, ac_refresh_attempted = False, ac_bootstrap_available = True,
                    ac_changes = [], ac_change_ids = []\<rparr>)
     else
       case boot of
         Inl e \<Rightarrow>
           if is_source_error e
           then Inr (db, \<lparr>ac_schedule = confirmed, ac_refresh_attempted = True, ac_bootstrap_available = False,
                          ac_changes = [], ac_change_ids = []\<rparr>)
           else Inl (Coordinator_client e)
       | Inr b \<Rightarrow>
           and_then (via Coordinator_client (parity_for_week (bs_current_week b)
             (monday_for (dt_date (in_zone (co_zone c) now))) week_start)) (\<lambda>par.
           and_then (via Coordinator_service (sync_week (co_service c) fetch sync_at (co_group_key c) week_start par db))
             (\<lambda>(db', res).
           Inr (db', \<lparr>ac_schedule = sy_schedule res, ac_refresh_attempted = True, ac_bootstrap_available = True,
                      ac_changes = sy_changes res, ac_change_ids = sy_change_ids res\<rparr>)))))"

text \<open>Both weeks; a week's own readings and answers are given by its number, 0 or 1.\<close>

definition current_and_next ::
    "coordinator \<Rightarrow> (nat \<Rightarrow> gasu_error + bootstrap) \<Rightarrow> (nat \<Rightarrow> pystr \<Rightarrow> gasu_error + weekly_schedule) \<Rightarrow> (nat \<Rightarrow> pydt)
       \<Rightarrow> bool \<Rightarrow> schedule_db \<Rightarrow> coordinator_error + schedule_db \<times> access \<times> access" where
  "current_and_next c boot fetch clk force db =
     (let monday = monday_for (dt_date (in_zone (co_zone c) (clk 0))) in
      and_then (get_week c (boot 0) (fetch 0) (clk 1) (clk 2) (clk 3) monday force db) (\<lambda>(db1, a).
      and_then (get_week c (boot 1) (fetch 1) (clk 4) (clk 5) (clk 6) (monday + 7) force db1) (\<lambda>(db2, b).
      Inr (db2, a, b))))"

definition parity_label :: "parity option \<Rightarrow> pystr" where
  "parity_label par =
     (case par of Some Numerator \<Rightarrow> [1095, 1080, 1089, 1083, 1080, 1090, 1077, 1083, 1100] | Some Denominator \<Rightarrow> [1079, 1085, 1072, 1084, 1077, 1085, 1072, 1090, 1077, 1083, 1100]
      | None \<Rightarrow> [1095, 1105, 1090, 1085, 1086, 1089, 1090, 1100, 32, 1085, 1077, 32, 1087, 1086, 1076,
      1090, 1074, 1077, 1088, 1078, 1076, 1077, 1085, 1072])"

section \<open>The views\<close>

text \<open>\<open>system\<close> is the zone of the machine, where \<open>astimezone()\<close> leads.\<close>

definition stale_note :: "(instant \<Rightarrow> int) \<Rightarrow> freshness \<Rightarrow> pystr" where
  "stale_note system f =
     (let confirmed = (case fs_confirmed_at f of
            Some d \<Rightarrow> (let shown = in_zone system d; (y, m, k) = ymd (dt_date shown) in
              pad0 2 k @ [46] @ pad0 2 m @ [32, 183, 32] @ hour_minute (dt_time shown))
          | None \<Rightarrow> [1085, 1077, 1080, 1079, 1074, 1077, 1089, 1090, 1085, 1086])
      in [10, 10] @ [60, 105, 62, 1055, 1086, 1089, 1083, 1077, 1076, 1085, 1077, 1077, 32, 1087, 1086, 1076,
      1090, 1074, 1077, 1088, 1078, 1076, 1077, 1085, 1080, 1077, 58, 32] @ html_escape confirmed @ [46, 32, 1048, 1089, 1090, 1086, 1095, 1085, 1080, 1082, 32, 1089, 1077, 1081, 1095,
      1072, 1089, 32, 1085, 1077, 32, 1086, 1073, 1085, 1086, 1074, 1083, 1105, 1085, 46,
      60, 47, 105, 62])"

definition render_schedule_view :: "(instant \<Rightarrow> int) \<Rightarrow> access \<Rightarrow> schedule_view \<Rightarrow> date \<Rightarrow> pystr" where
  "render_schedule_view system a view today =
     (case ac_schedule a of
        None \<Rightarrow> [128197, 32, 60, 98, 62, 1056, 1072, 1089, 1087, 1080, 1089, 1072, 1085, 1080, 1077, 32,
      1087, 1086, 1082, 1072, 32, 1085, 1077, 1076, 1086, 1089, 1090, 1091, 1087, 1085,
      1086, 60, 47, 98, 62] @ [10, 10] @ [1053, 1077, 1090, 32, 1087, 1086, 1076, 1090, 1074, 1077, 1088, 1078, 1076, 1105, 1085,
      1085, 1086, 1081, 32, 1089, 1086, 1093, 1088, 1072, 1085, 1105, 1085, 1085, 1086,
      1081, 32, 1074, 1077, 1088, 1089, 1080, 1080, 46]
      | Some s \<Rightarrow>
          let lessons = sn_lessons (cs_snapshot s);
              d = (if view = Today_view then today else today + 1);
              body = (if view = Week_view then render_week_card (monday_for today) lessons
                else render_day_card d (filter (\<lambda>l. l_day l = d) lessons)
                       (if view = Today_view then [1057, 1077, 1075, 1086, 1076, 1085, 1103] else [1047, 1072, 1074, 1090, 1088, 1072]) False)
          in body @ (if is_fresh (cs_freshness s) then [] else stale_note system (cs_freshness s)))"

text \<open>The week \<open>schedule_command\<close> loads for the view of tomorrow, and the week of a callback.\<close>

definition command_week :: "date \<Rightarrow> date" where
  "command_week today = monday_for today"

definition callback_week :: "schedule_view \<Rightarrow> date \<Rightarrow> date" where
  "callback_week view today =
     (let requested_day = (if view = Today_view then today else today + 1) in
      monday_for (if view = Week_view then today else requested_day))"

section \<open>Confirmed data is never replaced by guesses\<close>

lemma via_Inr [simp]: "via f r = Inr x \<longleftrightarrow> r = Inr x"
  by (simp add: via_def split: sum.split)

lemma load_at_snapshot:
  assumes "load_latest_confirmed svc load_at g w db = Inr x" and "load_confirmation db spbgasu (strip g) w = Inr c"
  shows "map_option cs_snapshot x = map_option vs_snapshot (cf_version c)"
  using assms by (cases "cf_version c") (auto simp: load_latest_confirmed_def py validate_request_def confirmed_of_def)

text \<open>
  when the public source is down, while its page or its timetable is asked for, the
  coordinator shows exactly the version that was confirmed before, reports no change and leaves
  the stored versions as they were.
\<close>

theorem get_week_keeps_confirmed:
  assumes "get_week c boot fetch load_at now sync_at w force db = Inr (db', a)" and "schedule_ok db"
    and "(\<exists>e. boot = Inl e) \<or> (\<exists>e. fetch (strip (co_group_key c)) = Inl e)" and "aware sync_at"
    and "load_latest_confirmed (co_service c) load_at (co_group_key c) w db = Inr confirmed"
  shows "db_snapshots db' = db_snapshots db \<and> db_lessons db' = db_lessons db \<and> db_changes db' = db_changes db
    \<and> ac_changes a = [] \<and> map_option cs_snapshot (ac_schedule a) = map_option cs_snapshot confirmed"
proof (cases "db' = db \<and> ac_changes a = [] \<and> ac_schedule a = confirmed")
  case False
  then obtain b par res where "boot = Inr b"
      "sync_week (co_service c) fetch sync_at (co_group_key c) w par db = Inr (db', res)"
      "ac_schedule a = sy_schedule res" "ac_changes a = sy_changes res"
    using assms(1,5) by (auto simp: get_week_def py split: if_splits sum.splits)
  moreover from this(1) obtain e where "fetch (strip (co_group_key c)) = Inl e" using assms(3) by auto
  ultimately show ?thesis
    using failed_sync_core [of "co_service c" fetch sync_at "co_group_key c" w par db db' res e sync_at]
      load_at_snapshot [OF assms(5)] assms(2,4) by auto
qed simp

text \<open>The view of tomorrow is asked on a Sunday from a week that does not hold tomorrow.\<close>

lemma command_week_misses_tomorrow: "weekday today = 6 \<Longrightarrow> command_week today + 6 < today + 1"
  by (simp add: command_week_def monday_for_def)

lemma callback_week_holds_tomorrow: "callback_week Tomorrow_view today \<le> today + 1 \<and> today + 1 \<le> callback_week Tomorrow_view today + 6"
  using monday_for_bounds [of "today + 1"] by (simp add: callback_week_def)

text \<open>
  on a Sunday the schedule command answers that tomorrow has no classes, whatever Monday's
  timetable holds: it asks for the week of today, whose lessons all end with that Sunday.
\<close>

theorem sunday_command_shows_no_classes:
  assumes "weekday today = 6" and "ac_schedule a = Some s"
    and "\<forall>l \<in> set (sn_lessons (cs_snapshot s)). command_week today \<le> l_day l \<and> l_day l \<le> command_week today + 6"
  shows "render_schedule_view system a Tomorrow_view today
    = render_day_card (today + 1) [] [1047, 1072, 1074, 1090, 1088, 1072] False @ (if is_fresh (cs_freshness s) then [] else stale_note system (cs_freshness s))"
proof -
  have "filter (\<lambda>l. l_day l = today + 1) (sn_lessons (cs_snapshot s)) = []"
    using assms(3) command_week_misses_tomorrow [OF assms(1)] by (auto simp: filter_empty_conv)
  then show ?thesis using assms(2) by (simp add: render_schedule_view_def Let_def)
qed

section \<open>Witnesses\<close>

definition demo_coordinator :: coordinator where
  "demo_coordinator = \<lparr>co_group_key = u ''A'', co_service = demo_service, co_zone = (\<lambda>_. 0)\<rparr>"

definition demo_access :: access where
  "demo_access = \<lparr>ac_schedule = Some \<lparr>cs_snapshot_id = 1, cs_snapshot = demo_snapshot [], cs_week_start = 1,
     cs_parity = None, cs_freshness = freshness_of demo_now (Some demo_now) hour None False\<rparr>,
     ac_refresh_attempted = False, ac_bootstrap_available = True, ac_changes = [], ac_change_ids = []\<rparr>"

theorem sunday_command_shows_no_classes_witness:
  "\<exists>s. ac_schedule demo_access = Some s
     \<and> render_schedule_view (\<lambda>_. 0) demo_access Tomorrow_view 7
         = render_day_card 8 [] [1047, 1072, 1074, 1090, 1088, 1072] False"
proof -
  obtain s where s: "ac_schedule demo_access = Some s" "sn_lessons (cs_snapshot s) = []" "is_fresh (cs_freshness s)"
    by (simp add: demo_access_def demo_snapshot_def is_fresh_def freshness_of_def durations)
  show ?thesis using sunday_command_shows_no_classes [OF _ s(1), of 7] s by (simp add: weekday_def)
qed

lemma demo_week_down:
  "get_week demo_coordinator (Inl Gasu_unavailable) fetch demo_now demo_now demo_now 1 True no_schedules
     = Inr (no_schedules, \<lparr>ac_schedule = None, ac_refresh_attempted = True, ac_bootstrap_available = False,
         ac_changes = [], ac_change_ids = []\<rparr>)"
  "load_latest_confirmed (co_service demo_coordinator) demo_now (co_group_key demo_coordinator) 1 no_schedules = Inr None"
proof -
  have key: "strip (u ''A'') = u ''A''" "u ''A'' \<noteq> []" by (simp_all add: evaluate_text)
  show load: "load_latest_confirmed (co_service demo_coordinator) demo_now (co_group_key demo_coordinator) 1 no_schedules = Inr None"
    using key
    by (simp add: demo_coordinator_def load_latest_confirmed_def validate_request_def guard_def weekday_def
        load_confirmation_def setting_at_def no_schedules_def newest_complete_def first_by_def aware_utc_def demo_now_def
        confirmed_of_def del: u_Cons)
  show "get_week demo_coordinator (Inl Gasu_unavailable) fetch demo_now demo_now demo_now 1 True no_schedules
     = Inr (no_schedules, \<lparr>ac_schedule = None, ac_refresh_attempted = True, ac_bootstrap_available = False,
         ac_changes = [], ac_change_ids = []\<rparr>)"
    using load by (simp add: get_week_def guard_def weekday_def via_def is_source_error_def)
qed

theorem get_week_keeps_confirmed_witness:
  "\<exists>a. get_week demo_coordinator (Inl Gasu_unavailable) (\<lambda>_. Inl Gasu_unavailable) demo_now demo_now demo_now 1 True no_schedules
       = Inr (no_schedules, a) \<and> map_option cs_snapshot (ac_schedule a) = None"
  using get_week_keeps_confirmed [OF demo_week_down(1) no_schedules_ok _ _ demo_week_down(2)] demo_week_down(1)
  by (simp add: demo_now_def)

end
