(* ===== verification/Materials.thy ===== *)
theory Materials
  imports Difflib Text
begin

text \<open>
  \<open>domain/materials.py\<close>: the transparent classifier of group materials and the
  copy-before-delete workflow. Scores are the binary floats the code computes; regular
  expressions are sequences of items over Python's word characters.
\<close>

section \<open>Regular expressions\<close>

datatype rx_class = Word | Space | Among "nat list"

datatype rx_item = Edge | One rx_class | Many rx_class

definition in_class :: "rx_class \<Rightarrow> nat \<Rightarrow> bool" where
  "in_class cls c = (case cls of Word \<Rightarrow> is_word c | Space \<Rightarrow> is_space c | Among cs \<Rightarrow> c \<in> set cs)"

text \<open>\<open>\\b\<close>: exactly one of the neighbours is a word character.\<close>

definition word_edge :: "nat option \<Rightarrow> pystr \<Rightarrow> bool" where
  "word_edge prev s \<longleftrightarrow>
     (case prev of None \<Rightarrow> False | Some c \<Rightarrow> is_word c) \<noteq> (case s of [] \<Rightarrow> False | c # _ \<Rightarrow> is_word c)"

function rx_match :: "rx_item list \<Rightarrow> nat option \<Rightarrow> pystr \<Rightarrow> bool" where
  "rx_match [] prev s = True"
| "rx_match (Edge # r) prev s \<longleftrightarrow> word_edge prev s \<and> rx_match r prev s"
| "rx_match (One cls # r) prev [] = False"
| "rx_match (One cls # r) prev (c # s) \<longleftrightarrow> in_class cls c \<and> rx_match r (Some c) s"
| "rx_match (Many cls # r) prev [] = rx_match r prev []"
| "rx_match (Many cls # r) prev (c # s) \<longleftrightarrow>
     rx_match r prev (c # s) \<or> (in_class cls c \<and> rx_match (Many cls # r) (Some c) s)"
  by pat_completeness auto
termination by (relation "measure (\<lambda>(r, prev, s). length r + length s)") auto

fun rx_search :: "rx_item list \<Rightarrow> nat option \<Rightarrow> pystr \<Rightarrow> bool" where
  "rx_search r prev [] = rx_match r prev []"
| "rx_search r prev (c # s) \<longleftrightarrow> rx_match r prev (c # s) \<or> rx_search r (Some c) s"

definition text_items :: "pystr \<Rightarrow> rx_item list" where
  "text_items s = map (\<lambda>c. One (Among [c])) s"

text \<open>A pattern with alternatives is the list of its alternatives.\<close>

definition found :: "rx_item list list \<Rightarrow> pystr \<Rightarrow> bool" where
  "found alternatives s \<longleftrightarrow> list_ex (\<lambda>r. rx_search r None s) alternatives"

definition whole_word :: "pystr \<Rightarrow> rx_item list" where
  "whole_word s = [Edge] @ text_items s @ [Edge]"

definition word_stem :: "pystr \<Rightarrow> rx_item list" where
  "word_stem s = [Edge] @ text_items s @ [Many Word, Edge]"

definition strong_academic_patterns :: "rx_item list list list" where
  "strong_academic_patterns =
     [[whole_word [1084, 1077, 1090, 1086, 1076, 1080, 1095, 1082, 1072], word_stem [1084, 1077, 1090, 1086, 1076, 1080, 1095, 1077, 1089, 1082]],
      [whole_word [1079, 1072, 1076, 1072, 1085, 1080, 1077], whole_word [1079, 1072, 1076, 1072, 1085, 1080, 1103], whole_word [1079, 1072, 1076, 1072, 1085, 1080, 1102]],
      [[Edge] @ text_items [1087, 1088, 1080, 1084, 1077, 1088] @ [One Space, Many Space] @ text_items [1088, 1072, 1089, 1095] @ [One (Among [1077, 1105])]
         @ text_items [1090, 1072] @ [Edge]],
      [word_stem [1087, 1088, 1077, 1079, 1077, 1085, 1090, 1072, 1094, 1080]], [word_stem [1083, 1077, 1082, 1094, 1080]], [word_stem [1082, 1086, 1085, 1089, 1087, 1077, 1082, 1090]],
      [[Edge] @ text_items [1089] @ [One Space, Many Space] @ text_items [1076, 1086, 1089, 1082, 1080] @ [Edge]],
      [[Edge] @ text_items [1088, 1072, 1089, 1095] @ [One (Among [1077, 1105])] @ text_items [1090, 1085]
         @ [Many Word, One Space, Many Space] @ text_items [1088, 1072, 1073, 1086, 1090] @ [Many Word, Edge]]]"

definition social_patterns :: "rx_item list list list" where
  "social_patterns =
     [[word_stem [1084, 1077, 1084]], [word_stem [1084, 1077, 1088, 1089]], [word_stem [1090, 1072, 1095, 1082]],
      [[Edge] @ text_items [1072] @ [One (Among [1093]), Many (Among [1093]), One (Among [1072]), Many (Among [1072]),
         Many (Among [1093]), Edge]],
      [word_stem [1088, 1086, 1092, 1083]], [word_stem [1087, 1088, 1080, 1082, 1086, 1083]]]"

section \<open>Evidence\<close>

datatype material_route = Auto_copy | Admin_review | Leave

record evidence =
  me_filename :: "pystr option"
  me_mime_type :: "pystr option"
  me_caption :: "pystr option"
  me_nearby_text :: "pystr option"
  me_extracted :: "pystr option"
  me_aliases :: "pystr list"
  me_is_photo :: bool
  me_is_social_topic :: bool

definition text_given :: "pystr option \<Rightarrow> pystr option" where
  "text_given v = (case v of None \<Rightarrow> None | Some s \<Rightarrow> if s = [] then None else Some s)"

definition combined_text :: "evidence \<Rightarrow> pystr" where
  "combined_text m =
     replace_cp 1105 [1077] (casefold (join [32]
       (List.map_filter text_given [me_caption m, me_nearby_text m, me_filename m, me_extracted m])))"

text \<open>\<open>PurePath(name).suffix\<close> on POSIX: from the last dot of the last component, when the dot is
  neither its first nor its last character.\<close>

fun path_parts :: "pystr \<Rightarrow> pystr \<Rightarrow> pystr list" where
  "path_parts cur [] = [cur]"
| "path_parts cur (c # s) = (if c = 47 then cur # path_parts [] s else path_parts (cur @ [c]) s)"

definition path_name :: "pystr \<Rightarrow> pystr" where
  "path_name s = (case rev (filter (\<lambda>p. p \<noteq> [] \<and> p \<noteq> [46]) (path_parts [] s)) of [] \<Rightarrow> [] | p # _ \<Rightarrow> p)"

definition path_suffix :: "pystr \<Rightarrow> pystr" where
  "path_suffix s =
     (let name = path_name s; ext = rev (takeWhile (\<lambda>c. c \<noteq> 46) (rev name)) in
      if 46 \<in> set name \<and> ext \<noteq> [] \<and> length ext + 1 < length name then [46] @ ext else [])"

definition academic_extensions :: "pystr list" where
  "academic_extensions =
     map u [''.doc'', ''.docx'', ''.dwg'', ''.pdf'', ''.ppt'', ''.pptx'', ''.txt'', ''.xls'', ''.xlsx'']"

section \<open>The assessment\<close>

definition fls :: "rat \<Rightarrow> rat" where
  "fls x = (if x < 0 then - fl (- x) else fl x)"

text \<open>\<open>score += k\<close> under its condition.\<close>

definition add_if :: "bool \<Rightarrow> rat \<Rightarrow> rat \<Rightarrow> rat" where
  "add_if b k score = (if b then fls (score + fls k) else score)"

text \<open>\<open>round(x, 4)\<close> rounds the exact binary value, then takes the nearest float.\<close>

definition round4 :: "rat \<Rightarrow> rat" where
  "round4 x = fls (of_int (round_half_even (x * 10000)) / 10000)"

record assessment =
  as_probability :: rat
  as_route :: material_route
  as_reasons :: "pystr list"

definition strong_hit :: "evidence \<Rightarrow> bool" where
  "strong_hit m \<longleftrightarrow> list_ex (\<lambda>p. found p (combined_text m)) strong_academic_patterns"

definition social_hit :: "evidence \<Rightarrow> bool" where
  "social_hit m \<longleftrightarrow> list_ex (\<lambda>p. found p (combined_text m)) social_patterns"

definition alias_hit :: "evidence \<Rightarrow> bool" where
  "alias_hit m \<longleftrightarrow> list_ex (\<lambda>a. let alias = replace_cp 1105 [1077] (casefold a) in
     alias \<noteq> [] \<and> contains alias (combined_text m)) (me_aliases m)"

definition long_extract :: "evidence \<Rightarrow> bool" where
  "long_extract m \<longleftrightarrow> (case me_extracted m of None \<Rightarrow> False | Some s \<Rightarrow> s \<noteq> [] \<and> 120 \<le> length (strip s))"

definition academic_file :: "evidence \<Rightarrow> bool" where
  "academic_file m \<longleftrightarrow>
     casefold (path_suffix (case me_filename m of None \<Rightarrow> [] | Some s \<Rightarrow> s)) \<in> set academic_extensions"

definition material_score :: "evidence \<Rightarrow> rat" where
  "material_score m =
     add_if (social_hit m) (- (75 / 100)) (add_if (me_is_social_topic m) (- (20 / 100))
       (add_if (long_extract m) (5 / 100) (add_if (alias_hit m) (12 / 100)
         (add_if (strong_hit m \<and> me_is_photo m) (22 / 100) (add_if (strong_hit m) (72 / 100)
           (add_if (me_is_photo m) (3 / 100) (add_if (academic_file m) (25 / 100) 0)))))))"

definition material_reasons :: "evidence \<Rightarrow> pystr list" where
  "material_reasons m =
     concat (map (\<lambda>(b, reason). if b then [u reason] else [])
       [(academic_file m, ''academic_file_type''), (me_is_photo m, ''photo_requires_context''),
        (strong_hit m, ''explicit_academic_context''), (strong_hit m \<and> me_is_photo m, ''explicit_academic_photo''),
        (alias_hit m, ''known_discipline''), (long_extract m, ''extractable_document_text''),
        (me_is_social_topic m, ''social_topic''), (social_hit m, ''explicit_social_context'')])"

definition assess_material :: "evidence \<Rightarrow> rat \<Rightarrow> rat \<Rightarrow> assessment" where
  "assess_material m auto_copy_threshold review_threshold =
     (let probability = min 1 (max 0 (round4 (material_score m))) in
      \<lparr>as_probability = probability,
       as_route = (if auto_copy_threshold \<le> probability then Auto_copy
         else if review_threshold \<le> probability then Admin_review else Leave),
       as_reasons = material_reasons m\<rparr>)"

text \<open>The defaults 0.95 and 0.70.\<close>

definition default_auto_copy :: rat where
  "default_auto_copy = fls (95 / 100)"

definition default_review :: rat where
  "default_review = fls (70 / 100)"

section \<open>The workflow\<close>

datatype workflow_state = Discovered | Review | Copy_pending | Copied | Delete_pending | Completed | Failed

datatype workflow_error = Unexpected_state workflow_state | Bad_destination | Completed_cannot_fail

record workflow =
  wf_state :: workflow_state
  wf_destination :: "int option"
  wf_failure :: "pystr option"

definition new_workflow :: workflow where
  "new_workflow = \<lparr>wf_state = Discovered, wf_destination = None, wf_failure = None\<rparr>"

definition require_state :: "workflow \<Rightarrow> workflow_state \<Rightarrow> workflow_error + unit" where
  "require_state w expected = guard (wf_state w = expected) (Unexpected_state (wf_state w))"

definition route_workflow :: "workflow \<Rightarrow> assessment \<Rightarrow> workflow_error + workflow" where
  "route_workflow w a =
     and_then (require_state w Discovered) (\<lambda>_.
     Inr (w\<lparr>wf_state := (if as_route a = Auto_copy then Copy_pending
       else if as_route a = Admin_review then Review else Completed)\<rparr>))"

definition record_copy_success :: "workflow \<Rightarrow> int \<Rightarrow> workflow_error + workflow" where
  "record_copy_success w destination_message_id =
     and_then (require_state w Copy_pending) (\<lambda>_.
     and_then (guard (\<not> destination_message_id \<le> 0) Bad_destination) (\<lambda>_.
     Inr (w\<lparr>wf_state := Copied, wf_destination := Some destination_message_id\<rparr>)))"

definition request_source_delete :: "workflow \<Rightarrow> bool \<Rightarrow> workflow_error + workflow" where
  "request_source_delete w enabled =
     and_then (require_state w Copied) (\<lambda>_.
     Inr (w\<lparr>wf_state := (if enabled then Delete_pending else Completed)\<rparr>))"

definition record_delete_success :: "workflow \<Rightarrow> workflow_error + workflow" where
  "record_delete_success w =
     and_then (require_state w Delete_pending) (\<lambda>_. Inr (w\<lparr>wf_state := Completed\<rparr>))"

definition fail_workflow :: "workflow \<Rightarrow> pystr \<Rightarrow> workflow_error + workflow" where
  "fail_workflow w reason =
     and_then (guard (wf_state w \<noteq> Completed) Completed_cannot_fail) (\<lambda>_.
     Inr (w\<lparr>wf_state := Failed, wf_failure := Some reason\<rparr>))"

inductive workflow_step :: "workflow \<Rightarrow> workflow \<Rightarrow> bool" where
  route: "route_workflow w a = Inr w' \<Longrightarrow> workflow_step w w'"
| copied: "record_copy_success w n = Inr w' \<Longrightarrow> workflow_step w w'"
| delete_asked: "request_source_delete w enabled = Inr w' \<Longrightarrow> workflow_step w w'"
| deleted: "record_delete_success w = Inr w' \<Longrightarrow> workflow_step w w'"
| failed: "fail_workflow w reason = Inr w' \<Longrightarrow> workflow_step w w'"

inductive_cases workflow_stepE: "workflow_step w w'"

section \<open>Nothing is deleted before it is copied\<close>

lemma require_state_Inr [simp]: "require_state w s = Inr x \<longleftrightarrow> wf_state w = s"
  by (simp add: require_state_def guard_def)

definition workflow_ok :: "workflow \<Rightarrow> bool" where
  "workflow_ok w \<longleftrightarrow>
     (wf_state w \<in> {Copied, Delete_pending} \<longrightarrow> (\<exists>n > 0. wf_destination w = Some n))
     \<and> (case wf_destination w of None \<Rightarrow> True | Some n \<Rightarrow> 0 < n)"

lemma workflow_step_ok: "workflow_step w w' \<Longrightarrow> workflow_ok w \<Longrightarrow> workflow_ok w'"
  by (elim workflow_stepE)
    (auto simp: route_workflow_def record_copy_success_def request_source_delete_def record_delete_success_def
      fail_workflow_def workflow_ok_def py split: if_splits)

text \<open>
  Along every run of the workflow the deletion of a source message is requested only after
  its copy was recorded under a positive message id.
\<close>

theorem delete_only_after_copy:
  assumes "workflow_step\<^sup>*\<^sup>* new_workflow w" and "wf_state w = Delete_pending"
  shows "\<exists>n > 0. wf_destination w = Some n"
proof -
  have "workflow_ok w"
    using assms(1)
  proof (induction rule: rtranclp_induct)
    case (step y z)
    then show ?case using workflow_step_ok by blast
  qed (simp add: workflow_ok_def new_workflow_def)
  then show ?thesis using assms(2) by (simp add: workflow_ok_def)
qed

theorem delete_only_after_copy_witness:
  "\<exists>n > 0. wf_destination \<lparr>wf_state = Delete_pending, wf_destination = Some 7, wf_failure = None\<rparr> = Some n"
proof (rule delete_only_after_copy)
  let ?a = "\<lparr>as_probability = 1, as_route = Auto_copy, as_reasons = []\<rparr>"
  have "workflow_step new_workflow \<lparr>wf_state = Copy_pending, wf_destination = None, wf_failure = None\<rparr>"
    by (rule workflow_step.route [of _ ?a]) (simp add: route_workflow_def new_workflow_def py)
  moreover have "workflow_step \<lparr>wf_state = Copy_pending, wf_destination = None, wf_failure = None\<rparr>
      \<lparr>wf_state = Copied, wf_destination = Some 7, wf_failure = None\<rparr>"
    by (rule workflow_step.copied [of _ 7]) (simp add: record_copy_success_def py)
  moreover have "workflow_step \<lparr>wf_state = Copied, wf_destination = Some 7, wf_failure = None\<rparr>
      \<lparr>wf_state = Delete_pending, wf_destination = Some 7, wf_failure = None\<rparr>"
    by (rule workflow_step.delete_asked [of _ True]) (simp add: request_source_delete_def py)
  ultimately show "workflow_step\<^sup>*\<^sup>* new_workflow \<lparr>wf_state = Delete_pending, wf_destination = Some 7, wf_failure = None\<rparr>"
    by (meson converse_rtranclp_into_rtranclp rtranclp.rtrancl_refl)
qed simp

section \<open>A file type alone copies nothing\<close>

lemma binade_small: "binade x = Some e \<Longrightarrow> x < 2 \<Longrightarrow> e \<le> 0"
proof (rule ccontr)
  assume b: "binade x = Some e" "x < 2" "\<not> e \<le> 0"
  then have "pow2 e \<le> x" by (auto simp: binade_def dest: find_Some_set)
  moreover have "2 \<le> pow2 e" using b(3) self_le_power [of "2 :: rat" "nat e"] by (simp add: pow2_def)
  ultimately show False using b(2) by simp
qed

text \<open>Rounding never crosses a fraction with a denominator of a few bits.\<close>

lemma fl_le_frac:
  assumes "x \<le> of_int c / 2 ^ k" and "x < 2" and "k \<le> 52"
  shows "fl x \<le> of_int c / 2 ^ k"
proof (cases "binade x")
  case (Some e)
  define m where "m = nat (52 - e) - k"
  have "e \<le> 0" using binade_small Some assms(2) by simp
  then have p: "pow2 (52 - e) = 2 ^ k * 2 ^ m" "0 < pow2 (52 - e)"
    using assms(3) by (auto simp: pow2_def m_def power_add [symmetric])
  have "x * pow2 (52 - e) \<le> of_int (c * 2 ^ m)"
    using mult_right_mono [OF assms(1) less_imp_le [OF p(2)]] p(1) by simp
  then have "round_half_even (x * pow2 (52 - e)) \<le> c * 2 ^ m" by (rule round_half_even_le)
  then have "rat_of_int (round_half_even (x * pow2 (52 - e))) \<le> of_int (c * 2 ^ m)" by (simp only: of_int_le_iff)
  then show ?thesis using Some p by (simp add: fl_def divide_simps mult.commute mult.left_commute)
qed (use assms in \<open>simp add: fl_def\<close>)

lemma fls_le_frac:
  assumes "x \<le> of_int c / 2 ^ k" and "0 \<le> c" and "x < 2" and "k \<le> 52"
  shows "fls x \<le> of_int c / 2 ^ k"
proof (cases "x < 0")
  case True
  then have "0 \<le> fl (- x)" using fl_ge [of 0 "- x"] by simp
  moreover have "0 \<le> rat_of_int c / 2 ^ k" using assms(2) by simp
  ultimately show ?thesis using True by (simp add: fls_def)
qed (simp add: fls_def fl_le_frac assms)

lemma fl_ge_half: "1 / 2 < x \<Longrightarrow> x \<le> 1 \<Longrightarrow> 1 / 2 + 1 / 8 \<le> x \<Longrightarrow> 1 / 2 < fl x"
proof -
  assume x: "1 / 2 < x" "x \<le> 1" "1 / 2 + 1 / 8 \<le> x"
  show ?thesis
  proof (cases "binade x")
    case (Some e)
    then have "e \<le> 0" using binade_small x(2) by simp
    define m where "m = nat (52 - e) - 3"
    have p: "pow2 (52 - e) = 8 * 2 ^ m" "0 < pow2 (52 - e)"
      using \<open>e \<le> 0\<close> power_add [of "2 :: rat" 3 m] by (auto simp: pow2_def m_def)
    have "of_int (5 * 2 ^ m) \<le> x * pow2 (52 - e)"
      using mult_right_mono [OF x(3) less_imp_le [OF p(2)]] p(1) by simp
    then have "5 * 2 ^ m \<le> round_half_even (x * pow2 (52 - e))" by (rule round_half_even_ge)
    then have "rat_of_int (5 * 2 ^ m) \<le> of_int (round_half_even (x * pow2 (52 - e)))" by (simp only: of_int_le_iff)
    moreover have "4 * 2 ^ m < rat_of_int (5 * 2 ^ m)" by simp
    ultimately have "4 * 2 ^ m < rat_of_int (round_half_even (x * pow2 (52 - e)))" by (rule less_le_trans [rotated])
    then show ?thesis using Some p by (simp add: fl_def divide_simps)
  qed (use x in \<open>simp add: fl_def\<close>)
qed

text \<open>Scores are bounded in units of 1/32.\<close>

lemma add_if_le:
  assumes "score \<le> of_int a / 32" and "k \<le> of_int d / 32" and "0 \<le> a" and "0 \<le> d" and "a + d < 32"
  shows "add_if b k score \<le> of_int (a + d) / 32"
proof -
  have "fls k \<le> of_int d / 2 ^ 5" using assms by (intro fls_le_frac) auto
  then have s: "score + fls k \<le> of_int (a + d) / 2 ^ 5" using assms(1) by (simp add: add_divide_distrib)
  moreover have "rat_of_int (a + d) / 2 ^ 5 < 2" using assms(5) by simp
  ultimately have "fls (score + fls k) \<le> of_int (a + d) / 2 ^ 5" using assms(3,4) by (intro fls_le_frac) auto
  then show ?thesis using assms(1,4) by (auto simp: add_if_def add_divide_distrib)
qed

text \<open>
  C38: without explicit academic wording a message is left where it is: a file type, a photo, a
  known discipline and extractable text, all together, reach neither the copy nor the review
  threshold.
\<close>

theorem no_copy_without_context:
  assumes "\<not> strong_hit m"
  shows "as_route (assess_material m default_auto_copy default_review) = Leave"
proof -
  have "add_if (academic_file m) (25 / 100) 0 \<le> of_int (0 + 8) / 32" by (rule add_if_le) auto
  then have "add_if (me_is_photo m) (3 / 100) (add_if (academic_file m) (25 / 100) 0) \<le> of_int (0 + 8 + 1) / 32"
    by (rule add_if_le) auto
  then have "add_if (alias_hit m) (12 / 100) (add_if (me_is_photo m) (3 / 100) (add_if (academic_file m) (25 / 100) 0))
      \<le> of_int (0 + 8 + 1 + 4) / 32" by (rule add_if_le) auto
  then have "add_if (long_extract m) (5 / 100) (add_if (alias_hit m) (12 / 100) (add_if (me_is_photo m) (3 / 100)
      (add_if (academic_file m) (25 / 100) 0))) \<le> of_int (0 + 8 + 1 + 4 + 2) / 32" by (rule add_if_le) auto
  then have "material_score m \<le> of_int (0 + 8 + 1 + 4 + 2 + 0 + 0) / 32"
    using assms by (simp only: material_score_def add_if_def [of False] simp_thms if_False) (intro add_if_le, auto)
  then have "round_half_even (material_score m * 10000) \<le> 4688" by (intro round_half_even_le) simp
  then have "rat_of_int (round_half_even (material_score m * 10000)) \<le> of_int 4688" by (simp only: of_int_le_iff)
  then have "round4 (material_score m) \<le> of_int 1 / 2 ^ 1" unfolding round4_def by (intro fls_le_frac) auto
  then have p: "min 1 (max 0 (round4 (material_score m))) \<le> 1 / 2" by simp
  have "1 / 2 < default_review" "1 / 2 < default_auto_copy"
    using fl_ge_half [of "70 / 100"] fl_ge_half [of "95 / 100"]
    by (simp_all add: default_review_def default_auto_copy_def fls_def)
  then have "\<not> default_review \<le> min 1 (max 0 (round4 (material_score m)))"
    "\<not> default_auto_copy \<le> min 1 (max 0 (round4 (material_score m)))" using p by linarith+
  then show ?thesis by (simp only: assess_material_def Let_def assessment.simps if_False)
qed

theorem no_copy_without_context_witness:
  "as_route (assess_material \<lparr>me_filename = None, me_mime_type = None, me_caption = None, me_nearby_text = None,
     me_extracted = None, me_aliases = [], me_is_photo = True, me_is_social_topic = False\<rparr>
     default_auto_copy default_review) = Leave"
  by (rule no_copy_without_context)
    (simp add: strong_hit_def found_def combined_text_def text_given_def strong_academic_patterns_def whole_word_def
      word_stem_def text_items_def word_edge_def map_filter_simps replace_cp_def)

end
