(* ===== verification/AiQuota.thy ===== *)
theory AiQuota
  imports ScheduleService
begin

text \<open>
  \<open>ai/quota.py\<close>: durable quotas of the optional AI provider. The settings table is a list of
  rows; \<open>reserve\<close> and \<open>reconcile\<close> are committed transactions, a raise leaves the table as it
  was. The date source and the clock are arguments.
\<close>

section \<open>Usage\<close>

record usage =
  us_requests :: int
  us_tokens :: int

definition zero_usage :: usage where
  "zero_usage = \<lparr>us_requests = 0, us_tokens = 0\<rparr>"

text \<open>A \<open>bool\<close> is an \<open>int\<close> in Python.\<close>

definition counter :: "json \<Rightarrow> int" where
  "counter j = (case j of JInt n \<Rightarrow> if 0 \<le> n then n else 0 | JBool b \<Rightarrow> (if b then 1 else 0) | _ \<Rightarrow> 0)"

definition usage_of :: "json option \<Rightarrow> usage" where
  "usage_of value =
     (case value of
        Some (JObj kvs) \<Rightarrow>
          \<lparr>us_requests = counter (jget kvs (u ''requests'')), us_tokens = counter (jget kvs (u ''tokens''))\<rparr>
      | _ \<Rightarrow> zero_usage)"

definition usage_json :: "usage \<Rightarrow> json" where
  "usage_json v = JObj [(u ''requests'', JInt (us_requests v)), (u ''tokens'', JInt (us_tokens v))]"

definition day_key :: "date \<Rightarrow> pystr" where
  "day_key d = u ''ai_usage:'' @ iso_date d"

definition month_key :: "date \<Rightarrow> pystr" where
  "month_key d = (let (y, m, k) = ymd d in u ''ai_usage_month:'' @ pad0 4 y @ [45] @ pad0 2 m)"

definition user_key :: "date \<Rightarrow> int \<Rightarrow> pystr" where
  "user_key d user_id = u ''ai_usage_user:'' @ show_int user_id @ [58] @ iso_date d"

type_synonym settings = "setting_row list"

definition setting_value :: "settings \<Rightarrow> pystr \<Rightarrow> json option" where
  "setting_value rows key = map_option sg_value (List.find (\<lambda>r. sg_key r = key) rows)"

definition usage_at :: "settings \<Rightarrow> pystr \<Rightarrow> usage" where
  "usage_at rows key = usage_of (setting_value rows key)"

text \<open>A new row, or the new value in the row that is there.\<close>

definition put_value :: "pystr \<Rightarrow> json \<Rightarrow> instant \<Rightarrow> settings \<Rightarrow> settings" where
  "put_value key value now rows =
     (if setting_value rows key = None then rows @ [\<lparr>sg_key = key, sg_value = value, sg_updated_at = now\<rparr>]
      else upd_where (\<lambda>r. sg_key r = key) (\<lambda>r. r\<lparr>sg_value := value, sg_updated_at := now\<rparr>) rows)"

definition store_usage :: "pystr \<Rightarrow> usage \<Rightarrow> int \<Rightarrow> instant \<Rightarrow> settings \<Rightarrow> settings" where
  "store_usage key v reserved_tokens now rows =
     put_value key (usage_json \<lparr>us_requests = us_requests v + 1, us_tokens = us_tokens v + reserved_tokens\<rparr>) now rows"

section \<open>Reservations\<close>

datatype quota_error = Quota_value_error | Quota_exceeded

record quota =
  qt_request_limit :: int
  qt_token_limit :: int
  qt_tokens_per_request :: int
  qt_per_user_request_limit :: "int option"
  qt_monthly_request_limit :: "int option"
  qt_monthly_token_limit :: "int option"


record reservation =
  qr_day :: date
  qr_reserved_tokens :: int

definition limit_reached :: "int option \<Rightarrow> int \<Rightarrow> bool" where
  "limit_reached limit n \<longleftrightarrow> (case limit of None \<Rightarrow> False | Some l \<Rightarrow> l \<le> n)"

definition limit_surpassed :: "int option \<Rightarrow> int \<Rightarrow> bool" where
  "limit_surpassed limit n \<longleftrightarrow> (case limit of None \<Rightarrow> False | Some l \<Rightarrow> l < n)"

definition reserve_user :: "quota \<Rightarrow> date \<Rightarrow> int option \<Rightarrow> instant \<Rightarrow> settings \<Rightarrow> quota_error + settings" where
  "reserve_user q d user_id now rows =
     (case qt_per_user_request_limit q of
        None \<Rightarrow> Inr rows
      | Some limit \<Rightarrow>
          (case user_id of
             None \<Rightarrow> Inl Quota_value_error
           | Some uid \<Rightarrow>
               and_then (guard (\<not> uid \<le> 0) Quota_value_error) (\<lambda>_.
               and_then (guard (\<not> limit \<le> us_requests (usage_at rows (user_key d uid))) Quota_exceeded) (\<lambda>_.
               Inr (store_usage (user_key d uid) (usage_at rows (user_key d uid)) 0 now rows)))))"

definition reserve :: "quota \<Rightarrow> date \<Rightarrow> int option \<Rightarrow> instant \<Rightarrow> settings \<Rightarrow> quota_error + settings \<times> reservation" where
  "reserve q d user_id now rows =
     (let v = usage_at rows (day_key d); month = usage_at rows (month_key d) in
      and_then (guard (\<not> qt_request_limit q \<le> us_requests v) Quota_exceeded) (\<lambda>_.
      and_then (guard (\<not> qt_token_limit q < us_tokens v + qt_tokens_per_request q) Quota_exceeded) (\<lambda>_.
      and_then (guard (\<not> limit_reached (qt_monthly_request_limit q) (us_requests month)) Quota_exceeded) (\<lambda>_.
      and_then (guard (\<not> limit_surpassed (qt_monthly_token_limit q) (us_tokens month + qt_tokens_per_request q)) Quota_exceeded) (\<lambda>_.
      and_then (reserve_user q d user_id now rows) (\<lambda>rows1.
      Inr (store_usage (month_key d) month (qt_tokens_per_request q) now
             (store_usage (day_key d) v (qt_tokens_per_request q) now rows1),
           \<lparr>qr_day = d, qr_reserved_tokens = qt_tokens_per_request q\<rparr>)))))))"

definition settle_tokens :: "reservation \<Rightarrow> int \<Rightarrow> instant \<Rightarrow> pystr \<Rightarrow> settings \<Rightarrow> settings" where
  "settle_tokens r actual now key rows =
     (case setting_value rows key of
        None \<Rightarrow> rows
      | Some j \<Rightarrow>
          let v = usage_of (Some j) in
          put_value key (usage_json (v\<lparr>us_tokens := max 0 (us_tokens v - qr_reserved_tokens r + actual)\<rparr>)) now rows)"

definition reconcile :: "reservation \<Rightarrow> int option \<Rightarrow> instant \<Rightarrow> settings \<Rightarrow> settings" where
  "reconcile r actual_tokens now rows =
     (case actual_tokens of
        None \<Rightarrow> rows
      | Some actual \<Rightarrow>
          if actual < 0 then rows
          else settle_tokens r actual now (month_key (qr_day r)) (settle_tokens r actual now (day_key (qr_day r)) rows))"

text \<open>
  \<open>QuotaLimitedProvider.chat\<close>: \<open>answer\<close> is the outcome of the wrapped provider with its metered
  prompt and completion tokens; when it raises, the reservation stays.
\<close>

definition metered :: "int option \<Rightarrow> int option \<Rightarrow> int option" where
  "metered prompt_tokens completion_tokens =
     (case (prompt_tokens, completion_tokens) of
        (Some p, Some c) \<Rightarrow> if 0 \<le> p \<and> 0 \<le> c then Some (p + c) else None
      | _ \<Rightarrow> None)"

definition quota_chat ::
    "quota \<Rightarrow> date \<Rightarrow> int option \<Rightarrow> instant \<Rightarrow> instant \<Rightarrow> 'e + ('a \<times> int option \<times> int option) \<Rightarrow> settings
       \<Rightarrow> settings \<times> ((quota_error + 'e) + 'a)" where
  "quota_chat q d user_id now later answer rows =
     (case reserve q d user_id now rows of
        Inl e \<Rightarrow> (rows, Inl (Inl e))
      | Inr (rows1, r) \<Rightarrow>
          (case answer of
             Inl e \<Rightarrow> (rows1, Inl (Inr e))
           | Inr (reply, prompt_tokens, completion_tokens) \<Rightarrow>
               (reconcile r (metered prompt_tokens completion_tokens) later rows1, Inr reply)))"

section \<open>The limits hold\<close>

lemma day_key_not_month [simp]: "day_key d \<noteq> month_key d'" "month_key d' \<noteq> day_key d"
  by (auto simp: day_key_def month_key_def split: prod.split)

lemma user_key_other [simp]: "user_key d i \<noteq> day_key d'" "user_key d i \<noteq> month_key d'"
  "day_key d' \<noteq> user_key d i" "month_key d' \<noteq> user_key d i"
  by (auto simp: day_key_def month_key_def user_key_def split: prod.split)

lemma find_snoc: "List.find P (xs @ [x]) = (case List.find P xs of None \<Rightarrow> if P x then Some x else None | Some y \<Rightarrow> Some y)"
  by (induction xs) auto

lemma setting_value_put [simp]:
  "setting_value (put_value key value now rows) key' = (if key' = key then Some value else setting_value rows key')"
proof (cases "setting_value rows key")
  case None
  then show ?thesis by (auto simp: put_value_def setting_value_def find_snoc split: option.split)
next
  case (Some v)
  have same: "List.find (\<lambda>r. sg_key r = key) rows = Some r \<Longrightarrow>
      List.find (\<lambda>r. sg_key r = key) (upd_where (\<lambda>r. sg_key r = key) f rows) = Some (f r)"
    if "\<And>r. sg_key (f r) = sg_key r" for f r
    using that by (induction rows) (auto simp: upd_where_def)
  have other: "key' \<noteq> key \<Longrightarrow> List.find (\<lambda>r. sg_key r = key') (upd_where (\<lambda>r. sg_key r = key) f rows)
      = List.find (\<lambda>r. sg_key r = key') rows" if "\<And>r. sg_key (f r) = sg_key r" for f
    using that by (induction rows) (auto simp: upd_where_def)
  from Some obtain r where "List.find (\<lambda>r. sg_key r = key) rows = Some r" by (auto simp: setting_value_def)
  then show ?thesis
    using Some same [of "\<lambda>r. r\<lparr>sg_value := value, sg_updated_at := now\<rparr>" r]
    by (auto simp: put_value_def setting_value_def other)
qed

lemma usage_json_of [simp]:
  "0 \<le> us_requests v \<Longrightarrow> 0 \<le> us_tokens v \<Longrightarrow> usage_of (Some (usage_json v)) = v"
  by (cases v) (simp add: usage_json_def usage_of_def jget_def counter_def)

lemma usage_of_nonneg [simp]: "0 \<le> us_requests (usage_of v)" "0 \<le> us_tokens (usage_of v)"
  by (auto simp: usage_of_def zero_usage_def counter_def split: option.split json.split)






















end
