(* ===== verification/Assistant.thy ===== *)
theory Assistant
  imports AiQuota Roster
begin

text \<open>
  The private assistant: the retries and the parser of \<open>ai/provider.py\<close>, the
  authorization-first service of \<open>assistant/service.py\<close>, the answer renderer of
  \<open>assistant/conversation.py\<close>, the ranking of \<open>assistant/retriever.py\<close> and the query builder of
  \<open>search/text.py\<close>. The membership gateway, the search, the HTTP exchange, NFKC and the Russian
  stemmer are parameters.
\<close>

section \<open>The provider\<close>

datatype ai_error = Ai_error | Ai_unavailable | Ai_protocol | Ai_value_error

record ai_response =
  ar_text :: pystr
  ar_model :: "pystr option"
  ar_prompt_tokens :: "int option"
  ar_completion_tokens :: "int option"

definition optional_int :: "json \<Rightarrow> int option" where
  "optional_int v = (case v of JInt n \<Rightarrow> if 0 \<le> n then Some n else None | _ \<Rightarrow> None)"

definition optional_str :: "json \<Rightarrow> pystr option" where
  "optional_str v = (case v of JStr s \<Rightarrow> Some s | _ \<Rightarrow> None)"

text \<open>\<open>data[...]\<close> of an object, \<open>None\<close> when it raises; and \<open>data[0]\<close> of an array.\<close>

definition jfield :: "pystr \<Rightarrow> json \<Rightarrow> json option" where
  "jfield key j = (case j of JObj kvs \<Rightarrow> map_of (rev kvs) key | _ \<Rightarrow> None)"

definition jfirst :: "json \<Rightarrow> json option" where
  "jfirst j = (case j of JArr (x # xs) \<Rightarrow> Some x | _ \<Rightarrow> None)"

definition answer_text :: "json \<Rightarrow> json option" where
  "answer_text data =
     Option.bind (jfield (u ''choices'') data) (\<lambda>choices.
     Option.bind (jfirst choices) (\<lambda>choice.
     Option.bind (jfield (u ''message'') choice) (jfield (u ''content''))))"

text \<open>\<open>body\<close> is the JSON of the reply, \<open>None\<close> when it is not JSON.\<close>

definition parse_response :: "json option \<Rightarrow> ai_error + ai_response" where
  "parse_response body =
     (case body of
        None \<Rightarrow> Inl Ai_protocol
      | Some data \<Rightarrow>
          (case answer_text data of
             Some (JStr text) \<Rightarrow>
               if strip text = [] then Inl Ai_protocol
               else
                 let kvs = (case data of JObj kvs \<Rightarrow> rev kvs | _ \<Rightarrow> []);
                     usage = (case jget kvs (u ''usage'') of JObj us \<Rightarrow> rev us | _ \<Rightarrow> [])
                 in Inr \<lparr>ar_text = text, ar_model = optional_str (jget kvs (u ''model'')),
                         ar_prompt_tokens = optional_int (jget usage (u ''prompt_tokens'')),
                         ar_completion_tokens = optional_int (jget usage (u ''completion_tokens''))\<rparr>
           | _ \<Rightarrow> Inl Ai_protocol))"

text \<open>
  One exchange: no connection, a status with the body's chunks. Redirect statuses are not
  errors for httpx.
\<close>

datatype exchange = Network_failure | Answered int "nat list list"

definition retryable_statuses :: "int set" where
  "retryable_statuses = {408, 409, 425, 429, 500, 502, 503, 504}"

fun bounded_body :: "nat \<Rightarrow> nat list \<Rightarrow> nat list list \<Rightarrow> ai_error + nat list" where
  "bounded_body limit content [] = Inr content"
| "bounded_body limit content (chunk # chunks) =
     (if limit < length content + length chunk then Inl Ai_protocol
      else bounded_body limit (content @ chunk) chunks)"

text \<open>The attempts of one chat; \<open>loads\<close> reads JSON from bytes. The second result counts requests.\<close>

function chat_attempts ::
    "(nat list \<Rightarrow> json option) \<Rightarrow> (nat \<Rightarrow> exchange) \<Rightarrow> nat \<Rightarrow> nat \<Rightarrow> nat \<Rightarrow> (ai_error + ai_response) \<times> nat" where
  "chat_attempts loads respond max_retries limit attempt =
     (case respond attempt of
        Answered status chunks \<Rightarrow>
          if status \<notin> retryable_statuses then
            (if 400 \<le> status \<and> status \<le> 599 then Inl Ai_error
             else and_then (bounded_body limit [] chunks) (\<lambda>body. parse_response (loads body)), attempt + 1)
          else if max_retries \<le> attempt then (Inl Ai_unavailable, attempt + 1)
          else chat_attempts loads respond max_retries limit (attempt + 1)
      | Network_failure \<Rightarrow>
          if max_retries \<le> attempt then (Inl Ai_unavailable, attempt + 1)
          else chat_attempts loads respond max_retries limit (attempt + 1))"
  by pat_completeness auto
termination by (relation "measure (\<lambda>(_, _, max_retries, _, attempt). max_retries - attempt)") auto

declare chat_attempts.simps [simp del]

text \<open>The pause after an attempt: the server's number, or exponential with up to a fifth of jitter.\<close>

definition ai_backoff :: "nat \<Rightarrow> rat option \<Rightarrow> rat \<Rightarrow> rat" where
  "ai_backoff attempt retry_after jitter =
     (case retry_after of
        Some x \<Rightarrow> min 30 (max 0 x)
      | None \<Rightarrow> min 8 (1 / 2 * 2 ^ attempt) + jitter)"

section \<open>Context\<close>

record hit =
  ht_chat_id :: int
  ht_message_id :: int
  ht_sent_at :: pydt
  ht_sender :: "pystr option"
  ht_text :: pystr
  ht_score :: rat
  ht_topic :: "int option"
  ht_link :: "pystr option"

record source =
  so_label :: pystr
  so_chat_id :: int
  so_message_id :: int
  so_link :: "pystr option"

definition hit_key :: "hit \<Rightarrow> int \<times> int" where
  "hit_key h = (ht_chat_id h, ht_message_id h)"

definition hit_block :: "pystr \<Rightarrow> hit \<Rightarrow> pystr" where
  "hit_block label h =
     [91] @ label @ [93, 32] @ iso_datetime (ht_sent_at h) @ [32, 183, 32]
     @ (case ht_sender h of Some s \<Rightarrow> if s = [] then [1085, 1077, 1080, 1079, 1074, 1077, 1089, 1090, 1085, 1099, 1081, 32, 1072, 1074, 1090,
      1086, 1088] else s | None \<Rightarrow> [1085, 1077, 1080, 1079, 1074, 1077, 1089, 1090, 1085, 1099, 1081, 32, 1072, 1074, 1090,
      1086, 1088])
     @ [32, 183, 32, 109, 101, 115, 115, 97, 103, 101, 95, 105, 100, 61] @ show_int (ht_message_id h) @ [10] @ strip (ht_text h)"

text \<open>The state of the loop: blocks, sources, keys seen, and the length used.\<close>

type_synonym context_state = "pystr list \<times> source list \<times> (int \<times> int) list \<times> nat"

definition context_step :: "nat \<Rightarrow> context_state \<Rightarrow> hit \<Rightarrow> context_state" where
  "context_step max_chars = (\<lambda>(selected, sources, seen, used) h.
     if hit_key h \<in> set seen \<or> strip (ht_text h) = [] then (selected, sources, seen, used)
     else
       let label = u ''S'' @ show_nat (length sources + 1);
           block = hit_block label h;
           projected = used + (if selected = [] then 0 else 2) + length block
       in if max_chars < projected then (selected, sources, seen, used)
          else (selected @ [block],
                sources @ [\<lparr>so_label = label, so_chat_id = ht_chat_id h, so_message_id = ht_message_id h, so_link = ht_link h\<rparr>],
                seen @ [hit_key h], projected))"

definition build_context :: "nat \<Rightarrow> hit list \<Rightarrow> pystr \<times> source list" where
  "build_context max_chars hits =
     (let ordered = sort_key (\<lambda>h. (- ht_score h, instant_of (ht_sent_at h), ht_message_id h)) hits;
          (selected, sources, seen, used) = foldl (context_step max_chars) ([], [], [], 0) ordered
      in (join [10, 10] selected, sources))"

section \<open>The service\<close>

datatype assistant_error = Access_denied | Question_empty | Provider_error ai_error

text \<open>What the service asked of its collaborators, in order.\<close>

datatype 'm call = Asked_membership int int | Retrieved pystr nat | Chatted "'m list" pystr

record answer =
  an_text :: pystr
  an_sources :: "source list"
  an_model :: "pystr option"

record service =
  sv_source_chat_id :: int
  sv_max_context_chars :: nat
  sv_max_sources :: nat

definition new_service :: "service \<Rightarrow> ai_error + service" where
  "new_service s =
     and_then (guard (\<not> sv_max_context_chars s < 1000) Ai_value_error) (\<lambda>_.
     and_then (guard (\<not> sv_max_sources s < 1) Ai_value_error) (\<lambda>_. Inr s))"

definition user_prompt :: "pystr \<Rightarrow> pystr \<Rightarrow> pystr" where
  "user_prompt question ctx =
     [1042, 1086, 1087, 1088, 1086, 1089, 32, 1087, 1086, 1083, 1100, 1079, 1086, 1074, 1072,
      1090, 1077, 1083, 1103, 58] @ [10] @ question @ [10, 10] @ [1053, 1077, 1076, 1086, 1074, 1077, 1088, 1077, 1085, 1085, 1099, 1077, 32, 1092, 1088,
      1072, 1075, 1084, 1077, 1085, 1090, 1099, 32, 1072, 1088, 1093, 1080, 1074, 1072,
      58] @ [10]
     @ (if ctx = [] then [91, 1087, 1086, 1076, 1093, 1086, 1076, 1103, 1097, 1080, 1093, 32, 1080, 1089, 1090,
      1086, 1095, 1085, 1080, 1082, 1086, 1074, 32, 1085, 1077, 1090, 93] else ctx)"

text \<open>
  \<open>gateway\<close>, \<open>retrieve\<close> and \<open>chat\<close> are the collaborators; \<open>turns\<close> are the previous turns. The
  system prompt is part of what \<open>chat\<close> adds.
\<close>

definition assistant_answer ::
    "service \<Rightarrow> (int \<Rightarrow> int \<Rightarrow> confirmed_membership option) \<Rightarrow> (pystr \<Rightarrow> nat \<Rightarrow> hit list)
       \<Rightarrow> ('m list \<Rightarrow> pystr \<Rightarrow> ai_error + ai_response) \<Rightarrow> int \<Rightarrow> pystr \<Rightarrow> 'm list
       \<Rightarrow> 'm call list \<times> (assistant_error + answer)" where
  "assistant_answer s gateway retrieve chat user_id question turns =
     (let asked = Asked_membership (sv_source_chat_id s) user_id in
      if \<not> can_access_group_history (gateway (sv_source_chat_id s) user_id) then ([asked], Inl Access_denied)
      else if strip question = [] then ([asked], Inl Question_empty)
      else
        let hits = retrieve (strip question) (sv_max_sources s);
            (ctx, sources) = build_context (sv_max_context_chars s) hits;
            prompt = user_prompt (strip question) ctx;
            calls = [asked, Retrieved (strip question) (sv_max_sources s), Chatted turns prompt]
        in (case chat turns prompt of
              Inl e \<Rightarrow> (calls, Inl (Provider_error e))
            | Inr r \<Rightarrow> (calls, Inr \<lparr>an_text = ar_text r, an_sources = sources, an_model = ar_model r\<rparr>)))"

section \<open>The rendered answer\<close>

definition truncate_text :: "pystr \<Rightarrow> nat \<Rightarrow> pystr" where
  "truncate_text v limit =
     (if length v \<le> limit then v else if limit = 1 then [8230] else take (limit - 1) v @ [8230])"

text \<open>The loop stops at the first source that does not fit: labels chosen and the shown_chars length.\<close>

fun select_sources :: "nat \<Rightarrow> source list \<Rightarrow> source list \<Rightarrow> nat \<Rightarrow> source list \<times> nat" where
  "select_sources budget selected [] shown_chars = (selected, shown_chars)"
| "select_sources budget selected (s # ss) shown_chars =
     (let label = take 100 (so_label s); added = length label + (if selected = [] then 0 else 1) in
      if budget < shown_chars + added then (selected, shown_chars)
      else select_sources budget (selected @ [s\<lparr>so_label := label\<rparr>]) ss (shown_chars + added))"

definition linked_sources :: "answer \<Rightarrow> source list" where
  "linked_sources a = filter (\<lambda>s. case so_link s of None \<Rightarrow> False
     | Some l \<Rightarrow> starts_with (u ''https://t.me/'') l \<and> length l \<le> 512) (an_sources a)"

definition source_heading :: pystr where
  "source_heading = [10, 10] @ [1048, 1089, 1090, 1086, 1095, 1085, 1080, 1082, 1080] @ [10]"

definition render_answer_with_sources :: "answer \<Rightarrow> nat \<Rightarrow> ai_error + pystr" where
  "render_answer_with_sources a max_visible_chars =
     and_then (guard (1 \<le> max_visible_chars) Ai_value_error) (\<lambda>_.
      let (selected, shown_chars) =
            select_sources (max 1 (max_visible_chars div 3)) [] (linked_sources a) (length source_heading)
      in if linked_sources a = [] \<or> selected = [] \<or> max_visible_chars \<le> shown_chars
         then Inr (html_escape (truncate_text (an_text a) max_visible_chars))
         else Inr (html_escape (truncate_text (an_text a) (max_visible_chars - shown_chars))
           @ [10, 10] @ [60, 98, 62, 1048, 1089, 1090, 1086, 1095, 1085, 1080, 1082, 1080, 60, 47, 98, 62] @ [10]
           @ join [10] (map (\<lambda>s. [60, 97, 32, 104, 114, 101, 102, 61, 34] @ html_escape (case so_link s of None \<Rightarrow> [] | Some l \<Rightarrow> l) @ [34, 62]
               @ html_escape (so_label s) @ u ''</a>'') selected)))"

section \<open>Search queries\<close>

text \<open>\<open>nfkc\<close> and \<open>stem\<close> are parameters; a token is a run of digits, Latin and Russian letters
  (and the dotless i, which matches the Latin range when the case is ignored).\<close>

definition is_token_char :: "nat \<Rightarrow> bool" where
  "is_token_char c \<longleftrightarrow> (48 \<le> c \<and> c \<le> 57) \<or> (97 \<le> c \<and> c \<le> 122) \<or> (1072 \<le> c \<and> c \<le> 1103) \<or> c = 305"

fun token_runs :: "pystr \<Rightarrow> pystr \<Rightarrow> pystr list" where
  "token_runs cur [] = (if cur = [] then [] else [cur])"
| "token_runs cur (c # s) =
     (if is_token_char c then token_runs (cur @ [c]) s
      else if cur = [] then token_runs [] s else cur # token_runs [] s)"

definition tokenize :: "(pystr \<Rightarrow> pystr) \<Rightarrow> pystr \<Rightarrow> pystr list" where
  "tokenize nfkc s = token_runs [] (replace_cp 1105 [1077] (casefold (nfkc s)))"

definition stem_token :: "(pystr \<Rightarrow> pystr) \<Rightarrow> pystr \<Rightarrow> pystr" where
  "stem_token stem t =
     (if length t \<le> 3 \<or> \<not> list_ex (\<lambda>c. 1072 \<le> c \<and> c \<le> 1103) t then t else stem t)"

definition prepare_index_text :: "(pystr \<Rightarrow> pystr) \<Rightarrow> (pystr \<Rightarrow> pystr) \<Rightarrow> pystr \<Rightarrow> pystr" where
  "prepare_index_text nfkc stem s =
     join [32] (concat (map (\<lambda>t. if stem_token stem t \<noteq> t then [t, stem_token stem t] else [t]) (tokenize nfkc s)))"

text \<open>The distinct texts of a list, in the order of their first occurrences.\<close>

definition uniq :: "'a list \<Rightarrow> 'a list" where
  "uniq xs = rev (remdups (rev xs))"

definition expanded_terms :: "(pystr \<Rightarrow> pystr) \<Rightarrow> pystr list \<Rightarrow> pystr list" where
  "expanded_terms stem ts = uniq (concat (map (\<lambda>t. if t = [] then [] else [t, stem_token stem t]) ts))"

definition render_group :: "pystr list \<Rightarrow> pystr" where
  "render_group terms =
     (let clauses = map (\<lambda>t. [34] @ t @ [34, 42]) terms in
      case clauses of [c] \<Rightarrow> c | _ \<Rightarrow> [40] @ join (u '' OR '') clauses @ [41])"

text \<open>Later entries with the same normal key win, as in a dictionary.\<close>

definition normalize_aliases :: "(pystr \<Rightarrow> pystr) \<Rightarrow> (pystr \<times> pystr list) list \<Rightarrow> (pystr \<times> pystr list) list" where
  "normalize_aliases nfkc aliases =
     rev (concat (map (\<lambda>(k, vs). if tokenize nfkc k = [] then []
       else [(join [32] (tokenize nfkc k), concat (map (tokenize nfkc) vs))]) aliases))"

definition query_groups ::
    "(pystr \<Rightarrow> pystr) \<Rightarrow> (pystr \<Rightarrow> pystr) \<Rightarrow> pystr list \<Rightarrow> (pystr \<times> pystr list) list \<Rightarrow> pystr list list" where
  "query_groups nfkc stem tokens aliases =
     (case map_of aliases (join [32] tokens) of
        Some (a # as) \<Rightarrow> [expanded_terms stem (tokens @ a # as)]
      | _ \<Rightarrow> map (\<lambda>t. expanded_terms stem (t # (case map_of aliases t of None \<Rightarrow> [] | Some as \<Rightarrow> as))) tokens)"

definition build_fts5_query ::
    "(pystr \<Rightarrow> pystr) \<Rightarrow> (pystr \<Rightarrow> pystr) \<Rightarrow> (pystr \<times> pystr list) list \<Rightarrow> pystr \<Rightarrow> pystr option" where
  "build_fts5_query nfkc stem aliases s =
     (if tokenize nfkc s = [] then None
      else Some (join (u '' AND '') (map render_group
        (query_groups nfkc stem (tokenize nfkc s) (normalize_aliases nfkc aliases)))))"

section \<open>Outsiders learn nothing\<close>

text \<open>
  A user who is not confirmed as a member gets a refusal that depends on nothing but the
  membership: the archive is not searched and the provider is not asked.
\<close>

theorem outsider_refused:
  assumes "\<not> can_access_group_history (gateway (sv_source_chat_id s) user_id)"
  shows "assistant_answer s gateway retrieve chat user_id question turns
    = ([Asked_membership (sv_source_chat_id s) user_id], Inl Access_denied)"
  using assms by (simp add: assistant_answer_def)

text \<open>The loop's state keeps the length of the joined blocks.\<close>

definition context_ok :: "nat \<Rightarrow> context_state \<Rightarrow> bool" where
  "context_ok max_chars = (\<lambda>(selected, sources, seen, used).
     length (join [10, 10] selected) = used \<and> used \<le> max_chars)"

lemma length_join_snoc:
  "length (join [a, b] (ps @ [p])) = length (join [a, b] ps) + (if ps = [] then 0 else 2) + length p"
  by (induction ps rule: induct_list012) auto

lemma context_step_ok:
  assumes "context_ok max_chars c"
  shows "context_ok max_chars (context_step max_chars c h)"
proof -
  obtain selected sources seen used where c: "c = (selected, sources, seen, used)" by (rule prod_cases4)
  define block where "block = hit_block (u ''S'' @ show_nat (length sources + 1)) h"
  show ?thesis
  proof (cases "hit_key h \<in> set seen \<or> strip (ht_text h) = [] \<or> max_chars < used + (if selected = [] then 0 else 2) + length block")
    case True
    then have "context_step max_chars c h = c"
      unfolding c context_step_def block_def Let_def prod.case by (auto simp del: u_Cons)
    then show ?thesis using assms by simp
  next
    case False
    then have "context_step max_chars c h = (selected @ [block],
        sources @ [\<lparr>so_label = u ''S'' @ show_nat (length sources + 1), so_chat_id = ht_chat_id h,
          so_message_id = ht_message_id h, so_link = ht_link h\<rparr>], seen @ [hit_key h],
        used + (if selected = [] then 0 else 2) + length block)"
      unfolding c context_step_def block_def Let_def prod.case by (simp only: if_False de_Morgan_disj simp_thms)
    then show ?thesis using assms False by (simp add: context_ok_def c length_join_snoc)
  qed
qed

text \<open>
  the archive text handed to the provider never exceeds the configured number of characters,
  labels and separators included, whatever the search returns.
\<close>

theorem context_bounded:
  "length (fst (build_context max_chars hits)) \<le> max_chars"
proof -
  have "context_ok max_chars (foldl (context_step max_chars) ([], [], [], 0) hs)" for hs
  proof (induction hs rule: rev_induct)
    case (snoc h hs)
    then show ?case using context_step_ok by simp
  qed (simp add: context_ok_def)
  then show ?thesis by (force simp: build_context_def Let_def context_ok_def split: prod.splits)
qed

theorem outsider_refused_witness:
  "assistant_answer \<lparr>sv_source_chat_id = - 5, sv_max_context_chars = 12000, sv_max_sources = 24\<rparr> (\<lambda>_ _. None)
     (\<lambda>_ _. []) (\<lambda>(_ :: nat list) _. Inl Ai_unavailable) 7 (u ''q'') [] = ([Asked_membership (- 5) 7], Inl Access_denied)"
  by (subst outsider_refused) (simp_all add: can_access_group_history_def)

end
