(* ===== verification/Inbox.thy ===== *)
theory Inbox
  imports QueueCommon
begin

text \<open>
  Telegram updates from the poll to the dispatcher: \<open>storage/inbox.py\<close> and the durable pump of
  \<open>telegram/runtime.py\<close>. The tables are lists of rows; the source of updates, the dispatcher and
  the clock are parameters. A dispatcher's answer is \<open>None\<close>, or the class of the exception it
  raised.
\<close>

section \<open>Tables\<close>

datatype outcome = Processed | Ignored | Failed_update

datatype inbox_error = Negative_update_id

record 'p inbox_row =
  ib_id :: int
  ib_update_id :: int
  ib_payload :: 'p
  ib_received_at :: instant
  ib_available_at :: instant
  ib_processed_at :: "instant option"
  ib_attempts :: nat
  ib_last_error :: "pystr option"

record processed_row =
  pu_update_id :: int
  pu_handler :: pystr
  pu_outcome :: outcome
  pu_detail :: "pystr option"
  pu_processed_at :: instant

record 'p inbox_db =
  db_inbox :: "'p inbox_row list"
  db_processed :: "processed_row list"

definition inbox_row_of :: "'p inbox_db \<Rightarrow> int \<Rightarrow> 'p inbox_row option" where
  "inbox_row_of db n = List.find (\<lambda>r. ib_update_id r = n) (db_inbox db)"

section \<open>Operations\<close>

definition enqueue_raw_update :: "int \<Rightarrow> 'p \<Rightarrow> instant \<Rightarrow> 'p inbox_db \<Rightarrow> inbox_error + 'p inbox_db \<times> bool" where
  "enqueue_raw_update n payload now db =
     and_then (guard (\<not> n < 0) Negative_update_id) (\<lambda>_.
     Inr (if inbox_row_of db n \<noteq> None then (db, False)
          else (db\<lparr>db_inbox := db_inbox db @ [\<lparr>ib_id = next_id ib_id (db_inbox db), ib_update_id = n, ib_payload = payload,
                  ib_received_at = now, ib_available_at = now, ib_processed_at = None, ib_attempts = 0,
                  ib_last_error = None\<rparr>]\<rparr>, True)))"

definition record_processed_update ::
    "int \<Rightarrow> pystr \<Rightarrow> outcome \<Rightarrow> pystr option \<Rightarrow> instant \<Rightarrow> 'p inbox_db \<Rightarrow> 'p inbox_db \<times> bool" where
  "record_processed_update n handler result detail now db =
     (if list_ex (\<lambda>r. pu_update_id r = n) (db_processed db) then (db, False)
      else (db\<lparr>db_inbox := upd_where (\<lambda>r. ib_update_id r = n) (\<lambda>r. r\<lparr>ib_processed_at := Some now\<rparr>) (db_inbox db),
             db_processed := db_processed db @ [\<lparr>pu_update_id = n, pu_handler = handler, pu_outcome = result,
               pu_detail = detail, pu_processed_at = now\<rparr>]\<rparr>, True))"

section \<open>The pump\<close>

definition dispatcher_name :: pystr where
  "dispatcher_name = u ''dispatcher''"

definition initial_offset :: "'p inbox_db \<Rightarrow> int option" where
  "initial_offset db =
     (case map ib_update_id (db_inbox db) of [] \<Rightarrow> None | n # ns \<Rightarrow> Some (foldl max n ns + 1))"

text \<open>The transaction of \<open>admit\<close>: all updates of one poll, or none.\<close>

fun admit :: "(int \<times> 'p) list \<Rightarrow> instant \<Rightarrow> 'p inbox_db \<Rightarrow> inbox_error + 'p inbox_db \<times> nat" where
  "admit [] now db = Inr (db, 0)"
| "admit ((n, payload) # updates) now db =
     and_then (enqueue_raw_update n payload now db) (\<lambda>(db1, fresh).
     and_then (admit updates now db1) (\<lambda>(db2, inserted). Inr (db2, (if fresh then 1 else 0) + inserted)))"

text \<open>\<open>updates\<close> is what the source answered to the offset.\<close>

definition poll_once :: "int option \<Rightarrow> (int \<times> 'p) list \<Rightarrow> instant \<Rightarrow> 'p inbox_db \<Rightarrow> inbox_error + 'p inbox_db \<times> int option" where
  "poll_once offset updates now db =
     (case updates of
        [] \<Rightarrow> Inr (db, offset)
      | (n, _) # others \<Rightarrow>
          and_then (admit updates now db) (\<lambda>(db1, inserted). Inr (db1, Some (foldl max n (map fst others) + 1))))"

definition ready_updates :: "instant \<Rightarrow> nat \<Rightarrow> 'p inbox_db \<Rightarrow> int list" where
  "ready_updates now cap db =
     take cap (map ib_update_id (sort_key (\<lambda>r. (ib_received_at r, ib_update_id r))
       (filter (\<lambda>r. ib_processed_at r = None \<and> ib_available_at r \<le> now) (db_inbox db))))"

text \<open>\<open>recorded_at\<close> is \<open>utc_now()\<close> inside \<open>record_processed_update\<close>, \<open>delayed_at\<close> the one of the
  delay.\<close>

definition record_failure :: "nat \<Rightarrow> int \<Rightarrow> pystr \<Rightarrow> instant \<Rightarrow> instant \<Rightarrow> 'p inbox_db \<Rightarrow> 'p inbox_db" where
  "record_failure max_attempts n error recorded_at delayed_at db =
     (case inbox_row_of db n of
        None \<Rightarrow> db
      | Some r \<Rightarrow>
          if ib_processed_at r \<noteq> None then db
          else
            let attempts = ib_attempts r + 1;
                db1 = db\<lparr>db_inbox := upd_where (\<lambda>x. ib_update_id x = n)
                  (\<lambda>x. x\<lparr>ib_attempts := attempts, ib_last_error := Some (take 200 error)\<rparr>) (db_inbox db)\<rparr>
            in if max_attempts \<le> attempts
               then fst (record_processed_update n dispatcher_name Failed_update (Some (take 200 error)) recorded_at db1)
               else db1\<lparr>db_inbox := upd_where (\<lambda>x. ib_update_id x = n)
                 (\<lambda>x. x\<lparr>ib_available_at := delayed_at + int (min 300 (2 ^ min attempts 8)) * second\<rparr>) (db_inbox db1)\<rparr>)"

text \<open>\<open>None\<close> in the second result: the update was not handed to the dispatcher.\<close>

definition process_one ::
    "nat \<Rightarrow> ('p \<Rightarrow> pystr option) \<Rightarrow> int \<Rightarrow> instant \<Rightarrow> instant \<Rightarrow> 'p inbox_db \<Rightarrow> 'p inbox_db \<times> bool \<times> 'p option" where
  "process_one max_attempts handle n recorded_at delayed_at db =
     (case inbox_row_of db n of
        None \<Rightarrow> (db, False, None)
      | Some r \<Rightarrow>
          if ib_processed_at r \<noteq> None then (db, False, None)
          else
            (case handle (ib_payload r) of
               Some error \<Rightarrow> (record_failure max_attempts n error recorded_at delayed_at db, False, Some (ib_payload r))
             | None \<Rightarrow>
                 (fst (record_processed_update n dispatcher_name Processed None recorded_at db), True, Some (ib_payload r))))"

text \<open>The loop over the identifiers that were ready, with the readings of the clock per update.\<close>

fun process_all ::
    "nat \<Rightarrow> (int \<Rightarrow> 'p \<Rightarrow> pystr option) \<Rightarrow> (int \<Rightarrow> instant \<times> instant) \<Rightarrow> int list \<Rightarrow> 'p inbox_db \<Rightarrow> 'p inbox_db \<times> nat" where
  "process_all max_attempts handle clk [] db = (db, 0)"
| "process_all max_attempts handle clk (n # ns) db =
     (let (db1, success, handed) = process_one max_attempts (handle n) n (fst (clk n)) (snd (clk n)) db;
          (db2, processed) = process_all max_attempts handle clk ns db1
      in (db2, (if success then 1 else 0) + processed))"

definition process_ready ::
    "nat \<Rightarrow> (int \<Rightarrow> 'p \<Rightarrow> pystr option) \<Rightarrow> instant \<Rightarrow> (int \<Rightarrow> instant \<times> instant) \<Rightarrow> nat \<Rightarrow> 'p inbox_db \<Rightarrow> 'p inbox_db \<times> nat" where
  "process_ready max_attempts handle now clk cap db =
     process_all max_attempts handle clk (ready_updates now cap db) db"

section \<open>Runs of the pump\<close>

datatype 'p pump_event = Admitted "int list" | Handed int 'p | Crashed_after int 'p

text \<open>
  One step: a poll is admitted, an update is handed to the dispatcher and its outcome recorded,
  or the process dies between the two, which leaves the tables as they were.
\<close>

inductive pump_step :: "nat \<Rightarrow> 'p inbox_db \<Rightarrow> 'p pump_event \<Rightarrow> 'p inbox_db \<Rightarrow> bool" where
  admitted: "admit updates now db = Inr (db', k) \<Longrightarrow> pump_step cap db (Admitted (map fst updates)) db'"
| handed: "process_one cap handle n recorded_at delayed_at db = (db', success, Some payload) \<Longrightarrow>
     pump_step cap db (Handed n payload) db'"
| crashed: "process_one cap handle n recorded_at delayed_at db = (db', success, Some payload) \<Longrightarrow>
     pump_step cap db (Crashed_after n payload) db"

inductive pump_run :: "nat \<Rightarrow> 'p inbox_db \<Rightarrow> 'p pump_event list \<Rightarrow> 'p inbox_db \<Rightarrow> bool" where
  pump_start: "pump_run cap db [] db"
| pump_next: "pump_run cap db es db1 \<Longrightarrow> pump_step cap db1 e db2 \<Longrightarrow> pump_run cap db (es @ [e]) db2"

definition closed_update :: "int \<Rightarrow> 'p inbox_db \<Rightarrow> bool" where
  "closed_update n db \<longleftrightarrow> (\<exists>r. inbox_row_of db n = Some r \<and> ib_processed_at r \<noteq> None)"

definition concerns :: "int \<Rightarrow> 'p pump_event \<Rightarrow> bool" where
  "concerns n e \<longleftrightarrow> (case e of Handed m _ \<Rightarrow> m = n | Crashed_after m _ \<Rightarrow> m = n | Admitted _ \<Rightarrow> False)"

lemma find_upd_keep:
  "(\<And>r. ib_update_id (f r) = ib_update_id r) \<Longrightarrow>
     List.find (\<lambda>r. ib_update_id r = n) (upd_where (\<lambda>r. ib_update_id r = m) f rows)
       = map_option (\<lambda>r. if n = m then f r else r) (List.find (\<lambda>r. ib_update_id r = n) rows)"
  by (induction rows) (auto simp: upd_where_def)

lemma find_snoc_row:
  "List.find P (rows @ [r]) = (case List.find P rows of None \<Rightarrow> if P r then Some r else None | Some x \<Rightarrow> Some x)"
  by (induction rows) auto

lemma row_enqueue:
  assumes "enqueue_raw_update m payload now db = Inr (db', fresh)"
  shows "inbox_row_of db n = Some r \<Longrightarrow> inbox_row_of db' n = Some r" and "inbox_row_of db' m \<noteq> None"
  using assms by (auto simp: enqueue_raw_update_def inbox_row_of_def find_snoc_row py split: if_splits option.split)

lemma row_admit:
  "admit updates now db = Inr (db', k) \<Longrightarrow>
     (inbox_row_of db n = Some r \<longrightarrow> inbox_row_of db' n = Some r) \<and> (n \<in> fst ` set updates \<longrightarrow> inbox_row_of db' n \<noteq> None)"
proof (induction updates now db arbitrary: db' k r rule: admit.induct)
  case (2 m payload updates now db)
  then obtain db1 fresh db2 inserted where steps: "enqueue_raw_update m payload now db = Inr (db1, fresh)"
      "admit updates now db1 = Inr (db', inserted)" by (auto simp: py)
  have rest: "(inbox_row_of db1 n = Some x \<longrightarrow> inbox_row_of db' n = Some x) \<and> (n \<in> fst ` set updates \<longrightarrow> inbox_row_of db' n \<noteq> None)"
    for x using 2(1) [OF steps(2)] by simp
  have keep: "inbox_row_of db1 n = Some x \<Longrightarrow> inbox_row_of db' n = Some x" for x
    using rest by blast
  have "n \<in> fst ` set updates \<Longrightarrow> inbox_row_of db' n \<noteq> None" using rest by blast
  moreover have "n = m \<Longrightarrow> inbox_row_of db' n \<noteq> None" using row_enqueue(2) [OF steps(1)] keep by (cases "inbox_row_of db1 n") auto
  ultimately show ?case using row_enqueue(1) [OF steps(1), of n] keep by auto
qed simp

lemma closed_upd:
  assumes "closed_update n db" and "\<And>r. ib_update_id (f r) = ib_update_id r"
    and "\<And>r. ib_processed_at r \<noteq> None \<Longrightarrow> ib_processed_at (f r) \<noteq> None"
  shows "closed_update n (db\<lparr>db_inbox := upd_where (\<lambda>r. ib_update_id r = m) f (db_inbox db)\<rparr>)"
proof -
  obtain r where "inbox_row_of db n = Some r" "ib_processed_at r \<noteq> None" using assms(1) by (auto simp: closed_update_def)
  then show ?thesis using assms(2,3) [of r] find_upd_keep [of f n m "db_inbox db"]
    by (cases "n = m") (auto simp: closed_update_def inbox_row_of_def assms(2))
qed

lemma closed_log: "closed_update n (db\<lparr>db_processed := ps\<rparr>) \<longleftrightarrow> closed_update n db"
  by (simp add: closed_update_def inbox_row_of_def)

lemma closed_record:
  assumes "closed_update n db"
  shows "closed_update n (fst (record_processed_update m h res detail now db))"
proof -
  have "closed_update n (db\<lparr>db_inbox := upd_where (\<lambda>r. ib_update_id r = m) (\<lambda>r. r\<lparr>ib_processed_at := Some now\<rparr>) (db_inbox db)\<rparr>)"
    by (rule closed_upd [OF assms]) simp_all
  then show ?thesis using assms by (simp add: record_processed_update_def closed_update_def inbox_row_of_def)
qed

lemma closed_failure:
  assumes "closed_update n db"
  shows "closed_update n (record_failure cap m error t1 t2 db)"
proof (cases "inbox_row_of db m")
  case (Some r)
  define db1 where "db1 = db\<lparr>db_inbox := upd_where (\<lambda>x. ib_update_id x = m)
      (\<lambda>x. x\<lparr>ib_attempts := ib_attempts r + 1, ib_last_error := Some (take 200 error)\<rparr>) (db_inbox db)\<rparr>"
  have "closed_update n db1" unfolding db1_def by (rule closed_upd [OF assms]) simp_all
  then have "closed_update n (fst (record_processed_update m dispatcher_name Failed_update (Some (take 200 error)) t1 db1))"
    "closed_update n (db1\<lparr>db_inbox := upd_where (\<lambda>x. ib_update_id x = m)
       (\<lambda>x. x\<lparr>ib_available_at := t2 + int (min 300 (2 ^ min (ib_attempts r + 1) 8)) * second\<rparr>) (db_inbox db1)\<rparr>)"
    by (rule closed_record, rule closed_upd) simp_all
  then show ?thesis
    unfolding record_failure_def Some option.case Let_def db1_def [symmetric] using assms by (simp only: split: if_split) blast
qed (simp add: record_failure_def assms)

lemma closed_step: "pump_step cap db e db' \<Longrightarrow> closed_update n db \<Longrightarrow> closed_update n db' \<and> \<not> concerns n e"
proof (induction rule: pump_step.induct)
  case (admitted updates now db db' k cap)
  then show ?case using row_admit [of updates now db db' k n] by (auto simp: closed_update_def concerns_def)
next
  case (handed cap handle m recorded_at delayed_at db db' success payload)
  then show ?case
    by (auto simp: process_one_def concerns_def closed_record closed_failure split: option.splits if_splits)
      (auto simp: closed_update_def)
next
  case (crashed cap handle m recorded_at delayed_at db db' success payload)
  then show ?case
    by (auto simp: process_one_def concerns_def closed_update_def split: option.splits if_splits)
qed

text \<open>
  C40: an update whose outcome was recorded is never handed to the dispatcher again, through
  redeliveries, restarts and crashes of any later run.
\<close>

theorem closed_update_stays_closed:
  assumes "pump_run cap db es db'" and "closed_update n db"
  shows "closed_update n db' \<and> \<not> list_ex (concerns n) es"
  using assms by (induction rule: pump_run.induct) (auto dest: closed_step)

lemma foldl_max_ge: "(n :: int) \<le> foldl max n ns \<and> (\<forall>m \<in> set ns. m \<le> foldl max n ns)"
proof (induction ns arbitrary: n)
  case (Cons k ns)
  have "max n k \<le> foldl max (max n k) ns" "\<forall>m \<in> set ns. m \<le> foldl max (max n k) ns"
    using Cons.IH [of "max n k"] by simp_all
  then show ?case by auto
qed simp

text \<open>
  the offset moves past an update only when its row is in the inbox: an update is never
  acknowledged to Telegram before it is stored.
\<close>

theorem poll_stores_before_offset:
  assumes "poll_once offset updates now db = Inr (db', Some next_offset)" and "(n, payload) \<in> set updates"
  shows "n < next_offset \<and> inbox_row_of db' n \<noteq> None"
proof -
  obtain m p others where updates: "updates = (m, p) # others" using assms(2) by (cases updates) auto
  then obtain k where admitted: "admit updates now db = Inr (db', k)" and step: "next_offset = foldl max m (map fst others) + 1"
    using assms(1) by (auto simp: poll_once_def py)
  have "inbox_row_of db' n \<noteq> None" using row_admit [OF admitted, of n] assms(2) by force
  moreover have "n \<le> foldl max m (map fst others)"
    using foldl_max_ge [of m "map fst others"] assms(2) updates by force
  ultimately show ?thesis using step by simp
qed

section \<open>Witnesses\<close>

definition demo_closed :: "nat inbox_db" where
  "demo_closed = \<lparr>db_inbox = [\<lparr>ib_id = 1, ib_update_id = 5, ib_payload = 0, ib_received_at = 0, ib_available_at = 0,
     ib_processed_at = Some 1, ib_attempts = 0, ib_last_error = None\<rparr>],
     db_processed = [\<lparr>pu_update_id = 5, pu_handler = dispatcher_name, pu_outcome = Processed, pu_detail = None,
       pu_processed_at = 1\<rparr>]\<rparr>"

theorem closed_update_stays_closed_witness:
  "\<exists>db'. pump_run 8 demo_closed [Admitted [5]] db' \<and> closed_update 5 db'"
proof -
  have closed: "closed_update 5 demo_closed" by (simp add: closed_update_def inbox_row_of_def demo_closed_def)
  have "admit [(5, 0)] 9 demo_closed = Inr (demo_closed, 0)"
    by (simp add: enqueue_raw_update_def guard_def inbox_row_of_def demo_closed_def)
  from pump_step.admitted [OF this] have "pump_step 8 demo_closed (Admitted [5]) demo_closed" by simp
  from pump_run.pump_next [OF pump_run.pump_start this] have run: "pump_run 8 demo_closed [Admitted [5]] demo_closed" by simp
  then show ?thesis using closed_update_stays_closed [OF run closed] by blast
qed

theorem poll_stores_before_offset_witness:
  "\<exists>db'. poll_once None [(3, 0 :: nat)] 9 demo_closed = Inr (db', Some 4) \<and> inbox_row_of db' 3 \<noteq> None"
proof -
  have "\<exists>db'. poll_once None [(3, 0)] 9 demo_closed = Inr (db', Some 4)"
    by (simp add: poll_once_def enqueue_raw_update_def guard_def inbox_row_of_def demo_closed_def)
  then obtain db' where run: "poll_once None [(3, 0)] 9 demo_closed = Inr (db', Some 4)" ..
  from poll_stores_before_offset [OF this] have "inbox_row_of db' 3 \<noteq> None" by simp
  then show ?thesis using run by blast
qed

end
