(* ===== verification/Retention.thy ===== *)
theory Retention
  imports Inbox JobQueue OutboxQueue
begin

text \<open>
  \<open>retention.py\<close>: one bounded batch that redacts old update payloads and error texts and
  deletes old assistant conversations. Five short transactions in a row, each a function on the
  tables; payloads are JSON objects given as lists, the redacted payload is empty.
\<close>

record retention_policy =
  rp_processed_age :: int
  rp_failed_age :: int
  rp_conversation_age :: int

datatype retention_error = Retention_value_error

definition new_retention_policy :: "retention_policy \<Rightarrow> retention_error + retention_policy" where
  "new_retention_policy p =
     and_then (guard (\<not> min (min (rp_processed_age p) (rp_failed_age p)) (rp_conversation_age p) \<le> 0) Retention_value_error)
       (\<lambda>_. Inr p)"

record conversation_row =
  cv_id :: int
  cv_updated_at :: instant

record ('j, 'o) retained_db =
  rd_inbox :: "'j list inbox_db"
  rd_jobs :: "'j job list"
  rd_outbox :: "'o outbox_row list"
  rd_conversations :: "conversation_row list"

record retention_result =
  rr_processed :: nat
  rr_failed_updates :: nat
  rr_failed_jobs :: nat
  rr_failed_outbox :: nat
  rr_conversations :: nat
  rr_may_have_more :: bool

text \<open>The first identifiers in the order of a key among the rows that match.\<close>

definition pick :: "nat \<Rightarrow> ('r \<Rightarrow> 'k::linorder) \<Rightarrow> ('r \<Rightarrow> bool) \<Rightarrow> ('r \<Rightarrow> int) \<Rightarrow> 'r list \<Rightarrow> int list" where
  "pick batch key P rid rows = take batch (map rid (sort_key key (filter P rows)))"

text \<open>The join of a processed row with its inbox row.\<close>

definition joined :: "'p list inbox_db \<Rightarrow> (processed_row \<times> 'p list inbox_row) list" where
  "joined db =
     concat (map (\<lambda>p. map (\<lambda>r. (p, r)) (filter (\<lambda>r. ib_update_id r = pu_update_id p) (db_inbox db))) (db_processed db))"

definition redact_processed_payloads :: "instant \<Rightarrow> nat \<Rightarrow> 'p list inbox_db \<Rightarrow> 'p list inbox_db \<times> nat" where
  "redact_processed_payloads before_time batch db =
     (let ids = pick batch (\<lambda>(p, r). (pu_processed_at p, ib_id r))
            (\<lambda>(p, r). pu_outcome p \<in> {Processed, Ignored} \<and> pu_processed_at p < before_time \<and> ib_payload r \<noteq> [])
            (\<lambda>(p, r). ib_id r) (joined db)
      in (db\<lparr>db_inbox := upd_where (\<lambda>r. ib_id r \<in> set ids) (\<lambda>r. r\<lparr>ib_payload := []\<rparr>) (db_inbox db)\<rparr>, length ids))"

definition redact_failed_updates :: "instant \<Rightarrow> nat \<Rightarrow> 'p list inbox_db \<Rightarrow> 'p list inbox_db \<times> nat" where
  "redact_failed_updates before_time batch db =
     (let ids = pick batch (\<lambda>(p, r). (pu_processed_at p, pu_update_id p))
            (\<lambda>(p, r). pu_outcome p = Failed_update \<and> pu_processed_at p < before_time
               \<and> (pu_detail p \<noteq> None \<or> ib_last_error r \<noteq> None \<or> ib_payload r \<noteq> []))
            (\<lambda>(p, r). pu_update_id p) (joined db)
      in (db\<lparr>db_inbox := upd_where (\<lambda>r. ib_update_id r \<in> set ids) (\<lambda>r. r\<lparr>ib_last_error := None, ib_payload := []\<rparr>) (db_inbox db),
             db_processed := upd_where (\<lambda>p. pu_update_id p \<in> set ids) (\<lambda>p. p\<lparr>pu_detail := None\<rparr>) (db_processed db)\<rparr>, length ids))"

definition redact_failed_jobs :: "instant \<Rightarrow> nat \<Rightarrow> 'p job list \<Rightarrow> 'p job list \<times> nat" where
  "redact_failed_jobs before_time batch rows =
     (let ids = pick batch (\<lambda>r. (case completed_at r of None \<Rightarrow> 0 | Some t \<Rightarrow> t, job_id r))
            (\<lambda>r. j_status r = JFailed \<and> (case completed_at r of None \<Rightarrow> False | Some t \<Rightarrow> t < before_time) \<and> j_last_error r \<noteq> None)
            job_id rows
      in (upd_where (\<lambda>r. job_id r \<in> set ids) (\<lambda>r. r\<lparr>j_last_error := None\<rparr>) rows, length ids))"

definition redact_failed_outbox :: "instant \<Rightarrow> nat \<Rightarrow> 'p outbox_row list \<Rightarrow> 'p outbox_row list \<times> nat" where
  "redact_failed_outbox before_time batch rows =
     (let ids = pick batch (\<lambda>r. (o_available_at r, o_id r))
            (\<lambda>r. o_status r = OFailed \<and> o_available_at r < before_time \<and> o_last_error r \<noteq> None) o_id rows
      in (upd_where (\<lambda>r. o_id r \<in> set ids) (\<lambda>r. r\<lparr>o_last_error := None\<rparr>) rows, length ids))"

definition delete_ai_conversations :: "instant \<Rightarrow> nat \<Rightarrow> conversation_row list \<Rightarrow> conversation_row list \<times> nat" where
  "delete_ai_conversations before_time batch rows =
     (let ids = pick batch (\<lambda>r. (cv_updated_at r, cv_id r)) (\<lambda>r. cv_updated_at r < before_time) cv_id rows
      in (filter (\<lambda>r. cv_id r \<notin> set ids) rows, length ids))"

definition run_batch ::
    "retention_policy \<Rightarrow> pydt \<Rightarrow> int \<Rightarrow> ('j, 'o) retained_db \<Rightarrow> retention_error + ('j, 'o) retained_db \<times> retention_result" where
  "run_batch p now batch db =
     and_then (guard (aware now) Retention_value_error) (\<lambda>_.
     and_then (guard (1 \<le> batch \<and> batch \<le> 5000) Retention_value_error) (\<lambda>_.
     let t = instant_of now;
         (inbox1, processed) = redact_processed_payloads (t - rp_processed_age p) (nat batch) (rd_inbox db);
         (inbox2, failed_updates) = redact_failed_updates (t - rp_failed_age p) (nat batch) inbox1;
         (jobs, failed_jobs) = redact_failed_jobs (t - rp_failed_age p) (nat batch) (rd_jobs db);
         (outbox, failed_outbox) = redact_failed_outbox (t - rp_failed_age p) (nat batch) (rd_outbox db);
         (conversations, deleted) = delete_ai_conversations (t - rp_conversation_age p) (nat batch) (rd_conversations db)
     in Inr (\<lparr>rd_inbox = inbox2, rd_jobs = jobs, rd_outbox = outbox, rd_conversations = conversations\<rparr>,
             \<lparr>rr_processed = processed, rr_failed_updates = failed_updates, rr_failed_jobs = failed_jobs,
              rr_failed_outbox = failed_outbox, rr_conversations = deleted,
              rr_may_have_more = list_ex (\<lambda>n. n = nat batch) [processed, failed_updates, failed_jobs, failed_outbox, deleted]\<rparr>)))"

section \<open>What is open stays whole\<close>

lemma pick_sub: "set (pick batch key P rid rows) \<subseteq> rid ` {r \<in> set rows. P r}"
  using set_take_subset [of batch "map rid (sort_key key (filter P rows))"] by (auto simp: pick_def)

lemma pick_length: "length (pick batch key P rid rows) \<le> batch"
  by (simp add: pick_def)

lemma upd_where_untouched:
  "r \<in> set rows \<Longrightarrow> \<not> P r \<Longrightarrow> r \<in> set (upd_where P f rows)"
  by (auto simp: upd_where_def intro: image_eqI [of _ _ r])

text \<open>An update without a recorded outcome.\<close>

definition open_update :: "'p list inbox_db \<Rightarrow> 'p list inbox_row \<Rightarrow> bool" where
  "open_update db r \<longleftrightarrow> r \<in> set (db_inbox db) \<and> \<not> list_ex (\<lambda>p. pu_update_id p = ib_update_id r) (db_processed db)"

lemma joined_in: "(p, r) \<in> set (joined db) \<Longrightarrow> p \<in> set (db_processed db) \<and> r \<in> set (db_inbox db) \<and> ib_update_id r = pu_update_id p"
  by (auto simp: joined_def)

lemma open_after_processed:
  assumes "open_update db r" and "keyed ib_id (db_inbox db)"
  shows "open_update (fst (redact_processed_payloads t batch db)) r"
proof -
  let ?ids = "pick batch (\<lambda>(p, r). (pu_processed_at p, ib_id r))
      (\<lambda>(p, r). pu_outcome p \<in> {Processed, Ignored} \<and> pu_processed_at p < t \<and> ib_payload r \<noteq> []) (\<lambda>(p, r). ib_id r) (joined db)"
  have "ib_id r \<notin> set ?ids"
  proof
    assume "ib_id r \<in> set ?ids"
    then obtain p x where "(p, x) \<in> set (joined db)" "ib_id x = ib_id r" using pick_sub by fastforce
    moreover from this have "x = r" using joined_in assms keyed_unique unfolding open_update_def by metis
    ultimately show False using joined_in assms(1) by (fastforce simp: open_update_def list_ex_iff)
  qed
  then show ?thesis
    using assms(1) by (auto simp: open_update_def redact_processed_payloads_def Let_def intro: upd_where_untouched)
qed

lemma open_after_failed:
  assumes "open_update db r"
  shows "open_update (fst (redact_failed_updates t batch db)) r"
proof -
  let ?ids = "pick batch (\<lambda>(p, r). (pu_processed_at p, pu_update_id p))
      (\<lambda>(p, r). pu_outcome p = Failed_update \<and> pu_processed_at p < t
         \<and> (pu_detail p \<noteq> None \<or> ib_last_error r \<noteq> None \<or> ib_payload r \<noteq> [])) (\<lambda>(p, r). pu_update_id p) (joined db)"
  have "ib_update_id r \<notin> set ?ids"
    using pick_sub [of batch] joined_in assms by (fastforce simp: open_update_def list_ex_iff)
  then show ?thesis
    using assms
    by (auto simp: open_update_def redact_failed_updates_def Let_def list_ex_iff upd_where_def intro: image_eqI [of _ _ r])
qed

lemma pick_spares: "keyed rid rows \<Longrightarrow> r \<in> set rows \<Longrightarrow> \<not> P r \<Longrightarrow> rid r \<notin> set (pick batch key P rid rows)"
  using pick_sub [of batch key P rid rows] keyed_unique [of rid rows] by blast

text \<open>
  A retention batch leaves alone what still has work to do: updates without an outcome,
  jobs and messages that have not failed, and conversations younger than their age limit.
\<close>

theorem retention_spares_open_work:
  assumes "run_batch p now batch db = Inr (db', res)" and "keyed ib_id (db_inbox (rd_inbox db))"
    and "keyed job_id (rd_jobs db)" and "keyed o_id (rd_outbox db)" and "keyed cv_id (rd_conversations db)"
  shows "(\<forall>r. open_update (rd_inbox db) r \<longrightarrow> r \<in> set (db_inbox (rd_inbox db')))
    \<and> (\<forall>r \<in> set (rd_jobs db). j_status r \<noteq> JFailed \<longrightarrow> r \<in> set (rd_jobs db'))
    \<and> (\<forall>r \<in> set (rd_outbox db). o_status r \<noteq> OFailed \<longrightarrow> r \<in> set (rd_outbox db'))
    \<and> (\<forall>r \<in> set (rd_conversations db). instant_of now - rp_conversation_age p \<le> cv_updated_at r \<longrightarrow> r \<in> set (rd_conversations db'))"
proof -
  define t where "t = instant_of now"
  have db': "rd_inbox db' = fst (redact_failed_updates (t - rp_failed_age p) (nat batch)
        (fst (redact_processed_payloads (t - rp_processed_age p) (nat batch) (rd_inbox db))))"
    "rd_jobs db' = fst (redact_failed_jobs (t - rp_failed_age p) (nat batch) (rd_jobs db))"
    "rd_outbox db' = fst (redact_failed_outbox (t - rp_failed_age p) (nat batch) (rd_outbox db))"
    "rd_conversations db' = fst (delete_ai_conversations (t - rp_conversation_age p) (nat batch) (rd_conversations db))"
    using assms(1) by (auto simp: run_batch_def py Let_def t_def split: prod.splits)
  have "r \<in> set (db_inbox (rd_inbox db'))" if "open_update (rd_inbox db) r" for r
    using open_after_failed [OF open_after_processed [OF that assms(2)]] by (simp add: db' open_update_def)
  moreover have "r \<in> set (rd_jobs db')" if "r \<in> set (rd_jobs db)" "j_status r \<noteq> JFailed" for r
    unfolding db' redact_failed_jobs_def Let_def fst_conv
    by (intro upd_where_untouched pick_spares [OF assms(3)] that(1)) (simp add: that(2))
  moreover have "r \<in> set (rd_outbox db')" if "r \<in> set (rd_outbox db)" "o_status r \<noteq> OFailed" for r
    unfolding db' redact_failed_outbox_def Let_def fst_conv
    by (intro upd_where_untouched pick_spares [OF assms(4)] that(1)) (simp add: that(2))
  moreover have "r \<in> set (rd_conversations db')"
    if "r \<in> set (rd_conversations db)" "t - rp_conversation_age p \<le> cv_updated_at r" for r
    unfolding db' delete_ai_conversations_def Let_def fst_conv
    by (simp add: that(1)) (intro pick_spares [OF assms(5) that(1)], simp add: that(2) not_less)
  ultimately show ?thesis by (simp add: t_def)
qed

end
