(* ===== verification/Health.thy ===== *)
theory Health
  imports ScheduleServiceProperties Retention Presentation
begin

text \<open>
  \<open>health.py\<close>: the health report over the durable tables, and the decision of \<open>alerting.py\<close>
  whether the owner is alerted. The result of SQLite's quick check, the status file of the
  backup and the marker file are parameters.
\<close>

section \<open>The report\<close>

datatype health_state = Health_ok | Degraded | Health_fail

record health_report =
  hr_state :: health_state
  hr_checked_at :: pydt
  hr_integrity :: pystr
  hr_last_schedule :: "instant option"
  hr_last_heartbeat :: "pydt option"
  hr_last_probe :: "pydt option"
  hr_probe_ok :: "bool option"
  hr_last_backup :: "pydt option"
  hr_failed_updates :: nat
  hr_failed_jobs :: nat
  hr_failed_outbox :: nat
  hr_reasons :: "pystr list"

definition ready_report :: "health_report \<Rightarrow> bool" where
  "ready_report r \<longleftrightarrow> hr_state r \<noteq> Health_fail"

record health_options =
  ho_expect_schedule :: bool
  ho_schedule_stale_after :: int
  ho_expect_runtime :: bool
  ho_runtime_stale_after :: int
  ho_expect_telegram :: bool
  ho_probe_stale_after :: int
  ho_backup_stale_after :: int

text \<open>\<open>value.replace('Z', '+00:00')\<close>, then \<open>datetime.fromisoformat\<close>; only aware readings count.\<close>

definition parse_timestamp :: "json \<Rightarrow> pydt option" where
  "parse_timestamp v =
     (case v of
        JStr s \<Rightarrow>
          if 128 < length s then None
          else (case from_iso (replace_cp 90 (u ''+00:00'') s) of
                  None \<Rightarrow> None | Some d \<Rightarrow> if aware d then Some d else None)
      | _ \<Rightarrow> None)"

definition setting_timestamp :: "json option \<Rightarrow> pydt option" where
  "setting_timestamp v = (case v of Some (JObj kvs) \<Rightarrow> parse_timestamp (jget kvs (u ''at'')) | _ \<Rightarrow> None)"

definition probe_status :: "json option \<Rightarrow> pydt option \<times> bool option" where
  "probe_status v =
     (case v of
        Some (JObj kvs) \<Rightarrow> (parse_timestamp (jget kvs (u ''at'')),
          case jget kvs (u ''ok'') of JBool b \<Rightarrow> Some b | _ \<Rightarrow> None)
      | _ \<Rightarrow> (None, None))"

text \<open>The status file: none configured, not a small regular file, unreadable, or its text.\<close>

datatype status_file = No_path | Not_there | Unreadable | Holds pystr

definition backup_timestamp :: "status_file \<Rightarrow> pydt option \<times> pystr option" where
  "backup_timestamp f =
     (case f of
        No_path \<Rightarrow> (None, None)
      | Not_there \<Rightarrow> (None, Some (u ''backup_status_missing''))
      | Unreadable \<Rightarrow> (None, Some (u ''backup_status_unavailable''))
      | Holds text \<Rightarrow>
          (case parse_timestamp (JStr (strip text)) of
             None \<Rightarrow> (None, Some (u ''backup_status_invalid'')) | Some d \<Rightarrow> (Some d, None)))"

definition newest_fetch :: "schedule_db \<Rightarrow> instant option" where
  "newest_fetch db =
     (case map sr_fetched_at (db_snapshots db) of [] \<Rightarrow> None | t # ts \<Rightarrow> Some (foldl max t ts))"

definition reason_if :: "bool \<Rightarrow> char list \<Rightarrow> pystr list" where
  "reason_if b reason = (if b then [u reason] else [])"

definition fail_reasons :: "pystr list" where
  "fail_reasons =
     map u [''database_integrity'', ''runtime_heartbeat_missing'', ''runtime_heartbeat_stale'',
       ''telegram_probe_missing'', ''telegram_probe_stale'', ''telegram_probe_failed'']"

definition stale :: "pydt \<Rightarrow> int \<Rightarrow> pydt \<Rightarrow> bool" where
  "stale now age d \<longleftrightarrow> instant_of d < instant_of now - age"

definition schedule_reasons :: "health_options \<Rightarrow> pydt \<Rightarrow> instant option \<Rightarrow> pystr list" where
  "schedule_reasons o' now last_schedule =
     (if \<not> ho_expect_schedule o' then []
      else case last_schedule of
        None \<Rightarrow> [u ''schedule_missing'']
      | Some t \<Rightarrow> reason_if (t < instant_of now - ho_schedule_stale_after o') ''schedule_stale'')"

definition runtime_reasons :: "health_options \<Rightarrow> pydt \<Rightarrow> pydt option \<Rightarrow> pystr list" where
  "runtime_reasons o' now heartbeat =
     (if \<not> ho_expect_runtime o' then []
      else case heartbeat of
        None \<Rightarrow> [u ''runtime_heartbeat_missing'']
      | Some d \<Rightarrow> reason_if (stale now (ho_runtime_stale_after o') d) ''runtime_heartbeat_stale'')"

definition telegram_reasons :: "health_options \<Rightarrow> pydt \<Rightarrow> pydt option \<Rightarrow> bool option \<Rightarrow> pystr list" where
  "telegram_reasons o' now probe probe_ok =
     (if \<not> ho_expect_telegram o' then []
      else case probe of
        None \<Rightarrow> [u ''telegram_probe_missing'']
      | Some d \<Rightarrow>
          if stale now (ho_probe_stale_after o') d then [u ''telegram_probe_stale'']
          else reason_if (probe_ok \<noteq> Some True) ''telegram_probe_failed'')"

definition backup_reasons :: "health_options \<Rightarrow> pydt \<Rightarrow> pydt option \<times> pystr option \<Rightarrow> pystr list" where
  "backup_reasons o' now backup =
     (case snd backup of
        Some reason \<Rightarrow> [reason]
      | None \<Rightarrow> (case fst backup of None \<Rightarrow> []
          | Some d \<Rightarrow> reason_if (stale now (ho_backup_stale_after o') d) ''backup_stale''))"

datatype health_error = Naive_health_time

text \<open>
  \<open>integrity\<close> is what the quick check answers; \<open>Inl\<close> is the class of the exception when the
  database cannot be read. A timestamp without offset passes the code's check when it carries a
  time zone, so \<open>now\<close> is aware here.
\<close>

definition build_health_report ::
    "health_options \<Rightarrow> pystr + pystr \<Rightarrow> schedule_db \<Rightarrow> ('j, 'o) retained_db \<Rightarrow> status_file \<Rightarrow> pydt \<Rightarrow> health_error + health_report" where
  "build_health_report o' integrity sdb rdb file now =
     and_then (guard (aware now) Naive_health_time) (\<lambda>_.
     case integrity of
       Inl error \<Rightarrow>
         Inr \<lparr>hr_state = Health_fail, hr_checked_at = now, hr_integrity = u ''unavailable'', hr_last_schedule = None,
              hr_last_heartbeat = None, hr_last_probe = None, hr_probe_ok = None, hr_last_backup = None,
              hr_failed_updates = 0, hr_failed_jobs = 0, hr_failed_outbox = 0, hr_reasons = [u ''database:'' @ error]\<rparr>
     | Inr answer \<Rightarrow>
         let value_of = (\<lambda>key. map_option sg_value (setting_at sdb key));
             heartbeat = setting_timestamp (value_of (u ''runtime.heartbeat''));
             (probe, probe_ok) = probe_status (value_of (u ''telegram.probe''));
             backup = backup_timestamp file;
             failed_updates = length (filter (\<lambda>p. pu_outcome p = Failed_update \<and> instant_of now - 24 * hour \<le> pu_processed_at p)
               (db_processed (rd_inbox rdb)));
             failed_jobs = length (filter (\<lambda>j. j_status j = JFailed) (rd_jobs rdb));
             failed_outbox = length (filter (\<lambda>m. o_status m = OFailed) (rd_outbox rdb));
             reasons = reason_if (answer \<noteq> u ''ok'') ''database_integrity''
               @ schedule_reasons o' now (newest_fetch sdb) @ runtime_reasons o' now heartbeat
               @ telegram_reasons o' now probe probe_ok @ backup_reasons o' now backup
               @ reason_if (failed_updates \<noteq> 0) ''recent_update_failures''
               @ reason_if (failed_jobs \<noteq> 0) ''failed_jobs'' @ reason_if (failed_outbox \<noteq> 0) ''failed_outbox''
         in Inr \<lparr>hr_state = (if reasons = [] then Health_ok
                  else if list_ex (\<lambda>r. r \<in> set fail_reasons) reasons then Health_fail else Degraded),
              hr_checked_at = now, hr_integrity = answer, hr_last_schedule = newest_fetch sdb,
              hr_last_heartbeat = heartbeat, hr_last_probe = probe, hr_probe_ok = probe_ok, hr_last_backup = fst backup,
              hr_failed_updates = failed_updates, hr_failed_jobs = failed_jobs, hr_failed_outbox = failed_outbox,
              hr_reasons = reasons\<rparr>)"

section \<open>Owner alerts\<close>

datatype alert_code = Alert_main | Alert_health | Alert_backup | Alert_migrate

datatype alert_outcome = Alert_sent | Alert_suppressed

datatype alert_error = Naive_alert_time | Alert_delivery_failed | Alert_state_failed

definition alert_label :: "alert_code \<Rightarrow> pystr" where
  "alert_label c =
     (case c of Alert_main \<Rightarrow> [1086, 1089, 1085, 1086, 1074, 1085, 1086, 1081, 32, 1089, 1077, 1088, 1074, 1080, 1089] | Alert_health \<Rightarrow> [1087, 1088, 1086, 1074, 1077, 1088, 1082, 1072, 32, 1089, 1086, 1089, 1090, 1086, 1103,
      1085, 1080, 1103]
      | Alert_backup \<Rightarrow> [1088, 1077, 1079, 1077, 1088, 1074, 1085, 1086, 1077, 32, 1082, 1086, 1087, 1080, 1088,
      1086, 1074, 1072, 1085, 1080, 1077] | Alert_migrate \<Rightarrow> [1084, 1080, 1075, 1088, 1072, 1094, 1080, 1103, 32, 1073, 1072, 1079, 1099, 32, 1076,
      1072, 1085, 1085, 1099, 1093])"

definition alert_cooldown :: "alert_code \<Rightarrow> int" where
  "alert_cooldown c =
     (case c of Alert_main \<Rightarrow> 30 * minute | Alert_health \<Rightarrow> 6 * hour | Alert_backup \<Rightarrow> 6 * hour
      | Alert_migrate \<Rightarrow> 30 * minute)"

definition render_owner_alert :: "alert_code \<Rightarrow> pydt \<Rightarrow> pystr" where
  "render_owner_alert c now =
     (let d = utc_at (instant_of now) in
      [9888, 65039, 32, 83, 90, 83, 32, 72, 117, 98, 58, 32, 1082, 1088, 1080, 1090, 1080,
      1095, 1077, 1089, 1082, 1080, 1081, 32, 1089, 1073, 1086, 1081, 46] @ [10] @ [1050, 1086, 1084, 1087, 1086, 1085, 1077, 1085, 1090, 58, 32] @ alert_label c @ [46, 10] @ [1042, 1088, 1077, 1084, 1103, 32, 85, 84, 67, 58, 32]
      @ iso_date (dt_date d) @ [32] @ hour_minute (dt_time d) @ [58] @ pad0 2 (dt_time d mod minute div second) @ [46, 10]
      @ [1055, 1088, 1086, 1074, 1077, 1088, 1100, 1090, 1077, 32, 1089, 1086, 1089, 1090, 1086,
      1103, 1085, 1080, 1077, 32, 1089, 1077, 1088, 1074, 1080, 1089, 1072, 32, 1080, 32,
      1086, 1075, 1088, 1072, 1085, 1080, 1095, 1077, 1085, 1085, 1099, 1081, 32, 1078,
      1091, 1088, 1085, 1072, 1083, 32, 1085, 1072, 32, 1089, 1077, 1088, 1074, 1077,
      1088, 1077, 46])"

text \<open>The marker's text is read when the file is a small regular one.\<close>

definition read_success_marker :: "pystr option \<Rightarrow> pydt option" where
  "read_success_marker file =
     (case file of
        None \<Rightarrow> None
      | Some raw \<Rightarrow>
          (case from_iso (replace_cp 90 (u ''+00:00'') (strip raw)) of
             None \<Rightarrow> None | Some d \<Rightarrow> if aware d then Some (utc_at (instant_of d)) else None))"

definition marker_text :: "pydt \<Rightarrow> pystr" where
  "marker_text d = replace_text (u ''+00:00'') (u ''Z'') (iso_datetime (utc_at (instant_of d))) @ [10]"

text \<open>\<open>delivered\<close> and \<open>written\<close> tell whether the delivery returned without an error and the marker was
  stored; the middle component lists the alerts whose delivery returned.\<close>

definition send_owner_alert ::
    "alert_code \<Rightarrow> bool \<Rightarrow> bool \<Rightarrow> pydt \<Rightarrow> pystr option \<Rightarrow> pystr option \<times> pystr list \<times> (alert_error + alert_outcome)" where
  "send_owner_alert c delivered written now file =
     (if \<not> aware now then (file, [], Inl Naive_alert_time)
      else
        let sent_at = utc_at (instant_of now);
            suppressed = (case read_success_marker file of None \<Rightarrow> False
              | Some last_success \<Rightarrow>
                  let elapsed = instant_of sent_at - instant_of last_success
                  in 0 \<le> elapsed \<and> elapsed < alert_cooldown c)
        in if suppressed then (file, [], Inr Alert_suppressed)
           else if \<not> delivered then (file, [], Inl Alert_delivery_failed)
           else if \<not> written then (file, [render_owner_alert c sent_at], Inl Alert_state_failed)
           else (Some (marker_text sent_at), [render_owner_alert c sent_at], Inr Alert_sent))"

section \<open>A confirmed timetable reported stale\<close>

lemma unchanged_snapshots:
  assumes "store_snapshot db snap w par = Inr (db', v, False)"
  shows "db' = db"
  using assms by (auto simp: store_snapshot_def Let_def py split: option.splits)

lemma sync_unchanged:
  assumes "sync_week svc fetch now g w par db = Inr (db', res)" and "schedule_ok db"
    and "\<not> sy_created res"
  shows "db_snapshots db' = db_snapshots db"
  using assms(1)
proof (cases rule: sync_week_cases)
  case (failed e)
  show ?thesis
    by (rule sync_failed_Inr [OF failed(4)]) (simp add: record_failed_attempt_def write_marker_def)
next
  case (fetched ls)
  show ?thesis
  proof (rule sync_fetched_Inr [OF fetched(3) assms(2) fetch_week_valid [OF fetched(1)]])
    fix previous db1 and cur :: version and cs db2 checked
    assume "store_snapshot db \<lparr>sn_source = spbgasu, sn_group_key = strip g, sn_fetched_at = checked, sn_lessons = ls\<rparr> w par
        = Inr (db1, cur, sy_created res)"
      and "db' = confirm spbgasu (strip g) w checked par cur db2"
      and "db_snapshots db2 = db_snapshots db1"
    then show ?thesis using assms(3) by (auto simp: confirm_def write_marker_def dest: unchanged_snapshots)
  qed
qed

text \<open>
  after a synchronisation that stores no new version, also one that has just confirmed the week
  as unchanged, the report still says \<open>schedule_stale\<close> and the service counts as not healthy once the
  newest stored version is old: the report looks at the fetch time of the versions, which an
  unchanged timetable never renews, and not at the confirmation.
\<close>

theorem unchanged_week_reported_stale:
  assumes "sync_week svc fetch now g w par db = Inr (db', res)" and "schedule_ok db"
    and "\<not> sy_created res" and "newest_fetch db = Some t"
    and "t < instant_of checked - ho_schedule_stale_after o'" and "ho_expect_schedule o'" and "aware checked"
  shows "\<exists>r. build_health_report o' (Inr answer) db' rdb file checked = Inr r
    \<and> u ''schedule_stale'' \<in> set (hr_reasons r) \<and> hr_state r \<noteq> Health_ok"
proof -
  have "newest_fetch db' = Some t" using assms(4) sync_unchanged [OF assms(1-3)] by (simp add: newest_fetch_def)
  then have "schedule_reasons o' checked (newest_fetch db') = [u ''schedule_stale'']"
    using assms(5,6) by (simp add: schedule_reasons_def reason_if_def)
  then show ?thesis
    using assms(7) by (auto simp: build_health_report_def guard_def Let_def split: prod.split)
qed

definition demo_health :: health_options where
  "demo_health = \<lparr>ho_expect_schedule = True, ho_schedule_stale_after = 360 * minute, ho_expect_runtime = False,
     ho_runtime_stale_after = 0, ho_expect_telegram = False, ho_probe_stale_after = 0, ho_backup_stale_after = 0\<rparr>"

lemma unchanged_week_reported_stale_witness:
  "\<exists>db1 res1 db2 res2 r.
     sync_week demo_service (\<lambda>_. Inr demo_template) demo_now (u ''A'') 738886 Numerator no_schedules = Inr (db1, res1)
     \<and> sync_week demo_service (\<lambda>_. Inr demo_template) (utc_at day_us) (u ''A'') 738886 Numerator db1 = Inr (db2, res2)
     \<and> is_fresh (sy_freshness res2)
     \<and> build_health_report demo_health (Inr (u ''ok'')) db2
         \<lparr>rd_inbox = \<lparr>db_inbox = [], db_processed = []\<rparr>, rd_jobs = [], rd_outbox = [], rd_conversations = []\<rparr> No_path (utc_at day_us) = Inr r
     \<and> hr_state r \<noteq> Health_ok"
proof -
  obtain db1 res1 db2 res2 where
    s: "sync_week demo_service (\<lambda>_. Inr demo_template) demo_now (u ''A'') 738886 Numerator no_schedules = Inr (db1, res1)"
      "sync_week demo_service (\<lambda>_. Inr demo_template) (utc_at day_us) (u ''A'') 738886 Numerator db1 = Inr (db2, res2)"
      "schedule_ok db1" "map sr_fetched_at (db_snapshots db1) = [0]" "\<not> sy_created res2"
      "is_fresh (sy_freshness res2)"
    using demo_resync by (elim exE conjE)
  have newest: "newest_fetch db1 = Some 0" using s(4) by (simp add: newest_fetch_def)
  show ?thesis
    using unchanged_week_reported_stale [OF s(2,3,5) newest, of "utc_at day_us" demo_health] s(1,2,6)
    by (fastforce simp: demo_health_def durations)
qed

end
