(* ===== verification/TelegramSender.thy ===== *)
theory TelegramSender
  imports AiQuota Attendance OutboxQueue Materials
begin

text \<open>
  \<open>telegram/sender.py\<close> and \<open>telegram/application_sender.py\<close>: the last step of an outgoing
  message. The strict sender turns an envelope into one call of the Telegram API; the
  application sender authorises the envelope first and records the confirmation afterwards, in
  one transaction. Telegram's answer, the keyboard validation of aiogram, the membership answer
  and the clock are parameters.
\<close>

section \<open>Payload fields\<close>

datatype send_error =
    Sender_value_error
  | Incomplete_copy
  | Unsupported_kind
  | Recipient_denied
  | Envelope_denied
  | Telegram_failure
  | Sender_attendance attendance_error

text \<open>\<open>_mapping_value\<close>: the payload must be an object; a missing key reads as \<open>null\<close>.\<close>

definition mapping_value :: "json \<Rightarrow> pystr \<Rightarrow> send_error + json" where
  "mapping_value payload key =
     (case payload of JObj kvs \<Rightarrow> Inr (jget kvs key) | _ \<Rightarrow> Inl Sender_value_error)"

definition required_text :: "json \<Rightarrow> send_error + pystr" where
  "required_text payload =
     and_then (mapping_value payload (u ''text'')) (\<lambda>v.
     case v of
       JStr s \<Rightarrow> if strip s = [] \<or> 4096 < length s then Inl Sender_value_error else Inr s
     | _ \<Rightarrow> Inl Sender_value_error)"

definition optional_text :: "json \<Rightarrow> pystr \<Rightarrow> send_error + pystr option" where
  "optional_text payload key =
     and_then (mapping_value payload key) (\<lambda>v.
     case v of
       JNull \<Rightarrow> Inr None
     | JStr s \<Rightarrow> if 1024 < length s then Inl Sender_value_error else Inr (Some s)
     | _ \<Rightarrow> Inl Sender_value_error)"

definition required_int :: "json \<Rightarrow> pystr \<Rightarrow> send_error + int" where
  "required_int payload key =
     and_then (mapping_value payload key) (\<lambda>v. case v of JInt n \<Rightarrow> Inr n | _ \<Rightarrow> Inl Sender_value_error)"

definition optional_int_field :: "json \<Rightarrow> pystr \<Rightarrow> send_error + int option" where
  "optional_int_field payload key =
     and_then (mapping_value payload key) (\<lambda>v.
     case v of JNull \<Rightarrow> Inr None | JInt n \<Rightarrow> Inr (Some n) | _ \<Rightarrow> Inl Sender_value_error)"

definition optional_bool :: "json \<Rightarrow> pystr \<Rightarrow> send_error + bool option" where
  "optional_bool payload key =
     and_then (mapping_value payload key) (\<lambda>v.
     case v of JNull \<Rightarrow> Inr None | JBool b \<Rightarrow> Inr (Some b) | _ \<Rightarrow> Inl Sender_value_error)"

text \<open>The positive integers of a list, in order, and whether the list holds nothing else.\<close>

definition json_positive :: "json \<Rightarrow> int option" where
  "json_positive v = (case v of JInt n \<Rightarrow> if 0 < n then Some n else None | _ \<Rightarrow> None)"

definition all_positive :: "json list \<Rightarrow> bool" where
  "all_positive vs \<longleftrightarrow> list_all (\<lambda>v. json_positive v \<noteq> None) vs"

definition required_int_list :: "json \<Rightarrow> pystr \<Rightarrow> send_error + int list" where
  "required_int_list payload key =
     and_then (mapping_value payload key) (\<lambda>v.
     case v of
       JArr vs \<Rightarrow>
         let ids = List.map_filter json_positive vs in
         if length vs < 1 \<or> 100 < length vs \<or> \<not> all_positive vs \<or> sort (remdups ids) \<noteq> ids
         then Inl Sender_value_error else Inr ids
     | _ \<Rightarrow> Inl Sender_value_error)"

definition keyboard :: "(json \<Rightarrow> bool) \<Rightarrow> json \<Rightarrow> send_error + json option" where
  "keyboard valid_keyboard payload =
     and_then (mapping_value payload (u ''reply_markup'')) (\<lambda>v.
     case v of
       JNull \<Rightarrow> Inr None
     | _ \<Rightarrow> if valid_keyboard v then Inr (Some v) else Inl Sender_value_error)"

section \<open>The strict sender\<close>

text \<open>The calls of the API with the arguments that vary.\<close>

datatype api_call =
    Send_message int "int option" pystr "bool option" "json option"
  | Edit_message int int pystr "json option"
  | Copy_message int int int "int option" "pystr option" "bool option"
  | Copy_messages int int "int list" "int option" "bool option"

datatype api_reply = Api_failed | Api_message int | Api_true | Api_messages "int list"

datatype send_result = Sent_id int | Copied_ids "int list"

definition call_chat :: "api_call \<Rightarrow> int" where
  "call_chat c = (case c of Send_message chat _ _ _ _ \<Rightarrow> chat | Edit_message chat _ _ _ \<Rightarrow> chat
     | Copy_message chat _ _ _ _ _ \<Rightarrow> chat | Copy_messages chat _ _ _ _ \<Rightarrow> chat)"

definition required_chat_id :: "json outbox_claim \<Rightarrow> send_error + int" where
  "required_chat_id m = (case oc_chat_id m of None \<Rightarrow> Inl Sender_value_error | Some i \<Rightarrow> Inr i)"

definition request_of :: "(json \<Rightarrow> bool) \<Rightarrow> json outbox_claim \<Rightarrow> send_error + api_call" where
  "request_of valid_keyboard m =
     (let payload = oc_payload m in
      if oc_kind m = u ''telegram.send_message'' then
        and_then (required_chat_id m) (\<lambda>chat.
        and_then (optional_int_field payload (u ''message_thread_id'')) (\<lambda>thread.
        and_then (required_text payload) (\<lambda>text.
        and_then (optional_bool payload (u ''disable_notification'')) (\<lambda>silent.
        and_then (keyboard valid_keyboard payload) (\<lambda>kb.
        Inr (Send_message chat thread text silent kb))))))
      else if oc_kind m = u ''telegram.edit_message'' then
        and_then (required_chat_id m) (\<lambda>chat.
        and_then (required_int payload (u ''message_id'')) (\<lambda>i.
        and_then (required_text payload) (\<lambda>text.
        and_then (keyboard valid_keyboard payload) (\<lambda>kb.
        Inr (Edit_message chat i text kb)))))
      else if oc_kind m = u ''telegram.copy_message'' then
        and_then (required_chat_id m) (\<lambda>chat.
        and_then (required_int payload (u ''from_chat_id'')) (\<lambda>source_chat.
        and_then (required_int payload (u ''message_id'')) (\<lambda>i.
        and_then (optional_int_field payload (u ''message_thread_id'')) (\<lambda>thread.
        and_then (optional_text payload (u ''caption'')) (\<lambda>caption.
        and_then (optional_bool payload (u ''disable_notification'')) (\<lambda>silent.
        Inr (Copy_message chat source_chat i thread caption silent)))))))
      else if oc_kind m = u ''telegram.copy_messages'' then
        and_then (required_chat_id m) (\<lambda>chat.
        and_then (required_int_list payload (u ''message_ids'')) (\<lambda>ids.
        and_then (required_int payload (u ''from_chat_id'')) (\<lambda>source_chat.
        and_then (optional_int_field payload (u ''message_thread_id'')) (\<lambda>thread.
        and_then (optional_bool payload (u ''disable_notification'')) (\<lambda>silent.
        Inr (Copy_messages chat source_chat ids thread silent))))))
      else Inl Unsupported_kind)"

text \<open>What an answer to a call means; \<open>edit_message_text\<close> answers a message or \<open>True\<close>.\<close>

definition interpret_reply :: "api_call \<Rightarrow> api_reply \<Rightarrow> send_error + send_result" where
  "interpret_reply c reply =
     (case (c, reply) of
        (Send_message _ _ _ _ _, Api_message i) \<Rightarrow> Inr (Sent_id i)
      | (Edit_message _ _ _ _, Api_message i) \<Rightarrow> Inr (Sent_id i)
      | (Edit_message _ i _ _, Api_true) \<Rightarrow> Inr (Sent_id i)
      | (Copy_message _ _ _ _ _ _, Api_message i) \<Rightarrow> Inr (Sent_id i)
      | (Copy_messages _ _ ids _ _, Api_messages copied) \<Rightarrow>
          if length copied \<noteq> length ids \<or> list_ex (\<lambda>i. i \<le> 0) copied then Inl Incomplete_copy
          else Inr (Copied_ids copied)
      | _ \<Rightarrow> Inl Telegram_failure)"

definition telegram_send ::
    "(json \<Rightarrow> bool) \<Rightarrow> (api_call \<Rightarrow> api_reply) \<Rightarrow> json outbox_claim \<Rightarrow> api_call list \<times> (send_error + send_result)" where
  "telegram_send valid_keyboard api m =
     (case request_of valid_keyboard m of
        Inl e \<Rightarrow> ([], Inl e)
      | Inr c \<Rightarrow> ([c], interpret_reply c (api c)))"

end
