(* ===== verification/ApplicationSender.thy ===== *)
theory ApplicationSender
  imports TelegramSender
begin

text \<open>
  \<open>telegram/application_sender.py\<close>: authorisation of an envelope, the metadata under its
  underscore keys, and the local confirmation of a delivery. The tables it writes are fields of
  one state; a transaction that raises leaves the state as it was.
\<close>

section \<open>State\<close>

record material_row =
  mt_id :: int
  mt_source_message_id :: int
  mt_source_media_group_id :: "int option"
  mt_destination_chat_id :: "int option"
  mt_destination_message_id :: "int option"
  mt_title :: "pystr option"
  mt_discipline :: "pystr option"
  mt_type :: pystr
  mt_confidence :: rat
  mt_workflow_state :: workflow_state
  mt_classifier_version :: "pystr option"
  mt_evidence :: "json option"
  mt_created_at :: instant
  mt_updated_at :: instant

record app_db =
  ad_schedule :: schedule_db
  ad_attendance :: attendance
  ad_materials :: "material_row list"

record app_settings =
  as_schedule_only :: bool
  as_target_chat_id :: "int option"
  as_schedule_topic_id :: "int option"
  as_materials_topic_id :: "int option"
  as_headman_user_id :: "int option"
  as_window_minutes :: int
  as_reaction :: pystr

section \<open>Metadata\<close>

definition as_int :: "json \<Rightarrow> int option" where
  "as_int v = (case v of JInt n \<Rightarrow> Some n | _ \<Rightarrow> None)"

text \<open>The value under a key of a payload; \<open>null\<close> when the payload is not an object.\<close>

definition payload_field :: "json \<Rightarrow> pystr \<Rightarrow> json" where
  "payload_field payload key = (case payload of JObj kvs \<Rightarrow> jget kvs key | _ \<Rightarrow> JNull)"

definition attendance_metadata :: "json \<Rightarrow> send_error + (int \<times> pydt) option" where
  "attendance_metadata payload =
     (case payload_field payload (u ''_attendance'') of
        JNull \<Rightarrow> Inr None
      | JObj raw \<Rightarrow>
          (case (as_int (jget raw (u ''lesson_id'')), jget raw (u ''starts_at'')) of
             (Some lesson, JStr s) \<Rightarrow>
               (case from_iso s of
                  None \<Rightarrow> Inl Sender_value_error
                | Some d \<Rightarrow> if aware d then Inr (Some (lesson, d)) else Inl Sender_value_error)
           | _ \<Rightarrow> Inl Sender_value_error)
      | _ \<Rightarrow> Inl Sender_value_error)"

record copy_metadata =
  cp_material_id :: int
  cp_expected_count :: int
  cp_source_message_ids :: "int list"

definition material_copy_metadata :: "json \<Rightarrow> send_error + copy_metadata option" where
  "material_copy_metadata payload =
     (case payload_field payload (u ''_material_copy'') of
        JNull \<Rightarrow> Inr None
      | JObj raw \<Rightarrow>
          (case (json_positive (jget raw (u ''material_id'')), as_int (jget raw (u ''expected_count'')),
                 jget raw (u ''source_message_ids'')) of
             (Some material, Some expected, JArr vs) \<Rightarrow>
               if expected < 1 \<or> 100 < expected \<or> int (length vs) \<noteq> expected \<or> \<not> all_positive vs
                  \<or> \<not> distinct (List.map_filter json_positive vs)
               then Inl Sender_value_error
               else Inr (Some \<lparr>cp_material_id = material, cp_expected_count = expected,
                               cp_source_message_ids = List.map_filter json_positive vs\<rparr>)
           | _ \<Rightarrow> Inl Sender_value_error)
      | _ \<Rightarrow> Inl Sender_value_error)"

definition listed_ints :: "json \<Rightarrow> int list" where
  "listed_ints v = (case v of JArr vs \<Rightarrow> List.map_filter json_positive vs | _ \<Rightarrow> [])"

definition evidence_field :: "json option \<Rightarrow> pystr \<Rightarrow> json" where
  "evidence_field evidence key = (case evidence of None \<Rightarrow> JNull | Some e \<Rightarrow> payload_field e key)"

definition evidence_ints :: "json option \<Rightarrow> pystr \<Rightarrow> int set" where
  "evidence_ints evidence key = set (listed_ints (evidence_field evidence key))"

text \<open>\<open>list(dict.fromkeys([*values, *additions]))\<close>: the first occurrence of each.\<close>

definition merge_ints :: "json \<Rightarrow> int list \<Rightarrow> int list" where
  "merge_ints existing additions = rev (remdups (rev (listed_ints existing @ additions)))"

definition state_key :: "json \<Rightarrow> send_error + pystr option" where
  "state_key payload =
     (case payload_field payload (u ''_state_key'') of
        JNull \<Rightarrow> Inr None
      | JStr s \<Rightarrow> if \<not> starts_with (u ''telegram.'') s \<or> 128 < length s then Inl Sender_value_error else Inr (Some s)
      | _ \<Rightarrow> Inl Sender_value_error)"

definition change_ids :: "json \<Rightarrow> send_error + int list" where
  "change_ids payload =
     (case payload_field payload (u ''_schedule_change_ids'') of
        JNull \<Rightarrow> Inr []
      | JArr vs \<Rightarrow>
          if 100 < length vs \<or> \<not> list_all (\<lambda>v. as_int v \<noteq> None) vs then Inl Sender_value_error
          else Inr (List.map_filter as_int vs)
      | _ \<Rightarrow> Inl Sender_value_error)"

section \<open>Authorisation\<close>

text \<open>Equality of a JSON value with an optional int as Python has it: \<open>True == 1\<close>, \<open>5.0 == 5\<close>.\<close>

definition py_eq_int :: "json \<Rightarrow> int option \<Rightarrow> bool" where
  "py_eq_int v n =
     (case v of
        JNull \<Rightarrow> n = None
      | JInt m \<Rightarrow> n = Some m
      | JBool b \<Rightarrow> n = Some (if b then 1 else 0)
      | JFloat r \<Rightarrow> (case n of None \<Rightarrow> False | Some m \<Rightarrow> r = of_int m)
      | _ \<Rightarrow> False)"

definition has_key :: "json \<Rightarrow> pystr \<Rightarrow> bool" where
  "has_key payload key = (case payload of JObj kvs \<Rightarrow> key \<in> fst ` set kvs | _ \<Rightarrow> False)"

definition authorize_schedule_only :: "app_settings \<Rightarrow> json outbox_claim \<Rightarrow> send_error + unit" where
  "authorize_schedule_only cfg m =
     and_then (state_key (oc_payload m)) (\<lambda>key.
     and_then (change_ids (oc_payload m)) (\<lambda>ids.
     let is_schedule_card = (case key of None \<Rightarrow> False | Some k \<Rightarrow> starts_with (u ''telegram.schedule_card.'') k)
     in guard (oc_chat_id m = as_target_chat_id cfg
          \<and> py_eq_int (payload_field (oc_payload m) (u ''message_thread_id'')) (as_schedule_topic_id cfg)
          \<and> oc_kind m \<in> {u ''telegram.send_message'', u ''telegram.edit_message''}
          \<and> \<not> has_key (oc_payload m) (u ''reply_markup'')
          \<and> (is_schedule_card \<or> ids \<noteq> [])) Envelope_denied))"

text \<open>
  \<open>gateway\<close> answers the current membership in a chat of a user; \<open>None\<close> when no gateway is
  configured. Group chats have negative identifiers, private chats the user's own.
\<close>

type_synonym membership_gateway = "(int \<Rightarrow> int \<Rightarrow> confirmed_membership option) option"

definition authorize_private_recipient ::
    "app_settings \<Rightarrow> membership_gateway \<Rightarrow> int option \<Rightarrow> send_error + unit" where
  "authorize_private_recipient cfg gateway chat =
     (case chat of
        None \<Rightarrow> Inr ()
      | Some c \<Rightarrow>
          if c < 0 then Inr ()
          else and_then (guard (as_headman_user_id cfg = Some c) Recipient_denied) (\<lambda>_.
            case (as_target_chat_id cfg, gateway) of
              (Some target, Some ask) \<Rightarrow>
                guard (target < 0 \<and> can_access_group_history (ask target c)) Recipient_denied
            | _ \<Rightarrow> Inl Recipient_denied))"

section \<open>Sending\<close>

definition material_of :: "app_db \<Rightarrow> int \<Rightarrow> material_row option" where
  "material_of db i = List.find (\<lambda>r. mt_id r = i) (ad_materials db)"

definition session_of_lesson :: "app_db \<Rightarrow> int \<Rightarrow> session option" where
  "session_of_lesson db lesson = List.find (\<lambda>s. s_lesson_id s = lesson) (a_sessions (ad_attendance db))"

text \<open>
  What the checks before the call answer: \<open>Inr (Some i)\<close> is a message that is already there,
  \<open>Inr None\<close> a message to be sent.
\<close>

definition already_done ::
    "app_db \<Rightarrow> (int \<times> pydt) option \<Rightarrow> copy_metadata option \<Rightarrow> send_error + int option" where
  "already_done db attendance copy =
     (case (case attendance of None \<Rightarrow> None | Some (lesson, _) \<Rightarrow> session_of_lesson db lesson) of
        Some s \<Rightarrow> Inr (Some (s_message_id s))
      | None \<Rightarrow>
          (case copy of
             None \<Rightarrow> Inr None
           | Some c \<Rightarrow>
               (case material_of db (cp_material_id c) of
                  None \<Rightarrow> Inl Sender_value_error
                | Some r \<Rightarrow>
                    if set (cp_source_message_ids c) \<subseteq> evidence_ints (mt_evidence r) (u ''copied_source_message_ids'')
                    then (case mt_destination_message_id r of
                            None \<Rightarrow> Inl Sender_value_error | Some i \<Rightarrow> Inr (Some i))
                    else if mt_workflow_state r \<notin> {Copy_pending, Completed} then Inl Sender_value_error
                    else Inr None)))"

definition confirm_session ::
    "app_settings \<Rightarrow> instant \<Rightarrow> (int \<times> pydt) option \<Rightarrow> json outbox_claim \<Rightarrow> int \<Rightarrow> app_db \<Rightarrow> send_error + app_db" where
  "confirm_session cfg created attendance m message_id db =
     (case attendance of
        None \<Rightarrow> Inr db
      | Some (lesson, starts_at) \<Rightarrow>
          and_then (required_chat_id m) (\<lambda>chat.
          case open_session created lesson chat message_id starts_at (as_window_minutes cfg) (as_reaction cfg)
                 ((ad_attendance db)\<lparr>a_lessons := map lr_id (db_lessons (ad_schedule db))\<rparr>) of
            Inl e \<Rightarrow> Inl (Sender_attendance e)
          | Inr (att, _) \<Rightarrow> Inr (db\<lparr>ad_attendance := att\<rparr>)))"

definition put_setting :: "pystr \<Rightarrow> json \<Rightarrow> instant \<Rightarrow> app_db \<Rightarrow> app_db" where
  "put_setting key value now db =
     db\<lparr>ad_schedule := (ad_schedule db)\<lparr>db_settings := put_value key value now (db_settings (ad_schedule db))\<rparr>\<rparr>"

definition confirm_state_key :: "(nat \<Rightarrow> pydt) \<Rightarrow> json \<Rightarrow> int \<Rightarrow> app_db \<Rightarrow> send_error + app_db" where
  "confirm_state_key clk payload message_id db =
     and_then (state_key payload) (\<lambda>key.
     Inr (case key of
            None \<Rightarrow> db
          | Some k \<Rightarrow> put_setting k (JObj [(u ''message_id'', JInt message_id), (u ''updated_at'', JStr (iso_datetime (clk 0)))])
                       (instant_of (clk 1)) db))"

definition notify_changes :: "instant \<Rightarrow> int list \<Rightarrow> app_db \<Rightarrow> app_db" where
  "notify_changes now ids db =
     db\<lparr>ad_schedule := (ad_schedule db)\<lparr>db_changes :=
        upd_where (\<lambda>r. cr_id r \<in> set ids \<and> cr_notified_at r = None) (\<lambda>r. r\<lparr>cr_notified_at := Some now\<rparr>)
          (db_changes (ad_schedule db))\<rparr>\<rparr>"

definition confirm_changes :: "instant \<Rightarrow> json \<Rightarrow> app_db \<Rightarrow> send_error + app_db" where
  "confirm_changes now payload db =
     and_then (change_ids payload) (\<lambda>ids. Inr (if ids = [] then db else notify_changes now ids db))"

text \<open>\<open>dict.update\<close>: new values in place, new keys at the back.\<close>

definition obj_update :: "(pystr \<times> json) list \<Rightarrow> (pystr \<times> json) list \<Rightarrow> (pystr \<times> json) list" where
  "obj_update kvs news =
     map (\<lambda>(k, v). (k, case map_of news k of None \<Rightarrow> v | Some w \<Rightarrow> w)) kvs
     @ filter (\<lambda>(k, _). k \<notin> fst ` set kvs) news"

definition evidence_object :: "json option \<Rightarrow> (pystr \<times> json) list" where
  "evidence_object evidence = (case evidence of Some (JObj kvs) \<Rightarrow> kvs | _ \<Rightarrow> [])"

definition copied_evidence :: "copy_metadata \<Rightarrow> int list \<Rightarrow> json option \<Rightarrow> json" where
  "copied_evidence c destination_ids evidence =
     (let sources = merge_ints (evidence_field evidence (u ''copied_source_message_ids'')) (cp_source_message_ids c)
      in JObj (obj_update (evidence_object evidence)
        [(u ''destination_message_ids'',
            JArr (map JInt (merge_ints (evidence_field evidence (u ''destination_message_ids'')) destination_ids))),
         (u ''copied_source_message_ids'', JArr (map JInt sources)),
         (u ''copied_count'', JInt (int (length sources))),
         (u ''source_deletion_enabled'', JBool False),
         (u ''source_deleted'', JBool False)]))"

definition confirm_copy ::
    "instant \<Rightarrow> copy_metadata option \<Rightarrow> json outbox_claim \<Rightarrow> int list \<Rightarrow> int \<Rightarrow> app_db \<Rightarrow> send_error + app_db" where
  "confirm_copy now copy m destination_ids message_id db =
     (case copy of
        None \<Rightarrow> Inr db
      | Some c \<Rightarrow>
          and_then (guard (material_of db (cp_material_id c) \<noteq> None) Sender_value_error) (\<lambda>_.
          and_then (required_chat_id m) (\<lambda>chat.
          Inr (db\<lparr>ad_materials := upd_where (\<lambda>r. mt_id r = cp_material_id c)
            (\<lambda>r. r\<lparr>mt_destination_chat_id := Some chat,
                    mt_destination_message_id :=
                      (case mt_destination_message_id r of None \<Rightarrow> Some message_id | Some i \<Rightarrow> Some i),
                    mt_workflow_state := Completed,
                    mt_evidence := Some (copied_evidence c destination_ids (mt_evidence r)),
                    mt_updated_at := now\<rparr>) (ad_materials db)\<rparr>))))"

definition destination_ids_of :: "send_result \<Rightarrow> int list" where
  "destination_ids_of r = (case r of Sent_id i \<Rightarrow> [i] | Copied_ids ids \<Rightarrow> ids)"

text \<open>
  The transaction after the call. The clock is read for the setting's value and its column,
  for the changes, for the material and for the session's own creation time.
\<close>

definition confirm_delivery ::
    "app_settings \<Rightarrow> (nat \<Rightarrow> pydt) \<Rightarrow> (int \<times> pydt) option \<Rightarrow> copy_metadata option \<Rightarrow> json outbox_claim
       \<Rightarrow> int list \<Rightarrow> app_db \<Rightarrow> send_error + app_db" where
  "confirm_delivery cfg clk attendance copy m destination_ids db =
     (let message_id = hd destination_ids in
      and_then (confirm_session cfg (instant_of (clk 4)) attendance m message_id db) (\<lambda>db1.
      and_then (confirm_state_key clk (oc_payload m) message_id db1) (\<lambda>db2.
      and_then (confirm_changes (instant_of (clk 2)) (oc_payload m) db2) (\<lambda>db3.
      confirm_copy (instant_of (clk 3)) copy m destination_ids message_id db3))))"

definition authorize :: "app_settings \<Rightarrow> membership_gateway \<Rightarrow> json outbox_claim \<Rightarrow> send_error + unit" where
  "authorize cfg gateway m =
     and_then (if as_schedule_only cfg then authorize_schedule_only cfg m else Inr ()) (\<lambda>_.
     authorize_private_recipient cfg gateway (oc_chat_id m))"

definition send_and_confirm ::
    "app_settings \<Rightarrow> (json \<Rightarrow> bool) \<Rightarrow> (api_call \<Rightarrow> api_reply) \<Rightarrow> (nat \<Rightarrow> pydt) \<Rightarrow> (int \<times> pydt) option \<Rightarrow> copy_metadata option
       \<Rightarrow> json outbox_claim \<Rightarrow> app_db \<Rightarrow> app_db \<times> api_call list \<times> (send_error + int)" where
  "send_and_confirm cfg valid_keyboard api clk attendance copy m db =
     (let (calls, result) = telegram_send valid_keyboard api m in
      case result of
        Inl e \<Rightarrow> (db, calls, Inl e)
      | Inr sent \<Rightarrow>
          let ids = destination_ids_of sent in
          case copy of
            Some c \<Rightarrow>
              if int (length ids) \<noteq> cp_expected_count c then (db, calls, Inl Sender_value_error)
              else (case confirm_delivery cfg clk attendance copy m ids db of
                      Inl e \<Rightarrow> (db, calls, Inl e) | Inr db' \<Rightarrow> (db', calls, Inr (hd ids)))
          | None \<Rightarrow>
              (case confirm_delivery cfg clk attendance copy m ids db of
                 Inl e \<Rightarrow> (db, calls, Inl e) | Inr db' \<Rightarrow> (db', calls, Inr (hd ids))))"

definition application_send ::
    "app_settings \<Rightarrow> membership_gateway \<Rightarrow> (json \<Rightarrow> bool) \<Rightarrow> (api_call \<Rightarrow> api_reply) \<Rightarrow> (nat \<Rightarrow> pydt)
       \<Rightarrow> json outbox_claim \<Rightarrow> app_db \<Rightarrow> app_db \<times> api_call list \<times> (send_error + int)" where
  "application_send cfg gateway valid_keyboard api clk m db =
     (case and_then (authorize cfg gateway m) (\<lambda>_.
           and_then (attendance_metadata (oc_payload m)) (\<lambda>attendance.
           and_then (material_copy_metadata (oc_payload m)) (\<lambda>copy.
           and_then (already_done db attendance copy) (\<lambda>done_id. Inr (attendance, copy, done_id))))) of
        Inl e \<Rightarrow> (db, [], Inl e)
      | Inr (attendance, copy, Some i) \<Rightarrow> (db, [], Inr i)
      | Inr (attendance, copy, None) \<Rightarrow> send_and_confirm cfg valid_keyboard api clk attendance copy m db)"

end
