(* ===== verification/SenderProperties.thy ===== *)
theory SenderProperties
  imports ApplicationSender ScheduleServiceProperties
begin

text \<open>
  What leaves the application sender: only authorised envelopes reach the Telegram API, a private
  message goes to the current headman only, and a copy that was confirmed is never sent again.
\<close>

section \<open>One envelope, one call\<close>

lemma sent_calls:
  assumes "application_send cfg gateway vk api clk m db = (db', calls, r)" and "c \<in> set calls"
  shows "authorize cfg gateway m = Inr ()" and "request_of vk m = Inr c" and "calls = [c]"
proof -
  have "authorize cfg gateway m = Inr () \<and> request_of vk m = Inr c \<and> calls = [c]"
    using assms
    by (auto simp: application_send_def send_and_confirm_def telegram_send_def py Let_def
        split: sum.splits option.splits prod.splits if_splits)
  then show "authorize cfg gateway m = Inr ()" and "request_of vk m = Inr c" and "calls = [c]" by auto
qed

lemma call_chat_simps:
  "call_chat (Send_message chat thread body silent kb) = chat" "call_chat (Edit_message chat i body kb) = chat"
  by (simp_all add: call_chat_def)

lemma request_chat: "request_of vk m = Inr c \<Longrightarrow> oc_chat_id m = Some (call_chat c)"
  by (auto simp: request_of_def Let_def py required_chat_id_def call_chat_def split: if_splits option.splits)

lemma authorized_recipient:
  assumes "authorize cfg gateway m = Inr ()" and "oc_chat_id m = Some chat" and "0 \<le> chat"
  shows "\<exists>target ask. as_headman_user_id cfg = Some chat \<and> as_target_chat_id cfg = Some target
    \<and> gateway = Some ask \<and> can_access_group_history (ask target chat)"
  using assms by (auto simp: authorize_def authorize_private_recipient_def py split: option.splits if_splits)

text \<open>
  C3: a call of the Telegram API that addresses a private chat addresses the configured headman,
  and only while a membership answer of the group confirms that the headman is still a member.
\<close>

theorem private_message_to_headman_only:
  assumes "application_send cfg gateway vk api clk m db = (db', calls, r)" and "c \<in> set calls"
    and "0 \<le> call_chat c"
  shows "\<exists>target ask. as_headman_user_id cfg = Some (call_chat c) \<and> as_target_chat_id cfg = Some target
    \<and> gateway = Some ask \<and> can_access_group_history (ask target (call_chat c))"
  using authorized_recipient [OF sent_calls(1) [OF assms(1,2)]] request_chat [OF sent_calls(2) [OF assms(1,2)]] assms(3)
  by blast

section \<open>The schedule-only surface\<close>

lemma int_field_value:
  "optional_int_field payload key = Inr t \<Longrightarrow> py_eq_int (payload_field payload key) n \<Longrightarrow> t = n"
  by (auto simp: optional_int_field_def mapping_value_def payload_field_def py_eq_int_def py
      split: json.splits option.splits)

lemma no_key_no_keyboard: "\<not> has_key payload (u ''reply_markup'') \<Longrightarrow> keyboard vk payload = Inr kb \<Longrightarrow> kb = None"
  by (cases payload) (auto simp: has_key_def keyboard_def mapping_value_def jget_def py map_of_eq_None_iff
      simp del: u_Cons split: json.splits option.splits dest: map_of_SomeD intro: rev_image_eqI)

text \<open>
  C4: in the schedule-only profile the program reaches Telegram with nothing but messages to, and
  edits in, the configured group: a new message goes to the schedule topic, and no call carries a
  keyboard or copies a message.
\<close>

theorem schedule_only_surface:
  assumes "application_send cfg gateway vk api clk m db = (db', calls, r)" and "c \<in> set calls"
    and "as_schedule_only cfg"
  shows "\<exists>chat. as_target_chat_id cfg = Some chat \<and>
    ((\<exists>body silent. c = Send_message chat (as_schedule_topic_id cfg) body silent None)
     \<or> (\<exists>i body. c = Edit_message chat i body None))"
proof -
  have ok: "authorize_schedule_only cfg m = Inr ()"
    using sent_calls(1) [OF assms(1,2)] assms(3) by (auto simp: authorize_def py)
  have kind: "oc_kind m = u ''telegram.send_message'' \<or> oc_kind m = u ''telegram.edit_message''"
    and chat: "oc_chat_id m = as_target_chat_id cfg"
    and thread: "py_eq_int (payload_field (oc_payload m) (u ''message_thread_id'')) (as_schedule_topic_id cfg)"
    and no_kb: "\<not> has_key (oc_payload m) (u ''reply_markup'')"
    using ok by (auto simp: authorize_schedule_only_def py Let_def simp del: u_Cons)
  have c: "request_of vk m = Inr c" using sent_calls(2) [OF assms(1,2)] .
  have target: "as_target_chat_id cfg = Some (call_chat c)" using request_chat [OF c] chat by simp
  have distinct: "u ''telegram.edit_message'' \<noteq> u ''telegram.send_message''" by simp
  from kind show ?thesis
  proof
    assume "oc_kind m = u ''telegram.send_message''"
    then obtain thread body silent kb where "c = Send_message (call_chat c) thread body silent kb"
      "optional_int_field (oc_payload m) (u ''message_thread_id'') = Inr thread"
      "keyboard vk (oc_payload m) = Inr kb"
      using c by (auto simp: request_of_def Let_def py call_chat_simps simp del: u_Cons)
    then show ?thesis using target int_field_value [OF _ thread] no_key_no_keyboard [OF no_kb] by blast
  next
    assume "oc_kind m = u ''telegram.edit_message''"
    then obtain i body kb where "c = Edit_message (call_chat c) i body kb" "keyboard vk (oc_payload m) = Inr kb"
      using c distinct by (auto simp: request_of_def Let_def py call_chat_simps simp del: u_Cons)
    then show ?thesis using target no_key_no_keyboard [OF no_kb] by blast
  qed
qed

section \<open>A confirmed copy is final\<close>

lemma find_upd_where:
  assumes "\<And>r. key (f r) = key r"
  shows "List.find (\<lambda>r. key r = i) (upd_where (\<lambda>r. key r = i) f rows) = map_option f (List.find (\<lambda>r. key r = i) rows)"
  using assms by (induction rows) (auto simp: upd_where_def)

lemma listed_ints_JArr [simp]:
  "listed_ints (JArr (map JInt ns)) = filter (\<lambda>n. 0 < n) ns"
  by (induction ns) (auto simp: listed_ints_def json_positive_def List.map_filter_def)

lemma map_of_filter_keys: "key \<notin> A \<Longrightarrow> map_of (filter (\<lambda>(k, _). k \<notin> A) news) key = map_of news key"
  by (induction news) auto

lemma obj_update_get:
  "key \<in> fst ` set news \<Longrightarrow> jget (obj_update kvs news) key = jget news key"
proof -
  assume here: "key \<in> fst ` set news"
  have "map_of (obj_update kvs news) key = map_of news key"
  proof (cases "map_of kvs key")
    case None
    then have "map_of (map (\<lambda>(k, v). (k, case map_of news k of None \<Rightarrow> v | Some w \<Rightarrow> w)) kvs) key = None"
      by (auto simp: map_of_eq_None_iff image_iff split_beta)
    moreover have "key \<notin> fst ` set kvs" using None by (simp add: map_of_eq_None_iff)
    then have "map_of (filter (\<lambda>(k, _). k \<notin> fst ` set kvs) news) key = map_of news key"
      by (rule map_of_filter_keys)
    ultimately show ?thesis by (simp add: obj_update_def map_add_def)
  next
    case (Some v)
    obtain w where w: "map_of news key = Some w" using here by (auto simp: map_of_eq_None_iff dest: weak_map_of_SomeI)
    have "map_of (map (\<lambda>(k, v). (k, case map_of news k of None \<Rightarrow> v | Some w \<Rightarrow> w)) kvs) key = Some w"
      using Some w by (induction kvs) auto
    then show ?thesis using w by (simp add: obj_update_def map_add_def)
  qed
  then show ?thesis by (simp add: jget_def)
qed

lemma jget_step: "jget ((k, v) # kvs) key = (if key = k then v else jget kvs key)"
  by (simp add: jget_def)

lemma copied_evidence_sources:
  "evidence_ints (Some (copied_evidence c ids evidence)) (u ''copied_source_message_ids'')
     = {n \<in> set (listed_ints (evidence_field evidence (u ''copied_source_message_ids''))) \<union> set (cp_source_message_ids c). 0 < n}"
proof -
  have keys: "u ''copied_source_message_ids'' \<noteq> u ''destination_message_ids''" by simp
  show ?thesis
    using keys
    by (auto simp: evidence_ints_def evidence_field_def [of "Some x" for x] copied_evidence_def payload_field_def Let_def
        obj_update_get jget_step merge_ints_def simp del: u_Cons)
qed

lemma listed_positive: "n \<in> set (List.map_filter json_positive vs) \<Longrightarrow> 0 < n"
  by (induction vs) (auto simp: List.map_filter_simps json_positive_def split: json.splits if_splits)

lemma copy_sources_positive:
  "material_copy_metadata payload = Inr (Some c) \<Longrightarrow> n \<in> set (cp_source_message_ids c) \<Longrightarrow> 0 < n"
  by (auto simp: material_copy_metadata_def listed_positive simp del: u_Cons
      split: json.splits option.splits if_splits)

lemma confirm_copy_recorded:
  assumes "confirm_copy now (Some c) m ids message_id db = Inr db'"
    and "\<And>n. n \<in> set (cp_source_message_ids c) \<Longrightarrow> 0 < n"
  shows "\<exists>r. material_of db' (cp_material_id c) = Some r
    \<and> set (cp_source_message_ids c) \<subseteq> evidence_ints (mt_evidence r) (u ''copied_source_message_ids'')"
proof -
  obtain r chat where r: "material_of db (cp_material_id c) = Some r" "required_chat_id m = Inr chat"
    using assms(1) by (auto simp: confirm_copy_def py)
  show ?thesis
    using assms r
    by (auto simp: confirm_copy_def guard_def material_of_def find_upd_where copied_evidence_sources simp del: u_Cons)
qed

lemma recorded_copy_done:
  assumes "material_of db (cp_material_id c) = Some r"
    and "set (cp_source_message_ids c) \<subseteq> evidence_ints (mt_evidence r) (u ''copied_source_message_ids'')"
  shows "already_done db attendance (Some c) \<noteq> Inr None"
  using assms by (auto simp: already_done_def split: option.splits)

lemma sent_copy_recorded:
  assumes "application_send cfg gateway vk api clk m db = (db', calls, Inr i)"
    and copy: "material_copy_metadata (oc_payload m) = Inr (Some c)"
    and "attendance_metadata (oc_payload m) = Inr attendance"
  shows "already_done db' attendance (Some c) \<noteq> Inr None"
proof (cases "already_done db attendance (Some c) = Inr None")
  case True
  then obtain ids where "confirm_delivery cfg clk attendance (Some c) m ids db = Inr db'"
    using assms
    by (auto simp: application_send_def send_and_confirm_def py Let_def
        split: sum.splits option.splits prod.splits if_splits)
  then obtain db3 where "confirm_copy (instant_of (clk 3)) (Some c) m ids (hd ids) db3 = Inr db'"
    by (auto simp: confirm_delivery_def py Let_def)
  from confirm_copy_recorded [OF this copy_sources_positive [OF copy]] show ?thesis
    using recorded_copy_done by blast
next
  case False
  then show ?thesis
    using assms by (auto simp: application_send_def py split: sum.splits option.splits prod.splits)
qed

text \<open>
  C5: once the copy of a material has been confirmed, a repeated delivery of the same envelope
  (after a lost settlement, say) makes no call of the Telegram API and changes nothing, whatever
  the services answer then.
\<close>

theorem confirmed_copy_not_repeated:
  assumes "application_send cfg gateway vk api clk m db = (db1, calls, Inr i)"
    and "material_copy_metadata (oc_payload m) = Inr (Some c)" and "oc_payload m' = oc_payload m"
  shows "\<exists>r. application_send cfg' gateway' vk' api' clk' m' db1 = (db1, [], r)"
proof -
  obtain attendance where a: "attendance_metadata (oc_payload m) = Inr attendance"
    using assms(1) by (auto simp: application_send_def py split: sum.splits)
  from sent_copy_recorded [OF assms(1,2) a] show ?thesis
    using assms(2,3) a
    by (auto simp: application_send_def py split: sum.splits option.splits)
qed

section \<open>Concrete deliveries\<close>

definition demo_settings :: app_settings where
  "demo_settings = \<lparr>as_schedule_only = True, as_target_chat_id = Some (- 100123), as_schedule_topic_id = Some 7,
     as_materials_topic_id = Some 8, as_headman_user_id = Some 42, as_window_minutes = 10, as_reaction = [128077]\<rparr>"

definition demo_app :: app_db where
  "demo_app = \<lparr>ad_schedule = no_schedules, ad_attendance = demo_db,
     ad_materials = [\<lparr>mt_id = 3, mt_source_message_id = 30, mt_source_media_group_id = None,
       mt_destination_chat_id = None, mt_destination_message_id = None, mt_title = None, mt_discipline = None,
       mt_type = u ''document'', mt_confidence = 1, mt_workflow_state = Copy_pending, mt_classifier_version = None,
       mt_evidence = None, mt_created_at = 0, mt_updated_at = 0\<rparr>]\<rparr>"

definition envelope_with :: "pystr \<Rightarrow> int \<Rightarrow> (pystr \<times> json) list \<Rightarrow> json outbox_claim" where
  "envelope_with kind chat kvs = \<lparr>oc_id = 1, oc_kind = kind, oc_key = u ''k'', oc_chat_id = Some chat,
     oc_payload = JObj kvs, oc_attempt = 1, oc_max_attempts = 8, oc_leased_until = utc_at 0\<rparr>"

definition demo_card :: "json outbox_claim" where
  "demo_card = envelope_with (u ''telegram.send_message'') (- 100123)
     [(u ''text'', JStr (u ''card'')), (u ''message_thread_id'', JInt 7),
      (u ''_state_key'', JStr (u ''telegram.schedule_card.2026-01-01''))]"

definition demo_copy :: "json outbox_claim" where
  "demo_copy = envelope_with (u ''telegram.copy_message'') (- 100123)
     [(u ''from_chat_id'', JInt (- 100123)), (u ''message_thread_id'', JInt 8),
      (u ''_material_copy'', JObj [(u ''material_id'', JInt 3), (u ''expected_count'', JInt 1),
         (u ''source_message_ids'', JArr [JInt 55])]),
      (u ''message_id'', JInt 55)]"

definition demo_note :: "json outbox_claim" where
  "demo_note = envelope_with (u ''telegram.send_message'') 42 [(u ''text'', JStr (u ''note''))]"

lemmas demo_envelope_defs = demo_card_def demo_copy_def demo_note_def envelope_with_def demo_settings_def demo_app_def

definition member_gateway :: membership_gateway where
  "member_gateway = Some (\<lambda>chat user. Some \<lparr>cm_status = Member, cm_is_member = None\<rparr>)"

lemmas send_defs = demo_envelope_defs member_gateway_def application_send_def authorize_def
  authorize_private_recipient_def authorize_schedule_only_def can_access_group_history_def guard_def
  attendance_metadata_def material_copy_metadata_def payload_field_def jget_def state_key_def change_ids_def
  py_eq_int_def has_key_def already_done_def material_of_def evidence_ints_def evidence_field_def listed_ints_def
  as_int_def json_positive_def all_positive_def List.map_filter_simps send_and_confirm_def telegram_send_def
  request_of_def required_chat_id_def required_int_def optional_text_def optional_int_field_def mapping_value_def
  required_text_def optional_bool_def keyboard_def evaluate_text interpret_reply_def Let_def

lemma demo_note_sent:
  "\<exists>db' r. application_send (demo_settings\<lparr>as_schedule_only := False\<rparr>) member_gateway (\<lambda>_. True)
     (\<lambda>_. Api_message 9) (\<lambda>_. utc_at 0) demo_note demo_app
     = (db', [Send_message 42 None (u ''note'') None None], r)"
  by (simp add: send_defs split: sum.split)

lemma private_message_to_headman_only_witness:
  "\<exists>db' c r. application_send (demo_settings\<lparr>as_schedule_only := False\<rparr>) member_gateway (\<lambda>_. True)
       (\<lambda>_. Api_message 9) (\<lambda>_. utc_at 0) demo_note demo_app = (db', [c], r)
     \<and> as_headman_user_id demo_settings = Some (call_chat c)"
proof -
  obtain db' r where s: "application_send (demo_settings\<lparr>as_schedule_only := False\<rparr>) member_gateway (\<lambda>_. True)
     (\<lambda>_. Api_message 9) (\<lambda>_. utc_at 0) demo_note demo_app
     = (db', [Send_message 42 None (u ''note'') None None], r)"
    using demo_note_sent by blast
  show ?thesis
    using private_message_to_headman_only [OF s, of "Send_message 42 None (u ''note'') None None"] s
    by (auto simp: call_chat_def)
qed

lemma schedule_only_surface_witness:
  "\<exists>db' c r. application_send demo_settings None (\<lambda>_. True) (\<lambda>_. Api_message 9) (\<lambda>_. utc_at 0) demo_card demo_app
       = (db', [c], r) \<and> call_chat c = - 100123"
proof -
  let ?c = "Send_message (- 100123) (Some 7) (u ''card'') None None"
  have "\<exists>db' r. application_send demo_settings None (\<lambda>_. True) (\<lambda>_. Api_message 9) (\<lambda>_. utc_at 0)
      demo_card demo_app = (db', [?c], r)"
    by (simp add: send_defs split: sum.split)
  then obtain db' r where s: "application_send demo_settings None (\<lambda>_. True) (\<lambda>_. Api_message 9) (\<lambda>_. utc_at 0)
      demo_card demo_app = (db', [?c], r)" by blast
  show ?thesis
    using schedule_only_surface [OF s, of ?c] s by (auto simp: demo_settings_def call_chat_def)
qed

lemma confirmed_copy_not_repeated_witness:
  "\<exists>db1 r. application_send (demo_settings\<lparr>as_schedule_only := False\<rparr>) None (\<lambda>_. True) (\<lambda>_. Api_message 77)
       (\<lambda>_. utc_at 0) demo_copy demo_app
     = (db1, [Copy_message (- 100123) (- 100123) 55 (Some 8) None None], Inr 77)
     \<and> application_send (demo_settings\<lparr>as_schedule_only := False\<rparr>) None (\<lambda>_. True) (\<lambda>_. Api_message 78)
         (\<lambda>_. utc_at 0) demo_copy db1 = (db1, [], r)"
proof -
  obtain db1 where s: "application_send (demo_settings\<lparr>as_schedule_only := False\<rparr>) None (\<lambda>_. True) (\<lambda>_. Api_message 77)
       (\<lambda>_. utc_at 0) demo_copy demo_app
     = (db1, [Copy_message (- 100123) (- 100123) 55 (Some 8) None None], Inr 77)"
    by (simp add: send_defs destination_ids_of_def confirm_delivery_def confirm_session_def confirm_state_key_def
        confirm_changes_def confirm_copy_def)
  have "material_copy_metadata (oc_payload demo_copy)
      = Inr (Some \<lparr>cp_material_id = 3, cp_expected_count = 1, cp_source_message_ids = [55]\<rparr>)"
    by (simp add: send_defs)
  from confirmed_copy_not_repeated [OF s this refl] s show ?thesis by blast
qed

end
