(* ===== verification/ApplicationJobs.thy ===== *)
theory ApplicationJobs
  imports ApplicationSender Coordinator Retention JobQueue
begin

text \<open>
  \<open>jobs/application.py\<close>: the registered job handlers. A handler is a function on the tables that
  returns the tables with the outcome, since every enqueue commits on its own and stays when a
  later step raises. \<open>clk key\<close> are the readings of the clock while the row \<open>key\<close> is enqueued.
  The zone is given by its offset at an instant and its offset for a wall-clock reading.
\<close>

section \<open>State\<close>

record app_state =
  st_app :: app_db
  st_outbox :: "json outbox_row list"
  st_jobs :: "json job list"

datatype job_error =
    Job_value_error
  | Job_queue_error queue_error
  | Job_coordinator_error coordinator_error
  | Job_attendance_error attendance_error
  | Job_retention_error retention_error
  | Job_assertion_error

type_synonym effect = "app_state \<Rightarrow> app_state \<times> (job_error + unit)"

type_synonym clocks = "pystr \<Rightarrow> nat \<Rightarrow> pydt"

record local_zone =
  lz_at :: "instant \<Rightarrow> int"
  lz_wall :: "int \<Rightarrow> int"

text \<open>\<open>datetime.combine(day, time, tzinfo=zone)\<close>\<close>

definition combine_local :: "local_zone \<Rightarrow> date \<Rightarrow> int \<Rightarrow> pydt" where
  "combine_local z d t = (let w = (d - epoch_ordinal) * day_us + t in \<lparr>wall = w, utcoff = Some (lz_wall z w)\<rparr>)"

definition nothing_to_do :: effect where
  "nothing_to_do s = (s, Inr ())"

definition raise_error :: "job_error \<Rightarrow> effect" where
  "raise_error e s = (s, Inl e)"

definition then_do :: "effect \<Rightarrow> effect \<Rightarrow> effect" where
  "then_do f g s = (case f s of (s', Inl e) \<Rightarrow> (s', Inl e) | (s', Inr _) \<Rightarrow> g s')"

fun do_all :: "effect list \<Rightarrow> effect" where
  "do_all [] = nothing_to_do"
| "do_all (f # fs) = then_do f (do_all fs)"

text \<open>\<open>_required\<close>: the next step gets the value that is there.\<close>

definition with_required :: "int option \<Rightarrow> (int \<Rightarrow> effect) \<Rightarrow> effect" where
  "with_required v f = (case v of None \<Rightarrow> raise_error Job_value_error | Some i \<Rightarrow> f i)"

definition enqueue_message :: "clocks \<Rightarrow> pystr \<Rightarrow> pystr \<Rightarrow> (pystr \<times> json) list \<Rightarrow> int \<Rightarrow> effect" where
  "enqueue_message clk kind key payload chat s =
     (case enqueue_outbox (clk key) kind key (JObj payload) (Some chat) None None 8 (st_outbox s) of
        Inl e \<Rightarrow> (s, Inl (Job_queue_error e))
      | Inr (rows, _) \<Rightarrow> (s\<lparr>st_outbox := rows\<rparr>, Inr ()))"

definition setting_of :: "app_state \<Rightarrow> pystr \<Rightarrow> json option" where
  "setting_of s key = setting_value (db_settings (ad_schedule (st_app s))) key"

definition state_message_id :: "app_state \<Rightarrow> pystr \<Rightarrow> int option" where
  "state_message_id s key =
     (case setting_of s key of Some (JObj kvs) \<Rightarrow> as_int (jget kvs (u ''message_id'')) | _ \<Rightarrow> None)"

definition payload_int :: "json \<Rightarrow> pystr \<Rightarrow> job_error + int" where
  "payload_int payload key =
     (case payload of
        JObj kvs \<Rightarrow> (case as_int (jget kvs key) of None \<Rightarrow> Inl Job_value_error | Some i \<Rightarrow> Inr i)
      | _ \<Rightarrow> Inl Job_value_error)"

definition text_digest :: "pystr \<Rightarrow> pystr" where
  "text_digest body = take 16 (sha256_hex body)"

section \<open>Publishing\<close>

definition schedule_card_key :: "date \<Rightarrow> pystr" where
  "schedule_card_key d = u ''telegram.schedule_card.'' @ iso_date d"

definition keyboard_json :: "schedule_view \<Rightarrow> json" where
  "keyboard_json active = JObj [(u ''inline_keyboard'',
     JArr [JArr (map (\<lambda>(label, data). JObj [(u ''text'', JStr label), (u ''callback_data'', JStr data)])
       (schedule_keyboard active))])]"

definition day_card_text :: "confirmed_schedule \<Rightarrow> date \<Rightarrow> pystr" where
  "day_card_text cs d =
     render_day_card d (filter (\<lambda>l. l_day l = d) (sn_lessons (cs_snapshot cs))) [1047, 1072, 1074, 1090, 1088, 1072] False
     @ (if is_fresh (cs_freshness cs) then []
        else [10, 10] @ [60, 105, 62, 1055, 1086, 1082, 1072, 1079, 1072, 1085, 1072, 32, 1087, 1086, 1089, 1083,
      1077, 1076, 1085, 1103, 1103, 32, 1087, 1086, 1076, 1090, 1074, 1077, 1088, 1078,
      1076, 1105, 1085, 1085, 1072, 1103, 32, 1074, 1077, 1088, 1089, 1080, 1103, 59, 32,
      1080, 1089, 1090, 1086, 1095, 1085, 1080, 1082, 32, 1085, 1077, 32, 1086, 1073,
      1085, 1086, 1074, 1083, 1105, 1085, 46, 60, 47, 105, 62])"

definition day_card_payload :: "app_settings \<Rightarrow> date \<Rightarrow> pystr \<Rightarrow> int \<Rightarrow> int option \<Rightarrow> (pystr \<times> json) list" where
  "day_card_payload cfg d body topic existing =
     [(u ''text'', JStr body), (u ''message_thread_id'', JInt topic), (u ''_state_key'', JStr (schedule_card_key d))]
     @ (if as_schedule_only cfg then [] else [(u ''reply_markup'', keyboard_json Tomorrow_view)])
     @ (case existing of None \<Rightarrow> [] | Some i \<Rightarrow> [(u ''message_id'', JInt i)])"

definition send_or_edit :: "int option \<Rightarrow> pystr" where
  "send_or_edit existing = (if existing = None then u ''telegram.send_message'' else u ''telegram.edit_message'')"

definition publish_day :: "app_settings \<Rightarrow> clocks \<Rightarrow> confirmed_schedule \<Rightarrow> date \<Rightarrow> bool \<Rightarrow> effect" where
  "publish_day cfg clk cs d only_if_existing s =
     (let existing = state_message_id s (schedule_card_key d) in
      if only_if_existing \<and> existing = None then nothing_to_do s
      else
        let body = day_card_text cs d in
        with_required (as_schedule_topic_id cfg) (\<lambda>topic.
        with_required (as_target_chat_id cfg) (\<lambda>chat.
        enqueue_message clk (send_or_edit existing) (u ''schedule-card:'' @ iso_date d @ [58] @ text_digest body)
          (day_card_payload cfg d body topic existing) chat)) s)"

definition changes_key :: "int list \<Rightarrow> pystr" where
  "changes_key ids = u ''schedule-changes:'' @ join [58] (map show_int (sort ids))"

definition changes_payload :: "pystr \<Rightarrow> int \<Rightarrow> int list \<Rightarrow> (pystr \<times> json) list" where
  "changes_payload body topic ids =
     [(u ''text'', JStr body), (u ''message_thread_id'', JInt topic),
      (u ''_schedule_change_ids'', JArr (map JInt (sort ids)))]"

definition publish_changes :: "app_settings \<Rightarrow> clocks \<Rightarrow> access \<Rightarrow> effect" where
  "publish_changes cfg clk a =
     (case render_schedule_changes (ac_changes a) [1074, 32, 1088, 1072, 1089, 1087, 1080, 1089, 1072, 1085, 1080, 1080] of
        None \<Rightarrow> raise_error Job_assertion_error
      | Some body \<Rightarrow>
          if body = [] then nothing_to_do
          else
            with_required (as_target_chat_id cfg) (\<lambda>chat.
            with_required (as_schedule_topic_id cfg) (\<lambda>topic.
            enqueue_message clk (u ''telegram.send_message'') (changes_key (ac_change_ids a))
              (changes_payload body topic (ac_change_ids a)) chat)))"

section \<open>Attendance\<close>

definition lesson_row_at :: "app_state \<Rightarrow> int \<Rightarrow> lesson_row option" where
  "lesson_row_at s i = row_at lr_id i (db_lessons (ad_schedule (st_app s)))"

definition row_starts_at :: "local_zone \<Rightarrow> lesson_row \<Rightarrow> pydt" where
  "row_starts_at z r = combine_local z (l_day (lr_lesson r)) (l_starts_at (lr_lesson r))"

definition open_key :: "int \<Rightarrow> pystr" where
  "open_key lesson = u ''attendance-open:'' @ show_int lesson"

definition seed_lesson :: "app_settings \<Rightarrow> local_zone \<Rightarrow> clocks \<Rightarrow> pydt \<Rightarrow> lesson_row \<Rightarrow> effect" where
  "seed_lesson cfg z clk now r s =
     (let starts = utc_at (instant_of (row_starts_at z r)) in
      if instant_of starts + as_window_minutes cfg * minute \<le> instant_of now then nothing_to_do s
      else
        case enqueue_job (clk (open_key (lr_id r))) (u ''attendance.open'') (open_key (lr_id r))
               (JObj [(u ''lesson_id'', JInt (lr_id r))]) (Some starts) 8 False (st_jobs s) of
          Inl e \<Rightarrow> (s, Inl (Job_queue_error e))
        | Inr (jobs, _) \<Rightarrow> (s\<lparr>st_jobs := jobs\<rparr>, Inr ()))"

definition seed_attendance :: "app_settings \<Rightarrow> local_zone \<Rightarrow> clocks \<Rightarrow> pydt \<Rightarrow> confirmed_schedule \<Rightarrow> effect" where
  "seed_attendance cfg z clk now cs s =
     do_all (map (seed_lesson cfg z clk now)
       (filter (\<lambda>r. lr_snapshot_id r = cs_snapshot_id cs) (db_lessons (ad_schedule (st_app s))))) s"

text \<open>Two readings in the same zone compare by the wall clock, as Python compares them.\<close>

definition attendance_open :: "app_settings \<Rightarrow> local_zone \<Rightarrow> clocks \<Rightarrow> pydt \<Rightarrow> json \<Rightarrow> effect" where
  "attendance_open cfg z clk now payload s =
     (case payload_int payload (u ''lesson_id'') of
        Inl e \<Rightarrow> (s, Inl e)
      | Inr lesson \<Rightarrow>
          (case lesson_row_at s lesson of
             None \<Rightarrow> nothing_to_do s
           | Some r \<Rightarrow>
               let starts = row_starts_at z r in
               if wall starts + as_window_minutes cfg * minute \<le> wall (in_zone (lz_at z) now) then nothing_to_do s
               else
                 with_required (as_target_chat_id cfg) (\<lambda>chat.
                 with_required (as_schedule_topic_id cfg) (\<lambda>topic.
                 enqueue_message clk (u ''telegram.send_message'') (u ''attendance-card:'' @ show_int (lr_id r))
                   [(u ''text'', JStr (render_attendance_card (lr_lesson r) starts (as_reaction cfg))),
                    (u ''message_thread_id'', JInt topic),
                    (u ''_attendance'', JObj [(u ''lesson_id'', JInt (lr_id r)), (u ''starts_at'', JStr (iso_datetime starts))]),
                    (u ''_state_key'', JStr (u ''telegram.attendance.'' @ show_int (lr_id r)))] chat)) s))"

definition summary_state_key :: "int \<Rightarrow> pystr" where
  "summary_state_key sid = u ''telegram.attendance_summary.'' @ show_int sid"

definition summary_payload :: "pystr \<Rightarrow> int \<Rightarrow> int option \<Rightarrow> (pystr \<times> json) list" where
  "summary_payload body sid existing =
     [(u ''text'', JStr body), (u ''_state_key'', JStr (summary_state_key sid))]
     @ (case existing of None \<Rightarrow> [] | Some i \<Rightarrow> [(u ''message_id'', JInt i)])"

definition attendance_summary_job :: "app_settings \<Rightarrow> local_zone \<Rightarrow> clocks \<Rightarrow> json \<Rightarrow> effect" where
  "attendance_summary_job cfg z clk payload s =
     (case payload_int payload (u ''session_id'') of
        Inl e \<Rightarrow> (s, Inl e)
      | Inr sid \<Rightarrow>
          (case row_at s_id sid (a_sessions (ad_attendance (st_app s))) of
             None \<Rightarrow> nothing_to_do s
           | Some session \<Rightarrow>
               (case lesson_row_at s (s_lesson_id session) of
                  None \<Rightarrow> nothing_to_do s
                | Some r \<Rightarrow>
                    (case summary sid (ad_attendance (st_app s)) of
                       Inl e \<Rightarrow> (s, Inl (Job_attendance_error e))
                     | Inr sm \<Rightarrow>
                         let existing = state_message_id s (summary_state_key sid);
                             body = render_attendance_summary (l_subject (lr_lesson r)) (row_starts_at z r) sm
                         in with_required (as_headman_user_id cfg) (\<lambda>headman.
                            enqueue_message clk (send_or_edit existing)
                              (u ''attendance-summary:'' @ show_int sid @ [58] @ text_digest body)
                              (summary_payload body sid existing) headman) s))))"

section \<open>Schedule jobs\<close>

text \<open>The days the changes touch: the new lesson, or the old one where there is none.\<close>

definition affected_days :: "change list \<Rightarrow> date set" where
  "affected_days cs =
     set (List.map_filter (\<lambda>c. map_option l_day (case ch_after c of Some l \<Rightarrow> Some l | None \<Rightarrow> ch_before c)) cs)"

definition handle_access ::
    "app_settings \<Rightarrow> local_zone \<Rightarrow> clocks \<Rightarrow> pydt \<Rightarrow> date \<Rightarrow> access \<Rightarrow> effect" where
  "handle_access cfg z clk now tomorrow a =
     (case ac_schedule a of
        None \<Rightarrow> nothing_to_do
      | Some cs \<Rightarrow>
          then_do (if as_schedule_only cfg then nothing_to_do else seed_attendance cfg z clk now cs)
            (if ac_changes a \<noteq> [] \<and> ac_change_ids a \<noteq> []
             then then_do (publish_changes cfg clk a)
               (if tomorrow \<in> affected_days (ac_changes a) then publish_day cfg clk cs tomorrow True else nothing_to_do)
             else nothing_to_do))"

text \<open>A call of the coordinator; what it commits stays when a later step raises.\<close>

definition load_week ::
    "coordinator \<Rightarrow> gasu_error + bootstrap \<Rightarrow> (pystr \<Rightarrow> gasu_error + weekly_schedule) \<Rightarrow> (nat \<Rightarrow> pydt) \<Rightarrow> date \<Rightarrow> bool
       \<Rightarrow> app_state \<Rightarrow> app_state \<times> (job_error + access)" where
  "load_week c boot fetch clk week force s =
     (case get_week c boot fetch (clk 0) (clk 1) (clk 2) week force (ad_schedule (st_app s)) of
        Inl e \<Rightarrow> (s, Inl (Job_coordinator_error e))
      | Inr (sdb, a) \<Rightarrow> (s\<lparr>st_app := (st_app s)\<lparr>ad_schedule := sdb\<rparr>\<rparr>, Inr a))"

definition schedule_sync ::
    "app_settings \<Rightarrow> local_zone \<Rightarrow> coordinator \<Rightarrow> (nat \<Rightarrow> gasu_error + bootstrap) \<Rightarrow> (nat \<Rightarrow> pystr \<Rightarrow> gasu_error + weekly_schedule)
       \<Rightarrow> (nat \<Rightarrow> pydt) \<Rightarrow> (nat \<Rightarrow> nat \<Rightarrow> pydt) \<Rightarrow> clocks \<Rightarrow> effect" where
  "schedule_sync cfg z c boot fetch now week_clk clk s =
     (let monday = monday_for (dt_date (in_zone (co_zone c) (now 0))) in
      case load_week c (boot 0) (fetch 0) (week_clk 0) monday True s of
        (s1, Inl e) \<Rightarrow> (s1, Inl e)
      | (s1, Inr a) \<Rightarrow>
          (case load_week c (boot 1) (fetch 1) (week_clk 1) (monday + 7) True s1 of
             (s2, Inl e) \<Rightarrow> (s2, Inl e)
           | (s2, Inr b) \<Rightarrow>
               let tomorrow = dt_date (in_zone (lz_at z) (now 1)) + 1 in
               then_do (handle_access cfg z clk (now 2) tomorrow a) (handle_access cfg z clk (now 3) tomorrow b) s2))"

definition schedule_evening ::
    "app_settings \<Rightarrow> local_zone \<Rightarrow> coordinator \<Rightarrow> gasu_error + bootstrap \<Rightarrow> (pystr \<Rightarrow> gasu_error + weekly_schedule)
       \<Rightarrow> pydt \<Rightarrow> (nat \<Rightarrow> pydt) \<Rightarrow> clocks \<Rightarrow> effect" where
  "schedule_evening cfg z c boot fetch now week_clk clk s =
     (let tomorrow = dt_date (in_zone (lz_at z) now) + 1 in
      case load_week c boot fetch week_clk (monday_for tomorrow) False s of
        (s1, Inl e) \<Rightarrow> (s1, Inl e)
      | (s1, Inr a) \<Rightarrow>
          (case ac_schedule a of None \<Rightarrow> nothing_to_do s1 | Some cs \<Rightarrow> publish_day cfg clk cs tomorrow False s1))"

section \<open>Maintenance\<close>

text \<open>A new row gets the column's default time, an old one the handler's.\<close>

definition runtime_heartbeat :: "pydt \<Rightarrow> instant \<Rightarrow> effect" where
  "runtime_heartbeat now created s =
     (s\<lparr>st_app := put_setting (u ''runtime.heartbeat'') (JObj [(u ''at'', JStr (iso_datetime now))])
        (if setting_of s (u ''runtime.heartbeat'') = None then created else instant_of now) (st_app s)\<rparr>, Inr ())"

definition maintenance_minute :: "pydt \<Rightarrow> pydt \<Rightarrow> instant \<Rightarrow> effect" where
  "maintenance_minute now beat created s =
     (case close_due now (ad_attendance (st_app s)) of
        Inl e \<Rightarrow> (s, Inl (Job_attendance_error e))
      | Inr (att, _) \<Rightarrow> runtime_heartbeat beat created (s\<lparr>st_app := (st_app s)\<lparr>ad_attendance := att\<rparr>\<rparr>))"

definition default_retention :: retention_policy where
  "default_retention = \<lparr>rp_processed_age = 30 * day_us, rp_failed_age = 90 * day_us, rp_conversation_age = 30 * day_us\<rparr>"

fun drain_retention :: "pydt list \<Rightarrow> ('j, 'o) retained_db \<Rightarrow> ('j, 'o) retained_db \<times> (retention_error + unit)" where
  "drain_retention [] db = (db, Inr ())"
| "drain_retention (now # later) db =
     (case run_batch default_retention now 500 db of
        Inl e \<Rightarrow> (db, Inl e)
      | Inr (db', res) \<Rightarrow> if rr_may_have_more res then drain_retention later db' else (db', Inr ()))"

definition maintenance_retention :: "(nat \<Rightarrow> pydt) \<Rightarrow> ('j, 'o) retained_db \<Rightarrow> ('j, 'o) retained_db \<times> (retention_error + unit)" where
  "maintenance_retention now = drain_retention (map now [0..<10])"

section \<open>The registry\<close>

definition schedule_kinds :: "pystr list" where
  "schedule_kinds = map u [''schedule.sync'', ''schedule.evening'', ''runtime.heartbeat'']"

definition handled_kinds :: "bool \<Rightarrow> pystr list" where
  "handled_kinds schedule_only =
     (if schedule_only then schedule_kinds
      else schedule_kinds @ map u [''attendance.open'', ''attendance.summary'', ''maintenance.minute'', ''maintenance.retention''])"

end
