(* ===== verification/ApplicationJobsProperties.thy ===== *)
theory ApplicationJobsProperties
  imports ApplicationJobs SenderProperties CiEnvelopeProperties
begin

text \<open>
  The application jobs together with the outbox and the application sender: what the schedule
  jobs write is what the schedule-only sender lets through, the metadata the jobs write reads
  back, and a card that returns to an earlier text collides with its own earlier row.
\<close>

section \<open>Effects that keep a property of the outbox rows\<close>

definition keeps :: "(json outbox_row \<Rightarrow> bool) \<Rightarrow> effect \<Rightarrow> bool" where
  "keeps P f \<longleftrightarrow> (\<forall>s. (\<forall>r \<in> set (st_outbox s). P r) \<longrightarrow> (\<forall>r \<in> set (st_outbox (fst (f s))). P r))"

named_theorems keeping

lemma keeps_nothing [keeping]: "keeps P nothing_to_do"
  by (simp add: keeps_def nothing_to_do_def)

lemma keeps_raise [keeping]: "keeps P (raise_error e)"
  by (simp add: keeps_def raise_error_def)

lemma keeps_then [keeping]: "keeps P f \<Longrightarrow> keeps P g \<Longrightarrow> keeps P (then_do f g)"
proof -
  assume f: "keeps P f" and g: "keeps P g"
  have "\<forall>r \<in> set (st_outbox (fst (then_do f g s))). P r" if "\<forall>r \<in> set (st_outbox s). P r" for s
  proof (cases "f s")
    case (Pair s1 res)
    then have "\<forall>r \<in> set (st_outbox s1). P r" using f that by (metis keeps_def fst_conv)
    then show ?thesis using g Pair by (cases res) (simp_all add: then_do_def keeps_def)
  qed
  then show ?thesis by (simp add: keeps_def)
qed

lemma keeps_required [keeping]: "(\<And>i. v = Some i \<Longrightarrow> keeps P (f i)) \<Longrightarrow> keeps P (with_required v f)"
  by (cases v) (simp_all add: with_required_def keeps_raise)

lemma enqueue_outbox_rows:
  assumes "enqueue_outbox clk kind key payload chat job at_time n rows = Inr (rows', res)"
  shows "rows' = rows \<or> (\<exists>r. rows' = rows @ [r] \<and> o_kind r = kind \<and> o_key r = key \<and> o_payload r = payload \<and> o_chat_id r = chat)"
  using assms by (auto simp: enqueue_outbox_def py fresh_outbox_def split: option.splits if_splits)

lemma keeps_enqueue [keeping]:
  assumes "\<And>r. o_kind r = kind \<Longrightarrow> o_payload r = JObj payload \<Longrightarrow> o_chat_id r = Some chat \<Longrightarrow> P r"
  shows "keeps P (enqueue_message clk kind key payload chat)"
  unfolding keeps_def enqueue_message_def
  using assms by (fastforce split: sum.splits dest!: enqueue_outbox_rows)

lemma keeps_same_outbox: "(\<And>s. st_outbox (fst (f s)) = st_outbox s) \<Longrightarrow> keeps P f"
  by (simp add: keeps_def)

section \<open>The schedule jobs stay on the schedule-only surface\<close>

text \<open>The sender authorises the row, or the row lists more changes than an envelope may.\<close>

definition on_surface :: "app_settings \<Rightarrow> json outbox_row \<Rightarrow> bool" where
  "on_surface cfg r \<longleftrightarrow>
     authorize_schedule_only cfg (claim_of_outbox (utc_at 0) r) = Inr ()
     \<or> (case payload_field (o_payload r) (u ''_schedule_change_ids'') of JArr ids \<Rightarrow> 100 < length ids | _ \<Rightarrow> False)"

lemma starts_with_append [simp]: "starts_with p (p @ s)"
  by (induction p) auto

lemma starts_with_longer: "starts_with (p @ q) s \<Longrightarrow> starts_with p s"
  by (induction p arbitrary: s) (auto elim: starts_with.elims)

lemma schedule_card_key_ok:
  assumes "is_date d"
  shows "starts_with (u ''telegram.schedule_card.'') (schedule_card_key d)"
    "starts_with (u ''telegram.'') (schedule_card_key d)" "length (schedule_card_key d) \<le> 128"
proof -
  show here: "starts_with (u ''telegram.schedule_card.'') (schedule_card_key d)"
    unfolding schedule_card_key_def by (rule starts_with_append)
  have "u ''telegram.schedule_card.'' = u ''telegram.'' @ u ''schedule_card.''" by simp
  then show "starts_with (u ''telegram.'') (schedule_card_key d)"
    using here starts_with_longer by metis
  show "length (schedule_card_key d) \<le> 128"
    using iso_date_text(2) [OF assms] by (simp add: schedule_card_key_def del: u_Cons)
qed

lemma list_all_as_int: "list_all (\<lambda>v. as_int v \<noteq> None) (map JInt ns)"
  by (simp add: list_all_iff as_int_def)

lemma map_filter_as_int [simp]: "List.map_filter as_int (map JInt ns) = ns"
  by (induction ns) (auto simp: List.map_filter_simps as_int_def)

lemma publish_day_on_surface:
  assumes "as_schedule_only cfg" and "is_date d"
  shows "keeps (on_surface cfg) (publish_day cfg clk cs d only)"
proof -
  have row: "on_surface cfg r"
    if "o_kind r = send_or_edit existing" "o_payload r = JObj (day_card_payload cfg d body topic existing)"
      "o_chat_id r = Some chat" "as_schedule_topic_id cfg = Some topic" "as_target_chat_id cfg = Some chat"
    for r existing body topic chat
  proof -
    have "state_key (JObj (day_card_payload cfg d body topic existing)) = Inr (Some (schedule_card_key d))"
      using schedule_card_key_ok [OF assms(2)]
      by (simp add: state_key_def payload_field_def day_card_payload_def jget_Cons)
    moreover have "change_ids (JObj (day_card_payload cfg d body topic existing)) = Inr []"
      using assms(1) by (simp add: change_ids_def payload_field_def day_card_payload_def jget_Cons
          jget_def [of "[]"] split: option.split)
    ultimately show ?thesis
      using that assms(1) schedule_card_key_ok [OF assms(2)]
      by (auto simp: on_surface_def authorize_schedule_only_def claim_of_outbox_def guard_def payload_field_def
          day_card_payload_def jget_Cons py_eq_int_def send_or_edit_def has_key_def Let_def split: option.splits)
  qed
  have "keeps (on_surface cfg) (with_required (as_schedule_topic_id cfg) (\<lambda>topic.
        with_required (as_target_chat_id cfg) (\<lambda>chat.
        enqueue_message clk (send_or_edit existing) key (day_card_payload cfg d body topic existing) chat)))"
    for existing key body
    by (intro keeping row) auto
  then show ?thesis
    unfolding keeps_def publish_day_def Let_def by (auto simp: nothing_to_do_def)
qed

lemma publish_changes_on_surface:
  assumes "as_schedule_only cfg" and "ac_change_ids a \<noteq> []"
  shows "keeps (on_surface cfg) (publish_changes cfg clk a)"
proof -
  have row: "on_surface cfg r"
    if "o_kind r = u ''telegram.send_message''" "o_payload r = JObj (changes_payload body topic (ac_change_ids a))"
      "o_chat_id r = Some chat" "as_schedule_topic_id cfg = Some topic" "as_target_chat_id cfg = Some chat"
    for r body topic chat
  proof -
    have "payload_field (o_payload r) (u ''_schedule_change_ids'') = JArr (map JInt (sort (ac_change_ids a)))"
      using that(2) by (simp add: payload_field_def changes_payload_def jget_Cons)
    moreover have "sort (ac_change_ids a) \<noteq> []" using assms(2) by (metis set_empty set_sort)
    ultimately show ?thesis
      using that list_all_as_int
      by (auto simp: on_surface_def authorize_schedule_only_def claim_of_outbox_def guard_def state_key_def change_ids_def
          payload_field_def changes_payload_def jget_Cons jget_def [of "[]"] py_eq_int_def has_key_def Let_def)
  qed
  show ?thesis
    unfolding publish_changes_def
    by (auto split: option.split intro!: keeping row)
qed

lemma handle_access_on_surface:
  assumes "as_schedule_only cfg" and "is_date tomorrow"
  shows "keeps (on_surface cfg) (handle_access cfg z clk now tomorrow a)"
  unfolding handle_access_def
  by (auto split: option.split intro!: keeping publish_changes_on_surface publish_day_on_surface assms)

lemma load_week_outbox: "load_week c boot fetch clk week force s = (s', r) \<Longrightarrow> st_outbox s' = st_outbox s"
  by (auto simp: load_week_def split: sum.splits prod.splits)

lemma schedule_sync_on_surface:
  assumes "as_schedule_only cfg" and "is_date (dt_date (in_zone (lz_at z) (now 1)) + 1)"
  shows "keeps (on_surface cfg) (schedule_sync cfg z c boot fetch now week_clk clk)"
proof -
  have handled: "keeps (on_surface cfg)
      (then_do (handle_access cfg z clk (now 2) (dt_date (in_zone (lz_at z) (now 1)) + 1) a)
               (handle_access cfg z clk (now 3) (dt_date (in_zone (lz_at z) (now 1)) + 1) b))" for a b
    by (intro keeping handle_access_on_surface assms)
  show ?thesis
    unfolding keeps_def schedule_sync_def Let_def
    by (auto dest!: load_week_outbox split: prod.splits sum.splits)
      (metis handled keeps_def One_nat_def)
qed

lemma schedule_evening_on_surface:
  assumes "as_schedule_only cfg" and "is_date (dt_date (in_zone (lz_at z) now) + 1)"
  shows "keeps (on_surface cfg) (schedule_evening cfg z c boot fetch now week_clk clk)"
  unfolding keeps_def schedule_evening_def Let_def
  by (auto dest!: load_week_outbox simp: nothing_to_do_def split: prod.splits sum.splits option.splits)
    (metis publish_day_on_surface [OF assms] keeps_def)

text \<open>
  C33: the schedule jobs write nothing that the schedule-only sender would refuse: when the rows of
  the outbox are on its surface before a synchronisation or an evening job, they are afterwards,
  however the job ends. The one exception is a message with more than a hundred changes.
\<close>

theorem schedule_jobs_stay_on_surface:
  assumes "f = schedule_sync cfg z c boots fetches now week_clks clk \<or> f = schedule_evening cfg z c boot fetch (now 1) week_clk clk"
    and "as_schedule_only cfg" and "is_date (dt_date (in_zone (lz_at z) (now 1)) + 1)"
    and "\<forall>r \<in> set (st_outbox s). on_surface cfg r"
  shows "\<forall>r \<in> set (st_outbox (fst (f s))). on_surface cfg r"
  using assms schedule_sync_on_surface schedule_evening_on_surface unfolding keeps_def by metis

section \<open>A card that returns to an earlier text\<close>

definition row_identity :: "json outbox_row \<Rightarrow> pystr \<times> pystr \<times> json" where
  "row_identity r = (o_key r, o_kind r, o_payload r)"

lemma find_by_identity:
  assumes "map row_identity rows = map row_identity rows'" and "List.find (\<lambda>r. o_key r = key) rows = Some r"
  shows "\<exists>r'. List.find (\<lambda>r. o_key r = key) rows' = Some r' \<and> row_identity r' = row_identity r"
  using assms
proof (induction rows arbitrary: rows')
  case (Cons x xs)
  then obtain y ys where "rows' = y # ys" "row_identity y = row_identity x" "map row_identity xs = map row_identity ys"
    by (cases rows') auto
  then show ?case using Cons by (auto simp: row_identity_def split: if_splits)
qed simp

lemma find_append_Some: "List.find P xs = Some x \<Longrightarrow> List.find P (xs @ ys) = Some x"
  by (induction xs) (auto split: if_splits)

lemma enqueued_row:
  assumes "enqueue_outbox clk kind key payload chat job at_time n rows = Inr (rows', res)"
  shows "\<exists>r. List.find (\<lambda>r. o_key r = key) rows' = Some r \<and> row_identity r = (key, kind, payload)"
proof -
  have "List.find (\<lambda>r. o_key r = key) (rows @ [x]) = Some x" if "List.find (\<lambda>r. o_key r = key) rows = None" "o_key x = key" for x
    using that by (induction rows) (auto split: if_splits)
  moreover have "o_key r = key" if "List.find (\<lambda>r. o_key r = key) rows = Some r" for r
    using that by (auto dest: find_Some_set)
  ultimately show ?thesis
    using assms by (auto simp: enqueue_outbox_def py fresh_outbox_def row_identity_def split: option.splits if_splits)
qed

lemma enqueue_conflict:
  assumes "List.find (\<lambda>r. o_key r = key) rows = Some r" and "row_identity r = (key, kind', payload')"
    and "kind' \<noteq> kind" and "validate_enqueue kind key n = Inr ()" and "aware (clk 0)" and "aware (clk 1)"
  shows "enqueue_outbox clk kind key payload chat job None n rows = Inl IdempotencyConflictError"
  using assms by (simp add: enqueue_outbox_def row_identity_def aware_time_def column_time_def)

lemma enqueue_message_ok:
  assumes "enqueue_message clk kind key payload chat s = (s', Inr ())"
  shows "validate_enqueue kind key 8 = Inr ()"
    "\<exists>r. List.find (\<lambda>r. o_key r = key) (st_outbox s') = Some r \<and> row_identity r = (key, kind, JObj payload)"
proof -
  obtain rows res where rows: "enqueue_outbox (clk key) kind key (JObj payload) (Some chat) None None 8 (st_outbox s) = Inr (rows, res)"
    "s' = s\<lparr>st_outbox := rows\<rparr>"
    using assms by (auto simp: enqueue_message_def split: sum.splits prod.splits)
  from rows(1) show "validate_enqueue kind key 8 = Inr ()" by (auto simp: enqueue_outbox_def py)
  show "\<exists>r. List.find (\<lambda>r. o_key r = key) (st_outbox s') = Some r \<and> row_identity r = (key, kind, JObj payload)"
    using enqueued_row [OF rows(1)] rows(2) by simp
qed

lemma validate_other_kind:
  "validate_enqueue kind key n = Inr () \<Longrightarrow> validate_enqueue (u ''telegram.edit_message'') key n = Inr ()"
  by (auto simp: validate_enqueue_def py)

lemma first_card:
  assumes "publish_day cfg clk cs d False s = (s1, Inr ())" and "state_message_id s (schedule_card_key d) = None"
  obtains topic chat where "as_schedule_topic_id cfg = Some topic" "as_target_chat_id cfg = Some chat"
    "enqueue_message clk (u ''telegram.send_message'')
       (u ''schedule-card:'' @ iso_date d @ [58] @ text_digest (day_card_text cs d))
       (day_card_payload cfg d (day_card_text cs d) topic None) chat s = (s1, Inr ())"
  using assms
  by (cases "as_schedule_topic_id cfg"; cases "as_target_chat_id cfg")
    (auto simp: publish_day_def with_required_def raise_error_def send_or_edit_def Let_def simp del: u_Cons)

text \<open>
  C34: a published card whose text comes back cannot be shown again. Once the evening card has been
  delivered, a later publication of the same text for the same day (a change that was taken back)
  is an edit under the idempotency key of the first message: it raises a conflict and changes
  nothing, so the message in the chat stays at whatever was shown in between.
\<close>

theorem returning_card_conflicts:
  assumes "publish_day cfg clk cs d False s = (s1, Inr ())" and "state_message_id s (schedule_card_key d) = None"
    and "map row_identity (take (length (st_outbox s1)) (st_outbox s2)) = map row_identity (st_outbox s1)"
    and "state_message_id s2 (schedule_card_key d) = Some i"
    and "day_card_text cs' d = day_card_text cs d" and "\<forall>key k. aware (clk' key k)"
  shows "publish_day cfg clk' cs' d only_if_existing s2 = (s2, Inl (Job_queue_error IdempotencyConflictError))"
proof -
  let ?key = "u ''schedule-card:'' @ iso_date d @ [58] @ text_digest (day_card_text cs d)"
  obtain topic chat where c: "as_schedule_topic_id cfg = Some topic" "as_target_chat_id cfg = Some chat"
    and e: "enqueue_message clk (u ''telegram.send_message'') ?key
       (day_card_payload cfg d (day_card_text cs d) topic None) chat s = (s1, Inr ())"
    by (rule first_card [OF assms(1,2)])
  obtain r where r: "List.find (\<lambda>r. o_key r = ?key) (st_outbox s1) = Some r"
    "row_identity r = (?key, u ''telegram.send_message'', JObj (day_card_payload cfg d (day_card_text cs d) topic None))"
    using enqueue_message_ok(2) [OF e] by blast
  obtain r' where r': "List.find (\<lambda>r. o_key r = ?key) (take (length (st_outbox s1)) (st_outbox s2)) = Some r'"
    "row_identity r' = row_identity r"
    using find_by_identity [OF assms(3) [symmetric] r(1)] by blast
  have "List.find (\<lambda>r. o_key r = ?key) (st_outbox s2) = Some r'"
    using r'(1) find_append_Some [of _ "take (length (st_outbox s1)) (st_outbox s2)" r'] append_take_drop_id by metis
  moreover have "u ''telegram.send_message'' \<noteq> u ''telegram.edit_message''" by simp
  ultimately have "enqueue_outbox (clk' ?key) (u ''telegram.edit_message'') ?key
      (JObj (day_card_payload cfg d (day_card_text cs d) topic (Some i))) (Some chat) None None 8 (st_outbox s2)
    = Inl IdempotencyConflictError"
    using enqueue_conflict [of ?key "st_outbox s2" r'] r'(2) r(2) validate_other_kind [OF enqueue_message_ok(1) [OF e]] assms(6)
    by metis
  then show ?thesis
    using assms(4,5) c
    by (simp add: publish_day_def with_required_def send_or_edit_def enqueue_message_def Let_def del: u_Cons)
qed

section \<open>What is written reads back\<close>

lemma confirm_session_settings:
  assumes "confirm_session cfg t attendance m i db = Inr db'"
  shows "ad_schedule db' = ad_schedule db"
proof (cases attendance)
  case (Some a)
  obtain lesson starts where a: "a = (lesson, starts)" by (cases a)
  let ?r = "\<lambda>chat. open_session t lesson chat i starts (as_window_minutes cfg) (as_reaction cfg)
      ((ad_attendance db)\<lparr>a_lessons := map lr_id (db_lessons (ad_schedule db))\<rparr>)"
  obtain chat where "(case ?r chat of Inl e \<Rightarrow> Inl (Sender_attendance e) | Inr (att, _) \<Rightarrow> Inr (db\<lparr>ad_attendance := att\<rparr>)) = Inr db'"
    using assms Some a by (auto simp: confirm_session_def and_then_Inr_iff)
  then show ?thesis by (cases "?r chat") auto
qed (use assms in \<open>simp add: confirm_session_def\<close>)

lemma confirm_changes_settings:
  "confirm_changes t payload db = Inr db' \<Longrightarrow> db_settings (ad_schedule db') = db_settings (ad_schedule db)"
  by (auto simp: confirm_changes_def notify_changes_def py)

lemma confirm_copy_settings:
  "confirm_copy t copy m ids i db = Inr db' \<Longrightarrow> ad_schedule db' = ad_schedule db"
  by (auto simp: confirm_copy_def py split: option.splits)

lemma confirmed_state_key:
  assumes "confirm_delivery cfg clk attendance copy m ids db = Inr db'" and "state_key (oc_payload m) = Inr (Some k)"
  shows "\<exists>rest. setting_value (db_settings (ad_schedule db')) k = Some (JObj ((u ''message_id'', JInt (hd ids)) # rest))"
proof -
  obtain db1 db2 db3 where "confirm_state_key clk (oc_payload m) (hd ids) db1 = Inr db2"
    "confirm_changes (instant_of (clk 2)) (oc_payload m) db2 = Inr db3"
    "confirm_copy (instant_of (clk 3)) copy m ids (hd ids) db3 = Inr db'"
    using assms(1) by (auto simp: confirm_delivery_def Let_def py)
  then show ?thesis
    using assms(2) confirm_changes_settings confirm_copy_settings
    by (fastforce simp: confirm_state_key_def put_setting_def)
qed

text \<open>
  when a delivery reaches Telegram and is confirmed, the message is remembered under the
  envelope's state key: the jobs then find its identifier, so that a later version of the card
  edits this message.
\<close>

theorem delivered_message_found_again:
  assumes "application_send cfg gateway vk api clk m db = (db', calls, Inr i)" and "calls \<noteq> []"
    and "state_key (oc_payload m) = Inr (Some k)"
  shows "state_message_id (s\<lparr>st_app := db'\<rparr>) k = Some i"
proof -
  obtain attendance copy ids where "confirm_delivery cfg clk attendance copy m ids db = Inr db'" "i = hd ids"
    using assms(1,2)
    by (auto simp: application_send_def send_and_confirm_def Let_def
        split: sum.splits option.splits prod.splits if_splits)
  from confirmed_state_key [OF this(1) assms(3)] this(2) show ?thesis
    by (auto simp: state_message_id_def setting_of_def jget_Cons as_int_def)
qed

text \<open>
  the lesson and the start time an attendance card carries in its envelope are what the sender
  reads from it before it opens the session.
\<close>

theorem attendance_card_metadata:
  assumes "st_outbox s = []" and "attendance_open cfg z clk now (JObj [(u ''lesson_id'', JInt lesson)]) s = (s', Inr ())"
    and "st_outbox s' = [row]" and "lesson_row_at s lesson = Some r"
    and "is_date (dt_date (row_starts_at z r))" and "\<bar>lz_wall z (wall (row_starts_at z r))\<bar> < day_us"
  shows "attendance_metadata (o_payload row) = Inr (Some (lesson, row_starts_at z r))"
proof -
  have id: "lr_id r = lesson" using assms(4) row_at_Some by (fastforce simp: lesson_row_at_def)
  have off: "utcoff (row_starts_at z r) = Some (lz_wall z (wall (row_starts_at z r)))"
    by (simp add: row_starts_at_def combine_local_def Let_def)
  then have read_back: "from_iso (iso_datetime (row_starts_at z r)) = Some (row_starts_at z r)"
    using assms(5,6) by (intro from_iso_datetime) (auto simp: abs_less_iff)
  have "aware (row_starts_at z r)" using off by (simp add: aware_def)
  moreover obtain body topic key where "o_payload row = JObj [(u ''text'', body), (u ''message_thread_id'', topic),
       (u ''_attendance'', JObj [(u ''lesson_id'', JInt lesson), (u ''starts_at'', JStr (iso_datetime (row_starts_at z r)))]),
       (u ''_state_key'', key)]"
    using assms(1-4) id
    by (auto simp: attendance_open_def payload_int_def jget_Cons as_int_def nothing_to_do_def with_required_def
        raise_error_def enqueue_message_def enqueue_outbox_def fresh_outbox_def py Let_def simp del: u_Cons
        split: if_splits option.splits sum.splits prod.splits)
  ultimately show ?thesis
    using read_back by (simp add: attendance_metadata_def payload_field_def jget_Cons as_int_def)
qed

section \<open>Too many changes\<close>

lemma changes_key_long: "255 < length (changes_key ids)" if "120 \<le> length ids"
proof -
  have one: "1 \<le> length (show_int n)" for n using show_nat_nonempty by (simp add: show_int_def Suc_le_eq)
  have "2 * length xs \<le> length (join [58] (map show_int xs)) + 1" for xs
  proof (induction xs)
    case (Cons x xs)
    then show ?case using one [of x] by (cases xs) auto
  qed simp
  from this [of "sort ids"] that show ?thesis by (simp add: changes_key_def)
qed

text \<open>
  the message about a hundred and twenty or more changes is never queued: its idempotency key,
  which lists every change, exceeds the 255 characters of a key (with longer identifiers fewer
  changes are enough), so the job raises and leaves the outbox as it was. The changes are stored by
  then, and the retry of the job finds none.
\<close>

theorem long_change_list_not_queued:
  assumes "120 \<le> length (ac_change_ids a)" and "ac_changes a \<noteq> []"
    and "render_schedule_changes (ac_changes a) [1074, 32, 1088, 1072, 1089, 1087, 1080, 1089, 1072, 1085, 1080, 1080] = Some body" and "body \<noteq> []"
    and "as_target_chat_id cfg = Some chat" and "as_schedule_topic_id cfg = Some topic"
  shows "publish_changes cfg clk a s = (s, Inl (Job_queue_error BadIdempotencyKey))"
proof -
  have "validate_enqueue (u ''telegram.send_message'') (changes_key (ac_change_ids a)) 8 = Inl BadIdempotencyKey"
    using changes_key_long [OF assms(1)] by (simp add: validate_enqueue_def guard_def del: u_Cons) simp
  then show ?thesis
    using assms(3-6) by (simp add: publish_changes_def with_required_def enqueue_message_def enqueue_outbox_def del: u_Cons)
qed

section \<open>Concrete runs\<close>

definition demo_state :: app_state where
  "demo_state = \<lparr>st_app = demo_app, st_outbox = [], st_jobs = []\<rparr>"

definition demo_confirmed :: confirmed_schedule where
  "demo_confirmed = \<lparr>cs_snapshot_id = 1,
     cs_snapshot = \<lparr>sn_source = spbgasu, sn_group_key = u ''A'', sn_fetched_at = utc_at 0, sn_lessons = []\<rparr>,
     cs_week_start = 738886, cs_parity = None,
     cs_freshness = freshness_of (utc_at 0) (Some (utc_at 0)) 0 None False\<rparr>"

definition demo_clocks :: clocks where
  "demo_clocks = (\<lambda>_ _. utc_at 0)"

definition card_shown :: "app_state \<Rightarrow> app_state" where
  "card_shown s = s\<lparr>st_app := put_setting (schedule_card_key 738887) (JObj [(u ''message_id'', JInt 5)]) 0 (st_app s)\<rparr>"

lemma demo_first_card:
  "\<exists>s1. publish_day demo_settings demo_clocks demo_confirmed 738887 False demo_state = (s1, Inr ())
     \<and> ad_schedule (st_app s1) = no_schedules"
proof -
  have "length (iso_date 738887) = 10" by (intro iso_date_text) (simp add: is_date_def max_date_def)
  then have "validate_enqueue (u ''telegram.send_message'')
      (u ''schedule-card:'' @ iso_date 738887 @ [58] @ text_digest body) 8 = Inr ()" for body
    by (simp add: validate_enqueue_def guard_def text_digest_def MAX_ATTEMPTS_def)
  then show ?thesis
    by (simp add: publish_day_def state_message_id_def setting_of_def setting_value_def demo_state_def demo_app_def
        no_schedules_def with_required_def demo_settings_def send_or_edit_def enqueue_message_def enqueue_outbox_def
        demo_clocks_def aware_time_def column_time_def Let_def del: u_Cons)
qed

lemma returning_card_conflicts_witness:
  "\<exists>s1. publish_day demo_settings demo_clocks demo_confirmed 738887 False demo_state = (s1, Inr ())
     \<and> publish_day demo_settings demo_clocks demo_confirmed 738887 True (card_shown s1)
         = (card_shown s1, Inl (Job_queue_error IdempotencyConflictError))"
proof -
  obtain s1 where s: "publish_day demo_settings demo_clocks demo_confirmed 738887 False demo_state = (s1, Inr ())"
    "ad_schedule (st_app s1) = no_schedules"
    using demo_first_card by blast
  have none: "state_message_id demo_state (schedule_card_key 738887) = None"
    by (simp add: state_message_id_def setting_of_def setting_value_def demo_state_def demo_app_def no_schedules_def)
  have shown: "state_message_id (card_shown s1) (schedule_card_key 738887) = Some 5"
    by (simp add: state_message_id_def setting_of_def card_shown_def put_setting_def jget_Cons as_int_def)
  show ?thesis
    using returning_card_conflicts [OF s(1) none _ shown refl, of demo_clocks True] s(1)
    by (simp add: card_shown_def demo_clocks_def)
qed

definition many_changes :: access where
  "many_changes = \<lparr>ac_schedule = None, ac_refresh_attempted = True, ac_bootstrap_available = True,
     ac_changes = [\<lparr>ch_kind = Cancelled, ch_before = Some demo_lesson, ch_after = None\<rparr>], ac_change_ids = replicate 120 1\<rparr>"

lemma long_change_list_not_queued_witness:
  "publish_changes demo_settings demo_clocks many_changes demo_state = (demo_state, Inl (Job_queue_error BadIdempotencyKey))"
proof -
  have "\<exists>body. render_schedule_changes (ac_changes many_changes) [1074, 32, 1088, 1072, 1089, 1087, 1080, 1089, 1072, 1085, 1080, 1080] = Some body \<and> body \<noteq> []"
    by (simp add: many_changes_def render_schedule_changes_def render_change_def List.map_filter_simps Let_def)
  then obtain body where "render_schedule_changes (ac_changes many_changes) [1074, 32, 1088, 1072, 1089, 1087, 1080, 1089, 1072, 1085, 1080, 1080] = Some body" "body \<noteq> []"
    by blast
  then show ?thesis
    by (intro long_change_list_not_queued) (simp_all add: demo_settings_def many_changes_def)
qed

lemma schedule_jobs_stay_on_surface_witness:
  "\<exists>s1. publish_day demo_settings demo_clocks demo_confirmed 738887 False demo_state = (s1, Inr ())
     \<and> list_all (on_surface demo_settings) (st_outbox (fst (schedule_evening demo_settings \<lparr>lz_at = \<lambda>_. 0, lz_wall = \<lambda>_. 0\<rparr>
       \<lparr>co_group_key = u ''A'', co_service = demo_service, co_zone = \<lambda>_. 0\<rparr> (Inl Gasu_unavailable) (\<lambda>_. Inl Gasu_unavailable)
       (utc_at 0) (\<lambda>_. utc_at 0) demo_clocks s1)))"
proof -
  let ?z = "\<lparr>lz_at = \<lambda>_. 0, lz_wall = \<lambda>_. 0\<rparr> :: local_zone"
  let ?c = "\<lparr>co_group_key = u ''A'', co_service = demo_service, co_zone = \<lambda>_. 0\<rparr> :: coordinator"
  let ?f = "schedule_evening demo_settings ?z ?c (Inl Gasu_unavailable) (\<lambda>_. Inl Gasu_unavailable) (utc_at 0) (\<lambda>_. utc_at 0) demo_clocks"
  obtain s1 where s: "publish_day demo_settings demo_clocks demo_confirmed 738887 False demo_state = (s1, Inr ())"
    using demo_first_card by blast
  have only: "as_schedule_only demo_settings" by (simp add: demo_settings_def)
  have "keeps (on_surface demo_settings) (publish_day demo_settings demo_clocks demo_confirmed 738887 False)"
    by (intro publish_day_on_surface only) (simp add: is_date_def max_date_def)
  then have rows: "\<forall>r \<in> set (st_outbox s1). on_surface demo_settings r"
    using s by (simp add: keeps_def demo_state_def) (metis app_state.select_convs(2) empty_iff empty_set fst_conv)
  have "\<forall>r \<in> set (st_outbox (fst (?f s1))). on_surface demo_settings r"
    using rows only
    by (intro schedule_jobs_stay_on_surface [of ?f demo_settings ?z ?c "\<lambda>_. Inl Gasu_unavailable" "\<lambda>_ _. Inl Gasu_unavailable"
          "\<lambda>_. utc_at 0" "\<lambda>_ _. utc_at 0" demo_clocks "Inl Gasu_unavailable" "\<lambda>_. Inl Gasu_unavailable" "\<lambda>_. utc_at 0"])
      (simp_all add: is_date_def max_date_def in_zone_def dt_date_def epoch_ordinal_def
        utc_at_def instant_of_def durations)
  then show ?thesis using s by (auto simp: list_all_iff)
qed

lemma delivered_message_found_again_witness:
  "\<exists>db' c. application_send demo_settings None (\<lambda>_. True) (\<lambda>_. Api_message 9) (\<lambda>_. utc_at 0) demo_card demo_app
       = (db', [c], Inr 9)
     \<and> state_message_id (demo_state\<lparr>st_app := db'\<rparr>) (u ''telegram.schedule_card.2026-01-01'') = Some 9"
proof -
  have "\<exists>db' c. application_send demo_settings None (\<lambda>_. True) (\<lambda>_. Api_message 9) (\<lambda>_. utc_at 0) demo_card demo_app
      = (db', [c], Inr 9)"
    by (simp add: send_defs destination_ids_of_def confirm_delivery_def confirm_session_def confirm_state_key_def
        confirm_changes_def confirm_copy_def)
  then obtain db' c where s: "application_send demo_settings None (\<lambda>_. True) (\<lambda>_. Api_message 9) (\<lambda>_. utc_at 0) demo_card demo_app
      = (db', [c], Inr 9)" by blast
  have "state_key (oc_payload demo_card) = Inr (Some (u ''telegram.schedule_card.2026-01-01''))"
    by (simp add: send_defs)
  from delivered_message_found_again [OF s _ this] s show ?thesis by blast
qed

definition demo_row :: lesson_row where
  "demo_row = \<lparr>lr_id = 4, lr_snapshot_id = 1, lr_key = [], lr_lesson = demo_lesson\<rparr>"

definition lesson_state :: app_state where
  "lesson_state = demo_state\<lparr>st_app := demo_app\<lparr>ad_schedule := no_schedules\<lparr>db_lessons := [demo_row]\<rparr>\<rparr>\<rparr>"

lemma attendance_card_metadata_witness:
  "\<exists>s' row. attendance_open demo_settings \<lparr>lz_at = \<lambda>_. 0, lz_wall = \<lambda>_. 0\<rparr> demo_clocks (utc_at 0)
       (JObj [(u ''lesson_id'', JInt 4)]) lesson_state = (s', Inr ())
     \<and> st_outbox s' = [row]
     \<and> attendance_metadata (o_payload row) = Inr (Some (4, row_starts_at \<lparr>lz_at = \<lambda>_. 0, lz_wall = \<lambda>_. 0\<rparr> demo_row))"
proof -
  let ?z = "\<lparr>lz_at = \<lambda>_. 0, lz_wall = \<lambda>_. 0\<rparr> :: local_zone"
  have row: "lesson_row_at lesson_state 4 = Some demo_row"
    by (simp add: lesson_row_at_def row_at_def lesson_state_def demo_row_def no_schedules_def demo_app_def)
  have start: "row_starts_at ?z demo_row = \<lparr>wall = (739000 - epoch_ordinal) * day_us + 9 * hour, utcoff = Some 0\<rparr>"
    by (simp add: row_starts_at_def combine_local_def demo_row_def demo_lesson_def)
  have row_id: "lr_id demo_row = 4" by (simp add: demo_row_def)
  have outbox: "st_outbox lesson_state = []" by (simp add: lesson_state_def demo_state_def)
  have four: "show_int 4 = [52]" by (simp add: show_int_def show_nat.simps)
  have "\<exists>s' row. attendance_open demo_settings ?z demo_clocks (utc_at 0) (JObj [(u ''lesson_id'', JInt 4)]) lesson_state
      = (s', Inr ()) \<and> st_outbox s' = [row]"
    by (simp add: attendance_open_def payload_int_def jget_Cons as_int_def row start row_id in_zone_def utc_at_def instant_of_def epoch_ordinal_def durations with_required_def demo_settings_def
        enqueue_message_def enqueue_outbox_def validate_enqueue_def guard_def MAX_ATTEMPTS_def demo_clocks_def aware_time_def
        column_time_def aware_def outbox four Let_def del: u_Cons)
      simp
  then obtain s' r where s: "attendance_open demo_settings ?z demo_clocks (utc_at 0) (JObj [(u ''lesson_id'', JInt 4)]) lesson_state
      = (s', Inr ())" "st_outbox s' = [r]" by blast
  have "is_date (dt_date (row_starts_at ?z demo_row))"
    by (simp add: start is_date_def max_date_def dt_date_def epoch_ordinal_def durations)
  moreover have "\<bar>lz_wall ?z (wall (row_starts_at ?z demo_row))\<bar> < day_us" by (simp add: durations)
  ultimately have "attendance_metadata (o_payload r) = Inr (Some (4, row_starts_at ?z demo_row))"
    using attendance_card_metadata [OF outbox s row] by blast
  then show ?thesis using s by blast
qed

end
