(* ===== verification/LiveArchive.thy ===== *)
theory LiveArchive
  imports Roster Json Calendar
begin

text \<open>
  \<open>archive/live.py\<close> and \<open>archive/indexing.py\<close>: one Telegram message of the configured chat with
  its sender, topic, album, files and search document, written or refreshed in one transaction.
  The tables are lists of rows; \<open>utc_now()\<close> is an argument.
\<close>

section \<open>Tables\<close>

record topic_row =
  tp_id :: int
  tp_chat_id :: int
  tp_thread_id :: int
  tp_name :: pystr
  tp_kind :: "pystr option"
  tp_is_closed :: bool
  tp_created_at :: instant
  tp_updated_at :: instant

record group_row =
  mg_id :: int
  mg_chat_id :: int
  mg_telegram_id :: pystr
  mg_first_message_at :: instant
  mg_finalized_at :: "instant option"

record message_row =
  ms_id :: int
  ms_chat_id :: int
  ms_message_id :: int
  ms_topic_id :: "int option"
  ms_sender_user_id :: "int option"
  ms_media_group_id :: "int option"
  ms_reply_to :: "int option"
  ms_source :: pystr
  ms_type :: pystr
  ms_sender_name :: "pystr option"
  ms_forward :: "json option"
  ms_text :: "pystr option"
  ms_caption :: "pystr option"
  ms_entities :: "json option"
  ms_sent_at :: instant
  ms_edited_at :: "instant option"
  ms_deleted_at :: "instant option"
  ms_ingested_at :: instant

record file_row =
  fl_id :: int
  fl_message_id :: int
  fl_file_id :: pystr
  fl_unique_id :: pystr
  fl_kind :: pystr
  fl_mime_type :: "pystr option"
  fl_file_name :: "pystr option"
  fl_size_bytes :: "int option"
  fl_sha256 :: "pystr option"
  fl_storage_path :: "pystr option"
  fl_extracted_text :: "pystr option"
  fl_extraction_status :: "pystr option"
  fl_extraction_error :: "pystr option"
  fl_extraction_version :: "pystr option"
  fl_extracted_at :: "instant option"
  fl_created_at :: instant

record document_row =
  sd_id :: int
  sd_source_type :: pystr
  sd_source_id :: int
  sd_content :: pystr
  sd_metadata :: "(pystr \<times> json) list"
  sd_updated_at :: instant

record archive_db =
  ar_users :: "user list"
  ar_topics :: "topic_row list"
  ar_groups :: "group_row list"
  ar_messages :: "message_row list"
  ar_files :: "file_row list"
  ar_documents :: "document_row list"

section \<open>Incoming messages\<close>

record tg_file =
  tf_file_id :: pystr
  tf_unique_id :: pystr
  tf_mime_type :: "pystr option"
  tf_file_name :: "pystr option"
  tf_size :: "int option"

record tg_photo =
  ph_file_id :: pystr
  ph_unique_id :: pystr
  ph_width :: int
  ph_height :: int
  ph_size :: "int option"

text \<open>The origin of a forward; users and hidden users carry nothing the archive keeps.\<close>

datatype origin_kind =
    From_channel int "pystr option"
  | From_chat "pystr option"
  | From_user
  | From_hidden_user

record tg_origin =
  og_type :: pystr
  og_date :: tg_date
  og_kind :: origin_kind

record tg_message =
  im_chat_id :: int
  im_chat_username :: "pystr option"
  im_message_id :: int
  im_date :: tg_date
  im_edit_date :: "tg_date option"
  im_from :: "tg_user option"
  im_sender_chat :: "(pystr option \<times> pystr option) option"
  im_thread_id :: "int option"
  im_general_topic_event :: bool
  im_topic_created :: "pystr option"
  im_topic_edited :: "pystr option option"
  im_topic_closed :: bool
  im_topic_reopened :: bool
  im_media_group_id :: "pystr option"
  im_reply_to :: "int option"
  im_origin :: "tg_origin option"
  im_automatic_forward :: bool
  im_text :: "pystr option"
  im_caption :: "pystr option"
  im_entities :: "json list"
  im_caption_entities :: "json list"
  im_document :: "tg_file option"
  im_photo :: "tg_photo list option"
  im_video :: "tg_file option"
  im_audio :: "tg_file option"
  im_voice :: "tg_file option"
  im_video_note :: "tg_file option"
  im_animation :: "tg_file option"
  im_sticker :: "tg_file option"
  im_poll :: bool
  im_contact :: bool
  im_venue :: bool
  im_location :: bool

definition given :: "pystr option \<Rightarrow> pystr option" where
  "given v = (case v of None \<Rightarrow> None | Some s \<Rightarrow> if s = [] then None else Some s)"

text \<open>\<open>message.edit_date or message.date\<close>: an edit date of zero counts as none.\<close>

definition observed_at :: "tg_message \<Rightarrow> instant" where
  "observed_at m =
     (case im_edit_date m of
        None \<Rightarrow> seen_instant (im_date m)
      | Some d \<Rightarrow> seen_instant (if d = Unix_seconds 0 then im_date m else d))"

section \<open>Sender, topic and album\<close>

definition refresh_sender :: "tg_user \<Rightarrow> instant \<Rightarrow> user \<Rightarrow> user" where
  "refresh_sender t seen x =
     x\<lparr>us_first_seen := min (us_first_seen x) seen, us_last_seen := max (us_last_seen x) seen,
       us_username := tu_username t, us_display_name := Some (full_name t),
       us_language_code := tu_language_code t, us_is_bot := tu_is_bot t\<rparr>"

definition upsert_sender :: "tg_message \<Rightarrow> archive_db \<Rightarrow> archive_db \<times> int option" where
  "upsert_sender m db =
     (case im_from m of
        None \<Rightarrow> (db, None)
      | Some t \<Rightarrow>
          let seen = observed_at m in
          case List.find (\<lambda>x. us_telegram_id x = tu_id t) (ar_users db) of
            None \<Rightarrow>
              let x = new_user (ar_users db) t seen in (db\<lparr>ar_users := ar_users db @ [x]\<rparr>, Some (us_id x))
          | Some x \<Rightarrow>
              (db\<lparr>ar_users := upd_where (\<lambda>y. us_telegram_id y = tu_id t) (refresh_sender t seen) (ar_users db)\<rparr>,
               Some (us_id x)))"

definition topic_thread :: "tg_message \<Rightarrow> int option" where
  "topic_thread m =
     (case im_thread_id m of Some i \<Rightarrow> Some i | None \<Rightarrow> if im_general_topic_event m then Some 1 else None)"

definition topic_event_name :: "tg_message \<Rightarrow> pystr option" where
  "topic_event_name m =
     (case im_topic_created m of
        Some n \<Rightarrow> Some n
      | None \<Rightarrow> (case im_topic_edited m of Some n \<Rightarrow> n | None \<Rightarrow> None))"

definition fresh_topic :: "instant \<Rightarrow> tg_message \<Rightarrow> int \<Rightarrow> topic_row list \<Rightarrow> topic_row" where
  "fresh_topic now m thread rows =
     \<lparr>tp_id = next_id tp_id rows, tp_chat_id = im_chat_id m, tp_thread_id = thread,
      tp_name = (case given (topic_event_name m) of Some n \<Rightarrow> n
        | None \<Rightarrow> if thread = 1 then u ''General'' else u ''Topic '' @ show_int thread),
      tp_kind = Some (u ''forum''), tp_is_closed = im_topic_closed m,
      tp_created_at = seen_instant (im_date m), tp_updated_at = now\<rparr>"

definition refresh_topic :: "instant \<Rightarrow> tg_message \<Rightarrow> topic_row \<Rightarrow> topic_row" where
  "refresh_topic now m r =
     (let name = given (topic_event_name m);
          closed = (if im_topic_closed m then True else if im_topic_reopened m then False else tp_is_closed r);
          changed = (name \<noteq> None \<or> im_topic_closed m \<or> im_topic_reopened m)
      in r\<lparr>tp_name := (case name of Some n \<Rightarrow> n | None \<Rightarrow> tp_name r), tp_is_closed := closed,
           tp_created_at := min (tp_created_at r) (seen_instant (im_date m)),
           tp_updated_at := (if changed then now else tp_updated_at r)\<rparr>)"

definition upsert_topic :: "instant \<Rightarrow> tg_message \<Rightarrow> archive_db \<Rightarrow> archive_db \<times> int option" where
  "upsert_topic now m db =
     (case topic_thread m of
        None \<Rightarrow> (db, None)
      | Some thread \<Rightarrow>
          let mine = (\<lambda>r. tp_chat_id r = im_chat_id m \<and> tp_thread_id r = thread) in
          case List.find mine (ar_topics db) of
            None \<Rightarrow>
              let r = fresh_topic now m thread (ar_topics db) in (db\<lparr>ar_topics := ar_topics db @ [r]\<rparr>, Some (tp_id r))
          | Some r \<Rightarrow> (db\<lparr>ar_topics := upd_where mine (refresh_topic now m) (ar_topics db)\<rparr>, Some (tp_id r)))"

definition upsert_media_group :: "tg_message \<Rightarrow> archive_db \<Rightarrow> archive_db \<times> int option" where
  "upsert_media_group m db =
     (case im_media_group_id m of
        None \<Rightarrow> (db, None)
      | Some gid \<Rightarrow>
          let mine = (\<lambda>r. mg_chat_id r = im_chat_id m \<and> mg_telegram_id r = gid); sent = seen_instant (im_date m) in
          case List.find mine (ar_groups db) of
            None \<Rightarrow>
              let r = \<lparr>mg_id = next_id mg_id (ar_groups db), mg_chat_id = im_chat_id m, mg_telegram_id = gid,
                       mg_first_message_at = sent, mg_finalized_at = None\<rparr>
              in (db\<lparr>ar_groups := ar_groups db @ [r]\<rparr>, Some (mg_id r))
          | Some r \<Rightarrow>
              (db\<lparr>ar_groups := upd_where mine (\<lambda>r. r\<lparr>mg_first_message_at := min (mg_first_message_at r) sent\<rparr>) (ar_groups db)\<rparr>,
               Some (mg_id r)))"

section \<open>The message row\<close>

definition message_type :: "tg_message \<Rightarrow> pystr" where
  "message_type m =
     (case filter fst
        [(im_topic_created m \<noteq> None, ''topic_created''), (im_topic_edited m \<noteq> None, ''topic_edited''),
         (im_topic_closed m, ''topic_closed''), (im_topic_reopened m, ''topic_reopened''),
         (im_document m \<noteq> None, ''document''), (im_photo m \<noteq> None, ''photo''), (im_video m \<noteq> None, ''video''),
         (im_audio m \<noteq> None, ''audio''), (im_voice m \<noteq> None, ''voice''), (im_video_note m \<noteq> None, ''video_note''),
         (im_animation m \<noteq> None, ''animation''), (im_sticker m \<noteq> None, ''sticker''), (im_poll m, ''poll''),
         (im_contact m, ''contact''), (im_venue m, ''venue''), (im_location m, ''location''), (im_text m \<noteq> None, ''text'')]
      of [] \<Rightarrow> u ''unknown'' | (_, kind) # _ \<Rightarrow> u kind)"

definition forward_metadata :: "tg_message \<Rightarrow> json option" where
  "forward_metadata m =
     (case im_origin m of
        None \<Rightarrow> None
      | Some og \<Rightarrow>
          let public = (\<lambda>name. case given name of None \<Rightarrow> [] | Some n \<Rightarrow> [(u ''public_username'', JStr n)])
          in Some (JObj (
            [(u ''origin_type'', JStr (og_type og)),
             (u ''forwarded_at'', JStr (iso_datetime (utc_at (seen_instant (og_date og)))))]
            @ (case og_kind og of
                 From_channel i name \<Rightarrow> (u ''origin_message_id'', JInt i) # public name
               | From_chat name \<Rightarrow> public name
               | _ \<Rightarrow> [])
            @ (if im_automatic_forward m then [(u ''automatic'', JBool True)] else []))))"

definition sender_display_name :: "tg_message \<Rightarrow> pystr option" where
  "sender_display_name m =
     (case im_from m of
        Some t \<Rightarrow> Some (full_name t)
      | None \<Rightarrow>
          (case im_sender_chat m of
             None \<Rightarrow> None
           | Some (title, username) \<Rightarrow> (case given title of Some n \<Rightarrow> Some n | None \<Rightarrow> username)))"

text \<open>A stored edit yields only to a version that is edited at least as late.\<close>

definition has_newer_snapshot :: "instant option \<Rightarrow> tg_message \<Rightarrow> bool" where
  "has_newer_snapshot edited_at m =
     (case edited_at of
        None \<Rightarrow> True
      | Some e \<Rightarrow> (case im_edit_date m of None \<Rightarrow> False | Some d \<Rightarrow> e \<le> seen_instant d))"

definition apply_snapshot ::
    "instant \<Rightarrow> tg_message \<Rightarrow> int option \<Rightarrow> int option \<Rightarrow> int option \<Rightarrow> message_row \<Rightarrow> message_row" where
  "apply_snapshot now m sender topic album r =
     (let entities = (if im_caption m \<noteq> None then im_caption_entities m else im_entities m) in
      r\<lparr>ms_topic_id := topic, ms_sender_user_id := sender, ms_media_group_id := album, ms_reply_to := im_reply_to m,
        ms_source := u ''bot_api'', ms_type := message_type m, ms_sender_name := sender_display_name m,
        ms_forward := forward_metadata m, ms_text := im_text m, ms_caption := im_caption m,
        ms_entities := (if entities = [] then None else Some (JArr entities)),
        ms_sent_at := seen_instant (im_date m), ms_edited_at := map_option seen_instant (im_edit_date m),
        ms_ingested_at := now\<rparr>)"

definition fresh_message :: "instant \<Rightarrow> tg_message \<Rightarrow> message_row list \<Rightarrow> message_row" where
  "fresh_message now m rows =
     \<lparr>ms_id = next_id ms_id rows, ms_chat_id = im_chat_id m, ms_message_id = im_message_id m,
      ms_topic_id = None, ms_sender_user_id = None, ms_media_group_id = None, ms_reply_to = None,
      ms_source = u ''bot_api'', ms_type = u ''unknown'', ms_sender_name = None, ms_forward = None,
      ms_text = None, ms_caption = None, ms_entities = None, ms_sent_at = seen_instant (im_date m),
      ms_edited_at = None, ms_deleted_at = None, ms_ingested_at = now\<rparr>"

section \<open>Files\<close>

record descriptor =
  ds_file_id :: pystr
  ds_unique_id :: pystr
  ds_kind :: pystr
  ds_mime_type :: "pystr option"
  ds_file_name :: "pystr option"
  ds_size :: "int option"

definition file_descriptor :: "string \<Rightarrow> tg_file \<Rightarrow> descriptor" where
  "file_descriptor kind f =
     \<lparr>ds_file_id = tf_file_id f, ds_unique_id = tf_unique_id f, ds_kind = u kind, ds_mime_type = tf_mime_type f,
      ds_file_name = tf_file_name f, ds_size = tf_size f\<rparr>"

text \<open>\<open>max\<close> keeps the first of the largest photo sizes.\<close>

definition photo_rank :: "tg_photo \<Rightarrow> int \<times> int" where
  "photo_rank p = (ph_width p * ph_height p, case ph_size p of None \<Rightarrow> 0 | Some s \<Rightarrow> s)"

definition largest_photo :: "tg_photo \<Rightarrow> tg_photo list \<Rightarrow> tg_photo" where
  "largest_photo = foldl (\<lambda>best p. if photo_rank best < photo_rank p then p else best)"

definition photo_descriptor :: "tg_photo \<Rightarrow> descriptor" where
  "photo_descriptor p =
     \<lparr>ds_file_id = ph_file_id p, ds_unique_id = ph_unique_id p, ds_kind = u ''photo'',
      ds_mime_type = Some (u ''image/jpeg''), ds_file_name = None, ds_size = ph_size p\<rparr>"

definition file_descriptors :: "tg_message \<Rightarrow> descriptor list" where
  "file_descriptors m =
     (let one = (\<lambda>kind v adjust. case v of None \<Rightarrow> [] | Some f \<Rightarrow> [adjust (file_descriptor kind f)]);
          unnamed = (\<lambda>d. d\<lparr>ds_file_name := None\<rparr>)
      in one ''document'' (im_document m) id
       @ (case im_photo m of Some (p # ps) \<Rightarrow> [photo_descriptor (largest_photo p ps)] | _ \<Rightarrow> [])
       @ one ''video'' (im_video m) id @ one ''audio'' (im_audio m) id @ one ''voice'' (im_voice m) unnamed
       @ one ''video_note'' (im_video_note m) (\<lambda>d. d\<lparr>ds_mime_type := Some (u ''video/mp4''), ds_file_name := None\<rparr>)
       @ one ''animation'' (im_animation m) id
       @ one ''sticker'' (im_sticker m) (\<lambda>d. d\<lparr>ds_mime_type := None, ds_file_name := None\<rparr>))"

definition fill_file :: "descriptor \<Rightarrow> file_row \<Rightarrow> file_row" where
  "fill_file d r = r\<lparr>fl_file_id := ds_file_id d, fl_kind := ds_kind d, fl_mime_type := ds_mime_type d,
     fl_file_name := ds_file_name d, fl_size_bytes := ds_size d\<rparr>"

definition upsert_file :: "instant \<Rightarrow> int \<Rightarrow> descriptor \<Rightarrow> file_row list \<Rightarrow> file_row list" where
  "upsert_file now message d rows =
     (let mine = (\<lambda>r. fl_message_id r = message \<and> fl_unique_id r = ds_unique_id d) in
      if list_ex mine rows then upd_where mine (fill_file d) rows
      else rows @ [fill_file d \<lparr>fl_id = next_id fl_id rows, fl_message_id = message, fl_file_id = ds_file_id d,
        fl_unique_id = ds_unique_id d, fl_kind = ds_kind d, fl_mime_type = None, fl_file_name = None, fl_size_bytes = None,
        fl_sha256 = None, fl_storage_path = None, fl_extracted_text = None, fl_extraction_status = None,
        fl_extraction_error = None, fl_extraction_version = None, fl_extracted_at = None, fl_created_at = now\<rparr>])"

definition upsert_files :: "instant \<Rightarrow> int \<Rightarrow> descriptor list \<Rightarrow> file_row list \<Rightarrow> file_row list" where
  "upsert_files now message ds rows = foldl (\<lambda>rows d. upsert_file now message d rows) rows ds"

section \<open>The search document\<close>

definition max_indexed_characters :: nat where
  "max_indexed_characters = 2000000"

text \<open>The parts that fit, stripped, with one line feed between them; the last one may be cut.\<close>

fun bounded_parts :: "nat \<Rightarrow> pystr list \<Rightarrow> nat \<Rightarrow> pystr list \<Rightarrow> pystr list" where
  "bounded_parts bound accepted used [] = accepted"
| "bounded_parts bound accepted used (part # parts) =
     (let cleaned = strip part; separator = (if accepted = [] then 0 else 1) in
      if cleaned = [] then bounded_parts bound accepted used parts
      else if bound \<le> used + separator then accepted
      else let piece = take (bound - used - separator) cleaned
           in bounded_parts bound (accepted @ [piece]) (used + separator + length piece) parts)"

definition bounded_content :: "nat \<Rightarrow> pystr list \<Rightarrow> pystr" where
  "bounded_content bound parts = join [10] (bounded_parts bound [] 0 parts)"

definition private_supergroup_link :: "int \<Rightarrow> int \<Rightarrow> pystr option" where
  "private_supergroup_link chat message =
     (if starts_with (u ''-100'') (show_int chat)
      then Some (u ''https://t.me/c/'' @ drop 4 (show_int chat) @ [47] @ show_int message) else None)"

definition message_link :: "tg_message \<Rightarrow> pystr option" where
  "message_link m =
     (case given (im_chat_username m) of
        Some name \<Rightarrow> Some (u ''https://t.me/'' @ name @ [47] @ show_int (im_message_id m))
      | None \<Rightarrow> private_supergroup_link (im_chat_id m) (im_message_id m))"

text \<open>The entries of a dictionary whose value is not \<open>None\<close>.\<close>

definition present :: "(string \<times> json option) list \<Rightarrow> (pystr \<times> json) list" where
  "present kvs = List.map_filter (\<lambda>(k, v). map_option (\<lambda>w. (u k, w)) v) kvs"

definition file_metadata :: "file_row \<Rightarrow> json" where
  "file_metadata f = JObj (present
     [(''id'', Some (JInt (fl_id f))), (''kind'', Some (JStr (fl_kind f))),
      (''file_name'', map_option JStr (fl_file_name f)), (''mime_type'', map_option JStr (fl_mime_type f)),
      (''size_bytes'', map_option JInt (fl_size_bytes f)), (''sha256'', map_option JStr (fl_sha256 f)),
      (''extraction_status'', map_option JStr (fl_extraction_status f)),
      (''extraction_error_code'', map_option JStr (fl_extraction_error f)),
      (''extraction_version'', map_option JStr (fl_extraction_version f))])"

definition files_of :: "int \<Rightarrow> file_row list \<Rightarrow> file_row list" where
  "files_of message rows = sort_key fl_id (filter (\<lambda>f. fl_message_id f = message) rows)"

definition or_empty :: "pystr option \<Rightarrow> pystr" where
  "or_empty v = (case v of None \<Rightarrow> [] | Some s \<Rightarrow> s)"

definition document_content :: "message_row \<Rightarrow> file_row list \<Rightarrow> pystr" where
  "document_content r files =
     (let content = bounded_content max_indexed_characters
            ([or_empty (ms_text r), or_empty (ms_caption r)] @ map (\<lambda>f. or_empty (fl_file_name f)) files
              @ map (\<lambda>f. or_empty (fl_extracted_text f)) files)
      in if content = [] then replace_cp 95 [32] (ms_type r) else content)"

definition resolved_link :: "pystr option \<Rightarrow> document_row option \<Rightarrow> message_row \<Rightarrow> pystr option" where
  "resolved_link link existing r =
     (case link of
        Some l \<Rightarrow> Some l
      | None \<Rightarrow>
          (case (case existing of None \<Rightarrow> JNull | Some d \<Rightarrow> jget (sd_metadata d) (u ''telegram_link'')) of
             JStr l \<Rightarrow> Some l
           | _ \<Rightarrow> private_supergroup_link (ms_chat_id r) (ms_message_id r)))"

text \<open>
  The two datetimes are those of the object in memory: the columns keep instants, but a row that
  is not read back shows the offset it was given.
\<close>

type_synonym moments = "pydt \<times> pydt option"

definition stored_moments :: "message_row \<Rightarrow> moments" where
  "stored_moments r = (utc_at (ms_sent_at r), map_option utc_at (ms_edited_at r))"

definition document_metadata ::
    "message_row \<Rightarrow> moments \<Rightarrow> topic_row option \<Rightarrow> file_row list \<Rightarrow> pystr option \<Rightarrow> (pystr \<times> json) list" where
  "document_metadata r dates topic files link =
     present
       [(''chat_id'', Some (JInt (ms_chat_id r))), (''message_id'', Some (JInt (ms_message_id r))),
        (''message_type'', Some (JStr (ms_type r))), (''sent_at'', Some (JStr (iso_datetime (fst dates)))),
        (''source'', Some (JStr (ms_source r))),
        (''topic_id'', map_option (\<lambda>t. JInt (tp_thread_id t)) topic), (''topic_name'', map_option (\<lambda>t. JStr (tp_name t)) topic),
        (''sender_display_name'', map_option JStr (given (ms_sender_name r))),
        (''edited_at'', map_option (\<lambda>e. JStr (iso_datetime e)) (snd dates)),
        (''telegram_link'', map_option JStr link),
        (''files'', if files = [] then None else Some (JArr (map file_metadata files)))]"

definition is_document_of :: "int \<Rightarrow> document_row \<Rightarrow> bool" where
  "is_document_of message d \<longleftrightarrow> sd_source_type d = u ''message'' \<and> sd_source_id d = message"

definition upsert_document :: "instant \<Rightarrow> message_row \<Rightarrow> moments \<Rightarrow> pystr option \<Rightarrow> archive_db \<Rightarrow> archive_db" where
  "upsert_document now r dates link db =
     (let files = files_of (ms_id r) (ar_files db);
          topic = (case ms_topic_id r of None \<Rightarrow> None | Some i \<Rightarrow> row_at tp_id i (ar_topics db));
          existing = List.find (is_document_of (ms_id r)) (ar_documents db);
          content = document_content r files;
          metadata = document_metadata r dates topic files (resolved_link link existing r)
      in case existing of
           None \<Rightarrow>
             db\<lparr>ar_documents := ar_documents db @ [\<lparr>sd_id = next_id sd_id (ar_documents db), sd_source_type = u ''message'',
                sd_source_id = ms_id r, sd_content = content, sd_metadata = metadata, sd_updated_at = now\<rparr>]\<rparr>
         | Some d \<Rightarrow>
             if sd_content d \<noteq> content \<or> sd_metadata d \<noteq> metadata
             then db\<lparr>ar_documents := upd_where (is_document_of (ms_id r))
                    (\<lambda>d. d\<lparr>sd_content := content, sd_metadata := metadata, sd_updated_at := now\<rparr>) (ar_documents db)\<rparr>
             else db)"

section \<open>Ingestion\<close>

datatype archive_disposition = Archive_created | Archive_updated | Archive_ignored_chat

record archive_result =
  av_disposition :: archive_disposition
  av_message_id :: int
  av_stored_id :: "int option"
  av_file_count :: nat

definition same_message :: "tg_message \<Rightarrow> message_row \<Rightarrow> bool" where
  "same_message m r \<longleftrightarrow> ms_chat_id r = im_chat_id m \<and> ms_message_id r = im_message_id m"

definition store_snapshot_of ::
    "instant \<Rightarrow> tg_message \<Rightarrow> message_row \<Rightarrow> int option \<Rightarrow> int option \<Rightarrow> int option \<Rightarrow> archive_db \<Rightarrow> archive_db" where
  "store_snapshot_of now m stored sender topic album db =
     (let r = apply_snapshot now m sender topic album stored;
          db1 = db\<lparr>ar_messages := upd_where (same_message m) (\<lambda>_. r) (ar_messages db)\<rparr>;
          db2 = db1\<lparr>ar_files := upsert_files now (ms_id r) (file_descriptors m) (ar_files db1)\<rparr>
      in upsert_document now r (stored_moments r) (message_link m) db2)"

definition ingest_message :: "int \<Rightarrow> instant \<Rightarrow> tg_message \<Rightarrow> archive_db \<Rightarrow> archive_db \<times> archive_result" where
  "ingest_message target now m db =
     (if im_chat_id m \<noteq> target
      then (db, \<lparr>av_disposition = Archive_ignored_chat, av_message_id = im_message_id m, av_stored_id = None, av_file_count = 0\<rparr>)
      else
        let (db1, sender) = upsert_sender m db;
            (db2, topic) = upsert_topic now m db1;
            (db3, album) = upsert_media_group m db2
        in case List.find (same_message m) (ar_messages db3) of
             None \<Rightarrow>
               let r = fresh_message now m (ar_messages db3);
                   db4 = db3\<lparr>ar_messages := ar_messages db3 @ [r]\<rparr>
               in (store_snapshot_of now m r sender topic album db4,
                   \<lparr>av_disposition = Archive_created, av_message_id = im_message_id m, av_stored_id = Some (ms_id r),
                    av_file_count = length (file_descriptors m)\<rparr>)
           | Some r \<Rightarrow>
               if has_newer_snapshot (ms_edited_at r) m
               then (store_snapshot_of now m r sender topic album db3,
                     \<lparr>av_disposition = Archive_updated, av_message_id = im_message_id m, av_stored_id = Some (ms_id r),
                      av_file_count = length (file_descriptors m)\<rparr>)
               else (db3, \<lparr>av_disposition = Archive_updated, av_message_id = im_message_id m, av_stored_id = Some (ms_id r),
                          av_file_count = 0\<rparr>))"

end
