(* ===== verification/LiveArchiveProperties.thy ===== *)
theory LiveArchiveProperties
  imports LiveArchive
begin

text \<open>
  What the archive keeps of a message: its newest version whatever order the versions arrive in,
  one row and one search document per message, the document equal to what the row and its files say.
\<close>

section \<open>What each step leaves alone\<close>

named_theorems archive

lemma upsert_sender_keeps [archive]:
  assumes "upsert_sender m db = (db', sender)"
  shows "ar_messages db' = ar_messages db" "ar_files db' = ar_files db" "ar_documents db' = ar_documents db"
  using assms by (auto simp: upsert_sender_def Let_def split: option.splits)

lemma upsert_topic_keeps [archive]:
  assumes "upsert_topic now m db = (db', topic)"
  shows "ar_messages db' = ar_messages db" "ar_files db' = ar_files db" "ar_documents db' = ar_documents db"
  using assms by (auto simp: upsert_topic_def Let_def split: option.splits)

lemma upsert_media_group_keeps [archive]:
  assumes "upsert_media_group m db = (db', album)"
  shows "ar_messages db' = ar_messages db" "ar_files db' = ar_files db" "ar_documents db' = ar_documents db"
  using assms by (auto simp: upsert_media_group_def Let_def split: option.splits)

lemma upsert_document_keeps [simp]:
  "ar_messages (upsert_document now r dates link db) = ar_messages db"
  "ar_files (upsert_document now r dates link db) = ar_files db"
  by (auto simp: upsert_document_def Let_def split: option.splits)

text \<open>A delivery either changes none of the three tables or stores the snapshot of its message.\<close>

lemma ingest_cases:
  obtains (ignored) "im_chat_id m \<noteq> target" "fst (ingest_message target now m db) = db"
  | (created) db0 sender topic album where "im_chat_id m = target"
      "ar_messages db0 = ar_messages db @ [fresh_message now m (ar_messages db)]"
      "ar_files db0 = ar_files db" "ar_documents db0 = ar_documents db"
      "List.find (same_message m) (ar_messages db) = None"
      "fst (ingest_message target now m db)
         = store_snapshot_of now m (fresh_message now m (ar_messages db)) sender topic album db0"
  | (refreshed) db0 r sender topic album where "im_chat_id m = target"
      "ar_messages db0 = ar_messages db" "ar_files db0 = ar_files db" "ar_documents db0 = ar_documents db"
      "List.find (same_message m) (ar_messages db) = Some r" "has_newer_snapshot (ms_edited_at r) m"
      "fst (ingest_message target now m db) = store_snapshot_of now m r sender topic album db0"
  | (stale) r where "im_chat_id m = target"
      "List.find (same_message m) (ar_messages db) = Some r" "\<not> has_newer_snapshot (ms_edited_at r) m"
      "ar_messages (fst (ingest_message target now m db)) = ar_messages db"
      "ar_files (fst (ingest_message target now m db)) = ar_files db"
      "ar_documents (fst (ingest_message target now m db)) = ar_documents db"
proof (cases "im_chat_id m = target")
  case False
  then show thesis using ignored by (simp add: ingest_message_def)
next
  case True
  obtain db1 sender where 1: "upsert_sender m db = (db1, sender)" by fastforce
  obtain db2 topic where 2: "upsert_topic now m db1 = (db2, topic)" by fastforce
  obtain db3 album where 3: "upsert_media_group m db2 = (db3, album)" by fastforce
  note kept = upsert_sender_keeps [OF 1] upsert_topic_keeps [OF 2] upsert_media_group_keeps [OF 3]
  show thesis
  proof (cases "List.find (same_message m) (ar_messages db)")
    case None
    show thesis
      by (rule created [where ?db0.0 = "db3\<lparr>ar_messages := ar_messages db3 @ [fresh_message now m (ar_messages db3)]\<rparr>"
            and sender = sender and topic = topic and album = album])
        (use True None kept in \<open>simp_all add: ingest_message_def 1 2 3 Let_def\<close>)
  next
    case (Some r)
    show thesis
    proof (cases "has_newer_snapshot (ms_edited_at r) m")
      case True
      show thesis
        by (rule refreshed [where ?db0.0 = db3 and r = r and sender = sender and topic = topic and album = album])
          (use \<open>im_chat_id m = target\<close> Some True kept in \<open>simp_all add: ingest_message_def 1 2 3 Let_def\<close>)
    next
      case False
      show thesis
        by (rule stale [of r])
          (use \<open>im_chat_id m = target\<close> Some False kept in \<open>simp_all add: ingest_message_def 1 2 3 Let_def\<close>)
    qed
  qed
qed

section \<open>The newest version\<close>

text \<open>What the archive keeps of a version, and the same facts read from a stored row.\<close>

type_synonym version = "pystr \<times> pystr option \<times> json option \<times> pystr option \<times> pystr option \<times> json option \<times>
  int option \<times> instant \<times> instant option"

definition version_of :: "tg_message \<Rightarrow> version" where
  "version_of m =
     (let entities = (if im_caption m \<noteq> None then im_caption_entities m else im_entities m) in
      (message_type m, sender_display_name m, forward_metadata m, im_text m, im_caption m,
       if entities = [] then None else Some (JArr entities), im_reply_to m, seen_instant (im_date m),
       map_option seen_instant (im_edit_date m)))"

definition stored_version :: "message_row \<Rightarrow> version" where
  "stored_version r = (ms_type r, ms_sender_name r, ms_forward r, ms_text r, ms_caption r, ms_entities r, ms_reply_to r,
     ms_sent_at r, ms_edited_at r)"

lemma stored_version_apply [simp]: "stored_version (apply_snapshot now m sender topic album r) = version_of m"
  by (simp add: stored_version_def version_of_def apply_snapshot_def Let_def)

definition archived :: "int \<Rightarrow> int \<Rightarrow> archive_db \<Rightarrow> message_row option" where
  "archived chat i db = List.find (\<lambda>r. ms_chat_id r = chat \<and> ms_message_id r = i) (ar_messages db)"

lemma archived_Some: "archived chat i db = Some r \<Longrightarrow> ms_chat_id r = chat \<and> ms_message_id r = i"
  by (auto simp: archived_def dest: find_Some_set)

lemma same_message_eq: "same_message m = (\<lambda>r. ms_chat_id r = im_chat_id m \<and> ms_message_id r = im_message_id m)"
  by (simp add: same_message_def fun_eq_iff)

lemma apply_snapshot_keys [simp]:
  "ms_id (apply_snapshot now m sender topic album r) = ms_id r"
  "ms_chat_id (apply_snapshot now m sender topic album r) = ms_chat_id r"
  "ms_message_id (apply_snapshot now m sender topic album r) = ms_message_id r"
  by (simp_all add: apply_snapshot_def Let_def)

lemma fresh_message_keys [simp]:
  "ms_id (fresh_message now m rows) = next_id ms_id rows"
  "ms_chat_id (fresh_message now m rows) = im_chat_id m"
  "ms_message_id (fresh_message now m rows) = im_message_id m"
  by (simp_all add: fresh_message_def)

lemma find_upd_where_const:
  assumes "\<And>r. P r \<Longrightarrow> Q r \<longleftrightarrow> Q x"
  shows "List.find Q (upd_where P (\<lambda>_. x) rows) =
    (case List.find Q rows of None \<Rightarrow> None | Some r \<Rightarrow> Some (if P r then x else r))"
  using assms by (induction rows) (auto simp: upd_where_def split: option.splits)

lemma archived_store:
  assumes "same_message m r"
  shows "archived chat i (store_snapshot_of now m r sender topic album db) =
    (case archived chat i db of None \<Rightarrow> None
     | Some x \<Rightarrow> Some (if same_message m x then apply_snapshot now m sender topic album r else x))"
  using assms unfolding archived_def store_snapshot_of_def Let_def
  by (subst find_upd_where_const [symmetric]) (auto simp: same_message_def)

definition accept_version :: "tg_message \<Rightarrow> version option \<Rightarrow> version option" where
  "accept_version m v =
     (case v of
        None \<Rightarrow> Some (version_of m)
      | Some (_, _, _, _, _, _, _, _, edited) \<Rightarrow> if has_newer_snapshot edited m then Some (version_of m) else v)"

lemma accept_stored:
  "accept_version m (Some (stored_version r)) =
     (if has_newer_snapshot (ms_edited_at r) m then Some (version_of m) else Some (stored_version r))"
  by (simp add: accept_version_def stored_version_def)

lemma archived_ingest:
  "map_option stored_version (archived chat i (fst (ingest_message target now m db))) =
    (if im_chat_id m = target \<and> im_chat_id m = chat \<and> im_message_id m = i
     then accept_version m (map_option stored_version (archived chat i db))
     else map_option stored_version (archived chat i db))"
proof (cases rule: ingest_cases [of m target now db])
  case ignored
  then show ?thesis by simp
next
  case (created db0 sender topic album)
  let ?f = "fresh_message now m (ar_messages db)"
  have s: "same_message m ?f" by (simp add: same_message_def)
  have a: "archived chat i db0 = (case archived chat i db of Some r \<Rightarrow> Some r
      | None \<Rightarrow> if im_chat_id m = chat \<and> im_message_id m = i then Some ?f else None)"
    using created(2) by (simp add: archived_def find_append split: option.splits)
  show ?thesis
  proof (cases "im_chat_id m = chat \<and> im_message_id m = i")
    case True
    then have "archived chat i db = None" using created(5) by (simp add: archived_def same_message_eq)
    then show ?thesis using True created(1,6) s a by (simp add: archived_store accept_version_def)
  next
    case False
    then show ?thesis using created(1,6) a
      by (auto simp: archived_store [OF s] same_message_def dest!: archived_Some split: option.splits)
  qed
next
  case (refreshed db0 r sender topic album)
  have s: "same_message m r" using refreshed(5) by (auto dest: find_Some_set)
  have a: "archived chat i db0 = archived chat i db" using refreshed(2) by (simp add: archived_def)
  show ?thesis
  proof (cases "im_chat_id m = chat \<and> im_message_id m = i")
    case True
    then have "archived chat i db = Some r" using refreshed(5) by (simp add: archived_def same_message_eq)
    then show ?thesis using True refreshed(1,6,7) s a by (simp add: archived_store accept_stored)
  next
    case False
    then show ?thesis using refreshed(1,7) a
      by (auto simp: archived_store [OF s] same_message_def dest!: archived_Some split: option.splits)
  qed
next
  case (stale r)
  have k: "archived chat i (fst (ingest_message target now m db)) = archived chat i db"
    using stale(4) by (simp add: archived_def)
  show ?thesis
  proof (cases "im_chat_id m = chat \<and> im_message_id m = i")
    case True
    then have "archived chat i db = Some r" using stale(2) by (simp add: archived_def same_message_eq)
    then show ?thesis using True stale(1,3) k by (auto simp: accept_stored)
  next
    case False
    then show ?thesis using k by auto
  qed
qed

definition archive_all :: "int \<Rightarrow> (instant \<times> tg_message) list \<Rightarrow> archive_db \<Rightarrow> archive_db" where
  "archive_all target ds db = foldl (\<lambda>db (now, m). fst (ingest_message target now m db)) db ds"

lemma archive_all_simps [simp]:
  "archive_all target [] db = db"
  "archive_all target (ds @ [d]) db = fst (ingest_message target (fst d) (snd d) (archive_all target ds db))"
  by (simp_all add: archive_all_def split: prod.split)

text \<open>\<open>edited_before v w\<close>: \<open>w\<close> is an edit and \<open>v\<close> is the unedited message or an earlier edit.\<close>

definition edited_before :: "tg_message \<Rightarrow> tg_message \<Rightarrow> bool" where
  "edited_before v w =
     (case im_edit_date w of
        None \<Rightarrow> False
      | Some e \<Rightarrow> (case im_edit_date v of None \<Rightarrow> True | Some d \<Rightarrow> seen_instant d < seen_instant e))"

definition versions :: "int \<Rightarrow> int \<Rightarrow> (instant \<times> tg_message) list \<Rightarrow> tg_message list" where
  "versions target i ds = filter (\<lambda>m. im_chat_id m = target \<and> im_message_id m = i) (map snd ds)"

lemma version_of_edited: "version_of v = version_of w \<Longrightarrow>
    map_option seen_instant (im_edit_date v) = map_option seen_instant (im_edit_date w)"
  by (simp add: version_of_def Let_def)

lemma accept_version_of:
  "accept_version m (Some (version_of v)) =
     (if has_newer_snapshot (map_option seen_instant (im_edit_date v)) m then Some (version_of m) else Some (version_of v))"
  by (simp add: accept_version_def version_of_def Let_def)

lemma accept_newest:
  assumes "version_of w = version_of v \<or> edited_before w v"
  shows "accept_version v (Some (version_of w)) = Some (version_of v)"
  using assms
  by (auto simp: accept_version_of edited_before_def has_newer_snapshot_def dest!: version_of_edited split: option.splits)

lemma accept_older:
  assumes "version_of w = version_of v \<or> edited_before w v"
  shows "accept_version w (Some (version_of v)) = Some (version_of v)"
  using assms
  by (auto simp: accept_version_of edited_before_def has_newer_snapshot_def split: option.splits)

definition kept_version :: "int \<Rightarrow> int \<Rightarrow> archive_db \<Rightarrow> (instant \<times> tg_message) list \<Rightarrow> version option" where
  "kept_version target i db ds = map_option stored_version (archived target i (archive_all target ds db))"

lemma kept_version_newest:
  fixes target i :: int and db :: archive_db
  defines "state \<equiv> kept_version target i db"
  assumes v: "\<forall>w \<in> set (versions target i ds). version_of w = version_of v \<or> edited_before w v"
    and fresh: "archived target i db = None"
  shows "if version_of v \<in> version_of ` set (versions target i ds) then state ds = Some (version_of v)
     else state ds = None \<or> (\<exists>w. state ds = Some (version_of w) \<and> edited_before w v)"
  using v
proof (induction ds rule: rev_induct)
  case Nil
  then show ?case using fresh by (simp add: state_def kept_version_def versions_def)
next
  case (snoc d ds)
  let ?m = "snd d"
  have step: "state (ds @ [d]) = (if im_chat_id ?m = target \<and> im_message_id ?m = i then accept_version ?m (state ds) else state ds)"
    by (auto simp: state_def kept_version_def archived_ingest)
  have vs: "versions target i (ds @ [d]) = versions target i ds @ (if im_chat_id ?m = target \<and> im_message_id ?m = i then [?m] else [])"
    by (simp add: versions_def)
  have ih: "if version_of v \<in> version_of ` set (versions target i ds) then state ds = Some (version_of v)
     else state ds = None \<or> (\<exists>w. state ds = Some (version_of w) \<and> edited_before w v)"
    using snoc by (simp add: vs)
  show ?case
  proof (cases "im_chat_id ?m = target \<and> im_message_id ?m = i")
    case False
    then have "versions target i (ds @ [d]) = versions target i ds" "state (ds @ [d]) = state ds"
      using step vs by auto
    then show ?thesis using ih by simp
  next
    case True
    then have m: "version_of ?m = version_of v \<or> edited_before ?m v" using snoc.prems by (simp add: vs)
    have next_state: "state (ds @ [d]) = accept_version ?m (state ds)" using step True by simp
    have known: "version_of ` set (versions target i (ds @ [d])) = insert (version_of ?m) (version_of ` set (versions target i ds))"
      using True by (simp add: vs)
    have none: "accept_version ?m None = Some (version_of ?m)" by (simp add: accept_version_def)
    show ?thesis
    proof (cases "version_of ?m = version_of v")
      case True
      have "accept_version ?m x = accept_version v x" for x
      proof -
        have e: "map_option seen_instant (im_edit_date ?m) = map_option seen_instant (im_edit_date v)"
          using version_of_edited [OF True] .
        then have "has_newer_snapshot y ?m = has_newer_snapshot y v" for y
          by (cases "im_edit_date ?m"; cases "im_edit_date v") (auto simp: has_newer_snapshot_def split: option.splits)
        then show ?thesis using True by (simp add: accept_version_def split: option.splits)
      qed
      then have "state (ds @ [d]) = Some (version_of v)"
        using ih none True accept_newest [of _ v] by (auto simp: next_state split: if_splits)
      then show ?thesis using True known by simp
    next
      case False
      with m have older: "edited_before ?m v" by simp
      have "accept_version ?m (state ds) = Some (version_of ?m) \<or> accept_version ?m (state ds) = state ds"
        by (auto simp: accept_version_def split: option.splits)
      then show ?thesis
        using False ih older accept_older [of ?m v] known none by (auto simp: next_state)
    qed
  qed
qed

lemma edited_before_trans:
  assumes "version_of a = version_of b \<or> edited_before a b" "version_of b = version_of c \<or> edited_before b c"
  shows "version_of a = version_of c \<or> edited_before a c"
proof (cases "version_of a = version_of b \<and> version_of b = version_of c")
  case False
  then show ?thesis using assms unfolding edited_before_def
    by (cases "im_edit_date a"; cases "im_edit_date b"; cases "im_edit_date c") (auto dest!: version_of_edited)
qed simp

lemma newest_exists:
  assumes "ms \<noteq> []"
    and "\<forall>v \<in> set ms. \<forall>w \<in> set ms. version_of v = version_of w \<or> edited_before v w \<or> edited_before w v"
  shows "\<exists>v \<in> set ms. \<forall>w \<in> set ms. version_of w = version_of v \<or> edited_before w v"
  using assms
proof (induction ms)
  case Nil
  then show ?case by simp
next
  case (Cons x ms)
  show ?case
  proof (cases "ms = []")
    case True
    then show ?thesis by simp
  next
    case False
    with Cons obtain v where v: "v \<in> set ms" "\<forall>w \<in> set ms. version_of w = version_of v \<or> edited_before w v" by auto
    consider "version_of x = version_of v \<or> edited_before x v" | "edited_before v x" using Cons.prems(2) v(1) by auto
    then show ?thesis
    proof cases
      case 1
      then show ?thesis using v by auto
    next
      case 2
      then have "\<forall>w \<in> set ms. version_of w = version_of x \<or> edited_before w x"
        using v(2) edited_before_trans by blast
      then show ?thesis by auto
    qed
  qed
qed

text \<open>
  C20: The archive keeps the same text, caption, entities and edit time of a message whatever the order
  in which Telegram delivers (or redelivers) its versions, as long as two different versions carry
  different edit times: two runs over the same deliveries in any two orders and at any times agree.
\<close>

theorem archive_order_irrelevant:
  assumes "set (versions target i ds') = set (versions target i ds)"
    and "\<forall>v \<in> set (versions target i ds). \<forall>w \<in> set (versions target i ds).
      version_of v = version_of w \<or> edited_before v w \<or> edited_before w v"
    and "archived target i db = None"
  shows "map_option stored_version (archived target i (archive_all target ds' db))
    = map_option stored_version (archived target i (archive_all target ds db))"
proof (cases "versions target i ds = []")
  case True
  then have "versions target i ds' = []" using assms(1) by simp
  moreover have none: "kept_version target i db xs = None" if "versions target i xs = []" for xs
    using that assms(3)
    by (induction xs rule: rev_induct) (auto simp: kept_version_def versions_def archived_ingest split: if_splits)
  ultimately show ?thesis using True none unfolding kept_version_def by metis
next
  case False
  obtain v where v: "v \<in> set (versions target i ds)"
      "\<forall>w \<in> set (versions target i ds). version_of w = version_of v \<or> edited_before w v"
    using newest_exists [OF False assms(2)] by blast
  have "kept_version target i db xs = Some (version_of v)" if "set (versions target i xs) = set (versions target i ds)" for xs
    using kept_version_newest [of target i xs v db] assms(3) v that by (auto split: if_splits)
  then show ?thesis using assms(1) unfolding kept_version_def by metis
qed

definition demo_user :: tg_user where
  "demo_user = \<lparr>tu_id = 7, tu_is_bot = False, tu_first_name = u ''Ann'', tu_last_name = None, tu_username = None, tu_language_code = None\<rparr>"

definition demo_message :: "pystr \<Rightarrow> tg_date option \<Rightarrow> tg_message" where
  "demo_message body edited =
     \<lparr>im_chat_id = - 1001, im_chat_username = None, im_message_id = 5, im_date = Unix_seconds 100, im_edit_date = edited,
      im_from = Some demo_user, im_sender_chat = None, im_thread_id = Some 3, im_general_topic_event = False,
      im_topic_created = None, im_topic_edited = None, im_topic_closed = False, im_topic_reopened = False,
      im_media_group_id = None, im_reply_to = None, im_origin = None, im_automatic_forward = False, im_text = Some body,
      im_caption = None, im_entities = [], im_caption_entities = [], im_document = None, im_photo = None, im_video = None,
      im_audio = None, im_voice = None, im_video_note = None, im_animation = None, im_sticker = None, im_poll = False,
      im_contact = False, im_venue = False, im_location = False\<rparr>"

definition empty_archive :: archive_db where
  "empty_archive = \<lparr>ar_users = [], ar_topics = [], ar_groups = [], ar_messages = [], ar_files = [], ar_documents = []\<rparr>"

definition demo_old :: tg_message where "demo_old = demo_message (u ''Monday'') None"
definition demo_new :: tg_message where "demo_new = demo_message (u ''Tuesday'') (Some (Unix_seconds 160))"

lemma demo_versions:
  "versions (- 1001) 5 [(t, demo_old), (t', demo_new)] = [demo_old, demo_new]"
  "versions (- 1001) 5 [(t', demo_new), (t, demo_old)] = [demo_new, demo_old]"
  by (simp_all add: versions_def demo_old_def demo_new_def demo_message_def)

lemma demo_edited: "edited_before demo_old demo_new"
  by (simp add: edited_before_def demo_old_def demo_new_def demo_message_def)

theorem archive_order_irrelevant_witness:
  "map_option stored_version (archived (- 1001) 5 (archive_all (- 1001) [(900, demo_new), (950, demo_old)] empty_archive))
    = map_option stored_version (archived (- 1001) 5 (archive_all (- 1001) [(200, demo_old), (300, demo_new)] empty_archive))"
  by (rule archive_order_irrelevant)
    (auto simp: demo_versions demo_edited archived_def empty_archive_def)

section \<open>The search documents\<close>

lemma filter_upd_where_other:
  assumes "\<And>r. Q r \<Longrightarrow> \<not> P r \<and> \<not> P (f r)"
  shows "filter P (upd_where Q f rows) = filter P rows"
  using assms by (induction rows) (auto simp: upd_where_def)

lemma files_of_upsert_file [archive]:
  "i \<noteq> j \<Longrightarrow> files_of j (upsert_file now i d rows) = files_of j rows"
  unfolding upsert_file_def files_of_def Let_def
  by (auto simp: fill_file_def intro!: arg_cong [where f = "sort_key fl_id"] filter_upd_where_other)

lemma files_of_upsert_files [archive]:
  "i \<noteq> j \<Longrightarrow> files_of j (upsert_files now i ds rows) = files_of j rows"
  unfolding upsert_files_def by (induction ds arbitrary: rows) (simp_all add: files_of_upsert_file)

definition document_content_of :: "int \<Rightarrow> archive_db \<Rightarrow> pystr option" where
  "document_content_of i db = map_option sd_content (List.find (is_document_of i) (ar_documents db))"

lemma is_document_of_upd [simp]:
  "is_document_of i (d\<lparr>sd_content := c, sd_metadata := md, sd_updated_at := t\<rparr>) = is_document_of i d"
  by (simp add: is_document_of_def)

lemma is_document_of_unique: "is_document_of i d \<Longrightarrow> is_document_of j d \<longleftrightarrow> i = j"
  by (auto simp: is_document_of_def)

lemma document_content_upd:
  "map_option sd_content (List.find (is_document_of i)
      (upd_where (is_document_of j) (\<lambda>d. d\<lparr>sd_content := c, sd_metadata := md, sd_updated_at := t\<rparr>) ds))
    = (if i = j then map_option (\<lambda>_. c) (List.find (is_document_of i) ds)
       else map_option sd_content (List.find (is_document_of i) ds))"
  by (induction ds) (auto simp: upd_where_def dest: is_document_of_unique)

lemma document_content_upsert:
  "document_content_of i (upsert_document now r dates link db) =
    (if i = ms_id r then Some (document_content r (files_of i (ar_files db))) else document_content_of i db)"
proof (cases "List.find (is_document_of (ms_id r)) (ar_documents db)")
  case None
  then show ?thesis
    by (auto simp: upsert_document_def document_content_of_def Let_def find_append is_document_of_def split: option.splits)
next
  case (Some d)
  then show ?thesis
    by (auto simp: upsert_document_def document_content_of_def Let_def document_content_upd simp del: map_option_eq_Some)
qed

definition document_keys :: "archive_db \<Rightarrow> (pystr \<times> int) list" where
  "document_keys db = map (\<lambda>d. (sd_source_type d, sd_source_id d)) (ar_documents db)"

lemma document_keys_upd:
  "map (\<lambda>d. (sd_source_type d, sd_source_id d))
      (upd_where P (\<lambda>d. d\<lparr>sd_content := c, sd_metadata := md, sd_updated_at := t\<rparr>) ds)
    = map (\<lambda>d. (sd_source_type d, sd_source_id d)) ds"
  by (rule map_upd_where) simp

lemma distinct_document_keys:
  assumes "distinct (document_keys db)"
  shows "distinct (document_keys (upsert_document now r dates link db))"
proof (cases "List.find (is_document_of (ms_id r)) (ar_documents db)")
  case None
  then have "(u ''message'', ms_id r) \<notin> (\<lambda>d. (sd_source_type d, sd_source_id d)) ` set (ar_documents db)"
    by (auto simp: find_None_set is_document_of_def)
  then show ?thesis using assms None
    by (simp add: document_keys_def upsert_document_def Let_def del: u_Cons)
next
  case (Some d)
  then show ?thesis using assms
    by (simp add: document_keys_def upsert_document_def Let_def document_keys_upd)
qed

text \<open>One row per message, one document per message, each document the content of its row and files.\<close>

definition archive_ok :: "archive_db \<Rightarrow> bool" where
  "archive_ok db \<longleftrightarrow>
     distinct (map ms_id (ar_messages db)) \<and> distinct (map (\<lambda>r. (ms_chat_id r, ms_message_id r)) (ar_messages db))
     \<and> distinct (document_keys db)
     \<and> list_all (\<lambda>r. document_content_of (ms_id r) db = Some (document_content r (files_of (ms_id r) (ar_files db)))) (ar_messages db)"

lemma store_snapshot_of_ok:
  assumes ids: "distinct (map ms_id (ar_messages db))"
    and keys: "distinct (map (\<lambda>r. (ms_chat_id r, ms_message_id r)) (ar_messages db))"
    and docs: "distinct (document_keys db)"
    and stored: "stored \<in> set (ar_messages db)" "same_message m stored"
    and others: "\<And>x. x \<in> set (ar_messages db) \<Longrightarrow> x \<noteq> stored \<Longrightarrow>
      document_content_of (ms_id x) db = Some (document_content x (files_of (ms_id x) (ar_files db)))"
  shows "archive_ok (store_snapshot_of now m stored sender topic album db)"
proof -
  let ?r = "apply_snapshot now m sender topic album stored"
  let ?rows = "upd_where (same_message m) (\<lambda>_. ?r) (ar_messages db)"
  define db2 where "db2 = db\<lparr>ar_messages := ?rows, ar_files := upsert_files now (ms_id ?r) (file_descriptors m) (ar_files db)\<rparr>"
  have store: "store_snapshot_of now m stored sender topic album db = upsert_document now ?r (stored_moments ?r) (message_link m) db2"
    by (simp add: store_snapshot_of_def Let_def db2_def)
  have only: "x = stored" if "x \<in> set (ar_messages db)" "same_message m x" for x
  proof -
    have "inj_on (\<lambda>r. (ms_chat_id r, ms_message_id r)) (set (ar_messages db))" using keys by (simp add: distinct_map)
    from inj_onD [OF this, of x stored] show ?thesis using stored that by (simp add: same_message_def)
  qed
  have rows: "?rows = map (\<lambda>x. if x = stored then ?r else x) (ar_messages db)"
    unfolding upd_where_def
  proof (rule map_cong [OF refl])
    fix x assume "x \<in> set (ar_messages db)"
    then have "same_message m x \<longleftrightarrow> x = stored" using only stored(2) by blast
    then show "(if same_message m x then ?r else x) = (if x = stored then ?r else x)" by (simp only:)
  qed
  have "map ms_id ?rows = map ms_id (ar_messages db)"
      "map (\<lambda>r. (ms_chat_id r, ms_message_id r)) ?rows = map (\<lambda>r. (ms_chat_id r, ms_message_id r)) (ar_messages db)"
    unfolding rows by simp_all
  moreover have "distinct (document_keys (upsert_document now ?r (stored_moments ?r) (message_link m) db2))"
    using docs by (intro distinct_document_keys) (simp add: document_keys_def db2_def)
  moreover have "document_content_of (ms_id y) (upsert_document now ?r (stored_moments ?r) (message_link m) db2)
      = Some (document_content y (files_of (ms_id y) (ar_files db2)))" if "y \<in> set ?rows" for y
  proof (cases "y = ?r")
    case True
    then show ?thesis by (simp add: document_content_upsert)
  next
    case False
    then have y: "y \<in> set (ar_messages db)" "y \<noteq> stored"
      using that unfolding rows by (auto split: if_splits)
    moreover from ids have "inj_on ms_id (set (ar_messages db))" by (simp add: distinct_map)
    ultimately have other: "ms_id y \<noteq> ms_id stored" using stored(1) by (auto dest: inj_onD)
    moreover have "document_content_of (ms_id y) db2 = document_content_of (ms_id y) db"
      by (simp add: document_content_of_def db2_def)
    moreover have "files_of (ms_id y) (ar_files db2) = files_of (ms_id y) (ar_files db)"
      using other by (simp add: db2_def files_of_upsert_files)
    ultimately show ?thesis using other others y by (simp add: document_content_upsert)
  qed
  ultimately show ?thesis
    unfolding archive_ok_def store
    using ids keys by (simp add: db2_def list_all_iff)
qed

lemma ingest_ok:
  assumes "archive_ok db"
  shows "archive_ok (fst (ingest_message target now m db))"
proof (cases rule: ingest_cases [of m target now db])
  case ignored
  then show ?thesis using assms by simp
next
  case (created db0 sender topic album)
  have new: "\<forall>x \<in> set (ar_messages db). \<not> same_message m x" using created(5) by (auto simp: find_None_set)
  have same: "document_content_of i db0 = document_content_of i db" for i
    using created(4) by (simp add: document_content_of_def)
  have id: "next_id ms_id (ar_messages db) \<notin> ms_id ` set (ar_messages db)" by simp
  show ?thesis unfolding created(6)
    by (rule store_snapshot_of_ok)
      (use assms new id in \<open>auto simp: archive_ok_def created(2-4) document_keys_def same list_all_iff same_message_def\<close>)
next
  case (refreshed db0 r sender topic album)
  have same: "document_content_of i db0 = document_content_of i db" for i
    using refreshed(4) by (simp add: document_content_of_def)
  have r: "r \<in> set (ar_messages db)" "same_message m r" using find_Some_set [OF refreshed(5)] by auto
  show ?thesis unfolding refreshed(7)
    by (rule store_snapshot_of_ok)
      (use assms r in \<open>auto simp: archive_ok_def refreshed(2-4) document_keys_def same list_all_iff\<close>)
next
  case (stale r)
  then show ?thesis using assms by (simp add: archive_ok_def document_keys_def document_content_of_def)
qed

lemma archive_all_ok:
  assumes "archive_ok db"
  shows "archive_ok (archive_all target ds db)"
  using assms by (induction ds rule: rev_induct) (simp_all add: ingest_ok)

lemma empty_archive_ok: "archive_ok empty_archive"
  by (simp add: archive_ok_def empty_archive_def document_keys_def)

text \<open>
  C21: However messages are delivered, edited and redelivered, the archive holds one row and one search
  document for each message, and the document's content is exactly what the message's current text,
  caption and files give: no stale document, none missing and none doubled.
\<close>

theorem archive_documents_current:
  assumes "archive_ok db"
  shows "archive_ok (archive_all target ds db)"
  by (rule archive_all_ok [OF assms])

theorem archive_documents_current_witness:
  "archive_ok (archive_all (- 1001) [(200, demo_old), (300, demo_new)] empty_archive)"
  by (rule archive_documents_current [OF empty_archive_ok])

section \<open>The size of a document\<close>

lemma length_join_lines:
  "length (join [10] (ps @ [p])) = length (join [10] ps) + (if ps = [] then 0 else 1) + length p"
proof (induction ps)
  case (Cons q qs)
  then show ?case by (cases qs) auto
qed simp

lemma bounded_parts_length:
  assumes "length (join [10] accepted) = used" "used \<le> bound"
  shows "length (join [10] (bounded_parts bound accepted used parts)) \<le> bound"
  using assms
proof (induction bound accepted used parts rule: bounded_parts.induct)
  case (1 bound accepted used)
  then show ?case by simp
next
  case (2 bound accepted used part parts)
  show ?case
  proof (cases "strip part = [] \<or> bound \<le> used + (if accepted = [] then 0 else 1)")
    case True
    then show ?thesis using 2 by (auto simp: Let_def)
  next
    case False
    define gap where "gap = (if accepted = [] then 0 else 1 :: nat)"
    define piece where "piece = take (bound - used - gap) (strip part)"
    have "used + gap + length piece \<le> bound"
      using False by (fold gap_def) (auto simp: piece_def)
    moreover have "length (join [10] (accepted @ [piece])) = used + gap + length piece"
      using "2.prems" by (simp add: length_join_lines gap_def)
    moreover have "bounded_parts bound accepted used (part # parts)
        = bounded_parts bound (accepted @ [piece]) (used + gap + length piece) parts"
      using False by (simp only: bounded_parts.simps Let_def piece_def gap_def) simp
    ultimately show ?thesis
      using 2(2) [OF refl refl _ _ refl] False unfolding piece_def gap_def by (simp only: de_Morgan_disj simp_thms)
  qed
qed

lemma bounded_content_length: "length (bounded_content bound parts) \<le> bound"
  by (simp add: bounded_content_def bounded_parts_length)

lemma length_message_type: "length (message_type m) \<le> 14"
  by (simp add: message_type_def del: length_u)

lemma length_replace_one: "length (replace_cp a [b] s) = length s"
  by (induction s) (auto simp: replace_cp_def)

lemma document_content_length:
  "length (ms_type r) \<le> max_indexed_characters \<Longrightarrow> length (document_content r files) \<le> max_indexed_characters"
  by (simp add: document_content_def Let_def bounded_content_length length_replace_one)

definition documents_bounded :: "archive_db \<Rightarrow> bool" where
  "documents_bounded db \<longleftrightarrow> list_all (\<lambda>d. length (sd_content d) \<le> max_indexed_characters) (ar_documents db)"

lemma documents_bounded_upsert:
  assumes "documents_bounded db" "length (ms_type r) \<le> max_indexed_characters"
  shows "documents_bounded (upsert_document now r dates link db)"
  using assms document_content_length [OF assms(2)]
  by (auto simp: documents_bounded_def upsert_document_def Let_def list_all_iff set_upd_where split: option.splits)

lemma documents_bounded_store:
  assumes "documents_bounded db"
  shows "documents_bounded (store_snapshot_of now m stored sender topic album db)"
  unfolding store_snapshot_of_def Let_def
proof (rule documents_bounded_upsert)
  show "length (ms_type (apply_snapshot now m sender topic album stored)) \<le> max_indexed_characters"
    using length_message_type [of m] by (simp add: apply_snapshot_def Let_def max_indexed_characters_def)
qed (use assms in \<open>simp add: documents_bounded_def\<close>)

lemma documents_bounded_ingest:
  assumes "documents_bounded db"
  shows "documents_bounded (fst (ingest_message target now m db))"
proof (cases rule: ingest_cases [of m target now db])
  case (created db0 sender topic album)
  then show ?thesis using assms documents_bounded_store by (simp add: documents_bounded_def)
next
  case (refreshed db0 r sender topic album)
  then show ?thesis using assms documents_bounded_store by (simp add: documents_bounded_def)
qed (use assms in \<open>simp_all add: documents_bounded_def\<close>)

text \<open>
  The indexed text of a message never exceeds 2 000 000 characters, separators included, whatever
  text, caption, file names and extracted file contents go into it.
\<close>

theorem indexed_text_bounded:
  "list_all (\<lambda>d. length (sd_content d) \<le> 2000000) (ar_documents (archive_all target ds empty_archive))"
proof -
  have "documents_bounded (archive_all target ds empty_archive)"
  proof (induction ds rule: rev_induct)
    case Nil
    show ?case by (simp add: documents_bounded_def empty_archive_def)
  qed (simp add: documents_bounded_ingest)
  then show ?thesis by (simp add: documents_bounded_def max_indexed_characters_def)
qed

end
