(* ===== verification/MaterialAutomation.thy ===== *)
theory MaterialAutomation
  imports ApplicationJobs LiveArchive
begin

text \<open>
  \<open>materials/automation.py\<close>: the admission of a document or photo as a debounced job, and the job
  itself: the archived members of one message or album are assessed as one material, stored, and
  scheduled for a copy or a review through the outbox. Nothing is ever deleted.
\<close>

section \<open>Sources\<close>

record material_source =
  so_chat_id :: int
  so_message_id :: "int option"
  so_group_id :: "pystr option"

record loaded_source =
  ls_source :: material_source
  ls_messages :: "message_row list"
  ls_files :: "file_row list"
  ls_topics :: "topic_row list"
  ls_group :: "group_row option"

record material_action =
  ma_material_id :: int
  ma_route :: material_route
  ma_chat_id :: int
  ma_message_ids :: "int list"
  ma_is_album :: bool
  ma_title :: pystr
  ma_assessment :: assessment

datatype material_error =
    Source_not_ready
  | Album_too_large
  | Material_integrity_error
  | Material_job_error job_error

record material_settings =
  mc_app :: app_settings
  mc_auto_copy :: rat
  mc_review :: rat

record material_state =
  ms_archive :: archive_db
  ms_app :: app_state

section \<open>Admission\<close>

text \<open>\<open>_aware\<close>: a reading of the clock without an offset raises.\<close>

definition material_moment :: "tg_date \<Rightarrow> job_error + pydt" where
  "material_moment d =
     (case d of
        Unix_seconds s \<Rightarrow> Inr (utc_at (s * second))
      | Moment m \<Rightarrow> if aware m then Inr m else Inl Job_value_error)"

definition observed_date :: "tg_message \<Rightarrow> tg_date" where
  "observed_date m =
     (case im_edit_date m of None \<Rightarrow> im_date m | Some d \<Rightarrow> if d = Unix_seconds 0 then im_date m else d)"

definition material_identity :: "tg_message \<Rightarrow> pystr \<times> (pystr \<times> json) list" where
  "material_identity m =
     (case given (im_media_group_id m) of
        Some g \<Rightarrow>
          (u ''album:'' @ show_int (im_chat_id m) @ [58] @ g,
           [(u ''chat_id'', JInt (im_chat_id m)), (u ''media_group_id'', JStr g)])
      | None \<Rightarrow>
          (u ''message:'' @ show_int (im_chat_id m) @ [58] @ show_int (im_message_id m),
           [(u ''chat_id'', JInt (im_chat_id m)), (u ''message_id'', JInt (im_message_id m))]))"

definition admission_key :: "tg_message \<Rightarrow> pydt \<Rightarrow> pystr" where
  "admission_key m seen =
     u ''material-assess:'' @ take 32 (sha256_hex
       (fst (material_identity m) @ [58] @ show_int (im_message_id m) @ [58] @ iso_datetime seen))"

definition admit_material_message ::
    "clocks \<Rightarrow> tg_message \<Rightarrow> int \<Rightarrow> json job list \<Rightarrow> job_error + (json job list \<times> enqueue_result option)" where
  "admit_material_message clk m debounce jobs =
     (if im_document m = None \<and> (case im_photo m of None \<Rightarrow> True | Some ps \<Rightarrow> ps = []) then Inr (jobs, None)
      else if debounce < 0 then Inl Job_value_error
      else and_then (material_moment (observed_date m)) (\<lambda>seen.
        let key = admission_key m seen in
        case enqueue_job (clk key) (u ''material.assess'') key (JObj (snd (material_identity m)))
               (Some (dt_add seen debounce)) 8 False jobs of
          Inl e \<Rightarrow> Inl (Job_queue_error e)
        | Inr (jobs', r) \<Rightarrow> Inr (jobs', Some r)))"

definition default_debounce :: int where
  "default_debounce = 3 * second"

section \<open>The job's source\<close>

definition source_from_payload :: "json \<Rightarrow> job_error + material_source" where
  "source_from_payload payload =
     (case payload of
        JObj kvs \<Rightarrow>
          and_then (payload_int payload (u ''chat_id'')) (\<lambda>chat.
          let message = jget kvs (u ''message_id''); album = jget kvs (u ''media_group_id'') in
          and_then (guard (message = JNull \<or> as_int message \<noteq> None) Job_value_error) (\<lambda>_.
          and_then (guard (case album of JNull \<Rightarrow> True | JStr s \<Rightarrow> s \<noteq> [] \<and> length s \<le> 128 | _ \<Rightarrow> False) Job_value_error) (\<lambda>_.
          and_then (guard ((message = JNull) \<noteq> (album = JNull)) Job_value_error) (\<lambda>_.
          Inr \<lparr>so_chat_id = chat, so_message_id = as_int message,
               so_group_id = (case album of JStr s \<Rightarrow> Some s | _ \<Rightarrow> None)\<rparr>))))
      | _ \<Rightarrow> Inl Job_value_error)"

definition first_seen :: "'a list \<Rightarrow> 'a list" where
  "first_seen xs = rev (remdups (rev xs))"

definition live_message :: "int \<Rightarrow> message_row \<Rightarrow> bool" where
  "live_message chat r \<longleftrightarrow> ms_chat_id r = chat \<and> ms_deleted_at r = None"

definition source_messages ::
    "archive_db \<Rightarrow> material_source \<Rightarrow> material_error + (message_row list \<times> group_row option)" where
  "source_messages db src =
     (case so_group_id src of
        Some g \<Rightarrow>
          (case List.find (\<lambda>r. mg_chat_id r = so_chat_id src \<and> mg_telegram_id r = g) (ar_groups db) of
             None \<Rightarrow> Inl Source_not_ready
           | Some grp \<Rightarrow>
               Inr (sort_key ms_message_id
                      (filter (\<lambda>r. live_message (so_chat_id src) r \<and> ms_media_group_id r = Some (mg_id grp)) (ar_messages db)),
                    Some grp))
      | None \<Rightarrow>
          (case so_message_id src of
             None \<Rightarrow> Inl (Material_job_error Job_assertion_error)
           | Some i \<Rightarrow>
               Inr (case List.find (\<lambda>r. live_message (so_chat_id src) r \<and> ms_message_id r = i) (ar_messages db) of
                      None \<Rightarrow> [] | Some r \<Rightarrow> [r], None)))"

definition load_source :: "archive_db \<Rightarrow> material_source \<Rightarrow> material_error + loaded_source" where
  "load_source db src =
     and_then (source_messages db src) (\<lambda>(messages, grp).
     let ids = map ms_id messages; topics = first_seen (List.map_filter ms_topic_id messages)
     in Inr \<lparr>ls_source = src, ls_messages = messages,
             ls_files = sort_key fl_id (filter (\<lambda>f. fl_message_id f \<in> set ids) (ar_files db)),
             ls_topics = filter (\<lambda>t. tp_id t \<in> set topics) (ar_topics db), ls_group = grp\<rparr>)"

section \<open>Evidence\<close>

text \<open>\<open>str.splitlines\<close>; \<open>after_cr\<close> tells that the last line ended with a carriage return.\<close>

definition is_line_break :: "nat \<Rightarrow> bool" where
  "is_line_break c \<longleftrightarrow> c \<in> {10, 11, 12, 13, 28, 29, 30, 133, 8232, 8233}"

fun split_lines :: "bool \<Rightarrow> pystr \<Rightarrow> pystr \<Rightarrow> pystr list" where
  "split_lines after_cr cur [] = (if cur = [] then [] else [cur])"
| "split_lines after_cr cur (c # s) =
     (if after_cr \<and> cur = [] \<and> c = 10 then split_lines False [] s
      else if is_line_break c then cur # split_lines (c = 13) [] s
      else split_lines False (cur @ [c]) s)"

definition bounded_join :: "nat \<Rightarrow> pystr list \<Rightarrow> pystr" where
  "bounded_join bound vals = join [10] (bounded_parts bound [] 0 vals)"

definition primary_filename :: "pystr list \<Rightarrow> pystr option" where
  "primary_filename names =
     (case filter (\<lambda>n. casefold (path_suffix n) \<in> set academic_extensions) names of
        n # _ \<Rightarrow> Some n
      | [] \<Rightarrow> (case names of n # _ \<Rightarrow> Some n | [] \<Rightarrow> None))"

definition material_title :: "pystr option \<Rightarrow> pystr \<Rightarrow> bool \<Rightarrow> pystr" where
  "material_title filename caption is_album =
     (case given filename of
        Some n \<Rightarrow> take 512 n
      | None \<Rightarrow>
          (case filter (\<lambda>l. l \<noteq> []) (map strip (split_lines False [] caption)) of
             l # _ \<Rightarrow> take 512 l
           | [] \<Rightarrow> if is_album then [1040, 1083, 1100, 1073, 1086, 1084, 32, 84, 101, 108, 101, 103, 114, 97, 109] else [1052, 1072, 1090, 1077, 1088, 1080, 1072, 1083, 32, 84, 101, 108, 101, 103, 114, 97,
      109]))"

definition discipline_of :: "pystr list \<Rightarrow> bool \<Rightarrow> pystr option" where
  "discipline_of topic_names social =
     (if social then None
      else case filter (\<lambda>n. casefold n \<noteq> u ''general'' \<and> \<not> starts_with (u ''topic '') (casefold n)) topic_names of
             n # _ \<Rightarrow> Some (take 256 n)
           | [] \<Rightarrow> None)"

definition social_topic_markers :: "pystr list" where
  "social_topic_markers =
     [[1073, 1086, 1083, 1090, 1072, 1083], [1084, 1077, 1084],
      [1086, 1092, 1092, 1090, 1086, 1087], [1092, 1083, 1091, 1076],
      [1084, 1077, 1088, 1089], [1084, 1072, 1096, 1080, 1085]]"

definition filenames_of :: "loaded_source \<Rightarrow> pystr list" where
  "filenames_of src = List.map_filter (\<lambda>f. given (fl_file_name f)) (ls_files src)"

definition topic_names_of :: "loaded_source \<Rightarrow> pystr list" where
  "topic_names_of src = first_seen (filter (\<lambda>n. n \<noteq> []) (map tp_name (ls_topics src)))"

definition caption_of :: "loaded_source \<Rightarrow> pystr" where
  "caption_of src = bounded_join 12000
     (concat (map (\<lambda>r. List.map_filter given [ms_caption r, ms_text r]) (ls_messages src)))"

definition is_social :: "pystr list \<Rightarrow> bool" where
  "is_social names \<longleftrightarrow> list_ex (\<lambda>n. list_ex (\<lambda>marker. contains marker (casefold n)) social_topic_markers) names"

definition evidence_of :: "loaded_source \<Rightarrow> evidence" where
  "evidence_of src =
     \<lparr>me_filename = primary_filename (filenames_of src),
      me_mime_type = (case List.map_filter (\<lambda>f. given (fl_mime_type f)) (ls_files src) of [] \<Rightarrow> None | t # _ \<Rightarrow> Some t),
      me_caption = given (Some (caption_of src)),
      me_nearby_text = given (Some (bounded_join 2000 (topic_names_of src))),
      me_extracted = given (Some (bounded_join 8000 (List.map_filter (\<lambda>f. given (fl_extracted_text f)) (ls_files src)))),
      me_aliases = [], me_is_photo = list_ex (\<lambda>r. ms_type r = u ''photo'') (ls_messages src),
      me_is_social_topic = is_social (topic_names_of src)\<rparr>"

section \<open>Assessment and storage\<close>

definition route_name :: "material_route \<Rightarrow> pystr" where
  "route_name r = (case r of Auto_copy \<Rightarrow> u ''auto_copy'' | Admin_review \<Rightarrow> u ''admin_review'' | Leave \<Rightarrow> u ''leave'')"

definition extraction_entry :: "file_row \<Rightarrow> json" where
  "extraction_entry f = JObj (present
     [(''file_id'', Some (JInt (fl_id f))), (''status'', map_option JStr (fl_extraction_status f)),
      (''error_code'', map_option JStr (fl_extraction_error f)), (''version'', map_option JStr (fl_extraction_version f))])"

definition classifier_version :: pystr where
  "classifier_version = u ''transparent-rules-v1''"

definition evidence_json :: "loaded_source \<Rightarrow> assessment \<Rightarrow> json option \<Rightarrow> json" where
  "evidence_json src a existing = JObj (obj_update (evidence_object existing)
     [(u ''classifier'', JStr classifier_version), (u ''route'', JStr (route_name (as_route a))),
      (u ''reasons'', JArr (map JStr (as_reasons a))),
      (u ''message_ids'', JArr (map (\<lambda>r. JInt (ms_message_id r)) (ls_messages src))),
      (u ''filenames'', JArr (map JStr (filenames_of src))), (u ''topic_names'', JArr (map JStr (topic_names_of src))),
      (u ''has_photo'', JBool (list_ex (\<lambda>r. ms_type r = u ''photo'') (ls_messages src))),
      (u ''has_document'', JBool (list_ex (\<lambda>r. ms_type r = u ''document'') (ls_messages src))),
      (u ''logical_count'', JInt (int (length (ls_messages src)))),
      (u ''extraction'', JArr (map extraction_entry (filter (\<lambda>f. fl_extraction_status f \<noteq> None) (ls_files src)))),
      (u ''source_deletion_enabled'', JBool False), (u ''source_deleted'', JBool False)])"

definition existing_material :: "message_row \<Rightarrow> group_row option \<Rightarrow> material_row list \<Rightarrow> material_row option" where
  "existing_material anchor grp rows =
     (case grp of
        Some g \<Rightarrow> (case sort_key mt_id (filter (\<lambda>r. mt_source_media_group_id r = Some (mg_id g)) rows) of
                      [] \<Rightarrow> None | r # _ \<Rightarrow> Some r)
      | None \<Rightarrow> List.find (\<lambda>r. mt_source_message_id r = ms_id anchor) rows)"

definition workflow_for :: "material_route \<Rightarrow> workflow_state" where
  "workflow_for r = (case r of Auto_copy \<Rightarrow> Copy_pending | Admin_review \<Rightarrow> Review | Leave \<Rightarrow> Completed)"

definition fresh_material ::
    "app_settings \<Rightarrow> loaded_source \<Rightarrow> message_row \<Rightarrow> assessment \<Rightarrow> pystr \<Rightarrow> pystr option \<Rightarrow> instant
       \<Rightarrow> material_row list \<Rightarrow> material_row" where
  "fresh_material cfg src anchor a title discipline now rows =
     \<lparr>mt_id = next_id mt_id rows, mt_source_message_id = ms_id anchor,
      mt_source_media_group_id = map_option mg_id (ls_group src),
      mt_destination_chat_id = (if as_route a = Auto_copy then as_target_chat_id cfg else None),
      mt_destination_message_id = None, mt_title = Some title, mt_discipline = discipline,
      mt_type = (if ls_group src \<noteq> None then u ''album'' else ms_type anchor), mt_confidence = as_probability a,
      mt_workflow_state = workflow_for (as_route a), mt_classifier_version = Some classifier_version,
      mt_evidence = Some (evidence_json src a None), mt_created_at = now, mt_updated_at = now\<rparr>"

definition refresh_material ::
    "app_settings \<Rightarrow> loaded_source \<Rightarrow> message_row \<Rightarrow> assessment \<Rightarrow> pystr \<Rightarrow> pystr option \<Rightarrow> instant
       \<Rightarrow> material_row \<Rightarrow> material_row" where
  "refresh_material cfg src anchor a title discipline now r =
     r\<lparr>mt_title := Some title, mt_discipline := discipline,
       mt_type := (if ls_group src \<noteq> None then u ''album'' else ms_type anchor), mt_confidence := as_probability a,
       mt_classifier_version := Some classifier_version, mt_evidence := Some (evidence_json src a (mt_evidence r)),
       mt_updated_at := now, mt_workflow_state := workflow_for (as_route a),
       mt_destination_chat_id := (if as_route a = Auto_copy then as_target_chat_id cfg else mt_destination_chat_id r)\<rparr>"

text \<open>The members that a live row of the outbox already copies for a material.\<close>

definition is_copy_row :: "json outbox_row \<Rightarrow> bool" where
  "is_copy_row r \<longleftrightarrow> o_kind r \<in> {u ''telegram.copy_message'', u ''telegram.copy_messages''}
     \<and> o_status r \<in> {OPending, OSending, OSent}"

definition row_copies :: "int \<Rightarrow> json outbox_row \<Rightarrow> int list" where
  "row_copies material r =
     (case payload_field (o_payload r) (u ''_material_copy'') of
        JObj m \<Rightarrow> if py_eq_int (jget m (u ''material_id'')) (Some material) then listed_ints (jget m (u ''source_message_ids'')) else []
      | _ \<Rightarrow> [])"

definition scheduled_source_ids :: "int \<Rightarrow> json outbox_row list \<Rightarrow> int set" where
  "scheduled_source_ids material rows = set (concat (map (row_copies material) (filter is_copy_row rows)))"

text \<open>The route that is acted on, the members to act on and the state the material ends in.\<close>

definition decide_action :: "material_route \<Rightarrow> int list \<Rightarrow> int set \<Rightarrow> int option \<Rightarrow> material_route \<times> int list \<times> workflow_state" where
  "decide_action route source_ids scheduled destination =
     (let unscheduled = filter (\<lambda>i. i \<notin> scheduled) source_ids;
          settled = (if destination \<noteq> None then Completed else Copy_pending)
      in if route = Auto_copy then
           (if unscheduled \<noteq> [] then (Auto_copy, unscheduled, Copy_pending) else (Leave, unscheduled, settled))
         else if destination \<noteq> None \<or> scheduled \<noteq> {} then (Leave, source_ids, settled)
         else (route, source_ids, workflow_for route))"

definition store_material ::
    "app_settings \<Rightarrow> loaded_source \<Rightarrow> message_row \<Rightarrow> assessment \<Rightarrow> pystr \<Rightarrow> pystr option \<Rightarrow> instant
       \<Rightarrow> material_row list \<Rightarrow> material_error + (material_row list \<times> material_row)" where
  "store_material cfg src anchor a title discipline now rows =
     (case existing_material anchor (ls_group src) rows of
        None \<Rightarrow>
          let r = fresh_material cfg src anchor a title discipline now rows in
          if list_ex (\<lambda>x. mt_source_message_id x = ms_id anchor) rows then Inl Material_integrity_error
          else Inr (rows @ [r], r)
      | Some r \<Rightarrow>
          let r' = refresh_material cfg src anchor a title discipline now r in
          Inr (upd_where (\<lambda>x. mt_id x = mt_id r) (\<lambda>_. r') rows, r'))"

definition assess_and_store ::
    "material_settings \<Rightarrow> pydt \<Rightarrow> loaded_source \<Rightarrow> material_state \<Rightarrow> material_error + (material_state \<times> material_action)" where
  "assess_and_store cfg now src s =
     (case ls_messages src of
        [] \<Rightarrow> Inl Source_not_ready
      | anchor # _ \<Rightarrow>
          if 100 < length (ls_messages src) then Inl Album_too_large
          else if \<not> aware now then Inl (Material_job_error Job_value_error)
          else
            let a = assess_material (evidence_of src) (mc_auto_copy cfg) (mc_review cfg);
                title = material_title (primary_filename (filenames_of src)) (caption_of src) (ls_group src \<noteq> None);
                discipline = discipline_of (topic_names_of src) (is_social (topic_names_of src));
                app = ms_app s
            in and_then (store_material (mc_app cfg) src anchor a title discipline (instant_of now) (ad_materials (st_app app)))
                 (\<lambda>(rows, r).
                 let source_ids = map ms_message_id (ls_messages src);
                     (route, ids, state) = decide_action (as_route a) source_ids
                       (scheduled_source_ids (mt_id r) (st_outbox app)) (mt_destination_message_id r);
                     rows' = upd_where (\<lambda>x. mt_id x = mt_id r) (\<lambda>x. x\<lparr>mt_workflow_state := state\<rparr>) rows;
                     groups = (case ls_group src of None \<Rightarrow> ar_groups (ms_archive s)
                       | Some g \<Rightarrow> upd_where (\<lambda>x. mg_id x = mg_id g) (\<lambda>x. x\<lparr>mg_finalized_at := Some (instant_of now)\<rparr>)
                                    (ar_groups (ms_archive s)))
                 in Inr (s\<lparr>ms_archive := (ms_archive s)\<lparr>ar_groups := groups\<rparr>,
                           ms_app := app\<lparr>st_app := (st_app app)\<lparr>ad_materials := rows'\<rparr>\<rparr>\<rparr>,
                         \<lparr>ma_material_id = mt_id r, ma_route = route, ma_chat_id = so_chat_id (ls_source src), ma_message_ids = ids,
                          ma_is_album = (ls_group src \<noteq> None \<and> 1 < length ids), ma_title = title, ma_assessment = a\<rparr>)))"

section \<open>The messages\<close>

definition message_fingerprint :: "int list \<Rightarrow> pystr" where
  "message_fingerprint ids = take 16 (sha256_hex (join [44] (map show_int ids)))"

definition copy_key :: "material_action \<Rightarrow> pystr" where
  "copy_key a = u ''material-copy:'' @ show_int (ma_material_id a) @ [58] @ message_fingerprint (ma_message_ids a)"

definition copy_payload :: "material_action \<Rightarrow> int \<Rightarrow> (pystr \<times> json) list" where
  "copy_payload a thread =
     [(u ''from_chat_id'', JInt (ma_chat_id a)), (u ''message_thread_id'', JInt thread),
      (u ''_material_copy'', JObj
        [(u ''material_id'', JInt (ma_material_id a)), (u ''expected_count'', JInt (int (length (ma_message_ids a)))),
         (u ''source_message_ids'', JArr (map JInt (ma_message_ids a)))]),
      if ma_is_album a then (u ''message_ids'', JArr (map JInt (ma_message_ids a)))
      else (u ''message_id'', JInt (hd (ma_message_ids a)))]"

definition enqueue_copy :: "app_settings \<Rightarrow> clocks \<Rightarrow> material_action \<Rightarrow> effect" where
  "enqueue_copy cfg clk a =
     with_required (as_materials_topic_id cfg) (\<lambda>thread.
     with_required (as_target_chat_id cfg) (\<lambda>chat.
     enqueue_message clk (if ma_is_album a then u ''telegram.copy_messages'' else u ''telegram.copy_message'')
       (copy_key a) (copy_payload a thread) chat))"

definition reason_labels :: "(pystr \<times> pystr) list" where
  "reason_labels =
     [(u ''academic_file_type'', [1091, 1095, 1077, 1073, 1085, 1099, 1081, 32, 1090, 1080, 1087, 32, 1092, 1072, 1081,
      1083, 1072]),
      (u ''explicit_academic_context'', [1103, 1074, 1085, 1099, 1081, 32, 1091, 1095, 1077, 1073, 1085, 1099, 1081, 32, 1082,
      1086, 1085, 1090, 1077, 1082, 1089, 1090]),
      (u ''explicit_academic_photo'', [1091, 1095, 1077, 1073, 1085, 1072, 1103, 32, 1087, 1086, 1076, 1087, 1080, 1089, 1100,
      32, 1082, 32, 1092, 1086, 1090, 1086]),
      (u ''known_discipline'', [1080, 1079, 1074, 1077, 1089, 1090, 1085, 1072, 1103, 32, 1076, 1080, 1089, 1094, 1080,
      1087, 1083, 1080, 1085, 1072]),
      (u ''extractable_document_text'', [1080, 1079, 1074, 1083, 1077, 1082, 1072, 1077, 1084, 1099, 1081, 32, 1090, 1077, 1082,
      1089, 1090]),
      (u ''photo_requires_context'', [1092, 1086, 1090, 1086, 32, 1090, 1088, 1077, 1073, 1091, 1077, 1090, 32, 1082, 1086,
      1085, 1090, 1077, 1082, 1089, 1090, 1072]),
      (u ''social_topic'', [1085, 1077, 1091, 1095, 1077, 1073, 1085, 1072, 1103, 32, 1090, 1077, 1084, 1072]),
      (u ''explicit_social_context'', [1103, 1074, 1085, 1099, 1081, 32, 1085, 1077, 1091, 1095, 1077, 1073, 1085, 1099, 1081,
      32, 1082, 1086, 1085, 1090, 1077, 1082, 1089, 1090])]"

definition reasons_text :: "assessment \<Rightarrow> pystr" where
  "reasons_text a =
     (if as_reasons a = [] then [1085, 1077, 1076, 1086, 1089, 1090, 1072, 1090, 1086, 1095, 1085, 1086, 32, 1087, 1088,
      1080, 1079, 1085, 1072, 1082, 1086, 1074]
      else join (u '', '') (map (\<lambda>r. case map_of reason_labels r of None \<Rightarrow> r | Some label \<Rightarrow> label) (as_reasons a)))"

text \<open>\<open>f"{p:.0%}"\<close> rounds the float \<open>p * 100\<close> half to even.\<close>

definition percent :: "rat \<Rightarrow> pystr" where
  "percent p = show_int (round_half_even (fl (p * 100))) @ [37]"

definition review_text :: "material_action \<Rightarrow> pystr \<Rightarrow> pystr" where
  "review_text a link =
     [128450, 32, 60, 98, 62, 1052, 1072, 1090, 1077, 1088, 1080, 1072, 1083, 32, 1090, 1088,
      1077, 1073, 1091, 1077, 1090, 32, 1087, 1088, 1086, 1074, 1077, 1088, 1082, 1080,
      60, 47, 98, 62, 10, 10]
     @ html_escape (ma_title a)
     @ [10, 1059, 1074, 1077, 1088, 1077, 1085, 1085, 1086, 1089, 1090, 1100, 58, 32] @ percent (as_probability (ma_assessment a))
     @ [10, 1055, 1088, 1080, 1079, 1085, 1072, 1082, 1080, 58, 32] @ html_escape (reasons_text (ma_assessment a))
     @ [10] @ u ''<a href='' @ [34] @ html_escape link @ [34]
     @ [62, 1054, 1090, 1082, 1088, 1099, 1090, 1100, 32, 1080, 1089, 1093, 1086, 1076, 1085,
      1086, 1077, 32, 1089, 1086, 1086, 1073, 1097, 1077, 1085, 1080, 1077, 60, 47, 97,
      62]"

definition enqueue_review :: "app_settings \<Rightarrow> clocks \<Rightarrow> material_action \<Rightarrow> effect" where
  "enqueue_review cfg clk a =
     (case private_supergroup_link (ma_chat_id a) (hd (ma_message_ids a)) of
        None \<Rightarrow> raise_error Job_value_error
      | Some link \<Rightarrow>
          with_required (as_headman_user_id cfg) (\<lambda>headman.
          enqueue_message clk (u ''telegram.send_message'')
            (u ''material-review:'' @ show_int (ma_material_id a) @ [58] @ message_fingerprint (ma_message_ids a))
            [(u ''text'', JStr (review_text a link)), (u ''disable_notification'', JBool True)] headman))"

section \<open>The job\<close>

definition on_app :: "effect \<Rightarrow> material_state \<Rightarrow> material_state \<times> (material_error + unit)" where
  "on_app f s =
     (case f (ms_app s) of
        (app, Inl e) \<Rightarrow> (s\<lparr>ms_app := app\<rparr>, Inl (Material_job_error e))
      | (app, Inr _) \<Rightarrow> (s\<lparr>ms_app := app\<rparr>, Inr ()))"

definition act_on :: "app_settings \<Rightarrow> clocks \<Rightarrow> material_action \<Rightarrow> effect" where
  "act_on cfg clk a =
     (case ma_route a of Auto_copy \<Rightarrow> enqueue_copy cfg clk a | Admin_review \<Rightarrow> enqueue_review cfg clk a | Leave \<Rightarrow> nothing_to_do)"

definition assessed_source :: "material_settings \<Rightarrow> json \<Rightarrow> archive_db \<Rightarrow> material_error + loaded_source" where
  "assessed_source cfg payload db =
     (case source_from_payload payload of
        Inl e \<Rightarrow> Inl (Material_job_error e)
      | Inr src \<Rightarrow>
          (case as_target_chat_id (mc_app cfg) of
             None \<Rightarrow> Inl (Material_job_error Job_value_error)
           | Some target \<Rightarrow>
               if so_chat_id src \<noteq> target then Inl (Material_job_error Job_value_error)
               else and_then (load_source db src) (\<lambda>loaded.
                 if ls_messages loaded = [] then Inl Source_not_ready else Inr loaded)))"

definition assess_job ::
    "material_settings \<Rightarrow> clocks \<Rightarrow> pydt \<Rightarrow> json \<Rightarrow> material_state \<Rightarrow> material_state \<times> (material_error + unit)" where
  "assess_job cfg clk now payload s =
     (case and_then (assessed_source cfg payload (ms_archive s)) (\<lambda>loaded. assess_and_store cfg now loaded s) of
        Inl e \<Rightarrow> (s, Inl e)
      | Inr (s', a) \<Rightarrow> on_app (act_on (mc_app cfg) clk a) s')"

end
