(* ===== verification/MaterialAutomationProperties.thy ===== *)
theory MaterialAutomationProperties
  imports MaterialAutomation LiveArchiveProperties SenderProperties
begin

text \<open>
  No message is scheduled for two copies of one material, the sender understands every copy envelope
  the job writes, and two ways in which a reassessment never reaches Telegram.
\<close>

section \<open>The action\<close>

lemma store_material_row:
  assumes "store_material cfg src anchor a title discipline now rows = Inr (rows', r)"
  shows "r \<in> set rows'"
proof (cases "existing_material anchor (ls_group src) rows")
  case None
  then show ?thesis using assms by (auto simp: store_material_def Let_def split: if_splits)
next
  case (Some x)
  have "x \<in> set rows" if "sort_key mt_id (filter P rows) = x # xs" for P xs
    using that by (metis filter_is_subset list.set_intros(1) set_sort subsetD)
  then have "x \<in> set rows"
    using Some by (auto simp: existing_material_def dest!: find_Some_set split: option.splits list.splits)
  then show ?thesis using assms Some
    by (auto simp: store_material_def Let_def set_upd_where intro!: rev_image_eqI [of x])
qed

lemma assess_and_store_cases:
  assumes "assess_and_store cfg now src s = Inr (s', a)"
  obtains r :: material_row where "ls_messages src \<noteq> []" "length (ls_messages src) \<le> 100"
    "(ma_route a, ma_message_ids a, mt_workflow_state r) =
       decide_action (as_route (ma_assessment a)) (map ms_message_id (ls_messages src))
         (scheduled_source_ids (ma_material_id a) (st_outbox (ms_app s))) (mt_destination_message_id r)"
    "st_outbox (ms_app s') = st_outbox (ms_app s)" "ma_chat_id a = so_chat_id (ls_source src)"
    "ma_assessment a = assess_material (evidence_of src) (mc_auto_copy cfg) (mc_review cfg)"
    "\<exists>x \<in> set (ad_materials (st_app (ms_app s'))). mt_id x = ma_material_id a \<and> mt_workflow_state x = mt_workflow_state r"
    "ma_is_album a \<longleftrightarrow> ls_group src \<noteq> None \<and> 1 < length (ma_message_ids a)"
proof (cases "ls_messages src")
  case (Cons anchor ms)
  let ?a = "assess_material (evidence_of src) (mc_auto_copy cfg) (mc_review cfg)"
  obtain rows r where st: "store_material (mc_app cfg) src anchor ?a
      (material_title (primary_filename (filenames_of src)) (caption_of src) (ls_group src \<noteq> None))
      (discipline_of (topic_names_of src) (is_social (topic_names_of src))) (instant_of now)
      (ad_materials (st_app (ms_app s))) = Inr (rows, r)"
    using assms Cons by (auto simp: assess_and_store_def Let_def and_then_Inr_iff split: if_splits)
  have "r \<in> set rows" using st by (rule store_material_row)
  then have stored: "\<exists>x \<in> set (upd_where (\<lambda>x. mt_id x = mt_id r) (\<lambda>x. x\<lparr>mt_workflow_state := state\<rparr>) rows).
      mt_id x = mt_id r \<and> mt_workflow_state x = state" for state
    by (intro bexI [of _ "r\<lparr>mt_workflow_state := state\<rparr>"]) (auto simp: set_upd_where intro!: rev_image_eqI [of r])
  obtain route ids state where d: "decide_action (as_route ?a) (map ms_message_id (ls_messages src))
      (scheduled_source_ids (mt_id r) (st_outbox (ms_app s))) (mt_destination_message_id r) = (route, ids, state)"
    by (rule prod_cases3)
  show thesis
    by (rule that [of "r\<lparr>mt_workflow_state := state\<rparr>"])
      (use assms Cons st d stored in \<open>auto simp: assess_and_store_def Let_def split: if_splits\<close>)
qed (use assms in \<open>simp add: assess_and_store_def\<close>)

lemma auto_copy_ids:
  assumes "decide_action route ids scheduled destination = (Auto_copy, ids', state)"
  shows "ids' = filter (\<lambda>i. i \<notin> scheduled) ids" "ids' \<noteq> []" "state = Copy_pending"
  using assms by (auto simp: decide_action_def Let_def split: if_splits)

section \<open>One copy of each message\<close>

definition scheduled_copies :: "int \<Rightarrow> json outbox_row list \<Rightarrow> int list" where
  "scheduled_copies material rows = concat (map (row_copies material) (filter is_copy_row rows))"

lemma scheduled_source_ids_eq: "scheduled_source_ids material rows = set (scheduled_copies material rows)"
  by (simp add: scheduled_source_ids_def scheduled_copies_def)

lemma listed_ints_set: "set (listed_ints (JArr (map JInt ids))) \<subseteq> set ids"
  by (auto simp: listed_ints_def json_positive_def List.map_filter_def split: if_splits)

lemma listed_ints_distinct: "distinct ids \<Longrightarrow> distinct (listed_ints (JArr (map JInt ids)))"
proof (induction ids)
  case (Cons i ids)
  then show ?case using listed_ints_set [of ids]
    by (auto simp: listed_ints_def json_positive_def List.map_filter_simps split: if_splits)
qed (simp add: listed_ints_def List.map_filter_simps)

lemma payload_field_copy:
  "payload_field (JObj (copy_payload a thread)) (u ''_material_copy'') =
     JObj [(u ''material_id'', JInt (ma_material_id a)), (u ''expected_count'', JInt (int (length (ma_message_ids a)))),
           (u ''source_message_ids'', JArr (map JInt (ma_message_ids a)))]"
  by (simp add: payload_field_def copy_payload_def jget_step)

lemma row_copies_of_copy:
  assumes "o_payload r = JObj (copy_payload a thread)"
  shows "row_copies material r = (if material = ma_material_id a then listed_ints (JArr (map JInt (ma_message_ids a))) else [])"
  unfolding row_copies_def assms payload_field_copy by (auto simp: jget_step py_eq_int_def)

lemma enqueue_message_outbox:
  "st_outbox (fst (enqueue_message clk kind key payload chat s)) = st_outbox s
   \<or> (\<exists>r. st_outbox (fst (enqueue_message clk kind key payload chat s)) = st_outbox s @ [r]
          \<and> o_kind r = kind \<and> o_payload r = JObj payload \<and> o_status r = OPending \<and> o_key r = key)"
  by (auto simp: enqueue_message_def enqueue_outbox_def and_then_Inr_iff fresh_outbox_def
      split: sum.splits option.splits if_splits)

lemma scheduled_copies_snoc:
  "scheduled_copies m (rows @ [r]) = scheduled_copies m rows @ (if is_copy_row r then row_copies m r else [])"
  by (simp add: scheduled_copies_def)

lemma enqueue_copy_distinct:
  assumes "distinct (scheduled_copies m (st_outbox s))"
    and "distinct (ma_message_ids a)"
    and "m = ma_material_id a \<Longrightarrow> set (ma_message_ids a) \<inter> set (scheduled_copies m (st_outbox s)) = {}"
  shows "distinct (scheduled_copies m (st_outbox (fst (enqueue_copy cfg clk a s))))"
proof (cases "as_materials_topic_id cfg = None \<or> as_target_chat_id cfg = None")
  case True
  then show ?thesis using assms(1) by (auto simp: enqueue_copy_def with_required_def raise_error_def split: option.splits)
next
  case False
  then obtain thread chat where cfg: "as_materials_topic_id cfg = Some thread" "as_target_chat_id cfg = Some chat" by auto
  let ?kind = "if ma_is_album a then u ''telegram.copy_messages'' else u ''telegram.copy_message''"
  have "enqueue_copy cfg clk a s = enqueue_message clk ?kind (copy_key a) (copy_payload a thread) chat s"
    by (simp add: enqueue_copy_def with_required_def cfg del: u_Cons)
  with enqueue_message_outbox [of clk ?kind "copy_key a" "copy_payload a thread" chat s]
  consider "st_outbox (fst (enqueue_copy cfg clk a s)) = st_outbox s"
    | r where "st_outbox (fst (enqueue_copy cfg clk a s)) = st_outbox s @ [r]" "o_payload r = JObj (copy_payload a thread)"
    by (auto simp del: u_Cons)
  then show ?thesis
  proof cases
    case 2
    then show ?thesis using assms listed_ints_distinct [OF assms(2)] listed_ints_set [of "ma_message_ids a"]
      by (auto simp: scheduled_copies_snoc row_copies_of_copy)
  qed (use assms(1) in simp)
qed

lemma enqueue_review_copies:
  "scheduled_copies m (st_outbox (fst (enqueue_review cfg clk a s))) = scheduled_copies m (st_outbox s)"
proof -
  have "scheduled_copies m (st_outbox (fst (enqueue_message clk (u ''telegram.send_message'') key p chat s)))
      = scheduled_copies m (st_outbox s)" for key p chat
    using enqueue_message_outbox [of clk "u ''telegram.send_message''" key p chat s]
    by (auto simp: scheduled_copies_snoc is_copy_row_def)
  then show ?thesis
    by (auto simp: enqueue_review_def with_required_def raise_error_def simp del: u_Cons split: option.splits)
qed

lemma source_messages_distinct:
  assumes "archive_ok db" and "source_messages db src = Inr (messages, grp)"
  shows "distinct (map ms_message_id messages)"
proof -
  have keys: "distinct (map (\<lambda>r. (ms_chat_id r, ms_message_id r)) (ar_messages db))"
    using assms(1) by (simp add: archive_ok_def)
  have one_chat: "distinct (map ms_message_id (filter P (ar_messages db)))"
    if "\<And>r. P r \<Longrightarrow> ms_chat_id r = so_chat_id src" for P
    using keys that by (auto simp: distinct_map inj_on_def)
  show ?thesis
  proof (cases "so_group_id src")
    case None
    then show ?thesis using assms(2) by (auto simp: source_messages_def split: option.splits)
  next
    case (Some g)
    then obtain g' where "List.find (\<lambda>r. mg_chat_id r = so_chat_id src \<and> mg_telegram_id r = g) (ar_groups db) = Some g'"
      using assms(2) by (auto simp: source_messages_def split: option.splits)
    then have m: "messages = sort_key ms_message_id (filter (\<lambda>r. live_message (so_chat_id src) r
        \<and> ms_media_group_id r = Some (mg_id g')) (ar_messages db))"
      using assms(2) Some by (simp add: source_messages_def)
    have "distinct (map ms_message_id (filter (\<lambda>r. live_message (so_chat_id src) r
        \<and> ms_media_group_id r = Some (mg_id g')) (ar_messages db)))"
      by (rule one_chat) (simp add: live_message_def)
    then show ?thesis unfolding m by (simp only: distinct_map distinct_sort set_sort)
  qed
qed

lemma assessed_source_ids:
  assumes "archive_ok db" and "assessed_source cfg payload db = Inr loaded"
  shows "distinct (map ms_message_id (ls_messages loaded))"
  using assms source_messages_distinct [OF assms(1)]
  by (auto simp: assessed_source_def load_source_def and_then_Inr_iff Let_def split: sum.splits option.splits if_splits)

text \<open>
  C2: However often messages of an album arrive, are edited and are reassessed, no message is scheduled
  for two copies of its material: the live copy rows of the outbox name each source message at most once.
\<close>

theorem message_copied_once:
  assumes "archive_ok (ms_archive s)" and "distinct (scheduled_copies m (st_outbox (ms_app s)))"
  shows "distinct (scheduled_copies m (st_outbox (ms_app (fst (assess_job cfg clk now payload s)))))"
proof (cases "and_then (assessed_source cfg payload (ms_archive s)) (\<lambda>loaded. assess_and_store cfg now loaded s)")
  case (Inl e)
  then show ?thesis using assms(2) by (simp add: assess_job_def)
next
  case (Inr r)
  obtain s' a where r: "r = (s', a)" by fastforce
  with Inr obtain loaded where l: "assessed_source cfg payload (ms_archive s) = Inr loaded"
      and st: "assess_and_store cfg now loaded s = Inr (s', a)" by (auto simp: and_then_Inr_iff)
  have d: "distinct (map ms_message_id (ls_messages loaded))" by (rule assessed_source_ids [OF assms(1) l])
  have run: "st_outbox (ms_app (fst (assess_job cfg clk now payload s)))
      = st_outbox (fst (act_on (mc_app cfg) clk a (ms_app s')))"
    by (simp add: assess_job_def Inr r on_app_def split: prod.splits sum.splits)
  obtain row :: material_row where row:
      "(ma_route a, ma_message_ids a, mt_workflow_state row) =
         decide_action (as_route (ma_assessment a)) (map ms_message_id (ls_messages loaded))
           (scheduled_source_ids (ma_material_id a) (st_outbox (ms_app s))) (mt_destination_message_id row)"
      and same: "st_outbox (ms_app s') = st_outbox (ms_app s)"
    by (rule assess_and_store_cases [OF st]) blast
  show ?thesis
  proof (cases "ma_route a")
    case Auto_copy
    note ids = auto_copy_ids(1) [OF row [symmetric, unfolded Auto_copy]]
    have "distinct (scheduled_copies m (st_outbox (fst (enqueue_copy (mc_app cfg) clk a (ms_app s')))))"
      using assms(2) d by (intro enqueue_copy_distinct) (auto simp: ids same scheduled_source_ids_eq)
    then show ?thesis by (simp add: run act_on_def Auto_copy)
  qed (use assms(2) in \<open>simp_all add: run act_on_def enqueue_review_copies nothing_to_do_def same\<close>)
qed

section \<open>The envelope is understood\<close>

lemma source_messages_sorted:
  assumes "source_messages db src = Inr (messages, grp)"
  shows "sorted (map ms_message_id messages)" "grp = None \<Longrightarrow> length messages \<le> 1"
  using assms by (auto simp: source_messages_def split: option.splits)

lemma assessed_source_sorted:
  assumes "assessed_source cfg payload db = Inr loaded"
  shows "sorted (map ms_message_id (ls_messages loaded))" "ls_group loaded = None \<Longrightarrow> length (ls_messages loaded) \<le> 1"
  using assms source_messages_sorted [of db]
  by (auto simp: assessed_source_def load_source_def and_then_Inr_iff Let_def split: sum.splits option.splits if_splits)

lemma positive_ints:
  assumes "list_all (\<lambda>i. 0 < i) ids"
  shows "List.map_filter json_positive (map JInt ids) = ids" "all_positive (map JInt ids)"
  using assms by (induction ids) (auto simp: List.map_filter_simps json_positive_def all_positive_def)

lemma copy_metadata_read_back:
  assumes "list_all (\<lambda>i. 0 < i) (ma_message_ids a)" "distinct (ma_message_ids a)" "0 < ma_material_id a"
    and "1 \<le> length (ma_message_ids a)" "length (ma_message_ids a) \<le> 100"
  shows "material_copy_metadata (JObj (copy_payload a thread)) =
    Inr (Some \<lparr>cp_material_id = ma_material_id a, cp_expected_count = int (length (ma_message_ids a)),
               cp_source_message_ids = ma_message_ids a\<rparr>)"
  unfolding material_copy_metadata_def payload_field_copy
  using assms by (auto simp: jget_step json_positive_def as_int_def positive_ints)

lemma copy_request:
  assumes "list_all (\<lambda>i. 0 < i) (ma_message_ids a)" "distinct (ma_message_ids a)" "sorted (ma_message_ids a)"
    and "1 \<le> length (ma_message_ids a)" "length (ma_message_ids a) \<le> 100"
    and "oc_kind m = (if ma_is_album a then u ''telegram.copy_messages'' else u ''telegram.copy_message'')"
    and "oc_payload m = JObj (copy_payload a thread)" and "oc_chat_id m = Some chat"
  shows "request_of vk m = Inr (if ma_is_album a then Copy_messages chat (ma_chat_id a) (ma_message_ids a) (Some thread) None
     else Copy_message chat (ma_chat_id a) (hd (ma_message_ids a)) (Some thread) None None)"
proof -
  have ids: "sort (remdups (ma_message_ids a)) = ma_message_ids a"
    using assms(2,3) by (simp add: distinct_remdups_id sorted_sort_id)
  have list: "required_int_list (JObj (copy_payload a thread)) (u ''message_ids'') = Inr (ma_message_ids a)" if "ma_is_album a"
    unfolding required_int_list_def mapping_value_def copy_payload_def
    using that ids assms(1,4,5) by (auto simp: jget_step positive_ints Let_def)
  have fields: "required_int (JObj (copy_payload a thread)) (u ''from_chat_id'') = Inr (ma_chat_id a)"
      "optional_int_field (JObj (copy_payload a thread)) (u ''message_thread_id'') = Inr (Some thread)"
      "optional_text (JObj (copy_payload a thread)) (u ''caption'') = Inr None"
      "optional_bool (JObj (copy_payload a thread)) (u ''disable_notification'') = Inr None"
      "\<not> ma_is_album a \<Longrightarrow> required_int (JObj (copy_payload a thread)) (u ''message_id'') = Inr (hd (ma_message_ids a))"
    unfolding required_int_def optional_int_field_def optional_text_def optional_bool_def mapping_value_def copy_payload_def
    by (simp_all add: jget_step jget_def [of "[]"])
  show ?thesis
  proof (cases "ma_is_album a")
    case True
    have "oc_kind m \<noteq> u ''telegram.send_message''" "oc_kind m \<noteq> u ''telegram.edit_message''"
        "oc_kind m \<noteq> u ''telegram.copy_message''" "oc_kind m = u ''telegram.copy_messages''"
      using assms(6) True by simp_all
    then show ?thesis unfolding request_of_def Let_def required_chat_id_def assms(7,8)
      using True list fields by (simp del: u_Cons)
  next
    case False
    have "oc_kind m \<noteq> u ''telegram.send_message''" "oc_kind m \<noteq> u ''telegram.edit_message''"
        "oc_kind m = u ''telegram.copy_message''"
      using assms(6) False by simp_all
    then show ?thesis unfolding request_of_def Let_def required_chat_id_def assms(7,8)
      using False fields by (simp del: u_Cons)
  qed
qed

text \<open>
  C13: Every copy envelope the assessment writes is one the sender understands: the sender reads back the
  very material and source messages, in the number it expects, and asks Telegram for exactly these
  messages of the source chat (an album in one request, ascending and without repetitions).
\<close>

theorem copy_envelope_understood:
  assumes "archive_ok (ms_archive s)" and "assessed_source cfg payload (ms_archive s) = Inr loaded"
    and "assess_and_store cfg now loaded s = Inr (s', a)" and "ma_route a = Auto_copy"
    and "list_all (\<lambda>r. 0 < ms_message_id r) (ls_messages loaded)" and "0 < ma_material_id a"
    and "oc_kind m = (if ma_is_album a then u ''telegram.copy_messages'' else u ''telegram.copy_message'')"
    and "oc_payload m = JObj (copy_payload a thread)" and "oc_chat_id m = Some chat"
  shows "material_copy_metadata (oc_payload m) =
      Inr (Some \<lparr>cp_material_id = ma_material_id a, cp_expected_count = int (length (ma_message_ids a)),
                 cp_source_message_ids = ma_message_ids a\<rparr>)
    \<and> request_of vk m = Inr (if 1 < length (ma_message_ids a)
        then Copy_messages chat (ma_chat_id a) (ma_message_ids a) (Some thread) None
        else Copy_message chat (ma_chat_id a) (hd (ma_message_ids a)) (Some thread) None None)"
proof -
  obtain row :: material_row where row: "length (ls_messages loaded) \<le> 100"
      "(ma_route a, ma_message_ids a, mt_workflow_state row) =
         decide_action (as_route (ma_assessment a)) (map ms_message_id (ls_messages loaded))
           (scheduled_source_ids (ma_material_id a) (st_outbox (ms_app s))) (mt_destination_message_id row)"
      "ma_is_album a \<longleftrightarrow> ls_group loaded \<noteq> None \<and> 1 < length (ma_message_ids a)"
    by (rule assess_and_store_cases [OF assms(3)]) blast
  note ids = auto_copy_ids [OF row(2) [symmetric, unfolded assms(4)]]
  have len: "length (ma_message_ids a) \<le> length (ls_messages loaded)" using ids(1) by (metis length_filter_le length_map)
  have one: "1 \<le> length (ma_message_ids a)" using ids(2) by (cases "ma_message_ids a") auto
  have pos: "list_all (\<lambda>i. 0 < i) (ma_message_ids a)" using assms(5) ids(1) by (auto simp: list_all_iff)
  have dist: "distinct (ma_message_ids a)" using assessed_source_ids [OF assms(1,2)] ids(1) by simp
  have sort: "sorted (ma_message_ids a)"
    using assessed_source_sorted(1) [OF assms(2)] ids(1) by (simp add: sorted_wrt_filter)
  have album: "ma_is_album a \<longleftrightarrow> 1 < length (ma_message_ids a)"
    using row(3) assessed_source_sorted(2) [OF assms(2)] len by fastforce
  show ?thesis
    using copy_metadata_read_back [OF pos dist assms(6) one, of thread] copy_request [OF pos dist sort one _ assms(7-9), of vk]
      len row(1) album assms(8) by simp
qed

section \<open>Reassessments that do not reach Telegram\<close>

lemma enqueue_known_key:
  assumes "List.find (\<lambda>r. o_key r = key) (st_outbox s) = Some r"
    and "aware (clk key 0)" "aware (clk key 1)" and "validate_enqueue kind key 8 = Inr ()"
  shows "enqueue_message clk kind key payload chat s =
    (s, if o_kind r = kind \<and> o_payload r = JObj payload \<and> o_chat_id r = Some chat \<and> o_job_id r = None then Inr ()
        else Inl (Job_queue_error IdempotencyConflictError))"
  using assms by (simp add: enqueue_message_def enqueue_outbox_def aware_time_def column_time_def)





definition review_key :: "material_action \<Rightarrow> pystr" where
  "review_key a = u ''material-review:'' @ show_int (ma_material_id a) @ [58] @ message_fingerprint (ma_message_ids a)"

text \<open>
  A material in review whose text changes makes its job fail: the key of the review message names only the
  material and its messages, so the message with the new title or probability conflicts with the queued
  one, the headman never sees it, and the worker repeats the job until its attempts are used up.
\<close>

theorem edited_review_conflicts:
  assumes "and_then (assessed_source cfg payload (ms_archive s)) (\<lambda>loaded. assess_and_store cfg now loaded s) = Inr (s', a)"
    and "ma_route a = Admin_review" and "as_headman_user_id (mc_app cfg) = Some headman"
    and "private_supergroup_link (ma_chat_id a) (hd (ma_message_ids a)) = Some link"
    and "List.find (\<lambda>r. o_key r = review_key a) (st_outbox (ms_app s')) = Some r"
    and "payload_field (o_payload r) (u ''text'') \<noteq> JStr (review_text a link)"
    and "aware (clk (review_key a) 0)" "aware (clk (review_key a) 1)" and "length (review_key a) \<le> 255"
  shows "snd (assess_job cfg clk now payload s) = Inl (Material_job_error (Job_queue_error IdempotencyConflictError))
    \<and> st_outbox (ms_app (fst (assess_job cfg clk now payload s))) = st_outbox (ms_app s)"
proof -
  let ?body = "[(u ''text'', JStr (review_text a link)), (u ''disable_notification'', JBool True)]"
  obtain loaded where st: "assess_and_store cfg now loaded s = Inr (s', a)" using assms(1) by (auto simp: and_then_Inr_iff)
  have same: "st_outbox (ms_app s') = st_outbox (ms_app s)" by (rule assess_and_store_cases [OF st])
  have ok: "validate_enqueue (u ''telegram.send_message'') (review_key a) 8 = Inr ()"
    using assms(9) by (simp add: validate_enqueue_def guard_def review_key_def MAX_ATTEMPTS_def)
  have "o_payload r \<noteq> JObj ?body"
  proof
    assume "o_payload r = JObj ?body"
    then have "payload_field (o_payload r) (u ''text'') = JStr (review_text a link)"
      by (simp add: payload_field_def jget_step)
    with assms(6) show False by simp
  qed
  then have "enqueue_review (mc_app cfg) clk a (ms_app s') = (ms_app s', Inl (Job_queue_error IdempotencyConflictError))"
    using enqueue_known_key [of "review_key a" "ms_app s'" r clk, OF assms(5,7,8) ok, of ?body headman] assms(3,4)
    by (simp add: enqueue_review_def with_required_def review_key_def del: u_Cons)
  then show ?thesis
    by (simp add: assess_job_def assms(1,2) act_on_def on_app_def same)
qed

section \<open>Concrete runs\<close>

definition library_row :: message_row where
  "library_row = fresh_message 0 demo_old []"

definition library_archive :: archive_db where
  "library_archive = \<lparr>ar_users = [], ar_topics = [], ar_groups = [], ar_messages = [library_row], ar_files = [],
     ar_documents = [\<lparr>sd_id = 1, sd_source_type = u ''message'', sd_source_id = 1,
       sd_content = document_content library_row [], sd_metadata = [], sd_updated_at = 0\<rparr>]\<rparr>"

definition library_settings :: "rat \<Rightarrow> rat \<Rightarrow> material_settings" where
  "library_settings auto review =
     \<lparr>mc_app = \<lparr>as_schedule_only = False, as_target_chat_id = Some (- 1001), as_schedule_topic_id = Some 3,
        as_materials_topic_id = Some 9, as_headman_user_id = Some 42, as_window_minutes = 10, as_reaction = [10003]\<rparr>,
      mc_auto_copy = auto, mc_review = review\<rparr>"

definition library_state :: "json outbox_row list \<Rightarrow> material_state" where
  "library_state rows =
     \<lparr>ms_archive = library_archive,
      ms_app = \<lparr>st_app = \<lparr>ad_schedule = no_schedules,
          ad_attendance = demo_db, ad_materials = []\<rparr>,
        st_outbox = rows, st_jobs = []\<rparr>\<rparr>"

definition library_payload :: json where
  "library_payload = JObj [(u ''chat_id'', JInt (- 1001)), (u ''message_id'', JInt 5)]"

definition library_source :: loaded_source where
  "library_source = \<lparr>ls_source = \<lparr>so_chat_id = - 1001, so_message_id = Some 5, so_group_id = None\<rparr>,
     ls_messages = [library_row], ls_files = [], ls_topics = [], ls_group = None\<rparr>"

definition library_action :: "material_route \<Rightarrow> rat \<Rightarrow> rat \<Rightarrow> material_action" where
  "library_action route auto review =
     \<lparr>ma_material_id = 1, ma_route = route, ma_chat_id = - 1001, ma_message_ids = [5], ma_is_album = False,
      ma_title = material_title (primary_filename (filenames_of library_source)) (caption_of library_source) False,
      ma_assessment = assess_material (evidence_of library_source) auto review\<rparr>"

lemma library_action_fields:
  "ma_route (library_action route a b) = route" "\<not> ma_is_album (library_action route a b)"
  by (simp_all add: library_action_def)

lemma library_row_fields:
  "ms_id library_row = 1" "ms_chat_id library_row = - 1001" "ms_message_id library_row = 5"
  "ms_deleted_at library_row = None" "ms_topic_id library_row = None"
  by (simp_all add: library_row_def fresh_message_def demo_old_def demo_message_def next_id_def)

lemma library_archive_ok: "archive_ok library_archive"
  by (simp add: archive_ok_def library_archive_def document_keys_def document_content_of_def is_document_of_def
      library_row_fields files_of_def del: u_Cons)

lemma library_loaded: "assessed_source (library_settings auto review) library_payload library_archive = Inr library_source"
  by (simp add: assessed_source_def library_payload_def source_from_payload_def payload_int_def as_int_def jget_step
      jget_def [of "[]"] library_settings_def load_source_def source_messages_def library_archive_def live_message_def
      library_row_fields library_source_def first_seen_def List.map_filter_simps guard_def)

lemma library_assessed:
  assumes "as_route (assess_material (evidence_of library_source) auto review) = route" and "route \<noteq> Leave"
    and "scheduled_source_ids 1 rows = {}"
  shows "\<exists>s'. and_then (assessed_source (library_settings auto review) library_payload (ms_archive (library_state rows)))
      (\<lambda>loaded. assess_and_store (library_settings auto review) (utc_at 0) loaded (library_state rows))
        = Inr (s', library_action route auto review) \<and> st_outbox (ms_app s') = rows"
proof -
  have src: "ms_archive (library_state rows) = library_archive" by (simp add: library_state_def)
  have msgs: "ls_messages library_source = [library_row]" "ls_group library_source = None" "ls_source library_source =
      \<lparr>so_chat_id = - 1001, so_message_id = Some 5, so_group_id = None\<rparr>" by (simp_all add: library_source_def)
  have app: "ad_materials (st_app (ms_app (library_state rows))) = []" "st_outbox (ms_app (library_state rows)) = rows"
    by (simp_all add: library_state_def)
  have cfg: "mc_auto_copy (library_settings auto review) = auto" "mc_review (library_settings auto review) = review"
    by (simp_all add: library_settings_def)
  have decided: "decide_action route [5] {} None = (route, [5], workflow_for route)"
    using assms(2) by (cases route) (simp_all add: decide_action_def workflow_for_def)
  have id: "mt_id (fresh_material c library_source library_row x ti d n []) = 1"
      "mt_destination_message_id (fresh_material c library_source library_row x ti d n []) = None" for c x ti d n
    by (simp_all add: fresh_material_def next_id_def)
  show ?thesis
    by (simp add: src library_loaded assess_and_store_def msgs app cfg store_material_def existing_material_def id assms(1,3)
        library_row_fields decided library_action_def Let_def)
qed

lemma route_of_thresholds:
  "as_route (assess_material m 0 r) = Auto_copy" "1 < a \<Longrightarrow> as_route (assess_material m a 0) = Admin_review"
  by (auto simp: assess_material_def Let_def min_def max_def)

lemma library_key: "length (copy_key (library_action r a b)) \<le> 255" "length (review_key (library_action r a b)) \<le> 255"
  by (simp_all add: copy_key_def review_key_def message_fingerprint_def library_action_def show_int_def
      show_nat.simps [of "Suc 0"] min_def)

definition library_outbox_row :: "pystr \<Rightarrow> pystr \<Rightarrow> (pystr \<times> json) list \<Rightarrow> int \<Rightarrow> outbox_status \<Rightarrow> json outbox_row" where
  "library_outbox_row kind key payload chat status =
     (fresh_outbox [] kind key (JObj payload) (Some chat) None 0 8 0)\<lparr>o_status := status\<rparr>"

lemma library_outbox_row_fields:
  "o_key (library_outbox_row kind key payload chat status) = key" "o_kind (library_outbox_row kind key payload chat status) = kind"
  "o_payload (library_outbox_row kind key payload chat status) = JObj payload"
  "o_chat_id (library_outbox_row kind key payload chat status) = Some chat"
  "o_status (library_outbox_row kind key payload chat status) = status" "o_job_id (library_outbox_row kind key payload chat status) = None"
  by (simp_all add: library_outbox_row_def fresh_outbox_def)

lemma library_settings_fields:
  "as_materials_topic_id (mc_app (library_settings a b)) = Some 9" "as_target_chat_id (mc_app (library_settings a b)) = Some (- 1001)"
  "as_headman_user_id (mc_app (library_settings a b)) = Some 42"
  by (simp_all add: library_settings_def)

lemma message_copied_once_witness:
  "distinct (scheduled_copies 1 (st_outbox (ms_app (fst (assess_job (library_settings 0 0) (\<lambda>_ _. utc_at 0) (utc_at 0)
     library_payload (library_state []))))))"
  by (rule message_copied_once) (simp_all add: library_state_def library_archive_ok scheduled_copies_def)

lemma copy_envelope_understood_witness:
  "\<exists>m. material_copy_metadata (oc_payload m) =
        Inr (Some \<lparr>cp_material_id = 1, cp_expected_count = 1, cp_source_message_ids = [5]\<rparr>)
     \<and> request_of (\<lambda>_. True) m = Inr (Copy_message (- 1001) (- 1001) 5 (Some 9) None None)"
proof -
  let ?a = "library_action Auto_copy 0 0"
  let ?m = "\<lparr>oc_id = 1, oc_kind = u ''telegram.copy_message'', oc_key = [], oc_chat_id = Some (- 1001),
     oc_payload = JObj (copy_payload ?a 9), oc_attempt = 1, oc_max_attempts = 8, oc_leased_until = utc_at 0\<rparr>"
  obtain s' where s: "and_then (assessed_source (library_settings 0 0) library_payload (ms_archive (library_state [])))
      (\<lambda>loaded. assess_and_store (library_settings 0 0) (utc_at 0) loaded (library_state [])) = Inr (s', ?a)"
    using library_assessed [OF route_of_thresholds(1), of "[]" 0] by (auto simp: scheduled_source_ids_def)
  have db: "ms_archive (library_state []) = library_archive" by (simp add: library_state_def)
  then have st: "assess_and_store (library_settings 0 0) (utc_at 0) library_source (library_state []) = Inr (s', ?a)"
    using s library_loaded [of 0 0] by simp
  have "material_copy_metadata (oc_payload ?m) =
      Inr (Some \<lparr>cp_material_id = ma_material_id ?a, cp_expected_count = int (length (ma_message_ids ?a)),
                 cp_source_message_ids = ma_message_ids ?a\<rparr>)
    \<and> request_of (\<lambda>_. True) ?m = Inr (if 1 < length (ma_message_ids ?a)
        then Copy_messages (- 1001) (ma_chat_id ?a) (ma_message_ids ?a) (Some 9) None
        else Copy_message (- 1001) (ma_chat_id ?a) (hd (ma_message_ids ?a)) (Some 9) None None)"
    by (rule copy_envelope_understood [OF _ _ st, where payload = library_payload])
      (simp_all add: db library_archive_ok library_loaded library_action_def library_source_def library_row_fields)
  then show ?thesis by (intro exI [of _ ?m]) (simp add: library_action_def)
qed


lemma edited_review_conflicts_witness:
  "\<exists>rows. snd (assess_job (library_settings 2 0) (\<lambda>_ _. utc_at 0) (utc_at 0) library_payload (library_state rows))
       = Inl (Material_job_error (Job_queue_error IdempotencyConflictError))
     \<and> st_outbox (ms_app (fst (assess_job (library_settings 2 0) (\<lambda>_ _. utc_at 0) (utc_at 0) library_payload (library_state rows)))) = rows"
proof -
  let ?a = "library_action Admin_review 2 0"
  let ?r = "library_outbox_row (u ''telegram.send_message'') (review_key ?a)
    [(u ''text'', JStr (u ''old'')), (u ''disable_notification'', JBool True)] 42 OSent"
  have none: "scheduled_source_ids 1 [?r] = {}" by (simp add: scheduled_source_ids_def is_copy_row_def library_outbox_row_fields)
  have route: "as_route (assess_material (evidence_of library_source) 2 0) = Admin_review" by (simp add: route_of_thresholds)
  obtain s' where s: "and_then (assessed_source (library_settings 2 0) library_payload (ms_archive (library_state [?r])))
      (\<lambda>loaded. assess_and_store (library_settings 2 0) (utc_at 0) loaded (library_state [?r])) = Inr (s', ?a)"
      "st_outbox (ms_app s') = [?r]"
    using library_assessed [OF route _ none] by auto
  have link: "private_supergroup_link (ma_chat_id ?a) (hd (ma_message_ids ?a)) = Some (u ''https://t.me/c/1/5'')"
    by (simp add: library_action_def private_supergroup_link_def show_int_def show_nat.simps)
  have "snd (assess_job (library_settings 2 0) (\<lambda>_ _. utc_at 0) (utc_at 0) library_payload (library_state [?r]))
      = Inl (Material_job_error (Job_queue_error IdempotencyConflictError))
    \<and> st_outbox (ms_app (fst (assess_job (library_settings 2 0) (\<lambda>_ _. utc_at 0) (utc_at 0) library_payload (library_state [?r]))))
       = st_outbox (ms_app (library_state [?r]))"
    by (rule edited_review_conflicts [OF s(1) _ _ link, of 42 ?r])
      (simp_all add: library_settings_fields s(2) library_outbox_row_fields library_key payload_field_def jget_step
        review_text_def library_action_fields)
  then show ?thesis
    by (intro exI [of _ "[?r]"]) (simp add: library_state_def)
qed

end
