(* ===== verification/Publisher.thy ===== *)
theory Publisher
  imports CiDigest ICal SpbGasu
begin

text \<open>
  \<open>publisher.py\<close>: the hosted publication. One job builds the two-week envelope from the public source
  and hands it over; the other compares it with the last one delivered, keeps one pinned card up to
  date and sends notices and reminders through a destination. What lies behind the destination is a
  state of type \<open>'w\<close>; the state file is JSON, the calendar artifact a text.
\<close>

section \<open>Effects\<close>

datatype publish_error =
    Pub_value_error
  | Pub_ci_error ci_error
  | Pub_schedule_error schedule_error
  | Pub_gasu_error gasu_error
  | Pub_runtime_error pystr
  | Pub_render_error
  | Pub_file_error
  | Pub_state_error
  | Pub_torn_error
  | Pub_transport_error

text \<open>
  \<open>pw_file\<close> is the state file, \<open>None\<close> when it is missing or not JSON. \<open>pw_disk n\<close> is what becomes of the
  \<open>n\<close>-th next write of it: \<open>mkdir\<close> or \<open>open\<close> may be refused, which leaves the file as it was, and
  \<open>write_text\<close> may break off, which leaves the file cut short, for it is emptied first.
\<close>

datatype disk_write = Written | Refused | Cut_short

record 'w publisher_world =
  pw_net :: 'w
  pw_file :: "json option"
  pw_disk :: "nat \<Rightarrow> disk_write"
  pw_calendar :: "pystr option"

type_synonym ('w, 'a) publishing = "'w publisher_world \<Rightarrow> 'w publisher_world \<times> (publish_error + 'a)"

definition pub_return :: "'a \<Rightarrow> ('w, 'a) publishing" where
  "pub_return x w = (w, Inr x)"

definition pub_raise :: "publish_error \<Rightarrow> ('w, 'a) publishing" where
  "pub_raise e w = (w, Inl e)"

definition pub_bind :: "('w, 'a) publishing \<Rightarrow> ('a \<Rightarrow> ('w, 'b) publishing) \<Rightarrow> ('w, 'b) publishing" where
  "pub_bind m f w = (case m w of (w', Inl e) \<Rightarrow> (w', Inl e) | (w', Inr x) \<Rightarrow> f x w')"

definition pub_lift :: "('e \<Rightarrow> publish_error) \<Rightarrow> 'e + 'a \<Rightarrow> ('w, 'a) publishing" where
  "pub_lift err r = (case r of Inl e \<Rightarrow> pub_raise (err e) | Inr x \<Rightarrow> pub_return x)"

definition pub_check :: "bool \<Rightarrow> ('w, unit) publishing" where
  "pub_check ok = (if ok then pub_return () else pub_raise Pub_value_error)"

definition pub_some :: "'a option \<Rightarrow> ('w, 'a) publishing" where
  "pub_some v = (case v of None \<Rightarrow> pub_raise Pub_render_error | Some x \<Rightarrow> pub_return x)"

definition pub_net :: "('w \<Rightarrow> 'w \<times> (publish_error + 'a)) \<Rightarrow> ('w, 'a) publishing" where
  "pub_net f w = (let (n, r) = f (pw_net w) in (w\<lparr>pw_net := n\<rparr>, r))"

definition pub_when :: "bool \<Rightarrow> ('w, int list) publishing \<Rightarrow> ('w, int list) publishing" where
  "pub_when b m = (if b then m else pub_return [])"

text \<open>The destination; a personal one carries a key of its own card.\<close>

record 'w destination =
  de_card_key :: "pystr option"
  de_send :: "int \<Rightarrow> int \<Rightarrow> pystr \<Rightarrow> 'w \<Rightarrow> 'w \<times> (publish_error + int)"
  de_send_rich :: "int \<Rightarrow> int \<Rightarrow> pystr \<Rightarrow> pystr \<Rightarrow> bool \<Rightarrow> 'w \<Rightarrow> 'w \<times> (publish_error + int)"
  de_edit_rich :: "(int \<Rightarrow> int \<Rightarrow> pystr \<Rightarrow> pystr \<Rightarrow> 'w \<Rightarrow> 'w \<times> (publish_error + int)) option"
  de_pin :: "(int \<Rightarrow> int \<Rightarrow> 'w \<Rightarrow> 'w \<times> (publish_error + unit)) option"

record publisher_settings =
  px_target_chat_id :: "int option"
  px_topic_id :: "int option"
  px_group :: "pystr option"
  px_zone :: "instant \<Rightarrow> int"
  px_local :: "int \<Rightarrow> int"
  px_quiet :: bool
  px_calendar_url :: "pystr option"

section \<open>Settings\<close>

definition required_number :: "int option \<Rightarrow> bool \<Rightarrow> ('w, int) publishing" where
  "required_number v negative =
     (case v of
        None \<Rightarrow> pub_raise Pub_value_error
      | Some n \<Rightarrow> if (negative \<and> 0 \<le> n) \<or> (\<not> negative \<and> n \<le> 0) then pub_raise Pub_value_error else pub_return n)"

definition required_words :: "pystr option \<Rightarrow> ('w, pystr) publishing" where
  "required_words v =
     (case v of None \<Rightarrow> pub_raise Pub_value_error
      | Some s \<Rightarrow> if strip s = [] then pub_raise Pub_value_error else pub_return (strip s))"

definition repository_char :: "nat \<Rightarrow> bool" where
  "repository_char c \<longleftrightarrow> (65 \<le> c \<and> c \<le> 90) \<or> (97 \<le> c \<and> c \<le> 122) \<or> (48 \<le> c \<and> c \<le> 57) \<or> c \<in> {95, 46, 45}"

definition required_repository :: "pystr \<Rightarrow> ('w, pystr) publishing" where
  "required_repository v =
     pub_bind (required_words (Some v)) (\<lambda>s.
     let owner = takeWhile (\<lambda>c. c \<noteq> 47) s; name = drop (length owner + 1) s in
     if owner \<noteq> [] \<and> name \<noteq> [] \<and> list_all repository_char owner \<and> list_all repository_char name
     then pub_return s else pub_raise Pub_value_error)"

section \<open>The envelope of the source\<close>

text \<open>\<open>source\<close>: the answers of \<open>fetch_bootstrap\<close> and \<open>fetch_group\<close>.\<close>

record source_answers =
  sa_bootstrap :: "gasu_error + bootstrap"
  sa_weekly :: "gasu_error + weekly_schedule"

definition week_lessons :: "bootstrap \<Rightarrow> weekly_schedule \<Rightarrow> date \<Rightarrow> date \<Rightarrow> publish_error + lesson list" where
  "week_lessons b weekly current_monday monday =
     (case and_then (parity_for_week (bs_current_week b) current_monday monday) (\<lambda>par. materialize_week weekly monday par) of
        Inl e \<Rightarrow> Inl (Pub_gasu_error e) | Inr ls \<Rightarrow> Inr ls)"

definition fetched_weekly :: "source_answers \<Rightarrow> pystr \<Rightarrow> publish_error + (bootstrap \<times> weekly_schedule)" where
  "fetched_weekly src group_key =
     (case sa_bootstrap src of
        Inl e \<Rightarrow> Inl (Pub_gasu_error e)
      | Inr b \<Rightarrow>
          (case sa_weekly src of
             Inl e \<Rightarrow> Inl (Pub_gasu_error e)
           | Inr weekly \<Rightarrow> if strip (ws_group_key weekly) \<noteq> strip group_key then Inl Pub_value_error else Inr (b, weekly)))"

definition build_schedule_envelope ::
    "(instant \<Rightarrow> int) \<Rightarrow> source_answers \<Rightarrow> pystr \<Rightarrow> pydt \<Rightarrow> bool \<Rightarrow> publish_error + envelope" where
  "build_schedule_envelope zone src group_key now force_digest =
     (let local_now = in_zone zone now; current_monday = dt_date local_now - weekday (dt_date local_now) in
      and_then (fetched_weekly src group_key) (\<lambda>(b, weekly).
      and_then (week_lessons b weekly current_monday current_monday) (\<lambda>first_week.
      and_then (week_lessons b weekly current_monday (current_monday + 7)) (\<lambda>second_week.
      case new_envelope \<lparr>ev_group_key = group_key, ev_fetched_at = local_now, ev_start = current_monday,
             ev_end = current_monday + 13, ev_lessons = first_week @ second_week, ev_force_digest = force_digest\<rparr> of
        Inl e \<Rightarrow> Inl (Pub_ci_error e) | Inr e \<Rightarrow> Inr e))))"

definition build_tomorrow_card :: "(instant \<Rightarrow> int) \<Rightarrow> source_answers \<Rightarrow> pystr \<Rightarrow> pydt \<Rightarrow> publish_error + pystr" where
  "build_tomorrow_card zone src group_key now =
     (let today = dt_date (in_zone zone now); tomorrow = today + 1;
          current_monday = today - weekday today; target_monday = tomorrow - weekday tomorrow in
      and_then (fetched_weekly src group_key) (\<lambda>(b, weekly).
      and_then (week_lessons b weekly current_monday target_monday) (\<lambda>lessons.
      Inr (render_day_card tomorrow (filter (\<lambda>l. l_day l = tomorrow) lessons) [1047, 1072, 1074, 1090, 1088, 1072] False))))"

section \<open>The one-card payload\<close>

definition tomorrow_prefix :: pystr where
  "tomorrow_prefix = [128197, 32, 60, 98, 62, 1047, 1072, 1074, 1090, 1088, 1072, 60, 47, 98, 62, 32, 183, 32]"

definition validate_schedule_card :: "pystr \<Rightarrow> publish_error + unit" where
  "validate_schedule_card txt =
     (if \<not> starts_with tomorrow_prefix txt then Inl Pub_value_error
      else if contains (u ''rasp.spbgasu.ru'') txt \<or> contains [1048, 1089, 1090, 1086, 1095, 1085, 1080, 1082, 58, 32, 1057, 1055, 1073, 1043, 1040,
      1057, 1059] txt
      then Inl Pub_value_error
      else if 4096 < length txt then Inl Pub_value_error else Inr ())"

text \<open>\<open>pack\<close>: base64 of UTF-8; \<open>plain\<close>: its inverse, \<open>None\<close> for what is neither.\<close>

definition encode_schedule_card :: "(pystr \<Rightarrow> 't) \<Rightarrow> pystr \<Rightarrow> publish_error + 't" where
  "encode_schedule_card pack txt = and_then (validate_schedule_card txt) (\<lambda>_. Inr (pack txt))"

definition decode_schedule_card :: "('t \<Rightarrow> pystr option) \<Rightarrow> 't \<Rightarrow> publish_error + pystr" where
  "decode_schedule_card plain v =
     (case plain v of
        None \<Rightarrow> Inl Pub_value_error
      | Some txt \<Rightarrow> and_then (validate_schedule_card txt) (\<lambda>_. Inr txt))"

definition decode_legacy_card :: "('t \<Rightarrow> pystr option) \<Rightarrow> 't \<Rightarrow> publish_error + pystr option" where
  "decode_legacy_card plain v =
     (case plain v of
        None \<Rightarrow> Inr None
      | Some txt \<Rightarrow>
          if \<not> starts_with tomorrow_prefix txt then Inr None
          else and_then (validate_schedule_card txt) (\<lambda>_. Inr (Some txt)))"

section \<open>The pinned card\<close>

definition card_id :: "delivery_state \<Rightarrow> pystr option \<Rightarrow> int option" where
  "card_id s key = (case key of None \<Rightarrow> ds_calendar_message s | Some k \<Rightarrow> map_of (rev (ds_user_cards s)) k)"

definition with_card :: "delivery_state \<Rightarrow> pystr option \<Rightarrow> int option \<Rightarrow> delivery_state" where
  "with_card s key message_id =
     (case key of
        None \<Rightarrow> s\<lparr>ds_calendar_message := message_id\<rparr>
      | Some k \<Rightarrow> s\<lparr>ds_user_cards := sort_key id (dict_of
          (ds_user_cards s @ (case message_id of None \<Rightarrow> [] | Some i \<Rightarrow> [(k, i)])))\<rparr>)"

text \<open>\<open>"message to edit not found" in str(exc).casefold()\<close> for a \<open>RuntimeError\<close>.\<close>

definition card_is_gone :: "publish_error \<Rightarrow> bool" where
  "card_is_gone e = (case e of Pub_runtime_error s \<Rightarrow> contains (u ''message to edit not found'') (casefold s) | _ \<Rightarrow> False)"

definition pin_quietly :: "'w destination \<Rightarrow> int \<Rightarrow> int \<Rightarrow> ('w, unit) publishing" where
  "pin_quietly d chat i =
     (case de_pin d of
        None \<Rightarrow> pub_return ()
      | Some pin \<Rightarrow> (\<lambda>w. case pub_net (pin chat i) w of
          (w', Inl (Pub_runtime_error _)) \<Rightarrow> (w', Inr ()) | (w', r) \<Rightarrow> (w', r)))"

definition create_card :: "'w destination \<Rightarrow> int \<Rightarrow> int \<Rightarrow> pystr \<Rightarrow> pystr \<Rightarrow> ('w, int) publishing" where
  "create_card d chat topic rich fallback =
     pub_bind (pub_net (de_send_rich d chat topic rich fallback True)) (\<lambda>created.
     pub_bind (pin_quietly d chat created) (\<lambda>_. pub_return created))"

definition upsert_calendar ::
    "'w destination \<Rightarrow> int \<Rightarrow> int \<Rightarrow> int option \<Rightarrow> pystr \<Rightarrow> pystr \<Rightarrow> ('w, int) publishing" where
  "upsert_calendar d chat topic message_id rich fallback =
     (case (message_id, de_edit_rich d) of
        (Some i, Some edit) \<Rightarrow>
          (\<lambda>w. case pub_net (edit chat i rich fallback) w of
             (w', Inl e) \<Rightarrow> if card_is_gone e then create_card d chat topic rich fallback w' else (w', Inl e)
           | (w', Inr edited) \<Rightarrow> (w', Inr edited))
      | _ \<Rightarrow> create_card d chat topic rich fallback)"

definition topic_message_url :: "int \<Rightarrow> int \<Rightarrow> int \<Rightarrow> pystr option" where
  "topic_message_url chat topic message_id =
     (if starts_with (u ''-100'') (show_int chat)
      then Some (u ''https://t.me/c/'' @ drop 4 (show_int chat) @ [47] @ show_int topic @ [47] @ show_int message_id)
      else None)"

section \<open>State and artifact\<close>

definition load_state :: "('w, delivery_state) publishing" where
  "load_state w = (w, Inr (load_delivery_state (pw_file w)))"

definition save_state :: "delivery_state \<Rightarrow> ('w, unit) publishing" where
  "save_state s w =
     (let w' = w\<lparr>pw_disk := (\<lambda>n. pw_disk w (Suc n))\<rparr> in
      case pw_disk w 0 of
        Written \<Rightarrow> (w'\<lparr>pw_file := Some (save_delivery_state s)\<rparr>, Inr ())
      | Refused \<Rightarrow> (w', Inl Pub_state_error)
      | Cut_short \<Rightarrow> (w'\<lparr>pw_file := None\<rparr>, Inl Pub_torn_error))"

text \<open>\<open>calendar_path\<close>: \<open>None\<close> when there is none, otherwise whether it can be written.\<close>

definition write_calendar :: "bool option \<Rightarrow> envelope \<Rightarrow> ('w, unit) publishing" where
  "write_calendar path e =
     (case path of
        None \<Rightarrow> pub_return ()
      | Some writable \<Rightarrow>
          if writable then (\<lambda>w. (w\<lparr>pw_calendar := Some (render_icalendar e)\<rparr>, Inr ())) else pub_raise Pub_file_error)"

section \<open>Publishing an envelope\<close>

text \<open>Where a run delivers to.\<close>

record target =
  tg_chat :: int
  tg_topic :: int
  tg_card_key :: "pystr option"

definition refresh_card ::
    "publisher_settings \<Rightarrow> 'w destination \<Rightarrow> target \<Rightarrow> envelope \<Rightarrow> pydt \<Rightarrow> int option \<Rightarrow> ('w, int) publishing" where
  "refresh_card cfg d t e local_now message_id =
     pub_bind (pub_lift Pub_ci_error (render_rich_digest (px_zone cfg) (px_local cfg) e local_now (px_calendar_url cfg))) (\<lambda>rich.
     pub_bind (pub_lift Pub_ci_error (render_digest_fallback (px_zone cfg) e local_now (px_calendar_url cfg))) (\<lambda>fallback.
     upsert_calendar d (tg_chat t) (tg_topic t) message_id rich fallback))"

definition notice_link :: "pystr option \<Rightarrow> pystr \<Rightarrow> pystr \<Rightarrow> pystr" where
  "notice_link url before after =
     (case url of
        None \<Rightarrow> []
      | Some x \<Rightarrow> before @ u ''<a href='' @ [34] @ x @ [34] @ [62, 1054, 1090, 1082, 1088, 1099, 1090, 1100, 32, 1088, 1072, 1089, 1087, 1080, 1089,
      1072, 1085, 1080, 1077, 60, 47, 97, 62] @ after)"

definition publish_notice ::
    "publisher_settings \<Rightarrow> 'w destination \<Rightarrow> target \<Rightarrow> envelope \<Rightarrow> pydt \<Rightarrow> int \<Rightarrow> change list \<Rightarrow> ('w, int list) publishing" where
  "publish_notice cfg d t e local_now message_id notices =
     pub_when (notices \<noteq> []) (
     let url = topic_message_url (tg_chat t) (tg_topic t) message_id in
     pub_bind (pub_some (render_rich_changes notices (in_zone (px_zone cfg) (ev_fetched_at e)))) (\<lambda>rich.
     pub_bind (pub_some (render_changes_fallback notices)) (\<lambda>fallback.
     pub_bind (pub_net (de_send_rich d (tg_chat t) (tg_topic t) (rich @ notice_link url (u ''<p>'') (u ''</p>''))
       (fallback @ notice_link url [10, 10] []) (\<not> changes_are_urgent notices (dt_date local_now)))) (\<lambda>i.
     pub_return [i]))))"

definition publish_evening ::
    "publisher_settings \<Rightarrow> 'w destination \<Rightarrow> target \<Rightarrow> envelope \<Rightarrow> pydt \<Rightarrow> int \<Rightarrow> bool \<Rightarrow> ('w, int list) publishing" where
  "publish_evening cfg d t e local_now message_id wanted =
     pub_when (wanted \<and> \<not> ev_force_digest e \<and> \<not> px_quiet cfg) (
     pub_bind (pub_net (de_send d (tg_chat t) (tg_topic t)
       (render_evening_summary e local_now (topic_message_url (tg_chat t) (tg_topic t) message_id)))) (\<lambda>i. pub_return [i]))"

text \<open>The messages sent and the markers of the reminders sent so far.\<close>

definition publish_reminder ::
    "'w destination \<Rightarrow> target \<Rightarrow> (pystr \<times> pystr) option \<Rightarrow> pystr list \<Rightarrow> ('w, int list \<times> pystr list) publishing" where
  "publish_reminder d t reminder markers =
     (case reminder of
        None \<Rightarrow> pub_return ([], markers)
      | Some (marker, body) \<Rightarrow>
          pub_bind (pub_net (de_send d (tg_chat t) (tg_topic t) body)) (\<lambda>i.
          pub_return ([i], last_hundred (markers @ [marker]))))"

definition envelope_changes :: "delivery_state \<Rightarrow> envelope \<Rightarrow> pydt \<Rightarrow> publish_error + change list" where
  "envelope_changes s e local_now =
     (if ev_force_digest e then Inr []
      else case overlapping_changes (ds_previous s) e (dt_date local_now) of
             Inl err \<Rightarrow> Inl (Pub_schedule_error err) | Inr cs \<Rightarrow> Inr cs)"

definition deliver_envelope ::
    "publisher_settings \<Rightarrow> 'w destination \<Rightarrow> target \<Rightarrow> bool option \<Rightarrow> envelope \<Rightarrow> pydt \<Rightarrow> delivery_state \<Rightarrow> ('w, int list) publishing" where
  "deliver_envelope cfg d t path e local_now s0 =
     pub_bind (pub_lift id (envelope_changes s0 e local_now)) (\<lambda>cs.
     let wanted = should_publish_digest s0 e local_now in
     pub_bind (refresh_card cfg d t e local_now (card_id s0 (tg_card_key t))) (\<lambda>message_id.
     let s = with_card s0 (tg_card_key t) (Some message_id) in
     pub_bind (save_state s) (\<lambda>_.
     pub_bind (publish_notice cfg d t e local_now message_id (if px_quiet cfg then urgent_upcoming_changes cs local_now else cs)) (\<lambda>noticed.
     pub_bind (publish_evening cfg d t e local_now message_id wanted) (\<lambda>evening.
     pub_bind (publish_reminder d t (if px_quiet cfg then None else due_reminder e local_now (ds_reminders s)) (ds_reminders s))
       (\<lambda>(reminded, markers).
     pub_bind (save_state ((with_card s (tg_card_key t) (Some message_id))\<lparr>ds_previous := Some e,
       ds_last_digest := (if wanted then Some (dt_date local_now) else ds_last_digest s), ds_reminders := markers\<rparr>)) (\<lambda>_.
     pub_bind (write_calendar path e) (\<lambda>_.
     pub_return (message_id # noticed @ evening @ reminded)))))))))"

definition publish_envelope ::
    "publisher_settings \<Rightarrow> 'w destination \<Rightarrow> target \<Rightarrow> bool option \<Rightarrow> envelope \<Rightarrow> pydt \<Rightarrow> ('w, int list) publishing" where
  "publish_envelope cfg d t path e now =
     pub_bind (pub_check (aware now)) (\<lambda>_.
     pub_bind load_state (\<lambda>s0.
     case ds_previous s0 of
       Some p \<Rightarrow>
         if instant_of (ev_fetched_at e) \<le> instant_of (ev_fetched_at p)
         then pub_bind (write_calendar path p) (\<lambda>_. pub_return [])
         else deliver_envelope cfg d t path e (in_zone (px_zone cfg) now) s0
     | None \<Rightarrow> deliver_envelope cfg d t path e (in_zone (px_zone cfg) now) s0))"

definition publish_dispatched ::
    "('t \<Rightarrow> pystr option) \<Rightarrow> ('t \<Rightarrow> json option) \<Rightarrow> ('t \<Rightarrow> nat) \<Rightarrow> publisher_settings \<Rightarrow> 'w destination \<Rightarrow> bool option
       \<Rightarrow> 't \<Rightarrow> pystr \<Rightarrow> pydt \<Rightarrow> ('w, int list) publishing" where
  "publish_dispatched plain unpack len cfg d path v group_key now =
     pub_bind (required_number (px_target_chat_id cfg) True) (\<lambda>chat.
     pub_bind (required_number (px_topic_id cfg) False) (\<lambda>topic.
     pub_bind (required_words (px_group cfg)) (\<lambda>expected.
     pub_bind (pub_check (casefold (strip group_key) = casefold expected)) (\<lambda>_.
     pub_bind (pub_lift id (decode_legacy_card plain v)) (\<lambda>legacy.
     case legacy of
       Some txt \<Rightarrow> pub_bind (pub_net (de_send d chat topic txt)) (\<lambda>i. pub_return [i])
     | None \<Rightarrow>
         pub_bind (pub_lift Pub_ci_error (decode_schedule_envelope unpack len v)) (\<lambda>e.
         pub_bind (pub_check (casefold (strip (ev_group_key e)) = casefold expected)) (\<lambda>_.
         publish_envelope cfg d \<lparr>tg_chat = chat, tg_topic = topic, tg_card_key = de_card_key d\<rparr> path e now)))))))"

section \<open>The reminder run\<close>

definition refresh_known_card ::
    "publisher_settings \<Rightarrow> 'w destination \<Rightarrow> target \<Rightarrow> envelope \<Rightarrow> pydt \<Rightarrow> int option \<Rightarrow> ('w, int option) publishing" where
  "refresh_known_card cfg d t e local_now message_id =
     (case message_id of
        None \<Rightarrow> pub_return None
      | Some i \<Rightarrow> pub_bind (refresh_card cfg d t e local_now (Some i)) (\<lambda>j. pub_return (Some j)))"

definition remind_about ::
    "publisher_settings \<Rightarrow> 'w destination \<Rightarrow> target \<Rightarrow> envelope \<Rightarrow> pydt \<Rightarrow> delivery_state \<Rightarrow> ('w, int list) publishing" where
  "remind_about cfg d t e local_now s =
     (let reminder = (if px_quiet cfg then None else due_reminder e local_now (ds_reminders s));
          known = card_id s (tg_card_key t)
      in if reminder = None \<and> known = None then pub_return []
         else
           pub_bind (refresh_known_card cfg d t e local_now known) (\<lambda>message_id.
           pub_bind (publish_reminder d t reminder (ds_reminders s)) (\<lambda>(reminded, markers).
           pub_bind (save_state ((with_card s (tg_card_key t) message_id)\<lparr>ds_reminders := markers\<rparr>)) (\<lambda>_.
           pub_return ((case message_id of None \<Rightarrow> [] | Some i \<Rightarrow> [i]) @ reminded)))))"

definition publish_due_reminder :: "publisher_settings \<Rightarrow> 'w destination \<Rightarrow> pydt \<Rightarrow> ('w, int list) publishing" where
  "publish_due_reminder cfg d now =
     pub_bind (required_number (px_target_chat_id cfg) True) (\<lambda>chat.
     pub_bind (required_number (px_topic_id cfg) False) (\<lambda>topic.
     pub_bind (pub_check (aware now)) (\<lambda>_.
     pub_bind load_state (\<lambda>s.
     case ds_previous s of
       None \<Rightarrow> pub_return []
     | Some e \<Rightarrow> remind_about cfg d \<lparr>tg_chat = chat, tg_topic = topic, tg_card_key = de_card_key d\<rparr> e (in_zone (px_zone cfg) now) s))))"

section \<open>The jobs on the source side\<close>

definition dispatch_schedule ::
    "(json \<Rightarrow> 't) \<Rightarrow> ('t \<Rightarrow> nat) \<Rightarrow> publisher_settings \<Rightarrow> source_answers \<Rightarrow> pystr \<Rightarrow> pystr \<Rightarrow> bool
       \<Rightarrow> (pystr \<Rightarrow> pystr \<Rightarrow> 't \<Rightarrow> pystr \<Rightarrow> 'w \<Rightarrow> 'w \<times> (publish_error + unit)) \<Rightarrow> pydt \<Rightarrow> ('w, unit) publishing" where
  "dispatch_schedule pack len cfg src github_token github_repository force_digest bridge now =
     pub_bind (required_words (px_group cfg)) (\<lambda>group_key.
     pub_bind (required_words (Some github_token)) (\<lambda>token.
     pub_bind (required_repository github_repository) (\<lambda>repository.
     pub_bind (pub_check (aware now)) (\<lambda>_.
     pub_bind (pub_lift id (build_schedule_envelope (px_zone cfg) src group_key now force_digest)) (\<lambda>e.
     pub_bind (pub_lift Pub_ci_error (encode_schedule_envelope pack len e)) (\<lambda>v.
     pub_net (bridge repository token v group_key)))))))"

definition publish_tomorrow ::
    "publisher_settings \<Rightarrow> bool \<Rightarrow> pystr option \<Rightarrow> source_answers \<Rightarrow> 'w destination \<Rightarrow> pydt \<Rightarrow> ('w, int) publishing" where
  "publish_tomorrow cfg personal bot_token src d now =
     pub_bind (pub_check (\<not> personal)) (\<lambda>_.
     pub_bind (pub_check (bot_token \<noteq> None \<and> bot_token \<noteq> Some [])) (\<lambda>_.
     pub_bind (required_number (px_target_chat_id cfg) True) (\<lambda>chat.
     pub_bind (required_number (px_topic_id cfg) False) (\<lambda>topic.
     pub_bind (required_words (px_group cfg)) (\<lambda>group_key.
     pub_bind (pub_check (aware now)) (\<lambda>_.
     pub_bind (pub_lift id (build_tomorrow_card (px_zone cfg) src group_key now)) (\<lambda>txt.
     pub_net (de_send d chat topic txt))))))))"

end
