(* ===== verification/BotApi.thy ===== *)
theory BotApi
  imports Publisher
begin

text \<open>
  The outbound HTTP side of \<open>publisher.py\<close>: Telegram's Bot API with rich messages and their classic
  fallback, and the GitHub workflow bridge. The state behind the destination is the list of requests
  sent so far; \<open>server\<close> answers a request, and \<open>Inl\<close> is an exception of the transport.
\<close>

datatype http_call =
    Send_rich_message int int pystr bool
  | Send_classic int int pystr bool
  | Edit_rich_message int int pystr
  | Edit_classic int int pystr
  | Pin_message int int
  | Dispatch_workflow pystr pystr pystr pystr

text \<open>\<open>hr_body\<close> is the JSON of the answer, \<open>None\<close> when it is not JSON.\<close>

record http_response =
  hr_status :: int
  hr_body :: "json option"

type_synonym server = "http_call list \<Rightarrow> http_call \<Rightarrow> publish_error + http_response"

type_synonym 'a request = "http_call list \<Rightarrow> http_call list \<times> (publish_error + 'a)"

definition is_success :: "http_response \<Rightarrow> bool" where
  "is_success r \<longleftrightarrow> 200 \<le> hr_status r \<and> hr_status r \<le> 299"

definition body_field :: "http_response \<Rightarrow> pystr \<Rightarrow> json" where
  "body_field r key = (case hr_body r of Some (JObj kvs) \<Rightarrow> jget kvs key | _ \<Rightarrow> JNull)"

text \<open>A \<open>bool\<close> is an \<open>int\<close>, and \<open>True\<close> is positive.\<close>

definition telegram_message_id :: "http_response \<Rightarrow> int option" where
  "telegram_message_id r =
     (if \<not> is_success r \<or> body_field r (u ''ok'') \<noteq> JBool True then None
      else case body_field r (u ''result'') of
             JObj kvs \<Rightarrow>
               (case jget kvs (u ''message_id'') of
                  JInt i \<Rightarrow> if 0 < i then Some i else None
                | JBool True \<Rightarrow> Some 1
                | _ \<Rightarrow> None)
           | _ \<Rightarrow> None)"

definition telegram_delivery_error :: "http_response \<Rightarrow> publish_error" where
  "telegram_delivery_error r =
     (let description = (case body_field r (u ''description'') of JStr s \<Rightarrow> take 200 s | _ \<Rightarrow> u ''unexpected response'')
      in Pub_runtime_error (u ''Telegram delivery failed (HTTP '' @ show_int (hr_status r) @ u '': '' @ description @ u '')''))"

definition telegram_not_modified :: "http_response \<Rightarrow> bool" where
  "telegram_not_modified r \<longleftrightarrow> hr_status r = 400 \<and>
     (case body_field r (u ''description'') of JStr s \<Rightarrow> contains (u ''message is not modified'') (casefold s) | _ \<Rightarrow> False)"

definition post :: "server \<Rightarrow> http_call \<Rightarrow> http_response request" where
  "post server c sent = (sent @ [c], server sent c)"

definition send_classic :: "server \<Rightarrow> int \<Rightarrow> int \<Rightarrow> pystr \<Rightarrow> bool \<Rightarrow> int request" where
  "send_classic server chat topic body silent sent =
     (case post server (Send_classic chat topic body silent) sent of
        (sent', Inl e) \<Rightarrow> (sent', Inl e)
      | (sent', Inr r) \<Rightarrow>
          (sent', case telegram_message_id r of None \<Rightarrow> Inl (telegram_delivery_error r) | Some i \<Rightarrow> Inr i))"

definition send_rich :: "server \<Rightarrow> int \<Rightarrow> int \<Rightarrow> pystr \<Rightarrow> pystr \<Rightarrow> bool \<Rightarrow> int request" where
  "send_rich server chat topic rich fallback silent sent =
     (case post server (Send_rich_message chat topic rich silent) sent of
        (sent', Inl e) \<Rightarrow> (sent', Inl e)
      | (sent', Inr r) \<Rightarrow>
          (case telegram_message_id r of
             Some i \<Rightarrow> (sent', Inr i)
           | None \<Rightarrow>
               if hr_status r \<noteq> 400 then (sent', Inl (telegram_delivery_error r))
               else send_classic server chat topic fallback silent sent'))"

text \<open>What an answer to an edit means: the message's id, or \<open>None\<close> when it was not edited.\<close>

definition edit_outcome :: "int \<Rightarrow> http_response \<Rightarrow> int option" where
  "edit_outcome message_id r =
     (case telegram_message_id r of
        Some i \<Rightarrow> Some i
      | None \<Rightarrow> if telegram_not_modified r then Some message_id else None)"

definition edit_rich :: "server \<Rightarrow> int \<Rightarrow> int \<Rightarrow> pystr \<Rightarrow> pystr \<Rightarrow> int request" where
  "edit_rich server chat message_id rich fallback sent =
     (case post server (Edit_rich_message chat message_id rich) sent of
        (sent', Inl e) \<Rightarrow> (sent', Inl e)
      | (sent', Inr r) \<Rightarrow>
          (case edit_outcome message_id r of
             Some i \<Rightarrow> (sent', Inr i)
           | None \<Rightarrow>
               if hr_status r \<noteq> 400 then (sent', Inl (telegram_delivery_error r))
               else
                 (case post server (Edit_classic chat message_id fallback) sent' of
                    (sent'', Inl e) \<Rightarrow> (sent'', Inl e)
                  | (sent'', Inr r') \<Rightarrow>
                      (sent'', case edit_outcome message_id r' of
                         None \<Rightarrow> Inl (telegram_delivery_error r') | Some i \<Rightarrow> Inr i))))"

definition pin_message :: "server \<Rightarrow> int \<Rightarrow> int \<Rightarrow> unit request" where
  "pin_message server chat message_id sent =
     (case post server (Pin_message chat message_id) sent of
        (sent', Inl e) \<Rightarrow> (sent', Inl e)
      | (sent', Inr r) \<Rightarrow> (sent', if is_success r then Inr () else Inl (telegram_delivery_error r)))"

definition bot_api :: "server \<Rightarrow> http_call list destination" where
  "bot_api server =
     \<lparr>de_card_key = None, de_send = (\<lambda>chat topic body. send_classic server chat topic body False),
      de_send_rich = send_rich server, de_edit_rich = Some (edit_rich server), de_pin = Some (pin_message server)\<rparr>"

text \<open>The bridge; the token travels in a header.\<close>

definition dispatch_workflow :: "server \<Rightarrow> pystr \<Rightarrow> pystr \<Rightarrow> pystr \<Rightarrow> pystr \<Rightarrow> unit request" where
  "dispatch_workflow server repository token v group_key sent =
     (case post server (Dispatch_workflow repository token v group_key) sent of
        (sent', Inl e) \<Rightarrow> (sent', Inl e)
      | (sent', Inr r) \<Rightarrow>
          (sent', if is_success r then Inr ()
             else Inl (Pub_runtime_error (u ''GitHub receiver dispatch failed (HTTP '' @ show_int (hr_status r) @ u '')''))))"

end
