(* ===== verification/PublisherProperties.thy ===== *)
theory PublisherProperties
  imports BotApi CiEnvelopeProperties CiDigestProperties
begin

text \<open>
  What survives a failing delivery. Triples over the publishing steps, with an exceptional
  postcondition; the laws of a destination as a locale, discharged for the Bot API.
\<close>

section \<open>Triples\<close>

definition triple ::
    "('w publisher_world \<Rightarrow> bool) \<Rightarrow> ('w, 'a) publishing \<Rightarrow> ('a \<Rightarrow> 'w publisher_world \<Rightarrow> bool)
       \<Rightarrow> (publish_error \<Rightarrow> 'w publisher_world \<Rightarrow> bool) \<Rightarrow> bool" where
  "triple P m Q E \<longleftrightarrow> (\<forall>w. P w \<longrightarrow> (case m w of (w', Inl e) \<Rightarrow> E e w' | (w', Inr x) \<Rightarrow> Q x w'))"

lemma triple_bind:
  assumes "triple P m R E" and "\<And>x. triple (R x) (f x) Q E"
  shows "triple P (pub_bind m f) Q E"
  unfolding triple_def pub_bind_def
proof (intro allI impI)
  fix w assume "P w"
  then have m: "case m w of (w', Inl e) \<Rightarrow> E e w' | (w', Inr x) \<Rightarrow> R x w'" using assms(1) by (simp add: triple_def)
  obtain w' r where r: "m w = (w', r)" by fastforce
  show "case (case m w of (w', Inl e) \<Rightarrow> (w', Inl e) | (w', Inr x) \<Rightarrow> f x w') of (w', Inl e) \<Rightarrow> E e w' | (w', Inr x) \<Rightarrow> Q x w'"
  proof (cases r)
    case (Inr x)
    then have "R x w'" using m r by simp
    then show ?thesis using assms(2) [of x] r Inr by (simp add: triple_def)
  qed (use m r in simp)
qed

lemma triple_weaken:
  assumes "triple P m Q E" and "\<And>w. P' w \<Longrightarrow> P w" and "\<And>x w. Q x w \<Longrightarrow> Q' x w" and "\<And>e w. E e w \<Longrightarrow> E' e w"
  shows "triple P' m Q' E'"
  using assms unfolding triple_def by (fastforce split: prod.splits sum.splits)

lemma triple_err:
  assumes "triple P m Q E" and "\<And>e w. E e w \<Longrightarrow> E' e w"
  shows "triple P m Q E'"
  by (rule triple_weaken [OF assms(1) _ _ assms(2)])

lemma triple_return: "(\<And>w. P w \<Longrightarrow> Q x w) \<Longrightarrow> triple P (pub_return x) Q E"
  by (simp add: triple_def pub_return_def)

lemma triple_raise: "(\<And>w. P w \<Longrightarrow> E e w) \<Longrightarrow> triple P (pub_raise e) Q E"
  by (simp add: triple_def pub_raise_def)

lemma triple_lift:
  assumes "\<And>x w. P w \<Longrightarrow> r = Inr x \<Longrightarrow> Q x w" and "\<And>e w. P w \<Longrightarrow> E e w"
  shows "triple P (pub_lift err r) Q E"
  using assms by (auto simp: triple_def pub_lift_def pub_raise_def pub_return_def split: sum.split)

lemma triple_some:
  assumes "\<And>x w. P w \<Longrightarrow> Q x w" and "\<And>e w. P w \<Longrightarrow> E e w"
  shows "triple P (pub_some v) Q E"
  using assms by (auto simp: triple_def pub_some_def pub_raise_def pub_return_def split: option.split)

lemma triple_check:
  assumes "\<And>w. P w \<Longrightarrow> ok \<Longrightarrow> Q () w" and "\<And>e w. P w \<Longrightarrow> E e w"
  shows "triple P (pub_check ok) Q E"
  using assms by (auto simp: triple_def pub_check_def pub_raise_def pub_return_def)

lemma triple_when:
  assumes "b \<Longrightarrow> triple P m Q E" and "\<And>w. P w \<Longrightarrow> Q [] w"
  shows "triple P (pub_when b m) Q E"
  using assms by (auto simp: pub_when_def intro: triple_return)

lemma triple_pure: "(c \<Longrightarrow> triple P m Q E) \<Longrightarrow> triple (\<lambda>w. P w \<and> c) m Q E"
  by (auto simp: triple_def)

text \<open>A step that goes on with another one after some of its errors.\<close>

lemma triple_else:
  assumes "triple P m Q E" and "\<And>e. triple (E e) m' Q E'" and "\<And>e w. E e w \<Longrightarrow> E' e w"
  shows "triple P (\<lambda>w. case m w of (w', Inl e) \<Rightarrow> if gone e then m' w' else (w', Inl e) | (w', Inr x) \<Rightarrow> (w', Inr x)) Q E'"
  unfolding triple_def
proof (intro allI impI)
  fix w assume "P w"
  obtain w' r where r: "m w = (w', r)" by fastforce
  have m: "case r of Inl e \<Rightarrow> E e w' | Inr x \<Rightarrow> Q x w'" using assms(1) \<open>P w\<close> r by (fastforce simp: triple_def)
  show "case (case m w of (w', Inl e) \<Rightarrow> if gone e then m' w' else (w', Inl e) | (w', Inr x) \<Rightarrow> (w', Inr x))
      of (w', Inl e) \<Rightarrow> E' e w' | (w', Inr x) \<Rightarrow> Q x w'"
  proof (cases r)
    case (Inl e)
    then show ?thesis using m r assms(2) [of e] assms(3) by (simp add: triple_def)
  qed (use m r in simp)
qed

text \<open>A predicate of the files only, which the network cannot change.\<close>

definition of_files :: "(json option \<Rightarrow> pystr option \<Rightarrow> bool) \<Rightarrow> 'w publisher_world \<Rightarrow> bool" where
  "of_files I w \<longleftrightarrow> I (pw_file w) (pw_calendar w)"

lemma triple_net:
  assumes "\<And>n n' x. f n = (n', Inr x) \<Longrightarrow> ok x"
  shows "triple (of_files I) (pub_net f) (\<lambda>x w. of_files I w \<and> ok x) (\<lambda>e. of_files I)"
  using assms by (auto simp: triple_def pub_net_def of_files_def Let_def split: prod.splits sum.splits)

section \<open>The laws of a destination\<close>

text \<open>Telegram's message ids are positive, and an edit answers the id of the message it edited.\<close>

locale card_destination =
  fixes d :: "'w destination"
  assumes send_positive: "de_send d chat topic body n = (n', Inr i) \<Longrightarrow> 0 < i"
    and rich_positive: "de_send_rich d chat topic rich fallback silent n = (n', Inr i) \<Longrightarrow> 0 < i"
    and edit_positive: "de_edit_rich d = Some edit \<Longrightarrow> edit chat k rich fallback n = (n', Inr i) \<Longrightarrow> 0 < k \<Longrightarrow> 0 < i"
begin

lemma pin_files: "triple (of_files I) (pin_quietly d chat i) (\<lambda>_. of_files I) (\<lambda>e. of_files I)"
  by (auto simp: triple_def pin_quietly_def pub_return_def pub_net_def of_files_def Let_def
      split: option.splits prod.splits sum.splits publish_error.splits)

lemma create_card_files:
  "triple (of_files I) (create_card d chat topic rich fallback) (\<lambda>i w. of_files I w \<and> 0 < i) (\<lambda>e. of_files I)"
  unfolding create_card_def
proof (rule triple_bind)
  show "triple (of_files I) (pub_net (de_send_rich d chat topic rich fallback True))
      (\<lambda>i w. of_files I w \<and> 0 < i) (\<lambda>e. of_files I)"
    by (rule triple_net) (rule rich_positive)
  show "triple (\<lambda>w. of_files I w \<and> 0 < i) (pub_bind (pin_quietly d chat i) (\<lambda>_. pub_return i))
      (\<lambda>i w. of_files I w \<and> 0 < i) (\<lambda>e. of_files I)" for i
    by (rule triple_pure, rule triple_bind [OF pin_files], rule triple_return) simp
qed

lemma upsert_files:
  assumes "case message_id of None \<Rightarrow> True | Some k \<Rightarrow> 0 < k"
  shows "triple (of_files I) (upsert_calendar d chat topic message_id rich fallback)
    (\<lambda>i w. of_files I w \<and> 0 < i) (\<lambda>e. of_files I)"
proof (cases "\<exists>k edit. message_id = Some k \<and> de_edit_rich d = Some edit")
  case False
  then show ?thesis
    by (cases message_id; cases "de_edit_rich d") (simp_all add: upsert_calendar_def create_card_files)
next
  case True
  then obtain k edit where k: "message_id = Some k" "de_edit_rich d = Some edit" by blast
  have net: "triple (of_files I) (pub_net (edit chat k rich fallback)) (\<lambda>i w. of_files I w \<and> 0 < i) (\<lambda>e. of_files I)"
    by (rule triple_net) (use edit_positive k assms in auto)
  show ?thesis
    unfolding upsert_calendar_def k option.case prod.case
    by (rule triple_else [OF net create_card_files])
qed

end

lemma telegram_id_positive: "telegram_message_id r = Some i \<Longrightarrow> 0 < i"
  by (auto simp: telegram_message_id_def split: if_splits json.splits bool.splits)

lemma classic_positive: "send_classic server chat topic body silent sent = (sent', Inr i) \<Longrightarrow> 0 < i"
  by (auto simp: send_classic_def dest: telegram_id_positive split: prod.splits sum.splits option.splits)

lemma edit_outcome_positive: "edit_outcome k r = Some i \<Longrightarrow> 0 < k \<Longrightarrow> 0 < i"
  by (auto simp: edit_outcome_def dest: telegram_id_positive split: option.splits if_splits)

interpretation bot: card_destination "bot_api server"
proof unfold_locales
  fix chat topic body n n' i
  assume "de_send (bot_api server) chat topic body n = (n', Inr i)"
  then show "0 < i" by (auto simp: bot_api_def dest: classic_positive)
next
  fix chat topic rich fallback silent n n' i
  assume "de_send_rich (bot_api server) chat topic rich fallback silent n = (n', Inr i)"
  then show "0 < i"
    by (auto simp: bot_api_def send_rich_def dest: classic_positive telegram_id_positive
        split: prod.splits sum.splits option.splits if_splits)
next
  fix edit chat k rich fallback n n' i
  assume "de_edit_rich (bot_api server) = Some edit" "edit chat k rich fallback n = (n', Inr i)" "0 < k"
  then show "0 < i"
    by (auto simp: bot_api_def edit_rich_def dest: edit_outcome_positive
        split: prod.splits sum.splits option.splits if_splits)
qed

section \<open>A failing delivery\<close>

lemma dict_of_keys: "set (map fst (dict_of xs)) = set (map fst xs)" "distinct (map fst (dict_of xs))"
  by (simp_all add: dict_of_def o_def)

lemma dict_of_in:
  assumes "p \<in> set (dict_of xs)"
  shows "p \<in> set xs"
proof -
  from assms obtain k where k: "k \<in> fst ` set xs" "p = (k, the (map_of (rev xs) k))"
    by (auto simp: dict_of_def)
  then obtain v where "map_of (rev xs) k = Some v"
    by (metis map_of_eq_None_iff not_None_eq set_rev)
  then show ?thesis using k(2) map_of_SomeD [of "rev xs" k v] by simp
qed

lemma clean_with_card:
  assumes "clean_state s" and "0 < i" and "case key of None \<Rightarrow> True | Some k \<Rightarrow> is_card_key k"
  shows "clean_state (with_card s key (Some i))" "ds_previous (with_card s key (Some i)) = ds_previous s"
proof -
  have "distinct (map fst (sort_key id (dict_of xs)))" for xs :: "(pystr \<times> int) list"
    using dict_of_keys(2) [of xs] by (simp add: distinct_map)
  moreover have "list_all (\<lambda>(k, n). is_card_key k \<and> 0 < n) (sort_key id (dict_of (ds_user_cards s @ [(k, i)])))" if "key = Some k" for k
    using assms that dict_of_in [of _ "ds_user_cards s @ [(k, i)]"]
    by (fastforce simp: clean_state_def list_all_iff)
  moreover have "sorted (sort_key id xs)" for xs :: "(pystr \<times> int) list"
    using sorted_sort_key [of id xs] by simp
  ultimately show "clean_state (with_card s key (Some i))"
    using assms by (cases key) (auto simp: with_card_def clean_state_def)
  show "ds_previous (with_card s key (Some i)) = ds_previous s" by (cases key) (simp_all add: with_card_def)
qed

text \<open>The run ended before the artifact; nothing the next comparison needs is lost.\<close>

definition baseline_kept :: "envelope option \<Rightarrow> publish_error \<Rightarrow> 'w publisher_world \<Rightarrow> bool" where
  "baseline_kept b err w \<longleftrightarrow> err = Pub_file_error \<or> err = Pub_torn_error \<or> ds_previous (load_delivery_state (pw_file w)) = b"

text \<open>Saving writes the new state, leaves the file as it was, or cuts it short.\<close>

lemma save_state_triple:
  "triple (of_files I) (save_state s) (\<lambda>_. of_files (\<lambda>f c. f = Some (save_delivery_state s)))
     (\<lambda>err w. err = Pub_torn_error \<or> of_files I w)"
  by (simp add: triple_def save_state_def of_files_def Let_def split: disk_write.split)

lemma write_calendar_triple:
  "triple (\<lambda>w. True) (write_calendar path e) (\<lambda>_ w. True) (\<lambda>err w. err = Pub_file_error)"
  by (auto simp: triple_def write_calendar_def pub_return_def pub_raise_def split: option.splits)

lemma net_files: "triple (of_files I) (pub_net f) (\<lambda>x. of_files I) (\<lambda>e. of_files I)"
  by (rule triple_weaken [OF triple_net [of _ "\<lambda>_. True"]]) simp_all

lemma some_files: "triple (of_files I) (pub_some v) (\<lambda>x. of_files I) (\<lambda>e. of_files I)"
  by (rule triple_some)

lemma lift_files: "triple (of_files I) (pub_lift err r) (\<lambda>x. of_files I) (\<lambda>e. of_files I)"
  by (rule triple_lift)

lemma triple_step:
  assumes "triple (of_files I) m (\<lambda>x. of_files I) (\<lambda>e. of_files I)" and "\<And>e w. of_files I w \<Longrightarrow> E e w"
    and "\<And>x. triple (of_files I) (f x) Q E"
  shows "triple (of_files I) (pub_bind m f) Q E"
  by (rule triple_bind [OF triple_weaken [OF assms(1) _ _ assms(2)] assms(3)])

lemma publish_notice_files:
  "triple (of_files I) (publish_notice cfg d t e now i notices) (\<lambda>x. of_files I) (\<lambda>e. of_files I)"
  unfolding publish_notice_def Let_def
  by (intro triple_when triple_bind [OF some_files] triple_bind [OF net_files] triple_return)

lemma publish_evening_files:
  "triple (of_files I) (publish_evening cfg d t e now i wanted) (\<lambda>x. of_files I) (\<lambda>e. of_files I)"
  unfolding publish_evening_def
  by (intro triple_when triple_bind [OF net_files] triple_return)

lemma publish_reminder_files:
  "triple (of_files I) (publish_reminder d t reminder markers) (\<lambda>x. of_files I) (\<lambda>e. of_files I)"
  by (cases reminder) (auto simp: publish_reminder_def intro!: triple_bind [OF net_files] triple_return)

context card_destination
begin

lemma refresh_files:
  assumes "case message_id of None \<Rightarrow> True | Some k \<Rightarrow> 0 < k"
  shows "triple (of_files I) (refresh_card cfg d t e now message_id) (\<lambda>i w. of_files I w \<and> 0 < i) (\<lambda>e. of_files I)"
  unfolding refresh_card_def
  by (intro triple_bind [OF lift_files] upsert_files [OF assms])

lemma deliver_keeps_baseline:
  assumes s0: "clean_state s0" "load_delivery_state F = s0"
    and key: "case tg_card_key t of None \<Rightarrow> True | Some k \<Rightarrow> is_card_key k"
    and id: "case card_id s0 (tg_card_key t) of None \<Rightarrow> True | Some k \<Rightarrow> 0 < k"
  shows "triple (of_files (\<lambda>f c. f = F)) (deliver_envelope cfg d t path e now s0) (\<lambda>_ w. True) (baseline_kept (ds_previous s0))"
proof -
  have start: "of_files (\<lambda>f c. f = F) w \<Longrightarrow> baseline_kept (ds_previous s0) err w" for err and w :: "'w publisher_world"
    using s0 by (simp add: of_files_def baseline_kept_def)
  have later: "of_files (\<lambda>f c. f = Some (save_delivery_state (with_card s0 (tg_card_key t) (Some i)))) w
      \<Longrightarrow> baseline_kept (ds_previous s0) err w" if "0 < i" for i err and w :: "'w publisher_world"
    using clean_with_card [OF s0(1) that key] delivery_state_roundtrip
    by (simp add: of_files_def baseline_kept_def)
  have torn: "baseline_kept (ds_previous s0) err w"
    if "err = Pub_torn_error \<or> of_files I w" and "of_files I w \<Longrightarrow> baseline_kept (ds_previous s0) err w"
    for err I and w :: "'w publisher_world" using that by (auto simp: baseline_kept_def)
  show ?thesis
    unfolding deliver_envelope_def Let_def
    apply (rule triple_step [OF lift_files start], assumption)
    apply (rule triple_bind [OF triple_weaken [OF refresh_files [OF id] _ _ start]], assumption, assumption, assumption)
    apply (rule triple_pure)
    apply (rule triple_bind [OF triple_err [OF save_state_triple]], erule torn, erule start)
    apply (rule triple_step [OF publish_notice_files later], assumption, assumption)
    apply (rule triple_step [OF publish_evening_files later], assumption, assumption)
    apply (rule triple_step [OF publish_reminder_files later], assumption, assumption)
    apply (simp only: split_beta)
    apply (rule triple_bind [OF triple_err [OF save_state_triple]], erule torn, erule later, assumption)
    apply (rule triple_bind [OF triple_weaken [OF write_calendar_triple]])
       apply (auto simp: baseline_kept_def intro: triple_return)
    done
qed

end

lemma state_card_positive:
  assumes "clean_state s"
  shows "case card_id s None of None \<Rightarrow> True | Some k \<Rightarrow> 0 < k"
  using assms by (simp add: card_id_def clean_state_def)

lemma bot_key [simp]: "de_card_key (bot_api server) = None"
  by (simp add: bot_api_def)

lemma number_files: "triple (of_files I) (required_number v b) (\<lambda>x. of_files I) (\<lambda>e. of_files I)"
  by (auto simp: required_number_def intro!: triple_return triple_raise split: option.split)

lemma words_files: "triple (of_files I) (required_words v) (\<lambda>x. of_files I) (\<lambda>e. of_files I)"
  by (auto simp: required_words_def intro!: triple_return triple_raise split: option.split)

lemma check_files: "triple (of_files I) (pub_check b) (\<lambda>x. of_files I) (\<lambda>e. of_files I)"
  by (rule triple_check)

lemma load_state_triple:
  assumes "triple (of_files (\<lambda>f c. f = F)) (g (load_delivery_state F)) Q E"
  shows "triple (of_files (\<lambda>f c. f = F)) (pub_bind load_state g) Q E"
  using assms by (simp add: triple_def pub_bind_def load_state_def of_files_def)

lemma publish_envelope_baseline:
  assumes "clean_state (load_delivery_state F)" and "tg_card_key t = None"
  shows "triple (of_files (\<lambda>f c. f = F)) (publish_envelope cfg (bot_api server) t path e now) (\<lambda>_ w. True)
    (baseline_kept (ds_previous (load_delivery_state F)))"
proof -
  have start: "of_files (\<lambda>f c. f = F) w \<Longrightarrow> baseline_kept (ds_previous (load_delivery_state F)) err w"
    for err and w :: "http_call list publisher_world" by (simp add: of_files_def baseline_kept_def)
  have deliver: "triple (of_files (\<lambda>f c. f = F)) (deliver_envelope cfg (bot_api server) t path e n (load_delivery_state F))
      (\<lambda>_ w. True) (baseline_kept (ds_previous (load_delivery_state F)))" for n
    using bot.deliver_keeps_baseline [OF assms(1) refl, of t cfg server path e n] state_card_positive [OF assms(1)] assms(2)
    by simp
  have stale: "triple (of_files (\<lambda>f c. f = F)) (pub_bind (write_calendar path p) (\<lambda>_. pub_return []))
      (\<lambda>_ w. True) (baseline_kept (ds_previous (load_delivery_state F)))" for p :: envelope
    by (rule triple_bind [OF triple_weaken [OF write_calendar_triple]])
      (auto simp: baseline_kept_def intro: triple_return)
  show ?thesis
    unfolding publish_envelope_def
    by (intro triple_step [OF check_files start] load_state_triple) (use deliver stale in \<open>auto split: option.split\<close>)
qed

text \<open>
  C1: A delivery that fails before the calendar artifact is written (Telegram refuses a message, the network
  breaks down, a text cannot be rendered, the state file cannot be opened) leaves the comparison baseline of
  the next run as it was: whatever changes it did not announce will be found again. The one failure excepted
  is a write of the state file that breaks off in the middle, for the file is not replaced as a whole.
\<close>

theorem failed_delivery_keeps_baseline:
  assumes "publish_dispatched plain unpack len cfg (bot_api server) path v group_key now w = (w', Inl err)"
    and "err \<noteq> Pub_file_error" and "err \<noteq> Pub_torn_error" and "clean_state (load_delivery_state (pw_file w))"
  shows "ds_previous (load_delivery_state (pw_file w')) = ds_previous (load_delivery_state (pw_file w))"
proof -
  let ?F = "pw_file w"
  have start: "of_files (\<lambda>f c. f = ?F) w \<Longrightarrow> baseline_kept (ds_previous (load_delivery_state ?F)) err w"
    for err and w :: "http_call list publisher_world" by (simp add: of_files_def baseline_kept_def)
  have send: "triple (of_files (\<lambda>f c. f = ?F)) (pub_bind (pub_net (de_send (bot_api server) chat topic body)) (\<lambda>i. pub_return [i]))
      (\<lambda>_ w. True) (baseline_kept (ds_previous (load_delivery_state ?F)))" for chat topic body
    by (intro triple_step [OF net_files start] triple_return) simp_all
  have "triple (of_files (\<lambda>f c. f = ?F)) (publish_dispatched plain unpack len cfg (bot_api server) path v group_key now)
      (\<lambda>_ w. True) (baseline_kept (ds_previous (load_delivery_state ?F)))"
    unfolding publish_dispatched_def
    by (intro triple_step [OF number_files start] triple_step [OF words_files start] triple_step [OF check_files start]
        triple_step [OF lift_files start])
      (auto simp: send split: option.split
        intro!: triple_step [OF lift_files start] triple_step [OF check_files start] publish_envelope_baseline [OF assms(4)])
  then show ?thesis using assms(1-3) by (auto simp: triple_def of_files_def baseline_kept_def split: prod.splits)
qed

text \<open>
  Runs of the source job may finish out of order: an envelope that was not fetched later than the last
  delivered one causes no request to Telegram at all and leaves the delivery state as it is.
\<close>

theorem stale_envelope_ignored:
  assumes "decode_legacy_card plain v = Inr None" and "decode_schedule_envelope unpack len v = Inr e"
    and "ds_previous (load_delivery_state (pw_file w)) = Some p"
    and "instant_of (ev_fetched_at e) \<le> instant_of (ev_fetched_at p)"
    and "publish_dispatched plain unpack len cfg d path v group_key now w = (w', r)"
  shows "pw_net w' = pw_net w \<and> pw_file w' = pw_file w"
  using assms
  by (auto simp: publish_dispatched_def publish_envelope_def pub_bind_def pub_lift_def pub_check_def pub_return_def
      pub_raise_def load_state_def write_calendar_def required_number_def required_words_def
      split: option.splits if_splits prod.splits)

section \<open>One card\<close>

definition is_new_card :: "http_call \<Rightarrow> bool" where
  "is_new_card c \<longleftrightarrow> (case c of Send_rich_message _ _ _ _ \<Rightarrow> True | _ \<Rightarrow> False)"

definition no_new_card :: "http_call list \<Rightarrow> http_call list publisher_world \<Rightarrow> bool" where
  "no_new_card before w \<longleftrightarrow>
     take (length before) (pw_net w) = before \<and> length before \<le> length (pw_net w)
     \<and> list_all (\<lambda>c. \<not> is_new_card c) (drop (length before) (pw_net w))"

lemma no_new_card_more:
  "no_new_card before w \<Longrightarrow> pw_net w' = pw_net w @ cs \<Longrightarrow> list_all (\<lambda>c. \<not> is_new_card c) cs \<Longrightarrow> no_new_card before w'"
  by (auto simp: no_new_card_def)

text \<open>The server never says that the card is gone.\<close>

definition card_known :: "server \<Rightarrow> bool" where
  "card_known server \<longleftrightarrow>
     (\<forall>sent c. case server sent c of
        Inl e \<Rightarrow> \<not> card_is_gone e | Inr r \<Rightarrow> \<not> card_is_gone (telegram_delivery_error r))"

lemma edit_rich_calls:
  assumes "edit_rich server chat k rich fallback sent = (sent', r)" and "card_known server"
  shows "\<exists>cs. sent' = sent @ cs \<and> list_all (\<lambda>c. \<not> is_new_card c) cs" "r = Inl e \<Longrightarrow> \<not> card_is_gone e"
proof -
  have known: "server s c = Inl e \<Longrightarrow> \<not> card_is_gone e" "server s c = Inr x \<Longrightarrow> \<not> card_is_gone (telegram_delivery_error x)" for s c e x
    using assms(2) by (auto simp: card_known_def split: sum.splits)
  have old: "\<not> is_new_card (Edit_rich_message chat k rich)" "\<not> is_new_card (Edit_classic chat k fallback)"
    by (simp_all add: is_new_card_def)
  show "\<exists>cs. sent' = sent @ cs \<and> list_all (\<lambda>c. \<not> is_new_card c) cs" "r = Inl e \<Longrightarrow> \<not> card_is_gone e"
    using assms(1) old known
    by (auto simp: edit_rich_def post_def split: sum.splits option.splits if_splits)
qed

lemma classic_calls:
  "send_classic server chat topic body silent sent = (sent', r) \<Longrightarrow> \<exists>cs. sent' = sent @ cs \<and> list_all (\<lambda>c. \<not> is_new_card c) cs"
  by (auto simp: send_classic_def post_def is_new_card_def split: sum.splits)

abbreviation quiet :: "http_call list \<Rightarrow> (http_call list, 'a) publishing \<Rightarrow> bool" where
  "quiet before m \<equiv> triple (no_new_card before) m (\<lambda>_. no_new_card before) (\<lambda>_. no_new_card before)"

lemma quiet_bind: "quiet before m \<Longrightarrow> (\<And>x. quiet before (f x)) \<Longrightarrow> quiet before (pub_bind m f)"
  by (rule triple_bind)

lemma quiet_local:
  assumes "\<And>w. pw_net (fst (m w)) = pw_net w"
  shows "quiet before m"
  unfolding triple_def
proof (intro allI impI)
  fix w assume "no_new_card before w"
  moreover obtain w' r where "m w = (w', r)" by fastforce
  moreover from this have "pw_net w' = pw_net w" using assms [of w] by simp
  ultimately show "case m w of (w', Inl e) \<Rightarrow> no_new_card before w' | (w', Inr x) \<Rightarrow> no_new_card before w'"
    by (auto simp: no_new_card_def split: sum.split)
qed

lemma quiet_return: "quiet before (pub_return x)"
  by (simp add: triple_def pub_return_def)

lemma quiet_classic: "quiet before (pub_net (de_send (bot_api server) chat topic body))"
  by (auto simp: triple_def pub_net_def bot_api_def Let_def dest!: classic_calls intro: no_new_card_more
      split: prod.splits sum.splits)

lemma quiet_upsert:
  assumes "card_known server"
  shows "quiet before (upsert_calendar (bot_api server) chat topic (Some k) rich fallback)"
  unfolding triple_def
proof (intro allI impI)
  fix w assume w: "no_new_card before w"
  obtain n r where e: "edit_rich server chat k rich fallback (pw_net w) = (n, r)" by fastforce
  obtain cs where cs: "n = pw_net w @ cs" "list_all (\<lambda>c. \<not> is_new_card c) cs" using edit_rich_calls(1) [OF e assms] by blast
  have still: "no_new_card before (w\<lparr>pw_net := n\<rparr>)" using no_new_card_more [OF w, of _ cs] cs by simp
  show "case upsert_calendar (bot_api server) chat topic (Some k) rich fallback w of
      (w', Inl e) \<Rightarrow> no_new_card before w' | (w', Inr x) \<Rightarrow> no_new_card before w'"
    using e still edit_rich_calls(2) [OF e assms]
    by (auto simp: upsert_calendar_def bot_api_def pub_net_def split: sum.split)
qed

lemma quiet_remind:
  assumes "card_known server" and "card_id s (tg_card_key t) \<noteq> None"
  shows "quiet before (remind_about cfg (bot_api server) t e now s)"
proof -
  obtain k where k: "card_id s (tg_card_key t) = Some k" using assms(2) by blast
  have refresh: "quiet before (refresh_known_card cfg (bot_api server) t e now (Some k))"
    unfolding refresh_known_card_def option.case refresh_card_def
    by (intro quiet_bind quiet_upsert [OF assms(1)] quiet_local) (simp_all add: pub_lift_def pub_return_def pub_raise_def split: sum.split)
  have reminder: "quiet before (publish_reminder (bot_api server) t r ms)" for r ms
    by (cases r) (auto simp: publish_reminder_def intro!: quiet_bind [OF quiet_classic quiet_return] quiet_return)
  show ?thesis
    unfolding remind_about_def k Let_def
    by (auto intro!: quiet_bind [OF refresh] quiet_bind [OF reminder] quiet_bind [OF quiet_local] quiet_return
        simp: save_state_def Let_def split: prod.splits disk_write.splits)
qed

text \<open>
  C12: The reminder run never puts a second schedule card into the topic while Telegram still knows the first
  one: outages, rate limits and refused edits of the stored card lead to no rich message at all.
\<close>

theorem card_replaced_only_when_gone:
  assumes "publish_due_reminder cfg (bot_api server) now w = (w', r)" and "card_known server"
    and "ds_calendar_message (load_delivery_state (pw_file w)) \<noteq> None"
  shows "list_all (\<lambda>c. \<not> is_new_card c) (drop (length (pw_net w)) (pw_net w'))"
proof -
  let ?s = "load_delivery_state (pw_file w)"
  have remind: "quiet b (remind_about cfg (bot_api server) \<lparr>tg_chat = chat, tg_topic = topic, tg_card_key = None\<rparr> e n ?s)" for b chat topic e n
    by (rule quiet_remind [OF assms(2)]) (use assms(3) in \<open>simp add: card_id_def\<close>)
  have same: "(publish_due_reminder cfg (bot_api server) now w) =
      pub_bind (required_number (px_target_chat_id cfg) True) (\<lambda>chat.
      pub_bind (required_number (px_topic_id cfg) False) (\<lambda>topic.
      pub_bind (pub_check (aware now)) (\<lambda>_.
      case ds_previous ?s of
        None \<Rightarrow> pub_return []
      | Some e \<Rightarrow> remind_about cfg (bot_api server) \<lparr>tg_chat = chat, tg_topic = topic, tg_card_key = None\<rparr> e
          (in_zone (px_zone cfg) now) ?s))) w"
    by (auto simp: publish_due_reminder_def pub_bind_def required_number_def pub_check_def load_state_def pub_return_def
        pub_raise_def split: option.splits)
  have "quiet (pw_net w) (pub_bind (required_number (px_target_chat_id cfg) True) (\<lambda>chat.
      pub_bind (required_number (px_topic_id cfg) False) (\<lambda>topic.
      pub_bind (pub_check (aware now)) (\<lambda>_.
      case ds_previous ?s of
        None \<Rightarrow> pub_return []
      | Some e \<Rightarrow> remind_about cfg (bot_api server) \<lparr>tg_chat = chat, tg_topic = topic, tg_card_key = None\<rparr> e
          (in_zone (px_zone cfg) now) ?s))))"
    by (intro quiet_bind) (auto intro!: quiet_local remind
        simp: required_number_def pub_check_def pub_return_def pub_raise_def split: option.split)
  moreover have "no_new_card (pw_net w) w" by (simp add: no_new_card_def)
  ultimately have "no_new_card (pw_net w) w'"
    using assms(1) unfolding same triple_def by (fastforce split: sum.splits)
  then show ?thesis by (simp add: no_new_card_def)
qed

text \<open>
  A reminder run that fails leaves the delivery state file untouched, unless its write breaks off. When the run has just replaced a card
  that Telegram no longer had, the id of the new card is therefore lost with it, and the next run puts
  another card into the topic (the run that publishes envelopes stores the new id first).
\<close>

theorem failed_reminder_forgets_card:
  assumes "publish_due_reminder cfg (bot_api server) now w = (w', Inl err)"
    and "clean_state (load_delivery_state (pw_file w))" and "err \<noteq> Pub_torn_error"
  shows "pw_file w' = pw_file w"
proof -
  let ?F = "pw_file w" and ?s = "load_delivery_state (pw_file w)"
  let ?I = "of_files (\<lambda>f c. f = pw_file w)" and ?E = "\<lambda>err w. err = Pub_torn_error \<or> of_files (\<lambda>f c. f = ?F) w"
  have known: "case ds_calendar_message ?s of None \<Rightarrow> True | Some k \<Rightarrow> 0 < k" using assms(2) by (simp add: clean_state_def)
  have refresh: "triple ?I (refresh_known_card cfg (bot_api server) t e n (ds_calendar_message ?s)) (\<lambda>_. ?I) (\<lambda>_. ?I)" for t e n
    using known
    by (auto simp: refresh_known_card_def split: option.splits
        intro!: triple_return triple_bind [OF bot.refresh_files] triple_pure)
  have save: "triple ?I (pub_bind (save_state s) (\<lambda>_. pub_return xs)) (\<lambda>_ w. True) ?E" for s and xs :: "int list"
    by (intro triple_bind [OF save_state_triple] triple_return) simp
  have remind: "triple ?I (remind_about cfg (bot_api server) t e n ?s) (\<lambda>_ w. True) ?E" if "tg_card_key t = None" for t e n
    unfolding remind_about_def Let_def that card_id_def option.case
    by (auto intro!: triple_return triple_step [OF refresh] triple_step [OF publish_reminder_files] save split: prod.split)
  have "triple ?I (publish_due_reminder cfg (bot_api server) now) (\<lambda>_ w. True) ?E"
    unfolding publish_due_reminder_def
    by (intro triple_step [OF number_files] triple_step [OF check_files] load_state_triple)
      (auto intro!: triple_return remind split: option.split)
  then show ?thesis using assms(1,3) by (fastforce simp: triple_def of_files_def)
qed

section \<open>Concrete runs\<close>

definition hosted_settings :: publisher_settings where
  "hosted_settings = \<lparr>px_target_chat_id = Some (- 1001), px_topic_id = Some 3, px_group = Some (u ''A''), px_zone = (\<lambda>_. 0),
     px_local = (\<lambda>_. 0), px_quiet = False, px_calendar_url = None\<rparr>"

definition hosted_day :: "int \<Rightarrow> bool \<Rightarrow> envelope" where
  "hosted_day fetched force = (demo_day [demo_class (9 * hour)])\<lparr>ev_fetched_at := utc_at fetched, ev_force_digest := force\<rparr>"

definition hosted_state :: delivery_state where
  "hosted_state = \<lparr>ds_previous = Some (hosted_day 0 False), ds_last_digest = None, ds_reminders = [],
     ds_calendar_message = Some 7, ds_user_cards = []\<rparr>"

definition hosted_world :: "http_call list publisher_world" where
  "hosted_world = \<lparr>pw_net = [], pw_file = Some (save_delivery_state hosted_state),
     pw_disk = (\<lambda>_. Written), pw_calendar = None\<rparr>"

definition accepted :: http_response where
  "accepted = \<lparr>hr_status = 200,
     hr_body = Some (JObj [(u ''ok'', JBool True), (u ''result'', JObj [(u ''message_id'', JInt 9)])])\<rparr>"

definition good_server :: server where
  "good_server sent c = Inr accepted"

definition no_server :: server where
  "no_server sent c = Inl Pub_transport_error"

definition forgetful_server :: server where
  "forgetful_server sent c =
     (case c of
        Edit_rich_message _ _ _ \<Rightarrow> Inr \<lparr>hr_status = 400, hr_body = Some (JObj [(u ''description'', JStr (u ''message to edit not found''))])\<rparr>
      | Edit_classic _ _ _ \<Rightarrow> Inr \<lparr>hr_status = 400, hr_body = Some (JObj [(u ''description'', JStr (u ''message to edit not found''))])\<rparr>
      | Send_classic _ _ _ _ \<Rightarrow> Inr \<lparr>hr_status = 500, hr_body = None\<rparr>
      | _ \<Rightarrow> Inr accepted)"

lemma hosted_clean: "clean_envelope (hosted_day 0 b)" "new_envelope (hosted_day 0 b) = Inr (hosted_day 0 b)"
    "clean_envelope (hosted_day hour b)" "new_envelope (hosted_day hour b) = Inr (hosted_day hour b)"
  by (simp_all add: hosted_day_def demo_day_def demo_class_def new_envelope_def clean_envelope_def clean_lesson_def clean_def
      clean_option_def aware_def guard_def weekday_def max_lessons_def strip_def lstrip_by_def rstrip_by_def is_space_def
      is_date_def max_date_def dt_date_def durations epoch_ordinal_def utc_at_def)

lemma hosted_state_clean: "clean_state hosted_state"
  using hosted_clean(1,2) [of False] by (simp add: clean_state_def hosted_state_def)

lemma hosted_loaded: "load_delivery_state (pw_file hosted_world) = hosted_state"
  using delivery_state_roundtrip [OF hosted_state_clean] by (simp add: hosted_world_def)

lemma accepted_id: "telegram_message_id accepted = Some 9"
  by (simp add: telegram_message_id_def accepted_def is_success_def body_field_def jget_def)

lemma weekend_plan_later: "14 < weekend_plan_day"
  by code_simp

lemma digest_rendered:
  assumes "ev_end e = 14"
  shows "\<exists>rich. render_rich_digest z l e now url = Inr rich" "\<exists>body. render_digest_fallback z e now url = Inr body"
proof -
  have "display_envelope e d = Inr e" for d
    using assms weekend_plan_later by (simp add: display_envelope_def weekend_plan_lessons_def)
  then show "\<exists>rich. render_rich_digest z l e now url = Inr rich" "\<exists>body. render_digest_fallback z e now url = Inr body"
    by (simp_all add: render_rich_digest_def render_digest_fallback_def Let_def)
qed

lemma morning_zone: "in_zone (\<lambda>_. 0) demo_morning = demo_morning"
  by (simp add: in_zone_def demo_morning_def instant_of_def)

lemma morning_due: "due_reminder (hosted_day 0 False) demo_morning [] = Some (first_marker demo_morning (9 * hour),
    first_text (hosted_day 0 False) demo_morning (9 * hour) [demo_class (9 * hour)])"
  by (simp add: due_reminder_def hosted_day_def demo_day_def demo_class_def demo_morning_reads lessons_on_def slot_blocks_def
      slot_of_def local_lesson_time_def demo_morning_def dt_date_def epoch_ordinal_def durations)

lemma hosted_state_fields:
  "ds_previous hosted_state = Some (hosted_day 0 False)" "ds_calendar_message hosted_state = Some 7" "ds_reminders hosted_state = []"
  by (simp_all add: hosted_state_def)

lemma hosted_settings_fields:
  "required_number (px_target_chat_id hosted_settings) True = pub_return (- 1001)"
  "required_number (px_topic_id hosted_settings) False = pub_return 3"
  "required_words (px_group hosted_settings) = pub_return (u ''A'')"
  "px_zone hosted_settings = (\<lambda>_. 0)" "\<not> px_quiet hosted_settings"
  by (simp_all add: hosted_settings_def required_number_def required_words_def strip_def lstrip_by_def rstrip_by_def is_space_def)

lemma pub_bind_return [simp]: "pub_bind (pub_return x) f = f x"
  by (simp add: pub_bind_def pub_return_def fun_eq_iff)

lemma hosted_load: "pub_bind load_state f hosted_world = f hosted_state hosted_world"
  by (simp add: pub_bind_def load_state_def hosted_loaded)

lemma morning_aware: "pub_check (aware demo_morning) = pub_return ()"
  by (simp add: pub_check_def demo_morning_def aware_def)

definition hosted_target :: target where
  "hosted_target = \<lparr>tg_chat = - 1001, tg_topic = 3, tg_card_key = None\<rparr>"

lemma hosted_target_fields: "tg_chat hosted_target = - 1001" "tg_topic hosted_target = 3" "tg_card_key hosted_target = None"
  by (simp_all add: hosted_target_def)

lemma bot_fields:
  "de_send (bot_api server) = (\<lambda>chat topic body. send_classic server chat topic body False)"
  "de_send_rich (bot_api server) = send_rich server" "de_edit_rich (bot_api server) = Some (edit_rich server)"
  "de_pin (bot_api server) = Some (pin_message server)"
  by (simp_all add: bot_api_def)

lemma hosted_reminder:
  "publish_due_reminder hosted_settings (bot_api server) demo_morning hosted_world =
     remind_about hosted_settings (bot_api server) hosted_target (hosted_day 0 False) demo_morning hosted_state hosted_world"
  by (simp add: publish_due_reminder_def hosted_settings_fields morning_aware hosted_load hosted_state_fields hosted_target_def morning_zone)

lemma hosted_refresh:
  assumes "ev_end e = 14"
  obtains rich body where "refresh_card hosted_settings d t e now i = upsert_calendar d (tg_chat t) (tg_topic t) i rich body"
proof -
  obtain rich body where "render_rich_digest (px_zone hosted_settings) (px_local hosted_settings) e now (px_calendar_url hosted_settings) = Inr rich"
      "render_digest_fallback (px_zone hosted_settings) e now (px_calendar_url hosted_settings) = Inr body"
    using digest_rendered [OF assms] by blast
  then show thesis by (intro that) (simp add: refresh_card_def pub_lift_def)
qed

lemma hosted_end: "ev_end (hosted_day f b) = 14"
  by (simp add: hosted_day_def demo_day_def)

lemma card_replaced_only_when_gone_witness:
  "list_all (\<lambda>c. \<not> is_new_card c) (pw_net (fst (publish_due_reminder hosted_settings (bot_api no_server) demo_morning hosted_world)))"
proof -
  obtain w' r where run: "publish_due_reminder hosted_settings (bot_api no_server) demo_morning hosted_world = (w', r)" by fastforce
  have "card_known no_server" by (simp add: card_known_def no_server_def card_is_gone_def)
  from card_replaced_only_when_gone [OF run this] run show ?thesis
    by (simp add: hosted_loaded hosted_state_fields) (simp add: hosted_world_def)
qed

lemma gone_answers:
  "telegram_message_id \<lparr>hr_status = 400, hr_body = b\<rparr> = None"
  "\<not> telegram_not_modified \<lparr>hr_status = 400, hr_body = Some (JObj [(u ''description'', JStr (u ''message to edit not found''))])\<rparr>"
  "card_is_gone (telegram_delivery_error \<lparr>hr_status = 400, hr_body = Some (JObj [(u ''description'', JStr (u ''message to edit not found''))])\<rparr>)"
  "telegram_message_id \<lparr>hr_status = 500, hr_body = None\<rparr> = None"
  by (simp_all add: telegram_message_id_def telegram_not_modified_def telegram_delivery_error_def card_is_gone_def is_success_def
      body_field_def jget_def contains_def casefold_def show_int_def show_nat.simps)

lemma delivery_error_not_torn: "telegram_delivery_error r \<noteq> Pub_torn_error"
  by (simp add: telegram_delivery_error_def Let_def)

lemma failed_reminder_forgets_card_witness:
  "\<exists>w' err. publish_due_reminder hosted_settings (bot_api forgetful_server) demo_morning hosted_world = (w', Inl err)
     \<and> pw_file w' = pw_file hosted_world \<and> list_ex is_new_card (pw_net w')"
proof -
  obtain rich body where r: "refresh_card hosted_settings (bot_api forgetful_server) hosted_target (hosted_day 0 False) demo_morning (Some 7) =
      upsert_calendar (bot_api forgetful_server) (- 1001) 3 (Some 7) rich body"
    using hosted_refresh [OF hosted_end] by (metis hosted_target_def target.select_convs(1,2))
  have "\<exists>w' err. publish_due_reminder hosted_settings (bot_api forgetful_server) demo_morning hosted_world = (w', Inl err)
      \<and> list_ex is_new_card (pw_net w') \<and> err \<noteq> Pub_torn_error"
    unfolding hosted_reminder remind_about_def
    by (simp add: Let_def hosted_settings_fields hosted_state_fields hosted_target_fields card_id_def refresh_known_card_def
        r morning_due upsert_calendar_def bot_fields edit_rich_def post_def forgetful_server_def
        edit_outcome_def accepted_id gone_answers create_card_def pin_quietly_def send_rich_def pin_message_def
        pub_net_def pub_bind_def publish_reminder_def send_classic_def pub_return_def is_new_card_def accepted_def is_success_def
        telegram_message_id_def body_field_def jget_def delivery_error_not_torn del: u_Cons)
  then obtain w' err where run: "publish_due_reminder hosted_settings (bot_api forgetful_server) demo_morning hosted_world = (w', Inl err)"
      "list_ex is_new_card (pw_net w')" "err \<noteq> Pub_torn_error" by blast
  with failed_reminder_forgets_card [OF run(1), unfolded hosted_loaded, OF hosted_state_clean] show ?thesis by blast
qed

definition hosted_publish :: "server \<Rightarrow> envelope \<Rightarrow> http_call list publisher_world \<times> (publish_error + int list)" where
  "hosted_publish server e =
     publish_dispatched (\<lambda>_. None) Some (\<lambda>_. 1) hosted_settings (bot_api server) None (sort_keys (envelope_dict e)) (u ''A'')
       demo_morning hosted_world"

lemma hosted_decoded:
  assumes "clean_envelope e" "new_envelope e = Inr e"
  shows "decode_schedule_envelope Some (\<lambda>_. 1) (sort_keys (envelope_dict e)) = Inr e"
  by (simp add: decode_schedule_envelope_def guard_def max_encoded_def envelope_dict_roundtrip [OF assms])

lemma hosted_group: "pub_check (casefold (strip (u ''A'')) = casefold (u ''A'')) = pub_return ()"
    "pub_check (casefold (strip (ev_group_key (hosted_day f b))) = casefold (u ''A'')) = pub_return ()"
  by (simp_all add: pub_check_def hosted_day_def demo_day_def strip_def lstrip_by_def rstrip_by_def is_space_def)

lemma failed_delivery_keeps_baseline_witness:
  "\<exists>w' err. hosted_publish no_server (hosted_day hour True) = (w', Inl err)
     \<and> ds_previous (load_delivery_state (pw_file w')) = Some (hosted_day 0 False)"
proof -
  obtain rich body where r: "refresh_card hosted_settings (bot_api no_server) hosted_target (hosted_day hour True) demo_morning (Some 7) =
      upsert_calendar (bot_api no_server) (- 1001) 3 (Some 7) rich body"
    using hosted_refresh [OF hosted_end] by (metis hosted_target_fields(1,2))
  have later: "\<not> instant_of (ev_fetched_at (hosted_day hour True)) \<le> instant_of (ev_fetched_at (hosted_day 0 False))"
    by (simp add: hosted_day_def utc_at_def instant_of_def durations)
  have force: "ev_force_digest (hosted_day hour True)" by (simp add: hosted_day_def)
  have publish: "publish_envelope hosted_settings (bot_api no_server) hosted_target None (hosted_day hour True) demo_morning hosted_world
      = (hosted_world\<lparr>pw_net := [Edit_rich_message (- 1001) 7 rich]\<rparr>, Inl Pub_transport_error)"
    by (simp add: publish_envelope_def morning_aware hosted_load hosted_state_fields later hosted_settings_fields morning_zone
        deliver_envelope_def envelope_changes_def force pub_lift_def Let_def hosted_target_fields card_id_def)
      (simp add: pub_bind_def r upsert_calendar_def bot_fields pub_net_def edit_rich_def post_def no_server_def card_is_gone_def
        hosted_world_def)
  have run: "hosted_publish no_server (hosted_day hour True)
      = (hosted_world\<lparr>pw_net := [Edit_rich_message (- 1001) 7 rich]\<rparr>, Inl Pub_transport_error)"
    using publish
    by (simp add: hosted_publish_def publish_dispatched_def hosted_settings_fields hosted_group decode_legacy_card_def pub_lift_def
        hosted_decoded [OF hosted_clean(3,4)] hosted_target_def del: One_nat_def u_Cons)
  then show ?thesis
    using failed_delivery_keeps_baseline [OF run [unfolded hosted_publish_def], unfolded hosted_loaded, OF _ _ hosted_state_clean]
    by (simp add: hosted_state_fields)
qed

lemma stale_envelope_ignored_witness:
  "pw_net (fst (hosted_publish good_server (hosted_day 0 False))) = []
     \<and> pw_file (fst (hosted_publish good_server (hosted_day 0 False))) = Some (save_delivery_state hosted_state)"
proof -
  obtain w' r where run: "hosted_publish good_server (hosted_day 0 False) = (w', r)" by fastforce
  have "pw_net w' = pw_net hosted_world \<and> pw_file w' = pw_file hosted_world"
    by (rule stale_envelope_ignored [OF _ hosted_decoded [OF hosted_clean(1,2)] _ _ run [unfolded hosted_publish_def], where p = "hosted_day 0 False"])
      (simp_all add: decode_legacy_card_def hosted_loaded hosted_state_fields)
  then show ?thesis by (simp add: run) (simp add: hosted_world_def)
qed


end
