(* ===== verification/CiEnvelopeDecoding.thy ===== *)
theory CiEnvelopeDecoding
  imports CiEnvelopeProperties
begin

text \<open>
  What the decoder of the hand-over and of the state file lets through: its texts are stripped and
  within the limits, its dates and times are dates and times, so everything decoded is clean.
\<close>

section \<open>Dates and times that were read\<close>

lemma year_bound:
  assumes "1 \<le> y" and "y \<le> 9999"
  shows "0 \<le> days_before_year y" "days_before_year y + (if is_leap y then 366 else 365) \<le> max_date"
proof -
  define z where "z = y - 1"
  have z: "0 \<le> z" "z \<le> 9998" using assms by (simp_all add: z_def)
  have q: "z div 4 * 4 \<le> z" "z < (z div 4 + 1) * 4" "z div 100 * 100 \<le> z" "z < (z div 100 + 1) * 100"
    "z div 400 * 400 \<le> z" "z < (z div 400 + 1) * 400" by presburger+
  have b: "days_before_year y = z * 365 + z div 4 - z div 100 + z div 400"
    by (simp add: days_before_year_def z_def [symmetric] Let_def)
  have pos: "0 \<le> z div 4" "0 \<le> z div 400" using z by (simp_all add: pos_imp_zdiv_nonneg_iff)
  have "z div 100 \<le> z" using q z by linarith
  then show "0 \<le> days_before_year y" unfolding b using pos z by linarith
  show "days_before_year y + (if is_leap y then 366 else 365) \<le> max_date"
  proof (cases "z = 9998")
    case True
    then have "y = 9999" by (simp add: z_def)
    then show ?thesis by (simp add: days_before_year_def is_leap_def max_date_def)
  next
    case False
    then have "z \<le> 9997" using z by simp
    then have "days_before_year y \<le> 3651693" unfolding b using q by linarith
    then show ?thesis by (simp add: max_date_def)
  qed
qed

lemma month_bound:
  assumes "1 \<le> m" and "m \<le> 12" and "k \<le> days_in_month y m"
  shows "0 \<le> days_before_month y m" "days_before_month y m + k \<le> (if is_leap y then 366 else 365)"
proof -
  let ?all = "[1, 2, 3, 4, 5, 6, 7, 8, 9, 10, 11, 12] :: int list"
  have "m \<in> set ?all" using assms(1,2) by simp presburger
  then obtain before after where s: "?all = before @ m # after" by (meson split_list)
  have pos: "0 \<le> sum_list (map (days_in_month y) xs)" for xs
    by (induction xs) (simp_all add: days_in_month_def)
  have all: "sum_list (map (days_in_month y) ?all) = (if is_leap y then 366 else 365)"
    by (simp add: days_in_month_def)
  have d: "days_before_month y m = sum_list (map (days_in_month y) before)"
    using months_before [OF s [symmetric]] by simp
  show "0 \<le> days_before_month y m" unfolding d by (rule pos)
  have "sum_list (map (days_in_month y) before) + days_in_month y m + sum_list (map (days_in_month y) after)
      = (if is_leap y then 366 else 365)"
    unfolding all [symmetric] s by simp
  then show "days_before_month y m + k \<le> (if is_leap y then 366 else 365)"
    unfolding d using assms(3) pos [of after] by linarith
qed

lemma valid_date_is_date:
  assumes "valid_date y m k = Some d"
  shows "is_date d"
proof -
  have r: "1 \<le> y" "y \<le> 9999" "1 \<le> m" "m \<le> 12" "1 \<le> k" "k \<le> days_in_month y m" "d = ordinal y m k"
    using assms by (auto simp: valid_date_def split: if_splits)
  show ?thesis using year_bound [OF r(1,2)] month_bound [OF r(3,4,6)] r(5,7)
    by (simp add: is_date_def ordinal_def)
qed

lemma read_date_is_date: "read_date s = Some (d, rest) \<Longrightarrow> is_date d"
  by (auto simp: read_date_def bind_eq_Some_conv dest: valid_date_is_date)

lemma fixed_nonneg: "fixed w s = Some (n, rest) \<Longrightarrow> 0 \<le> n"
  by (auto simp: fixed_def split: if_splits)

lemma digits_value_bound: "list_all (\<lambda>c. 48 \<le> c \<and> c \<le> 57) ds \<Longrightarrow> digits_value acc ds < (acc + 1) * 10 ^ length ds"
proof (induction ds arbitrary: acc)
  case (Cons c ds)
  define n where "n = c - 48"
  have n: "n < 10" "c = 48 + n" using Cons.prems by (auto simp: n_def)
  have "digits_value (acc * 10 + n) ds < (acc * 10 + n + 1) * 10 ^ length ds" using Cons by simp
  also have "\<dots> \<le> ((acc + 1) * 10) * 10 ^ length ds" using n(1) by (intro mult_right_mono) simp_all
  finally have "digits_value (acc * 10 + n) ds < (acc + 1) * 10 ^ Suc (length ds)" by (simp only: power_Suc mult.assoc)
  moreover have "digit_value c = Some n" using n by simp
  ultimately show ?case by simp
qed simp

lemma fixed_two: "fixed 2 s = Some (n, rest) \<Longrightarrow> 0 \<le> n"
  by (rule fixed_nonneg)

lemma read_fraction_bound:
  assumes "read_fraction s = Some (f, rest)"
  shows "0 \<le> f" "f < second"
proof -
  let ?ds = "takeWhile (\<lambda>c. 48 \<le> c \<and> c \<le> 57) s"
  let ?used = "take 6 ?ds"
  have f: "f = int (digits_value 0 ?used) * 10 ^ (6 - length ?used)"
    using assms by (auto simp: read_fraction_def Let_def split: if_splits)
  have "list_all (\<lambda>c. 48 \<le> c \<and> c \<le> 57) ?used"
    by (auto simp: list_all_iff dest!: in_set_takeD set_takeWhileD)
  from digits_value_bound [OF this, of 0]
  have "int (digits_value 0 ?used) < 10 ^ length ?used" by (simp add: of_nat_less_iff [symmetric])
  then have "f < 10 ^ length ?used * 10 ^ (6 - length ?used)" unfolding f by (intro mult_strict_right_mono) simp_all
  also have "\<dots> = 10 ^ 6" by (simp add: power_add [symmetric])
  finally show "f < second" by (simp add: second_def)
  show "0 \<le> f" unfolding f by simp
qed

lemma clock_value_bound:
  fixes h m s f :: int
  assumes "0 \<le> h" "h < 24" "0 \<le> m" "m < 60" "0 \<le> s" "s < 60" "0 \<le> f" "f < second"
  shows "0 \<le> h * hour + m * minute + s * second + f" "h * hour + m * minute + s * second + f < day_us"
  using assms by (simp_all add: durations)

lemma read_clock_bound:
  assumes "read_clock s = Some (t, rest)"
  shows "0 \<le> t \<and> t < day_us"
proof -
  obtain h s1 where h: "fixed 2 s = Some (h, s1)" "h < 24" using assms
    by (auto simp: read_clock_def bind_eq_Some_conv split: if_splits)
  note h0 = fixed_nonneg [OF h(1)]
  have z: "(0 :: int) < second" by (simp add: second_def)
  show ?thesis
  proof (cases "begins 58 s1")
    case False
    then have "t = h * hour" using assms h by (simp add: read_clock_def)
    then show ?thesis using clock_value_bound [OF h0 h(2), of 0 0 0] z by simp
  next
    case True
    then obtain m s2 where m: "fixed 2 (tl s1) = Some (m, s2)" "m < 60"
      using assms h by (auto simp: read_clock_def bind_eq_Some_conv split: if_splits)
    note m0 = fixed_nonneg [OF m(1)]
    show ?thesis
    proof (cases "begins 58 s2")
      case False
      then have "t = h * hour + m * minute" using assms h m True by (simp add: read_clock_def)
      then show ?thesis using clock_value_bound [OF h0 h(2) m0 m(2), of 0 0] z by simp
    next
      case two: True
      then obtain x s3 where x: "fixed 2 (tl s2) = Some (x, s3)" "x < 60"
        using assms h m True by (auto simp: read_clock_def bind_eq_Some_conv split: if_splits)
      note x0 = fixed_nonneg [OF x(1)]
      from assms h m x True two consider "t = h * hour + m * minute + x * second"
        | f s4 where "read_fraction (tl s3) = Some (f, s4)" "t = h * hour + m * minute + x * second + f"
        by (auto simp: read_clock_def bind_eq_Some_conv split: if_splits)
      then show ?thesis
      proof cases
        case 1
        then show ?thesis using clock_value_bound [OF h0 h(2) m0 m(2) x0 x(2), of 0] z by simp
      next
        case 2
        then show ?thesis using clock_value_bound [OF h0 h(2) m0 m(2) x0 x(2) read_fraction_bound [OF 2(1)]] by simp
      qed
    qed
  qed
qed

lemma from_iso_range:
  assumes "from_iso s = Some d"
  shows "is_date (dt_date d)" "case utcoff d of None \<Rightarrow> True | Some z \<Rightarrow> - day_us < z \<and> z < day_us"
proof -
  have wall: "dt_date (datetime_of x t z) = x" if "0 \<le> t" "t < day_us" for x t z
    using that by (simp add: dt_date_def datetime_of_def)
  have pos: "(0 :: int) < day_us" by (simp add: durations)
  have off: "case z of None \<Rightarrow> True | Some k \<Rightarrow> - day_us < k \<and> k < day_us" if "read_offset r = Some z" for r z
    using that pos
    by (auto simp: read_offset_def bind_eq_Some_conv dest!: read_clock_bound split: list.splits if_splits)
  obtain x s1 where x: "read_date s = Some (x, s1)"
      "(case s1 of [] \<Rightarrow> Some (datetime_of x 0 None)
        | sep # s2 \<Rightarrow> Option.bind (read_clock s2) (\<lambda>(t, s3). Option.bind (read_offset s3) (\<lambda>z. Some (datetime_of x t z)))) = Some d"
    using assms by (auto simp: from_iso_def bind_eq_Some_conv)
  consider "d = datetime_of x 0 None"
    | t s2 s3 z where "read_clock s2 = Some (t, s3)" "read_offset s3 = Some z" "d = datetime_of x t z"
    using x(2) by (auto simp: bind_eq_Some_conv split: list.splits)
  then have "\<exists>t z. 0 \<le> t \<and> t < day_us \<and> d = datetime_of x t z
      \<and> (case z of None \<Rightarrow> True | Some k \<Rightarrow> - day_us < k \<and> k < day_us)"
  proof cases
    case 1
    then show ?thesis using pos by fastforce
  next
    case 2
    then show ?thesis using off [OF 2(2)] read_clock_bound [OF 2(1)] by blast
  qed
  then show "is_date (dt_date d)" "case utcoff d of None \<Rightarrow> True | Some z \<Rightarrow> - day_us < z \<and> z < day_us"
    using read_date_is_date [OF x(1)] wall by (auto simp: datetime_of_def)
qed

section \<open>Clean schedules\<close>

lemma length_strip: "length (strip s) \<le> length s"
  using length_dropWhile_le [of is_space "rev (dropWhile is_space s)"] length_dropWhile_le [of is_space s]
  by (simp add: strip_def lstrip_by_def rstrip_by_def)

lemma collect_Inr_in: "collect (map f xs) = Inr ys \<Longrightarrow> y \<in> set ys \<Longrightarrow> \<exists>x \<in> set xs. f x = Inr y"
  by (induction xs arbitrary: ys) (auto simp: and_then_Inr_iff)

lemma required_string_is_clean:
  assumes "required_string kvs key k = Inr s"
  shows "clean k s"
proof -
  obtain raw where "strip raw \<noteq> []" "length raw \<le> k" "s = strip raw"
    using assms by (auto simp: required_string_def not_less split: json.splits if_splits)
  moreover have "length (strip raw) \<le> length raw" by (rule length_strip)
  ultimately show ?thesis by (simp add: clean_def)
qed

lemma optional_string_is_clean:
  assumes "optional_string kvs key k = Inr v"
  shows "clean_option k v"
proof (cases v)
  case (Some s)
  then obtain raw where "strip raw \<noteq> []" "length raw \<le> k" "s = strip raw"
    using assms by (auto simp: optional_string_def not_less split: json.splits if_splits)
  moreover have "length (strip raw) \<le> length raw" by (rule length_strip)
  ultimately show ?thesis using Some by (simp add: clean_option_def clean_def)
qed (simp add: clean_option_def)

lemma date_from_iso_is_date: "date_from_iso s = Inr d \<Longrightarrow> is_date d"
  by (auto simp: date_from_iso_def dest: read_date_is_date split: option.splits list.splits)

lemma time_from_iso_range: "time_from_iso s = Inr t \<Longrightarrow> 0 \<le> t \<and> t < day_us"
  by (auto simp: time_from_iso_def dest: read_clock_bound split: option.splits list.splits)

lemma lesson_from_dict_clean:
  assumes "lesson_from_dict j = Inr l"
  shows "clean_lesson l"
proof -
  obtain kvs where j: "j = JObj kvs" using assms by (auto simp: lesson_from_dict_def split: json.splits)
  obtain d s e subject kind teacher room building subgroup sid where
      "and_then (required_string kvs (u ''day'') 10) date_from_iso = Inr d"
      "and_then (required_string kvs (u ''starts_at'') 16) time_from_iso = Inr s"
      "and_then (required_string kvs (u ''ends_at'') 16) time_from_iso = Inr e"
    and texts: "required_string kvs (u ''subject'') 500 = Inr subject"
      "optional_string kvs (u ''lesson_type'') 100 = Inr kind" "optional_string kvs (u ''teacher'') 256 = Inr teacher"
      "optional_string kvs (u ''room'') 100 = Inr room" "optional_string kvs (u ''building'') 100 = Inr building"
      "optional_string kvs (u ''subgroup'') 100 = Inr subgroup" "optional_string kvs (u ''source_id'') 100 = Inr sid"
    and new: "new_lesson \<lparr>l_day = d, l_starts_at = s, l_ends_at = e, l_subject = subject, l_type = kind,
        l_teacher = teacher, l_room = room, l_building = building, l_subgroup = subgroup, l_source_id = sid\<rparr> = Inr l"
    using assms unfolding j lesson_from_dict_def json.case and_then_Inr_iff [of "required_string _ _ 500"]
      and_then_Inr_iff [of "optional_string _ _ _"] and_then_Inr_iff [of "and_then _ _"]
    by (elim exE conjE) (auto split: sum.splits)
  moreover have "is_date d" "0 \<le> s \<and> s < day_us" "0 \<le> e \<and> e < day_us"
    using calculation(1-3) by (auto simp: and_then_Inr_iff dest: date_from_iso_is_date time_from_iso_range)
  moreover have "l = \<lparr>l_day = d, l_starts_at = s, l_ends_at = e, l_subject = subject, l_type = kind,
        l_teacher = teacher, l_room = room, l_building = building, l_subgroup = subgroup, l_source_id = sid\<rparr>" "s < e"
    using new by (auto simp: new_lesson_def and_then_Inr_iff guard_Inr_iff)
  ultimately show ?thesis
    using required_string_is_clean [OF texts(1)] texts(2-7) [THEN optional_string_is_clean]
    by (simp add: clean_lesson_def)
qed

lemma new_envelope_same: "new_envelope e = Inr e' \<Longrightarrow> e' = e"
  by (auto simp: new_envelope_def and_then_Inr_iff)

lemma envelope_from_dict_clean:
  assumes "envelope_from_dict j = Inr e"
  shows "clean_envelope e" "new_envelope e = Inr e"
proof -
  obtain kvs where j: "j = JObj kvs" using assms by (auto simp: envelope_from_dict_def split: json.splits)
  obtain items where items: "jget kvs (u ''lessons'') = JArr items"
    using assms unfolding j by (auto simp: envelope_from_dict_def and_then_Inr_iff split: json.splits)
  obtain fetched grp start last lessons where f: "and_then (required_string kvs (u ''fetched_at'') 64) datetime_from_iso = Inr fetched"
      "required_string kvs (u ''group'') 100 = Inr grp"
      "and_then (required_string kvs (u ''horizon_start'') 10) date_from_iso = Inr start"
      "and_then (required_string kvs (u ''horizon_end'') 10) date_from_iso = Inr last"
      "collect (map lesson_from_dict items) = Inr lessons"
    and new: "new_envelope \<lparr>ev_group_key = grp, ev_fetched_at = fetched, ev_start = start, ev_end = last,
        ev_lessons = lessons, ev_force_digest = (jget kvs (u ''force_digest'') = JBool True)\<rparr> = Inr e"
    using assms unfolding j envelope_from_dict_def json.case items
    by (auto simp: and_then_Inr_iff [of "guard _ _"] and_then_Inr_iff [of "and_then _ _"]
        and_then_Inr_iff [of "required_string _ _ _"] and_then_Inr_iff [of "collect _"])
  have dates: "is_date (dt_date fetched)" "case utcoff fetched of None \<Rightarrow> True | Some z \<Rightarrow> - day_us < z \<and> z < day_us"
      "is_date start" "is_date last"
  proof -
    obtain s where "from_iso s = Some fetched"
      using f(1) by (auto simp: and_then_Inr_iff datetime_from_iso_def split: option.splits)
    from from_iso_range [OF this]
    show "is_date (dt_date fetched)" "case utcoff fetched of None \<Rightarrow> True | Some z \<Rightarrow> - day_us < z \<and> z < day_us"
      by simp_all
    show "is_date start" "is_date last"
      using f(3,4) by (auto simp: and_then_Inr_iff dest: date_from_iso_is_date)
  qed
  have "\<forall>l \<in> set lessons. clean_lesson l"
    using collect_Inr_in [OF f(5)] lesson_from_dict_clean by blast
  then show "clean_envelope e" "new_envelope e = Inr e"
    using dates new_envelope_same [OF new] required_string_is_clean [OF f(2)] new
    by (simp_all add: clean_envelope_def list_all_iff)
qed

lemma decoded_clean:
  assumes "decode_schedule_envelope unpack len v = Inr e"
  shows "clean_envelope e" "new_envelope e = Inr e"
  using assms envelope_from_dict_clean
  by (auto simp: decode_schedule_envelope_def and_then_Inr_iff split: option.splits)

end
