(* ===== verification/HostedRuns.thy ===== *)
theory HostedRuns
  imports PublisherProperties CiEnvelopeDecoding
begin

text \<open>
  Sequences of hosted runs over one state file: what any run, failed or not, makes of the reminders
  that were recorded and of the state's well-formedness, so that no reminder is sent twice; and the
  way of an envelope from the source job to the publisher.
\<close>

section \<open>Reminders\<close>





















section \<open>Sequences of runs\<close>













section \<open>Two runs of one morning\<close>













end
