(* ===== verification/HandOver.thy ===== *)
theory HandOver
  imports HostedRuns SpbGasuProperties
begin

text \<open>
  From the source job to the publisher: what the parser of the timetable leaves of a text, what the
  lessons of two weeks are made of, and what the receiving job makes of every envelope the source
  job can build, those beyond the limits of its decoder included.
\<close>

section \<open>Tidy texts\<close>

text \<open>Stripped and not empty; the limits of the decoder are a matter of their own.\<close>

definition tidy :: "pystr \<Rightarrow> bool" where
  "tidy s \<longleftrightarrow> strip s = s \<and> s \<noteq> []"

definition tidy_option :: "pystr option \<Rightarrow> bool" where
  "tidy_option v \<longleftrightarrow> (case v of None \<Rightarrow> True | Some s \<Rightarrow> tidy s)"

definition option_fits :: "nat \<Rightarrow> pystr option \<Rightarrow> bool" where
  "option_fits k v \<longleftrightarrow> (case v of None \<Rightarrow> True | Some s \<Rightarrow> length s \<le> k)"

lemma clean_tidy: "clean k s \<longleftrightarrow> tidy s \<and> length s \<le> k"
  by (auto simp: clean_def tidy_def)

lemma clean_option_tidy: "clean_option k v \<longleftrightarrow> tidy_option v \<and> option_fits k v"
  by (auto simp: clean_option_def tidy_option_def option_fits_def clean_tidy split: option.split)

lemma tidy_strip: "strip s \<noteq> [] \<Longrightarrow> tidy (strip s)"
  by (simp add: tidy_def)

lemma tidy_nonempty_strip: "tidy_option (nonempty (strip s))"
  by (simp add: nonempty_def tidy_option_def tidy_strip)

section \<open>The parsed template and its lessons\<close>

definition tidy_row :: "weekly_lesson \<Rightarrow> bool" where
  "tidy_row raw \<longleftrightarrow> tidy_option (wl_group raw) \<and> tidy_option (wl_professor raw)"

lemma column_tidy: "tidy_option (column columns i)"
  by (simp add: column_def tidy_option_def tidy_strip)

lemma parse_block_tidy: "all_of tidy_row (parse_block day slot par b)"
  by (auto simp: parse_block_def Let_def tidy_row_def column_tidy split: prod.splits)

lemma parse_lesson_node_tidy: "all_of tidy_row (parse_lesson_node day par n)"
  by (auto simp: parse_lesson_node_def Let_def split: prod.splits option.splits
      intro!: all_of_concat parse_block_tidy)

lemma parse_day_node_tidy: "all_of tidy_row (parse_day_node par n)"
  by (auto simp: parse_day_node_def Let_def split: prod.splits option.splits
      intro!: all_of_concat parse_lesson_node_tidy)

lemma parse_week_node_tidy: "all_of tidy_row (parse_week_node n)"
  by (auto simp: parse_week_node_def Let_def split: prod.splits
      intro!: all_of_concat parse_day_node_tidy)

lemma parse_schedule_html_tidy:
  assumes "parse_schedule_html events g = Inr s"
  shows "list_all tidy_row (ws_lessons s)" "ws_group_key s = g"
proof -
  have "all_of tidy_row (concat_results (map parse_week_node nodes))" for nodes
    by (intro all_of_concat_map parse_week_node_tidy)
  moreover obtain nodes where "concat_results (map parse_week_node nodes) = Inr (ws_lessons s)"
    using assms by (auto simp: parse_schedule_html_def py)
  ultimately show "list_all tidy_row (ws_lessons s)" by (metis all_of_simps(2))
  show "ws_group_key s = g" using assms by (auto simp: parse_schedule_html_def py)
qed

text \<open>What every materialised lesson has, and the limits it may break.\<close>

definition tidy_lesson :: "lesson \<Rightarrow> bool" where
  "tidy_lesson l \<longleftrightarrow> 0 \<le> l_starts_at l \<and> l_starts_at l < l_ends_at l \<and> l_ends_at l < day_us
     \<and> tidy (l_subject l) \<and> clean_option 100 (l_type l) \<and> tidy_option (l_teacher l) \<and> tidy_option (l_room l)
     \<and> tidy_option (l_building l) \<and> tidy_option (l_subgroup l) \<and> clean_option 100 (l_source_id l)"

definition lesson_fits :: "lesson \<Rightarrow> bool" where
  "lesson_fits l \<longleftrightarrow> length (l_subject l) \<le> 500 \<and> option_fits 256 (l_teacher l) \<and> option_fits 100 (l_room l)
     \<and> option_fits 100 (l_building l) \<and> option_fits 100 (l_subgroup l)"

definition within_limits :: "envelope \<Rightarrow> bool" where
  "within_limits e \<longleftrightarrow> length (ev_group_key e) \<le> 100 \<and> list_all lesson_fits (ev_lessons e)"

lemma bell_times:
  assumes "map_of bell_schedule slot = Some (s, e)"
  shows "0 \<le> s \<and> s < e \<and> e < day_us"
proof -
  have "list_all (\<lambda>(k, s, e). 0 \<le> s \<and> s < e \<and> e < day_us) bell_schedule"
    by (simp add: bell_schedule_def durations)
  then show ?thesis using map_of_SomeD [OF assms] by (auto simp: list_all_iff)
qed

lemma type_label_clean: "clean_option 100 (snd (split_lesson_type subject))"
proof -
  have "list_all (\<lambda>(m, label). clean 100 label) lesson_types"
    by (simp add: lesson_types_def clean_def strip_def lstrip_by_def rstrip_by_def is_space_def)
  then show ?thesis
    by (auto simp: split_lesson_type_def Let_def clean_option_def list_all_iff dest!: find_Some_set split: option.splits prod.splits)
qed

lemma split_subject_strip: "strip (fst (split_lesson_type subject)) = fst (split_lesson_type subject)"
  by (auto simp: split_lesson_type_def Let_def split: option.splits prod.splits)

lemma split_auditorium_tidy:
  "tidy_option (fst (split_auditorium v))" "tidy_option (snd (split_auditorium v))"
proof -
  have "tidy_option None" by (simp add: tidy_option_def)
  then show "tidy_option (fst (split_auditorium v))" "tidy_option (snd (split_auditorium v))"
    by (auto simp: split_auditorium_def Let_def tidy_nonempty_strip split: option.splits list.splits)
qed

lemma source_id_clean: "clean 100 (u ''spbgasu:'' @ take 20 (sha256_hex s))"
proof -
  have "48 \<le> c \<and> c \<le> 102" if "c \<in> set (hex_word x)" for c x
    using that by (auto simp: hex_word_def hex_digit_def)
  then have "\<not> is_space c" if "c \<in> set (sha256_hex s)" for c
    using that by (fastforce simp: sha256_hex_def is_space_def)
  then have "solid (take 20 (sha256_hex s))" by (auto simp: solid_def list_all_iff dest: in_set_takeD)
  then have "solid (u ''spbgasu:'' @ take 20 (sha256_hex s))" by (simp add: is_space_def)
  then show ?thesis by (rule clean_solid) simp_all
qed

lemma materialize_lesson_tidy:
  assumes "tidy_row raw"
  shows "all_of tidy_lesson (materialize_lesson g monday par raw)"
  unfolding materialize_lesson_def
proof (rule all_of_and_then)
  fix sd
  let ?id = "Some (u ''spbgasu:'' @ take 20 (sha256_hex (source_identity g sd raw)))"
  have "tidy_lesson l" if "map_of bell_schedule (wl_slot raw) = Some (s, e)"
      "new_lesson \<lparr>l_day = d, l_starts_at = s, l_ends_at = e, l_subject = fst (split_lesson_type (wl_subject raw)),
         l_type = snd (split_lesson_type (wl_subject raw)), l_teacher = wl_professor raw,
         l_room = fst (split_auditorium (wl_auditorium raw)), l_building = snd (split_auditorium (wl_auditorium raw)),
         l_subgroup = wl_group raw, l_source_id = ?id\<rparr> = Inr l" for d s e l
  proof -
    have l: "l = \<lparr>l_day = d, l_starts_at = s, l_ends_at = e, l_subject = fst (split_lesson_type (wl_subject raw)),
         l_type = snd (split_lesson_type (wl_subject raw)), l_teacher = wl_professor raw,
         l_room = fst (split_auditorium (wl_auditorium raw)), l_building = snd (split_auditorium (wl_auditorium raw)),
         l_subgroup = wl_group raw, l_source_id = ?id\<rparr>" "strip (fst (split_lesson_type (wl_subject raw))) \<noteq> []"
      using that(2) by (auto simp: new_lesson_def and_then_Inr_iff guard_Inr_iff simp del: u_Cons)
    have "clean_option 100 ?id" using source_id_clean by (simp add: clean_option_def del: u_Cons)
    then show ?thesis
      using bell_times [OF that(1)] type_label_clean split_subject_strip split_auditorium_tidy assms l(2)
      unfolding l(1) by (simp add: tidy_lesson_def tidy_def tidy_row_def del: u_Cons)
  qed
  then show "all_of tidy_lesson (let lesson_day = (case sd of
           Some d \<Rightarrow> if monday \<le> d \<and> d \<le> monday + 6 then Some d else None
         | None \<Rightarrow> if wl_parity raw = par then Some (monday + wl_weekday raw) else None)
     in case lesson_day of
          None \<Rightarrow> Inr []
        | Some day \<Rightarrow>
            (case map_of bell_schedule (wl_slot raw) of
               None \<Rightarrow> Inl Gasu_protocol
             | Some (starts, ends) \<Rightarrow>
                 let (subject, kind) = split_lesson_type (wl_subject raw);
                     (room, building) = split_auditorium (wl_auditorium raw)
                 in case new_lesson
                      \<lparr>l_day = day, l_starts_at = starts, l_ends_at = ends, l_subject = subject,
                       l_type = kind, l_teacher = wl_professor raw, l_room = room,
                       l_building = building, l_subgroup = wl_group raw,
                       l_source_id = ?id\<rparr> of
                      Inl e \<Rightarrow> Inl (Gasu_lesson e)
                    | Inr l \<Rightarrow> Inr [l]))"
    by (auto simp: Let_def split_beta simp del: u_Cons split: option.split sum.split)
qed

lemma materialize_week_tidy:
  assumes "materialize_week schedule monday par = Inr ls" and "list_all tidy_row (ws_lessons schedule)"
  shows "list_all tidy_lesson ls"
proof -
  obtain xs where xs: "concat_results (map (materialize_lesson (ws_group_key schedule) monday par) (ws_lessons schedule)) = Inr xs"
      "ls = sort_key week_order xs"
    using assms(1) by (auto simp: materialize_week_def and_then_Inr_iff)
  have "all_of tidy_lesson (concat_results (map (materialize_lesson (ws_group_key schedule) monday par) (ws_lessons schedule)))"
    using assms(2) by (intro all_of_concat_map materialize_lesson_tidy) (auto simp: list_all_iff)
  then show ?thesis using xs by (auto simp: list_all_iff)
qed

section \<open>The envelope of two weeks\<close>

lemma checked_envelope:
  "(case new_envelope x of Inl err \<Rightarrow> Inl (Pub_ci_error err) | Inr y \<Rightarrow> Inr y) = Inr z \<longleftrightarrow> new_envelope x = Inr z"
  by (cases "new_envelope x") simp_all

lemma built_envelope:
  assumes "build_schedule_envelope zone src group_key now force = Inr e"
  shows "new_envelope e = Inr e" "ev_group_key e = group_key"
proof -
  have "\<exists>raw :: envelope. new_envelope raw = Inr e \<and> ev_group_key raw = group_key"
    using assms unfolding build_schedule_envelope_def Let_def and_then_Inr_iff
    by (clarsimp simp: and_then_Inr_iff checked_envelope) (rule exI, rule conjI, assumption, simp)
  then obtain raw :: envelope where raw: "new_envelope raw = Inr e" "ev_group_key raw = group_key" by blast
  then have "e = raw" by (auto simp: new_envelope_def and_then_Inr_iff)
  then show "new_envelope e = Inr e" "ev_group_key e = group_key" using raw by simp_all
qed

text \<open>The window of the envelope, the moment it carries and what its lessons are made of.\<close>

lemma built_from_template:
  assumes built: "build_schedule_envelope zone src group_key now force = Inr e"
    and page: "sa_weekly src = Inr weekly" "parse_schedule_html events name = Inr weekly"
  shows "list_all tidy_lesson (ev_lessons e)" "ev_fetched_at e = in_zone zone now"
    "ev_start e = dt_date (in_zone zone now) - weekday (dt_date (in_zone zone now))" "ev_end e = ev_start e + 13"
proof -
  let ?today = "dt_date (in_zone zone now)"
  obtain b xs ys raw where weeks: "week_lessons b weekly (?today - weekday ?today) (?today - weekday ?today) = Inr xs"
      "week_lessons b weekly (?today - weekday ?today) (?today - weekday ?today + 7) = Inr ys"
    and raw: "raw = \<lparr>ev_group_key = group_key, ev_fetched_at = in_zone zone now, ev_start = ?today - weekday ?today,
        ev_end = ?today - weekday ?today + 13, ev_lessons = xs @ ys, ev_force_digest = force\<rparr>" "new_envelope raw = Inr e"
    using built unfolding build_schedule_envelope_def Let_def and_then_Inr_iff
    by (clarsimp simp: and_then_Inr_iff checked_envelope fetched_weekly_def page(1) split: sum.splits if_splits)
  have e: "e = raw" using new_envelope_same [OF raw(2)] .
  have "list_all tidy_lesson ls" if "week_lessons b weekly m k = Inr ls" for m k ls
    using that materialize_week_tidy [OF _ parse_schedule_html_tidy(1) [OF page(2)]]
    by (auto simp: week_lessons_def and_then_Inr_iff split: sum.splits)
  then show "list_all tidy_lesson (ev_lessons e)" using weeks unfolding e raw(1) by simp
  show "ev_fetched_at e = in_zone zone now" "ev_start e = ?today - weekday ?today" "ev_end e = ev_start e + 13"
    unfolding e raw(1) by simp_all
qed

section \<open>What the decoder makes of them\<close>

lemma required_string_tidy:
  "jget kvs key = JStr s \<Longrightarrow> tidy s \<Longrightarrow> required_string kvs key k = (if length s \<le> k then Inr s else Inl Ci_value_error)"
  by (simp add: required_string_def tidy_def)

lemma optional_string_tidy:
  "jget kvs key = opt_json v \<Longrightarrow> tidy_option v
    \<Longrightarrow> optional_string kvs key k = (if option_fits k v then Inr v else Inl Ci_value_error)"
  by (auto simp: optional_string_def tidy_option_def option_fits_def tidy_def opt_json_def split: option.split_asm)

lemma fits_clean: "tidy_lesson l \<Longrightarrow> is_date (l_day l) \<Longrightarrow> lesson_fits l \<longleftrightarrow> clean_lesson l"
  by (auto simp: tidy_lesson_def lesson_fits_def clean_lesson_def clean_option_tidy clean_tidy)

lemma lesson_beyond:
  assumes "tidy_lesson l" and "is_date (l_day l)" and "\<not> lesson_fits l"
  shows "lesson_from_dict (sort_keys (lesson_dict l)) = Inl Ci_value_error"
proof -
  have c: "0 \<le> l_starts_at l" "l_starts_at l < day_us" "0 \<le> l_ends_at l" "l_ends_at l < day_us" "l_starts_at l < l_ends_at l"
    "tidy (l_subject l)" "clean_option 100 (l_type l)" "tidy_option (l_teacher l)" "tidy_option (l_room l)"
    "tidy_option (l_building l)" "tidy_option (l_subgroup l)" "clean_option 100 (l_source_id l)"
    using assms(1) by (simp_all add: tidy_lesson_def)
  then show ?thesis using assms(2,3)
    by (simp add: lesson_dict_def lesson_from_dict_def required_string_clean optional_string_clean jget_Cons u_def
        clean_iso_date clean_iso_time date_from_iso_date time_from_iso_time jget_sorted required_string_tidy
        optional_string_tidy lesson_fits_def)
qed

lemma collect_same_error:
  "\<forall>x \<in> set xs. f x = (if ok x then Inr x else Inl err) \<Longrightarrow> collect (map f xs) = (if list_all ok xs then Inr xs else Inl err)"
  by (induction xs) auto

lemma envelope_beyond:
  assumes "new_envelope e = Inr e" and "list_all tidy_lesson (ev_lessons e)" and "tidy (ev_group_key e)"
    and "is_date (dt_date (ev_fetched_at e))" and "case utcoff (ev_fetched_at e) of None \<Rightarrow> True | Some z \<Rightarrow> - day_us < z \<and> z < day_us"
    and "is_date (ev_start e)" and "is_date (ev_end e)"
  shows "envelope_from_dict (sort_keys (envelope_dict e)) = (if within_limits e then Inr e else Inl Ci_value_error)"
proof -
  have days: "is_date (l_day l)" if "l \<in> set (ev_lessons e)" for l
    using assms(1,6,7) that by (auto simp: new_envelope_def and_then_Inr_iff list_ex_iff guard_Inr_iff is_date_def)
  show ?thesis
  proof (cases "within_limits e")
    case True
    then have "clean_envelope e" using assms(2-7) days
      by (simp add: clean_envelope_def within_limits_def clean_tidy list_all_iff fits_clean)
    then show ?thesis using envelope_dict_roundtrip [OF _ assms(1)] True by simp
  next
    case False
    have each: "lesson_from_dict (sort_keys (lesson_dict l)) = (if lesson_fits l then Inr l else Inl Ci_value_error)"
      if "l \<in> set (ev_lessons e)" for l
    proof -
      have "tidy_lesson l" using assms(2) that by (simp add: list_all_iff)
      then show ?thesis using days [OF that] fits_clean lesson_roundtrip lesson_beyond by simp
    qed
    have "collect (map (\<lambda>l. lesson_from_dict (sort_keys (lesson_dict l))) (ev_lessons e))
        = (if list_all lesson_fits (ev_lessons e) then Inr (ev_lessons e) else Inl Ci_value_error)"
      by (rule collect_same_error) (simp add: each)
    then have lessons: "collect (map lesson_from_dict (map sort_keys (map lesson_dict (ev_lessons e))))
        = (if list_all lesson_fits (ev_lessons e) then Inr (ev_lessons e) else Inl Ci_value_error)"
      by (simp add: o_def)
    have fetched: "clean 64 (iso_datetime (ev_fetched_at e))" "datetime_from_iso (iso_datetime (ev_fetched_at e)) = Inr (ev_fetched_at e)"
      using iso_datetime_text [OF assms(4,5)] from_iso_datetime [OF assms(4,5)]
      by (auto simp: datetime_from_iso_def iso_datetime_def intro: clean_solid)
    show ?thesis
      using False assms(3,6,7) fetched lessons
      by (simp add: envelope_dict_def envelope_from_dict_def required_string_clean required_string_tidy jget_Cons u_def
          clean_iso_date date_from_iso_date guard_def jget_sorted within_limits_def del: map_map)
  qed
qed

section \<open>From the source job to the publisher\<close>

lemma built_envelope_decoded:
  assumes built: "build_schedule_envelope zone src group_key now force = Inr e" and key: "tidy group_key"
    and page: "sa_weekly src = Inr weekly" "parse_schedule_html events name = Inr weekly"
    and clock: "7 \<le> dt_date (in_zone zone now)" "dt_date (in_zone zone now) + 13 \<le> max_date"
      "- day_us < zone (instant_of now)" "zone (instant_of now) < day_us"
  shows "envelope_from_dict (sort_keys (envelope_dict e)) = (if within_limits e then Inr e else Inl Ci_value_error)"
proof -
  note from_page = built_from_template [OF built page]
  have dates: "is_date (dt_date (in_zone zone now))" "is_date (ev_start e)" "is_date (ev_end e)"
    using clock(1,2) weekday_range [of "dt_date (in_zone zone now)"] from_page(3,4) by (simp_all add: is_date_def)
  have zone: "utcoff (in_zone zone now) = Some (zone (instant_of now))" by (simp add: in_zone_def Let_def)
  show ?thesis
    by (rule envelope_beyond [OF built_envelope(1) [OF built] from_page(1)])
      (simp_all add: built_envelope(2) [OF built] key from_page(2) dates zone clock)
qed

lemma json_text_no_card:
  assumes "plain v = Some t" and "starts_with (u ''{'') t"
  shows "decode_legacy_card plain v = Inr None"
  using assms by (cases t) (auto simp: decode_legacy_card_def tomorrow_prefix_def)

text \<open>
  C14: What the source job hands over reaches the publisher as it was built or not at all. When the
  envelope of the two weeks, built from a template that the reader of the timetable parsed, keeps the
  limits of the receiving decoder (group and room, building and subgroup of every lesson 100 characters,
  teacher 256, subject 500), the very envelope, with its group, its window, its moment and every
  lesson, reaches the comparison. When one of these texts is longer, which the sending job does not
  check, the receiving job refuses the whole timetable and changes nothing. This is for every text
  layer that reads back what it wrote and writes an object as a non-empty text beginning with an
  opening brace, for a clock that shows a day from the seventh of January of the year 1 on and at
  least 13 days before the last one of the year 9999, and a zone less than a day from UTC.
\<close>

theorem dispatched_envelope_published:
  assumes "dispatch_schedule pack len cfg src token repository force (\<lambda>rep tok v g n. (n @ [(v, g)], Inr ())) now w = (w', Inr ())"
    and "pw_net w' = pw_net w @ [(v, g)]"
    and "build_schedule_envelope (px_zone cfg) src g now force = Inr e"
    and "sa_weekly src = Inr weekly" and "parse_schedule_html events name = Inr weekly"
    and "7 \<le> dt_date (in_zone (px_zone cfg) now)" and "dt_date (in_zone (px_zone cfg) now) + 13 \<le> max_date"
    and "- day_us < px_zone cfg (instant_of now)" and "px_zone cfg (instant_of now) < day_us"
    and "unpack (pack (sort_keys (envelope_dict e))) = Some (sort_keys (envelope_dict e))"
    and "0 < len (pack (sort_keys (envelope_dict e)))"
    and "plain v = Some written" and "starts_with (u ''{'') written"
    and "px_target_chat_id cfg = Some chat" and "chat < 0" and "px_topic_id cfg = Some topic" and "0 < topic"
  shows "publish_dispatched plain unpack len cfg d path v g later x =
    (if within_limits e
     then publish_envelope cfg d \<lparr>tg_chat = chat, tg_topic = topic, tg_card_key = de_card_key d\<rparr> path e later x
     else (x, Inl (Pub_ci_error Ci_value_error)))"
proof -
  obtain group_key where grp: "px_group cfg = Some group_key" "strip group_key \<noteq> []" "g = strip group_key"
      and enc: "\<exists>b. build_schedule_envelope (px_zone cfg) src g now force = Inr b \<and> encode_schedule_envelope pack len b = Inr v"
    using assms(1,2)
    by (auto simp: dispatch_schedule_def pub_bind_def required_words_def pub_lift_def pub_check_def pub_return_def
        pub_raise_def pub_net_def required_repository_def Let_def split: option.splits if_splits sum.splits prod.splits)
  then have "encode_schedule_envelope pack len e = Inr v" using assms(3) by auto
  moreover have "tidy g" using grp tidy_strip by simp
  ultimately have decoded: "decode_schedule_envelope unpack len v = (if within_limits e then Inr e else Inl Ci_value_error)"
    using assms(10,11) built_envelope_decoded [OF assms(3) _ assms(4-9)]
    by (auto simp: encode_schedule_envelope_def decode_schedule_envelope_def Let_def guard_def split: if_splits)
  have no_card: "decode_legacy_card plain v = Inr None" by (rule json_text_no_card) (rule assms(12), rule assms(13))
  show ?thesis
    using assms(14-17) grp built_envelope(2) [OF assms(3)]
    by (simp add: publish_dispatched_def pub_bind_def required_number_def required_words_def pub_check_def pub_lift_def
        pub_return_def pub_raise_def decoded no_card)
qed

text \<open>A timetable with one class, handed over on its morning.\<close>

definition monday_row :: weekly_lesson where
  "monday_row = \<lparr>wl_weekday = 0, wl_slot = 1, wl_parity = Numerator, wl_subject = [77], wl_group = None, wl_auditorium = None,
     wl_professor = None, wl_source_date = Some (iso_date 738886), wl_occurrence = 0\<rparr>"

definition monday_template :: weekly_schedule where
  "monday_template = \<lparr>ws_group_key = u ''A'', ws_lessons = [monday_row]\<rparr>"

lemma monday_parsed: "parse_schedule_html demo_page (u ''A'') = Inr monday_template"
  unfolding parse_schedule_html_def demo_page_tree
  by (simp add: concat_results_def parse_week_node_def has_class_def evaluate_text parse_day_node_def
     demo_page_date parse_lesson_node_def ci_prefix_def parse_block_def column_def monday_template_def monday_row_def weekday_def)

lemma monday_iso: "iso_date 738886 = [50, 48, 50, 52, 45, 48, 49, 45, 48, 49]"
  by code_simp

definition monday_class :: lesson where
  "monday_class = \<lparr>l_day = 738886, l_starts_at = 9 * hour, l_ends_at = 10 * hour + 30 * minute, l_subject = [77], l_type = None,
     l_teacher = None, l_room = None, l_building = None, l_subgroup = None,
     l_source_id = Some (u ''spbgasu:'' @ take 20 (sha256_hex (source_identity (u ''A'') (Some 738886) monday_row)))\<rparr>"

lemma monday_week: "materialize_week monday_template 738886 par = Inr [monday_class]"
  unfolding monday_class_def
  by (simp add: materialize_week_def monday_template_def monday_row_def materialize_lesson_def monday_iso demo_page_date
      concat_results_def weekday_def bell_schedule_def split_lesson_type_def split_auditorium_def
      lesson_types_def rstrip_by_def lstrip_by_def is_space_def new_lesson_def strip_def durations)

lemma next_week: "materialize_week monday_template 738893 par = Inr []"
  by (simp add: materialize_week_def monday_template_def monday_row_def materialize_lesson_def monday_iso demo_page_date
      concat_results_def weekday_def)

definition monday_morning :: pydt where
  "monday_morning = \<lparr>wall = (738886 - epoch_ordinal) * day_us + 8 * hour, utcoff = Some 0\<rparr>"

definition monday_answers :: source_answers where
  "monday_answers = \<lparr>sa_bootstrap = Inr \<lparr>bs_current_week = 1, bs_groups = []\<rparr>, sa_weekly = Inr monday_template\<rparr>"

definition monday_envelope :: envelope where
  "monday_envelope = \<lparr>ev_group_key = u ''A'', ev_fetched_at = monday_morning, ev_start = 738886, ev_end = 738899,
     ev_lessons = [monday_class], ev_force_digest = False\<rparr>"

lemma monday_reads: "in_zone (\<lambda>_. 0) monday_morning = monday_morning" "dt_date monday_morning = 738886" "aware monday_morning"
  by (simp_all add: monday_morning_def in_zone_def instant_of_def aware_def Let_def dt_date_def durations epoch_ordinal_def)

lemma monday_built: "build_schedule_envelope (\<lambda>_. 0) monday_answers (u ''A'') monday_morning False = Inr monday_envelope"
proof -
  have week: "week_lessons b monday_template 738886 738886 = Inr [monday_class]"
      "week_lessons b monday_template 738886 738893 = Inr []" for b
    by (simp_all add: week_lessons_def parity_for_week_def weekday_def guard_def Let_def monday_week next_week)
  have "ws_group_key monday_template = u ''A''" by (simp add: monday_template_def)
  moreover have "l_day monday_class = 738886" by (simp add: monday_class_def)
  moreover have "strip (u ''A'') = u ''A''" by (simp add: evaluate_text)
  ultimately show ?thesis using week
    by (simp add: build_schedule_envelope_def monday_answers_def fetched_weekly_def monday_reads weekday_def new_envelope_def
        guard_def monday_envelope_def max_lessons_def Let_def)
qed

lemma monday_weekly: "sa_weekly monday_answers = Inr monday_template"
  by (simp add: monday_answers_def)

lemma monday_fits: "within_limits monday_envelope"
  by (simp add: within_limits_def monday_envelope_def lesson_fits_def monday_class_def option_fits_def)

lemma dispatched_envelope_published_witness:
  "\<exists>w' v. dispatch_schedule id (\<lambda>_. 1) hosted_settings monday_answers (u ''t'') (u ''o/r'') False
        (\<lambda>rep tok v g n. (n @ [(v, g)], Inr ())) monday_morning
        \<lparr>pw_net = [], pw_file = None, pw_disk = (\<lambda>_. Written), pw_calendar = None\<rparr> = (w', Inr ())
     \<and> pw_net w' = [(v, u ''A'')]
     \<and> publish_dispatched (\<lambda>_. Some (u ''{}'')) Some (\<lambda>_. 1) hosted_settings (bot_api good_server) None v (u ''A'') monday_morning hosted_world
        = publish_envelope hosted_settings (bot_api good_server) hosted_target None monday_envelope monday_morning hosted_world
     \<and> ev_lessons monday_envelope = [monday_class]"
proof -
  let ?w = "\<lparr>pw_net = [], pw_file = None, pw_disk = (\<lambda>_. Written), pw_calendar = None\<rparr> :: (json \<times> pystr) list publisher_world"
  let ?v = "sort_keys (envelope_dict monday_envelope)"
  have words: "required_words (Some (u ''t'')) = pub_return (u ''t'')" "required_repository (u ''o/r'') = pub_return (u ''o/r'')"
    by (simp_all add: required_repository_def required_words_def repository_char_def strip_def lstrip_by_def rstrip_by_def
        is_space_def Let_def)
  have run: "dispatch_schedule id (\<lambda>_. 1) hosted_settings monday_answers (u ''t'') (u ''o/r'') False (\<lambda>rep tok v g n. (n @ [(v, g)], Inr ()))
      monday_morning ?w = (?w\<lparr>pw_net := [(?v, u ''A'')]\<rparr>, Inr ())"
    by (simp add: dispatch_schedule_def hosted_settings_fields words monday_reads monday_built pub_check_def pub_lift_def
        encode_schedule_envelope_def guard_def max_encoded_def Let_def pub_net_def del: u_Cons)
  have "publish_dispatched (\<lambda>_. Some (u ''{}'')) Some (\<lambda>_. 1) hosted_settings (bot_api good_server) None ?v (u ''A'') monday_morning hosted_world
      = (if within_limits monday_envelope
         then publish_envelope hosted_settings (bot_api good_server)
           \<lparr>tg_chat = - 1001, tg_topic = 3, tg_card_key = de_card_key (bot_api good_server)\<rparr> None monday_envelope monday_morning hosted_world
         else (hosted_world, Inl (Pub_ci_error Ci_value_error)))"
    by (rule dispatched_envelope_published [OF run _ _ _ monday_parsed, where written = "u ''{}''"])
      (simp_all add: hosted_settings_fields monday_built monday_reads max_date_def durations monday_weekly del: u_Cons,
        simp_all add: hosted_settings_def)
  then show ?thesis using run monday_fits
    by (intro exI [of _ "?w\<lparr>pw_net := [(?v, u ''A'')]\<rparr>"] exI [of _ ?v]) (simp add: hosted_target_def monday_envelope_def)
qed

end
