(* ===== verification/ExportPlan.thy ===== *)
theory ExportPlan
  imports LiveArchive
begin

text \<open>
  \<open>archive/telegram_desktop.py\<close>: an export of Telegram Desktop, a parsed JSON document, read into
  messages and a report. The file system under the export's directory is a parameter. A raised
  \<open>ValueError\<close> is its text; the limit of 4300 digits on the text of an integer is left out.
\<close>

section \<open>Messages and reports\<close>

text \<open>A resolved path is the list of its components.\<close>

type_synonym path = "pystr list"

record imported =
  ip_chat_id :: int
  ip_message_id :: int
  ip_sent_at :: pydt
  ip_sender_id :: "int option"
  ip_sender_reference :: "pystr option"
  ip_sender_name :: "pystr option"
  ip_text :: pystr
  ip_type :: pystr
  ip_edited_at :: "pydt option"
  ip_reply_to :: "int option"
  ip_topic_id :: "int option"
  ip_media_group_id :: "pystr option"
  ip_file_path :: "path option"
  ip_filename :: "pystr option"
  ip_mime_type :: "pystr option"
  ip_file_size :: "int option"
  ip_forwarded_from :: "pystr option"

record import_failure =
  if_message_id :: "int option"
  if_reason :: pystr

record import_report =
  rp_raw_chat_id :: int
  rp_chat_type :: pystr
  rp_chat_id :: int
  rp_messages_found :: nat
  rp_messages_planned :: nat
  rp_duplicates_skipped :: nat
  rp_users :: nat
  rp_documents :: nat
  rp_photos :: nat
  rp_videos :: nat
  rp_topics :: nat
  rp_media_groups :: nat
  rp_failures :: "import_failure list"
  rp_date_from :: "pydt option"
  rp_date_to :: "pydt option"
  rp_limitations :: "pystr list"

record import_plan =
  pl_messages :: "imported list"
  pl_report :: import_report

definition import_limitations :: "pystr list" where
  "import_limitations =
     [u ''Telegram Desktop JSON does not reliably expose topic identifiers; '' @
      u ''only explicit topic_id/message_thread_id values are preserved and no inference is performed'',
      u ''Telegram Desktop JSON does not reliably expose media-group identifiers; '' @
      u ''only explicit media_group_id values are preserved and no inference is performed'']"

text \<open>\<open>ImportedMessage.__post_init__\<close>\<close>

definition new_imported :: "imported \<Rightarrow> pystr + imported" where
  "new_imported m =
     and_then (guard (aware (ip_sent_at m)) (u ''imported message timestamp must be timezone-aware'')) (\<lambda>_.
     and_then (guard (case ip_edited_at m of None \<Rightarrow> True | Some d \<Rightarrow> aware d)
       (u ''imported message edit timestamp must be timezone-aware'')) (\<lambda>_. Inr m))"

section \<open>Values\<close>

text \<open>\<open>if value\<close>\<close>

definition json_true :: "json \<Rightarrow> bool" where
  "json_true j =
     (case j of
        JNull \<Rightarrow> False | JBool b \<Rightarrow> b | JInt n \<Rightarrow> n \<noteq> 0 | JFloat r \<Rightarrow> r \<noteq> 0
      | JStr s \<Rightarrow> s \<noteq> [] | JArr xs \<Rightarrow> xs \<noteq> [] | JObj kvs \<Rightarrow> kvs \<noteq> [])"

definition json_or :: "json \<Rightarrow> json \<Rightarrow> json" where
  "json_or a b = (if json_true a then a else b)"

definition export_int :: "json \<Rightarrow> int option" where
  "export_int j = (case j of JInt n \<Rightarrow> Some n | JStr s \<Rightarrow> parse_int s | _ \<Rightarrow> None)"

definition export_str :: "json \<Rightarrow> pystr option" where
  "export_str j = (case j of JStr s \<Rightarrow> given (Some s) | _ \<Rightarrow> None)"

definition required :: "'a option \<Rightarrow> string \<Rightarrow> pystr + 'a" where
  "required v label = (case v of None \<Rightarrow> Inl (u label @ u '' is missing or invalid'') | Some x \<Rightarrow> Inr x)"

text \<open>\<open>datetime.fromtimestamp(int(str(value)), tz=UTC)\<close>: whole seconds in the range of \<open>datetime\<close>.\<close>

definition from_timestamp :: "json \<Rightarrow> pydt option" where
  "from_timestamp j =
     Option.bind (case j of JInt n \<Rightarrow> Some n | JStr s \<Rightarrow> parse_int s | _ \<Rightarrow> None) (\<lambda>n.
       let d = utc_at (n * second) in if is_date (dt_date d) then Some d else None)"

definition assume_utc :: "pydt \<Rightarrow> pydt" where
  "assume_utc d = (case utcoff d of None \<Rightarrow> d\<lparr>utcoff := Some 0\<rparr> | Some _ \<Rightarrow> d)"

definition or_raise :: "'a option \<Rightarrow> string \<Rightarrow> pystr + 'a" where
  "or_raise v text_of = (case v of None \<Rightarrow> Inl (u text_of) | Some x \<Rightarrow> Inr x)"

definition no_value :: "json \<Rightarrow> bool" where
  "no_value j \<longleftrightarrow> j = JNull \<or> j = JStr []"

definition read_sent_at :: "(pystr \<times> json) list \<Rightarrow> pystr + pydt" where
  "read_sent_at raw =
     (let unix = jget raw (u ''date_unixtime'') in
      if \<not> no_value unix then or_raise (from_timestamp unix) ''invalid date_unixtime''
      else case export_str (jget raw (u ''date'')) of
             None \<Rightarrow> Inl (u ''message has no valid date'')
           | Some v \<Rightarrow> or_raise (map_option assume_utc (from_iso (replace_cp 90 (u ''+00:00'') v))) ''invalid message date'')"

definition read_edited_at :: "(pystr \<times> json) list \<Rightarrow> pystr + pydt option" where
  "read_edited_at raw =
     (let unix = jget raw (u ''edited_unixtime''); v = jget raw (u ''edited'') in
      if \<not> no_value unix then or_raise (map_option Some (from_timestamp unix)) ''invalid edited_unixtime''
      else if no_value v then Inr None
      else case v of
             JStr s \<Rightarrow> or_raise (map_option (\<lambda>d. Some (assume_utc d)) (from_iso (replace_cp 90 (u ''+00:00'') s))) ''invalid edited date''
           | _ \<Rightarrow> Inl (u ''invalid edited date''))"

fun flatten_text :: "json \<Rightarrow> pystr" where
  "flatten_text (JStr s) = s"
| "flatten_text (JObj kvs) = (case jget kvs (u ''text'') of JStr s \<Rightarrow> s | _ \<Rightarrow> [])"
| "flatten_text (JArr xs) = concat (map flatten_text xs)"
| "flatten_text _ = []"

definition export_type :: "(pystr \<times> json) list \<Rightarrow> pystr" where
  "export_type raw =
     (case export_str (jget raw (u ''media_type'')) of
        Some t \<Rightarrow> t
      | None \<Rightarrow>
          if json_true (jget raw (u ''photo'')) then u ''photo''
          else if json_true (jget raw (u ''file'')) then u ''file''
          else (case export_str (jget raw (u ''type'')) of None \<Rightarrow> u ''message'' | Some t \<Rightarrow> t))"

text \<open>
  The export's directory: its resolved components, what \<open>(root / value).resolve()\<close> gives for
  a relative path (or the text of the \<open>ValueError\<close> it raises), what \<open>resolve()\<close> gives for a path
  that was resolved before, and what \<open>stat\<close> finds there.
\<close>

datatype probe = Regular_file | Not_regular | Not_found | Unreadable

record export_dir =
  ed_root :: path
  ed_locate :: "pystr \<Rightarrow> pystr + path"
  ed_resolve :: "path \<Rightarrow> pystr + path"
  ed_probe :: "path \<Rightarrow> probe"

definition inside :: "path \<Rightarrow> path \<Rightarrow> bool" where
  "inside base p \<longleftrightarrow> take (length base) p = base"

definition media_path :: "export_dir \<Rightarrow> (pystr \<times> json) list \<Rightarrow> pystr + path option" where
  "media_path dir raw =
     (case export_str (json_or (jget raw (u ''file'')) (jget raw (u ''photo''))) of
        None \<Rightarrow> Inr None
      | Some v \<Rightarrow>
          and_then (guard (\<not> starts_with [47] v) (u ''media path must be relative to the export'')) (\<lambda>_.
          and_then (ed_locate dir v) (\<lambda>p.
          and_then (guard (inside (ed_root dir) p) (u ''media path escapes the export directory'')) (\<lambda>_.
          Inr (Some p)))))"

text \<open>The pattern \<open>user(\\d+)\<close> on the whole reference.\<close>

definition sender_of :: "pystr option \<Rightarrow> int option" where
  "sender_of reference =
     (case reference of
        None \<Rightarrow> None
      | Some r \<Rightarrow>
          let digits = drop 4 r; value = int (digits_value 0 digits) in
          if starts_with (u ''user'') r \<and> digits \<noteq> [] \<and> list_all is_digit digits \<and> 0 < value then Some value else None)"

definition channel_dialog_types :: "pystr list" where
  "channel_dialog_types =
     [u ''private_channel'', u ''private_supergroup'', u ''public_channel'', u ''public_supergroup'']"

definition normalize_chat_id :: "int \<Rightarrow> pystr \<Rightarrow> pystr + int" where
  "normalize_chat_id raw kind =
     (if raw \<le> 0 then Inl (u ''Telegram Desktop export chat id must be a positive bare id'')
      else if kind \<in> set channel_dialog_types then Inr (- (1000000000000 + raw))
      else if kind = u ''private_group'' then Inr (- raw)
      else Inl (u ''unsupported Telegram Desktop export chat type: '' @ kind))"

definition forwarded_from :: "json \<Rightarrow> pystr option" where
  "forwarded_from j =
     (case j of
        JStr s \<Rightarrow> Some s
      | JObj kvs \<Rightarrow>
          (case List.map_filter (\<lambda>k. case jget kvs k of JStr s \<Rightarrow> Some s | _ \<Rightarrow> None) [u ''name'', u ''from'', u ''id''] of
             [] \<Rightarrow> None | s # _ \<Rightarrow> Some s)
      | _ \<Rightarrow> None)"

section \<open>One message\<close>

definition path_name :: "path \<Rightarrow> pystr" where
  "path_name p = (if p = [] then [] else last p)"

definition parse_message :: "export_dir \<Rightarrow> int \<Rightarrow> (pystr \<times> json) list \<Rightarrow> pystr + imported" where
  "parse_message dir chat raw =
     and_then (required (export_int (jget raw (u ''id''))) ''message id'') (\<lambda>message_id.
     and_then (read_sent_at raw) (\<lambda>sent_at.
     and_then (media_path dir raw) (\<lambda>file.
     let size = export_int (jget raw (u ''file_size'')); reference = export_str (jget raw (u ''from_id'')) in
     and_then (guard (case size of None \<Rightarrow> True | Some n \<Rightarrow> 0 \<le> n) (u ''file size cannot be negative'')) (\<lambda>_.
     and_then (read_edited_at raw) (\<lambda>edited_at.
     new_imported
       \<lparr>ip_chat_id = chat, ip_message_id = message_id, ip_sent_at = sent_at, ip_sender_id = sender_of reference,
        ip_sender_reference = reference, ip_sender_name = export_str (jget raw (u ''from'')),
        ip_text = flatten_text (jget raw (u ''text'')), ip_type = export_type raw, ip_edited_at = edited_at,
        ip_reply_to = export_int (jget raw (u ''reply_to_message_id'')),
        ip_topic_id = export_int (json_or (jget raw (u ''topic_id'')) (jget raw (u ''message_thread_id''))),
        ip_media_group_id = export_str (jget raw (u ''media_group_id'')), ip_file_path = file,
        ip_filename = (case export_str (jget raw (u ''file_name'')) of Some n \<Rightarrow> Some n | None \<Rightarrow> map_option path_name file),
        ip_mime_type = export_str (jget raw (u ''mime_type'')), ip_file_size = size,
        ip_forwarded_from = forwarded_from (jget raw (u ''forwarded_from''))\<rparr>)))))"

section \<open>The plan\<close>

record planning =
  pg_seen :: "(int \<times> int) list"
  pg_planned :: "imported list"
  pg_failures :: "import_failure list"
  pg_duplicates :: nat

definition unique_key :: "imported \<Rightarrow> int \<times> int" where
  "unique_key m = (ip_chat_id m, ip_message_id m)"

text \<open>One turn of the loop over the raw messages.\<close>

definition plan_message :: "export_dir \<Rightarrow> int \<Rightarrow> json \<Rightarrow> planning \<Rightarrow> planning" where
  "plan_message dir chat j s =
     (case j of
        JObj raw \<Rightarrow>
          (case parse_message dir chat raw of
             Inl reason \<Rightarrow>
               s\<lparr>pg_failures := pg_failures s @ [\<lparr>if_message_id = export_int (jget raw (u ''id'')), if_reason = reason\<rparr>]\<rparr>
           | Inr m \<Rightarrow>
               if unique_key m \<in> set (pg_seen s) then s\<lparr>pg_duplicates := Suc (pg_duplicates s)\<rparr>
               else s\<lparr>pg_seen := unique_key m # pg_seen s, pg_planned := pg_planned s @ [m]\<rparr>)
      | _ \<Rightarrow> s\<lparr>pg_failures := pg_failures s @ [\<lparr>if_message_id = None, if_reason = u ''message is not an object''\<rparr>]\<rparr>)"

text \<open>\<open>min\<close> and \<open>max\<close> of aware datetimes: the first one at the earliest and latest instant.\<close>

definition earliest :: "pydt list \<Rightarrow> pydt option" where
  "earliest ds = (case ds of [] \<Rightarrow> None | d # rest \<Rightarrow> Some (foldl (\<lambda>a b. if instant_of b < instant_of a then b else a) d rest))"

definition latest :: "pydt list \<Rightarrow> pydt option" where
  "latest ds = (case ds of [] \<Rightarrow> None | d # rest \<Rightarrow> Some (foldl (\<lambda>a b. if instant_of a < instant_of b then b else a) d rest))"

definition how_many :: "pystr \<Rightarrow> imported list \<Rightarrow> nat" where
  "how_many kind ms = length (filter (\<lambda>m. ip_type m = kind) ms)"

definition different :: "('a \<Rightarrow> 'b option) \<Rightarrow> 'a list \<Rightarrow> nat" where
  "different f xs = length (remdups (List.map_filter f xs))"

definition plan_report :: "int \<Rightarrow> pystr \<Rightarrow> int \<Rightarrow> nat \<Rightarrow> planning \<Rightarrow> import_report" where
  "plan_report raw_chat kind chat found s =
     (let ms = pg_planned s; dates = map ip_sent_at ms in
      \<lparr>rp_raw_chat_id = raw_chat, rp_chat_type = kind, rp_chat_id = chat, rp_messages_found = found,
       rp_messages_planned = length ms, rp_duplicates_skipped = pg_duplicates s, rp_users = different ip_sender_id ms,
       rp_documents = how_many (u ''file'') ms, rp_photos = how_many (u ''photo'') ms,
       rp_videos = how_many (u ''video_file'') ms, rp_topics = different ip_topic_id ms,
       rp_media_groups = different ip_media_group_id ms, rp_failures = pg_failures s, rp_date_from = earliest dates,
       rp_date_to = latest dates, rp_limitations = import_limitations\<rparr>)"

definition plan_import :: "export_dir \<Rightarrow> (int \<times> int) list \<Rightarrow> (pystr \<times> json) list \<Rightarrow> pystr + import_plan" where
  "plan_import dir existing data =
     and_then (required (export_int (jget data (u ''id''))) ''export chat id'') (\<lambda>raw_chat.
     and_then (required (export_str (jget data (u ''type''))) ''export chat type'') (\<lambda>kind.
     and_then (normalize_chat_id raw_chat kind) (\<lambda>chat.
     case jget data (u ''messages'') of
       JArr raws \<Rightarrow>
         let s = foldl (\<lambda>s j. plan_message dir chat j s)
                   \<lparr>pg_seen = existing, pg_planned = [], pg_failures = [], pg_duplicates = 0\<rparr> raws
         in Inr \<lparr>pl_messages = pg_planned s, pl_report = plan_report raw_chat kind chat (length raws) s\<rparr>
     | _ \<Rightarrow> Inl (u ''Telegram export does not contain a messages array''))))"

definition max_export_bytes :: nat where
  "max_export_bytes = 256 * 1024 * 1024"

text \<open>
  The file's bytes; \<open>decode\<close> is \<open>json.load\<close> on a file opened as UTF-8 with an optional mark, an error being
  the text of its \<open>ValueError\<close>.
\<close>

definition load_export :: "(nat list \<Rightarrow> pystr + json) \<Rightarrow> nat list \<Rightarrow> pystr + (pystr \<times> json) list" where
  "load_export decode bytes =
     and_then (guard (length bytes \<le> max_export_bytes) (u ''Telegram export JSON exceeds the safe 256 MiB inspection limit'')) (\<lambda>_.
     and_then (decode bytes) (\<lambda>j.
     case j of JObj kvs \<Rightarrow> Inr kvs | _ \<Rightarrow> Inl (u ''Telegram export root must be a JSON object'')))"

end
