(* ===== verification/ArchiveImport.thy ===== *)
theory ArchiveImport
  imports ExportPlan ApplicationSender "HOL-Library.AList"
begin

text \<open>
  \<open>archive/importer.py\<close>: a durable import of an export in independently committed batches. Each batch
  moves the run's cursor in the transaction that stores its messages. The clock is a parameter, read
  once for each message; so are the database's own failures and the file system.
\<close>

section \<open>Errors and the run table\<close>

datatype import_error =
    Import_value_error pystr
  | Import_type_error
  | Import_runtime_error pystr
  | Export_chat_mismatch
  | Export_fingerprint_mismatch
  | Import_database_error pystr

definition error_name :: "import_error \<Rightarrow> pystr" where
  "error_name e =
     (case e of
        Import_value_error _ \<Rightarrow> u ''ValueError'' | Import_type_error \<Rightarrow> u ''TypeError''
      | Import_runtime_error _ \<Rightarrow> u ''RuntimeError'' | Export_chat_mismatch \<Rightarrow> u ''ExportChatMismatchError''
      | Export_fingerprint_mismatch \<Rightarrow> u ''ExportFingerprintMismatchError'' | Import_database_error n \<Rightarrow> n)"

definition as_value_error :: "pystr + 'a \<Rightarrow> import_error + 'a" where
  "as_value_error r = (case r of Inl s \<Rightarrow> Inl (Import_value_error s) | Inr x \<Rightarrow> Inr x)"

datatype run_status = Run_pending | Run_running | Run_succeeded | Run_failed | Run_cancelled

record import_run =
  ir_id :: int
  ir_kind :: pystr
  ir_fingerprint :: pystr
  ir_status :: run_status
  ir_started_at :: "instant option"
  ir_completed_at :: "instant option"
  ir_stats :: "(pystr \<times> json) list option"
  ir_error :: "pystr option"
  ir_created_at :: instant

record import_db =
  id_archive :: archive_db
  id_runs :: "import_run list"

record missing_media =
  mm_message_id :: int
  mm_relative_path :: pystr
  mm_reason :: pystr

section \<open>Paths and files\<close>

definition relative_export_path :: "export_dir \<Rightarrow> path \<Rightarrow> import_error + pystr" where
  "relative_export_path dir p =
     and_then (as_value_error (ed_resolve dir p)) (\<lambda>r.
     and_then (guard (inside (ed_root dir) r) (Import_value_error (u ''media path escapes the export directory''))) (\<lambda>_.
     let parts = drop (length (ed_root dir)) r in
     and_then (guard (parts \<noteq> []) (Import_value_error (u ''media path must name a file inside the export directory''))) (\<lambda>_.
     Inr (join [47] parts))))"

definition media_state :: "export_dir \<Rightarrow> imported \<Rightarrow> import_error + missing_media option" where
  "media_state dir m =
     (case ip_file_path m of
        None \<Rightarrow> Inr None
      | Some p \<Rightarrow>
          and_then (relative_export_path dir p) (\<lambda>rel.
          let missing = (\<lambda>reason. Inr (Some \<lparr>mm_message_id = ip_message_id m, mm_relative_path = rel, mm_reason = u reason\<rparr>)) in
          case ed_probe dir p of
            Not_found \<Rightarrow> missing ''missing''
          | Unreadable \<Rightarrow> missing ''unreadable''
          | Not_regular \<Rightarrow> missing ''not_a_regular_file''
          | Regular_file \<Rightarrow> Inr None))"

definition local_file_identifier :: "imported \<Rightarrow> pystr \<Rightarrow> pystr" where
  "local_file_identifier m rel =
     u ''telegram-export-local:'' @ sha256_hex (show_int (ip_chat_id m) @ [0] @ show_int (ip_message_id m) @ [0] @ rel)"

text \<open>\<open>urllib.parse.quote\<close> with \<open>safe="/._-"\<close>\<close>

definition quote_byte :: "nat \<Rightarrow> pystr" where
  "quote_byte b =
     (if (48 \<le> b \<and> b \<le> 57) \<or> (65 \<le> b \<and> b \<le> 90) \<or> (97 \<le> b \<and> b \<le> 122) \<or> b \<in> {45, 46, 47, 95, 126} then [b]
      else let hex = (\<lambda>n. if n < 10 then 48 + n else 55 + n) in [37, hex (b div 16), hex (b mod 16)])"

definition quote_path :: "pystr \<Rightarrow> pystr" where
  "quote_path s = concat (map quote_byte (utf8 s))"

definition file_kind :: "pystr \<Rightarrow> pystr" where
  "file_kind t = take 24 (if t = u ''file'' then u ''document'' else if t = u ''video_file'' then u ''video'' else t)"

section \<open>One message\<close>

definition import_user :: "imported \<Rightarrow> archive_db \<Rightarrow> archive_db \<times> int option \<times> bool" where
  "import_user m db =
     (case ip_sender_id m of
        None \<Rightarrow> (db, None, False)
      | Some sender \<Rightarrow>
          let sent = instant_of (ip_sent_at m) in
          case List.find (\<lambda>x. us_telegram_id x = sender) (ar_users db) of
            None \<Rightarrow>
              let x = \<lparr>us_id = next_id us_id (ar_users db), us_telegram_id = sender, us_username = None,
                       us_display_name = ip_sender_name m, us_language_code = None, us_is_bot = False,
                       us_first_seen = sent, us_last_seen = sent\<rparr>
              in (db\<lparr>ar_users := ar_users db @ [x]\<rparr>, Some (us_id x), True)
          | Some x \<Rightarrow>
              (db\<lparr>ar_users := upd_where (\<lambda>y. us_telegram_id y = sender)
                 (\<lambda>y. y\<lparr>us_first_seen := min (us_first_seen y) sent, us_last_seen := max (us_last_seen y) sent,
                        us_display_name := (if given (ip_sender_name m) \<noteq> None \<and> given (us_display_name y) = None
                                            then ip_sender_name m else us_display_name y)\<rparr>) (ar_users db)\<rparr>,
               Some (us_id x), False))"

definition import_topic :: "instant \<Rightarrow> imported \<Rightarrow> archive_db \<Rightarrow> archive_db \<times> int option \<times> bool" where
  "import_topic now m db =
     (case ip_topic_id m of
        None \<Rightarrow> (db, None, False)
      | Some thread \<Rightarrow>
          let mine = (\<lambda>r. tp_chat_id r = ip_chat_id m \<and> tp_thread_id r = thread); sent = instant_of (ip_sent_at m) in
          case List.find mine (ar_topics db) of
            None \<Rightarrow>
              let r = \<lparr>tp_id = next_id tp_id (ar_topics db), tp_chat_id = ip_chat_id m, tp_thread_id = thread,
                       tp_name = (if thread = 1 then u ''General'' else u ''Topic '' @ show_int thread),
                       tp_kind = Some (u ''forum''), tp_is_closed = False, tp_created_at = sent, tp_updated_at = now\<rparr>
              in (db\<lparr>ar_topics := ar_topics db @ [r]\<rparr>, Some (tp_id r), True)
          | Some r \<Rightarrow>
              (db\<lparr>ar_topics := upd_where mine (\<lambda>r. r\<lparr>tp_created_at := min (tp_created_at r) sent\<rparr>) (ar_topics db)\<rparr>,
               Some (tp_id r), False))"

definition import_group :: "imported \<Rightarrow> archive_db \<Rightarrow> archive_db \<times> int option \<times> bool" where
  "import_group m db =
     (case ip_media_group_id m of
        None \<Rightarrow> (db, None, False)
      | Some gid \<Rightarrow>
          let mine = (\<lambda>r. mg_chat_id r = ip_chat_id m \<and> mg_telegram_id r = gid); sent = instant_of (ip_sent_at m) in
          case List.find mine (ar_groups db) of
            None \<Rightarrow>
              let r = \<lparr>mg_id = next_id mg_id (ar_groups db), mg_chat_id = ip_chat_id m, mg_telegram_id = gid,
                       mg_first_message_at = sent, mg_finalized_at = None\<rparr>
              in (db\<lparr>ar_groups := ar_groups db @ [r]\<rparr>, Some (mg_id r), True)
          | Some r \<Rightarrow>
              (db\<lparr>ar_groups := upd_where mine (\<lambda>r. r\<lparr>mg_first_message_at := min (mg_first_message_at r) sent\<rparr>) (ar_groups db)\<rparr>,
               Some (mg_id r), False))"

definition export_forward :: "imported \<Rightarrow> json option" where
  "export_forward m =
     map_option (\<lambda>label. JObj [(u ''origin_type'', JStr (u ''telegram_export'')), (u ''display_label'', JStr label)])
       (given (ip_forwarded_from m))"

definition telegram_export :: pystr where
  "telegram_export = u ''telegram_export''"

text \<open>\<open>a if a is not None else b\<close>\<close>

definition first_given :: "'a option \<Rightarrow> 'a option \<Rightarrow> 'a option" where
  "first_given a b = (case a of Some x \<Rightarrow> Some x | None \<Rightarrow> b)"

text \<open>
  An imported row is replaced; a row the bot stored itself only gains facts that it lacks.
\<close>

definition merge_message ::
    "instant \<Rightarrow> imported \<Rightarrow> int option \<Rightarrow> int option \<Rightarrow> int option \<Rightarrow> bool \<Rightarrow> message_row \<Rightarrow> message_row" where
  "merge_message now m sender topic album created r =
     (let replace = created \<or> ms_source r = telegram_export; body = given (Some (ip_text m));
          edited = map_option instant_of (ip_edited_at m);
          linked = r\<lparr>ms_topic_id := (if replace \<or> ms_topic_id r = None then first_given topic (ms_topic_id r) else ms_topic_id r),
            ms_sender_user_id := (if replace then sender else first_given (ms_sender_user_id r) sender),
            ms_media_group_id := (if replace \<or> ms_media_group_id r = None then first_given album (ms_media_group_id r)
              else ms_media_group_id r),
            ms_reply_to := (if replace \<or> ms_reply_to r = None then ip_reply_to m else ms_reply_to r)\<rparr>
      in (if replace
          then linked\<lparr>ms_source := telegram_export, ms_type := ip_type m, ms_sender_name := ip_sender_name m,
            ms_forward := export_forward m, ms_text := (if ip_file_path m \<noteq> None then None else body),
            ms_caption := (if ip_file_path m \<noteq> None then body else None), ms_entities := None,
            ms_sent_at := instant_of (ip_sent_at m), ms_edited_at := edited\<rparr>
          else
            let fill = (ms_text r = None \<and> ms_caption r = None \<and> body \<noteq> None) in
            linked\<lparr>ms_sender_name := first_given (ms_sender_name r) (ip_sender_name m),
              ms_text := (if fill \<and> ip_file_path m = None then body else ms_text r),
              ms_caption := (if fill \<and> ip_file_path m \<noteq> None then body else ms_caption r),
              ms_forward := first_given (ms_forward r) (export_forward m), ms_edited_at := first_given (ms_edited_at r) edited\<rparr>)
         \<lparr>ms_ingested_at := now\<rparr>)"

text \<open>The datetimes of the row in memory after the merge: what the export says, or what was loaded.\<close>

definition merged_moments :: "imported \<Rightarrow> bool \<Rightarrow> message_row \<Rightarrow> moments" where
  "merged_moments m created r =
     (if created \<or> ms_source r = telegram_export then (ip_sent_at m, ip_edited_at m)
      else (utc_at (ms_sent_at r), first_given (map_option utc_at (ms_edited_at r)) (ip_edited_at m)))"

definition imported_row :: "instant \<Rightarrow> imported \<Rightarrow> message_row list \<Rightarrow> message_row" where
  "imported_row now m rows =
     \<lparr>ms_id = next_id ms_id rows, ms_chat_id = ip_chat_id m, ms_message_id = ip_message_id m,
      ms_topic_id = None, ms_sender_user_id = None, ms_media_group_id = None, ms_reply_to = None,
      ms_source = telegram_export, ms_type = u ''unknown'', ms_sender_name = None, ms_forward = None,
      ms_text = None, ms_caption = None, ms_entities = None, ms_sent_at = instant_of (ip_sent_at m),
      ms_edited_at = None, ms_deleted_at = None, ms_ingested_at = now\<rparr>"

definition fill_local_file :: "imported \<Rightarrow> pystr \<Rightarrow> file_row \<Rightarrow> file_row" where
  "fill_local_file m rel r =
     r\<lparr>fl_kind := file_kind (ip_type m), fl_mime_type := ip_mime_type m, fl_file_name := ip_filename m,
       fl_size_bytes := ip_file_size m, fl_storage_path := Some (u ''telegram-export-relative:'' @ quote_path rel),
       fl_sha256 := None\<rparr>"

definition import_local_file ::
    "instant \<Rightarrow> export_dir \<Rightarrow> int \<Rightarrow> imported \<Rightarrow> file_row list \<Rightarrow> import_error + (file_row list \<times> bool)" where
  "import_local_file now dir message m rows =
     (case ip_file_path m of
        None \<Rightarrow> Inr (rows, False)
      | Some p \<Rightarrow>
          and_then (relative_export_path dir p) (\<lambda>rel.
          let opaque = local_file_identifier m rel; mine = (\<lambda>r. fl_message_id r = message \<and> fl_unique_id r = opaque) in
          if list_ex mine rows then Inr (upd_where mine (fill_local_file m rel) rows, False)
          else Inr (rows @ [fill_local_file m rel \<lparr>fl_id = next_id fl_id rows, fl_message_id = message, fl_file_id = opaque,
            fl_unique_id = opaque, fl_kind = file_kind (ip_type m), fl_mime_type = None, fl_file_name = None,
            fl_size_bytes = None, fl_sha256 = None, fl_storage_path = None, fl_extracted_text = None,
            fl_extraction_status = None, fl_extraction_error = None, fl_extraction_version = None, fl_extracted_at = None,
            fl_created_at = now\<rparr>], True)))"

record persist_result =
  pr_message :: bool
  pr_user :: bool
  pr_topic :: bool
  pr_group :: bool
  pr_file :: bool

definition is_planned :: "imported \<Rightarrow> message_row \<Rightarrow> bool" where
  "is_planned m r \<longleftrightarrow> ms_chat_id r = ip_chat_id m \<and> ms_message_id r = ip_message_id m"

definition persist_message ::
    "export_dir \<Rightarrow> instant \<Rightarrow> imported \<Rightarrow> archive_db \<Rightarrow> import_error + (archive_db \<times> persist_result)" where
  "persist_message dir now m db =
     (let (db1, sender, new_sender) = import_user m db;
          (db2, topic, new_topic) = import_topic now m db1;
          (db3, album, new_album) = import_group m db2;
          existing = List.find (is_planned m) (ar_messages db3);
          before = (case existing of None \<Rightarrow> imported_row now m (ar_messages db3) | Some r \<Rightarrow> r);
          r = merge_message now m sender topic album (existing = None) before;
          db4 = db3\<lparr>ar_messages := (case existing of
            None \<Rightarrow> ar_messages db3 @ [r] | Some _ \<Rightarrow> upd_where (is_planned m) (\<lambda>_. r) (ar_messages db3))\<rparr>
      in and_then (import_local_file now dir (ms_id r) m (ar_files db4)) (\<lambda>(files, new_file).
         Inr (upsert_document now r (merged_moments m (existing = None) before) (private_supergroup_link (ms_chat_id r) (ms_message_id r)) (db4\<lparr>ar_files := files\<rparr>),
              \<lparr>pr_message = (existing = None), pr_user = new_sender, pr_topic = new_topic, pr_group = new_album,
               pr_file = new_file\<rparr>)))"

section \<open>The statistics of a run\<close>

text \<open>\<open>int(value)\<close> on a JSON value.\<close>

definition json_int :: "json \<Rightarrow> import_error + int" where
  "json_int j =
     (case j of
        JInt n \<Rightarrow> Inr n
      | JBool b \<Rightarrow> Inr (if b then 1 else 0)
      | JFloat r \<Rightarrow> Inr (if 0 \<le> r then \<lfloor>r\<rfloor> else \<lceil>r\<rceil>)
      | JStr s \<Rightarrow> (case parse_int s of Some n \<Rightarrow> Inr n | None \<Rightarrow> Inl (Import_value_error (u ''invalid literal for int() with base 10'')))
      | _ \<Rightarrow> Inl Import_type_error)"

definition stat_int :: "(pystr \<times> json) list \<Rightarrow> pystr \<Rightarrow> import_error + int" where
  "stat_int stats key = json_int (jget stats key)"

definition initial_stats :: "import_plan \<Rightarrow> missing_media list \<Rightarrow> (pystr \<times> json) list" where
  "initial_stats plan missing =
     (let report = pl_report plan in
      [(u ''version'', JInt 2), (u ''raw_chat_id'', JInt (rp_raw_chat_id report)), (u ''chat_type'', JStr (rp_chat_type report)),
       (u ''normalized_chat_id'', JInt (rp_chat_id report)), (u ''messages_found'', JInt (int (rp_messages_found report))),
       (u ''messages_planned'', JInt (int (length (pl_messages plan)))),
       (u ''parser_failure_count'', JInt (int (length (rp_failures report)))),
       (u ''missing_media_count'', JInt (int (length missing))),
       (u ''missing_media_sample'', JArr (map (\<lambda>x. JObj
          [(u ''message_id'', JInt (mm_message_id x)), (u ''relative_path'', JStr (mm_relative_path x)),
           (u ''reason'', JStr (mm_reason x))]) (take 1000 missing))),
       (u ''next_index'', JInt 0), (u ''batches_completed'', JInt 0), (u ''messages_created'', JInt 0),
       (u ''messages_updated'', JInt 0), (u ''users_created'', JInt 0), (u ''topics_created'', JInt 0),
       (u ''media_groups_created'', JInt 0), (u ''files_created'', JInt 0)])"

text \<open>The chat type of a plan is one of five names, which the text of no other value equals.\<close>

definition normalized_stats :: "import_plan \<Rightarrow> (pystr \<times> json) list option \<Rightarrow> import_error + (pystr \<times> json) list" where
  "normalized_stats plan stored =
     (case stored of
        None \<Rightarrow> Inr (initial_stats plan [])
      | Some kvs \<Rightarrow>
          let stats = obj_update (initial_stats plan []) kvs; report = pl_report plan;
              other_chat = Import_runtime_error (u ''stored import run belongs to another Telegram export chat'') in
          and_then (stat_int stats (u ''version'')) (\<lambda>version.
          and_then (guard (version = 2) (Import_runtime_error (u ''unsupported Telegram export import-run stats version''))) (\<lambda>_.
          and_then (stat_int stats (u ''raw_chat_id'')) (\<lambda>raw_chat.
          and_then (guard (raw_chat = rp_raw_chat_id report \<and> jget stats (u ''chat_type'') = JStr (rp_chat_type report))
            other_chat) (\<lambda>_.
          and_then (stat_int stats (u ''normalized_chat_id'')) (\<lambda>chat.
          and_then (guard (chat = rp_chat_id report) other_chat) (\<lambda>_.
          and_then (stat_int stats (u ''messages_planned'')) (\<lambda>planned.
          and_then (guard (planned = int (length (pl_messages plan)))
            (Import_runtime_error (u ''stored import run does not match the parsed source''))) (\<lambda>_.
          Inr stats)))))))))"

definition bump :: "pystr \<Rightarrow> (pystr \<times> json) list \<Rightarrow> import_error + (pystr \<times> json) list" where
  "bump key stats = and_then (stat_int stats key) (\<lambda>n. Inr (obj_update stats [(key, JInt (n + 1))]))"

definition bump_if :: "bool \<Rightarrow> pystr \<Rightarrow> (pystr \<times> json) list \<Rightarrow> import_error + (pystr \<times> json) list" where
  "bump_if happened key stats = (if happened then bump key stats else Inr stats)"

definition record_result :: "persist_result \<Rightarrow> (pystr \<times> json) list \<Rightarrow> import_error + (pystr \<times> json) list" where
  "record_result r stats =
     and_then (bump (if pr_message r then u ''messages_created'' else u ''messages_updated'') stats) (\<lambda>s1.
     and_then (bump_if (pr_user r) (u ''users_created'') s1) (\<lambda>s2.
     and_then (bump_if (pr_topic r) (u ''topics_created'') s2) (\<lambda>s3.
     and_then (bump_if (pr_group r) (u ''media_groups_created'') s3) (\<lambda>s4.
     bump_if (pr_file r) (u ''files_created'') s4))))"

section \<open>A run\<close>

text \<open>\<open>xs[a:b]\<close> with Python's reading of negative bounds, and \<open>range(a, b, step)\<close> for a positive step.\<close>

definition slice_bound :: "'a list \<Rightarrow> int \<Rightarrow> nat" where
  "slice_bound xs i = nat (if i < 0 then max 0 (i + int (length xs)) else min i (int (length xs)))"

definition py_slice :: "int \<Rightarrow> int \<Rightarrow> 'a list \<Rightarrow> 'a list" where
  "py_slice a b xs = take (slice_bound xs b - slice_bound xs a) (drop (slice_bound xs a) xs)"

definition py_range :: "int \<Rightarrow> int \<Rightarrow> int \<Rightarrow> int list" where
  "py_range a b step = map (\<lambda>k. a + int k * step) [0..<nat ((b - a + step - 1) div step)]"

record importer =
  im_target :: int
  im_batch :: int

definition new_importer :: "int \<Rightarrow> int \<Rightarrow> import_error + importer" where
  "new_importer target batch =
     and_then (guard (1 \<le> batch \<and> batch \<le> 1000) (Import_value_error (u ''import batch size must be between 1 and 1000''))) (\<lambda>_.
     Inr \<lparr>im_target = target, im_batch = batch\<rparr>)"

fun persist_batch ::
    "export_dir \<Rightarrow> (int \<Rightarrow> instant) \<Rightarrow> int \<Rightarrow> imported list \<Rightarrow> archive_db \<times> (pystr \<times> json) list
       \<Rightarrow> import_error + archive_db \<times> (pystr \<times> json) list" where
  "persist_batch dir clk i [] (db, stats) = Inr (db, stats)"
| "persist_batch dir clk i (m # ms) (db, stats) =
     and_then (persist_message dir (clk i) m db) (\<lambda>(db1, r).
     and_then (record_result r stats) (\<lambda>stats1.
     persist_batch dir clk (i + 1) ms (db1, stats1)))"

definition update_run :: "int \<Rightarrow> (import_run \<Rightarrow> import_run) \<Rightarrow> import_db \<Rightarrow> import_db" where
  "update_run i f db = db\<lparr>id_runs := upd_where (\<lambda>r. ir_id r = i) f (id_runs db)\<rparr>"

text \<open>
  The transaction of the batch at \<open>start\<close>: the messages and the cursor together, or nothing.
  \<open>fault start\<close> is a failure of the database in that transaction.
\<close>

definition import_batch ::
    "importer \<Rightarrow> export_dir \<Rightarrow> import_plan \<Rightarrow> (int \<Rightarrow> instant) \<Rightarrow> (int \<Rightarrow> import_error option) \<Rightarrow> int \<Rightarrow> int
       \<Rightarrow> import_db \<Rightarrow> import_error + import_db" where
  "import_batch cfg dir plan clk fault run start db =
     (let batch = py_slice start (start + im_batch cfg) (pl_messages plan) in
      case row_at ir_id run (id_runs db) of
        None \<Rightarrow> Inl (Import_runtime_error (u ''import run disappeared during processing''))
      | Some row \<Rightarrow>
          and_then (normalized_stats plan (ir_stats row)) (\<lambda>stats.
          and_then (persist_batch dir clk start batch (id_archive db, stats)) (\<lambda>(archive, stats1).
          and_then (stat_int stats1 (u ''batches_completed'')) (\<lambda>batches.
          let stats2 = obj_update (obj_update stats1 [(u ''next_index'', JInt (start + int (length batch)))])
                [(u ''batches_completed'', JInt (batches + 1))] in
          and_then (case fault start of Some e \<Rightarrow> Inl e | None \<Rightarrow> Inr ()) (\<lambda>_.
          Inr (update_run run (\<lambda>r. r\<lparr>ir_stats := Some stats2, ir_status := Run_running\<rparr>) (db\<lparr>id_archive := archive\<rparr>)))))))"

text \<open>The batches committed before a failure stay.\<close>

fun import_batches ::
    "importer \<Rightarrow> export_dir \<Rightarrow> import_plan \<Rightarrow> (int \<Rightarrow> instant) \<Rightarrow> (int \<Rightarrow> import_error option) \<Rightarrow> int \<Rightarrow> int list
       \<Rightarrow> import_db \<Rightarrow> import_db \<times> (import_error + unit)" where
  "import_batches cfg dir plan clk fault run [] db = (db, Inr ())"
| "import_batches cfg dir plan clk fault run (start # starts) db =
     (case import_batch cfg dir plan clk fault run start db of
        Inl e \<Rightarrow> (db, Inl e)
      | Inr db' \<Rightarrow> import_batches cfg dir plan clk fault run starts db')"

definition prepare_run ::
    "importer \<Rightarrow> instant \<Rightarrow> pystr \<Rightarrow> import_plan \<Rightarrow> missing_media list \<Rightarrow> import_db \<Rightarrow> import_error + import_db \<times> int \<times> int \<times> bool" where
  "prepare_run cfg now digest plan missing db =
     (case List.find (\<lambda>r. ir_fingerprint r = digest) (id_runs db) of
        None \<Rightarrow>
          let r = \<lparr>ir_id = next_id ir_id (id_runs db), ir_kind = u ''telegram_desktop_json'', ir_fingerprint = digest,
                   ir_status = Run_running, ir_started_at = Some now, ir_completed_at = None,
                   ir_stats = Some (initial_stats plan missing), ir_error = None, ir_created_at = now\<rparr>
          in Inr (db\<lparr>id_runs := id_runs db @ [r]\<rparr>, ir_id r, 0, False)
      | Some r \<Rightarrow>
          and_then (normalized_stats plan (ir_stats r)) (\<lambda>stats.
          and_then (stat_int stats (u ''normalized_chat_id'')) (\<lambda>chat.
          and_then (guard (chat = im_target cfg) (Import_runtime_error (u ''stored import run belongs to another target chat''))) (\<lambda>_.
          and_then (stat_int stats (u ''next_index'')) (\<lambda>cursor.
          let resumed = min cursor (int (length (pl_messages plan))) in
          if ir_status r = Run_succeeded then Inr (db, ir_id r, resumed, True)
          else Inr (update_run (ir_id r) (\<lambda>r. r\<lparr>ir_status := Run_running, ir_started_at := first_given (ir_started_at r) (Some now),
                 ir_completed_at := None, ir_error := None, ir_stats := Some stats\<rparr>) db, ir_id r, resumed, False))))))"

definition complete_run ::
    "instant \<Rightarrow> import_plan \<Rightarrow> (int \<Rightarrow> import_error option) \<Rightarrow> int \<Rightarrow> import_db \<Rightarrow> import_error + import_db" where
  "complete_run now plan fault run db =
     (case row_at ir_id run (id_runs db) of
        None \<Rightarrow> Inl (Import_runtime_error (u ''import run disappeared before completion''))
      | Some _ \<Rightarrow>
          and_then (case fault (int (length (pl_messages plan))) of Some e \<Rightarrow> Inl e | None \<Rightarrow> Inr ()) (\<lambda>_.
          Inr (update_run run (\<lambda>r. r\<lparr>ir_status := Run_succeeded, ir_completed_at := Some now, ir_error := None\<rparr>) db)))"

text \<open>The class of the exception is stored, never its text.\<close>

definition mark_failed :: "int \<Rightarrow> import_error \<Rightarrow> import_db \<Rightarrow> import_db" where
  "mark_failed run e db =
     update_run run (\<lambda>r. r\<lparr>ir_status := Run_failed, ir_error := Some (error_name e @ u '': import batch failed'')\<rparr>) db"

text \<open>The inspection of one export: its digest, the plan and the media that are not there.\<close>

record preflight =
  pf_fingerprint :: pystr
  pf_plan :: import_plan
  pf_missing :: "missing_media list"

definition export_fingerprint :: "nat \<Rightarrow> nat list \<Rightarrow> import_error + pystr" where
  "export_fingerprint chunk_size bytes =
     and_then (guard (4096 \<le> chunk_size) (Import_value_error (u ''fingerprint chunk size must be at least 4096 bytes''))) (\<lambda>_.
     Inr (u ''sha256:'' @ concat (map hex_word (sha_blocks sha_h (words_of (pad_message bytes))))))"

definition inspect_export :: "(nat list \<Rightarrow> pystr + json) \<Rightarrow> export_dir \<Rightarrow> nat list \<Rightarrow> import_error + preflight" where
  "inspect_export decode dir bytes =
     and_then (export_fingerprint (1024 * 1024) bytes) (\<lambda>digest.
     and_then (as_value_error (load_export decode bytes)) (\<lambda>data.
     and_then (as_value_error (plan_import dir [] data)) (\<lambda>plan.
     and_then (collect (map (media_state dir) (pl_messages plan))) (\<lambda>states.
     Inr \<lparr>pf_fingerprint = digest, pf_plan = plan, pf_missing = List.map_filter id states\<rparr>))))"

record import_summary =
  is_run_id :: int
  is_fingerprint :: pystr
  is_status :: run_status
  is_raw_chat_id :: int
  is_chat_type :: pystr
  is_chat_id :: int
  is_messages_found :: nat
  is_messages_planned :: nat
  is_processed :: int
  is_created :: int
  is_updated :: int
  is_users :: int
  is_topics :: int
  is_groups :: int
  is_files :: int
  is_failures :: "import_failure list"
  is_missing :: "missing_media list"
  is_limitations :: "pystr list"
  is_resumed_from :: int
  is_already_completed :: bool

definition build_report ::
    "import_run \<Rightarrow> preflight \<Rightarrow> int \<Rightarrow> bool \<Rightarrow> import_error + import_summary" where
  "build_report run p resumed completed =
     (let plan = pf_plan p; report = pl_report plan in
      and_then (normalized_stats plan (ir_stats run)) (\<lambda>stats.
      and_then (stat_int stats (u ''next_index'')) (\<lambda>processed.
      and_then (stat_int stats (u ''messages_created'')) (\<lambda>made.
      and_then (stat_int stats (u ''messages_updated'')) (\<lambda>updated.
      and_then (stat_int stats (u ''users_created'')) (\<lambda>users.
      and_then (stat_int stats (u ''topics_created'')) (\<lambda>topics.
      and_then (stat_int stats (u ''media_groups_created'')) (\<lambda>groups.
      and_then (stat_int stats (u ''files_created'')) (\<lambda>files.
      Inr \<lparr>is_run_id = ir_id run, is_fingerprint = pf_fingerprint p, is_status = ir_status run,
           is_raw_chat_id = rp_raw_chat_id report, is_chat_type = rp_chat_type report, is_chat_id = rp_chat_id report,
           is_messages_found = rp_messages_found report, is_messages_planned = length (pl_messages plan),
           is_processed = processed, is_created = made, is_updated = updated, is_users = users, is_topics = topics,
           is_groups = groups, is_files = files, is_failures = rp_failures report, is_missing = pf_missing p,
           is_limitations = rp_limitations report, is_resumed_from = resumed, is_already_completed = completed\<rparr>)))))))))"

definition report_of ::
    "preflight \<Rightarrow> int \<Rightarrow> int \<Rightarrow> bool \<Rightarrow> import_db \<Rightarrow> import_error + import_summary" where
  "report_of p run resumed completed db =
     (case row_at ir_id run (id_runs db) of
        None \<Rightarrow> Inl (Import_runtime_error (u ''import run disappeared before completion''))
      | Some row \<Rightarrow> build_report row p resumed completed)"

text \<open>
  The run of an inspected export. \<open>clk\<close> gives the reading for the message at an index, \<open>started\<close> and
  \<open>ended\<close> the readings before and after the batches.
\<close>

definition run_import ::
    "importer \<Rightarrow> export_dir \<Rightarrow> instant \<Rightarrow> (int \<Rightarrow> instant) \<Rightarrow> instant \<Rightarrow> (int \<Rightarrow> import_error option) \<Rightarrow> pystr option
       \<Rightarrow> preflight \<Rightarrow> import_db \<Rightarrow> import_db \<times> (import_error + import_summary)" where
  "run_import cfg dir started clk ended fault expected p db =
     (let plan = pf_plan p in
      case and_then (case expected of
               None \<Rightarrow> Inr ()
             | Some e \<Rightarrow> and_then (guard (list_all (\<lambda>c. c < 128) e) Import_type_error) (\<lambda>_.
                 guard (e = pf_fingerprint p) Export_fingerprint_mismatch)) (\<lambda>_.
           and_then (guard (rp_chat_id (pl_report plan) = im_target cfg) Export_chat_mismatch) (\<lambda>_.
           prepare_run cfg started (pf_fingerprint p) plan (pf_missing p) db)) of
        Inl e \<Rightarrow> (db, Inl e)
      | Inr (db1, run, resumed, completed) \<Rightarrow>
          if completed then (db1, report_of p run resumed True db1)
          else
            let (db2, r) = import_batches cfg dir plan clk fault run
                  (py_range resumed (int (length (pl_messages plan))) (im_batch cfg)) db1
            in case and_then r (\<lambda>_. complete_run ended plan fault run db2) of
                 Inl e \<Rightarrow> (mark_failed run e db2, Inl e)
               | Inr db3 \<Rightarrow> (db3, report_of p run resumed False db3))"

text \<open>\<open>run\<close>: the inspection, then the import.\<close>

definition import_export ::
    "importer \<Rightarrow> (nat list \<Rightarrow> pystr + json) \<Rightarrow> export_dir \<Rightarrow> nat list \<Rightarrow> instant \<Rightarrow> (int \<Rightarrow> instant) \<Rightarrow> instant
       \<Rightarrow> (int \<Rightarrow> import_error option) \<Rightarrow> pystr option \<Rightarrow> import_db \<Rightarrow> import_db \<times> (import_error + import_summary)" where
  "import_export cfg decode dir bytes started clk ended fault expected db =
     (case inspect_export decode dir bytes of
        Inl e \<Rightarrow> (db, Inl e)
      | Inr p \<Rightarrow> run_import cfg dir started clk ended fault expected p db)"

section \<open>Reconciliation\<close>

record reconciliation =
  rc_planned :: nat
  rc_archived :: nat
  rc_documents :: nat
  rc_files_expected :: nat
  rc_files :: nat
  rc_replies :: nat
  rc_reply_mismatches :: nat

definition rc_complete :: "reconciliation \<Rightarrow> bool" where
  "rc_complete r \<longleftrightarrow> rc_archived r = rc_planned r \<and> rc_documents r = rc_planned r
     \<and> rc_files r = rc_files_expected r \<and> rc_reply_mismatches r = 0"

function chunks :: "nat \<Rightarrow> 'a list \<Rightarrow> 'a list list" where
  "chunks n xs = (if xs = [] \<or> n = 0 then [] else take n xs # chunks n (drop n xs))"
  by pat_completeness auto
termination by (relation "measure (\<lambda>(n, xs). length xs)") auto

declare chunks.simps [simp del]

text \<open>A dictionary filled in order: the last value of a key wins, at the key's first place.\<close>

definition filled_dict :: "('k \<times> 'v) list \<Rightarrow> ('k \<times> 'v) list" where
  "filled_dict kvs = foldl (\<lambda>d (k, v). AList.update k v d) [] kvs"

definition archived_rows :: "int \<Rightarrow> int list \<Rightarrow> message_row list \<Rightarrow> (int \<times> int \<times> int option) list" where
  "archived_rows chat ids rows =
     filled_dict (concat (map (\<lambda>chunk. map (\<lambda>r. (ms_message_id r, ms_id r, ms_reply_to r))
       (filter (\<lambda>r. ms_chat_id r = chat \<and> ms_message_id r \<in> set chunk) rows)) (chunks 400 ids)))"

definition reconcile_import :: "preflight \<Rightarrow> archive_db \<Rightarrow> reconciliation" where
  "reconcile_import p db =
     (let planned = filled_dict (map (\<lambda>m. (ip_message_id m, m)) (pl_messages (pf_plan p)));
          archived = archived_rows (rp_chat_id (pl_report (pf_plan p))) (map fst planned) (ar_messages db);
          parts = chunks 400 (map (fst \<circ> snd) archived);
          indexed = remdups (concat (map (\<lambda>chunk. map sd_source_id
            (filter (\<lambda>d. sd_source_type d = u ''message'' \<and> sd_source_id d \<in> set chunk) (ar_documents db))) parts));
          with_file = concat (map (\<lambda>chunk. map fl_message_id (filter (\<lambda>f. fl_message_id f \<in> set chunk) (ar_files db))) parts);
          expected = remdups (List.map_filter (\<lambda>(i, m). if ip_file_path m = None then None
            else map_option fst (map_of archived i)) planned);
          replies = List.map_filter (\<lambda>(i, m). case (ip_reply_to m, map_of archived i) of
            (Some to, Some (_, stored)) \<Rightarrow> Some (stored, to) | _ \<Rightarrow> None) planned
      in \<lparr>rc_planned = length planned, rc_archived = length archived, rc_documents = length indexed,
          rc_files_expected = length (filter (\<lambda>(_, m). ip_file_path m \<noteq> None) planned),
          rc_files = length (filter (\<lambda>i. i \<in> set with_file) expected), rc_replies = length replies,
          rc_reply_mismatches = length (filter (\<lambda>(stored, to). stored \<noteq> Some to) replies)\<rparr>)"

end
