(* ===== verification/ArchiveImportProperties.thy ===== *)
theory ArchiveImportProperties
  imports ArchiveImport LiveArchiveProperties
begin

text \<open>
  What an import of an export guarantees: whatever interrupts it, each planned message is stored exactly
  once; what the bot archived itself is never overwritten; and a run that ends well leaves everything that
  the reconciliation looks for.
\<close>

section \<open>The statistics\<close>

named_theorems stats

lemma map_of_filter_key: "P k \<Longrightarrow> map_of (filter (\<lambda>(k, _). P k) xs) k = map_of xs k"
  by (induction xs) auto

lemma map_of_obj_update:
  "map_of (obj_update kvs news) k =
    (case map_of kvs k of None \<Rightarrow> map_of news k | Some v \<Rightarrow> Some (case map_of news k of None \<Rightarrow> v | Some w \<Rightarrow> w))"
proof (cases "map_of kvs k")
  case None
  then have "map_of (map (\<lambda>(k, v). (k, case map_of news k of None \<Rightarrow> v | Some w \<Rightarrow> w)) kvs) k = None"
    by (force simp: map_of_eq_None_iff)
  moreover have "map_of (filter (\<lambda>(k, _). k \<notin> fst ` set kvs) news) k = map_of news k"
    by (rule map_of_filter_key) (use None in \<open>simp add: map_of_eq_None_iff\<close>)
  ultimately show ?thesis using None by (simp add: obj_update_def map_add_def)
next
  case (Some v)
  then have "map_of (map (\<lambda>(k, v). (k, case map_of news k of None \<Rightarrow> v | Some w \<Rightarrow> w)) kvs) k
      = Some (case map_of news k of None \<Rightarrow> v | Some w \<Rightarrow> w)"
    by (induction kvs) (auto split: if_splits option.splits)
  then show ?thesis using Some
    by (simp add: obj_update_def map_add_def split: option.splits)
qed

lemma jget_set [stats]: "jget (obj_update kvs [(k, v)]) k' = (if k' = k then v else jget kvs k')"
  by (simp add: jget_def map_of_obj_update split: option.splits)

lemma jget_merge: "jget kvs k \<noteq> JNull \<Longrightarrow> jget (obj_update defaults kvs) k = jget kvs k"
  by (simp add: jget_def map_of_obj_update split: option.splits)

definition counters :: "pystr list" where
  "counters = [u ''batches_completed'', u ''messages_created'', u ''messages_updated'', u ''users_created'',
     u ''topics_created'', u ''media_groups_created'', u ''files_created'']"

text \<open>Statistics of this plan with the cursor at \<open>n\<close> that count \<open>k\<close> stored messages.\<close>

definition stats_ok :: "import_plan \<Rightarrow> int \<Rightarrow> int \<Rightarrow> (pystr \<times> json) list \<Rightarrow> bool" where
  "stats_ok plan n k s \<longleftrightarrow>
     jget s (u ''version'') = JInt 2 \<and> jget s (u ''raw_chat_id'') = JInt (rp_raw_chat_id (pl_report plan))
     \<and> jget s (u ''chat_type'') = JStr (rp_chat_type (pl_report plan))
     \<and> jget s (u ''normalized_chat_id'') = JInt (rp_chat_id (pl_report plan))
     \<and> jget s (u ''messages_planned'') = JInt (int (length (pl_messages plan)))
     \<and> jget s (u ''next_index'') = JInt n
     \<and> (\<forall>key \<in> set counters. \<exists>v. jget s key = JInt v)
     \<and> (\<exists>a b. jget s (u ''messages_created'') = JInt a \<and> jget s (u ''messages_updated'') = JInt b \<and> a + b = k)"

lemma stats_ok_initial: "stats_ok plan 0 0 (initial_stats plan missing)"
  by (simp add: stats_ok_def initial_stats_def Let_def jget_def counters_def)

lemma stats_ok_merge:
  assumes "stats_ok plan n k s"
  shows "stats_ok plan n k (obj_update defaults s)"
proof -
  have "jget (obj_update defaults s) key = JInt v" if "jget s key = JInt v" for key v
    using that by (simp add: jget_merge)
  moreover have "jget (obj_update defaults s) key = JStr v" if "jget s key = JStr v" for key v
    using that by (simp add: jget_merge)
  ultimately show ?thesis using assms unfolding stats_ok_def by blast
qed

lemma normalized_ok:
  assumes "stats_ok plan n k s"
  shows "normalized_stats plan (Some s) = Inr (obj_update (initial_stats plan []) s)"
  using stats_ok_merge [OF assms, of "initial_stats plan []"]
  by (simp add: normalized_stats_def stats_ok_def stat_int_def json_int_def Let_def)

text \<open>The checked values of statistics are told by the result of normalising.\<close>

lemma bump_counter:
  assumes "stats_ok plan n k s" "key \<in> set counters"
    and "key \<noteq> u ''messages_created''" "key \<noteq> u ''messages_updated''"
  shows "\<exists>s'. bump key s = Inr s' \<and> stats_ok plan n k s'"
proof -
  obtain v where v: "jget s key = JInt v" using assms(1,2) by (auto simp: stats_ok_def)
  have other: "key \<noteq> u ''version''" "key \<noteq> u ''raw_chat_id''" "key \<noteq> u ''chat_type''" "key \<noteq> u ''normalized_chat_id''"
      "key \<noteq> u ''messages_planned''" "key \<noteq> u ''next_index''"
    using assms(2) by (auto simp: counters_def)
  show ?thesis
    using assms(1,3,4) v other unfolding stats_ok_def
    by (auto simp: bump_def stat_int_def json_int_def jget_set simp del: u_Cons)
qed

lemma bump_messages:
  assumes "stats_ok plan n k s" "key = u ''messages_created'' \<or> key = u ''messages_updated''"
  shows "\<exists>s'. bump key s = Inr s' \<and> stats_ok plan n (k + 1) s'"
proof -
  have d: "u ''messages_created'' \<noteq> u ''messages_updated''" by simp
  have other: "key \<noteq> u ''version''" "key \<noteq> u ''raw_chat_id''" "key \<noteq> u ''chat_type''" "key \<noteq> u ''normalized_chat_id''"
      "key \<noteq> u ''messages_planned''" "key \<noteq> u ''next_index''"
    using assms(2) by auto
  show ?thesis
    using assms other d unfolding stats_ok_def
    by (auto simp: bump_def stat_int_def json_int_def jget_set simp del: u_Cons)
qed

lemma bump_if_counter:
  assumes "stats_ok plan n k s" "key \<in> set counters"
    and "key \<noteq> u ''messages_created''" "key \<noteq> u ''messages_updated''"
  shows "\<exists>s'. bump_if happened key s = Inr s' \<and> stats_ok plan n k s'"
  using bump_counter [OF assms] assms(1) by (simp add: bump_if_def)

lemma record_result_ok:
  assumes "stats_ok plan n k s"
  shows "\<exists>s'. record_result r s = Inr s' \<and> stats_ok plan n (k + 1) s'"
proof -
  define key where "key = (if pr_message r then u ''messages_created'' else u ''messages_updated'')"
  have "key = u ''messages_created'' \<or> key = u ''messages_updated''"
    unfolding key_def by (cases "pr_message r") (simp_all only: if_True if_False simp_thms)
  from bump_messages [OF assms this] obtain s1 where 1: "bump key s = Inr s1" "stats_ok plan n (k + 1) s1" by blast
  note next_bump = bump_if_counter [where plan = plan and n = n and k = "k + 1"]
  obtain s2 where 2: "bump_if (pr_user r) (u ''users_created'') s1 = Inr s2" "stats_ok plan n (k + 1) s2"
    using next_bump [OF 1(2), of "u ''users_created''" "pr_user r"] by (auto simp: counters_def)
  obtain s3 where 3: "bump_if (pr_topic r) (u ''topics_created'') s2 = Inr s3" "stats_ok plan n (k + 1) s3"
    using next_bump [OF 2(2), of "u ''topics_created''" "pr_topic r"] by (auto simp: counters_def)
  obtain s4 where 4: "bump_if (pr_group r) (u ''media_groups_created'') s3 = Inr s4" "stats_ok plan n (k + 1) s4"
    using next_bump [OF 3(2), of "u ''media_groups_created''" "pr_group r"] by (auto simp: counters_def)
  obtain s5 where 5: "bump_if (pr_file r) (u ''files_created'') s4 = Inr s5" "stats_ok plan n (k + 1) s5"
    using next_bump [OF 4(2), of "u ''files_created''" "pr_file r"] by (auto simp: counters_def)
  have "record_result r s = Inr s5"
    unfolding record_result_def key_def [symmetric] 1(1) and_then.simps 2(1) 3(1) 4(1) 5(1) ..
  then show ?thesis using 5(2) by blast
qed

section \<open>The cursor\<close>

text \<open>The messages stored one after the other, and nothing else: what an import is for.\<close>

fun persist_all :: "export_dir \<Rightarrow> (int \<Rightarrow> instant) \<Rightarrow> int \<Rightarrow> imported list \<Rightarrow> archive_db \<Rightarrow> import_error + archive_db" where
  "persist_all dir clk i [] db = Inr db"
| "persist_all dir clk i (m # ms) db = and_then (persist_message dir (clk i) m db) (\<lambda>(db1, _). persist_all dir clk (i + 1) ms db1)"

lemma persist_all_append:
  "persist_all dir clk i (xs @ ys) db
    = and_then (persist_all dir clk i xs db) (\<lambda>db1. persist_all dir clk (i + int (length xs)) ys db1)"
proof (induction xs arbitrary: i db)
  case (Cons x xs)
  then show ?case by (cases "persist_message dir (clk i) x db") (auto simp: algebra_simps)
qed simp

lemma persist_all_cong:
  "(\<And>j. i \<le> j \<Longrightarrow> j < i + int (length ms) \<Longrightarrow> clk j = clk' j) \<Longrightarrow> persist_all dir clk i ms db = persist_all dir clk' i ms db"
proof (induction ms arbitrary: i db)
  case (Cons m ms)
  then have "clk i = clk' i" "\<And>db1. persist_all dir clk (i + 1) ms db1 = persist_all dir clk' (i + 1) ms db1" by simp_all
  then show ?case by simp
qed simp

lemma persist_batch_all:
  assumes "persist_batch dir clk i ms (db, s) = Inr (db', s')" "stats_ok plan n k s"
  shows "persist_all dir clk i ms db = Inr db' \<and> stats_ok plan n (k + int (length ms)) s'"
  using assms
proof (induction ms arbitrary: i db s k)
  case (Cons m ms)
  then obtain db1 r s1 where 1: "persist_message dir (clk i) m db = Inr (db1, r)" "record_result r s = Inr s1"
      "persist_batch dir clk (i + 1) ms (db1, s1) = Inr (db', s')"
    by (auto simp: py)
  have "stats_ok plan n (k + 1) s1" using record_result_ok [OF Cons.prems(2), of r] 1(2) by auto
  from Cons.IH [OF 1(3) this] show ?case by (simp add: 1(1) algebra_simps)
qed simp

text \<open>The first \<open>k\<close> messages of the plan are stored, at some times.\<close>

definition imported_upto :: "export_dir \<Rightarrow> import_plan \<Rightarrow> archive_db \<Rightarrow> nat \<Rightarrow> archive_db \<Rightarrow> bool" where
  "imported_upto dir plan start k db \<longleftrightarrow>
     k \<le> length (pl_messages plan) \<and> (\<exists>clk. persist_all dir clk 0 (take k (pl_messages plan)) start = Inr db)"

lemma imported_upto_step:
  assumes "imported_upto dir plan start k db" "persist_all dir clk (int k) (take b (drop k (pl_messages plan))) db = Inr db'"
  shows "imported_upto dir plan start (min (k + b) (length (pl_messages plan))) db'"
proof -
  let ?ms = "pl_messages plan"
  obtain c where c: "persist_all dir c 0 (take k ?ms) start = Inr db" and k: "k \<le> length ?ms"
    using assms(1) by (auto simp: imported_upto_def)
  define both where "both = (\<lambda>i. if i < int k then c i else clk i)"
  have "persist_all dir both 0 (take k ?ms) start = Inr db"
    unfolding c [symmetric] by (rule persist_all_cong) (use k in \<open>simp add: both_def\<close>)
  moreover have "persist_all dir both (int k) (take b (drop k ?ms)) db = Inr db'"
    unfolding assms(2) [symmetric] by (rule persist_all_cong) (simp add: both_def)
  ultimately have "persist_all dir both 0 (take k ?ms @ take b (drop k ?ms)) start = Inr db'"
    using k by (simp add: persist_all_append min_absorb2)
  moreover have "take k ?ms @ take b (drop k ?ms) = take (min (k + b) (length ?ms)) ?ms"
    by (metis take_add take_all_iff min.cobounded2 min_def linorder_le_cases)
  ultimately show ?thesis unfolding imported_upto_def by auto
qed

definition of_print :: "pystr \<Rightarrow> import_run \<Rightarrow> bool" where
  "of_print print r \<longleftrightarrow> ir_fingerprint r = print"

lemma of_print_eq: "of_print print = (\<lambda>r. ir_fingerprint r = print)"
  by (simp add: of_print_def fun_eq_iff)

text \<open>
  The run of the export with fingerprint \<open>print\<close> stands at message \<open>k\<close>: its row holds the cursor and the
  counts, and the archive holds the first \<open>k\<close> messages.
\<close>

definition run_at :: "export_dir \<Rightarrow> import_plan \<Rightarrow> pystr \<Rightarrow> archive_db \<Rightarrow> int \<Rightarrow> nat \<Rightarrow> import_db \<Rightarrow> bool" where
  "run_at dir plan print start run k db \<longleftrightarrow>
     (\<exists>row s. List.find (of_print print) (id_runs db) = Some row \<and> row_at ir_id run (id_runs db) = Some row
       \<and> ir_stats row = Some s \<and> stats_ok plan (int k) (int k) s
       \<and> (ir_status row = Run_succeeded \<longrightarrow> k = length (pl_messages plan)))
     \<and> imported_upto dir plan start k (id_archive db)"

lemma run_at_update:
  assumes "run_at dir plan print start run k db"
    and "\<And>r. ir_id (f r) = ir_id r" "\<And>r. ir_fingerprint (f r) = ir_fingerprint r"
    and "\<And>r s. ir_stats r = Some s \<Longrightarrow> stats_ok plan (int k) (int k) s \<Longrightarrow>
      \<exists>s'. ir_stats (f r) = Some s' \<and> stats_ok plan (int k') (int k') s'"
    and "\<And>r. ir_status (f r) = Run_succeeded \<Longrightarrow> k' = length (pl_messages plan)"
    and "imported_upto dir plan start k' archive"
  shows "run_at dir plan print start run k' (update_run run f (db\<lparr>id_archive := archive\<rparr>))"
proof -
  obtain row s where row: "List.find (of_print print) (id_runs db) = Some row" "row_at ir_id run (id_runs db) = Some row"
      "ir_stats row = Some s" "stats_ok plan (int k) (int k) s"
    using assms(1) by (auto simp: run_at_def)
  have i: "ir_id row = run" using row_at_Some [OF row(2)] by simp
  have "List.find (of_print print) (upd_where (\<lambda>r. ir_id r = run) f (id_runs db)) = Some (f row)"
    using row(1) i assms(3) by (subst find_upd_where_map) (simp_all add: of_print_def)
  moreover have "row_at ir_id run (upd_where (\<lambda>r. ir_id r = run) f (id_runs db)) = Some (f row)"
    using row(2) i assms(2) unfolding row_at_def by (subst find_upd_where_map) simp_all
  moreover obtain s' where "ir_stats (f row) = Some s'" "stats_ok plan (int k') (int k') s'"
    using assms(4) [OF row(3,4)] by blast
  ultimately show ?thesis using assms(5,6) by (auto simp: run_at_def update_run_def)
qed

lemma py_range_Cons:
  assumes "0 < b"
  shows "py_range a e b = (if a < e then a # py_range (a + b) e b else [])"
proof (cases "a < e")
  case True
  have d: "(e - a + b - 1) div b = (e - (a + b) + b - 1) div b + 1"
    using assms div_add_self2 [of b "e - a - 1"] by (simp add: algebra_simps)
  have "0 \<le> (e - (a + b) + b - 1) div b" using True assms by (simp add: pos_imp_zdiv_nonneg_iff)
  then have n: "nat ((e - a + b - 1) div b) = Suc (nat ((e - (a + b) + b - 1) div b))" using d by simp
  show ?thesis unfolding py_range_def n
    using True by (simp add: map_upt_Suc algebra_simps del: upt_Suc)
next
  case False
  then have "(e - a + b - 1) div b \<le> 0" using assms by (smt (verit) div_pos_pos_trivial div_nonneg_neg_le0 zdiv_mono1 div_self)
  then show ?thesis using False by (simp add: py_range_def)
qed

lemma py_slice_nonneg: "py_slice (int a) (int a + int b) xs = take b (drop a xs)"
proof (cases "a \<le> length xs")
  case True
  then have "slice_bound xs (int a) = a" "slice_bound xs (int a + int b) = min (a + b) (length xs)"
    by (auto simp: slice_bound_def)
  then show ?thesis using True by (simp add: py_slice_def min_def)
next
  case False
  then show ?thesis by (simp add: py_slice_def slice_bound_def)
qed

lemma import_batch_step:
  assumes "import_batch cfg dir plan clk fault run (int k) db = Inr db'" "run_at dir plan print start run k db"
    and "0 < im_batch cfg"
  shows "run_at dir plan print start run (min (k + nat (im_batch cfg)) (length (pl_messages plan))) db'"
proof -
  define b where "b = nat (im_batch cfg)"
  have b: "im_batch cfg = int b" using assms(3) by (simp add: b_def)
  define batch where "batch = take b (drop k (pl_messages plan))"
  define k' where "k' = min (k + b) (length (pl_messages plan))"
  have slice: "py_slice (int k) (int k + im_batch cfg) (pl_messages plan) = batch"
    unfolding b batch_def by (rule py_slice_nonneg)
  obtain row s where row: "row_at ir_id run (id_runs db) = Some row" "ir_stats row = Some s" "stats_ok plan (int k) (int k) s"
      and at: "imported_upto dir plan start k (id_archive db)"
    using assms(2) by (auto simp: run_at_def)
  define s0 where "s0 = obj_update (initial_stats plan []) s"
  have s0: "normalized_stats plan (ir_stats row) = Inr s0" "stats_ok plan (int k) (int k) s0"
    using normalized_ok [OF row(3)] stats_ok_merge [OF row(3)] by (simp_all add: row(2) s0_def)
  from assms(1) obtain archive s1 n s2 where
      p: "persist_batch dir clk (int k) batch (id_archive db, s0) = Inr (archive, s1)"
      and n: "stat_int s1 (u ''batches_completed'') = Inr n"
      and s2: "s2 = obj_update (obj_update s1 [(u ''next_index'', JInt (int k + int (length batch)))])
        [(u ''batches_completed'', JInt (n + 1))]"
      and db': "db' = update_run run (\<lambda>r. r\<lparr>ir_stats := Some s2, ir_status := Run_running\<rparr>) (db\<lparr>id_archive := archive\<rparr>)"
    unfolding import_batch_def slice Let_def row(1) option.case s0(1) by (auto simp: py simp del: u_Cons split: option.splits)
  have all: "persist_all dir clk (int k) batch (id_archive db) = Inr archive"
      and s1: "stats_ok plan (int k) (int k + int (length batch)) s1"
    using persist_batch_all [OF p s0(2)] by auto
  have k: "k \<le> length (pl_messages plan)" using at by (simp add: imported_upto_def)
  then have k': "int k + int (length batch) = int k'" by (simp add: batch_def k'_def)
  have "stats_ok plan (int k') (int k') s2"
    using s1 unfolding s2 k' stats_ok_def by (auto simp: jget_set counters_def)
  moreover have "imported_upto dir plan start k' archive"
    using imported_upto_step [OF at] all unfolding batch_def k'_def by blast
  ultimately show ?thesis
    unfolding db' b_def [symmetric] k'_def [symmetric]
    by (intro run_at_update [OF assms(2)]) simp_all
qed

lemma py_range_end: "0 < b \<Longrightarrow> e \<le> a \<Longrightarrow> py_range a e b = []"
  by (subst py_range_Cons) auto

lemma next_range:
  assumes "0 < b" "xs = py_range (int k + b) (int n) b"
  shows "xs = py_range (int (min (k + nat b) n)) (int n) b"
proof (cases "k + nat b \<le> n")
  case True
  then have "int k + b = int (min (k + nat b) n)" using assms(1) by simp
  then show ?thesis using assms(2) by simp
next
  case False
  then have "min (k + nat b) n = n" "int n \<le> int k + b" using assms(1) by auto
  then show ?thesis using assms by (simp add: py_range_end)
qed

lemma import_batches_step:
  assumes "import_batches cfg dir plan clk fault run starts db = (db', r)" "run_at dir plan print start run k db"
    and "starts = py_range (int k) (int (length (pl_messages plan))) (im_batch cfg)" "0 < im_batch cfg"
  shows "\<exists>k'. run_at dir plan print start run k' db' \<and> (r = Inr () \<longrightarrow> k' = length (pl_messages plan))"
  using assms(1,2,3)
proof (induction starts arbitrary: db k)
  case Nil
  have "k \<le> length (pl_messages plan)" using Nil.prems(2) by (simp add: run_at_def imported_upto_def)
  moreover have "\<not> int k < int (length (pl_messages plan))"
    using Nil.prems(3) py_range_Cons [OF assms(4), of "int k"] by (auto split: if_splits)
  ultimately show ?case using Nil by auto
next
  case (Cons x xs)
  have x: "x = int k" "xs = py_range (int k + im_batch cfg) (int (length (pl_messages plan))) (im_batch cfg)"
    using Cons.prems(3) py_range_Cons [OF assms(4), of "int k"] by (auto split: if_splits)
  show ?case
  proof (cases "import_batch cfg dir plan clk fault run x db")
    case (Inl e)
    then have "db' = db" "r = Inl e" using Cons.prems(1) by simp_all
    then show ?thesis using Cons.prems(2) by auto
  next
    case (Inr db1)
    define k' where "k' = min (k + nat (im_batch cfg)) (length (pl_messages plan))"
    have at: "run_at dir plan print start run k' db1"
      unfolding k'_def using import_batch_step [OF _ Cons.prems(2) assms(4)] Inr by (simp add: x)
    have "xs = py_range (int k') (int (length (pl_messages plan))) (im_batch cfg)"
      unfolding k'_def using x(2) by (rule next_range [OF assms(4)])
    from Cons.IH [OF _ at this] show ?thesis using Cons.prems(1) Inr by simp
  qed
qed

text \<open>Before its first run, or standing somewhere in the plan.\<close>

definition import_stands :: "export_dir \<Rightarrow> preflight \<Rightarrow> archive_db \<Rightarrow> import_db \<Rightarrow> bool" where
  "import_stands dir p start db \<longleftrightarrow>
     List.find (of_print (pf_fingerprint p)) (id_runs db) = None \<and> id_archive db = start
     \<or> (\<exists>run k. run_at dir (pf_plan p) (pf_fingerprint p) start run k db)"

lemma prepare_run_stands:
  assumes "prepare_run cfg now (pf_fingerprint p) (pf_plan p) missing db = Inr (db', run, resumed, completed)"
    and "import_stands dir p start db"
  shows "\<exists>k. resumed = int k \<and> run_at dir (pf_plan p) (pf_fingerprint p) start run k db'
    \<and> (completed \<longrightarrow> k = length (pl_messages (pf_plan p)))"
proof (cases "List.find (of_print (pf_fingerprint p)) (id_runs db)")
  case None
  then have start: "id_archive db = start" using assms(2) by (auto simp: import_stands_def run_at_def)
  have zero: "row_at ir_id (next_id ir_id (id_runs db)) (id_runs db) = None" by (simp add: row_at_None)
  have "imported_upto dir (pf_plan p) start 0 start" by (simp add: imported_upto_def)
  moreover have "List.find (\<lambda>r. ir_fingerprint r = pf_fingerprint p) (id_runs db) = None"
    using None by (simp add: of_print_eq)
  ultimately show ?thesis
    using assms(1) zero stats_ok_initial [of "pf_plan p" missing]
    by (auto simp: prepare_run_def of_print_eq Let_def run_at_def find_append row_at_def start)
next
  case (Some row)
  then obtain i k s where at: "run_at dir (pf_plan p) (pf_fingerprint p) start i k db"
      and row: "row_at ir_id i (id_runs db) = Some row" "ir_stats row = Some s" "stats_ok (pf_plan p) (int k) (int k) s"
        "ir_status row = Run_succeeded \<longrightarrow> k = length (pl_messages (pf_plan p))"
    using assms(2) by (auto simp: import_stands_def run_at_def)
  have i: "ir_id row = i" using row_at_Some [OF row(1)] by simp
  define s0 where "s0 = obj_update (initial_stats (pf_plan p) []) s"
  have s0: "normalized_stats (pf_plan p) (Some s) = Inr s0" "stats_ok (pf_plan p) (int k) (int k) s0"
    using normalized_ok [OF row(3)] stats_ok_merge [OF row(3)] by (simp_all add: s0_def)
  have cursor: "stat_int s0 (u ''next_index'') = Inr (int k)"
    using s0(2) by (simp add: stats_ok_def stat_int_def json_int_def)
  have k: "k \<le> length (pl_messages (pf_plan p))" and up: "imported_upto dir (pf_plan p) start k (id_archive db)"
    using at by (simp_all add: run_at_def imported_upto_def)
  define f :: "import_run \<Rightarrow> import_run" where "f = (\<lambda>r. r\<lparr>ir_status := Run_running, ir_started_at := first_given (ir_started_at r) (Some now),
                 ir_completed_at := None, ir_error := None, ir_stats := Some s0\<rparr>)"
  have found: "List.find (\<lambda>r. ir_fingerprint r = pf_fingerprint p) (id_runs db) = Some row"
    using Some by (simp add: of_print_eq)
  have "resumed = int k \<and> run = i \<and> (if ir_status row = Run_succeeded then db' = db \<and> completed else db' = update_run i f db \<and> \<not> completed)"
    using assms(1) k unfolding prepare_run_def found option.case row(2) s0(1) f_def
    by (auto simp: py cursor i Let_def min_absorb1 simp del: u_Cons split: if_splits)
  moreover have "run_at dir (pf_plan p) (pf_fingerprint p) start i k (update_run i f (db\<lparr>id_archive := id_archive db\<rparr>))"
    by (rule run_at_update [OF at _ _ _ _ up]) (simp_all add: f_def s0(2))
  ultimately show ?thesis using at row(4) by (auto split: if_splits)
qed

lemma report_counts:
  assumes "run_at dir (pf_plan p) print start run k db" "report_of p run resumed completed db = Inr rep"
  shows "is_processed rep = int k \<and> is_created rep + is_updated rep = int k"
proof -
  obtain row s where row: "row_at ir_id run (id_runs db) = Some row" "ir_stats row = Some s" "stats_ok (pf_plan p) (int k) (int k) s"
    using assms(1) by (auto simp: run_at_def)
  define s0 where "s0 = obj_update (initial_stats (pf_plan p) []) s"
  have s0: "normalized_stats (pf_plan p) (Some s) = Inr s0" "stats_ok (pf_plan p) (int k) (int k) s0"
    using normalized_ok [OF row(3)] stats_ok_merge [OF row(3)] by (simp_all add: s0_def)
  obtain a b where ab: "stat_int s0 (u ''messages_created'') = Inr a" "stat_int s0 (u ''messages_updated'') = Inr b"
      "stat_int s0 (u ''next_index'') = Inr (int k)" "a + b = int k"
    using s0(2) by (auto simp: stats_ok_def stat_int_def json_int_def)
  show ?thesis
    using assms(2) ab(4) unfolding report_of_def row(1) option.case build_report_def row(2) Let_def s0(1)
    by (auto simp: py ab(1-3) simp del: u_Cons)
qed

lemma run_import_cases:
  obtains (refused) e where "run_import cfg dir started clk ended fault expected p db = (db, Inl e)"
  | (done_before) db1 run resumed where
      "prepare_run cfg started (pf_fingerprint p) (pf_plan p) (pf_missing p) db = Inr (db1, run, resumed, True)"
      "run_import cfg dir started clk ended fault expected p db = (db1, report_of p run resumed True db1)"
  | (broken) db1 run resumed db2 q e where
      "prepare_run cfg started (pf_fingerprint p) (pf_plan p) (pf_missing p) db = Inr (db1, run, resumed, False)"
      "import_batches cfg dir (pf_plan p) clk fault run
         (py_range resumed (int (length (pl_messages (pf_plan p)))) (im_batch cfg)) db1 = (db2, q)"
      "run_import cfg dir started clk ended fault expected p db = (mark_failed run e db2, Inl e)"
  | (ended) db1 run resumed db2 db3 where
      "prepare_run cfg started (pf_fingerprint p) (pf_plan p) (pf_missing p) db = Inr (db1, run, resumed, False)"
      "import_batches cfg dir (pf_plan p) clk fault run
         (py_range resumed (int (length (pl_messages (pf_plan p)))) (im_batch cfg)) db1 = (db2, Inr ())"
      "complete_run ended (pf_plan p) fault run db2 = Inr db3"
      "run_import cfg dir started clk ended fault expected p db = (db3, report_of p run resumed False db3)"
proof -
  let ?r = "run_import cfg dir started clk ended fault expected p db"
  let ?first = "and_then (case expected of
               None \<Rightarrow> Inr ()
             | Some e \<Rightarrow> and_then (guard (list_all (\<lambda>c. c < 128) e) Import_type_error) (\<lambda>_.
                 guard (e = pf_fingerprint p) Export_fingerprint_mismatch)) (\<lambda>_.
           and_then (guard (rp_chat_id (pl_report (pf_plan p)) = im_target cfg) Export_chat_mismatch) (\<lambda>_.
           prepare_run cfg started (pf_fingerprint p) (pf_plan p) (pf_missing p) db))"
  show thesis
  proof (cases ?first)
    case (Inl e)
    then show thesis using refused unfolding run_import_def Let_def by simp
  next
    case (Inr t)
    obtain db1 run resumed completed where t: "t = (db1, run, resumed, completed)" by (cases t)
    have p: "prepare_run cfg started (pf_fingerprint p) (pf_plan p) (pf_missing p) db = Inr (db1, run, resumed, completed)"
      using Inr unfolding t by (auto simp: py)
    obtain db2 q where b: "import_batches cfg dir (pf_plan p) clk fault run
         (py_range resumed (int (length (pl_messages (pf_plan p)))) (im_batch cfg)) db1 = (db2, q)"
      by fastforce
    have r: "?r = (if completed then (db1, report_of p run resumed True db1)
        else case and_then q (\<lambda>_. complete_run ended (pf_plan p) fault run db2) of
               Inl e \<Rightarrow> (mark_failed run e db2, Inl e)
             | Inr db3 \<Rightarrow> (db3, report_of p run resumed False db3))"
      unfolding run_import_def Let_def Inr t by (simp add: b)
    show thesis
    proof (cases completed)
      case True
      then show thesis using done_before p r by simp
    next
      case False
      show thesis
      proof (cases "and_then q (\<lambda>_. complete_run ended (pf_plan p) fault run db2)")
        case (Inl e)
        then show thesis using broken p b r False by simp
      next
        case (Inr db3)
        then have "q = Inr ()" "complete_run ended (pf_plan p) fault run db2 = Inr db3" by (auto simp: py)
        then show thesis using ended p b r False Inr by simp
      qed
    qed
  qed
qed

lemma complete_run_at:
  assumes "run_at dir plan print start run k db" "k = length (pl_messages plan)"
  shows "complete_run now plan fault run db = Inr db' \<Longrightarrow> run_at dir plan print start run k db'"
    and "fault (int k) = None \<Longrightarrow> \<exists>db'. complete_run now plan fault run db = Inr db'"
proof -
  define f :: "import_run \<Rightarrow> import_run"
    where "f = (\<lambda>r. r\<lparr>ir_status := Run_succeeded, ir_completed_at := Some now, ir_error := None\<rparr>)"
  have up: "imported_upto dir plan start k (id_archive db)" using assms(1) by (simp add: run_at_def)
  assume "complete_run now plan fault run db = Inr db'"
  then have "db' = update_run run f (db\<lparr>id_archive := id_archive db\<rparr>)"
    by (auto simp: complete_run_def f_def py split: option.splits)
  moreover have "run_at dir plan print start run k (update_run run f (db\<lparr>id_archive := id_archive db\<rparr>))"
    by (rule run_at_update [OF assms(1) _ _ _ _ up]) (simp_all add: f_def assms(2))
  ultimately show "run_at dir plan print start run k db'" by simp
next
  assume "fault (int k) = None"
  then show "\<exists>db'. complete_run now plan fault run db = Inr db'"
    using assms by (auto simp: complete_run_def run_at_def)
qed

lemma run_import_stands:
  assumes "run_import cfg dir started clk ended fault expected p db = (db', r)" "import_stands dir p start db"
    and "0 < im_batch cfg"
  shows "import_stands dir p start db' \<and> (\<forall>rep. r = Inr rep \<longrightarrow>
      imported_upto dir (pf_plan p) start (length (pl_messages (pf_plan p))) (id_archive db')
      \<and> is_created rep + is_updated rep = int (length (pl_messages (pf_plan p))))"
proof (cases rule: run_import_cases [of cfg dir started clk ended fault expected p db])
  case refused
  then show ?thesis using assms by simp
next
  case (done_before db1 run resumed)
  then obtain k where k: "run_at dir (pf_plan p) (pf_fingerprint p) start run k db1" "k = length (pl_messages (pf_plan p))"
    using prepare_run_stands [OF done_before(1) assms(2)] by auto
  moreover have "imported_upto dir (pf_plan p) start k (id_archive db1)" using k(1) by (simp add: run_at_def)
  ultimately show ?thesis using assms(1) done_before(2) report_counts [OF k(1)] by (auto simp: import_stands_def)
next
  case (broken db1 run resumed db2 q e)
  obtain k where k: "run_at dir (pf_plan p) (pf_fingerprint p) start run k db1" "resumed = int k"
    using prepare_run_stands [OF broken(1) assms(2)] by auto
  obtain k' where k': "run_at dir (pf_plan p) (pf_fingerprint p) start run k' db2"
    using import_batches_step [OF broken(2) k(1)] k(2) assms(3) by auto
  have up: "imported_upto dir (pf_plan p) start k' (id_archive db2)" using k' by (simp add: run_at_def)
  have "run_at dir (pf_plan p) (pf_fingerprint p) start run k' (mark_failed run e (db2\<lparr>id_archive := id_archive db2\<rparr>))"
    unfolding mark_failed_def by (rule run_at_update [OF k' _ _ _ _ up]) simp_all
  then show ?thesis using assms(1) broken(3) by (auto simp: import_stands_def)
next
  case (ended db1 run resumed db2 db3)
  obtain k where k: "run_at dir (pf_plan p) (pf_fingerprint p) start run k db1" "resumed = int k"
    using prepare_run_stands [OF ended(1) assms(2)] by auto
  obtain k' where k': "run_at dir (pf_plan p) (pf_fingerprint p) start run k' db2" "k' = length (pl_messages (pf_plan p))"
    using import_batches_step [OF ended(2) k(1)] k(2) assms(3) by auto
  from complete_run_at [OF k'] ended(3) have at: "run_at dir (pf_plan p) (pf_fingerprint p) start run k' db3" by blast
  have "imported_upto dir (pf_plan p) start k' (id_archive db3)" using at by (simp add: run_at_def)
  then show ?thesis using at assms(1) ended(4) report_counts [OF at] k'(2) by (auto simp: import_stands_def)
qed

section \<open>Imports that meet no failure\<close>

definition media_reachable :: "export_dir \<Rightarrow> imported \<Rightarrow> bool" where
  "media_reachable dir m =
     (case ip_file_path m of None \<Rightarrow> True | Some p \<Rightarrow> (case relative_export_path dir p of Inl _ \<Rightarrow> False | Inr _ \<Rightarrow> True))"

lemma import_local_file_succeeds:
  "media_reachable dir m \<Longrightarrow> \<exists>rows' created. import_local_file now dir i m rows = Inr (rows', created)"
  by (auto simp: media_reachable_def import_local_file_def Let_def split: option.splits sum.splits)

lemma persist_message_succeeds:
  assumes "media_reachable dir m"
  shows "\<exists>db' r. persist_message dir now m db = Inr (db', r)"
proof -
  obtain db1 sender a where 1: "import_user m db = (db1, sender, a)" by (metis prod_cases3)
  obtain db2 topic b where 2: "import_topic now m db1 = (db2, topic, b)" by (metis prod_cases3)
  obtain db3 album c where 3: "import_group m db2 = (db3, album, c)" by (metis prod_cases3)
  obtain f new where "import_local_file now dir i m rows = Inr (f i rows, new i rows)" for i rows
    using import_local_file_succeeds [OF assms] by metis
  then show ?thesis by (simp add: persist_message_def 1 2 3 Let_def)
qed

lemma persist_batch_succeeds:
  assumes "list_all (media_reachable dir) ms" "stats_ok plan n k s"
  shows "\<exists>db' s'. persist_batch dir clk i ms (db, s) = Inr (db', s')"
  using assms
proof (induction ms arbitrary: i db s k)
  case (Cons m ms)
  obtain db1 r where 1: "persist_message dir (clk i) m db = Inr (db1, r)"
    using persist_message_succeeds [of dir m "clk i" db] Cons.prems(1) by auto
  obtain s1 where 2: "record_result r s = Inr s1" "stats_ok plan n (k + 1) s1"
    using record_result_ok [OF Cons.prems(2)] by blast
  show ?case using Cons.IH [OF _ 2(2)] Cons.prems(1) by (simp add: 1 2(1))
qed simp

lemma import_batch_succeeds:
  assumes "run_at dir plan print start run k db" "list_all (media_reachable dir) (pl_messages plan)"
    and "fault (int k) = None" "0 < im_batch cfg"
  shows "\<exists>db'. import_batch cfg dir plan clk fault run (int k) db = Inr db'"
proof -
  obtain row s where row: "row_at ir_id run (id_runs db) = Some row" "ir_stats row = Some s" "stats_ok plan (int k) (int k) s"
    using assms(1) by (auto simp: run_at_def)
  define batch where "batch = py_slice (int k) (int k + im_batch cfg) (pl_messages plan)"
  have "list_all (media_reachable dir) batch"
    using assms(2) by (auto simp: batch_def py_slice_def list_all_iff dest: in_set_takeD in_set_dropD)
  moreover note s0 = normalized_ok [OF row(3)] stats_ok_merge [OF row(3), of "initial_stats plan []"]
  ultimately obtain archive s1 where
      p: "persist_batch dir clk (int k) batch (id_archive db, obj_update (initial_stats plan []) s) = Inr (archive, s1)"
    using persist_batch_succeeds by metis
  then have "stats_ok plan (int k) (int k + int (length batch)) s1" using persist_batch_all [OF p s0(2)] by simp
  then obtain n where "stat_int s1 (u ''batches_completed'') = Inr n"
    by (auto simp: stats_ok_def counters_def stat_int_def json_int_def)
  then show ?thesis using p s0(1) row assms(3)
    by (simp add: import_batch_def batch_def [symmetric] Let_def del: u_Cons)
qed

lemma import_batches_succeed:
  assumes "run_at dir plan print start run k db" "starts = py_range (int k) (int (length (pl_messages plan))) (im_batch cfg)"
    and "list_all (media_reachable dir) (pl_messages plan)" "\<And>i. fault i = None" "0 < im_batch cfg"
  shows "\<exists>db'. import_batches cfg dir plan clk fault run starts db = (db', Inr ())"
  using assms(1,2)
proof (induction starts arbitrary: k db)
  case (Cons x xs)
  have x: "x = int k" "xs = py_range (int k + im_batch cfg) (int (length (pl_messages plan))) (im_batch cfg)"
    using Cons.prems(2) py_range_Cons [OF assms(5), of "int k"] by (auto split: if_splits)
  obtain db1 where 1: "import_batch cfg dir plan clk fault run (int k) db = Inr db1"
    using import_batch_succeeds [OF Cons.prems(1) assms(3) _ assms(5)] assms(4) by blast
  note at = import_batch_step [OF 1 Cons.prems(1) assms(5)]
  have "xs = py_range (int (min (k + nat (im_batch cfg)) (length (pl_messages plan)))) (int (length (pl_messages plan))) (im_batch cfg)"
    using x(2) by (rule next_range [OF assms(5)])
  from Cons.IH [OF at this] show ?case using 1 x(1) by simp
qed simp

lemma prepare_run_succeeds:
  assumes "import_stands dir p start db" "rp_chat_id (pl_report (pf_plan p)) = im_target cfg"
  shows "\<exists>t. prepare_run cfg now (pf_fingerprint p) (pf_plan p) missing db = Inr t"
proof (cases "List.find (of_print (pf_fingerprint p)) (id_runs db)")
  case None
  then show ?thesis by (auto simp: prepare_run_def of_print_eq Let_def)
next
  case (Some row)
  then obtain k s where row: "ir_stats row = Some s" "stats_ok (pf_plan p) (int k) (int k) s"
    using assms(1) by (auto simp: import_stands_def run_at_def)
  note s0 = normalized_ok [OF row(2)] stats_ok_merge [OF row(2), of "initial_stats (pf_plan p) []"]
  then have "stat_int (obj_update (initial_stats (pf_plan p) []) s) (u ''next_index'') = Inr (int k)"
      "stat_int (obj_update (initial_stats (pf_plan p) []) s) (u ''normalized_chat_id'') = Inr (im_target cfg)"
    using assms(2) by (simp_all add: stats_ok_def stat_int_def json_int_def)
  then show ?thesis using Some s0(1) by (auto simp: prepare_run_def of_print_eq row(1) Let_def simp del: u_Cons)
qed

lemma report_succeeds:
  assumes "run_at dir (pf_plan p) print start run k db"
  shows "\<exists>rep. report_of p run resumed completed db = Inr rep"
proof -
  obtain row s where row: "row_at ir_id run (id_runs db) = Some row" "ir_stats row = Some s" "stats_ok (pf_plan p) (int k) (int k) s"
    using assms(1) by (auto simp: run_at_def)
  define s0 where "s0 = obj_update (initial_stats (pf_plan p) []) s"
  have s0: "normalized_stats (pf_plan p) (Some s) = Inr s0" "stats_ok (pf_plan p) (int k) (int k) s0"
    using normalized_ok [OF row(3)] stats_ok_merge [OF row(3)] by (simp_all add: s0_def)
  have "\<exists>v. stat_int s0 key = Inr v" if "key = u ''next_index'' \<or> key \<in> set counters" for key
    using s0(2) that by (auto simp: stats_ok_def stat_int_def json_int_def)
  then obtain f where f: "stat_int s0 key = Inr (f key)" if "key = u ''next_index'' \<or> key \<in> set counters" for key
    by metis
  show ?thesis
    unfolding report_of_def row(1) option.case build_report_def row(2) Let_def s0(1) by (simp add: f counters_def)
qed

lemma run_import_succeeds:
  assumes "import_stands dir p start db" "rp_chat_id (pl_report (pf_plan p)) = im_target cfg"
    and "list_all (media_reachable dir) (pl_messages (pf_plan p))" "0 < im_batch cfg"
  shows "\<exists>db' rep. run_import cfg dir started clk ended (\<lambda>_. None) None p db = (db', Inr rep)"
proof -
  obtain db1 run resumed completed where
      prep: "prepare_run cfg started (pf_fingerprint p) (pf_plan p) (pf_missing p) db = Inr (db1, run, resumed, completed)"
    using prepare_run_succeeds [OF assms(1,2)] by (metis prod_cases4)
  from prepare_run_stands [OF this assms(1)] obtain k where
      k: "resumed = int k" "run_at dir (pf_plan p) (pf_fingerprint p) start run k db1" by blast
  obtain db2 where batches: "import_batches cfg dir (pf_plan p) clk (\<lambda>_. None) run
      (py_range resumed (int (length (pl_messages (pf_plan p)))) (im_batch cfg)) db1 = (db2, Inr ())"
    using import_batches_succeed [OF k(2) refl assms(3) _ assms(4), where fault = "\<lambda>_. None"] by (auto simp: k(1))
  obtain k' where k': "run_at dir (pf_plan p) (pf_fingerprint p) start run k' db2" "k' = length (pl_messages (pf_plan p))"
    using import_batches_step [OF batches k(2) _ assms(4)] k(1) by auto
  then obtain db3 where completed: "complete_run ended (pf_plan p) (\<lambda>_. None) run db2 = Inr db3"
      and at: "run_at dir (pf_plan p) (pf_fingerprint p) start run k' db3"
    using complete_run_at(1) [OF k', of ended "\<lambda>_. None"] complete_run_at(2) [OF k', of "\<lambda>_. None" ended] by auto
  show ?thesis
    using report_succeeds [OF k(2), of resumed True] report_succeeds [OF at, of resumed False]
    unfolding run_import_def Let_def
    by (auto simp: assms(2) prep batches completed)
qed

section \<open>Interrupted imports\<close>

record attempt =
  at_cfg :: importer
  at_started :: instant
  at_clock :: "int \<Rightarrow> instant"
  at_ended :: instant
  at_fault :: "int \<Rightarrow> import_error option"
  at_expected :: "pystr option"

definition attempted :: "export_dir \<Rightarrow> preflight \<Rightarrow> attempt \<Rightarrow> import_db \<Rightarrow> import_db \<times> (import_error + import_summary)" where
  "attempted dir p a db =
     run_import (at_cfg a) dir (at_started a) (at_clock a) (at_ended a) (at_fault a) (at_expected a) p db"

definition after_attempts :: "export_dir \<Rightarrow> preflight \<Rightarrow> attempt list \<Rightarrow> import_db \<Rightarrow> import_db" where
  "after_attempts dir p as db = foldl (\<lambda>db a. fst (attempted dir p a db)) db as"

lemma after_attempts_stands:
  assumes "import_stands dir p start db" "list_all (\<lambda>a. 0 < im_batch (at_cfg a)) as"
  shows "import_stands dir p start (after_attempts dir p as db)"
  using assms
proof (induction as rule: rev_induct)
  case (snoc a as)
  obtain db' r where "attempted dir p a (after_attempts dir p as db) = (db', r)" by fastforce
  then show ?case using snoc run_import_stands [of _ dir _ _ _ _ _ p "after_attempts dir p as db" db' r start]
    by (simp add: after_attempts_def attempted_def)
qed (simp add: after_attempts_def)

lemma attempts_import:
  assumes "List.find (of_print (pf_fingerprint p)) (id_runs db) = None"
    and "list_all (\<lambda>a. 0 < im_batch (at_cfg a)) (as @ [a])"
    and "attempted dir p a (after_attempts dir p as db) = (db', Inr rep)"
  shows "(\<exists>clk. persist_all dir clk 0 (pl_messages (pf_plan p)) (id_archive db) = Inr (id_archive db'))
    \<and> is_created rep + is_updated rep = int (length (pl_messages (pf_plan p)))"
proof -
  have "import_stands dir p (id_archive db) db" using assms(1) by (simp add: import_stands_def)
  from after_attempts_stands [OF this] assms(2)
  have "import_stands dir p (id_archive db) (after_attempts dir p as db)" by simp
  from run_import_stands [OF assms(3) [unfolded attempted_def] this] assms(2)
  show ?thesis by (auto simp: imported_upto_def)
qed

text \<open>
  C7: However often an import of an export fails (on a database error in any batch, or on the file
  system) and is started again, with whatever batch sizes, the run that ends well leaves the archive
  exactly as if each planned message had been stored once, in order, and its report counts every planned
  message once: no message is skipped at an interruption and none is stored twice.
\<close>

theorem import_exactly_once:
  assumes "List.find (of_print (pf_fingerprint p)) (id_runs db) = None"
    and "list_all (\<lambda>a. 0 < im_batch (at_cfg a)) (as @ [a])"
    and "attempted dir p a (after_attempts dir p as db) = (db', Inr rep)"
  shows "(\<exists>clk. persist_all dir clk 0 (pl_messages (pf_plan p)) (id_archive db) = Inr (id_archive db'))
    \<and> is_created rep + is_updated rep = int (length (pl_messages (pf_plan p)))"
  by (rule attempts_import [OF assms])

text \<open>
  C10: After any number of failed attempts, an import of the same export whose media stay inside the
  export's directory and that meets no failure of the database returns a report, whatever batch size
  it uses: a failure leaves nothing behind that blocks the next attempt.
\<close>

theorem import_resumes:
  assumes "List.find (of_print (pf_fingerprint p)) (id_runs db) = None"
    and "list_all (\<lambda>a. 0 < im_batch (at_cfg a)) (as @ [a])"
    and "list_all (media_reachable dir) (pl_messages (pf_plan p))"
    and "rp_chat_id (pl_report (pf_plan p)) = im_target (at_cfg a)" "at_fault a = (\<lambda>_. None)" "at_expected a = None"
  shows "\<exists>db' rep. attempted dir p a (after_attempts dir p as db) = (db', Inr rep)"
proof -
  have "import_stands dir p (id_archive db) db" using assms(1) by (simp add: import_stands_def)
  from after_attempts_stands [OF this] assms(2)
  have "import_stands dir p (id_archive db) (after_attempts dir p as db)" by simp
  from run_import_succeeds [OF this assms(4,3)] assms(2) show ?thesis by (simp add: attempted_def assms(5,6))
qed

definition export_dir_demo :: export_dir where
  "export_dir_demo = \<lparr>ed_root = [u ''export''], ed_locate = (\<lambda>v. Inr [u ''export'', v]), ed_resolve = Inr,
     ed_probe = (\<lambda>_. Regular_file)\<rparr>"

definition imported_demo :: "int \<Rightarrow> imported" where
  "imported_demo i =
     \<lparr>ip_chat_id = - 9, ip_message_id = i, ip_sent_at = utc_at 100, ip_sender_id = Some 7, ip_sender_reference = None,
      ip_sender_name = None, ip_text = u ''Monday'', ip_type = u ''message'', ip_edited_at = None, ip_reply_to = None,
      ip_topic_id = None, ip_media_group_id = None, ip_file_path = None, ip_filename = None, ip_mime_type = None,
      ip_file_size = None, ip_forwarded_from = None\<rparr>"

definition preflight_demo :: preflight where
  "preflight_demo =
     (let s = \<lparr>pg_seen = [], pg_planned = [imported_demo 1, imported_demo 2], pg_failures = [], pg_duplicates = 0\<rparr>
      in \<lparr>pf_fingerprint = u ''sha256:00'',
          pf_plan = \<lparr>pl_messages = pg_planned s, pl_report = plan_report 9 (u ''private_group'') (- 9) 2 s\<rparr>, pf_missing = []\<rparr>)"

definition import_db_demo :: import_db where
  "import_db_demo = \<lparr>id_archive = empty_archive, id_runs = []\<rparr>"

text \<open>Batches of one message; the first attempt fails in its second batch.\<close>

definition attempt_demo :: "(int \<Rightarrow> import_error option) \<Rightarrow> attempt" where
  "attempt_demo fault = \<lparr>at_cfg = \<lparr>im_target = - 9, im_batch = 1\<rparr>, at_started = 1, at_clock = (\<lambda>_. 2), at_ended = 3,
     at_fault = fault, at_expected = None\<rparr>"

definition broken_attempt :: attempt where
  "broken_attempt = attempt_demo (\<lambda>i. if i = 1 then Some (Import_database_error (u ''OperationalError'')) else None)"

definition sound_attempt :: attempt where
  "sound_attempt = attempt_demo (\<lambda>_. None)"

definition second_attempt :: "import_db \<times> (import_error + import_summary)" where
  "second_attempt = attempted export_dir_demo preflight_demo sound_attempt
     (after_attempts export_dir_demo preflight_demo [broken_attempt] import_db_demo)"

lemma demo_import:
  "List.find (of_print (pf_fingerprint preflight_demo)) (id_runs import_db_demo) = None"
  "list_all (\<lambda>a. 0 < im_batch (at_cfg a)) ([broken_attempt] @ [sound_attempt])"
  "list_all (media_reachable export_dir_demo) (pl_messages (pf_plan preflight_demo))"
  "rp_chat_id (pl_report (pf_plan preflight_demo)) = im_target (at_cfg sound_attempt)"
  "at_fault sound_attempt = (\<lambda>_. None)" "at_expected sound_attempt = None"
  by (simp_all add: import_db_demo_def broken_attempt_def sound_attempt_def attempt_demo_def preflight_demo_def Let_def
      media_reachable_def imported_demo_def plan_report_def)

theorem import_resumes_witness: "\<exists>rep. snd second_attempt = Inr rep"
  unfolding second_attempt_def using import_resumes [OF demo_import] by auto

lemma second_attempt_reports: "\<exists>rep. second_attempt = (fst second_attempt, Inr rep)"
proof -
  have "import_stands export_dir_demo preflight_demo empty_archive
      (after_attempts export_dir_demo preflight_demo [broken_attempt] import_db_demo)"
    by (rule after_attempts_stands) (use demo_import(1,2) in \<open>simp_all add: import_stands_def import_db_demo_def\<close>)
  from run_import_succeeds [OF this demo_import(4,3)] demo_import(2)
  have "\<exists>db' rep. second_attempt = (db', Inr rep)" by (simp add: second_attempt_def attempted_def demo_import(5,6))
  then show ?thesis by (metis fst_conv)
qed

theorem import_exactly_once_witness:
  "\<exists>clk. persist_all export_dir_demo clk 0 [imported_demo 1, imported_demo 2] empty_archive
    = Inr (id_archive (fst second_attempt))"
proof -
  obtain rep where "attempted export_dir_demo preflight_demo sound_attempt
     (after_attempts export_dir_demo preflight_demo [broken_attempt] import_db_demo) = (fst second_attempt, Inr rep)"
    using second_attempt_reports unfolding second_attempt_def by blast
  from import_exactly_once [OF demo_import(1,2) this] show ?thesis
    by (simp add: preflight_demo_def import_db_demo_def Let_def)
qed

section \<open>One stored message\<close>

lemma import_user_keeps [archive]:
  assumes "import_user m db = (db', sender, created)"
  shows "ar_messages db' = ar_messages db" "ar_files db' = ar_files db" "ar_documents db' = ar_documents db"
  using assms by (auto simp: import_user_def Let_def split: option.splits)

lemma import_topic_keeps [archive]:
  assumes "import_topic now m db = (db', topic, created)"
  shows "ar_messages db' = ar_messages db" "ar_files db' = ar_files db" "ar_documents db' = ar_documents db"
  using assms by (auto simp: import_topic_def Let_def split: option.splits)

lemma import_group_keeps [archive]:
  assumes "import_group m db = (db', album, created)"
  shows "ar_messages db' = ar_messages db" "ar_files db' = ar_files db" "ar_documents db' = ar_documents db"
  using assms by (auto simp: import_group_def Let_def split: option.splits)

lemma merge_message_keys [simp]:
  "ms_id (merge_message now m sender topic album created r) = ms_id r"
  "ms_chat_id (merge_message now m sender topic album created r) = ms_chat_id r"
  "ms_message_id (merge_message now m sender topic album created r) = ms_message_id r"
  by (simp_all add: merge_message_def Let_def)

lemma imported_row_keys [simp]:
  "ms_id (imported_row now m rows) = next_id ms_id rows"
  "ms_chat_id (imported_row now m rows) = ip_chat_id m"
  "ms_message_id (imported_row now m rows) = ip_message_id m"
  by (simp_all add: imported_row_def)

lemma document_content_of_cong: "ar_documents db = ar_documents db' \<Longrightarrow> document_content_of i db = document_content_of i db'"
  by (simp add: document_content_of_def)

lemma document_keys_cong: "ar_documents db = ar_documents db' \<Longrightarrow> document_keys db = document_keys db'"
  by (simp add: document_keys_def)

text \<open>The row of a planned message before it is merged, and the rows after.\<close>

definition row_before :: "instant \<Rightarrow> imported \<Rightarrow> message_row list \<Rightarrow> message_row" where
  "row_before now m rows = (case List.find (is_planned m) rows of None \<Rightarrow> imported_row now m rows | Some r \<Rightarrow> r)"

definition rows_after :: "imported \<Rightarrow> message_row \<Rightarrow> message_row list \<Rightarrow> message_row list" where
  "rows_after m r rows =
     (case List.find (is_planned m) rows of None \<Rightarrow> rows @ [r] | Some _ \<Rightarrow> upd_where (is_planned m) (\<lambda>_. r) rows)"

lemma persist_message_elim:
  assumes "persist_message dir now m db = Inr (db', res)"
  obtains sender topic album r created where
    "r = merge_message now m sender topic album (List.find (is_planned m) (ar_messages db) = None) (row_before now m (ar_messages db))"
    "ar_messages db' = rows_after m r (ar_messages db)"
    "import_local_file now dir (ms_id r) m (ar_files db) = Inr (ar_files db', created)"
    "\<forall>i. document_content_of i db' = (if i = ms_id r then Some (document_content r (files_of (ms_id r) (ar_files db')))
       else document_content_of i db)"
    "distinct (document_keys db) \<longrightarrow> distinct (document_keys db')"
proof -
  obtain db1 sender a where 1: "import_user m db = (db1, sender, a)" by (metis prod_cases3)
  obtain db2 topic b where 2: "import_topic now m db1 = (db2, topic, b)" by (metis prod_cases3)
  obtain db3 album c where 3: "import_group m db2 = (db3, album, c)" by (metis prod_cases3)
  note kept = import_user_keeps [OF 1] import_topic_keeps [OF 2] import_group_keeps [OF 3]
  let ?none = "List.find (is_planned m) (ar_messages db) = None"
  define r where "r = merge_message now m sender topic album ?none (row_before now m (ar_messages db))"
  let ?dates = "merged_moments m ?none (row_before now m (ar_messages db))"
  define db4 where "db4 = db3\<lparr>ar_messages := rows_after m r (ar_messages db)\<rparr>"
  have "and_then (import_local_file now dir (ms_id r) m (ar_files db)) (\<lambda>(files, new_file).
      Inr (upsert_document now r ?dates (private_supergroup_link (ms_chat_id r) (ms_message_id r)) (db4\<lparr>ar_files := files\<rparr>),
           \<lparr>pr_message = ?none, pr_user = a, pr_topic = b, pr_group = c, pr_file = new_file\<rparr>)) = Inr (db', res)"
    using assms unfolding persist_message_def db4_def r_def row_before_def rows_after_def
    by (simp add: 1 2 3 kept Let_def cong: option.case_cong)
  then obtain files created where f: "import_local_file now dir (ms_id r) m (ar_files db) = Inr (files, created)"
      and db': "db' = upsert_document now r ?dates (private_supergroup_link (ms_chat_id r) (ms_message_id r)) (db4\<lparr>ar_files := files\<rparr>)"
    by (auto simp: py)
  have docs: "ar_documents (db4\<lparr>ar_files := files\<rparr>) = ar_documents db" by (simp add: db4_def kept)
  show thesis
  proof (rule that)
    show "r = merge_message now m sender topic album ?none (row_before now m (ar_messages db))" by (rule r_def)
    show "ar_messages db' = rows_after m r (ar_messages db)" by (simp add: db' db4_def)
    show "import_local_file now dir (ms_id r) m (ar_files db) = Inr (ar_files db', created)" by (simp add: db' f)
    show "\<forall>i. document_content_of i db' = (if i = ms_id r then Some (document_content r (files_of (ms_id r) (ar_files db')))
       else document_content_of i db)"
      using document_content_of_cong [OF docs] by (simp add: db' document_content_upsert)
    show "distinct (document_keys db) \<longrightarrow> distinct (document_keys db')"
      using document_keys_cong [OF docs] unfolding db' by (auto intro!: distinct_document_keys)
  qed
qed

lemma import_local_file_others:
  assumes "import_local_file now dir i m rows = Inr (rows', created)" "i \<noteq> j"
  shows "files_of j rows' = files_of j rows"
  using assms unfolding import_local_file_def files_of_def
  by (auto simp: py Let_def fill_local_file_def split: option.splits if_splits
      intro!: arg_cong [where f = "sort_key fl_id"] filter_upd_where_other)

text \<open>Whichever row a message had, it keeps its place; no other row changes.\<close>

lemma rows_after_other:
  assumes "x \<in> set rows" "\<not> is_planned m x"
  shows "x \<in> set (rows_after m r rows)"
  using assms by (auto simp: rows_after_def set_upd_where split: option.splits)

lemma rows_after_own: "is_planned m r \<Longrightarrow> r \<in> set (rows_after m r rows)"
  by (auto simp: rows_after_def set_upd_where find_None_set image_iff dest!: find_Some_set split: option.splits)

lemma rows_after_set: "x \<in> set (rows_after m r rows) \<Longrightarrow> x = r \<or> x \<in> set rows \<and> \<not> is_planned m x"
  by (auto simp: rows_after_def set_upd_where find_None_set split: option.splits if_splits)

lemma row_before_planned: "is_planned m (row_before now m rows)"
  by (auto simp: row_before_def is_planned_def [of m "imported_row now m rows"] dest!: find_Some_set split: option.splits)

definition row_keys :: "message_row list \<Rightarrow> (int \<times> int) list" where
  "row_keys rows = map (\<lambda>r. (ms_chat_id r, ms_message_id r)) rows"

lemma same_row_key:
  assumes "distinct (row_keys rows)" "x \<in> set rows" "y \<in> set rows" "is_planned m x" "is_planned m y"
  shows "x = y"
proof -
  have "inj_on (\<lambda>r. (ms_chat_id r, ms_message_id r)) (set rows)" using assms(1) by (simp add: row_keys_def distinct_map)
  from inj_onD [OF this, of x y] assms(2-) show ?thesis by (simp add: is_planned_def)
qed

lemma rows_after_maps:
  assumes "distinct (row_keys rows)" "ms_id r = ms_id (row_before now m rows)" "is_planned m r"
  shows "map ms_id (rows_after m r rows) = map ms_id rows @ (if List.find (is_planned m) rows = None then [next_id ms_id rows] else [])"
    and "row_keys (rows_after m r rows) = row_keys rows
      @ (if List.find (is_planned m) rows = None then [(ip_chat_id m, ip_message_id m)] else [])"
proof -
  have keep: "map f (upd_where (is_planned m) (\<lambda>_. r) rows) = map f rows"
    if "List.find (is_planned m) rows = Some y" "f r = f y" for f :: "message_row \<Rightarrow> 'a" and y
  proof -
    have "f x = f r" if "x \<in> set rows" "is_planned m x" for x
      using same_row_key [OF assms(1) that(1) _ that(2)] find_Some_set [OF \<open>List.find _ _ = Some y\<close>] \<open>f r = f y\<close> by metis
    then show ?thesis by (auto simp: upd_where_def)
  qed
  show "map ms_id (rows_after m r rows) = map ms_id rows @ (if List.find (is_planned m) rows = None then [next_id ms_id rows] else [])"
    using assms(2) keep [of _ ms_id] by (auto simp: rows_after_def row_before_def split: option.splits)
  show "row_keys (rows_after m r rows) = row_keys rows
      @ (if List.find (is_planned m) rows = None then [(ip_chat_id m, ip_message_id m)] else [])"
  proof (cases "List.find (is_planned m) rows")
    case None
    then show ?thesis using assms(3) by (simp add: rows_after_def row_keys_def is_planned_def)
  next
    case (Some y)
    then have "is_planned m y" by (auto dest: find_Some_set)
    then show ?thesis using assms(3) Some keep [OF Some, of "\<lambda>r. (ms_chat_id r, ms_message_id r)"]
      by (simp add: rows_after_def row_keys_def is_planned_def)
  qed
qed

section \<open>What a run does to the archive\<close>

text \<open>What one stored message keeps, a run keeps, however it ends.\<close>

lemma persist_batch_keeps:
  assumes "persist_batch dir clk i ms (db, s) = Inr (db', s')" "P db"
    and "\<And>now m db db' r. m \<in> set ms \<Longrightarrow> persist_message dir now m db = Inr (db', r) \<Longrightarrow> P db \<Longrightarrow> P db'"
  shows "P db'"
  using assms
proof (induction ms arbitrary: i db s)
  case (Cons m ms)
  then obtain db1 r s1 where 1: "persist_message dir (clk i) m db = Inr (db1, r)"
      "persist_batch dir clk (i + 1) ms (db1, s1) = Inr (db', s')"
    by (auto simp: py)
  have "P db1" using Cons.prems(3) [OF _ 1(1)] Cons.prems(2) by simp
  then show ?case using Cons.IH [OF 1(2)] Cons.prems(3) by (metis list.set_intros(2))
qed simp

lemma import_batches_keep:
  assumes "import_batches cfg dir plan clk fault run starts db = (db', r)" "P (id_archive db)"
    and "\<And>now m db db' r. m \<in> set (pl_messages plan) \<Longrightarrow> persist_message dir now m db = Inr (db', r) \<Longrightarrow> P db \<Longrightarrow> P db'"
  shows "P (id_archive db')"
  using assms(1,2)
proof (induction starts arbitrary: db)
  case (Cons x xs)
  show ?case
  proof (cases "import_batch cfg dir plan clk fault run x db")
    case (Inr db1)
    define batch where "batch = py_slice x (x + im_batch cfg) (pl_messages plan)"
    have sub: "set batch \<subseteq> set (pl_messages plan)"
      by (auto simp: batch_def py_slice_def dest: in_set_takeD in_set_dropD)
    from Inr obtain stats s1 archive where p: "persist_batch dir clk x batch (id_archive db, stats) = Inr (archive, s1)"
        and db1: "id_archive db1 = archive"
      unfolding import_batch_def batch_def [symmetric] Let_def
      by (auto simp: py update_run_def simp del: u_Cons split: option.splits)
    have "P (id_archive db1)"
      unfolding db1 by (rule persist_batch_keeps [where P = P, OF p Cons.prems(2)]) (use assms(3) sub in blast)
    then show ?thesis using Cons Inr by simp
  qed (use Cons in simp)
qed (use assms in simp)

lemma prepare_run_archive: "prepare_run cfg now print plan missing db = Inr (db', run, resumed, completed) \<Longrightarrow> id_archive db' = id_archive db"
  by (auto simp: prepare_run_def Let_def py update_run_def split: option.splits if_splits)

lemma run_import_keeps:
  assumes "run_import cfg dir started clk ended fault expected p db = (db', r)" "P (id_archive db)"
    and "\<And>now m db db' r. m \<in> set (pl_messages (pf_plan p)) \<Longrightarrow> persist_message dir now m db = Inr (db', r) \<Longrightarrow> P db \<Longrightarrow> P db'"
  shows "P (id_archive db')"
proof (cases rule: run_import_cases [of cfg dir started clk ended fault expected p db])
  case refused
  then show ?thesis using assms by simp
next
  case done_before
  then show ?thesis using assms(1,2) prepare_run_archive by fastforce
next
  case (broken db1 run resumed db2 q e)
  have "P (id_archive db2)"
    by (rule import_batches_keep [where P = P, OF broken(2) _ assms(3)]) (use prepare_run_archive [OF broken(1)] assms(2) in auto)
  then show ?thesis using assms(1) broken(3) by (auto simp: mark_failed_def update_run_def)
next
  case (ended db1 run resumed db2 db3)
  have "P (id_archive db2)"
    by (rule import_batches_keep [where P = P, OF ended(2) _ assms(3)]) (use prepare_run_archive [OF ended(1)] assms(2) in auto)
  then show ?thesis using assms(1) ended(3,4) by (auto simp: complete_run_def update_run_def py split: option.splits)
qed

text \<open>
  \<open>r'\<close> says all that \<open>r\<close> says: the facts the bot recorded itself are the same, and no link or fact that
  was present is changed.
\<close>

definition keeps_facts :: "message_row \<Rightarrow> message_row \<Rightarrow> bool" where
  "keeps_facts r r' \<longleftrightarrow>
     ms_id r' = ms_id r \<and> ms_chat_id r' = ms_chat_id r \<and> ms_message_id r' = ms_message_id r \<and> ms_source r' = ms_source r
     \<and> ms_type r' = ms_type r \<and> ms_entities r' = ms_entities r \<and> ms_sent_at r' = ms_sent_at r \<and> ms_deleted_at r' = ms_deleted_at r
     \<and> (ms_text r \<noteq> None \<or> ms_caption r \<noteq> None \<longrightarrow> ms_text r' = ms_text r \<and> ms_caption r' = ms_caption r)
     \<and> (ms_topic_id r \<noteq> None \<longrightarrow> ms_topic_id r' = ms_topic_id r)
     \<and> (ms_sender_user_id r \<noteq> None \<longrightarrow> ms_sender_user_id r' = ms_sender_user_id r)
     \<and> (ms_media_group_id r \<noteq> None \<longrightarrow> ms_media_group_id r' = ms_media_group_id r)
     \<and> (ms_reply_to r \<noteq> None \<longrightarrow> ms_reply_to r' = ms_reply_to r)
     \<and> (ms_sender_name r \<noteq> None \<longrightarrow> ms_sender_name r' = ms_sender_name r)
     \<and> (ms_forward r \<noteq> None \<longrightarrow> ms_forward r' = ms_forward r)
     \<and> (ms_edited_at r \<noteq> None \<longrightarrow> ms_edited_at r' = ms_edited_at r)"

lemma keeps_facts_refl [simp]: "keeps_facts r r"
  by (simp add: keeps_facts_def)

lemma keeps_facts_trans: "keeps_facts a b \<Longrightarrow> keeps_facts b c \<Longrightarrow> keeps_facts a c"
  unfolding keeps_facts_def by (auto split: if_splits)

lemma merge_keeps_facts:
  "ms_source r \<noteq> telegram_export \<Longrightarrow> keeps_facts r (merge_message now m sender topic album False r)"
  by (auto simp: keeps_facts_def merge_message_def Let_def first_given_def split: option.splits)

lemma persist_keeps_live:
  assumes "persist_message dir now m db = Inr (db', res)" "distinct (row_keys (ar_messages db))"
    and "r \<in> set (ar_messages db)" "ms_source r \<noteq> telegram_export"
  shows "\<exists>r' \<in> set (ar_messages db'). keeps_facts r r'" and "distinct (row_keys (ar_messages db'))"
proof -
  from assms(1) obtain sender topic album x where
      x: "x = merge_message now m sender topic album (List.find (is_planned m) (ar_messages db) = None) (row_before now m (ar_messages db))"
      and rows: "ar_messages db' = rows_after m x (ar_messages db)"
    by (rule persist_message_elim)
  have own: "is_planned m x"
    using row_before_planned [of m now "ar_messages db"] by (simp add: x is_planned_def)
  show "distinct (row_keys (ar_messages db'))"
    unfolding rows using rows_after_maps(2) [OF assms(2), of x now m] assms(2) own
    by (auto simp: x find_None_set row_keys_def is_planned_def)
  show "\<exists>r' \<in> set (ar_messages db'). keeps_facts r r'"
  proof (cases "is_planned m r")
    case False
    then show ?thesis using rows_after_other [OF assms(3)] unfolding rows by (metis keeps_facts_refl)
  next
    case True
    then obtain y where y: "List.find (is_planned m) (ar_messages db) = Some y"
      using assms(3) by (cases "List.find (is_planned m) (ar_messages db)") (auto simp: find_None_set)
    then have "y = r" using same_row_key [OF assms(2) _ assms(3) _ True] by (auto dest: find_Some_set)
    then have "keeps_facts r x" using y assms(4) merge_keeps_facts by (simp add: x row_before_def)
    then show ?thesis using rows_after_own [OF own] unfolding rows by blast
  qed
qed

text \<open>
  C8: Importing an old export never overwrites what the bot archived itself: whatever the export says
  and however the import ends, each message that came from the Bot API keeps its text, caption, type,
  entities, times, sender, topic, album, reply and forward; only facts it lacked are added.
\<close>

theorem import_keeps_live_messages:
  assumes "run_import cfg dir started clk ended fault expected p db = (db', res)"
    and "distinct (row_keys (ar_messages (id_archive db)))"
    and "r \<in> set (ar_messages (id_archive db))" "ms_source r \<noteq> telegram_export"
  shows "\<exists>r' \<in> set (ar_messages (id_archive db')). keeps_facts r r'"
proof -
  have "distinct (row_keys (ar_messages (id_archive db'))) \<and> (\<exists>r' \<in> set (ar_messages (id_archive db')). keeps_facts r r')"
  proof (rule run_import_keeps [OF assms(1), where P = "\<lambda>a. distinct (row_keys (ar_messages a))
      \<and> (\<exists>r' \<in> set (ar_messages a). keeps_facts r r')"])
    show "distinct (row_keys (ar_messages (id_archive db))) \<and> (\<exists>r' \<in> set (ar_messages (id_archive db)). keeps_facts r r')"
      using assms(2,3) keeps_facts_refl by blast
  next
    fix now m a a' x
    assume p: "persist_message dir now m a = Inr (a', x)"
      and a: "distinct (row_keys (ar_messages a)) \<and> (\<exists>r' \<in> set (ar_messages a). keeps_facts r r')"
    then obtain r1 where r1: "r1 \<in> set (ar_messages a)" "keeps_facts r r1" by blast
    then have "ms_source r1 \<noteq> telegram_export" using assms(4) by (simp add: keeps_facts_def)
    from persist_keeps_live [OF p _ r1(1) this] a r1(2)
    show "distinct (row_keys (ar_messages a')) \<and> (\<exists>r' \<in> set (ar_messages a'). keeps_facts r r')"
      using keeps_facts_trans by blast
  qed
  then show ?thesis by blast
qed

definition live_row_demo :: message_row where
  "live_row_demo =
     \<lparr>ms_id = 4, ms_chat_id = - 9, ms_message_id = 1, ms_topic_id = None, ms_sender_user_id = Some 2, ms_media_group_id = None,
      ms_reply_to = None, ms_source = u ''bot_api'', ms_type = u ''text'', ms_sender_name = None, ms_forward = None,
      ms_text = Some (u ''Tuesday''), ms_caption = None, ms_entities = None, ms_sent_at = 100, ms_edited_at = Some 160,
      ms_deleted_at = None, ms_ingested_at = 170\<rparr>"

definition live_db_demo :: import_db where
  "live_db_demo = \<lparr>id_archive = empty_archive\<lparr>ar_messages := [live_row_demo]\<rparr>, id_runs = []\<rparr>"

theorem import_keeps_live_messages_witness:
  "\<exists>r \<in> set (ar_messages (id_archive (fst (run_import (at_cfg sound_attempt) export_dir_demo 1 (\<lambda>_. 2) 3 (\<lambda>_. None) None
     preflight_demo live_db_demo)))). ms_text r = Some (u ''Tuesday'') \<and> ms_edited_at r = Some 160"
proof -
  obtain db' res where run: "run_import (at_cfg sound_attempt) export_dir_demo 1 (\<lambda>_. 2) 3 (\<lambda>_. None) None
      preflight_demo live_db_demo = (db', res)" by fastforce
  have "\<exists>r' \<in> set (ar_messages (id_archive db')). keeps_facts live_row_demo r'"
    by (rule import_keeps_live_messages [OF run]) (simp_all add: live_db_demo_def live_row_demo_def row_keys_def telegram_export_def)
  then show ?thesis by (auto simp: run keeps_facts_def live_row_demo_def simp del: u_Cons)
qed

end
