(* ===== verification/ImportReconciliation.thy ===== *)
theory ImportReconciliation
  imports ArchiveImportProperties
begin

text \<open>
  The archive after an import: it keeps the archive's invariant, stores every planned message fully, and
  so passes the reconciliation that the program runs over it.
\<close>

section \<open>The archive stays in order\<close>

lemma persist_ok:
  assumes "persist_message dir now m db = Inr (db', res)" "archive_ok db"
  shows "archive_ok db'"
proof -
  let ?rows = "ar_messages db"
  from assms(1) obtain sender topic album r created where
      r: "r = merge_message now m sender topic album (List.find (is_planned m) ?rows = None) (row_before now m ?rows)"
      and rows: "ar_messages db' = rows_after m r ?rows"
      and files: "import_local_file now dir (ms_id r) m (ar_files db) = Inr (ar_files db', created)"
      and docs: "\<forall>i. document_content_of i db' = (if i = ms_id r then Some (document_content r (files_of (ms_id r) (ar_files db')))
       else document_content_of i db)"
      and keys: "distinct (document_keys db) \<longrightarrow> distinct (document_keys db')"
    by (rule persist_message_elim)
  from assms(2) have ok: "distinct (map ms_id ?rows)" "distinct (row_keys ?rows)" "distinct (document_keys db)"
      "\<And>x. x \<in> set ?rows \<Longrightarrow> document_content_of (ms_id x) db = Some (document_content x (files_of (ms_id x) (ar_files db)))"
    by (auto simp: archive_ok_def row_keys_def list_all_iff)
  have own: "is_planned m r" using row_before_planned [of m now ?rows] by (simp add: r is_planned_def)
  have same_id: "ms_id r = ms_id (row_before now m ?rows)" by (simp add: r)
  note maps = rows_after_maps [OF ok(2) same_id own]
  have "next_id ms_id ?rows \<notin> ms_id ` set ?rows" by simp
  then have ids: "distinct (map ms_id (rows_after m r ?rows))" using ok(1) unfolding maps(1) by (cases "List.find (is_planned m) ?rows") (simp_all del: next_id_fresh)
  have row_keys: "distinct (row_keys (rows_after m r ?rows))"
    unfolding maps(2) using ok(2) by (auto simp: find_None_set row_keys_def is_planned_def)
  have "document_content_of (ms_id x) db' = Some (document_content x (files_of (ms_id x) (ar_files db')))"
    if x: "x \<in> set (rows_after m r ?rows)" for x
  proof (cases "x = r")
    case True
    then show ?thesis by (simp add: docs)
  next
    case False
    then have old: "x \<in> set ?rows" using rows_after_set [OF x] by simp
    have "inj_on ms_id (set (rows_after m r ?rows))" using ids by (simp add: distinct_map)
    then have "ms_id x \<noteq> ms_id r" using False x rows_after_own [OF own] by (auto dest: inj_onD)
    then show ?thesis using ok(4) [OF old] import_local_file_others [OF files, of "ms_id x"] by (simp add: docs)
  qed
  then show ?thesis using ids row_keys keys ok(3) by (simp add: archive_ok_def rows row_keys_def list_all_iff)
qed

section \<open>Reconciliation\<close>

text \<open>What the reconciliation looks for of one planned message.\<close>

definition stored_fully :: "archive_db \<Rightarrow> imported \<Rightarrow> bool" where
  "stored_fully db m \<longleftrightarrow>
     (\<exists>r \<in> set (ar_messages db). is_planned m r \<and> (ip_reply_to m \<noteq> None \<longrightarrow> ms_reply_to r = ip_reply_to m)
       \<and> document_content_of (ms_id r) db \<noteq> None
       \<and> (ip_file_path m \<noteq> None \<longrightarrow> ms_id r \<in> fl_message_id ` set (ar_files db)))"

lemma import_local_file_set:
  assumes "import_local_file now dir i m rows = Inr (rows', created)"
  shows "fl_message_id ` set rows' = fl_message_id ` set rows \<union> (if ip_file_path m = None then {} else {i})"
proof (cases "ip_file_path m")
  case None
  then show ?thesis using assms by (simp add: import_local_file_def)
next
  case (Some p)
  then obtain rel where "relative_export_path dir p = Inr rel" using assms by (auto simp: import_local_file_def py)
  moreover have "fl_message_id ` set (upd_where P (fill_local_file m rel) rows) = fl_message_id ` set rows" for P
    by (rule image_set_map [OF map_upd_where]) (simp add: fill_local_file_def)
  ultimately show ?thesis using assms Some
    by (auto simp: import_local_file_def Let_def fill_local_file_def list_ex_iff split: if_splits)
qed

lemma merge_replaces:
  assumes "created \<or> ms_source r = telegram_export"
  shows "ms_reply_to (merge_message now m sender topic album created r) = ip_reply_to m"
    and "ms_source (merge_message now m sender topic album created r) = telegram_export"
  using assms by (auto simp: merge_message_def Let_def)

text \<open>Storing a message stores it fully, and what was stored fully before stays so.\<close>

lemma persist_stores:
  assumes "persist_message dir now m db = Inr (db', res)" "archive_ok db"
    and "\<And>r. r \<in> set (ar_messages db) \<Longrightarrow> is_planned m r \<Longrightarrow> ms_source r = telegram_export"
  shows "stored_fully db' m" and "\<And>x. stored_fully db x \<Longrightarrow> unique_key x \<noteq> unique_key m \<Longrightarrow> stored_fully db' x"
    and "\<And>r. r \<in> set (ar_messages db') \<Longrightarrow> r \<in> set (ar_messages db) \<or> ms_source r = telegram_export"
proof -
  let ?rows = "ar_messages db"
  from assms(1) obtain sender topic album r created where
      r: "r = merge_message now m sender topic album (List.find (is_planned m) ?rows = None) (row_before now m ?rows)"
      and rows: "ar_messages db' = rows_after m r ?rows"
      and files: "import_local_file now dir (ms_id r) m (ar_files db) = Inr (ar_files db', created)"
      and docs: "\<forall>i. document_content_of i db' = (if i = ms_id r then Some (document_content r (files_of (ms_id r) (ar_files db')))
       else document_content_of i db)"
    by (rule persist_message_elim)
  have own: "is_planned m r" using row_before_planned [of m now ?rows] by (simp add: r is_planned_def)
  have "List.find (is_planned m) ?rows = None \<or> ms_source (row_before now m ?rows) = telegram_export"
    using assms(3) by (cases "List.find (is_planned m) ?rows") (auto simp: row_before_def dest: find_Some_set)
  note merged = merge_replaces [OF this, of now m sender topic album, folded r]
  note f = import_local_file_set [OF files]
  show "stored_fully db' m"
    unfolding stored_fully_def rows
    by (rule bexI [OF _ rows_after_own [OF own]]) (use own merged f docs in simp)
  show "stored_fully db' x" if x: "stored_fully db x" "unique_key x \<noteq> unique_key m" for x
  proof -
    obtain y where y: "y \<in> set ?rows" "is_planned x y" "ip_reply_to x \<noteq> None \<longrightarrow> ms_reply_to y = ip_reply_to x"
        "document_content_of (ms_id y) db \<noteq> None" "ip_file_path x \<noteq> None \<longrightarrow> ms_id y \<in> fl_message_id ` set (ar_files db)"
      using x(1) by (auto simp: stored_fully_def)
    then have "\<not> is_planned m y" using x(2) by (auto simp: is_planned_def unique_key_def)
    from rows_after_other [OF y(1) this] show ?thesis
      unfolding stored_fully_def rows using y(2-5) docs f by (intro bexI) auto
  qed
  show "z \<in> set ?rows \<or> ms_source z = telegram_export" if "z \<in> set (ar_messages db')" for z
    using rows_after_set [of z m r ?rows] that merged(2) by (auto simp: rows)
qed

lemma persist_all_stores:
  assumes "persist_all dir clk i ms db = Inr db'" "archive_ok db" "distinct (map unique_key (done @ ms))"
    and "\<And>r m. r \<in> set (ar_messages db) \<Longrightarrow> m \<in> set ms \<Longrightarrow> is_planned m r \<Longrightarrow> ms_source r = telegram_export"
    and "list_all (stored_fully db) done"
  shows "archive_ok db' \<and> list_all (stored_fully db') (done @ ms)"
  using assms
proof (induction ms arbitrary: i db "done")
  case (Cons m ms)
  obtain db1 r where 1: "persist_message dir (clk i) m db = Inr (db1, r)" "persist_all dir clk (i + 1) ms db1 = Inr db'"
    using Cons.prems(1) by (auto simp: py)
  note stores = persist_stores [OF 1(1) Cons.prems(2)]
  have replaced: "\<And>r. r \<in> set (ar_messages db) \<Longrightarrow> is_planned m r \<Longrightarrow> ms_source r = telegram_export"
    using Cons.prems(4) by (meson list.set_intros(1))
  have "archive_ok db1" by (rule persist_ok [OF 1(1) Cons.prems(2)])
  moreover have "stored_fully db1 x" if "x \<in> set done" for x
  proof (rule stores(2) [OF replaced])
    show "stored_fully db x" using Cons.prems(5) that by (simp add: list_all_iff)
    show "unique_key x \<noteq> unique_key m"
      using Cons.prems(3) imageI [OF that, of unique_key] by auto
  qed
  then have "list_all (stored_fully db1) (done @ [m])"
    using stores(1) [OF replaced] by (simp add: list_all_iff)
  moreover have "ms_source x = telegram_export" if "x \<in> set (ar_messages db1)" "y \<in> set ms" "is_planned y x" for x y
    using stores(3) [OF replaced that(1)] Cons.prems(4) [of x y] that(2,3) by auto
  ultimately show ?case using Cons.IH [OF 1(2), of "done @ [m]"] Cons.prems(3) by simp
qed simp

lemma update_new: "k \<notin> fst ` set d \<Longrightarrow> AList.update k v d = d @ [(k, v)]"
  by (induction d) auto

lemma filled_snoc: "filled_dict (kvs @ [kv]) = AList.update (fst kv) (snd kv) (filled_dict kvs)"
  by (cases kv) (simp add: filled_dict_def)

lemma filled_distinct:
  "distinct (map fst kvs) \<Longrightarrow> filled_dict kvs = kvs"
proof (induction kvs rule: rev_induct)
  case (snoc kv kvs)
  then show ?case by (simp add: filled_snoc update_new)
qed (simp add: filled_dict_def)

lemma filled_keys: "distinct (map fst (filled_dict kvs)) \<and> fst ` set (filled_dict kvs) = fst ` set kvs \<and> set (filled_dict kvs) \<subseteq> set kvs"
proof (induction kvs rule: rev_induct)
  case (snoc kv kvs)
  have "set (AList.update k v d) \<subseteq> insert (k, v) (set d)" for k v and d :: "('a \<times> 'b) list"
    by (induction d) auto
  then have "set (filled_dict (kvs @ [kv])) \<subseteq> set (kvs @ [kv])"
    using snoc unfolding filled_snoc by (metis Un_insert_right empty_set insert_mono list.simps(15) prod.collapse
        set_append subset_trans sup_bot_right)
  then show ?case using snoc by (simp add: filled_snoc distinct_update dom_update)
qed (simp add: filled_dict_def)

lemma filled_set:
  assumes "\<And>k v w. (k, v) \<in> set kvs \<Longrightarrow> (k, w) \<in> set kvs \<Longrightarrow> v = w"
  shows "set (filled_dict kvs) = set kvs"
proof -
  have "(k, v) \<in> set (filled_dict kvs)" if kv: "(k, v) \<in> set kvs" for k v
  proof -
    have "k \<in> fst ` set (filled_dict kvs)" using filled_keys [of kvs] kv by force
    then obtain w where w: "(k, w) \<in> set (filled_dict kvs)" by auto
    then have "(k, w) \<in> set kvs" using filled_keys [of kvs] by blast
    then show ?thesis using assms [OF kv] w by simp
  qed
  then show ?thesis using filled_keys [of kvs] by auto
qed

lemma set_chunks: "0 < n \<Longrightarrow> (\<Union>c \<in> set (chunks n xs). set c) = set xs"
proof (induction n xs rule: chunks.induct)
  case (1 n xs)
  show ?case
  proof (cases "xs = []")
    case False
    then have "(\<Union>c \<in> set (chunks n xs). set c) = set (take n xs) \<union> set (drop n xs)"
      using 1 by (subst chunks.simps) simp
    then show ?thesis by (metis append_take_drop_id set_append)
  qed (simp add: chunks.simps)
qed

lemma set_archived_rows:
  assumes "distinct (row_keys rows)"
  shows "set (archived_rows chat ids rows)
      = (\<lambda>r. (ms_message_id r, ms_id r, ms_reply_to r)) ` {r \<in> set rows. ms_chat_id r = chat \<and> ms_message_id r \<in> set ids}"
    and "distinct (map fst (archived_rows chat ids rows))"
proof -
  define kvs where "kvs = concat (map (\<lambda>chunk. map (\<lambda>r. (ms_message_id r, ms_id r, ms_reply_to r))
       (filter (\<lambda>r. ms_chat_id r = chat \<and> ms_message_id r \<in> set chunk) rows)) (chunks 400 ids))"
  have kvs: "set kvs = (\<lambda>r. (ms_message_id r, ms_id r, ms_reply_to r)) ` {r \<in> set rows. ms_chat_id r = chat \<and> ms_message_id r \<in> set ids}"
    unfolding set_chunks [of 400 ids, symmetric, simplified] by (auto simp: kvs_def)
  have "inj_on (\<lambda>r. (ms_chat_id r, ms_message_id r)) (set rows)" using assms by (simp add: row_keys_def distinct_map)
  then have "v = w" if "(k, v) \<in> set kvs" "(k, w) \<in> set kvs" for k v w
    using that unfolding kvs by (auto dest: inj_onD)
  then have "set (filled_dict kvs) = set kvs" by (rule filled_set)
  then show "set (archived_rows chat ids rows)
      = (\<lambda>r. (ms_message_id r, ms_id r, ms_reply_to r)) ` {r \<in> set rows. ms_chat_id r = chat \<and> ms_message_id r \<in> set ids}"
    by (simp only: archived_rows_def kvs_def [symmetric] kvs)
  show "distinct (map fst (archived_rows chat ids rows))"
    using filled_keys [of kvs] by (simp add: archived_rows_def kvs_def [symmetric])
qed

lemma distinct_length_remdups: "length (remdups xs) = card (set xs)"
  by (simp add: length_remdups_card_conv)

lemma documents_of:
  "document_content_of i db \<noteq> None \<longleftrightarrow> (\<exists>d \<in> set (ar_documents db). sd_source_type d = u ''message'' \<and> sd_source_id d = i)"
  by (auto simp: document_content_of_def find_None_set is_document_of_def simp del: u_Cons dest: find_Some_set)

lemma set_map_filter: "set (List.map_filter f xs) = {y. \<exists>x \<in> set xs. f x = Some y}"
  by (induction xs) (auto simp: List.map_filter_simps split: option.splits)

lemma reconcile_complete:
  fixes p :: preflight and ms :: "imported list" defines "ms \<equiv> pl_messages (pf_plan p)"
  assumes keys: "distinct (map unique_key ms)" and chat: "\<And>m. m \<in> set ms \<Longrightarrow> ip_chat_id m = rp_chat_id (pl_report (pf_plan p))"
    and ok: "archive_ok db" and stored: "list_all (stored_fully db) ms"
  shows "rc_complete (reconcile_import p db)"
proof -
  define rows where "rows = ar_messages db"
  have rk: "distinct (row_keys rows)" and ids: "inj_on ms_id (set rows)"
    using ok by (simp_all add: archive_ok_def rows_def row_keys_def distinct_map)
  from stored obtain R where R: "m \<in> set ms \<Longrightarrow> R m \<in> set rows \<and> is_planned m (R m)
      \<and> (ip_reply_to m \<noteq> None \<longrightarrow> ms_reply_to (R m) = ip_reply_to m) \<and> document_content_of (ms_id (R m)) db \<noteq> None
      \<and> (ip_file_path m \<noteq> None \<longrightarrow> ms_id (R m) \<in> fl_message_id ` set (ar_files db))" for m
    unfolding list_all_iff stored_fully_def rows_def by metis
  have inj: "inj_on ip_message_id (set ms)" and dist: "distinct ms"
    using keys chat by (auto simp: distinct_map inj_on_def unique_key_def)
  have injR: "inj_on (\<lambda>m. ms_id (R m)) (set ms)"
  proof (rule inj_onI)
    fix x y assume "x \<in> set ms" "y \<in> set ms" "ms_id (R x) = ms_id (R y)"
    then show "x = y" using R [of x] R [of y] inj_onD [OF ids, of "R x" "R y"] inj_onD [OF inj, of x y]
      by (auto simp: is_planned_def)
  qed
  define planned where "planned = map (\<lambda>m. (ip_message_id m, m)) ms"
  have planned: "filled_dict (map (\<lambda>m. (ip_message_id m, m)) ms) = planned"
    unfolding planned_def by (rule filled_distinct) (use inj dist in \<open>simp add: distinct_map comp_def\<close>)
  define D where "D = archived_rows (rp_chat_id (pl_report (pf_plan p))) (map fst planned) rows"
  have "{r \<in> set rows. ms_chat_id r = rp_chat_id (pl_report (pf_plan p)) \<and> ms_message_id r \<in> set (map fst planned)} = R ` set ms"
  proof (rule equalityI; rule subsetI)
    fix r assume "r \<in> {r \<in> set rows. ms_chat_id r = rp_chat_id (pl_report (pf_plan p)) \<and> ms_message_id r \<in> set (map fst planned)}"
    then obtain m where m: "m \<in> set ms" "r \<in> set rows" "is_planned m r"
      using chat by (auto simp: planned_def is_planned_def)
    then have "r = R m" using same_row_key [OF rk m(2) _ m(3)] R [OF m(1)] by blast
    then show "r \<in> R ` set ms" using m(1) by simp
  next
    fix r assume "r \<in> R ` set ms"
    then show "r \<in> {r \<in> set rows. ms_chat_id r = rp_chat_id (pl_report (pf_plan p)) \<and> ms_message_id r \<in> set (map fst planned)}"
      using R chat by (auto simp: planned_def is_planned_def)
  qed
  then have setD: "set D = (\<lambda>m. (ms_message_id (R m), ms_id (R m), ms_reply_to (R m))) ` set ms"
      and distD: "distinct (map fst D)"
    using set_archived_rows [OF rk] unfolding D_def by (auto simp: image_image)
  have at: "map_of D (ip_message_id m) = Some (ms_id (R m), ms_reply_to (R m))" if "m \<in> set ms" for m
  proof (rule map_of_is_SomeI [OF distD])
    have "ms_message_id (R m) = ip_message_id m" using R [OF that] by (simp add: is_planned_def)
    then show "(ip_message_id m, ms_id (R m), ms_reply_to (R m)) \<in> set D" using that unfolding setD by force
  qed
  have "fst ` set D = ip_message_id ` set ms" unfolding setD using R by (force simp: is_planned_def)
  then have lenD: "length D = length ms"
    using distinct_card [OF distD] card_image [OF inj] distinct_card [OF dist] by simp
  define parts where "parts = chunks 400 (map (fst \<circ> snd) D)"
  have inner: "(\<Union>c \<in> set parts. set c) = (\<lambda>m. ms_id (R m)) ` set ms"
    unfolding parts_def by (subst set_chunks) (auto simp: setD image_image)
  define indexed where "indexed = concat (map (\<lambda>chunk. map sd_source_id
      (filter (\<lambda>d. sd_source_type d = u ''message'' \<and> sd_source_id d \<in> set chunk) (ar_documents db))) parts)"
  have "set indexed = {i \<in> (\<Union>c \<in> set parts. set c). document_content_of i db \<noteq> None}"
    unfolding documents_of indexed_def by (auto simp del: u_Cons)
  then have "set indexed = (\<lambda>m. ms_id (R m)) ` set ms" unfolding inner using R by auto
  then have documents: "length (remdups indexed) = length ms"
    using card_image [OF injR] distinct_card [OF dist] by (simp add: distinct_length_remdups)
  define with_file where "with_file = concat (map (\<lambda>chunk. map fl_message_id
      (filter (\<lambda>f. fl_message_id f \<in> set chunk) (ar_files db))) parts)"
  have "set with_file = (\<Union>c \<in> set parts. set c) \<inter> fl_message_id ` set (ar_files db)"
    by (auto simp: with_file_def)
  then have with_file: "set with_file = (\<lambda>m. ms_id (R m)) ` set ms \<inter> fl_message_id ` set (ar_files db)" unfolding inner .
  define expected where "expected = List.map_filter (\<lambda>(i, m). if ip_file_path m = None then None
      else map_option fst (map_of D i)) planned"
  define filed where "filed = filter (\<lambda>m. ip_file_path m \<noteq> None) ms"
  have expected: "set expected = (\<lambda>m. ms_id (R m)) ` set filed"
    unfolding expected_def set_map_filter planned_def filed_def using at by (auto simp: image_iff)
  have sub: "set filed \<subseteq> set ms" by (auto simp: filed_def)
  have "set expected \<subseteq> set with_file" unfolding expected with_file using R by (auto simp: filed_def)
  then have "filter (\<lambda>i. i \<in> set with_file) (remdups expected) = remdups expected" by (auto simp: filter_id_conv)
  moreover have "length (remdups expected) = length filed"
    using card_image [OF inj_on_subset [OF injR sub]] distinct_card [of filed] dist
    by (simp add: distinct_length_remdups expected filed_def)
  ultimately have files: "length (filter (\<lambda>i. i \<in> set with_file) (remdups expected)) = length filed" by simp
  define replies where "replies = List.map_filter (\<lambda>(i, m). case (ip_reply_to m, map_of D i) of
      (Some to, Some (_, stored)) \<Rightarrow> Some (stored, to) | _ \<Rightarrow> None) planned"
  have "filter (\<lambda>(stored, to). stored \<noteq> Some to) replies = []"
    unfolding filter_empty_conv replies_def set_map_filter planned_def
    using R at by (fastforce split: option.splits)
  moreover have "reconcile_import p db = \<lparr>rc_planned = length planned, rc_archived = length D, rc_documents = length (remdups indexed),
      rc_files_expected = length (filter (\<lambda>(_, m). ip_file_path m \<noteq> None) planned),
      rc_files = length (filter (\<lambda>i. i \<in> set with_file) (remdups expected)), rc_replies = length replies,
      rc_reply_mismatches = length (filter (\<lambda>(stored, to). stored \<noteq> Some to) replies)\<rparr>"
    unfolding reconcile_import_def Let_def ms_def [symmetric] planned rows_def [symmetric] D_def [symmetric]
      parts_def [symmetric] indexed_def [symmetric] with_file_def [symmetric] expected_def [symmetric] replies_def [symmetric] ..
  moreover have "length (filter (\<lambda>(_, m). ip_file_path m \<noteq> None) planned) = length filed"
    by (simp add: planned_def filed_def filter_map comp_def)
  ultimately show ?thesis using lenD documents files by (simp add: rc_complete_def planned_def)
qed

section \<open>The plan\<close>

lemma parse_message_chat: "parse_message dir chat raw = Inr m \<Longrightarrow> ip_chat_id m = chat"
  by (auto simp: parse_message_def new_imported_def Let_def py)

lemma plan_message_ok:
  assumes "distinct (map unique_key (pg_planned s))" "unique_key ` set (pg_planned s) \<subseteq> set (pg_seen s)"
    and "\<forall>m \<in> set (pg_planned s). ip_chat_id m = chat"
  shows "distinct (map unique_key (pg_planned (plan_message dir chat j s)))
    \<and> unique_key ` set (pg_planned (plan_message dir chat j s)) \<subseteq> set (pg_seen (plan_message dir chat j s))
    \<and> (\<forall>m \<in> set (pg_planned (plan_message dir chat j s)). ip_chat_id m = chat)"
  using assms
  by (auto simp: plan_message_def dest: parse_message_chat split: json.splits sum.splits)

lemma plan_import_ok:
  assumes "plan_import dir existing data = Inr plan"
  shows "distinct (map unique_key (pl_messages plan))"
    and "m \<in> set (pl_messages plan) \<Longrightarrow> ip_chat_id m = rp_chat_id (pl_report plan)"
proof -
  have fold: "distinct (map unique_key (pg_planned s')) \<and> unique_key ` set (pg_planned s') \<subseteq> set (pg_seen s')
      \<and> (\<forall>m \<in> set (pg_planned s'). ip_chat_id m = chat)"
    if "s' = foldl (\<lambda>s j. plan_message dir chat j s) s raws" "distinct (map unique_key (pg_planned s))"
      "unique_key ` set (pg_planned s) \<subseteq> set (pg_seen s)" "\<forall>m \<in> set (pg_planned s). ip_chat_id m = chat" for s' s chat raws
    using that
  proof (induction raws arbitrary: s)
    case (Cons j raws)
    show ?case by (rule Cons.IH [of "plan_message dir chat j s"]) (use Cons.prems plan_message_ok [OF Cons.prems(2-4), of dir j] in auto)
  qed simp
  from assms obtain chat raw_chat kind raws s where
      s: "s = foldl (\<lambda>s j. plan_message dir chat j s) \<lparr>pg_seen = existing, pg_planned = [], pg_failures = [], pg_duplicates = 0\<rparr> raws"
      and plan: "plan = \<lparr>pl_messages = pg_planned s, pl_report = plan_report raw_chat kind chat (length raws) s\<rparr>"
    by (cases "jget data (u ''messages'')") (auto simp: plan_import_def py Let_def simp del: u_Cons)
  note all = fold [OF s, simplified]
  show "distinct (map unique_key (pl_messages plan))" using all by (simp add: plan)
  show "m \<in> set (pl_messages plan) \<Longrightarrow> ip_chat_id m = rp_chat_id (pl_report plan)"
    using all by (simp add: plan plan_report_def Let_def)
qed

lemma inspect_export_plan:
  assumes "inspect_export decode dir bytes = Inr p"
  shows "\<exists>data. plan_import dir [] data = Inr (pf_plan p)"
  using assms by (auto simp: inspect_export_def as_value_error_def py split: sum.splits)

text \<open>
  C9: An import that ends well, after any interruptions, passes its own reconciliation: every planned
  message has its row and its search document, every planned file its file row, and every reply points
  where the export says, provided that no message of the plan was archived by the bot itself before.
\<close>

theorem import_reconciles:
  assumes "inspect_export decode dir bytes = Inr p" "archive_ok (id_archive db)"
    and "List.find (of_print (pf_fingerprint p)) (id_runs db) = None"
    and "list_all (\<lambda>a. 0 < im_batch (at_cfg a)) (as @ [a])"
    and "attempted dir p a (after_attempts dir p as db) = (db', Inr rep)"
    and "list_all (\<lambda>r. ms_source r = telegram_export \<or> \<not> list_ex (\<lambda>m. is_planned m r) (pl_messages (pf_plan p)))
      (ar_messages (id_archive db))"
  shows "rc_complete (reconcile_import p (id_archive db'))"
proof -
  from inspect_export_plan [OF assms(1)] obtain data where plan: "plan_import dir [] data = Inr (pf_plan p)" ..
  obtain clk where all: "persist_all dir clk 0 (pl_messages (pf_plan p)) (id_archive db) = Inr (id_archive db')"
    using attempts_import [OF assms(3-5)] by blast
  have "archive_ok (id_archive db') \<and> list_all (stored_fully (id_archive db')) ([] @ pl_messages (pf_plan p))"
    by (rule persist_all_stores [OF all assms(2)])
      (use plan_import_ok(1) [OF plan] assms(6) in \<open>auto simp: list_all_iff list_ex_iff\<close>)
  then show ?thesis
    using reconcile_complete [OF plan_import_ok(1) [OF plan] plan_import_ok(2) [OF plan]] by simp
qed

definition export_demo :: "(pystr \<times> json) list" where
  "export_demo =
     [(u ''id'', JInt 9), (u ''type'', JStr (u ''private_group'')),
      (u ''messages'', JArr [JObj [(u ''id'', JInt 1), (u ''date_unixtime'', JInt 100)], JNull])]"

lemma export_demo_plan:
  "\<exists>plan. plan_import export_dir_demo [] export_demo = Inr plan \<and> rp_chat_id (pl_report plan) = - 9
     \<and> map ip_message_id (pl_messages plan) = [1] \<and> list_all (\<lambda>m. ip_file_path m = None) (pl_messages plan)"
  by (simp add: plan_import_def export_demo_def jget_def required_def export_int_def export_str_def given_def
      normalize_chat_id_def channel_dialog_types_def plan_message_def parse_message_def read_sent_at_def no_value_def
      or_raise_def from_timestamp_def utc_at_def dt_date_def is_date_def max_date_def epoch_ordinal_def durations
      media_path_def json_or_def json_true_def read_edited_at_def new_imported_def aware_def unique_key_def plan_report_def Let_def)

theorem import_reconciles_witness:
  "\<exists>p rep db'. inspect_export (\<lambda>_. Inr (JObj export_demo)) export_dir_demo [] = Inr p
     \<and> attempted export_dir_demo p sound_attempt (after_attempts export_dir_demo p [broken_attempt] import_db_demo) = (db', Inr rep)
     \<and> rc_complete (reconcile_import p (id_archive db'))"
proof -
  obtain plan where plan: "plan_import export_dir_demo [] export_demo = Inr plan" "rp_chat_id (pl_report plan) = - 9"
      "list_all (\<lambda>m. ip_file_path m = None) (pl_messages plan)"
    using export_demo_plan by blast
  have "collect (map (media_state export_dir_demo) ms) = Inr (map (\<lambda>_. None) ms)" if "list_all (\<lambda>m. ip_file_path m = None) ms" for ms
    using that by (induction ms) (auto simp: media_state_def)
  moreover have "\<exists>print. export_fingerprint (1024 * 1024) [] = Inr print"
    by (simp add: export_fingerprint_def del: sha_blocks.simps)
  ultimately obtain p where p: "inspect_export (\<lambda>_. Inr (JObj export_demo)) export_dir_demo [] = Inr p" "pf_plan p = plan"
    using plan(1,3) by (auto simp: inspect_export_def load_export_def as_value_error_def max_export_bytes_def)
  have reach: "list_all (media_reachable export_dir_demo) (pl_messages (pf_plan p))"
    using plan(3) by (simp add: p(2) list_all_iff media_reachable_def)
  have new: "List.find (of_print (pf_fingerprint p)) (id_runs import_db_demo) = None" by (simp add: import_db_demo_def)
  have target: "rp_chat_id (pl_report (pf_plan p)) = im_target (at_cfg sound_attempt)"
    using plan(2) by (simp add: p(2) sound_attempt_def attempt_demo_def)
  have "import_stands export_dir_demo p empty_archive (after_attempts export_dir_demo p [broken_attempt] import_db_demo)"
    by (rule after_attempts_stands) (use demo_import(2) in \<open>simp_all add: import_stands_def import_db_demo_def\<close>)
  from run_import_succeeds [OF this target reach] demo_import(2)
  have "\<exists>db' rep. attempted export_dir_demo p sound_attempt (after_attempts export_dir_demo p [broken_attempt] import_db_demo) = (db', Inr rep)"
    by (simp add: attempted_def demo_import(5,6))
  then obtain db' rep where
      run: "attempted export_dir_demo p sound_attempt (after_attempts export_dir_demo p [broken_attempt] import_db_demo) = (db', Inr rep)"
    by blast
  have start: "archive_ok (id_archive import_db_demo)" by (simp add: import_db_demo_def empty_archive_ok)
  have "rc_complete (reconcile_import p (id_archive db'))"
    by (rule import_reconciles [OF p(1) start new demo_import(2) run]) (simp add: import_db_demo_def empty_archive_def)
  then show ?thesis using p(1) run by blast
qed

end
