(* ===== verification/AssistantStore.thy ===== *)
theory AssistantStore
  imports Assistant
begin

text \<open>
  \<open>assistant/conversation.py\<close>: the stored conversations of the private assistant, in the tables of
  users, conversations and messages. \<open>assistant/retriever.py\<close> and the guards of \<open>storage/fts.py\<close>: the
  search for the fragments that an answer may use. SQLite's full-text index is a parameter, and so
  are the clock, the zone, NFKC, the stemmer and \<open>json.loads\<close>.
\<close>

section \<open>Stored conversations\<close>

record conversation =
  ac_id :: int
  ac_user_id :: int
  ac_status :: pystr
  ac_created_at :: instant
  ac_updated_at :: instant
  ac_expires_at :: "instant option"

record turn_row =
  am_id :: int
  am_conversation_id :: int
  am_role :: pystr
  am_content :: pystr
  am_provider :: "pystr option"
  am_model :: "pystr option"
  am_token_count :: "int option"
  am_sources :: "json option"
  am_created_at :: instant

record chat_db =
  ch_users :: "user list"
  ch_conversations :: "conversation list"
  ch_turns :: "turn_row list"

record conversation_store =
  cs_ttl :: int
  cs_max_previous :: int

datatype store_error = Store_value_error | Store_integrity_error

definition new_conversation_store :: "conversation_store \<Rightarrow> store_error + conversation_store" where
  "new_conversation_store s =
     and_then (guard (\<not> cs_ttl s \<le> 0) Store_value_error) (\<lambda>_.
     and_then (guard (2 \<le> cs_max_previous s \<and> cs_max_previous s \<le> 40) Store_value_error) (\<lambda>_. Inr s))"

text \<open>The newest conversation of the user that is active and has not expired.\<close>

definition active_conversation :: "int \<Rightarrow> instant \<Rightarrow> conversation list \<Rightarrow> conversation option" where
  "active_conversation user now rows =
     first_by (\<lambda>c. (- ac_updated_at c, - ac_id c))
       (\<lambda>c. ac_user_id c = user \<and> ac_status c = u ''active''
            \<and> (case ac_expires_at c of None \<Rightarrow> False | Some e \<Rightarrow> now < e)) rows"

definition chat_user :: "int \<Rightarrow> chat_db \<Rightarrow> user option" where
  "chat_user telegram_id db = List.find (\<lambda>x. us_telegram_id x = telegram_id) (ch_users db)"

definition said :: "turn_row \<Rightarrow> pystr \<times> pystr" where
  "said r = (am_role r, am_content r)"

definition previous_turns :: "conversation_store \<Rightarrow> instant \<Rightarrow> int \<Rightarrow> chat_db \<Rightarrow> (pystr \<times> pystr) list" where
  "previous_turns s now telegram_id db =
     (case chat_user telegram_id db of
        None \<Rightarrow> []
      | Some x \<Rightarrow>
          (case active_conversation (us_id x) now (ch_conversations db) of
             None \<Rightarrow> []
           | Some c \<Rightarrow>
               map said (rev (take (nat (cs_max_previous s))
                 (sort_key (\<lambda>r. (- am_created_at r, - am_id r))
                   (filter (\<lambda>r. am_conversation_id r = ac_id c \<and> am_role r \<in> {u ''user'', u ''assistant''}) (ch_turns db)))))))"

definition chat_person ::
    "instant \<Rightarrow> int \<Rightarrow> pystr option \<Rightarrow> user list \<Rightarrow> user list \<times> int" where
  "chat_person now telegram_id name users =
     (case List.find (\<lambda>x. us_telegram_id x = telegram_id) users of
        None \<Rightarrow>
          let x = \<lparr>us_id = next_id us_id users, us_telegram_id = telegram_id, us_username = None, us_display_name = name,
                   us_language_code = None, us_is_bot = False, us_first_seen = now, us_last_seen = now\<rparr>
          in (users @ [x], us_id x)
      | Some x \<Rightarrow>
          (upd_where (\<lambda>y. us_telegram_id y = telegram_id)
             (\<lambda>y. y\<lparr>us_display_name := (case name of Some (c # cs) \<Rightarrow> name | _ \<Rightarrow> us_display_name y),
                    us_last_seen := max (us_last_seen y) now\<rparr>) users, us_id x))"

definition chat_conversation ::
    "conversation_store \<Rightarrow> instant \<Rightarrow> int \<Rightarrow> conversation list \<Rightarrow> conversation list \<times> int" where
  "chat_conversation s now user rows =
     (let touch = (\<lambda>c. c\<lparr>ac_updated_at := now, ac_expires_at := Some (now + cs_ttl s)\<rparr>) in
      case active_conversation user now rows of
        None \<Rightarrow>
          let c = \<lparr>ac_id = next_id ac_id rows, ac_user_id = user, ac_status = u ''active'', ac_created_at = now,
                   ac_updated_at = now, ac_expires_at = Some (now + cs_ttl s)\<rparr>
          in (rows @ [touch c], ac_id c)
      | Some c \<Rightarrow> (upd_where (\<lambda>r. ac_id r = ac_id c) touch rows, ac_id c))"

definition source_json :: "source \<Rightarrow> json" where
  "source_json s = JObj
     [(u ''label'', JStr (so_label s)), (u ''chat_id'', JInt (so_chat_id s)), (u ''message_id'', JInt (so_message_id s)),
      (u ''telegram_link'', case so_link s of None \<Rightarrow> JNull | Some l \<Rightarrow> JStr l)]"

definition exchange_turns ::
    "instant \<Rightarrow> int \<Rightarrow> pystr \<Rightarrow> answer \<Rightarrow> int option \<Rightarrow> turn_row list \<Rightarrow> turn_row list" where
  "exchange_turns now c question a tokens rows =
     (let i = next_id am_id rows in
      [\<lparr>am_id = i, am_conversation_id = c, am_role = u ''user'', am_content = strip question, am_provider = None,
        am_model = None, am_token_count = None, am_sources = None, am_created_at = now\<rparr>,
       \<lparr>am_id = i + 1, am_conversation_id = c, am_role = u ''assistant'', am_content = truncate_text (an_text a) 4096,
        am_provider = Some (u ''openai_compatible''), am_model = an_model a, am_token_count = tokens,
        am_sources = Some (JArr (map source_json (an_sources a))), am_created_at = now\<rparr>])"

text \<open>One transaction; a negative token count violates the schema.\<close>

definition record_exchange ::
    "conversation_store \<Rightarrow> instant \<Rightarrow> int \<Rightarrow> pystr option \<Rightarrow> pystr \<Rightarrow> answer \<Rightarrow> int option \<Rightarrow> chat_db
       \<Rightarrow> store_error + chat_db \<times> int" where
  "record_exchange s now telegram_id name question a tokens db =
     (let (users, user) = chat_person now telegram_id name (ch_users db);
          (conversations, c) = chat_conversation s now user (ch_conversations db)
      in and_then (guard (case tokens of None \<Rightarrow> True | Some n \<Rightarrow> 0 \<le> n) Store_integrity_error) (\<lambda>_.
         Inr (\<lparr>ch_users = users, ch_conversations = conversations,
               ch_turns = ch_turns db @ exchange_turns now c question a tokens (ch_turns db)\<rparr>, c)))"

text \<open>The foreign key deletes the messages of a deleted conversation.\<close>

definition prune_conversations :: "pydt \<Rightarrow> chat_db \<Rightarrow> store_error + chat_db \<times> nat" where
  "prune_conversations older_than db =
     and_then (guard (aware older_than) Store_value_error) (\<lambda>_.
     let stale = filter (\<lambda>c. ac_updated_at c < instant_of older_than) (ch_conversations db) in
     Inr (db\<lparr>ch_conversations := filter (\<lambda>c. \<not> ac_updated_at c < instant_of older_than) (ch_conversations db),
             ch_turns := filter (\<lambda>r. am_conversation_id r \<notin> ac_id ` set stale) (ch_turns db)\<rparr>, length stale))"

section \<open>Search\<close>

datatype raw_metadata = Raw_null | Raw_object "(pystr \<times> json) list" | Raw_text pystr | Raw_other

record index_row =
  ix_document_id :: int
  ix_source_type :: pystr
  ix_source_id :: int
  ix_content :: pystr
  ix_metadata :: raw_metadata
  ix_score :: rat
  ix_snippet :: pystr

record search_hit =
  sh_document_id :: int
  sh_source_type :: pystr
  sh_source_id :: int
  sh_content :: pystr
  sh_metadata :: "(pystr \<times> json) list option"
  sh_score :: rat
  sh_snippet :: pystr

definition decode_metadata :: "(pystr \<Rightarrow> json option) \<Rightarrow> raw_metadata \<Rightarrow> (pystr \<times> json) list option" where
  "decode_metadata loads v =
     (case v of
        Raw_object kvs \<Rightarrow> Some kvs
      | Raw_text s \<Rightarrow> (case loads s of Some (JObj kvs) \<Rightarrow> Some kvs | _ \<Rightarrow> None)
      | _ \<Rightarrow> None)"

text \<open>
  What the index is asked: the match expression, the type and identifiers of the sources, the limit
  and the offset.
\<close>

record index_query =
  iq_match :: pystr
  iq_source_type :: "pystr option"
  iq_source_ids :: "int list option"
  iq_limit :: int
  iq_offset :: int

record search_tools =
  st_index :: "index_query \<Rightarrow> index_row list"
  st_loads :: "pystr \<Rightarrow> json option"
  st_nfkc :: "pystr \<Rightarrow> pystr"
  st_stem :: "pystr \<Rightarrow> pystr"

definition hit_of_row :: "(pystr \<Rightarrow> json option) \<Rightarrow> index_row \<Rightarrow> search_hit" where
  "hit_of_row loads r =
     \<lparr>sh_document_id = ix_document_id r, sh_source_type = ix_source_type r, sh_source_id = ix_source_id r,
      sh_content = ix_content r, sh_metadata = decode_metadata loads (ix_metadata r), sh_score = ix_score r,
      sh_snippet = ix_snippet r\<rparr>"

definition search_documents ::
    "search_tools \<Rightarrow> pystr \<Rightarrow> pystr option \<Rightarrow> int list option \<Rightarrow> int \<Rightarrow> int \<Rightarrow> store_error + search_hit list" where
  "search_documents t query source_type source_ids bound offset =
     and_then (guard (1 \<le> bound \<and> bound \<le> 100) Store_value_error) (\<lambda>_.
     and_then (guard (\<not> offset < 0) Store_value_error) (\<lambda>_.
     case build_fts5_query (st_nfkc t) (st_stem t) [] query of
       None \<Rightarrow> Inl Store_value_error
     | Some m \<Rightarrow>
         if source_ids = Some [] then Inr []
         else Inr (map (hit_of_row (st_loads t)) (st_index t
           \<lparr>iq_match = m, iq_source_type = source_type, iq_source_ids = source_ids, iq_limit = bound, iq_offset = offset\<rparr>))))"

section \<open>Retrieval\<close>

definition stopwords :: "pystr list" where
  "stopwords =
    [[1072], [1073, 1077, 1079], [1073, 1099, 1083], [1073, 1099, 1083, 1072],
      [1073, 1099, 1083, 1080], [1073, 1099, 1083, 1086], [1074], [1074, 1099], [1075, 1076, 1077],
      [1076, 1083, 1103], [1080], [1080, 1079], [1082, 1072, 1082], [1082, 1086, 1075, 1076, 1072],
      [1082, 1090, 1086], [1083, 1080], [1084, 1099], [1085, 1072], [1085, 1072, 1096], [1085, 1077],
      [1086], [1086, 1073], [1086, 1073, 1089, 1091, 1078, 1076, 1072, 1083, 1080], [1087, 1086],
      [1087, 1088, 1086], [1089], [1089, 1086], [1095, 1090, 1086], [1101, 1090, 1086]]"

definition retrieval_terms :: "search_tools \<Rightarrow> pystr \<Rightarrow> pystr list" where
  "retrieval_terms t question =
     take 8 (uniq (filter (\<lambda>w. w \<notin> set stopwords \<and> 1 < length w) (tokenize (st_nfkc t) question)))"

text \<open>The hits by source, the first hit of each, with the weight of the queries that found it.\<close>

definition count_hit :: "nat \<Rightarrow> (int \<times> search_hit \<times> nat) list \<Rightarrow> search_hit \<Rightarrow> (int \<times> search_hit \<times> nat) list" where
  "count_hit weight found h =
     (if list_ex (\<lambda>(i, _). i = sh_source_id h) found
      then map (\<lambda>(i, first, n). (i, first, if i = sh_source_id h then n + weight else n)) found
      else found @ [(sh_source_id h, h, weight)])"

fun gather_hits ::
    "search_tools \<Rightarrow> int \<Rightarrow> bool \<Rightarrow> pystr list \<Rightarrow> (int \<times> search_hit \<times> nat) list \<Rightarrow> store_error + (int \<times> search_hit \<times> nat) list" where
  "gather_hits t bound first [] found = Inr found"
| "gather_hits t bound first (query # queries) found =
     and_then (search_documents t query (Some (u ''message'')) None (min 100 (bound * 3)) 0) (\<lambda>hits.
     gather_hits t bound False queries (foldl (count_hit (if first then 4 else 1)) found hits))"

text \<open>\<open>isinstance(v, int)\<close>, which holds for booleans too.\<close>

definition int_instance :: "json \<Rightarrow> int option" where
  "int_instance v = (case v of JInt n \<Rightarrow> Some n | JBool b \<Rightarrow> Some (if b then 1 else 0) | _ \<Rightarrow> None)"

definition hit_field :: "search_hit \<Rightarrow> string \<Rightarrow> json" where
  "hit_field h key = (case sh_metadata h of None \<Rightarrow> JNull | Some kvs \<Rightarrow> jget kvs (u key))"

definition hit_sent_at :: "search_hit \<Rightarrow> pydt option" where
  "hit_sent_at h =
     (case hit_field h ''sent_at'' of
        JStr s \<Rightarrow> (case from_iso s of Some d \<Rightarrow> if aware d then Some d else None | None \<Rightarrow> None)
      | _ \<Rightarrow> None)"

definition today_word :: pystr where
  "today_word = [1089, 1077, 1075, 1086, 1076, 1085, 1103]"

definition yesterday_word :: pystr where
  "yesterday_word = [1074, 1095, 1077, 1088, 1072]"

definition within_time_scope :: "search_tools \<Rightarrow> (instant \<Rightarrow> int) \<Rightarrow> pydt \<Rightarrow> pystr \<Rightarrow> search_hit \<Rightarrow> bool" where
  "within_time_scope t zone now question h =
     (let tokens = set (tokenize (st_nfkc t) question) in
      if yesterday_word \<notin> tokens \<and> today_word \<notin> tokens then True
      else case hit_sent_at h of
             None \<Rightarrow> False
           | Some d \<Rightarrow>
               let day = dt_date (in_zone zone d) in
               if today_word \<in> tokens then day = dt_date now else day = dt_date (dt_add now (- day_us)))"

definition to_retrieved :: "search_hit \<Rightarrow> rat \<Rightarrow> hit option" where
  "to_retrieved h score =
     (case (int_instance (hit_field h ''chat_id''), int_instance (hit_field h ''message_id''), hit_sent_at h) of
        (Some chat, Some message, Some sent) \<Rightarrow>
          Some \<lparr>ht_chat_id = chat, ht_message_id = message, ht_sent_at = sent,
                ht_sender = (case hit_field h ''sender_display_name'' of JStr s \<Rightarrow> Some s | _ \<Rightarrow> None),
                ht_text = sh_content h, ht_score = score, ht_topic = int_instance (hit_field h ''topic_id''),
                ht_link = (case hit_field h ''telegram_link'' of JStr s \<Rightarrow> Some s | _ \<Rightarrow> None)\<rparr>
      | _ \<Rightarrow> None)"

definition retrieve ::
    "search_tools \<Rightarrow> (instant \<Rightarrow> int) \<Rightarrow> pydt \<Rightarrow> pystr \<Rightarrow> int \<Rightarrow> store_error + hit list" where
  "retrieve t zone now question bound =
     and_then (guard (1 \<le> bound \<and> bound \<le> 100) Store_value_error) (\<lambda>_.
     let terms = retrieval_terms t question in
     if terms = [] then Inr []
     else
       and_then (gather_hits t bound True (uniq (join [32] terms # terms)) []) (\<lambda>found.
       let scoped = filter (\<lambda>(_, h, _). within_time_scope t zone now question h) found;
           ordered = take (nat bound) (sort_key (\<lambda>(i, h, n). (- int n, sh_score h, - i)) scoped)
       in Inr (List.map_filter (\<lambda>(_, h, n). to_retrieved h (of_nat n - sh_score h)) ordered)))"

end
