(* ===== verification/AssistantStoreProperties.thy ===== *)
theory AssistantStoreProperties
  imports AssistantStore
begin

text \<open>
  The stored conversations keep users apart and remember the last exchange; the retrieval returns
  no more fragments than asked, each from the requested day.
\<close>

section \<open>Users apart\<close>

text \<open>The rows of one user: the account, the conversations and what was said in them.\<close>

definition chat_ok :: "chat_db \<Rightarrow> bool" where
  "chat_ok db \<longleftrightarrow> keyed us_id (ch_users db) \<and> keyed ac_id (ch_conversations db) \<and> keyed am_id (ch_turns db)
     \<and> am_conversation_id ` set (ch_turns db) \<subseteq> ac_id ` set (ch_conversations db)"

lemma active_conversation_Some:
  assumes "active_conversation user now rows = Some c"
  shows "c \<in> set rows" "ac_user_id c = user"
  using first_by_Some(1,2) [OF assms [unfolded active_conversation_def]] by auto

lemma chat_person_user:
  assumes "chat_person now telegram_id name users = (users', i)"
  shows "map_option us_id (List.find (\<lambda>x. us_telegram_id x = telegram_id) users') = Some i"
    and "i' \<noteq> telegram_id \<Longrightarrow> List.find (\<lambda>x. us_telegram_id x = i') users' = List.find (\<lambda>x. us_telegram_id x = i') users"
    and "List.find (\<lambda>x. us_telegram_id x = telegram_id) users = None \<Longrightarrow> i \<notin> us_id ` set users"
    and "List.find (\<lambda>x. us_telegram_id x = telegram_id) users = Some x \<Longrightarrow> i = us_id x"
proof -
  show "map_option us_id (List.find (\<lambda>x. us_telegram_id x = telegram_id) users') = Some i"
    using assms by (auto simp: chat_person_def find_append find_upd_where_map Let_def split: option.splits)
  show "i \<notin> us_id ` set users" if "List.find (\<lambda>x. us_telegram_id x = telegram_id) users = None"
  proof -
    have "i = next_id us_id users" using assms that by (auto simp: chat_person_def Let_def)
    then show ?thesis by simp
  qed
  show "List.find (\<lambda>x. us_telegram_id x = telegram_id) users = Some x \<Longrightarrow> i = us_id x"
    using assms by (auto simp: chat_person_def Let_def)
  show "List.find (\<lambda>x. us_telegram_id x = i') users' = List.find (\<lambda>x. us_telegram_id x = i') users" if "i' \<noteq> telegram_id"
  proof (cases "List.find (\<lambda>x. us_telegram_id x = telegram_id) users")
    case None
    then show ?thesis using assms that by (auto simp: chat_person_def find_append Let_def split: option.splits)
  next
    case (Some x)
    have same: "List.find (\<lambda>x. us_telegram_id x = i') (upd_where (\<lambda>y. us_telegram_id y = telegram_id) f users)
        = List.find (\<lambda>x. us_telegram_id x = i') users" if "\<And>y. us_telegram_id (f y) = us_telegram_id y" for f
      using that \<open>i' \<noteq> telegram_id\<close> by (induction users) (auto simp: upd_where_def)
    show ?thesis using assms Some by (auto simp: chat_person_def same)
  qed
qed

lemma chat_conversation_other:
  assumes "chat_conversation s now user rows = (rows', c)" "keyed ac_id rows" "user' \<noteq> user"
  shows "active_conversation user' later rows' = active_conversation user' later rows"
    and "\<And>d. d \<in> set rows \<Longrightarrow> ac_user_id d = user' \<Longrightarrow> ac_id d \<noteq> c"
proof -
  show "active_conversation user' later rows' = active_conversation user' later rows"
  proof (cases "active_conversation user now rows")
    case None
    then show ?thesis using assms(1,3)
      by (auto simp: chat_conversation_def Let_def active_conversation_def first_by_def)
  next
    case (Some x)
    have "ac_user_id r = user" if "r \<in> set rows" "ac_id r = ac_id x" for r
      using keyed_unique [OF assms(2) that(1) active_conversation_Some(1) [OF Some] that(2)] active_conversation_Some(2) [OF Some] by simp
    then show ?thesis using assms(1,3) Some unfolding active_conversation_def chat_conversation_def Let_def
      by (auto intro!: first_by_filter filter_upd_where_same)
  qed
  show "ac_id d \<noteq> c" if d: "d \<in> set rows" "ac_user_id d = user'" for d
  proof (cases "active_conversation user now rows")
    case None
    then have "c = next_id ac_id rows" using assms(1) by (auto simp: chat_conversation_def Let_def)
    then have "c \<notin> ac_id ` set rows" by simp
    then show ?thesis using d by auto
  next
    case (Some x)
    then have "c = ac_id x" using assms(1) by (simp add: chat_conversation_def Let_def)
    then show ?thesis
      using keyed_unique [OF assms(2) d(1) active_conversation_Some(1) [OF Some]] active_conversation_Some(2) [OF Some] d(2) assms(3)
      by auto
  qed
qed

text \<open>
  C11: Recording one user's exchange never changes what the assistant remembers for another: the turns
  that accompany the other's next question are the same before and after, at any later time.
\<close>

theorem conversations_private:
  assumes "record_exchange s now telegram_id name question a tokens db = Inr (db', c)" "chat_ok db"
    and "other \<noteq> telegram_id"
  shows "previous_turns s later other db' = previous_turns s later other db"
proof -
  obtain users user where u: "chat_person now telegram_id name (ch_users db) = (users, user)" by fastforce
  obtain rows where cv: "chat_conversation s now user (ch_conversations db) = (rows, c)"
      and db': "db' = \<lparr>ch_users = users, ch_conversations = rows,
        ch_turns = ch_turns db @ exchange_turns now c question a tokens (ch_turns db)\<rparr>"
    using assms(1) by (auto simp: record_exchange_def u py split: prod.splits)
  have same_user: "chat_user other db' = chat_user other db"
    using chat_person_user(2) [OF u assms(3)] by (simp add: chat_user_def db')
  show ?thesis
  proof (cases "chat_user other db")
    case None
    then show ?thesis using same_user by (simp add: previous_turns_def)
  next
    case (Some x)
    have x: "x \<in> set (ch_users db)" "us_telegram_id x = other" using Some by (auto simp: chat_user_def dest: find_Some_set)
    have "us_id x \<noteq> user"
    proof (cases "List.find (\<lambda>x. us_telegram_id x = telegram_id) (ch_users db)")
      case None
      then show ?thesis using chat_person_user(3) [OF u] x by auto
    next
      case (Some y)
      then have "y \<in> set (ch_users db)" "us_telegram_id y = telegram_id" by (auto dest: find_Some_set)
      then show ?thesis using chat_person_user(4) [OF u Some] keyed_unique [of us_id "ch_users db" x y] assms(2,3) x
        by (auto simp: chat_ok_def)
    qed
    note cvo = chat_conversation_other [OF cv _ this]
    have active: "active_conversation (us_id x) later rows = active_conversation (us_id x) later (ch_conversations db)"
      using cvo(1) assms(2) by (simp add: chat_ok_def)
    show ?thesis
    proof (cases "active_conversation (us_id x) later (ch_conversations db)")
      case None
      then show ?thesis using same_user Some active by (simp add: previous_turns_def db')
    next
      case (Some d)
      have "ac_id d \<noteq> c"
        using cvo(2) [OF _ active_conversation_Some [OF Some]] assms(2) by (simp add: chat_ok_def)
      then show ?thesis
        using same_user \<open>chat_user other db = Some x\<close> active Some
        by (simp add: previous_turns_def db' exchange_turns_def Let_def)
    qed
  qed
qed

definition demo_answer :: answer where
  "demo_answer = \<lparr>an_text = u ''At ten.'', an_sources = [], an_model = None\<rparr>"

definition demo_store :: conversation_store where
  "demo_store = \<lparr>cs_ttl = 24 * hour, cs_max_previous = 8\<rparr>"

definition empty_chat :: chat_db where
  "empty_chat = \<lparr>ch_users = [], ch_conversations = [], ch_turns = []\<rparr>"

definition first_exchange :: chat_db where
  "first_exchange =
     (case record_exchange demo_store 100 7 None (u ''When?'') demo_answer None empty_chat of Inr (db, _) \<Rightarrow> db | Inl _ \<Rightarrow> empty_chat)"

lemma first_exchange_ok: "chat_ok first_exchange"
  by (simp add: first_exchange_def record_exchange_def chat_person_def chat_conversation_def active_conversation_def first_by_def
      empty_chat_def exchange_turns_def Let_def chat_ok_def keyed_def next_id_def)

theorem conversations_private_witness:
  "\<exists>db c. record_exchange demo_store 200 8 None (u ''Where?'') demo_answer None first_exchange = Inr (db, c)
     \<and> previous_turns demo_store 300 7 db = previous_turns demo_store 300 7 first_exchange"
proof -
  have "\<exists>db c. record_exchange demo_store 200 8 None (u ''Where?'') demo_answer None first_exchange = Inr (db, c)"
    by (simp add: record_exchange_def split: prod.split)
  then obtain db c where "record_exchange demo_store 200 8 None (u ''Where?'') demo_answer None first_exchange = Inr (db, c)"
    by blast
  with conversations_private [OF this first_exchange_ok, of 7] show ?thesis by auto
qed

section \<open>What is remembered\<close>

lemma sort_key_least_last:
  assumes "\<And>x. x \<in> set xs \<Longrightarrow> f y < f x"
  shows "sort_key f (xs @ [y]) = y # sort_key f xs"
  using assms
proof (induction xs)
  case (Cons x xs)
  have "\<not> f x \<le> f y" using Cons.prems [of x] by (simp add: not_le)
  then show ?case using Cons by simp
qed simp

lemma chat_conversation_active:
  assumes "chat_conversation s now user rows = (rows', c)" "keyed ac_id rows" "0 < cs_ttl s"
    and "list_all (\<lambda>d. ac_updated_at d \<le> now) rows" "now \<le> later" "later < now + cs_ttl s"
  shows "\<exists>d. active_conversation user later rows' = Some d \<and> ac_id d = c"
proof -
  define P where "P = (\<lambda>t (d :: conversation). ac_user_id d = user \<and> ac_status d = u ''active''
            \<and> (case ac_expires_at d of None \<Rightarrow> False | Some e \<Rightarrow> t < e))"
  define key :: "conversation \<Rightarrow> int \<times> int" where "key = (\<lambda>d. (- ac_updated_at d, - ac_id d))"
  have active: "active_conversation user t rs = first_by key (P t) rs" for t rs
    by (simp add: active_conversation_def P_def key_def)
  have earlier: "P now d" if "P later d" for d using that assms(5) by (auto simp: P_def split: option.splits)
  define e where "e = (\<lambda>d. ac_id d = c \<and> ac_updated_at d = now \<and> P later d)"
  have "\<exists>d \<in> set rows'. e d" and others: "\<And>d. d \<in> set rows' \<Longrightarrow> P later d \<Longrightarrow> ac_id d = c
      \<or> ac_updated_at d < now \<or> ac_updated_at d = now \<and> ac_id d < c"
  proof -
    show "\<exists>d \<in> set rows'. e d"
    proof (cases "active_conversation user now rows")
      case None
      then show ?thesis using assms(1,6) by (auto simp: chat_conversation_def Let_def e_def P_def)
    next
      case (Some x)
      then have "x \<in> set rows" "P now x" using first_by_Some(1,2) [OF Some [unfolded active]] by auto
      define x' where "x' = x\<lparr>ac_updated_at := now, ac_expires_at := Some (now + cs_ttl s)\<rparr>"
      have "x' \<in> set rows'" using assms(1) Some \<open>x \<in> set rows\<close>
        by (auto simp: chat_conversation_def Let_def set_upd_where x'_def)
      moreover have "e x'" using assms(1,6) Some \<open>P now x\<close> by (auto simp: chat_conversation_def Let_def e_def P_def x'_def)
      ultimately show ?thesis by blast
    qed
    show "ac_id d = c \<or> ac_updated_at d < now \<or> ac_updated_at d = now \<and> ac_id d < c" if d: "d \<in> set rows'" "P later d" for d
    proof (cases "active_conversation user now rows")
      case None
      then have "\<not> P now x" if "x \<in> set rows" for x using that unfolding active first_by_None by blast
      then have "d \<notin> set rows" using earlier [OF d(2)] by blast
      then show ?thesis using assms(1) None d(1) by (auto simp: chat_conversation_def Let_def)
    next
      case (Some x)
      then have c: "c = ac_id x" and rows': "rows' = upd_where (\<lambda>r. ac_id r = ac_id x)
          (\<lambda>r. r\<lparr>ac_updated_at := now, ac_expires_at := Some (now + cs_ttl s)\<rparr>) rows"
        using assms(1) by (auto simp: chat_conversation_def Let_def)
      show ?thesis
      proof (cases "ac_id d = c")
        case False
        then have "d \<in> set rows" using d(1) by (auto simp: rows' c set_upd_where split: if_splits)
        moreover have "key x \<le> key d"
          using first_by_Some(3) [OF Some [unfolded active]] \<open>d \<in> set rows\<close> earlier [OF d(2)] by blast
        moreover have "ac_updated_at x \<le> now" "ac_updated_at d \<le> now"
          using assms(4) \<open>d \<in> set rows\<close> first_by_Some(1) [OF Some [unfolded active]] by (auto simp: list_all_iff)
        ultimately show ?thesis using False c by (auto simp: key_def)
      qed simp
    qed
  qed
  then obtain d0 where d0: "d0 \<in> set rows'" "e d0" by blast
  then obtain d where d: "first_by key (P later) rows' = Some d"
    using first_by_None [of key "P later" rows'] by (cases "first_by key (P later) rows'") (auto simp: e_def)
  have "key d \<le> key d0" using first_by_Some(3) [OF d d0(1)] d0(2) by (simp add: e_def)
  then have "ac_id d = c" using others [OF first_by_Some(1,2) [OF d]] d0(2) by (auto simp: key_def e_def)
  then show ?thesis using d by (simp add: active)
qed

text \<open>
  C22: The assistant remembers: within the lifetime of a conversation, the turns that accompany the
  user's next question end with the last question, stripped, and its answer, cut to 4096 characters,
  in this order, whatever was said before.
\<close>

theorem exchange_remembered:
  assumes "record_exchange s now telegram_id name question a tokens db = Inr (db', c)" "chat_ok db"
    and "new_conversation_store s = Inr s" "now \<le> later" "later < now + cs_ttl s"
    and "list_all (\<lambda>d. ac_updated_at d \<le> now) (ch_conversations db)" "list_all (\<lambda>r. am_created_at r \<le> now) (ch_turns db)"
  shows "\<exists>older. previous_turns s later telegram_id db'
    = older @ [(u ''user'', strip question), (u ''assistant'', truncate_text (an_text a) 4096)]"
proof -
  obtain users user where usr: "chat_person now telegram_id name (ch_users db) = (users, user)" by fastforce
  obtain rows where cv: "chat_conversation s now user (ch_conversations db) = (rows, c)"
      and db': "db' = \<lparr>ch_users = users, ch_conversations = rows,
        ch_turns = ch_turns db @ exchange_turns now c question a tokens (ch_turns db)\<rparr>"
    using assms(1) by (auto simp: record_exchange_def usr py split: prod.splits)
  have s: "0 < cs_ttl s" "2 \<le> cs_max_previous s" using assms(3) by (auto simp: new_conversation_store_def py)
  obtain x where x: "chat_user telegram_id db' = Some x" "us_id x = user"
    using chat_person_user(1) [OF usr] by (auto simp: chat_user_def db')
  obtain d where d: "active_conversation user later rows = Some d" "ac_id d = c"
    using chat_conversation_active [OF cv _ s(1) assms(6,4,5)] assms(2) by (auto simp: chat_ok_def)
  define key :: "turn_row \<Rightarrow> int \<times> int" where "key = (\<lambda>r. (- am_created_at r, - am_id r))"
  define mine where "mine = filter (\<lambda>r. am_conversation_id r = c \<and> am_role r \<in> {u ''user'', u ''assistant''}) (ch_turns db)"
  obtain q r where qr: "exchange_turns now c question a tokens (ch_turns db) = [q, r]"
      "am_conversation_id q = c" "am_conversation_id r = c" "am_created_at q = now" "am_created_at r = now"
      "am_id q = next_id am_id (ch_turns db)" "am_id r = next_id am_id (ch_turns db) + 1"
      "said q = (u ''user'', strip question)" "said r = (u ''assistant'', truncate_text (an_text a) 4096)"
    by (auto simp: exchange_turns_def Let_def said_def)
  have after: "key q < key y" if "y \<in> set mine" for y
  proof -
    have "y \<in> set (ch_turns db)" using that by (simp add: mine_def)
    then have "am_created_at y \<le> now" "am_id y < am_id q"
      using assms(7) next_id_gt [of y "ch_turns db" am_id] by (auto simp: list_all_iff qr(6))
    then show ?thesis by (auto simp: key_def qr(4))
  qed
  have last: "key r < key y" if "y \<in> set (mine @ [q])" for y
  proof (cases "y \<in> set mine")
    case True
    have "key r < key q" by (simp add: key_def qr(4-7))
    then show ?thesis using after [OF True] by (rule less_trans)
  next
    case False
    then show ?thesis using that by (simp add: key_def qr(4-7))
  qed
  have sorted: "sort_key key (mine @ [q, r]) = r # q # sort_key key mine"
    using sort_key_least_last [of "mine @ [q]" key r, OF last] sort_key_least_last [of mine key q, OF after] by simp
  have "2 \<le> nat (cs_max_previous s)" using s(2) by simp
  then obtain k where "nat (cs_max_previous s) = 2 + k" using le_Suc_ex by blast
  then obtain n where n: "nat (cs_max_previous s) = Suc (Suc n)" by simp
  have roles: "am_role q = u ''user''" "am_role r = u ''assistant''" using qr(8,9) by (simp_all add: said_def)
  have "previous_turns s later telegram_id db' = map said (rev (take (nat (cs_max_previous s)) (sort_key key (mine @ [q, r]))))"
    using x d by (simp add: previous_turns_def db' qr(1-3) mine_def key_def roles del: u_Cons)
  also have "\<dots> = map said (rev (take n (sort_key key mine))) @ [said q, said r]"
    unfolding sorted n by simp
  finally show ?thesis unfolding qr(8,9) by blast
qed

lemma first_exchange_turns:
  "record_exchange demo_store 100 7 None (u ''When?'') demo_answer None empty_chat = Inr (first_exchange, 1)"
  by (simp add: first_exchange_def record_exchange_def chat_person_def chat_conversation_def active_conversation_def first_by_def
      empty_chat_def Let_def next_id_def)

theorem exchange_remembered_witness:
  "\<exists>older. previous_turns demo_store (100 + hour) 7 first_exchange
    = older @ [(u ''user'', strip (u ''When?'')), (u ''assistant'', truncate_text (u ''At ten.'') 4096)]"
  using exchange_remembered [OF first_exchange_turns, of "100 + hour"]
  by (simp add: empty_chat_def chat_ok_def demo_store_def new_conversation_store_def durations demo_answer_def)

section \<open>Retrieval\<close>

lemma map_filter_members: "y \<in> set (List.map_filter f xs) \<longleftrightarrow> (\<exists>x \<in> set xs. f x = Some y)"
  by (induction xs) (auto simp: List.map_filter_simps split: option.splits)

lemma length_map_filter: "length (List.map_filter f xs) \<le> length xs"
  by (induction xs) (auto simp: List.map_filter_simps split: option.splits)

text \<open>No more fragments than asked, and only today's when the question says so.\<close>

lemma retrieve_bounded:
  assumes "retrieve t zone now question bound = Inr hits"
  shows "length hits \<le> nat bound"
    and "today_word \<in> set (tokenize (st_nfkc t) question) \<Longrightarrow> h \<in> set hits \<Longrightarrow> dt_date (in_zone zone (ht_sent_at h)) = dt_date now"
proof -
  have *: "hits = [] \<or> (\<exists>scoped :: (int \<times> search_hit \<times> nat) list. (\<forall>z \<in> set scoped. within_time_scope t zone now question (fst (snd z)))
      \<and> hits = List.map_filter (\<lambda>(_, h, n). to_retrieved h (of_nat n - sh_score h)) (take (nat bound) scoped))"
  proof (cases "retrieval_terms t question = []")
    case True
    then show ?thesis using assms by (simp add: retrieve_def py)
  next
    case False
    then obtain found where gathered: "gather_hits t bound True (uniq (join [32] (retrieval_terms t question) # retrieval_terms t question)) [] = Inr found"
      using assms by (auto simp: retrieve_def py Let_def)
    define scoped where "scoped = sort_key (\<lambda>(i, h, n). (- int n, sh_score h, - i))
        (filter (\<lambda>(_, h, _). within_time_scope t zone now question h) found)"
    have "hits = List.map_filter (\<lambda>(_, h, n). to_retrieved h (of_nat n - sh_score h)) (take (nat bound) scoped)"
      using assms False gathered by (auto simp: retrieve_def py Let_def scoped_def)
    moreover have "\<forall>z \<in> set scoped. within_time_scope t zone now question (fst (snd z))" by (auto simp: scoped_def)
    ultimately show ?thesis by blast
  qed
  then show "length hits \<le> nat bound"
    using length_map_filter by (metis (no_types, lifting) le_trans length_take list.size(3) min.cobounded2 zero_le)
  show "dt_date (in_zone zone (ht_sent_at h)) = dt_date now"
    if today: "today_word \<in> set (tokenize (st_nfkc t) question)" and h: "h \<in> set hits"
  proof -
    obtain x where "within_time_scope t zone now question x" "\<exists>score. to_retrieved x score = Some h"
      using * h by (force simp: map_filter_members dest: in_set_takeD)
    then show ?thesis using today
      by (auto simp: within_time_scope_def to_retrieved_def Let_def split: option.splits if_splits)
  qed
qed

end
