(* ===== verification/DomainScheduleProperties.thy ===== *)
theory DomainScheduleProperties
  imports DomainSchedule
begin

text \<open>
  What \<open>diff_schedules\<close> reports. \<open>class_matching\<close> says, without the loops of
  \<open>_match_lessons\<close>, which lessons of two schedules count as the same class; the proofs carry
  that contract through the source-id phase and the greedy phase; the theorem says that the
  reported changes are exactly those of such a matching.
\<close>

section \<open>The contract of the matching\<close>

definition same_source :: "lesson \<Rightarrow> lesson \<Rightarrow> bool" where
  "same_source a b \<longleftrightarrow> has_source a \<and> l_source_id a = l_source_id b"

definition similar :: "lesson \<Rightarrow> lesson \<Rightarrow> bool" where
  "similar a b \<longleftrightarrow> (\<exists>s. match_score a b = Some s \<and> 70 \<le> s)"

definition class_matching ::
  "lesson list \<Rightarrow> lesson list \<Rightarrow> (lesson \<times> lesson) list \<Rightarrow> lesson list \<Rightarrow> lesson list \<Rightarrow> bool" where
  "class_matching olds news pairs gone fresh \<longleftrightarrow>
     mset (map fst pairs) + mset gone = mset olds \<and>
     mset (map snd pairs) + mset fresh = mset news \<and>
     (\<forall>(a, b) \<in> set pairs. same_source a b \<or> similar a b) \<and>
     (\<forall>a \<in> set gone. \<forall>b \<in> set fresh. \<not> similar a b) \<and>
     (sources_distinct olds \<longrightarrow> (\<forall>a \<in> set gone. \<forall>b \<in> set news. \<not> same_source a b)) \<and>
     (sources_distinct olds \<and> sources_distinct news \<longrightarrow>
       (\<forall>a \<in> set olds. \<forall>b \<in> set news. same_source a b \<longrightarrow> (a, b) \<in> set pairs))"

text \<open>What the matched and the unmatched lessons call for.\<close>

definition pair_changes :: "lesson \<times> lesson \<Rightarrow> change list" where
  "pair_changes = (\<lambda>(a, b). map (\<lambda>k. \<lparr>ch_kind = k, ch_before = Some a, ch_after = Some b\<rparr>)
     (filter (\<lambda>k. field_differs k a b) [Time, Room, Building, Teacher, Lesson_type, Subject]))"

definition called_for :: "(lesson \<times> lesson) list \<Rightarrow> lesson list \<Rightarrow> lesson list \<Rightarrow> change multiset" where
  "called_for pairs gone fresh =
     mset (concat (map pair_changes pairs))
     + mset (map (\<lambda>l. \<lparr>ch_kind = Cancelled, ch_before = Some l, ch_after = None\<rparr>) gone)
     + mset (map (\<lambda>l. \<lparr>ch_kind = Added, ch_before = None, ch_after = Some l\<rparr>) fresh)"

lemma field_changes_pair: "field_changes p = pair_changes p"
  by (cases p) (simp add: field_changes_def pair_changes_def field_differs_def Let_def)

lemma pair_changes_valid:
  "c \<in> set (pair_changes p) \<Longrightarrow> new_change (ch_kind c) (ch_before c) (ch_after c) = Inr c"
  by (cases p) (auto simp: pair_changes_def new_change_def guard_def py simp del: filter.simps)

lemma called_for_valid:
  assumes "c \<in># called_for pairs gone fresh"
  shows "new_change (ch_kind c) (ch_before c) (ch_after c) = Inr c"
proof -
  consider "c \<in> set (concat (map pair_changes pairs))"
    | l where "c = \<lparr>ch_kind = Cancelled, ch_before = Some l, ch_after = None\<rparr>"
    | l where "c = \<lparr>ch_kind = Added, ch_before = None, ch_after = Some l\<rparr>"
    using assms unfolding called_for_def by auto
  then show ?thesis
  proof cases
    case 1
    then show ?thesis using pair_changes_valid by auto
  qed (simp_all add: new_change_def guard_def py)
qed

section \<open>The phase of the source ids\<close>

lemma remaining_sets:
  assumes "splits n n' (ps, os, ns)"
  shows "distinct os" "set os \<subseteq> {..<n}" "set ns \<subseteq> {..<n'}"
    "\<And>i. i < n \<Longrightarrow> i \<notin> set os \<Longrightarrow> i \<in> fst ` set ps" "\<And>p. p \<in> set ps \<Longrightarrow> fst p < n \<and> snd p < n'"
proof -
  have e: "mset (map fst ps @ os) = mset [0..<n]" "mset (map snd ps @ ns) = mset [0..<n']"
    using assms by (simp_all add: splits_def)
  have d: "distinct (map fst ps @ os)"
    using e(1) by (metis distinct_upt mset_eq_imp_distinct_iff)
  have s: "fst ` set ps \<union> set os = {..<n}" "snd ` set ps \<union> set ns = {..<n'}"
    using mset_eq_setD [OF e(1)] mset_eq_setD [OF e(2)] by (auto simp: atLeast0LessThan)
  show "distinct os" using d by simp
  show "set os \<subseteq> {..<n}" "set ns \<subseteq> {..<n'}" using s by blast+
  show "i \<in> fst ` set ps" if "i < n" "i \<notin> set os" for i using s(1) that by blast
  show "fst p < n \<and> snd p < n'" if "p \<in> set ps" for p using s that by blast
qed

text \<open>
  After the new lessons \<open>done\<close> were looked at: pairs share a source id, and the old lesson
  that carries the source id of a lesson looked at is taken.
\<close>

definition source_inv :: "lesson list \<Rightarrow> lesson list \<Rightarrow> nat set \<Rightarrow> matching \<Rightarrow> bool" where
  "source_inv olds news seen = (\<lambda>(pairs, os, ns).
     (\<forall>(i, j) \<in> set pairs. same_source (olds ! i) (news ! j)) \<and>
     (\<forall>j \<in> seen. \<forall>i. has_source (news ! j) \<and> old_by_source olds (l_source_id (news ! j)) = Some i \<longrightarrow> i \<notin> set os))"

lemma old_by_source_some:
  "old_by_source olds sid = Some i \<Longrightarrow> has_source (olds ! i) \<and> l_source_id (olds ! i) = sid \<and> i < length olds"
  by (auto simp: old_by_source_def dest!: find_Some_set)

lemma source_inv_step:
  assumes "source_inv olds news seen m" and "distinct (fst (snd m))"
  shows "source_inv olds news (insert j seen) (source_step olds news m j)"
proof -
  obtain ps os ns where m: "m = (ps, os, ns)" by (cases m)
  show ?thesis
    using assms
    by (auto simp: m source_inv_def source_step_def take_pair_def Let_def same_source_def
        dest: old_by_source_some split: option.splits if_splits)
qed

lemma source_steps_inv:
  assumes "source_inv olds news seen m" and "distinct (fst (snd m))"
  shows "source_inv olds news (seen \<union> set js) (foldl (source_step olds news) m js)"
  using assms
proof (induction js arbitrary: m seen)
  case (Cons j js)
  have "distinct (fst (snd (source_step olds news m j)))"
    using Cons.prems(2)
    by (cases m) (auto simp: source_step_def take_pair_def Let_def split: option.splits)
  with Cons.IH [OF source_inv_step [OF Cons.prems, of j]] show ?case by simp
qed simp

section \<open>The greedy phase\<close>

definition matched_ok :: "lesson list \<Rightarrow> lesson list \<Rightarrow> matching \<Rightarrow> bool" where
  "matched_ok olds news m \<longleftrightarrow>
     (\<forall>(i, j) \<in> set (fst m). same_source (olds ! i) (news ! j) \<or> similar (olds ! i) (news ! j))"

lemma greedy_steps:
  fixes m :: matching
  assumes "distinct (fst (snd m))" and "distinct (snd (snd m))"
  shows "set (fst m) \<subseteq> set (fst (foldl greedy_step m cs)) \<and>
    set (fst (foldl greedy_step m cs)) \<subseteq> set (fst m) \<union> (\<lambda>c. snd (snd c)) ` set cs \<and>
    set (fst (snd (foldl greedy_step m cs))) \<subseteq> set (fst (snd m)) \<and>
    set (snd (snd (foldl greedy_step m cs))) \<subseteq> set (snd (snd m)) \<and>
    (\<forall>c \<in> set cs. fst (snd (snd c)) \<notin> set (fst (snd (foldl greedy_step m cs))) \<or>
       snd (snd (snd c)) \<notin> set (snd (snd (foldl greedy_step m cs))))"
  using assms
proof (induction cs arbitrary: m)
  case (Cons c cs)
  obtain s p i j where c: "c = (s, p, i, j)" by (cases c)
  obtain ps os ns where m: "m = (ps, os, ns)" by (cases m)
  have "distinct (fst (snd (greedy_step m c)))" "distinct (snd (snd (greedy_step m c)))"
    using Cons.prems by (auto simp: c m take_pair_def)
  note IH = Cons.IH [OF this]
  let ?g = "greedy_step m c" and ?f = "foldl greedy_step (greedy_step m c) cs"
  have g: "set (fst m) \<subseteq> set (fst ?g)" "set (fst ?g) \<subseteq> insert (i, j) (set (fst m))"
    "set (fst (snd ?g)) \<subseteq> set (fst (snd m))" "set (snd (snd ?g)) \<subseteq> set (snd (snd m))"
    "i \<notin> set (fst (snd ?g)) \<or> j \<notin> set (snd (snd ?g))"
    using Cons.prems by (auto simp: c m take_pair_def)
  have "set (fst m) \<subseteq> set (fst ?f)" using IH g(1) by (meson subset_trans)
  moreover have "set (fst ?f) \<subseteq> set (fst m) \<union> (\<lambda>c. snd (snd c)) ` set (c # cs)"
    using conjunct1 [OF conjunct2 [OF IH]] g(2) by (auto simp: c)
  moreover have "set (fst (snd ?f)) \<subseteq> set (fst (snd m))" "set (snd (snd ?f)) \<subseteq> set (snd (snd m))"
    using IH g(3,4) by (meson subset_trans)+
  moreover have "i \<notin> set (fst (snd ?f)) \<or> j \<notin> set (snd (snd ?f))"
    using conjunct1 [OF conjunct2 [OF conjunct2 [OF IH]]] conjunct1 [OF conjunct2 [OF conjunct2 [OF conjunct2 [OF IH]]]] g(5)
    by blast
  moreover have "\<forall>c \<in> set cs. fst (snd (snd c)) \<notin> set (fst (snd ?f)) \<or> snd (snd (snd c)) \<notin> set (snd (snd ?f))"
    using IH by (elim conjE)
  ultimately show ?case by (simp add: c)
qed simp

lemma candidate_similar:
  assumes "c \<in> set (candidates olds news os ns)"
  shows "similar (olds ! fst (snd (snd c))) (news ! snd (snd (snd c)))"
  using assms by (auto simp: candidates_def similar_def split: option.splits if_splits dest: sym)

lemma similar_candidate:
  assumes "similar (olds ! i) (news ! j)" and "i \<in> set os" and "j \<in> set ns"
  shows "\<exists>c \<in> set (candidates olds news os ns). snd (snd c) = (i, j)"
  using assms by (force simp: candidates_def similar_def split: option.splits)

section \<open>Both phases\<close>

lemma match_indices_ok:
  assumes "match_indices olds news = (ps, os, ns)"
  shows "splits (length olds) (length news) (ps, os, ns)"
    "\<And>i j. (i, j) \<in> set ps \<Longrightarrow> same_source (olds ! i) (news ! j) \<or> similar (olds ! i) (news ! j)"
    "\<And>i j. i \<in> set os \<Longrightarrow> j \<in> set ns \<Longrightarrow> \<not> similar (olds ! i) (news ! j)"
    "\<And>i j. j < length news \<Longrightarrow> has_source (news ! j) \<Longrightarrow>
       old_by_source olds (l_source_id (news ! j)) = Some i \<Longrightarrow>
       \<exists>j'. (i, j') \<in> set ps \<and> same_source (olds ! i) (news ! j') \<and> i \<notin> set os"
proof -
  obtain ps1 os1 ns1 where m1:
      "foldl (source_step olds news) ([], [0..<length olds], [0..<length news]) [0..<length news] = (ps1, os1, ns1)"
    by (metis prod_cases3)
  have inv: "source_inv olds news {..<length news} (ps1, os1, ns1)"
    using source_steps_inv [of olds news "{}" "([], [0..<length olds], [0..<length news])" "[0..<length news]"]
    by (simp add: m1 source_inv_def atLeast0LessThan)
  have sp1: "splits (length olds) (length news) (ps1, os1, ns1)"
    unfolding m1 [symmetric] by (rule source_phase) (simp_all add: splits_def)
  show sp: "splits (length olds) (length news) (ps, os, ns)"
    using match_indices_splits [of olds news] assms by simp
  note r1 = remaining_sets [OF sp1]
  have d: "distinct os1" "distinct ns1"
    using r1(1) sp1 mset_eq_imp_distinct_iff [of "map snd ps1 @ ns1" "[0..<length news]"]
    by (auto simp: splits_def)
  let ?cs = "rev (sort (candidates olds news os1 ns1))"
  have fin: "foldl greedy_step (ps1, os1, ns1) ?cs = (ps, os, ns)"
    using assms by (simp add: match_indices_def Let_def m1)
  have g: "set ps1 \<subseteq> set ps" "set ps \<subseteq> set ps1 \<union> (\<lambda>c. snd (snd c)) ` set ?cs" "set os \<subseteq> set os1"
      "set ns \<subseteq> set ns1"
      "\<And>c. c \<in> set ?cs \<Longrightarrow> fst (snd (snd c)) \<notin> set os \<or> snd (snd (snd c)) \<notin> set ns"
    using greedy_steps [of "(ps1, os1, ns1)" ?cs] d unfolding fin by simp_all
  show "same_source (olds ! i) (news ! j) \<or> similar (olds ! i) (news ! j)" if "(i, j) \<in> set ps" for i j
  proof (cases "(i, j) \<in> set ps1")
    case True
    then show ?thesis using inv by (auto simp: source_inv_def)
  next
    case False
    then have "(i, j) \<in> (\<lambda>c. snd (snd c)) ` set (candidates olds news os1 ns1)" using g(2) that by auto
    then obtain c where "c \<in> set (candidates olds news os1 ns1)" "snd (snd c) = (i, j)" by auto
    then show ?thesis using candidate_similar [of c olds news os1 ns1] by simp
  qed
  show "\<not> similar (olds ! i) (news ! j)" if "i \<in> set os" "j \<in> set ns" for i j
    using similar_candidate [of olds i news j os1 ns1] g(3,4) g(5) that by fastforce
  show "\<exists>j'. (i, j') \<in> set ps \<and> same_source (olds ! i) (news ! j') \<and> i \<notin> set os"
    if "j < length news" "has_source (news ! j)" "old_by_source olds (l_source_id (news ! j)) = Some i" for i j
  proof -
    have "i \<notin> set os1" "i < length olds"
      using inv that old_by_source_some [OF that(3)] by (auto simp: source_inv_def)
    then obtain j' where "(i, j') \<in> set ps1" using r1(4) by force
    then show ?thesis using inv g(1,3) \<open>i \<notin> set os1\<close> by (auto simp: source_inv_def)
  qed
qed

lemma sources_distinct_nth:
  assumes "sources_distinct ls" and "i < length ls" and "j < length ls"
    and "has_source (ls ! i)" and "l_source_id (ls ! i) = l_source_id (ls ! j)"
  shows "i = j"
  using assms distinct_filter_nth [of l_source_id has_source ls i j]
  by (auto simp: sources_distinct_def has_source_def)

lemma match_lessons_matching:
  assumes "match_lessons olds news = (pairs, gone, fresh)"
  shows "class_matching olds news pairs gone fresh"
proof -
  obtain ps os ns where m: "match_indices olds news = (ps, os, ns)" by (metis prod_cases3)
  note ok = match_indices_ok [OF m]
  note r = remaining_sets [OF ok(1)]
  have p: "pairs = map (\<lambda>(i, j). (olds ! i, news ! j)) ps" "gone = map ((!) olds) (sort os)"
      "fresh = map ((!) news) (sort ns)"
    using assms m by (auto simp: match_lessons_def)
  have found: "\<exists>j'. (i, j') \<in> set ps \<and> same_source (olds ! i) (news ! j') \<and> i \<notin> set os"
    if "sources_distinct olds" "i < length olds" "j < length news" "same_source (olds ! i) (news ! j)" for i j
    using ok(4) [of j i] old_by_source_self [OF that(1,2)] that
    by (auto simp: same_source_def has_source_def)
  have left: "\<not> same_source a b" if d: "sources_distinct olds" and a: "a \<in> set gone" and b: "b \<in> set news" for a b
  proof
    assume same: "same_source a b"
    obtain i where i: "i \<in> set os" "a = olds ! i" using a by (auto simp: p)
    obtain j where j: "j < length news" "b = news ! j" using b by (auto simp: in_set_conv_nth)
    show False using found [of i j] d same i j r(2) by auto
  qed
  have both: "(a, b) \<in> set pairs"
    if d: "sources_distinct olds" "sources_distinct news" and a: "a \<in> set olds" and b: "b \<in> set news"
      and same: "same_source a b" for a b
  proof -
    obtain i where i: "i < length olds" "a = olds ! i" using a by (auto simp: in_set_conv_nth)
    obtain j where j: "j < length news" "b = news ! j" using b by (auto simp: in_set_conv_nth)
    obtain j' where j': "(i, j') \<in> set ps" "same_source (olds ! i) (news ! j')"
      using found [of i j] d same i j by auto
    have "j' = j"
      using sources_distinct_nth [OF d(2), of j' j] r(5) [OF j'(1)] j'(2) j i same
      by (auto simp: same_source_def has_source_def)
    then show ?thesis using j'(1) i j by (force simp: p)
  qed
  have "\<not> similar a b" if "a \<in> set gone" "b \<in> set fresh" for a b
    using that ok(3) by (auto simp: p)
  moreover have "\<forall>(a, b) \<in> set pairs. same_source a b \<or> similar a b"
    using ok(2) unfolding p by fastforce
  ultimately show ?thesis
    unfolding class_matching_def using match_lessons_mset [OF assms] left both by simp
qed

section \<open>Properties\<close>

text \<open>
  C26: The changes reported between two schedules are exactly those of a matching of their
  classes. The matching splits both sides with multiplicity; every matched pair shares a
  source id or scores at least 70 for similarity; no lesson reported as cancelled is similar
  to one reported as added; a lesson that keeps its source id is never reported as cancelled
  when the old source ids are distinct, and is matched to itself when the new ones are
  distinct too. The report holds, in the order of day, start, subject and kind, one change for
  every field in which a matched pair differs, one cancellation for every unmatched old lesson
  and one addition for every unmatched new one, with multiplicity, and nothing else; each
  entry passes the check of the constructor of a change.
\<close>

theorem diff_changes_genuine:
  assumes "diff_schedules prev cur = Inr changes"
  shows "(\<exists>pairs gone fresh.
        class_matching (sn_lessons prev) (sn_lessons cur) pairs gone fresh \<and>
        mset changes = called_for pairs gone fresh) \<and>
      sorted (map change_sort_key changes) \<and>
      (\<forall>c \<in> set changes. new_change (ch_kind c) (ch_before c) (ch_after c) = Inr c)"
proof -
  obtain pairs gone fresh where m: "match_lessons (sn_lessons prev) (sn_lessons cur) = (pairs, gone, fresh)"
    by (metis prod_cases3)
  have fc: "field_changes = pair_changes" by (rule ext) (rule field_changes_pair)
  have c: "mset changes = called_for pairs gone fresh"
    using assms m by (auto simp: diff_schedules_def called_for_def guard_def py fc split: if_splits)
  have "sorted (map change_sort_key changes)"
    using assms m by (auto simp: diff_schedules_def guard_def py split: if_splits)
  moreover have "new_change (ch_kind x) (ch_before x) (ch_after x) = Inr x" if "x \<in> set changes" for x
    using called_for_valid c that by (metis set_mset_mset)
  ultimately show ?thesis using match_lessons_matching [OF m] c by blast
qed

theorem diff_changes_genuine_witness:
  "\<exists>pairs gone fresh. class_matching [demo_lesson] [demo_moved] pairs gone fresh \<and>
     called_for pairs gone fresh =
       {#\<lparr>ch_kind = Time, ch_before = Some demo_lesson, ch_after = Some demo_moved\<rparr>#}"
  using conjunct1 [OF diff_changes_genuine [OF demo_diff]] by (simp add: demo_snapshot_def) metis

end
