(* ===== verification/Spec2Isabelle.thy ===== *)
theory Spec2Isabelle
  imports QueueProperties Attendance CiEnvelopeProperties CiDigestProperties ICalProperties
    Coordinator Materials Assistant Health
    SenderProperties ApplicationJobsProperties LiveArchiveProperties
    MaterialAutomationProperties HandOver ImportReconciliation AssistantStoreProperties
    DomainScheduleProperties
begin

text \<open>
  Verification of the SZS hub bot, the Telegram bot of one university study group
  (\<open>src/src/szs_hub\<close>, Python).

  The program.  One process polls Telegram, stores every update durably and dispatches it; it keeps the
  archive of the group's messages, the roster, attendance by reactions, the confirmed timetable and the
  useful materials, and answers the members' private questions from the archive.  Everything that leaves
  it goes through two durable queues: a job does the work and writes an outbox row, a worker hands the row
  to a sender that authorises it again before any call.  A second, hosted runtime publishes the timetable
  from scheduled CI jobs: one job builds a two-week envelope from the public page, the other compares it
  with the one delivered last, edits one pinned card and sends notices and reminders.

  Conventions.  A Python string is a list of code points (\<open>pystr\<close>, literals \<open>u ''abc''\<close>); Python's
  integers are \<open>int\<close>; floats are exact rationals except where rounding decides (the lesson matcher and the
  material score round to binary64); dates are ordinals, times and durations microseconds, an \<open>instant\<close>
  microseconds since 1970-01-01 UTC and a \<open>pydt\<close> a wall-clock reading with an optional offset.  A raise or
  an early return is \<open>Inl\<close> of a datatype of errors; where a step commits before a later one raises, the
  result is the state with the outcome.  A table is the list of its rows, a transaction a function on the
  tables that returns them unchanged when it raises.  Arguments stand for what is outside the source: the
  readings of the clock, the time zone as offsets, the network, the file system, \<open>json\<close>, NFKC, the stemmer
  and the events of \<open>HTMLParser\<close>.

  Foundations.  \<open>Prelude\<close> has the strings, errors, instants, the SQL statements \<open>UPDATE\<close>, \<open>INSERT\<close>,
  \<open>ORDER BY .. LIMIT\<close> on rows with their laws (\<open>upd_where\<close>, \<open>next_id\<close>, \<open>first_by\<close>, \<open>keyed\<close>) and the
  collections \<open>py\<close> and \<open>sql\<close>; \<open>Unicode\<close> the tables that \<open>strip\<close>, \<open>casefold\<close> and \<open>\w\<close> read; \<open>Text\<close> the HTML
  escapes and dates as text; \<open>Calendar\<close> ISO dates and datetimes and back; \<open>Json\<close> parsed JSON; \<open>Sha256\<close> the
  hash on 32-bit words and UTF-8; \<open>Difflib\<close> the ratio of \<open>SequenceMatcher\<close> and binary64 rounding.

  Durable queues (\<open>jobs/queue.py\<close>, \<open>jobs/worker.py\<close>).  \<open>QueueCommon\<close> holds what both queues share and the
  locale \<open>leased_queue\<close>: a system whose rows move like leased attempts; its theorems say that an
  attempt is issued once, counted once and fenced.  \<open>JobQueue\<close> and \<open>OutboxQueue\<close> translate the two classes
  and interpret the locale on their step relations; \<open>Workers\<close> is one pass of each worker.
  \<open>QueueProperties\<close> draws the consequences for reachable tables and any interleaving of holders, and states
  on a board of jobs, each of which is waiting, running, succeeded, dead or cancelled, what one pass of
  the worker has to do for every outcome of the handler.

  People.  \<open>Roster\<close> (\<open>telegram/access.py\<close>, \<open>membership.py\<close>, \<open>membership_store.py\<close>): fail-closed access and
  the roster, where the newest update wins.  \<open>Attendance\<close> (\<open>domain/attendance.py\<close>,
  \<open>attendance/service.py\<close>): one reaction, one mark; a closed session is final.

  Timetable.  \<open>DomainSchedule\<close> (\<open>domain/schedule.py\<close>): lessons, content hash, matching and changes;
  \<open>DomainScheduleProperties\<close>: every change that is reported comes from the matching.
  \<open>SpbGasu\<close>, \<open>SpbGasuProperties\<close> (\<open>schedule/spbgasu.py\<close>): parsing the public page, one concrete week, the
  client with its retries, the errors of the HTTP library that it does not catch included.  \<open>ScheduleService\<close>, \<open>ScheduleServiceProperties\<close> (\<open>schedule/service.py\<close>): the
  stored versions and markers; a failed check loses nothing.  \<open>Coordinator\<close>
  (\<open>schedule/coordinator.py\<close> and the views of \<open>telegram/handlers.py\<close>).  \<open>Presentation\<close>
  (\<open>subjects.py\<close>, \<open>typography.py\<close>, \<open>render.py\<close>, \<open>ui.py\<close>): cards and texts.  \<open>ICal\<close>, \<open>ICalProperties\<close>
  (\<open>schedule/calendar.py\<close>): the feed, and a reader that unfolds it.

  Hosted delivery.  \<open>CiEnvelope\<close>, \<open>CiCards\<close>, \<open>CiDigest\<close> with \<open>CiEnvelopeProperties\<close> and
  \<open>CiDigestProperties\<close> (\<open>schedule/ci.py\<close>, \<open>weekend_plan.py\<close>): the envelope and its JSON, the delivery
  state, digests, reminders.  \<open>Publisher\<close> and \<open>BotApi\<close> (\<open>publisher.py\<close>): the two jobs over any
  destination, and the Bot API over HTTP; the disk answers every write of the state file, which may be
  refused or cut short.  \<open>PublisherProperties\<close> has triples with an exceptional
  postcondition and the locale \<open>card_destination\<close> - the laws of a destination that keeps one card -
  interpreted on the Bot API for every server: the baseline moves only after what it announces was
  delivered, a new card appears only when the old one is gone.  \<open>CiEnvelopeDecoding\<close>: whatever the decoder
  accepts is clean.  \<open>HostedRuns\<close> has any sequence of runs of both jobs, with failures, and the reminder
  that is not repeated by the next hundred.  \<open>HandOver\<close> follows a timetable from the parser through the
  envelope and the decoder into the publisher, texts beyond the limits of the decoder included.

  Archive.  \<open>LiveArchive\<close>, \<open>LiveArchiveProperties\<close> (\<open>archive/live.py\<close>, \<open>archive/indexing.py\<close>): one message
  with its sender, topic, album, files and search document; the newest version stays whatever the order of
  arrival.  \<open>ExportPlan\<close> (\<open>archive/telegram_desktop.py\<close>), \<open>ArchiveImport\<close>, \<open>ArchiveImportProperties\<close>,
  \<open>ImportReconciliation\<close> (\<open>archive/importer.py\<close>): the plan of an export, the import in committed batches
  that may stop at any point and resume, and the reconciliation it then passes.

  Materials.  \<open>Materials\<close> (\<open>domain/materials.py\<close>): the classifier over a small matcher of its regular
  expressions, and the copy workflow as a step relation.  \<open>MaterialAutomation\<close>,
  \<open>MaterialAutomationProperties\<close> (\<open>materials/automation.py\<close>): assessment, storage and the copy envelope;
  no message is copied twice.

  Assistant.  \<open>Assistant\<close> (\<open>ai/provider.py\<close>, \<open>assistant/service.py\<close>, \<open>search/text.py\<close>): retries, context,
  answer and query.  \<open>AssistantStore\<close>, \<open>AssistantStoreProperties\<close> (\<open>assistant/conversation.py\<close>,
  \<open>assistant/retriever.py\<close>, \<open>storage/fts.py\<close>): conversations and retrieval.  \<open>AiQuota\<close> (\<open>ai/quota.py\<close>):
  budgets that are exceeded by no more than what the settlements metered above their reservations.

  Delivery and operation.  \<open>Inbox\<close> (\<open>storage/inbox.py\<close>, \<open>telegram/runtime.py\<close>): updates stored before the
  offset moves, and the pump as a step relation.  \<open>TelegramSender\<close>, \<open>ApplicationSender\<close>,
  \<open>SenderProperties\<close> (\<open>telegram/sender.py\<close>, \<open>application_sender.py\<close>): the calls, the two authorisations
  and what was already done.  \<open>ApplicationJobs\<close>, \<open>ApplicationJobsProperties\<close> (\<open>jobs/application.py\<close>): the
  job handlers, which write only what the sender lets through.  \<open>Retention\<close> (\<open>retention.py\<close>), \<open>Health\<close>
  (\<open>health.py\<close>, \<open>alerting.py\<close>).

  Bounds.  No definition uses fuel: every loop of the source that is modelled ends, by structural
  recursion or by a measure (the attempts left in \<open>request_group\<close>, \<open>request_page\<close> and \<open>chat_attempts\<close>, the
  remaining text in \<open>sub_all\<close> and \<open>rx_match\<close>, the remaining items in \<open>chunks\<close>).  The endless polling loops
  are modelled by one pass and, for the queues and the pump, by every finite sequence of steps.

  Not modelled.  The parsers of uploaded files, SQLite's full-text index, engine creation and
  migrations, the command line and process wiring, the backup, the personal sender's
  child process and constant texts: pure input and output, or libraries.  Of the Telegram handlers only
  the schedule views are modelled.  Two transactions never overlap: SQLite serialises writers.
\<close>

end
